(* ===== verification/Prelude.thy ===== *)
theory Prelude
  imports Main "HOL-Library.AList" "HOL-Library.Char_ord" "HOL-Library.List_Lexorder"
begin

text \<open>
  Shared vocabulary of the development: Python values, exceptions as values of a sum type,
  Python's string methods, ordered dictionaries, and the lemma collections the component
  theories use.

  A Python string is a HOL string, a list of the 256 Latin-1 code points: the identifiers,
  keys, slugs and headers the modelled code handles are all tested against ASCII classes, so
  a code point above 255 behaves like any other non-ASCII one.  A dictionary is an
  association list in insertion order (\<open>AList.update\<close> keeps the place of a key that is
  present and appends a new one, as Python does).  A function that may raise returns
  \<open>exn + 'a\<close>, with the exception on the left.
\<close>

named_theorems res_simps \<open>unfolding of the result monad\<close>
named_theorems str_simps \<open>facts on the string methods\<close>

section \<open>Values\<close>

datatype pyval =
    VNone
  | VBool bool
  | VInt int
  | VStr string
  | VUuid nat
  | VList "pyval list"
  | VTuple "pyval list"
  | VDict "(string \<times> pyval) list"
  | VDateTime string
  | VObj string string

text \<open>\<open>VDateTime s\<close> is a \<open>datetime\<close> with its \<open>isoformat()\<close>.  \<open>VObj cls s\<close> is a value of any other class (a date, a decimal, an enum member, a float),
  with the name of its class and what \<open>str()\<close> returns on it.\<close>

fun type_name :: "pyval \<Rightarrow> string" where
  "type_name VNone = ''NoneType''"
| "type_name (VBool _) = ''bool''"
| "type_name (VInt _) = ''int''"
| "type_name (VStr _) = ''str''"
| "type_name (VUuid _) = ''UUID''"
| "type_name (VList _) = ''list''"
| "type_name (VTuple _) = ''tuple''"
| "type_name (VDict _) = ''dict''"
| "type_name (VDateTime _) = ''datetime''"
| "type_name (VObj c _) = c"

text \<open>Python truth of a value.\<close>

fun truthy :: "pyval \<Rightarrow> bool" where
  "truthy VNone = False"
| "truthy (VBool b) = b"
| "truthy (VInt i) = (i \<noteq> 0)"
| "truthy (VStr s) = (s \<noteq> [])"
| "truthy (VUuid _) = True"
| "truthy (VList xs) = (xs \<noteq> [])"
| "truthy (VTuple xs) = (xs \<noteq> [])"
| "truthy (VDict d) = (d \<noteq> [])"
| "truthy (VDateTime _) = True"
| "truthy (VObj _ _) = True"

fun is_VStr :: "pyval \<Rightarrow> bool" where
  "is_VStr (VStr _) = True"
| "is_VStr _ = False"

fun is_VDict :: "pyval \<Rightarrow> bool" where
  "is_VDict (VDict _) = True"
| "is_VDict _ = False"

section \<open>Exceptions and results\<close>

datatype exc_class =
    ValueError
  | TypeError
  | RuntimeError
  | KeyError
  | LookupError
  | PermissionError
  | ValidationError
  | InvalidResourceNameError
  | InvalidActionNameError
  | InvalidTenantSlugError
  | InvalidSchemaNameError
  | InvalidPermissionKeyError
  | RegistryFrozenError
  | OtherExc string

text \<open>The classes an \<open>except\<close> clause names to catch an exception of class \<open>c\<close>: its own and
  its bases, as the source declares them.\<close>

fun mro :: "exc_class \<Rightarrow> exc_class list" where
  "mro ValidationError = [ValidationError, ValueError]"
| "mro InvalidResourceNameError = [InvalidResourceNameError, ValidationError, ValueError]"
| "mro InvalidActionNameError = [InvalidActionNameError, ValidationError, ValueError]"
| "mro InvalidTenantSlugError = [InvalidTenantSlugError, ValidationError, ValueError]"
| "mro InvalidSchemaNameError = [InvalidSchemaNameError, ValidationError, ValueError]"
| "mro InvalidPermissionKeyError = [InvalidPermissionKeyError, ValidationError, ValueError]"
| "mro RegistryFrozenError = [RegistryFrozenError, OtherExc ''ExtensionError'']"
| "mro KeyError = [KeyError, LookupError]"
| "mro c = [c]"

datatype exn =
    HTTPExc nat pyval "(string \<times> string) list"
  | PyExc exc_class string

text \<open>\<open>HTTPExc status detail headers\<close> is FastAPI's \<open>HTTPException\<close>; every other exception is
  its class and message.\<close>

abbreviation http :: "nat \<Rightarrow> string \<Rightarrow> exn" where
  "http st msg \<equiv> HTTPExc st (VStr msg) []"

fun catches :: "exc_class \<Rightarrow> exn \<Rightarrow> bool" where
  "catches c (PyExc d _) = (c \<in> set (mro d))"
| "catches c (HTTPExc _ _ _) = False"

type_synonym 'a res = "exn + 'a"

definition rbind :: "'e + 'a \<Rightarrow> ('a \<Rightarrow> 'e + 'b) \<Rightarrow> 'e + 'b" where
  "rbind m f = (case m of Inl e \<Rightarrow> Inl e | Inr x \<Rightarrow> f x)"

definition guard :: "bool \<Rightarrow> 'e \<Rightarrow> 'e + unit" where
  "guard b e = (if b then Inr () else Inl e)"

lemma rbind_simps [simp]:
  "rbind (Inl e) f = Inl e"
  "rbind (Inr x) f = f x"
  by (simp_all add: rbind_def)

lemma rbind_Inr_iff [res_simps]: "rbind m f = Inr y \<longleftrightarrow> (\<exists>x. m = Inr x \<and> f x = Inr y)"
  by (cases m) auto

lemma rbind_Inl_iff [res_simps]:
  "rbind m f = Inl e \<longleftrightarrow> m = Inl e \<or> (\<exists>x. m = Inr x \<and> f x = Inl e)"
  by (cases m) auto

lemma rbind_assoc: "rbind (rbind m f) g = rbind m (\<lambda>x. rbind (f x) g)"
  by (cases m) auto

lemma guard_simps [simp]:
  "guard True e = Inr ()"
  "guard False e = Inl e"
  by (simp_all add: guard_def)

lemma guard_Inr_iff [res_simps]: "guard b e = Inr u \<longleftrightarrow> b"
  by (simp add: guard_def)

lemma guard_Inl_iff [res_simps]: "guard b e = Inl e' \<longleftrightarrow> \<not> b \<and> e' = e"
  by (auto simp: guard_def)

fun isr :: "'e + 'a \<Rightarrow> bool" where
  "isr (Inr _) = True"
| "isr (Inl _) = False"

lemma isr_iff: "isr r \<longleftrightarrow> (\<exists>x. r = Inr x)"
  by (cases r) auto

text \<open>\<open>[f(x) for x in xs]\<close> where \<open>f\<close> may raise: the first exception wins.\<close>

fun mapM :: "('a \<Rightarrow> 'e + 'b) \<Rightarrow> 'a list \<Rightarrow> 'e + 'b list" where
  "mapM f [] = Inr []"
| "mapM f (x # xs) = rbind (f x) (\<lambda>y. rbind (mapM f xs) (\<lambda>ys. Inr (y # ys)))"

lemma mapM_Inr_length: "mapM f xs = Inr ys \<Longrightarrow> length ys = length xs"
  by (induction xs arbitrary: ys) (auto simp: res_simps)

lemma mapM_Inr_nth:
  "mapM f xs = Inr ys \<Longrightarrow> i < length xs \<Longrightarrow> f (xs ! i) = Inr (ys ! i)"
proof (induction xs arbitrary: ys i)
  case (Cons x xs)
  then show ?case by (cases i) (auto simp: res_simps)
qed simp

lemma mapM_Inr_set: "mapM f xs = Inr ys \<Longrightarrow> y \<in> set ys \<Longrightarrow> \<exists>x \<in> set xs. f x = Inr y"
  by (induction xs arbitrary: ys) (auto simp: res_simps)

lemma mapM_all_Inr: "(\<And>x. x \<in> set xs \<Longrightarrow> f x = Inr (g x)) \<Longrightarrow> mapM f xs = Inr (map g xs)"
  by (induction xs) auto

section \<open>State with exceptions\<close>

type_synonym ('s, 'a) proc = "'s \<Rightarrow> (exn + 'a) \<times> 's"

definition sbind :: "('s, 'a) proc \<Rightarrow> ('a \<Rightarrow> ('s, 'b) proc) \<Rightarrow> ('s, 'b) proc" where
  "sbind m f = (\<lambda>s. case m s of (Inl e, s') \<Rightarrow> (Inl e, s') | (Inr x, s') \<Rightarrow> f x s')"

definition ret :: "'a \<Rightarrow> ('s, 'a) proc" where
  "ret x = (\<lambda>s. (Inr x, s))"

definition throw :: "exn \<Rightarrow> ('s, 'a) proc" where
  "throw e = (\<lambda>s. (Inl e, s))"

definition lift_res :: "exn + 'a \<Rightarrow> ('s, 'a) proc" where
  "lift_res r = (\<lambda>s. (r, s))"

definition gets :: "('s \<Rightarrow> 'a) \<Rightarrow> ('s, 'a) proc" where
  "gets f = (\<lambda>s. (Inr (f s), s))"

definition modify :: "('s \<Rightarrow> 's) \<Rightarrow> ('s, unit) proc" where
  "modify f = (\<lambda>s. (Inr (), f s))"

lemma sbind_app:
  "sbind m f s = (case m s of (Inl e, s') \<Rightarrow> (Inl e, s') | (Inr x, s') \<Rightarrow> f x s')"
  by (simp add: sbind_def)

lemma proc_simps:
  "ret x1 s1 = (Inr x1, s1)"
  "throw e2 s2 = (Inl e2, s2)"
  "lift_res r3 s3 = (r3, s3)"
  "gets f4 s4 = (Inr (f4 s4), s4)"
  "modify g5 s5 = (Inr (), g5 s5)"
  by (simp_all add: ret_def throw_def lift_res_def gets_def modify_def)

lemma run_eq_simps [simp]:
  "ret x1 s1 = (r1, t1) \<longleftrightarrow> r1 = Inr x1 \<and> t1 = s1"
  "throw e2 s2 = (r2, t2) \<longleftrightarrow> r2 = Inl e2 \<and> t2 = s2"
  "lift_res q3 s3 = (r3, t3) \<longleftrightarrow> r3 = q3 \<and> t3 = s3"
  "gets f4 s4 = (r4, t4) \<longleftrightarrow> r4 = Inr (f4 s4) \<and> t4 = s4"
  "modify g5 s5 = (r5, t5) \<longleftrightarrow> r5 = Inr () \<and> t5 = g5 s5"
  by (auto simp: proc_simps)

lemma run_simps [simp]:
  "fst (ret x1 s1) = Inr x1" "snd (ret x1 s1) = s1"
  "fst (throw e2 s2) = Inl e2" "snd (throw e2 s2) = s2"
  "fst (lift_res q3 s3) = q3" "snd (lift_res q3 s3) = s3"
  "fst (gets f4 s4) = Inr (f4 s4)" "snd (gets f4 s4) = s4"
  "fst (modify g5 s5) = Inr ()" "snd (modify g5 s5) = g5 s5"
  by (auto simp: proc_simps)

lemma lift_res_Inr: "lift_res r s = (Inr x, s') \<longleftrightarrow> r = Inr x \<and> s' = s"
  by auto

lemma sbind_simps [simp]:
  "sbind (ret x1) f1 = f1 x1"
  "sbind (throw e2) f2 = throw e2"
  "sbind (lift_res (Inr x3)) f3 = f3 x3"
  "sbind (lift_res (Inl e4)) f4 = throw e4"
  by (auto simp: sbind_def ret_def throw_def lift_res_def)

lemma sbind_guard [simp]:
  "sbind (lift_res (guard b e)) f = (if b then f () else throw e)"
  by (simp add: guard_def)

lemma sbind_Inr_iff [res_simps]:
  "sbind m f s = (Inr y, s'') \<longleftrightarrow> (\<exists>x s'. m s = (Inr x, s') \<and> f x s' = (Inr y, s''))"
  by (auto simp: sbind_def split: prod.splits sum.splits)

lemma sbind_Inl_iff [res_simps]:
  "sbind m f s = (Inl e, s'') \<longleftrightarrow>
     m s = (Inl e, s'') \<or> (\<exists>x s'. m s = (Inr x, s') \<and> f x s' = (Inl e, s''))"
  by (auto simp: sbind_def split: prod.splits sum.splits)

lemma sbind_assoc: "sbind (sbind m f) g = sbind m (\<lambda>x. sbind (f x) g)"
  by (auto simp: sbind_def fun_eq_iff split: prod.splits sum.splits)

section \<open>Dictionaries\<close>

lemma set_update_subset: "set (AList.update k v xs) \<subseteq> insert (k, v) (set xs)"
  by (induction xs) auto

end
