(* ===== verification/Validation.thy ===== *)
theory Validation
  imports Strings
begin

text \<open>
  \<open>src/asterion/security/validation.py\<close>: the identifier validators every system boundary
  calls, and the clamping of a pagination pair.  A validator takes any value, so that the
  check on its type is a branch of the model, and returns the accepted string or the
  exception with the message the source builds.
\<close>

definition MAX_PAGE_LIMIT :: int where "MAX_PAGE_LIMIT = 500"
definition DEFAULT_PAGE_LIMIT :: int where "DEFAULT_PAGE_LIMIT = 100"

text \<open>The regular expressions \<open>^[a-z][<tail>]{lo,hi}$\<close>, matched with \<open>fullmatch\<close>.\<close>

fun ident_shape :: "(char \<Rightarrow> bool) \<Rightarrow> nat \<Rightarrow> nat \<Rightarrow> string \<Rightarrow> bool" where
  "ident_shape ok lo hi [] = False"
| "ident_shape ok lo hi (c # cs) =
    (is_lower c \<and> list_all ok cs \<and> lo \<le> length cs \<and> length cs \<le> hi)"

definition word_char :: "char \<Rightarrow> bool" where
  "word_char c = (is_lower c \<or> is_digit c \<or> c = CHR ''_'')"

definition slug_char :: "char \<Rightarrow> bool" where
  "slug_char c = (is_lower c \<or> is_digit c \<or> c = CHR ''-'')"

definition key_char :: "char \<Rightarrow> bool" where
  "key_char c = (word_char c \<or> c = CHR ''-'')"

definition resource_re :: "string \<Rightarrow> bool" where "resource_re = ident_shape key_char 0 62"
definition action_re :: "string \<Rightarrow> bool" where "action_re = ident_shape word_char 0 62"
definition tenant_slug_re :: "string \<Rightarrow> bool" where "tenant_slug_re = ident_shape slug_char 1 62"
definition schema_name_re :: "string \<Rightarrow> bool" where "schema_name_re = ident_shape word_char 0 62"
definition namespace_re :: "string \<Rightarrow> bool" where "namespace_re = ident_shape word_char 0 62"
definition permission_segment_re :: "string \<Rightarrow> bool" where
  "permission_segment_re = ident_shape key_char 0 62"

definition RESERVED_SCHEMA_NAMES :: "string list" where
  "RESERVED_SCHEMA_NAMES = [''public'', ''information_schema'', ''pg_catalog'', ''pg_toast'']"

definition require_str :: "pyval \<Rightarrow> string \<Rightarrow> string res" where
  "require_str value name = (case value of
     VStr s \<Rightarrow> Inr s
   | _ \<Rightarrow> Inl (PyExc ValidationError (name @ '' must be a string, got '' @ type_name value)))"

definition validate_resource_name :: "pyval \<Rightarrow> string res" where
  "validate_resource_name v = rbind (require_str v ''resource name'') (\<lambda>value.
     if \<not> resource_re value
     then Inl (PyExc InvalidResourceNameError (''Invalid resource name: '' @ repr_str value
       @ ''. Must start with a lowercase letter and contain only ''
       @ ''lowercase letters, digits, hyphens or underscores (max length 63).''))
     else Inr value)"

definition validate_action_name :: "pyval \<Rightarrow> string res" where
  "validate_action_name v = rbind (require_str v ''action name'') (\<lambda>value.
     if \<not> action_re value
     then Inl (PyExc InvalidActionNameError (''Invalid action name: '' @ repr_str value
       @ ''. Must start with a lowercase letter and contain only ''
       @ ''lowercase letters, digits or underscores (max length 63).''))
     else Inr value)"

definition validate_tenant_slug :: "pyval \<Rightarrow> string res" where
  "validate_tenant_slug v = rbind (require_str v ''tenant slug'') (\<lambda>raw.
     let value = lower (strip raw) in
     if \<not> tenant_slug_re value
     then Inl (PyExc InvalidTenantSlugError (''Invalid tenant slug: '' @ repr_str value
       @ ''. Must start with a lowercase letter and contain only ''
       @ ''lowercase letters, digits or hyphens (length 2-63).''))
     else Inr value)"

definition validate_schema_name :: "pyval \<Rightarrow> string res" where
  "validate_schema_name v = rbind (require_str v ''schema name'') (\<lambda>value.
     if value \<in> set RESERVED_SCHEMA_NAMES
     then Inl (PyExc InvalidSchemaNameError (''Reserved schema name: '' @ repr_str value))
     else if startswith value ''pg_''
     then Inl (PyExc InvalidSchemaNameError
       (''Schema names starting with '' @ [quote] @ ''pg_'' @ [quote] @ '' are reserved.''))
     else if \<not> schema_name_re value
     then Inl (PyExc InvalidSchemaNameError (''Invalid schema name: '' @ repr_str value
       @ ''. Must start with a lowercase letter and contain only ''
       @ ''lowercase letters, digits or underscores (max length 63).''))
     else Inr value)"

abbreviation invalid_key :: "string \<Rightarrow> string res" where
  "invalid_key msg \<equiv> Inl (PyExc InvalidPermissionKeyError msg)"

definition validate_permission_key :: "pyval \<Rightarrow> string res" where
  "validate_permission_key v = rbind (require_str v ''permission key'') (\<lambda>value.
     if value = [] then invalid_key ''Permission key must not be empty.''
     else let segments = split_on CHR ''.'' value in
     if length segments \<notin> {2, 3}
     then invalid_key (''Invalid permission key: '' @ repr_str value
       @ ''. Expected '' @ [quote] @ ''<namespace>.<resource>.<action>'' @ [quote]
       @ '' or trailing-wildcard form.'')
     else if \<not> namespace_re (segments ! 0)
     then invalid_key (''Invalid permission key namespace: '' @ repr_str (segments ! 0)
       @ '' in '' @ repr_str value)
     else if length segments = 2
     then (if segments ! 1 \<noteq> ''*''
           then invalid_key (''Two-segment permission keys must end with a wildcard: ''
             @ repr_str value)
           else Inr value)
     else let resource = segments ! 1; action = segments ! 2 in
     if resource = ''*''
     then invalid_key (''Middle wildcard is not allowed: '' @ repr_str value)
     else if \<not> permission_segment_re resource
     then invalid_key (''Invalid permission key resource: '' @ repr_str resource
       @ '' in '' @ repr_str value)
     else if action \<noteq> ''*'' \<and> \<not> permission_segment_re action
     then invalid_key (''Invalid permission key action: '' @ repr_str action
       @ '' in '' @ repr_str value)
     else Inr value)"

text \<open>\<open>isinstance(v, int) and not isinstance(v, bool)\<close>; \<open>None\<close> takes the default.\<close>

definition validate_limit_offset :: "pyval \<Rightarrow> pyval \<Rightarrow> int \<Rightarrow> int \<Rightarrow> (int \<times> int) res" where
  "validate_limit_offset limit offset max_limit default_limit =
     rbind (case limit of
         VNone \<Rightarrow> Inr default_limit
       | VInt l \<Rightarrow> Inr (max 1 (min l max_limit))
       | _ \<Rightarrow> Inl (PyExc ValidationError (''limit must be int, got '' @ type_name limit)))
     (\<lambda>normalized_limit.
     rbind (case offset of
         VNone \<Rightarrow> Inr 0
       | VInt f \<Rightarrow> Inr (max 0 f)
       | _ \<Rightarrow> Inl (PyExc ValidationError (''offset must be int, got '' @ type_name offset)))
     (\<lambda>normalized_offset. Inr (normalized_limit, normalized_offset)))"

section \<open>What the validators accept\<close>

lemma require_str_VStr [simp]: "require_str (VStr s) n = Inr s"
  by (simp add: require_str_def)

lemma require_str_Inr [res_simps]: "require_str v n = Inr s \<longleftrightarrow> v = VStr s"
  by (cases v) (auto simp: require_str_def)

lemma validate_resource_name_Inr [res_simps]:
  "validate_resource_name v = Inr s \<longleftrightarrow> v = VStr s \<and> resource_re s"
  by (auto simp: validate_resource_name_def res_simps)

lemma validate_action_name_Inr [res_simps]:
  "validate_action_name v = Inr s \<longleftrightarrow> v = VStr s \<and> action_re s"
  by (auto simp: validate_action_name_def res_simps)

lemma validate_tenant_slug_Inr [res_simps]:
  "validate_tenant_slug v = Inr s \<longleftrightarrow> (\<exists>r. v = VStr r \<and> s = lower (strip r) \<and> tenant_slug_re s)"
  by (auto simp: validate_tenant_slug_def res_simps Let_def split: if_splits)

lemma validate_schema_name_Inr [res_simps]:
  "validate_schema_name v = Inr s \<longleftrightarrow> v = VStr s \<and> s \<notin> set RESERVED_SCHEMA_NAMES
     \<and> \<not> startswith s ''pg_'' \<and> schema_name_re s"
  by (auto simp: validate_schema_name_def res_simps split: if_splits)

lemmas re_defs = resource_re_def action_re_def tenant_slug_re_def schema_name_re_def
  namespace_re_def permission_segment_re_def

lemma ident_shape_chars:
  "ident_shape ok lo hi s \<Longrightarrow> c \<in> set s \<Longrightarrow> is_lower c \<or> ok c"
  by (cases s) (auto simp: list_all_iff)

lemma ident_shape_not_Nil: "ident_shape ok lo hi s \<Longrightarrow> s \<noteq> []"
  by (cases s) auto

lemma ident_shape_length: "ident_shape ok lo hi s \<Longrightarrow> lo < length s \<and> length s \<le> Suc hi"
  by (cases s) auto

lemma key_char_plain:
  assumes "is_lower c \<or> key_char c"
  shows "c \<noteq> CHR ''.''" "c \<noteq> CHR ''*''" "\<not> is_space c" "lower_char c = c"
  using assms by (auto simp: key_char_def word_char_def is_lower_def is_digit_def is_space_def
    lower_char_def is_upper_def)

lemma word_is_key: "word_char c \<Longrightarrow> key_char c"
  by (simp add: key_char_def)

lemma ident_word_is_key: "ident_shape word_char lo hi s \<Longrightarrow> ident_shape key_char lo hi s"
  by (cases s) (auto simp: list_all_iff word_is_key)

lemma ident_shape_plain:
  assumes "ident_shape key_char lo hi s" and "c \<in> set s"
  shows "c \<noteq> CHR ''.''" "c \<noteq> CHR ''*''" "\<not> is_space c" "lower_char c = c"
  using key_char_plain ident_shape_chars [OF assms] by blast+

lemma ident_no_dot: "ident_shape key_char lo hi s \<Longrightarrow> CHR ''.'' \<notin> set s"
  using ident_shape_plain(1) by blast

lemma ident_not_star: "ident_shape key_char lo hi s \<Longrightarrow> s \<noteq> ''*''"
  using ident_shape_plain(2) by (metis list.set_intros(1))

lemma ident_lower_id: "ident_shape key_char lo hi s \<Longrightarrow> lower s = s"
  by (rule lower_id) (rule ident_shape_plain(4))

lemma ident_strip_id: "ident_shape key_char lo hi s \<Longrightarrow> strip s = s"
  by (rule strip_id) (rule ident_shape_plain(3))

text \<open>A permission key is accepted exactly when it is a namespace with a trailing wildcard or
  three segments, the last of which may be a wildcard.\<close>

definition key_segments :: "string list \<Rightarrow> bool" where
  "key_segments g = (case g of
     [n, w] \<Rightarrow> namespace_re n \<and> w = ''*''
   | [n, r, a] \<Rightarrow> namespace_re n \<and> permission_segment_re r \<and> (a = ''*'' \<or> permission_segment_re a)
   | _ \<Rightarrow> False)"

lemma permission_segment_not_star: "permission_segment_re s \<Longrightarrow> s \<noteq> ''*''"
  unfolding permission_segment_re_def by (rule ident_not_star)

lemma length2: "length xs = 2 \<longleftrightarrow> (\<exists>a b. xs = [a, b])"
  by (auto simp: numeral_2_eq_2 length_Suc_conv)

lemma length3: "length xs = 3 \<longleftrightarrow> (\<exists>a b c. xs = [a, b, c])"
  by (auto simp: numeral_3_eq_3 length_Suc_conv)

lemma validate_permission_key_Inr [res_simps]:
  "validate_permission_key v = Inr s \<longleftrightarrow> v = VStr s \<and> key_segments (split_on CHR ''.'' s)"
proof -
  let ?g = "split_on CHR ''.'' s"
  have nil: "\<not> key_segments (split_on CHR ''.'' [])"
    by (simp add: key_segments_def)
  have "validate_permission_key (VStr s) = Inr s \<longleftrightarrow> key_segments ?g"
  proof (cases "s = []")
    case False
    consider "length ?g = 2" | "length ?g = 3" | "length ?g \<notin> {2, 3}" by blast
    then show ?thesis
      by cases (use False in \<open>auto simp: validate_permission_key_def key_segments_def Let_def
        length2 length3 permission_segment_not_star split: list.splits\<close>)
  qed (use nil in \<open>simp add: validate_permission_key_def\<close>)
  moreover have "validate_permission_key (VStr r) = Inr s \<Longrightarrow> r = s" for r
    by (auto simp: validate_permission_key_def Let_def split: if_splits)
  moreover have "validate_permission_key v = Inr s \<Longrightarrow> \<exists>r. v = VStr r"
    by (auto simp: validate_permission_key_def res_simps)
  ultimately show ?thesis by blast
qed

lemma validate_limit_offset_Inr:
  "validate_limit_offset l f m d = Inr (n, k) \<Longrightarrow> 1 \<le> d \<Longrightarrow> 1 \<le> m \<Longrightarrow> d \<le> m \<Longrightarrow>
   1 \<le> n \<and> n \<le> m \<and> 0 \<le> k"
  by (cases l; cases f) (auto simp: validate_limit_offset_def)

end
