(* ===== verification/Permissions.thy ===== *)
theory Permissions
  imports Validation
begin

text \<open>
  \<open>src/asterion/authz/permissions.py\<close> and the request context of
  \<open>src/asterion/admin/context.py\<close>: building a required key, matching it against granted keys
  with a trailing wildcard, and the per-resource gate of the admin endpoints.  The reference
  reading of a grant (\<open>covers\<close>) is stated independently of the matcher's loop and the
  matcher is proved to implement it.
\<close>

section \<open>The request context\<close>

record principal =
  pr_id :: string
  pr_email :: "string option"
  pr_display_name :: "string option"
  pr_is_active :: bool
  pr_is_superadmin :: bool

record tenant =
  tn_id :: string
  tn_slug :: string
  tn_name :: "string option"
  tn_schema_name :: "string option"

text \<open>\<open>ctx_require_superadmin\<close> is \<open>config.single_tenant_require_superadmin\<close> of the request's
  app, \<open>None\<close> where no request or no config is reachable from the context.\<close>

record admin_ctx =
  ctx_principal :: "principal option"
  ctx_tenant :: "tenant option"
  ctx_permissions :: "string list"
  ctx_require_superadmin :: "bool option"

definition is_authenticated :: "admin_ctx \<Rightarrow> bool" where
  "is_authenticated ctx = (ctx_principal ctx \<noteq> None)"

definition is_superadmin :: "admin_ctx \<Rightarrow> bool" where
  "is_superadmin ctx = (case ctx_principal ctx of None \<Rightarrow> False | Some p \<Rightarrow> pr_is_superadmin p)"

section \<open>Keys\<close>

definition DEFAULT_NAMESPACE :: string where "DEFAULT_NAMESPACE = ''admin''"
definition PLATFORM_NAMESPACE :: string where "PLATFORM_NAMESPACE = ''platform''"
definition PLATFORM_WILDCARD :: string where "PLATFORM_WILDCARD = PLATFORM_NAMESPACE @ ''.*''"

definition permission_key :: "string \<Rightarrow> string \<Rightarrow> string \<Rightarrow> string res" where
  "permission_key resource action namespace =
     rbind (validate_resource_name (VStr resource)) (\<lambda>r.
     rbind (validate_action_name (VStr action)) (\<lambda>a.
     validate_permission_key (VStr (namespace @ ''.'' @ r @ ''.'' @ a))))"

definition platform_key :: "string \<Rightarrow> string \<Rightarrow> string res" where
  "platform_key resource action = permission_key resource action PLATFORM_NAMESPACE"

section \<open>The matcher\<close>

text \<open>The \<open>for\<close> loop of \<open>_matches_permission\<close>, from position \<open>i\<close>; \<open>None\<close> when the loop ends
  without returning.\<close>

fun match_loop :: "nat \<Rightarrow> string list \<Rightarrow> nat \<Rightarrow> string list \<Rightarrow> bool option" where
  "match_loop i [] glen required_parts = None"
| "match_loop i (g # gs) glen required_parts =
    (if g = ''*'' then Some (Suc i = glen \<and> Suc i \<le> length required_parts)
     else if i \<ge> length required_parts then Some False
     else if g \<noteq> required_parts ! i then Some False
     else match_loop (Suc i) gs glen required_parts)"

definition matches_permission :: "string \<Rightarrow> string \<Rightarrow> bool" where
  "matches_permission granted required =
    (let granted_parts = split_on CHR ''.'' (lower (strip granted));
         required_parts = split_on CHR ''.'' (lower (strip required))
     in if granted_parts = [] \<or> required_parts = [] then False
        else case match_loop 0 granted_parts (length granted_parts) required_parts of
          Some b \<Rightarrow> b
        | None \<Rightarrow> length granted_parts = length required_parts)"

definition has_permission :: "string list \<Rightarrow> string \<Rightarrow> bool res" where
  "has_permission granted_permissions required_permission =
    (case validate_permission_key (VStr required_permission) of
       Inl (PyExc InvalidPermissionKeyError msg) \<Rightarrow> Inl (PyExc ValueError msg)
     | Inl e \<Rightarrow> Inl e
     | Inr required \<Rightarrow> Inr (\<exists>granted \<in> set granted_permissions.
         granted \<noteq> [] \<and> strip granted \<noteq> [] \<and> matches_permission granted required))"

definition assert_permission :: "string list \<Rightarrow> string \<Rightarrow> unit res" where
  "assert_permission granted_permissions required_permission =
     rbind (has_permission granted_permissions required_permission) (\<lambda>b.
     guard b (http 403 (''Missing required permission: '' @ required_permission)))"

definition ctx_has_permission :: "admin_ctx \<Rightarrow> string \<Rightarrow> bool res" where
  "ctx_has_permission ctx key = has_permission (ctx_permissions ctx) key"

section \<open>The resource gate\<close>

definition single_tenant_superadmin_required :: "admin_ctx \<Rightarrow> bool" where
  "single_tenant_superadmin_required ctx =
    (case ctx_require_superadmin ctx of None \<Rightarrow> True | Some b \<Rightarrow> b)"

definition require_resource_access :: "admin_ctx \<Rightarrow> string \<Rightarrow> string \<Rightarrow> unit res" where
  "require_resource_access ctx resource action =
     rbind (permission_key resource action DEFAULT_NAMESPACE) (\<lambda>required.
     case ctx_tenant ctx of
       None \<Rightarrow>
         if \<not> single_tenant_superadmin_required ctx then Inr ()
         else rbind (ctx_has_permission ctx PLATFORM_WILDCARD) (\<lambda>p.
           if p then Inr ()
           else rbind (ctx_has_permission ctx required) (\<lambda>b.
             guard b (http 403 ''Superadmin privileges required.'')))
     | Some _ \<Rightarrow>
         rbind (ctx_has_permission ctx required) (\<lambda>b.
           guard b (http 403 (''Missing required permission: '' @ required))))"

section \<open>What a grant covers\<close>

text \<open>The reference reading of a grant as segments: a concrete grant covers exactly itself; a
  grant whose only wildcard is its last segment covers every key that has its other segments
  as a prefix and at least one more.\<close>

definition covers :: "string list \<Rightarrow> string list \<Rightarrow> bool" where
  "covers g r =
    (if ''*'' \<in> set g
     then last g = ''*'' \<and> ''*'' \<notin> set (butlast g)
          \<and> length g \<le> length r \<and> take (length g - 1) r = butlast g
     else g = r)"

definition key_parts :: "string \<Rightarrow> string list" where
  "key_parts k = split_on CHR ''.'' (lower (strip k))"

lemma match_loop_covers:
  "length pre \<le> length r \<Longrightarrow> take (length pre) r = pre \<Longrightarrow> ''*'' \<notin> set pre \<Longrightarrow>
   (case match_loop (length pre) g (length pre + length g) r of
      Some b \<Rightarrow> b | None \<Rightarrow> length pre + length g = length r) = covers (pre @ g) r"
proof (induction g arbitrary: pre)
  case Nil
  then show ?case by (auto simp: covers_def)
next
  case (Cons x gs)
  consider "x = ''*''" | "x \<noteq> ''*''" "length pre \<ge> length r"
    | "x \<noteq> ''*''" "length pre < length r" "x \<noteq> r ! length pre"
    | "x \<noteq> ''*''" "length pre < length r" "x = r ! length pre" by fastforce
  then show ?case
  proof cases
    case 1
    have "covers (pre @ x # gs) r \<longleftrightarrow> gs = [] \<and> Suc (length pre) \<le> length r"
      using 1 Cons.prems by (cases gs rule: rev_cases) (auto simp: covers_def butlast_append)
    then show ?thesis using 1 by (cases gs) auto
  next
    case 2
    then have "\<not> covers (pre @ x # gs) r"
      using Cons.prems by (auto simp: covers_def)
    then show ?thesis using 2 by auto
  next
    case 3
    have "\<not> covers (pre @ x # gs) r"
    proof
      assume c: "covers (pre @ x # gs) r"
      show False
      proof (cases "''*'' \<in> set gs")
        case True
        then have ne: "gs \<noteq> []" by auto
        then have "take (length pre + length gs) r = pre @ x # butlast gs"
          using c True 3 Cons.prems by (auto simp: covers_def butlast_append)
        then have "take (length pre + length gs) r ! length pre = x" by simp
        then show False using 3 ne by (simp split: if_splits)
      next
        case False
        then have "r = pre @ x # gs" using c 3 Cons.prems by (auto simp: covers_def)
        then show False using 3 by simp
      qed
    qed
    then show ?thesis using 3 by auto
  next
    case 4
    have "take (length (pre @ [x])) r = pre @ [x]"
      using 4 Cons.prems by (simp add: take_Suc_conv_app_nth)
    then have "(case match_loop (length (pre @ [x])) gs (length (pre @ [x]) + length gs) r of
        Some b \<Rightarrow> b | None \<Rightarrow> length (pre @ [x]) + length gs = length r)
      = covers ((pre @ [x]) @ gs) r"
      using 4 Cons.prems by (intro Cons.IH) auto
    then show ?thesis using 4 by (simp cong: option.case_cong)
  qed
qed

lemma matches_permission_covers:
  "matches_permission granted required = covers (key_parts granted) (key_parts required)"
  using match_loop_covers [of "[]" "key_parts required" "key_parts granted"]
  by (simp add: matches_permission_def key_parts_def Let_def cong: option.case_cong)

section \<open>Keys that are concrete\<close>

text \<open>A key built from a namespace that validates, a resource and an action: three segments,
  none of them a wildcard, unchanged by the matcher's normalisation.\<close>

lemma join_key: "join ''.'' [n, r, a] = n @ ''.'' @ r @ ''.'' @ a"
  by simp

lemma split_key:
  assumes "ident_shape key_char l1 h1 n" "ident_shape key_char l2 h2 r" "ident_shape key_char l3 h3 a"
  shows "split_on CHR ''.'' (n @ ''.'' @ r @ ''.'' @ a) = [n, r, a]"
  using split_on_join [of "[n, r, a]" "CHR ''.''"] assms [THEN ident_no_dot] by simp

lemma action_re_key: "action_re a \<Longrightarrow> ident_shape key_char 0 62 a"
  by (simp add: action_re_def ident_word_is_key)

lemma namespace_re_key: "namespace_re n \<Longrightarrow> ident_shape key_char 0 62 n"
  by (simp add: namespace_re_def ident_word_is_key)

lemma resource_re_key: "resource_re r \<Longrightarrow> ident_shape key_char 0 62 r"
  by (simp add: resource_re_def)

lemmas re_key = action_re_key namespace_re_key resource_re_key

lemma strip_lower_dots:
  assumes "\<forall>w \<in> set ws. ident_shape key_char 0 62 w \<or> w = ''*''"
  shows "lower (strip (join ''.'' ws)) = join ''.'' ws"
proof -
  have chars: "c \<in> set (join ''.'' ws) \<Longrightarrow> c = CHR ''.'' \<or> (\<exists>w \<in> set ws. c \<in> set w)" for c
    by (induction ws rule: induct_list012) auto
  have plain: "\<not> is_space c \<and> lower_char c = c" if "c \<in> set (join ''.'' ws)" for c
    using chars [OF that] assms ident_shape_plain(3,4)
    by (fastforce simp: is_space_def lower_char_def is_upper_def)
  show ?thesis
    using plain by (simp add: strip_id lower_id)
qed

lemma key_parts_join:
  assumes "ws \<noteq> []" and "\<forall>w \<in> set ws. ident_shape key_char 0 62 w \<or> w = ''*''"
  shows "key_parts (join ''.'' ws) = ws"
proof -
  have "\<forall>w \<in> set ws. CHR ''.'' \<notin> set w"
    using assms(2) ident_no_dot by fastforce
  then show ?thesis
    using assms by (simp add: key_parts_def strip_lower_dots split_on_join)
qed

text \<open>A key that validates is unchanged by the matcher's normalisation.\<close>

lemma key_segments_shape:
  assumes "key_segments g"
  shows "\<forall>w \<in> set g. ident_shape key_char 0 62 w \<or> w = ''*''" "g \<noteq> []"
  using assms by (auto simp: key_segments_def permission_segment_re_def
    dest: namespace_re_key split: list.splits)

lemma valid_key_parts:
  assumes "key_segments (split_on CHR ''.'' k)"
  shows "key_parts k = split_on CHR ''.'' k"
  using key_parts_join [OF key_segments_shape(2,1) [OF assms]] by (simp add: join_split_on)

lemma permission_key_Inr [res_simps]:
  assumes "namespace_re ns"
  shows "permission_key r a ns = Inr k \<longleftrightarrow>
    resource_re r \<and> action_re a \<and> k = ns @ ''.'' @ r @ ''.'' @ a"
proof -
  have "resource_re r \<Longrightarrow> action_re a \<Longrightarrow> key_segments (split_on CHR ''.'' (ns @ ''.'' @ r @ ''.'' @ a))"
    using assms split_key [OF re_key(2) re_key(3) re_key(1), of ns r a]
    by (simp add: key_segments_def re_defs ident_word_is_key)
  then show ?thesis
    by (auto simp: permission_key_def res_simps)
qed

lemma namespace_re_admin [simp]: "namespace_re DEFAULT_NAMESPACE" "namespace_re PLATFORM_NAMESPACE"
  by (simp_all add: namespace_re_def DEFAULT_NAMESPACE_def PLATFORM_NAMESPACE_def
      word_char_def is_lower_def)

lemma has_permission_valid:
  assumes "key_segments (split_on CHR ''.'' k)"
  shows "has_permission gs k =
    Inr (\<exists>g \<in> set gs. strip g \<noteq> [] \<and> covers (key_parts g) (split_on CHR ''.'' k))"
proof -
  have "validate_permission_key (VStr k) = Inr k"
    using assms by (simp add: validate_permission_key_Inr)
  moreover have "(g \<noteq> [] \<and> strip g \<noteq> [] \<and> P) = (strip g \<noteq> [] \<and> P)" for g P
    by (cases g) (auto simp: strip_def lstrip_def rstrip_def)
  ultimately show ?thesis
    using assms by (simp add: has_permission_def matches_permission_covers valid_key_parts)
qed

lemma permission_key_parts:
  assumes "permission_key r a ns = Inr k" and "namespace_re ns"
  shows "split_on CHR ''.'' k = [ns, r, a]" "key_segments [ns, r, a]"
proof -
  from assms have p: "resource_re r" "action_re a" "k = ns @ ''.'' @ r @ ''.'' @ a"
    by (auto simp: res_simps)
  show "split_on CHR ''.'' k = [ns, r, a]"
    using p split_key [OF re_key(2) re_key(3) re_key(1)] assms(2) by simp
  show "key_segments [ns, r, a]"
    using p assms(2) by (simp add: key_segments_def re_defs ident_word_is_key)
qed

lemma has_permission_key:
  assumes "permission_key r a ns = Inr k" and "namespace_re ns"
  shows "has_permission gs k = Inr (\<exists>g \<in> set gs. strip g \<noteq> [] \<and> covers (key_parts g) [ns, r, a])"
  using has_permission_valid [of k gs] permission_key_parts [OF assms] by simp

section \<open>Properties\<close>

text \<open>C1: \<open>has_permission\<close> implements the reference reading of grants: for a key that validates the
  answer is whether some non-blank granted key covers it, segment by segment with only a
  trailing wildcard, and for any other key it raises \<open>ValueError\<close>.\<close>

theorem has_permission_iff_covers:
  "\<exists>msg. has_permission granted key =
     (if key_segments (split_on CHR ''.'' key)
      then Inr (\<exists>g \<in> set granted. strip g \<noteq> [] \<and> covers (key_parts g) (split_on CHR ''.'' key))
      else Inl (PyExc ValueError msg))"
proof (cases "key_segments (split_on CHR ''.'' key)")
  case True
  then show ?thesis by (simp add: has_permission_valid)
next
  case False
  then have "validate_permission_key (VStr key) \<noteq> Inr r" for r
    by (auto simp: validate_permission_key_Inr)
  then obtain e where "validate_permission_key (VStr key) = Inl e"
    by (cases "validate_permission_key (VStr key)") auto
  moreover from this obtain msg where "e = PyExc InvalidPermissionKeyError msg"
    by (auto simp: validate_permission_key_def Let_def split: if_splits)
  ultimately show ?thesis using False by (auto simp: has_permission_def)
qed

text \<open>no set of grants in the tenant namespace, wildcards included, satisfies a platform key.\<close>

theorem tenant_grants_never_reach_platform:
  assumes "\<forall>g \<in> set granted. hd (key_parts g) = DEFAULT_NAMESPACE"
    and "platform_key resource action = Inr key"
  shows "has_permission granted key = Inr False"
proof -
  have "\<not> covers (key_parts g) [PLATFORM_NAMESPACE, resource, action]" if "g \<in> set granted" for g
  proof -
    have h: "hd (key_parts g) = ''admin''"
      using assms(1) that by (simp add: DEFAULT_NAMESPACE_def)
    obtain n w where g: "key_parts g = n # w"
      using split_on_not_Nil by (cases "key_parts g") (auto simp: key_parts_def)
    then show ?thesis
      using h by (cases w) (auto simp: covers_def PLATFORM_NAMESPACE_def)
  qed
  then show ?thesis
    using has_permission_key [OF assms(2) [unfolded platform_key_def] namespace_re_admin(2)] by simp
qed

lemma tenant_grants_never_reach_platform_witness:
  "has_permission [''admin.*'', ''admin.tenants.read''] ''platform.tenants.read'' = Inr False"
proof (rule tenant_grants_never_reach_platform [where resource = "''tenants''" and action = "''read''"])
  show "\<forall>g \<in> set [''admin.*'', ''admin.tenants.read'']. hd (key_parts g) = DEFAULT_NAMESPACE"
    by code_simp
  show "platform_key ''tenants'' ''read'' = Inr ''platform.tenants.read''"
    by code_simp
qed

end
