(* ===== verification/Policy.thy ===== *)
theory Policy
  imports Permissions
begin

text \<open>
  \<open>src/asterion/admin/policy.py\<close>: field permissions and their strictest combination, the
  default-allow policy and its subclasses, and the contract's capability flags.  A policy
  object is a record of its attributes and methods; a subclass is the record of its base with
  the overridden members replaced.  A method takes the caller's context and may raise.
\<close>

type_synonym row = "(string \<times> pyval) list"

section \<open>Field permissions\<close>

datatype field_permission = FP_WRITE | FP_READ | FP_HIDDEN

fun fp_rank :: "field_permission \<Rightarrow> nat" where
  "fp_rank FP_WRITE = 0"
| "fp_rank FP_READ = 1"
| "fp_rank FP_HIDDEN = 2"

instantiation field_permission :: linorder
begin
definition less_eq_field_permission :: "field_permission \<Rightarrow> field_permission \<Rightarrow> bool" where
  "less_eq_field_permission p q = (fp_rank p \<le> fp_rank q)"
definition less_field_permission :: "field_permission \<Rightarrow> field_permission \<Rightarrow> bool" where
  "less_field_permission p q = (fp_rank p < fp_rank q)"
instance
proof
  fix p q :: field_permission
  show "p \<le> q \<Longrightarrow> q \<le> p \<Longrightarrow> p = q"
    by (cases p; cases q) (auto simp: less_eq_field_permission_def)
qed (auto simp: less_eq_field_permission_def less_field_permission_def)
end

definition strictest :: "field_permission list \<Rightarrow> field_permission" where
  "strictest perms =
     foldl (\<lambda>result perm. if fp_rank perm > fp_rank result then perm else result) FP_WRITE perms"

lemma fp_rank_inj: "fp_rank p = fp_rank q \<Longrightarrow> p = q"
  by (cases p; cases q) auto

lemma strictest_foldl:
  "foldl (\<lambda>r p. if fp_rank p > fp_rank r then p else r) q ps = foldl max q ps"
  by (induction ps arbitrary: q)
    (auto simp: max_def less_eq_field_permission_def dest: fp_rank_inj)

lemma FP_WRITE_least [simp]: "FP_WRITE \<le> p"
  by (simp add: less_eq_field_permission_def)

lemma foldl_max_Max: "foldl max q ps = Max (insert q (set ps))" for q :: field_permission
proof (induction ps arbitrary: q)
  case (Cons p ps)
  then show ?case by (cases "ps = []") (auto simp: max.commute max.left_commute)
qed simp

lemma strictest_Max: "strictest ps = Max (insert FP_WRITE (set ps))"
  by (simp add: strictest_def strictest_foldl foldl_max_Max)

section \<open>Policies\<close>

record admin_policy =
  po_resource :: "string option"
  po_read_only :: bool
  po_disable_create :: bool
  po_disable_update :: bool
  po_disable_delete :: bool
  po_capability_flags :: "bool \<Rightarrow> bool \<times> bool \<times> bool"
  po_can_view_model :: "admin_ctx \<Rightarrow> bool res"
  po_can_create :: "admin_ctx \<Rightarrow> bool res"
  po_can_view_object :: "row \<Rightarrow> admin_ctx \<Rightarrow> bool res"
  po_can_update_object :: "row \<Rightarrow> admin_ctx \<Rightarrow> bool res"
  po_delete_gate :: "string option \<Rightarrow> row \<Rightarrow> admin_ctx \<Rightarrow> bool res"
  po_field_permission :: "string \<Rightarrow> row option \<Rightarrow> admin_ctx \<Rightarrow> field_permission res"

definition base_capability_flags :: "bool \<Rightarrow> bool \<Rightarrow> bool \<Rightarrow> bool \<Rightarrow> bool \<Rightarrow> bool \<times> bool \<times> bool" where
  "base_capability_flags read_only dc du dd has_platform =
     (\<not> (read_only \<or> dc), \<not> (read_only \<or> du), \<not> (read_only \<or> dd))"

definition AdminPolicy :: "string option \<Rightarrow> admin_policy" where
  "AdminPolicy resource = \<lparr>
     po_resource = resource, po_read_only = False,
     po_disable_create = False, po_disable_update = False, po_disable_delete = False,
     po_capability_flags = base_capability_flags False False False False,
     po_can_view_model = (\<lambda>ctx. Inr True),
     po_can_create = (\<lambda>ctx. Inr True),
     po_can_view_object = (\<lambda>obj ctx. Inr True),
     po_can_update_object = (\<lambda>obj ctx. Inr True),
     po_delete_gate = (\<lambda>resource obj ctx. Inr True),
     po_field_permission = (\<lambda>field obj ctx. Inr FP_WRITE) \<rparr>"

definition ReadOnlyPolicy :: "string option \<Rightarrow> admin_policy" where
  "ReadOnlyPolicy resource = (AdminPolicy resource) \<lparr>
     po_read_only := True,
     po_capability_flags := base_capability_flags True False False False,
     po_can_create := (\<lambda>ctx. Inr False),
     po_can_update_object := (\<lambda>obj ctx. Inr False),
     po_delete_gate := (\<lambda>resource obj ctx. Inr False) \<rparr>"

definition NoCreateDeletePolicy :: "string option \<Rightarrow> admin_policy" where
  "NoCreateDeletePolicy resource = (AdminPolicy resource) \<lparr>
     po_disable_create := True, po_disable_delete := True,
     po_capability_flags := base_capability_flags False True False True,
     po_can_create := (\<lambda>ctx. Inr False),
     po_delete_gate := (\<lambda>resource obj ctx. Inr False) \<rparr>"

definition delete_key :: "string option \<Rightarrow> string option res" where
  "delete_key resource = (case resource of
     None \<Rightarrow> Inr None
   | Some r \<Rightarrow> rbind (platform_key r ''delete'') (\<lambda>k. Inr (Some k)))"

definition SuperadminDeletablePolicy :: "string option \<Rightarrow> admin_policy" where
  "SuperadminDeletablePolicy resource = (AdminPolicy resource) \<lparr>
     po_disable_create := True, po_disable_update := True,
     po_capability_flags := (\<lambda>has_platform. (False, False, has_platform)),
     po_can_create := (\<lambda>ctx. Inr False),
     po_can_update_object := (\<lambda>obj ctx. Inr False),
     po_delete_gate := (\<lambda>resource obj ctx. rbind (delete_key resource) (\<lambda>key.
       case key of None \<Rightarrow> Inr False | Some k \<Rightarrow> ctx_has_permission ctx k)) \<rparr>"

text \<open>\<open>can_delete_object\<close> is the only gate that reads the policy's own \<open>resource\<close>.\<close>

definition po_can_delete_object :: "admin_policy \<Rightarrow> row \<Rightarrow> admin_ctx \<Rightarrow> bool res" where
  "po_can_delete_object p obj ctx = po_delete_gate p (po_resource p) obj ctx"

text \<open>The binding of \<open>AdminRegistry.register\<close>: a policy without a resource is given the
  registered one.\<close>

definition bind_policy :: "string \<Rightarrow> admin_policy \<Rightarrow> admin_policy" where
  "bind_policy key p = (if po_resource p = None then p\<lparr>po_resource := Some key\<rparr> else p)"

section \<open>Capabilities against the gates\<close>

text \<open>A capability flag is sound for a gate when a flag that is off means a gate that refuses,
  and complete when a flag that is on means a gate that lets the caller through.\<close>

definition flags_match_gates :: "admin_policy \<Rightarrow> bool \<Rightarrow> admin_ctx \<Rightarrow> row \<Rightarrow> bool" where
  "flags_match_gates p has_platform ctx obj =
     (case po_capability_flags p has_platform of (c, u, d) \<Rightarrow>
        po_can_create p ctx = Inr c \<and> po_can_update_object p obj ctx = Inr u
        \<and> po_can_delete_object p obj ctx = Inr d)"

lemmas policy_defs = AdminPolicy_def ReadOnlyPolicy_def NoCreateDeletePolicy_def
  SuperadminDeletablePolicy_def base_capability_flags_def

lemma flags_match_static:
  "flags_match_gates (AdminPolicy r) b ctx obj"
  "flags_match_gates (ReadOnlyPolicy r) b ctx obj"
  "flags_match_gates (NoCreateDeletePolicy r) b ctx obj"
  by (simp_all add: flags_match_gates_def policy_defs po_can_delete_object_def)

lemma action_re_delete [simp]: "action_re ''delete''"
  by (simp add: action_re_def word_char_def is_lower_def is_digit_def)

lemma platform_delete_key: "resource_re r \<Longrightarrow>
  platform_key r ''delete'' = Inr (''platform.'' @ r @ ''.delete'')"
  using permission_key_Inr [OF namespace_re_admin(2), of r "''delete''"]
  by (simp add: platform_key_def PLATFORM_NAMESPACE_def)

lemma superadmin_deletable_gate:
  assumes "resource_re r"
  shows "po_can_delete_object (SuperadminDeletablePolicy (Some r)) obj ctx
    = ctx_has_permission ctx (''platform.'' @ r @ ''.delete'')"
  using platform_delete_key [OF assms]
  by (simp add: SuperadminDeletablePolicy_def delete_key_def po_can_delete_object_def AdminPolicy_def)

section \<open>Properties\<close>

text \<open>The effective permission of a field is the least upper bound of the decisions combined:
  at least as strict as each of them and one of them (or the permissive base), so a policy can
  tighten what the static configuration says and never loosen it.\<close>

theorem strictest_is_least_upper_bound:
  "(\<forall>p \<in> set ps. p \<le> strictest ps) \<and> strictest ps \<in> insert FP_WRITE (set ps)
   \<and> (\<forall>q. strictest (q # ps) = max q (strictest ps))"
proof (intro conjI allI ballI)
  fix q
  have "insert FP_WRITE (insert q (set ps)) = insert q (insert FP_WRITE (set ps))"
    by (rule insert_commute)
  then have "strictest (q # ps) = Max (insert q (insert FP_WRITE (set ps)))"
    by (simp only: strictest_Max list.set)
  also have "\<dots> = max q (strictest ps)"
    unfolding strictest_Max by (rule Max_insert) auto
  finally show "strictest (q # ps) = max q (strictest ps)" .
next
  show "strictest ps \<in> insert FP_WRITE (set ps)"
    unfolding strictest_Max by (rule Max_in) auto
next
  fix p assume "p \<in> set ps"
  then show "p \<le> strictest ps"
    unfolding strictest_Max by (intro Max_ge) auto
qed

lemma strictest_is_least_upper_bound_witness:
  "strictest [FP_READ, FP_WRITE] = FP_READ"
  using strictest_is_least_upper_bound [of "[FP_WRITE]"]
  by (simp add: strictest_def max_def less_eq_field_permission_def)

text \<open>The capability flags the contract shows are exactly what the gates of every framework
  policy enforce; for the platform-deletable policy, when the flag is computed from the caller's
  \<open>platform.<resource>.delete\<close> key.\<close>

theorem capability_flags_match_gates:
  assumes "resource_re r"
    and "ctx_has_permission ctx (''platform.'' @ r @ ''.delete'') = Inr h"
  shows "flags_match_gates (AdminPolicy res) b ctx obj
    \<and> flags_match_gates (ReadOnlyPolicy res) b ctx obj
    \<and> flags_match_gates (NoCreateDeletePolicy res) b ctx obj
    \<and> flags_match_gates (SuperadminDeletablePolicy (Some r)) h ctx obj"
  using flags_match_static superadmin_deletable_gate [OF assms(1)] assms(2)
  by (simp add: flags_match_gates_def SuperadminDeletablePolicy_def)

definition operator_ctx :: admin_ctx where
  "operator_ctx = \<lparr>ctx_principal = None, ctx_tenant = None,
     ctx_permissions = [''platform.*''], ctx_require_superadmin = None\<rparr>"

lemma capability_flags_match_gates_witness:
  "flags_match_gates (SuperadminDeletablePolicy (Some ''ledger'')) True operator_ctx []"
proof -
  have "resource_re ''ledger''"
    and "ctx_has_permission operator_ctx (''platform.'' @ ''ledger'' @ ''.delete'') = Inr True"
    by code_simp+
  from capability_flags_match_gates [OF this] show ?thesis by blast
qed

end
