(* ===== verification/Literals.thy ===== *)
theory Literals
  imports Strings
begin

text \<open>
  Numbers and identifiers read from text: Python's \<open>int(text, base)\<close> (white space, sign, base
  prefix and single underscores between digits), \<open>uuid.UUID(text)\<close> and \<open>str\<close> of a UUID, and
  \<open>str\<close> of a value.  A UUID is its 128-bit number.
\<close>

section \<open>\<open>int(text, base)\<close>\<close>

definition digit_value :: "char \<Rightarrow> nat option" where
  "digit_value c =
    (if is_digit c then Some (ord c - 48)
     else if is_lower c then Some (ord c - 87)
     else if is_upper c then Some (ord c - 55)
     else None)"

definition is_base_digit :: "nat \<Rightarrow> char \<Rightarrow> bool" where
  "is_base_digit b c = (case digit_value c of None \<Rightarrow> False | Some d \<Rightarrow> d < b)"

definition digits_value :: "nat \<Rightarrow> string \<Rightarrow> nat" where
  "digits_value b s = foldl (\<lambda>acc c. acc * b + the (digit_value c)) 0 s"

text \<open>Digits with single underscores between them.\<close>

definition parse_digits :: "nat \<Rightarrow> string \<Rightarrow> nat option" where
  "parse_digits b s =
    (let ws = split_on CHR ''_'' s; ds = concat ws in
     if (\<exists>w \<in> set ws. w = []) \<or> \<not> list_all (is_base_digit b) ds \<or> (b = 10 \<and> 4300 < length ds)
     then None else Some (digits_value b ds))"

definition drop_prefix16 :: "string \<Rightarrow> string" where
  "drop_prefix16 s =
    (if startswith s ''0x'' \<or> startswith s ''0X''
     then (if startswith (drop 2 s) ''_'' then drop 3 s else drop 2 s) else s)"

definition parse_unsigned :: "nat \<Rightarrow> string \<Rightarrow> nat option" where
  "parse_unsigned b s = parse_digits b (if b = 16 then drop_prefix16 s else s)"

definition py_int :: "nat \<Rightarrow> string \<Rightarrow> int option" where
  "py_int b text =
    (let s = strip text in
     if startswith s ''-'' then map_option (\<lambda>n. - int n) (parse_unsigned b (drop 1 s))
     else if startswith s ''+'' then map_option int (parse_unsigned b (drop 1 s))
     else map_option int (parse_unsigned b s))"

section \<open>\<open>uuid.UUID(text)\<close> and \<open>str(uuid)\<close>\<close>

fun replace_all :: "string \<Rightarrow> string \<Rightarrow> string \<Rightarrow> nat \<Rightarrow> string" where
  "replace_all old new [] skip = []"
| "replace_all old new (c # cs) (Suc k) = replace_all old new cs k"
| "replace_all old new (c # cs) 0 =
    (if old \<noteq> [] \<and> startswith (c # cs) old
     then new @ replace_all old new cs (length old - 1)
     else c # replace_all old new cs 0)"

definition uuid_parse :: "string \<Rightarrow> nat option" where
  "uuid_parse text =
    (let h0 = replace_all ''uuid:'' [] (replace_all ''urn:'' [] text 0) 0;
         h = filter (\<lambda>c. c \<noteq> CHR ''-'') (strip_chars ''{}'' h0) in
     if length h \<noteq> 32 then None
     else case py_int 16 h of
       None \<Rightarrow> None
     | Some i \<Rightarrow> if 0 \<le> i \<and> i < 2 ^ 128 then Some (nat i) else None)"

fun hex_fixed :: "nat \<Rightarrow> nat \<Rightarrow> string" where
  "hex_fixed 0 n = []"
| "hex_fixed (Suc k) n = hex_fixed k (n div 16) @ [hex_char (n mod 16)]"

definition uuid_hex :: "nat \<Rightarrow> string" where
  "uuid_hex n = hex_fixed 32 n"

definition uuid_str :: "nat \<Rightarrow> string" where
  "uuid_str n = (let h = uuid_hex n in
     take 8 h @ ''-'' @ take 4 (drop 8 h) @ ''-'' @ take 4 (drop 12 h) @ ''-''
     @ take 4 (drop 16 h) @ ''-'' @ drop 20 h)"

section \<open>\<open>str(value)\<close>\<close>

fun py_str :: "pyval \<Rightarrow> string" where
  "py_str VNone = ''None''"
| "py_str (VBool b) = (if b then ''True'' else ''False'')"
| "py_str (VInt i) = str_int i"
| "py_str (VStr s) = s"
| "py_str (VUuid u) = uuid_str u"
| "py_str (VDateTime s) = map (\<lambda>c. if c = CHR ''T'' then CHR '' '' else c) s"
| "py_str (VObj c s) = s"
| "py_str (VList xs) = ''[...]''"
| "py_str (VTuple xs) = ''(...)''"
| "py_str (VDict d) = ''{...}''"

text \<open>The text of a list, tuple or dict is not spelled out: no branch of the modelled code
  depends on it beyond its not being a number, a UUID or a key.\<close>

definition py_repr :: "pyval \<Rightarrow> string" where
  "py_repr v = (case v of VStr s \<Rightarrow> repr_str s
     | VUuid u \<Rightarrow> ''UUID('' @ [quote] @ uuid_str u @ [quote] @ '')'' | _ \<Rightarrow> py_str v)"

section \<open>Round trip of a UUID\<close>

lemma length_hex_fixed [simp]: "length (hex_fixed k n) = k"
  by (induction k n rule: hex_fixed.induct) auto

lemma hex_char_value: "d < 16 \<Longrightarrow> digit_value (hex_char d) = Some d"
  by (auto simp: digit_value_def hex_char_def is_digit_def is_lower_def is_upper_def)

definition hex_lower :: "char \<Rightarrow> bool" where
  "hex_lower c = (is_digit c \<or> (97 \<le> ord c \<and> ord c \<le> 102))"

lemma hex_char_lower: "d < 16 \<Longrightarrow> hex_lower (hex_char d)"
  by (auto simp: hex_char_def is_digit_def hex_lower_def)

lemma hex_fixed_chars: "c \<in> set (hex_fixed k n) \<Longrightarrow> hex_lower c"
  by (induction k n rule: hex_fixed.induct) (auto simp: hex_char_lower)

lemma digits_value_snoc: "digits_value b (s @ [c]) = digits_value b s * b + the (digit_value c)"
  by (simp add: digits_value_def)

lemma digits_value_hex_fixed: "digits_value 16 (hex_fixed k n) = n mod 16 ^ k"
proof (induction k arbitrary: n)
  case (Suc k)
  have "n mod 16 ^ Suc k = 16 * (n div 16 mod 16 ^ k) + n mod 16"
    by (simp add: mod_mult2_eq mult.commute)
  then show ?case
    using Suc by (simp add: digits_value_snoc hex_char_value)
qed (simp add: digits_value_def)

lemma startswith_Cons_char: "startswith s (p # ps) \<Longrightarrow> p \<in> set s"
  by (cases s) auto

lemma replace_all_absent: "p \<notin> set s \<Longrightarrow> replace_all (p # ps) new s 0 = s"
proof (induction s)
  case (Cons c s)
  then have "\<not> startswith (c # s) (p # ps)"
    using startswith_Cons_char by fastforce
  with Cons show ?case by (simp del: startswith.simps)
qed simp

lemma hex_lower_not:
  "hex_lower c \<Longrightarrow> c \<noteq> CHR ''u'' \<and> c \<noteq> CHR ''-'' \<and> c \<noteq> CHR ''{'' \<and> c \<noteq> CHR ''}''
     \<and> c \<noteq> CHR ''x'' \<and> c \<noteq> CHR ''X'' \<and> c \<noteq> CHR ''_'' \<and> c \<noteq> CHR ''+'' \<and> \<not> is_space c \<and> is_base_digit 16 c"
  by (auto simp: hex_lower_def is_digit_def is_space_def is_base_digit_def digit_value_def
      is_lower_def is_upper_def)

lemma strip_chars_id: "(\<And>c. c \<in> set s \<Longrightarrow> c \<notin> set cs) \<Longrightarrow> strip_chars cs s = s"
proof -
  assume a: "\<And>c. c \<in> set s \<Longrightarrow> c \<notin> set cs"
  have "dropWhile (\<lambda>c. c \<in> set cs) s = s" "dropWhile (\<lambda>c. c \<in> set cs) (rev s) = rev s"
    by (rule dropWhile_id, simp add: a)+
  then show ?thesis by (simp add: strip_chars_def)
qed

lemma py_int_hex:
  assumes "h \<noteq> []" and h: "\<And>c. c \<in> set h \<Longrightarrow> hex_lower c"
  shows "py_int 16 h = Some (int (digits_value 16 h))"
proof -
  have no: "CHR ''-'' \<notin> set h" "CHR ''+'' \<notin> set h" "CHR ''x'' \<notin> set h" "CHR ''X'' \<notin> set h"
    "CHR ''_'' \<notin> set h"
    using h hex_lower_not by blast+
  have "strip h = h"
    using h hex_lower_not by (intro strip_id) blast
  moreover have "\<not> startswith h ''-''" "\<not> startswith h ''+''"
    using no startswith_Cons_char by blast+
  moreover have "\<not> startswith h ''0x''" "\<not> startswith h ''0X''"
    using no by (auto simp: startswith_iff)
  moreover have "split_on CHR ''_'' h = [h]"
    using no(5) by (rule split_on_single)
  moreover have "list_all (is_base_digit 16) h"
    using h hex_lower_not by (auto simp: list_all_iff)
  ultimately show ?thesis
    using assms(1) by (simp add: py_int_def parse_unsigned_def parse_digits_def drop_prefix16_def Let_def)
qed

lemma uuid_str_set: "c \<in> set (uuid_str n) \<Longrightarrow> c = CHR ''-'' \<or> hex_lower c"
  by (auto simp: uuid_str_def uuid_hex_def Let_def dest!: in_set_takeD in_set_dropD hex_fixed_chars)

lemma uuid_str_filter: "filter (\<lambda>c. c \<noteq> CHR ''-'') (uuid_str n) = uuid_hex n"
proof -
  let ?h = "uuid_hex n" and ?P = "\<lambda>c. c \<noteq> CHR ''-''"
  have P: "?P c" if "c \<in> set ?h" for c
    using that hex_fixed_chars hex_lower_not by (auto simp: uuid_hex_def)
  then have f: "filter ?P (take k (drop m ?h)) = take k (drop m ?h)" for k m
    by (intro filter_True) (auto dest!: in_set_takeD in_set_dropD)
  have fd: "filter ?P (drop m ?h) = drop m ?h" for m
    using P by (intro filter_True) (auto dest!: in_set_dropD)
  have "take 20 ?h = take 8 ?h @ take 4 (drop 8 ?h) @ take 4 (drop 12 ?h) @ take 4 (drop 16 ?h)"
    using take_add [of 8 4 ?h] take_add [of 12 4 ?h] take_add [of 16 4 ?h] by simp
  then have "take 8 ?h @ take 4 (drop 8 ?h) @ take 4 (drop 12 ?h) @ take 4 (drop 16 ?h) @ drop 20 ?h = ?h"
    by (metis append.assoc append_take_drop_id)
  then show ?thesis
    using f [of 8 0] f [of 4] fd by (simp add: uuid_str_def Let_def)
qed

lemma uuid_parse_str: "n < 2 ^ 128 \<Longrightarrow> uuid_parse (uuid_str n) = Some n"
proof -
  assume n: "n < 2 ^ 128"
  have nu: "CHR ''u'' \<notin> set (uuid_str n)"
    using uuid_str_set hex_lower_not by fastforce
  have st: "strip_chars ''{}'' (uuid_str n) = uuid_str n"
    using uuid_str_set hex_lower_not by (intro strip_chars_id) fastforce
  have ne: "uuid_hex n \<noteq> []"
    using length_hex_fixed [of 32 n] by (auto simp: uuid_hex_def simp del: length_hex_fixed)
  have "py_int 16 (uuid_hex n) = Some (int (digits_value 16 (uuid_hex n)))"
    using ne hex_fixed_chars by (intro py_int_hex) (auto simp: uuid_hex_def)
  then have "py_int 16 (uuid_hex n) = Some (int n)"
    using n by (simp add: uuid_hex_def digits_value_hex_fixed del: hex_fixed.simps)
  then show ?thesis
    using n nu st by (simp add: uuid_parse_def replace_all_absent uuid_str_filter Let_def
      uuid_hex_def del: hex_fixed.simps)
qed

end
