(* ===== verification/Models.thy ===== *)
theory Models
  imports Policy Literals
begin

text \<open>
  The data the admin works on: columns and mapped classes as SQLAlchemy's inspection reports
  them, rows, the request session over the tables, and the \<open>ModelAdmin\<close> of
  \<open>src/asterion/registry/admin.py\<close> and the \<open>InlineAdmin\<close> of
  \<open>src/asterion/admin/inline.py\<close> as records of their attributes and hooks, with the
  attributes they compute (\<open>all_protected\<close>, \<open>label_field\<close>, the display labels) and the static
  field permission of \<open>src/asterion/admin/policy.py\<close>.

  A column type is the list of SQLAlchemy classes it is an instance of, its class name and its
  \<open>python_type\<close>, all of which the library supplies.
\<close>

section \<open>Columns, mapped classes, rows\<close>

datatype sa_class = SaGUID | SaBoolean | SaDateTime | SaDate | SaTime | SaFloat | SaNumeric
  | SaInteger | SaEnum | SaJSON | SaText | SaString | SaFile

datatype py_type = PyInt | PyBool | PyUuid | PyStr | PyOther string

record column =
  col_name :: string
  col_classes :: "sa_class list"
  col_type_name :: string
  col_py_type :: "py_type option"
  col_length :: "int option"
  col_enums :: "string list"
  col_primary_key :: bool
  col_nullable :: bool
  col_has_default :: bool
  col_foreign_keys :: "(string \<times> string \<times> string) list"

record sa_model =
  mo_tablename :: string
  mo_schema :: "string option"
  mo_class :: string
  mo_tenant_base :: bool
  mo_columns :: "column list"

definition table_key :: "sa_model \<Rightarrow> string" where
  "table_key m = (case mo_schema m of None \<Rightarrow> mo_tablename m
     | Some s \<Rightarrow> s @ ''.'' @ mo_tablename m)"

definition column_names :: "sa_model \<Rightarrow> string list" where
  "column_names m = map col_name (mo_columns m)"

definition find_column :: "sa_model \<Rightarrow> string \<Rightarrow> column option" where
  "find_column m n = find (\<lambda>c. col_name c = n) (mo_columns m)"

definition primary_keys :: "sa_model \<Rightarrow> column list" where
  "primary_keys m = filter col_primary_key (mo_columns m)"

definition getattr :: "row \<Rightarrow> string \<Rightarrow> pyval" where
  "getattr r n = (case map_of r n of Some v \<Rightarrow> v | None \<Rightarrow> VNone)"

definition setattr :: "string \<Rightarrow> pyval \<Rightarrow> row \<Rightarrow> row" where
  "setattr n v r = AList.update n v r"

definition setattrs :: "row \<Rightarrow> row \<Rightarrow> row" where
  "setattrs changes r = foldl (\<lambda>acc (k, v). setattr k v acc) r changes"

section \<open>The session\<close>

text \<open>The tables a request session sees, and how many column defaults have been drawn.\<close>

record session =
  se_tables :: "(string \<times> row list) list"
  se_drawn :: nat

definition table_rows :: "session \<Rightarrow> string \<Rightarrow> row list" where
  "table_rows s t = (case map_of (se_tables s) t of None \<Rightarrow> [] | Some rs \<Rightarrow> rs)"

definition set_rows :: "string \<Rightarrow> row list \<Rightarrow> session \<Rightarrow> session" where
  "set_rows t rs s = s\<lparr>se_tables := AList.update t rs (se_tables s)\<rparr>"

text \<open>What the database and its driver add: the value of a column default, the constraint
  check of a flush (constraints, and values a column type cannot bind), the comparison of a stored
  value with a filter's, the order of two stored values and the match of an \<open>ILIKE\<close> pattern.\<close>

record db_env =
  env_default :: "nat \<Rightarrow> string \<Rightarrow> column \<Rightarrow> pyval"
  env_check :: "session \<Rightarrow> exn option"
  env_eq :: "column \<Rightarrow> pyval \<Rightarrow> pyval \<Rightarrow> bool"
  env_le :: "pyval \<Rightarrow> pyval \<Rightarrow> bool"
  env_ilike :: "string \<Rightarrow> string \<Rightarrow> bool"

type_synonym 'a db = "(session, 'a) proc"

definition flush :: "db_env \<Rightarrow> unit db" where
  "flush env = (\<lambda>s. (case env_check env s of None \<Rightarrow> Inr () | Some e \<Rightarrow> Inl e, s))"

text \<open>\<open>GUID.process_bind_param\<close> of \<open>src/asterion/models/base.py\<close>: a value for a UUID column is
  read as a UUID.  In a query a value that is not one raises; on a write it is left for the
  flush check to refuse.\<close>

definition bind_param :: "column \<Rightarrow> pyval \<Rightarrow> pyval res" where
  "bind_param c v =
    (if SaGUID \<in> set (col_classes c)
     then (case v of VNone \<Rightarrow> Inr VNone | VUuid u \<Rightarrow> Inr (VUuid u)
       | _ \<Rightarrow> (case uuid_parse (py_str v) of
           Some u \<Rightarrow> Inr (VUuid u)
         | None \<Rightarrow> Inl (PyExc (OtherExc ''StatementError'') ''badly formed hexadecimal UUID string'')))
     else Inr v)"

definition bound :: "column \<Rightarrow> pyval \<Rightarrow> pyval" where
  "bound c v = (case bind_param c v of Inr w \<Rightarrow> w | Inl _ \<Rightarrow> v)"

text \<open>\<open>model(**values)\<close>, \<open>session.add\<close>, \<open>flush\<close> and \<open>refresh\<close>: the row gets a value for every
  column, from the payload or from the default.\<close>

definition build_row :: "db_env \<Rightarrow> nat \<Rightarrow> sa_model \<Rightarrow> row \<Rightarrow> row" where
  "build_row env n m values =
     map (\<lambda>c. (col_name c, case map_of values (col_name c) of
        Some v \<Rightarrow> bound c v | None \<Rightarrow> env_default env n (table_key m) c)) (mo_columns m)"

definition add_row :: "db_env \<Rightarrow> sa_model \<Rightarrow> row \<Rightarrow> row db" where
  "add_row env m values = (\<lambda>s.
     let r = build_row env (se_drawn s) m values in
     (Inr r, (set_rows (table_key m) (table_rows s (table_key m) @ [r]) s)
       \<lparr>se_drawn := Suc (se_drawn s)\<rparr>))"

text \<open>The persisted row of an object is the one with its primary key.\<close>

definition pk_values :: "sa_model \<Rightarrow> row \<Rightarrow> pyval list" where
  "pk_values m r = map (\<lambda>c. getattr r (col_name c)) (primary_keys m)"

definition same_row :: "sa_model \<Rightarrow> row \<Rightarrow> row \<Rightarrow> bool" where
  "same_row m r r' = (pk_values m r = pk_values m r')"

definition store_row :: "sa_model \<Rightarrow> row \<Rightarrow> row \<Rightarrow> unit db" where
  "store_row m old new = modify (\<lambda>s. set_rows (table_key m)
     (map (\<lambda>r. if same_row m r old then new else r) (table_rows s (table_key m))) s)"

definition delete_row :: "sa_model \<Rightarrow> row \<Rightarrow> unit db" where
  "delete_row m old = modify (\<lambda>s. set_rows (table_key m)
     (filter (\<lambda>r. \<not> same_row m r old) (table_rows s (table_key m))) s)"

text \<open>\<open>setattr\<close> of each change on a mapped object: only its columns are persisted.\<close>

definition apply_changes :: "sa_model \<Rightarrow> row \<Rightarrow> row \<Rightarrow> row" where
  "apply_changes m changes r = setattrs
     (map (\<lambda>(k, v). (k, case find_column m k of Some c \<Rightarrow> bound c v | None \<Rightarrow> v))
       (filter (\<lambda>e. fst e \<in> set (column_names m)) changes)) r"

text \<open>\<open>select(model).where(pk == value)\<close> with \<open>scalar_one_or_none\<close>.\<close>

definition find_by_pk :: "sa_model \<Rightarrow> column \<Rightarrow> pyval \<Rightarrow> row option db" where
  "find_by_pk m pk v = (\<lambda>s. case bind_param pk v of
     Inl e \<Rightarrow> (Inl e, s)
   | Inr w \<Rightarrow> (Inr (find (\<lambda>r. getattr r (col_name pk) = w) (table_rows s (table_key m))), s))"

section \<open>\<open>ModelAdmin\<close> and \<open>InlineAdmin\<close>\<close>

record inline_admin =
  in_model :: sa_model
  in_fk_name :: "string option"
  in_fields :: "string list"
  in_readonly_fields :: "string list"
  in_ordering :: "string list"
  in_max_num :: "int option"
  in_can_delete :: bool
  in_value_field :: "string option"
  in_policy :: "admin_policy option"
  in_label :: "string option"
  in_resolve_options :: "admin_ctx \<Rightarrow> string option \<Rightarrow> int \<Rightarrow> (string \<times> string) list option db"

record action_decl =
  ac_name :: pyval

record model_admin =
  ma_model :: sa_model
  ma_label :: "string option"
  ma_label_plural :: "string option"
  ma_list_display :: "string list"
  ma_search_fields :: "string list"
  ma_ordering :: "string list"
  ma_readonly_fields :: "string list"
  ma_protected_fields :: "string list"
  ma_actions :: "action_decl list"
  ma_filter_fields :: "string list"
  ma_date_hierarchy :: "string option"
  ma_platform_only :: bool
  ma_policy :: "admin_policy option"
  ma_inlines :: "inline_admin list"
  ma_calculated_fields :: "(string \<times> (row \<Rightarrow> pyval res)) list"
  ma_display_field :: "string option"
  ma_singleton :: bool
  ma_before_validate :: "row \<Rightarrow> admin_ctx \<Rightarrow> row res"
  ma_validate_create :: "row \<Rightarrow> admin_ctx \<Rightarrow> unit res"
  ma_before_create :: "row \<Rightarrow> admin_ctx \<Rightarrow> row res"
  ma_after_create :: "row \<Rightarrow> admin_ctx \<Rightarrow> unit db"
  ma_validate_update :: "row \<Rightarrow> row \<Rightarrow> admin_ctx \<Rightarrow> unit res"
  ma_before_update :: "row \<Rightarrow> row \<Rightarrow> admin_ctx \<Rightarrow> row res"
  ma_after_update :: "row \<Rightarrow> row \<Rightarrow> admin_ctx \<Rightarrow> unit db"
  ma_before_delete :: "row \<Rightarrow> admin_ctx \<Rightarrow> unit db"
  ma_after_delete :: "row \<Rightarrow> admin_ctx \<Rightarrow> unit db"
  ma_resolve_list_labels :: "row list \<Rightarrow> admin_ctx option
    \<Rightarrow> (string \<times> (string \<times> string) list) list db"
  ma_resolve_fk_options :: "string \<Rightarrow> admin_ctx \<Rightarrow> string option \<Rightarrow> int
    \<Rightarrow> (string \<times> string) list option db"

text \<open>A \<open>ModelAdmin\<close> subclass that declares nothing: the class defaults and the no-op hooks.\<close>

definition ModelAdmin :: "sa_model \<Rightarrow> model_admin" where
  "ModelAdmin m = \<lparr>
     ma_model = m, ma_label = None, ma_label_plural = None,
     ma_list_display = [], ma_search_fields = [], ma_ordering = [],
     ma_readonly_fields = [], ma_protected_fields = [], ma_actions = [], ma_filter_fields = [],
     ma_date_hierarchy = None, ma_platform_only = False, ma_policy = None, ma_inlines = [],
     ma_calculated_fields = [], ma_display_field = None, ma_singleton = False,
     ma_before_validate = (\<lambda>data ctx. Inr data),
     ma_validate_create = (\<lambda>data ctx. Inr ()),
     ma_before_create = (\<lambda>data ctx. Inr data),
     ma_after_create = (\<lambda>obj ctx. ret ()),
     ma_validate_update = (\<lambda>obj data ctx. Inr ()),
     ma_before_update = (\<lambda>obj data ctx. Inr data),
     ma_after_update = (\<lambda>obj changes ctx. ret ()),
     ma_before_delete = (\<lambda>obj ctx. ret ()),
     ma_after_delete = (\<lambda>obj ctx. ret ()),
     ma_resolve_list_labels = (\<lambda>objs ctx. ret []),
     ma_resolve_fk_options = (\<lambda>field ctx q limit. ret None) \<rparr>"

definition model_name :: "model_admin \<Rightarrow> string" where
  "model_name a = mo_tablename (ma_model a)"

definition inline_model_name :: "inline_admin \<Rightarrow> string" where
  "inline_model_name i = mo_tablename (in_model i)"

text \<open>Python's \<open>x or y\<close> on an optional string.\<close>

definition or_str :: "string option \<Rightarrow> string \<Rightarrow> string" where
  "or_str x y = (case x of None \<Rightarrow> y | Some s \<Rightarrow> if s = [] then y else s)"

definition display_label :: "model_admin \<Rightarrow> string" where
  "display_label a = or_str (ma_label a) (mo_class (ma_model a))"

definition display_label_plural :: "model_admin \<Rightarrow> string" where
  "display_label_plural a = or_str (ma_label_plural a) (display_label a @ ''s'')"

definition inline_display_label :: "inline_admin \<Rightarrow> string" where
  "inline_display_label i = or_str (in_label i) (mo_class (in_model i))"

definition all_protected :: "string list \<Rightarrow> model_admin \<Rightarrow> string set" where
  "all_protected registry a = set registry \<union> set (ma_protected_fields a)"

definition LABEL_FIELD_CANDIDATES :: "string list" where
  "LABEL_FIELD_CANDIDATES = [''name'', ''title'', ''label'', ''display_name'', ''email'',
     ''slug'', ''username'', ''code'', ''key'']"

text \<open>The last resort, \<open>next(iter(column_names))\<close>, is some column of a set: the model takes the
  first declared one.\<close>

definition label_fallback :: "model_admin \<Rightarrow> string list \<Rightarrow> string option \<Rightarrow> string" where
  "label_fallback a names pk_name =
    (case find (\<lambda>c. c \<in> set names) LABEL_FIELD_CANDIDATES of
       Some c \<Rightarrow> c
     | None \<Rightarrow> (case find (\<lambda>n. n \<in> set names \<and> Some n \<noteq> pk_name) (ma_list_display a) of
         Some n \<Rightarrow> n
       | None \<Rightarrow> or_str pk_name (hd names)))"

definition label_field :: "model_admin \<Rightarrow> string" where
  "label_field a =
    (let names = column_names (ma_model a);
         pk = primary_keys (ma_model a);
         pk_name = (if length pk = 1 then Some (col_name (hd pk)) else None);
         d = (case ma_display_field a of None \<Rightarrow> [] | Some d \<Rightarrow> d)
     in if d \<noteq> [] \<and> d \<in> set names then d else label_fallback a names pk_name)"

definition AUTO_READONLY :: "string list" where
  "AUTO_READONLY = [''id'', ''created_at'', ''updated_at'', ''created_by'', ''updated_by'',
     ''deleted_at'']"

definition static_field_permission :: "string list \<Rightarrow> model_admin \<Rightarrow> string \<Rightarrow> field_permission" where
  "static_field_permission registry a field =
    (if field \<in> all_protected registry a then FP_HIDDEN
     else if field \<in> fst ` set (ma_calculated_fields a) then FP_READ
     else if field \<in> set (ma_readonly_fields a) \<or> field \<in> set AUTO_READONLY then FP_READ
     else FP_WRITE)"

section \<open>Lemmas\<close>

lemma getattr_setattr [simp]:
  "getattr (setattr n v r) m = (if m = n then v else getattr r m)"
  by (simp add: getattr_def setattr_def update_conv)

lemma setattrs_Nil [simp]: "setattrs [] r = r"
  by (simp add: setattrs_def)

lemma setattrs_Cons: "setattrs ((k, v) # cs) r = setattrs cs (setattr k v r)"
  by (simp add: setattrs_def)

lemma getattr_setattrs_other: "m \<notin> fst ` set cs \<Longrightarrow> getattr (setattrs cs r) m = getattr r m"
  by (induction cs arbitrary: r) (auto simp: setattrs_Cons)

lemma getattr_setattrs:
  "distinct (map fst cs) \<Longrightarrow> (k, v) \<in> set cs \<Longrightarrow> getattr (setattrs cs r) k = v"
  by (induction cs arbitrary: r) (auto simp: setattrs_Cons getattr_setattrs_other)

lemma table_rows_set_rows [simp]:
  "table_rows (set_rows t rs s) t' = (if t' = t then rs else table_rows s t')"
  by (simp add: table_rows_def set_rows_def update_conv)

lemma table_rows_drawn [simp]: "table_rows (s\<lparr>se_drawn := n\<rparr>) t = table_rows s t"
  by (simp add: table_rows_def)

lemma label_field_is_column:
  assumes "mo_columns (ma_model a) \<noteq> []"
  shows "label_field a \<in> set (column_names (ma_model a))"
proof -
  let ?names = "column_names (ma_model a)"
  have ne: "?names \<noteq> []" using assms by (simp add: column_names_def)
  have sub: "set (primary_keys (ma_model a)) \<subseteq> set (mo_columns (ma_model a))"
    by (auto simp: primary_keys_def)
  have pk: "col_name (hd (primary_keys (ma_model a))) \<in> set ?names"
    if "length (primary_keys (ma_model a)) = 1"
  proof -
    from that have "primary_keys (ma_model a) \<noteq> []" by auto
    then show ?thesis using sub hd_in_set by (fastforce simp: column_names_def)
  qed
  have "pn = None \<or> the pn \<in> set ?names \<Longrightarrow> label_fallback a ?names pn \<in> set ?names" for pn
    using ne by (auto simp: label_fallback_def or_str_def find_Some_iff split: option.splits)
  with pk show ?thesis
    by (simp add: label_field_def Let_def)
qed

end
