(* ===== verification/Payload.thy ===== *)
theory Payload
  imports Models
begin

text \<open>
  The write schema of an admin (\<open>src/asterion/schemas/builder.py\<close>, \<open>fields.py\<close>) and the checks
  a write payload goes through (\<open>src/asterion/crud/payload.py\<close>): unknown and non-writable
  names, UUID columns, ISO dates.  The ISO-8601 parsers of \<open>datetime\<close>, \<open>date\<close> and \<open>time\<close> are
  parameters that return the parsed value or nothing where the library raises \<open>ValueError\<close>.
\<close>

section \<open>Schema\<close>

record field_info =
  fi_name :: string
  fi_primary_key :: bool
  fi_hidden :: bool
  fi_read_only :: bool

record admin_schema =
  as_model_name :: string
  as_fields :: "field_info list"

definition build_model_schema :: "string list \<Rightarrow> model_admin \<Rightarrow> admin_schema" where
  "build_model_schema registry a =
    (let protected = all_protected registry a in
     \<lparr> as_model_name = model_name a,
       as_fields =
         map (\<lambda>c. \<lparr>fi_name = col_name c, fi_primary_key = col_primary_key c, fi_hidden = False,
                   fi_read_only = (col_primary_key c \<or> col_name c \<in> set (ma_readonly_fields a))\<rparr>)
           (filter (\<lambda>c. col_name c \<notin> protected) (mo_columns (ma_model a)))
         @ map (\<lambda>f. \<lparr>fi_name = fst f, fi_primary_key = False, fi_hidden = False,
                     fi_read_only = True\<rparr>) (ma_calculated_fields a) \<rparr>)"

definition known_field_names :: "admin_schema \<Rightarrow> string list" where
  "known_field_names schema = map fi_name (as_fields schema)"

definition writable_field_names :: "admin_schema \<Rightarrow> string list" where
  "writable_field_names schema = map fi_name (filter (\<lambda>f. \<not> fi_hidden f \<and> \<not> fi_read_only f
     \<and> \<not> fi_primary_key f \<and> fi_name f \<notin> set AUTO_READONLY) (as_fields schema))"

section \<open>Checks\<close>

text \<open>The 422 of a write check, with the sorted names of the fields at fault.\<close>

definition field_error :: "string \<Rightarrow> string list \<Rightarrow> exn" where
  "field_error msg names = HTTPExc 422
     (VDict [(''message'', VStr msg), (''fields'', VList (map VStr (sort (remdups names))))]) []"

definition clean_write_payload :: "row \<Rightarrow> admin_schema \<Rightarrow> bool \<Rightarrow> row res" where
  "clean_write_payload payload schema partial =
    (let known = known_field_names schema;
         writable = writable_field_names schema;
         incoming = map fst payload;
         unknown = filter (\<lambda>k. k \<notin> set known) incoming;
         forbidden = filter (\<lambda>k. k \<notin> set writable) incoming;
         cleaned = filter (\<lambda>e. fst e \<in> set writable) payload
     in if unknown \<noteq> [] then Inl (field_error ''Payload contains unknown fields.'' unknown)
        else if forbidden \<noteq> []
        then Inl (field_error ''Payload contains non-writable fields.'' forbidden)
        else if \<not> partial \<and> cleaned = []
        then Inl (http 422 ''Create payload must contain at least one writable field.'')
        else Inr cleaned)"

definition is_uuid_value :: "pyval \<Rightarrow> bool" where
  "is_uuid_value v = (case v of VUuid _ \<Rightarrow> True | _ \<Rightarrow> uuid_parse (py_str v) \<noteq> None)"

definition bad_uuid_field :: "sa_model \<Rightarrow> string \<times> pyval \<Rightarrow> bool" where
  "bad_uuid_field model e =
    (snd e \<noteq> VNone \<and> (case find_column model (fst e) of
        None \<Rightarrow> False
      | Some c \<Rightarrow> SaGUID \<in> set (col_classes c) \<and> \<not> is_uuid_value (snd e)))"

definition validate_uuid_fields :: "row \<Rightarrow> sa_model \<Rightarrow> unit res" where
  "validate_uuid_fields cleaned model =
    (let bad = map fst (filter (bad_uuid_field model) cleaned) in
     guard (bad = []) (field_error ''Invalid UUID value for field(s).'' bad))"

record iso_parsers =
  ip_datetime :: "string \<Rightarrow> pyval option"
  ip_date :: "string \<Rightarrow> pyval option"
  ip_time :: "string \<Rightarrow> pyval option"
  ip_date_of :: "pyval \<Rightarrow> pyval"

definition parse_datetime :: "iso_parsers \<Rightarrow> string \<Rightarrow> pyval option" where
  "parse_datetime ip text =
     ip_datetime ip (if endswith text ''Z'' \<or> endswith text ''z''
       then butlast text @ ''+00:00'' else text)"

definition parse_date :: "iso_parsers \<Rightarrow> string \<Rightarrow> pyval option" where
  "parse_date ip text = (case ip_date ip text of
     Some d \<Rightarrow> Some d
   | None \<Rightarrow> map_option (ip_date_of ip) (parse_datetime ip text))"

definition parse_time :: "iso_parsers \<Rightarrow> string \<Rightarrow> pyval option" where
  "parse_time ip text = ip_time ip text"

text \<open>One round of the loop of \<open>coerce_temporal_fields\<close>: \<open>None\<close> leaves the value, \<open>Some None\<close>
  marks the field as bad and \<open>Some (Some v)\<close> replaces the value.\<close>

definition coerce_temporal_value :: "iso_parsers \<Rightarrow> sa_model \<Rightarrow> string \<times> pyval \<Rightarrow> pyval option option" where
  "coerce_temporal_value ip model e =
    (case snd e of
       VStr value \<Rightarrow> (case find_column model (fst e) of
           None \<Rightarrow> None
         | Some c \<Rightarrow>
             let cls = set (col_classes c); text = strip value in
             if cls \<inter> {SaDate, SaDateTime, SaTime} = {} then None
             else if text = [] then Some (Some VNone)
             else Some (if SaDateTime \<in> cls then parse_datetime ip text
                        else if SaDate \<in> cls then parse_date ip text
                        else parse_time ip text))
     | _ \<Rightarrow> None)"

definition coerce_entry :: "iso_parsers \<Rightarrow> sa_model \<Rightarrow> string \<times> pyval \<Rightarrow> string \<times> pyval" where
  "coerce_entry ip model e = (case coerce_temporal_value ip model e of
     Some (Some v) \<Rightarrow> (fst e, v) | _ \<Rightarrow> e)"

definition coerce_temporal_fields :: "iso_parsers \<Rightarrow> row \<Rightarrow> sa_model \<Rightarrow> row res" where
  "coerce_temporal_fields ip cleaned model =
    (let bad = map fst (filter (\<lambda>e. coerce_temporal_value ip model e = Some None) cleaned) in
     if bad \<noteq> [] then Inl (field_error ''Invalid date/time value for field(s).'' bad)
     else Inr (map (coerce_entry ip model) cleaned))"

definition prepare_write_payload ::
    "iso_parsers \<Rightarrow> row \<Rightarrow> admin_schema \<Rightarrow> sa_model \<Rightarrow> bool \<Rightarrow> row res" where
  "prepare_write_payload ip payload schema model partial =
     rbind (clean_write_payload payload schema partial) (\<lambda>cleaned.
     rbind (validate_uuid_fields cleaned model) (\<lambda>_.
     coerce_temporal_fields ip cleaned model))"

section \<open>Lemmas\<close>

lemma clean_Inr:
  "clean_write_payload payload schema partial = Inr cleaned \<longleftrightarrow>
     cleaned = payload \<and> set (map fst payload) \<subseteq> set (writable_field_names schema)
     \<and> (partial \<or> payload \<noteq> [])"
proof -
  have sub: "set (writable_field_names schema) \<subseteq> set (known_field_names schema)"
    by (auto simp: writable_field_names_def known_field_names_def)
  have "filter (\<lambda>e. fst e \<in> set (writable_field_names schema)) payload = payload"
    if "set (map fst payload) \<subseteq> set (writable_field_names schema)"
    using that by (intro filter_True) auto
  then show ?thesis
    using sub by (auto simp: clean_write_payload_def Let_def filter_empty_conv split: if_splits)
qed

lemma fst_coerce_entry [simp]: "fst (coerce_entry ip m e) = fst e"
  by (auto simp: coerce_entry_def split: option.splits)

lemma prepare_Inr_keys:
  assumes "prepare_write_payload ip payload schema model partial = Inr cleaned"
  shows "map fst cleaned = map fst payload"
    and "set (map fst cleaned) \<subseteq> set (writable_field_names schema)"
proof -
  from assms obtain c where c: "clean_write_payload payload schema partial = Inr c"
    "coerce_temporal_fields ip c model = Inr cleaned"
    by (auto simp: prepare_write_payload_def res_simps)
  then have "c = payload" and w: "set (map fst payload) \<subseteq> set (writable_field_names schema)"
    by (auto simp: clean_Inr)
  then show k: "map fst cleaned = map fst payload"
    using c(2) by (auto simp: coerce_temporal_fields_def Let_def split: if_splits)
  show "set (map fst cleaned) \<subseteq> set (writable_field_names schema)"
    unfolding k by (rule w)
qed

text \<open>The static field class decides what a write can name.\<close>

lemma writable_is_static_write:
  "f \<in> set (writable_field_names (build_model_schema reg a)) \<Longrightarrow>
     f \<in> set (column_names (ma_model a)) \<and> f \<notin> all_protected reg a
     \<and> f \<notin> set (ma_readonly_fields a) \<and> f \<notin> set AUTO_READONLY"
  by (auto simp: writable_field_names_def build_model_schema_def column_names_def Let_def)

lemma prepare_uuid_ok:
  assumes "prepare_write_payload ip payload schema model partial = Inr cleaned"
    and "e \<in> set payload" "snd e \<noteq> VNone"
    and "find_column model (fst e) = Some c" "SaGUID \<in> set (col_classes c)"
  shows "is_uuid_value (snd e)"
proof -
  from assms(1) have "validate_uuid_fields payload model = Inr ()"
    by (auto simp: prepare_write_payload_def res_simps clean_Inr)
  then have "\<not> bad_uuid_field model e"
    using assms(2) by (auto simp: validate_uuid_fields_def Let_def res_simps filter_empty_conv)
  then show ?thesis using assms(3-5) by (simp add: bad_uuid_field_def)
qed

end
