(* ===== verification/Query.thy ===== *)
theory Query
  imports Models
begin

text \<open>
  \<open>src/asterion/crud/query.py\<close>: pagination bounds, the primary key of a model, coercion of
  query-string values, ordering, filters, date drill-down and search, as a statement that is
  data, and what the database returns for it.
\<close>

section \<open>Primary keys and coercion\<close>

definition normalize_limit_offset :: "int \<Rightarrow> int \<Rightarrow> (int \<times> int) res" where
  "normalize_limit_offset limit offset =
     validate_limit_offset (VInt limit) (VInt offset) MAX_PAGE_LIMIT DEFAULT_PAGE_LIMIT"

definition primary_key_column :: "sa_model \<Rightarrow> column res" where
  "primary_key_column m = (case primary_keys m of
     [c] \<Rightarrow> Inr c
   | _ \<Rightarrow> Inl (PyExc RuntimeError
       (''CRUD only supports models with exactly one primary key: '' @ mo_class m)))"

definition coerce_str_to_column_type ::
    "column \<Rightarrow> string \<Rightarrow> bool \<Rightarrow> string \<Rightarrow> string \<Rightarrow> pyval res" where
  "coerce_str_to_column_type c raw allow_bool int_error uuid_error =
    (case col_py_type c of
       None \<Rightarrow> Inr (VStr raw)
     | Some t \<Rightarrow>
         if allow_bool \<and> t = PyBool
         then (let v = lower (strip raw) in
               if v \<in> {''true'', ''1'', ''yes'', ''on''} then Inr (VBool True)
               else if v \<in> {''false'', ''0'', ''no'', ''off''} then Inr (VBool False)
               else Inl (http 422 (''Filter value for '' @ repr_str (col_name c)
                                   @ '' must be a boolean.'')))
         else if t = PyInt
         then (case py_int 10 raw of Some i \<Rightarrow> Inr (VInt i) | None \<Rightarrow> Inl (http 422 int_error))
         else if t = PyUuid
         then (case uuid_parse raw of Some u \<Rightarrow> Inr (VUuid u) | None \<Rightarrow> Inl (http 422 uuid_error))
         else Inr (VStr raw))"

definition coerce_primary_key_value :: "sa_model \<Rightarrow> string \<Rightarrow> pyval res" where
  "coerce_primary_key_value m value =
     rbind (primary_key_column m) (\<lambda>pk.
     coerce_str_to_column_type pk value False
       ''Invalid integer primary key.'' ''Invalid UUID primary key.'')"

definition get_model_column :: "sa_model \<Rightarrow> string \<Rightarrow> column res" where
  "get_model_column m field_name = (case find_column m field_name of
     Some c \<Rightarrow> Inr c
   | None \<Rightarrow> Inl (PyExc ValueError
       (''Unknown column for model '' @ mo_class m @ '': '' @ field_name)))"

section \<open>Statements\<close>

datatype pred =
    PEq column pyval
  | PRange column pyval pyval
  | PSearch "column list" string
  | PIn column "pyval list"

record stmt =
  st_where :: "pred list"
  st_order :: "(column \<times> bool) list"

definition select_all :: stmt where
  "select_all = \<lparr>st_where = [], st_order = []\<rparr>"

definition descending :: "string \<Rightarrow> bool" where
  "descending item = startswith item ''-''"

definition order_field :: "string \<Rightarrow> string" where
  "order_field item = (if descending item then drop 1 item else item)"

definition order_clause :: "model_admin \<Rightarrow> string \<Rightarrow> (column \<times> bool) res" where
  "order_clause a item =
    (let f = order_field item in
     if f \<notin> set (column_names (ma_model a))
     then Inl (PyExc RuntimeError (''ordering contains unknown field: '' @ f))
     else rbind (get_model_column (ma_model a) f) (\<lambda>c. Inr (c, descending item)))"

definition default_ordering :: "model_admin \<Rightarrow> column \<Rightarrow> (column \<times> bool) list res" where
  "default_ordering a pk =
    (if ma_ordering a = [] then Inr [(pk, False)] else mapM (order_clause a) (ma_ordering a))"

definition apply_ordering :: "stmt \<Rightarrow> model_admin \<Rightarrow> string option \<Rightarrow> stmt res" where
  "apply_ordering st a order_param =
     rbind (primary_key_column (ma_model a)) (\<lambda>pk.
     let item = (case order_param of None \<Rightarrow> [] | Some s \<Rightarrow> s) in
     rbind (if item \<noteq> [] \<and> order_field item \<in> set (column_names (ma_model a))
            then rbind (get_model_column (ma_model a) (order_field item)) (\<lambda>c.
              Inr (if order_field item = col_name pk then [(c, descending item)]
                   else [(c, descending item), (pk, False)]))
            else default_ordering a pk)
     (\<lambda>clauses. Inr (st\<lparr>st_order := st_order st @ clauses\<rparr>)))"

definition FILTER_PARAM_PREFIX :: string where "FILTER_PARAM_PREFIX = ''filter_''"

definition parse_filter_query :: "(string \<times> string) list \<Rightarrow> model_admin \<Rightarrow> (string \<times> string) list res" where
  "parse_filter_query items a =
    (let tagged = map (\<lambda>(k, v). (drop (length FILTER_PARAM_PREFIX) k, v))
                    (filter (\<lambda>e. startswith (fst e) FILTER_PARAM_PREFIX) items);
         unknown = filter (\<lambda>n. n \<notin> set (ma_filter_fields a)) (map fst tagged);
         known = filter (\<lambda>e. fst e \<in> set (ma_filter_fields a)) tagged
     in if unknown \<noteq> []
        then Inl (HTTPExc 422 (VDict [
            (''message'', VStr ''Unknown or unfilterable field(s) in query.''),
            (''fields'', VList (map VStr (sort (remdups unknown))))]) [])
        else Inr (foldl (\<lambda>d (k, v). AList.update k v d) [] known))"

definition coerce_filter_value :: "column \<Rightarrow> string \<Rightarrow> pyval res" where
  "coerce_filter_value c raw = coerce_str_to_column_type c raw True
     (''Filter value for '' @ repr_str (col_name c) @ '' must be an integer.'')
     (''Filter value for '' @ repr_str (col_name c) @ '' must be a UUID.'')"

definition filter_pred :: "model_admin \<Rightarrow> string \<times> string \<Rightarrow> pred res" where
  "filter_pred a e =
     rbind (get_model_column (ma_model a) (fst e)) (\<lambda>c.
     rbind (coerce_filter_value c (snd e)) (\<lambda>v. Inr (PEq c v)))"

definition apply_filters :: "stmt \<Rightarrow> model_admin \<Rightarrow> (string \<times> string) list \<Rightarrow> stmt res" where
  "apply_filters st a filters =
     rbind (mapM (filter_pred a) filters) (\<lambda>ps. Inr (st\<lparr>st_where := st_where st @ ps\<rparr>))"

section \<open>Dates\<close>

type_synonym ymd = "int \<times> int \<times> int"

definition leap_year :: "int \<Rightarrow> bool" where
  "leap_year y = (y mod 4 = 0 \<and> (y mod 100 \<noteq> 0 \<or> y mod 400 = 0))"

definition days_in_month :: "int \<Rightarrow> int \<Rightarrow> int" where
  "days_in_month y m = (if m = 2 then (if leap_year y then 29 else 28)
     else if m \<in> {4, 6, 9, 11} then 30 else 31)"

text \<open>\<open>datetime(y, m, d)\<close>, which raises outside its ranges.\<close>

definition make_date :: "int \<Rightarrow> int \<Rightarrow> int \<Rightarrow> ymd option" where
  "make_date y m d = (if 1 \<le> y \<and> y \<le> 9999 \<and> 1 \<le> m \<and> m \<le> 12 \<and> 1 \<le> d \<and> d \<le> days_in_month y m
     then Some (y, m, d) else None)"

text \<open>\<open>start + timedelta(days=1)\<close>, which overflows after the last day of year 9999.\<close>

definition next_day :: "ymd \<Rightarrow> ymd option" where
  "next_day dt = (case dt of (y, m, d) \<Rightarrow>
     if d < days_in_month y m then make_date y m (d + 1)
     else if m < 12 then make_date y (m + 1) 1 else make_date (y + 1) 1 1)"

definition both :: "'a option \<Rightarrow> 'a option \<Rightarrow> ('a \<times> 'a) option" where
  "both x y = (case (x, y) of (Some a, Some b) \<Rightarrow> Some (a, b) | _ \<Rightarrow> None)"

definition parse_date_hierarchy :: "string \<Rightarrow> (ymd \<times> ymd) option" where
  "parse_date_hierarchy value =
    (case map (py_int 10) (split_on CHR ''-'' value) of
       [Some year] \<Rightarrow> both (make_date year 1 1) (make_date (year + 1) 1 1)
     | [Some year, Some month] \<Rightarrow>
         if \<not> (1 \<le> month \<and> month \<le> 12) then None
         else both (make_date year month 1)
           (if month = 12 then make_date (year + 1) 1 1 else make_date year (month + 1) 1)
     | [Some year, Some month, Some day] \<Rightarrow>
         (case make_date year month day of
            None \<Rightarrow> None | Some start \<Rightarrow> both (Some start) (next_day start))
     | _ \<Rightarrow> None)"

definition pad :: "nat \<Rightarrow> int \<Rightarrow> string" where
  "pad k i = (let s = str_nat (nat i) in replicate (k - length s) (CHR ''0'') @ s)"

definition iso_date :: "ymd \<Rightarrow> string" where
  "iso_date dt = (case dt of (y, m, d) \<Rightarrow> pad 4 y @ ''-'' @ pad 2 m @ ''-'' @ pad 2 d)"

definition date_bound :: "column \<Rightarrow> ymd \<Rightarrow> pyval" where
  "date_bound c dt =
    (if SaDate \<in> set (col_classes c) \<and> SaDateTime \<notin> set (col_classes c)
     then VObj ''date'' (iso_date dt) else VDateTime (iso_date dt @ ''T00:00:00''))"

definition apply_date_hierarchy :: "stmt \<Rightarrow> model_admin \<Rightarrow> string option \<Rightarrow> stmt res" where
  "apply_date_hierarchy st a value =
    (let field = (case ma_date_hierarchy a of None \<Rightarrow> [] | Some f \<Rightarrow> f);
         v = (case value of None \<Rightarrow> [] | Some v \<Rightarrow> v) in
     if field = [] \<or> v = [] then Inr st
     else if field \<notin> set (column_names (ma_model a)) then Inr st
     else case parse_date_hierarchy v of
       None \<Rightarrow> Inr st
     | Some (lo, hi) \<Rightarrow> rbind (get_model_column (ma_model a) field) (\<lambda>c.
         Inr (st\<lparr>st_where := st_where st @ [PRange c (date_bound c lo) (date_bound c hi)]\<rparr>)))"

section \<open>Search\<close>

definition search_column :: "model_admin \<Rightarrow> string \<Rightarrow> column res" where
  "search_column a f =
    (if f \<notin> set (column_names (ma_model a))
     then Inl (PyExc RuntimeError (''search_fields contains unknown field: '' @ f))
     else get_model_column (ma_model a) f)"

definition apply_search :: "stmt \<Rightarrow> model_admin \<Rightarrow> string option \<Rightarrow> stmt res" where
  "apply_search st a search =
    (case search of
       None \<Rightarrow> Inr st
     | Some s \<Rightarrow>
         if strip s = [] \<or> ma_search_fields a = [] then Inr st
         else rbind (mapM (search_column a) (ma_search_fields a)) (\<lambda>cs.
           Inr (st\<lparr>st_where := st_where st @ [PSearch cs (''%'' @ strip s @ ''%'')]\<rparr>)))"

section \<open>Execution\<close>

fun holds :: "db_env \<Rightarrow> pred \<Rightarrow> row \<Rightarrow> bool" where
  "holds env (PEq c v) r = env_eq env c (getattr r (col_name c)) v"
| "holds env (PRange c lo hi) r = (let x = getattr r (col_name c) in
     x \<noteq> VNone \<and> env_le env lo x \<and> \<not> env_le env hi x)"
| "holds env (PSearch cs pat) r =
     (\<exists>c \<in> set cs. getattr r (col_name c) \<noteq> VNone \<and> env_ilike env pat (py_str (getattr r (col_name c))))"
| "holds env (PIn c vs) r = (\<exists>v \<in> set vs. env_eq env c (getattr r (col_name c)) v)"

fun row_le :: "db_env \<Rightarrow> (column \<times> bool) list \<Rightarrow> row \<Rightarrow> row \<Rightarrow> bool" where
  "row_le env [] r r' = True"
| "row_le env ((c, desc) # os) r r' =
    (let x = getattr r (col_name c); y = getattr r' (col_name c) in
     if x = y then row_le env os r r' else if desc then env_le env y x else env_le env x y)"

fun insort_by :: "('a \<Rightarrow> 'a \<Rightarrow> bool) \<Rightarrow> 'a \<Rightarrow> 'a list \<Rightarrow> 'a list" where
  "insort_by le x [] = [x]"
| "insort_by le x (y # ys) = (if le x y then x # y # ys else y # insort_by le x ys)"

definition sort_by :: "('a \<Rightarrow> 'a \<Rightarrow> bool) \<Rightarrow> 'a list \<Rightarrow> 'a list" where
  "sort_by le xs = foldr (insort_by le) xs []"

definition matching :: "db_env \<Rightarrow> stmt \<Rightarrow> sa_model \<Rightarrow> session \<Rightarrow> row list" where
  "matching env st m s = filter (\<lambda>r. \<forall>p \<in> set (st_where st). holds env p r) (table_rows s (table_key m))"

text \<open>\<open>execute\<close> of the counted and of the ordered statement, the latter with \<open>LIMIT\<close> and
  \<open>OFFSET\<close>.\<close>

definition count_rows :: "db_env \<Rightarrow> stmt \<Rightarrow> sa_model \<Rightarrow> session \<Rightarrow> nat" where
  "count_rows env st m s = length (matching env st m s)"

definition ordered_rows :: "db_env \<Rightarrow> stmt \<Rightarrow> sa_model \<Rightarrow> session \<Rightarrow> row list" where
  "ordered_rows env st m s = sort_by (row_le env (st_order st)) (matching env st m s)"

definition page_rows :: "db_env \<Rightarrow> stmt \<Rightarrow> sa_model \<Rightarrow> nat \<Rightarrow> nat \<Rightarrow> session \<Rightarrow> row list" where
  "page_rows env st m limit offset s = take limit (drop offset (ordered_rows env st m s))"

definition has_any_row :: "sa_model \<Rightarrow> session \<Rightarrow> bool" where
  "has_any_row m s = (table_rows s (table_key m) \<noteq> [])"

section \<open>Lemmas\<close>

lemma set_insort_by [simp]: "set (insort_by le x ys) = insert x (set ys)"
  by (induction ys) auto

lemma length_insort_by [simp]: "length (insort_by le x ys) = Suc (length ys)"
  by (induction ys) auto

lemma set_sort_by [simp]: "set (sort_by le xs) = set xs"
  by (induction xs) (auto simp: sort_by_def)

lemma length_sort_by [simp]: "length (sort_by le xs) = length xs"
  by (induction xs) (auto simp: sort_by_def)

lemma sorted_insort_by:
  assumes "\<And>x y. le x y \<or> le y x" and "\<And>x y z. le x y \<Longrightarrow> le y z \<Longrightarrow> le x z"
  shows "sorted_wrt le ys \<Longrightarrow> sorted_wrt le (insort_by le x ys)"
proof (induction ys)
  case (Cons y ys)
  show ?case
  proof (cases "le x y")
    case True
    then have "\<forall>z \<in> set ys. le x z" using Cons.prems assms(2) by auto
    then show ?thesis using True Cons.prems by simp
  next
    case False
    then have "le y x" using assms(1) by blast
    then show ?thesis using False Cons by simp
  qed
qed simp

lemma sorted_sort_by:
  assumes "\<And>x y. le x y \<or> le y x" and "\<And>x y z. le x y \<Longrightarrow> le y z \<Longrightarrow> le x z"
  shows "sorted_wrt le (sort_by le xs)"
  by (induction xs) (auto simp: sort_by_def intro: sorted_insort_by [OF assms])

lemma normalize_limit_offset_Inr:
  "normalize_limit_offset limit offset =
     Inr (max 1 (min limit MAX_PAGE_LIMIT), max 0 offset)"
  by (simp add: normalize_limit_offset_def validate_limit_offset_def)

lemma get_model_column_known:
  "f \<in> set (column_names m) \<Longrightarrow> \<exists>c. get_model_column m f = Inr c \<and> col_name c = f"
  by (auto simp: get_model_column_def find_column_def column_names_def find_None_iff find_Some_iff
      split: option.splits)

lemma pages_partition: "concat (map (\<lambda>i. take n (drop (i * n) xs)) [0..<k]) = take (k * n) xs"
proof (induction k)
  case (Suc k)
  have "take (Suc k * n) xs = take (k * n) xs @ take n (drop (k * n) xs)"
    using take_add [of "k * n" n xs] by (simp add: add.commute)
  then show ?case using Suc by simp
qed simp

lemma days_in_month_pos: "1 \<le> days_in_month y m"
  by (simp add: days_in_month_def)

lemma make_date_Some: "make_date y m d = Some dt \<longleftrightarrow> dt = (y, m, d) \<and> 1 \<le> y \<and> y \<le> 9999
   \<and> 1 \<le> m \<and> m \<le> 12 \<and> 1 \<le> d \<and> d \<le> days_in_month y m"
  by (auto simp: make_date_def)

section \<open>Properties\<close>

text \<open>pagination never loses or repeats a row: whatever the requested limit and offset, the page
  size is between 1 and 500 and the offset is not negative, and walking the pages of one size in
  order returns exactly the rows of the ordered statement, which are the matching rows.\<close>

theorem pagination_covers_every_match:
  "\<exists>n k. normalize_limit_offset limit offset = Inr (int n, int k) \<and> 1 \<le> n \<and> n \<le> 500
   \<and> length (page_rows env st m n k s) \<le> n
   \<and> concat (map (\<lambda>i. page_rows env st m n (i * n) s) [0..<count_rows env st m s])
       = ordered_rows env st m s
   \<and> set (ordered_rows env st m s) = set (matching env st m s)
   \<and> length (ordered_rows env st m s) = count_rows env st m s"
proof -
  define n where "n = nat (max 1 (min limit MAX_PAGE_LIMIT))"
  define k where "k = nat (max 0 offset)"
  have n: "int n = max 1 (min limit MAX_PAGE_LIMIT)" "1 \<le> n" "n \<le> 500" "int k = max 0 offset"
    by (auto simp: n_def k_def MAX_PAGE_LIMIT_def)
  have len: "length (ordered_rows env st m s) = count_rows env st m s"
    by (simp add: ordered_rows_def count_rows_def)
  have "concat (map (\<lambda>i. page_rows env st m n (i * n) s) [0..<count_rows env st m s])
      = take (count_rows env st m s * n) (ordered_rows env st m s)"
    unfolding page_rows_def by (rule pages_partition)
  also have "\<dots> = ordered_rows env st m s"
    using len n(2) by (cases n) auto
  finally have "concat (map (\<lambda>i. page_rows env st m n (i * n) s) [0..<count_rows env st m s])
      = ordered_rows env st m s" .
  moreover have "normalize_limit_offset limit offset = Inr (int n, int k)"
    using n by (simp add: normalize_limit_offset_Inr)
  ultimately show ?thesis
    using n len by (intro exI [of _ n] exI [of _ k])
      (simp add: page_rows_def ordered_rows_def)
qed

text \<open>A date drill-down is the half-open period it names: where it parses, the lower end is a
  valid date strictly before the upper end, for a year, a month or a day; the last day of year
  9999 has no upper end and gives no filter.\<close>

definition date_before :: "ymd \<Rightarrow> ymd \<Rightarrow> bool" where
  "date_before p q = (case (p, q) of ((y, m, d), (y', m', d')) \<Rightarrow>
     y < y' \<or> (y = y' \<and> (m < m' \<or> (m = m' \<and> d < d'))))"

lemma next_day_after: "next_day dt = Some dt' \<Longrightarrow> date_before dt dt'"
  by (cases dt) (auto simp: next_day_def make_date_Some date_before_def split: if_splits)

theorem date_hierarchy_is_a_period:
  assumes "parse_date_hierarchy v = Some (lo, hi)"
  shows "date_before lo hi \<and> (case lo of (y, m, d) \<Rightarrow> make_date y m d = Some lo)
    \<and> (case hi of (y, m, d) \<Rightarrow> make_date y m d = Some hi)"
proof -
  have b: "both x y = Some (p, q) \<longleftrightarrow> x = Some p \<and> y = Some q" for x y :: "ymd option" and p q
    by (auto simp: both_def split: option.splits)
  have nd: "next_day dt = Some (y, m, d) \<Longrightarrow> make_date y m d = Some (y, m, d)" for dt y m d
    by (cases dt) (auto simp: next_day_def make_date_Some split: if_splits)
  note [simp] = b make_date_Some
  from assms show ?thesis
    unfolding parse_date_hierarchy_def
    by (auto simp: date_before_def days_in_month_pos dest: next_day_after nd
      split: list.splits option.splits if_splits)
qed

lemma date_hierarchy_is_a_period_witness:
  "date_before (2024, 2, 29) (2024, 3, 1)"
proof -
  have "parse_date_hierarchy ''2024-02-29'' = Some ((2024, 2, 29), (2024, 3, 1))" by code_simp
  from date_hierarchy_is_a_period [OF this] show ?thesis by simp
qed

end
