(* ===== verification/FieldAdapters.thy ===== *)
theory FieldAdapters
  imports Models
begin

text \<open>
  The field adapters of \<open>src/asterion/fields/\<close>: the registry that picks the first adapter
  supporting a column, what each adapter says of a column and how it serialises a value; and
  the record serializer of \<open>src/asterion/schemas/serialization/serializer.py\<close> with the
  caller's hidden fields.
\<close>

section \<open>Adapters\<close>

record field_contract =
  fc_name :: string
  fc_type :: string
  fc_primary_key :: bool
  fc_read_only :: bool
  fc_hidden :: bool
  fc_nullable :: bool
  fc_calculated :: bool
  fc_python_type :: string
  fc_metadata :: "(string \<times> pyval) list"

datatype adapter = ForeignKeyAdapter | FileFieldAdapter | UUIDAdapter | BooleanAdapter
  | DateTimeAdapter | FloatAdapter | IntegerAdapter | EnumAdapter | JSONAdapter | TextAdapter
  | StringAdapter

abbreviation is_a :: "column \<Rightarrow> sa_class \<Rightarrow> bool" where
  "is_a c k \<equiv> k \<in> set (col_classes c)"

definition uuid_typed :: "column \<Rightarrow> bool" where
  "uuid_typed c = (contains (lower (col_type_name c)) ''uuid''
     \<or> contains (lower (col_type_name c)) ''guid'')"

fun supports :: "adapter \<Rightarrow> column \<Rightarrow> bool" where
  "supports ForeignKeyAdapter c = (col_foreign_keys c \<noteq> [])"
| "supports FileFieldAdapter c = is_a c SaFile"
| "supports UUIDAdapter c = uuid_typed c"
| "supports BooleanAdapter c = is_a c SaBoolean"
| "supports DateTimeAdapter c = is_a c SaDateTime"
| "supports FloatAdapter c = (is_a c SaFloat \<or> is_a c SaNumeric)"
| "supports IntegerAdapter c = is_a c SaInteger"
| "supports EnumAdapter c = is_a c SaEnum"
| "supports JSONAdapter c = is_a c SaJSON"
| "supports TextAdapter c = (is_a c SaText \<and> \<not> is_a c SaEnum)"
| "supports StringAdapter c = True"

definition base_contract :: "column \<Rightarrow> string \<Rightarrow> string \<Rightarrow> field_contract" where
  "base_contract c tn py_type = \<lparr>
     fc_name = col_name c, fc_type = tn, fc_primary_key = col_primary_key c,
     fc_read_only = col_primary_key c, fc_hidden = False, fc_nullable = col_nullable c,
     fc_calculated = False, fc_python_type = py_type, fc_metadata = [] \<rparr>"

definition length_metadata :: "column \<Rightarrow> (string \<times> pyval) list" where
  "length_metadata c = (case col_length c of
     Some n \<Rightarrow> if n > 0 then [(''max_length'', VInt n)] else [] | None \<Rightarrow> [])"

definition underlying_scalar_type :: "column \<Rightarrow> string \<times> string" where
  "underlying_scalar_type c =
    (if uuid_typed c then (''uuid'', ''UUID'')
     else if is_a c SaBoolean then (''boolean'', ''bool'')
     else if is_a c SaDateTime then (''datetime'', ''datetime'')
     else if is_a c SaFloat \<or> is_a c SaNumeric then (''float'', ''float'')
     else if is_a c SaInteger then (''integer'', ''int'')
     else (''string'', ''str''))"

definition fk_dict :: "string \<times> string \<times> string \<Rightarrow> pyval" where
  "fk_dict fk = (case fk of (t, c, full) \<Rightarrow>
     VDict [(''table'', VStr t), (''column'', VStr c), (''fullname'', VStr full)])"

definition fk_metadata :: "column \<Rightarrow> (string \<times> pyval) list" where
  "fk_metadata c = (let fks = map fk_dict (col_foreign_keys c) in
     [(''widget'', VStr ''foreign_key''), (''foreign_keys'', VList fks)]
     @ (if fks = [] then [] else [(''foreign_key'', hd fks)]))"

fun build_contract :: "adapter \<Rightarrow> column \<Rightarrow> field_contract" where
  "build_contract ForeignKeyAdapter c =
     (base_contract c (fst (underlying_scalar_type c)) (snd (underlying_scalar_type c)))
       \<lparr>fc_metadata := fk_metadata c\<rparr>"
| "build_contract FileFieldAdapter c =
     (base_contract c ''file'' ''str'') \<lparr>fc_metadata := [(''widget'', VStr ''file'')]\<rparr>"
| "build_contract UUIDAdapter c = base_contract c ''uuid'' ''UUID''"
| "build_contract BooleanAdapter c = base_contract c ''boolean'' ''bool''"
| "build_contract DateTimeAdapter c = base_contract c ''datetime'' ''datetime''"
| "build_contract FloatAdapter c = base_contract c ''float'' ''float''"
| "build_contract IntegerAdapter c = base_contract c ''integer'' ''int''"
| "build_contract EnumAdapter c = (base_contract c ''string'' ''str'')
     \<lparr>fc_metadata := [(''widget'', VStr ''select''), (''choices'', VList (map VStr (col_enums c)))]\<rparr>"
| "build_contract JSONAdapter c = (base_contract c ''string'' ''dict'')
     \<lparr>fc_metadata := [(''widget'', VStr ''json'')]\<rparr>"
| "build_contract TextAdapter c = (base_contract c ''string'' ''str'')
     \<lparr>fc_metadata := (''widget'', VStr ''textarea'') # length_metadata c\<rparr>"
| "build_contract StringAdapter c =
     (base_contract c ''string'' ''str'') \<lparr>fc_metadata := length_metadata c\<rparr>"

fun adapter_serialize :: "adapter \<Rightarrow> pyval \<Rightarrow> pyval" where
  "adapter_serialize UUIDAdapter (VUuid u) = VStr (uuid_str u)"
| "adapter_serialize DateTimeAdapter (VDateTime iso_text) = VStr iso_text"
| "adapter_serialize a v = v"

section \<open>The registry\<close>

definition register_adapter :: "adapter \<Rightarrow> adapter list \<Rightarrow> adapter list" where
  "register_adapter a reg = reg @ [a]"

definition prepend_adapter :: "adapter \<Rightarrow> adapter list \<Rightarrow> adapter list" where
  "prepend_adapter a reg = a # reg"

definition find_adapter :: "adapter list \<Rightarrow> column \<Rightarrow> adapter option" where
  "find_adapter reg c = find (\<lambda>a. supports a c) reg"

definition DEFAULT_SCALAR_ADAPTERS :: "adapter list" where
  "DEFAULT_SCALAR_ADAPTERS = [UUIDAdapter, BooleanAdapter, DateTimeAdapter, FloatAdapter,
     IntegerAdapter, EnumAdapter, JSONAdapter, TextAdapter, StringAdapter]"

definition build_default_registry :: "adapter list" where
  "build_default_registry = foldl (\<lambda>reg a. register_adapter a reg) []
     ([ForeignKeyAdapter] @ [FileFieldAdapter] @ DEFAULT_SCALAR_ADAPTERS)"

lemma default_registry_eq:
  "build_default_registry = [ForeignKeyAdapter, FileFieldAdapter] @ DEFAULT_SCALAR_ADAPTERS"
  by (simp add: build_default_registry_def DEFAULT_SCALAR_ADAPTERS_def register_adapter_def)

section \<open>The serializer\<close>

definition value_fallback :: "pyval \<Rightarrow> pyval" where
  "value_fallback v = (case v of
     VUuid u \<Rightarrow> VStr (uuid_str u) | VDateTime t \<Rightarrow> VStr t | _ \<Rightarrow> v)"

definition calculated_value :: "(row \<Rightarrow> pyval res) \<Rightarrow> row \<Rightarrow> pyval" where
  "calculated_value f obj = (case f obj of Inl e \<Rightarrow> VNone | Inr v \<Rightarrow> value_fallback v)"

definition hidden_of :: "admin_policy \<Rightarrow> row \<Rightarrow> admin_ctx \<Rightarrow> string \<Rightarrow> string list res" where
  "hidden_of p obj ctx f = rbind (po_field_permission p f (Some obj) ctx) (\<lambda>perm.
     Inr (if perm = FP_HIDDEN then [f] else []))"

definition hidden_fields_via_policy :: "row \<Rightarrow> model_admin \<Rightarrow> admin_ctx option \<Rightarrow> string list res" where
  "hidden_fields_via_policy obj a ctx_opt =
    (case (ctx_opt, ma_policy a) of
       (Some ctx, Some p) \<Rightarrow>
         rbind (mapM (hidden_of p obj ctx)
           (column_names (ma_model a) @ map fst (ma_calculated_fields a))) (\<lambda>hs. Inr (concat hs))
     | _ \<Rightarrow> Inr [])"

definition serialize_value :: "adapter list \<Rightarrow> column \<Rightarrow> pyval \<Rightarrow> pyval" where
  "serialize_value reg c v = value_fallback (case find_adapter reg c of
     Some a \<Rightarrow> adapter_serialize a v | None \<Rightarrow> v)"

text \<open>\<open>Serializer.serialize\<close>: a calculated field replaces a column of the same name.\<close>

definition serialize_columns :: "adapter list \<Rightarrow> string set \<Rightarrow> column list \<Rightarrow> row \<Rightarrow> row" where
  "serialize_columns reg excluded cols obj =
     map (\<lambda>c. (col_name c, serialize_value reg c (getattr obj (col_name c))))
       (filter (\<lambda>c. col_name c \<notin> excluded) cols)"

definition serialize ::
    "adapter list \<Rightarrow> sa_model \<Rightarrow> string set \<Rightarrow> (string \<times> (row \<Rightarrow> pyval res)) list \<Rightarrow> row \<Rightarrow> row" where
  "serialize reg m excluded calculated obj =
     setattrs (map (\<lambda>(f, fn). (f, calculated_value fn obj))
                 (filter (\<lambda>e. fst e \<notin> excluded) calculated))
       (serialize_columns reg excluded (mo_columns m) obj)"

definition serialize_record :: "string list \<Rightarrow> model_admin \<Rightarrow> string list \<Rightarrow> row \<Rightarrow> row" where
  "serialize_record protected a hidden_extra obj =
     serialize build_default_registry (ma_model a)
       (all_protected protected a \<union> set hidden_extra) (ma_calculated_fields a) obj"

definition serialize_records :: "string list \<Rightarrow> model_admin \<Rightarrow> string list \<Rightarrow> row list \<Rightarrow> row list" where
  "serialize_records protected a hidden_extra objs =
     map (serialize_record protected a hidden_extra) objs"

definition serialize_record_with_policy ::
    "string list \<Rightarrow> model_admin \<Rightarrow> admin_ctx option \<Rightarrow> row \<Rightarrow> row res" where
  "serialize_record_with_policy protected a ctx obj =
     rbind (hidden_fields_via_policy obj a ctx) (\<lambda>hidden.
     Inr (serialize_record protected a hidden obj))"

definition serialize_records_with_policy ::
    "string list \<Rightarrow> model_admin \<Rightarrow> admin_ctx option \<Rightarrow> row list \<Rightarrow> row list res" where
  "serialize_records_with_policy protected a ctx objs = (case objs of
     [] \<Rightarrow> Inr []
   | o1 # _ \<Rightarrow> rbind (hidden_fields_via_policy o1 a ctx) (\<lambda>hidden.
       Inr (serialize_records protected a hidden objs)))"

section \<open>Lemmas\<close>

lemma fst_setattr: "fst ` set (setattr k v r) = insert k (fst ` set r)"
  using dom_update [of k v r] by (simp add: setattr_def dom_map_of_conv_image_fst [symmetric])

lemma fst_setattrs: "fst ` set (setattrs cs r) = fst ` set cs \<union> fst ` set r"
proof (induction cs arbitrary: r)
  case (Cons e cs)
  obtain k v where e: "e = (k, v)" by (cases e)
  show ?case
    unfolding e setattrs_Cons Cons [of "setattr k v r"] fst_setattr by simp
qed simp

lemma serialize_keys:
  "fst ` set (serialize reg m excluded calculated obj) =
     (set (column_names m) \<union> fst ` set calculated) - excluded"
  unfolding serialize_def fst_setattrs serialize_columns_def column_names_def
  by force

lemma hidden_mapM:
  assumes "mapM (hidden_of p obj ctx) fs = Inr hs" and "f \<in> set fs"
    and "po_field_permission p f (Some obj) ctx = Inr FP_HIDDEN"
  shows "f \<in> set (concat hs)"
  using assms
proof (induction fs arbitrary: hs)
  case (Cons g fs)
  then show ?case by (auto simp: hidden_of_def res_simps split: if_splits)
qed simp

lemma value_fallback_plain: "value_fallback v \<noteq> VUuid u" "value_fallback v \<noteq> VDateTime t"
  by (auto simp: value_fallback_def split: pyval.splits)

section \<open>Properties\<close>

text \<open>whatever the policy decides, a serialised record or a page of records never carries a
  protected field, a field the policy hides for the caller on the object it is asked about is
  absent too, and every key is a column or a calculated field.\<close>

theorem serialized_output_hides:
  assumes "serialize_records_with_policy protected a (Some ctx) (obj # objs) = Inr out"
    and "r \<in> set out"
  shows "fst ` set r \<inter> all_protected protected a = {}
    \<and> (\<forall>p f. ma_policy a = Some p \<longrightarrow> po_field_permission p f (Some obj) ctx = Inr FP_HIDDEN
         \<longrightarrow> f \<notin> fst ` set r)
    \<and> fst ` set r \<subseteq> set (column_names (ma_model a)) \<union> fst ` set (ma_calculated_fields a)"
proof -
  from assms obtain hidden o' where h: "hidden_fields_via_policy obj a (Some ctx) = Inr hidden"
    and r: "r = serialize_record protected a hidden o'"
    by (auto simp: serialize_records_with_policy_def serialize_records_def res_simps)
  have keys: "fst ` set r = (set (column_names (ma_model a)) \<union> fst ` set (ma_calculated_fields a))
      - (all_protected protected a \<union> set hidden)"
    unfolding r serialize_record_def by (rule serialize_keys)
  have "f \<notin> fst ` set r"
    if p: "ma_policy a = Some p" and f: "po_field_permission p f (Some obj) ctx = Inr FP_HIDDEN" for p f
  proof (cases "f \<in> set (column_names (ma_model a) @ map fst (ma_calculated_fields a))")
    case True
    obtain hs where "mapM (hidden_of p obj ctx)
        (column_names (ma_model a) @ map fst (ma_calculated_fields a)) = Inr hs" "hidden = concat hs"
      using h p by (auto simp: hidden_fields_via_policy_def res_simps)
    then have "f \<in> set hidden" using hidden_mapM True f by metis
    then show ?thesis by (simp add: keys)
  qed (auto simp: keys)
  then show ?thesis by (auto simp: keys)
qed

definition secret_model :: sa_model where
  "secret_model = \<lparr>mo_tablename = ''users'', mo_schema = None, mo_class = ''User'',
     mo_tenant_base = False, mo_columns = map (\<lambda>n. \<lparr>col_name = n, col_classes = [SaString],
       col_type_name = ''String'', col_py_type = Some PyStr, col_length = None, col_enums = [],
       col_primary_key = (n = ''id''), col_nullable = False, col_has_default = False,
       col_foreign_keys = []\<rparr>) [''id'', ''email'', ''hashed_password'']\<rparr>"

definition anyone :: admin_ctx where
  "anyone = \<lparr>ctx_principal = None, ctx_tenant = None, ctx_permissions = [],
     ctx_require_superadmin = None\<rparr>"

lemma serialized_output_hides_witness:
  "fst ` set [(''id'', VStr ''1''), (''email'', VStr ''e'')]
     \<inter> all_protected [''hashed_password''] (ModelAdmin secret_model) = {}"
proof -
  have "serialize_records_with_policy [''hashed_password''] (ModelAdmin secret_model) (Some anyone)
      [[(''id'', VStr ''1''), (''email'', VStr ''e''), (''hashed_password'', VStr ''h'')]]
    = Inr [[(''id'', VStr ''1''), (''email'', VStr ''e'')]]"
    by code_simp
  from serialized_output_hides [OF this, of "[(''id'', VStr ''1''), (''email'', VStr ''e'')]"]
  show ?thesis by simp
qed

end
