(* ===== verification/Inline.thy ===== *)
theory Inline
  imports Payload Query FieldAdapters
begin

text \<open>
  \<open>src/asterion/admin/inline.py\<close>: child rows edited with their parent.  Splitting the payload,
  loading and serialising the children, and the writer that creates, updates or deletes one
  child per payload row inside the parent's transaction.
\<close>

section \<open>Lookup\<close>

definition inline_index :: "model_admin \<Rightarrow> (string \<times> inline_admin) list" where
  "inline_index a = foldl (\<lambda>out i. AList.update (inline_model_name i) i out) [] (ma_inlines a)"

definition writable_columns_for_inline :: "inline_admin \<Rightarrow> string list" where
  "writable_columns_for_inline i =
    (if in_fields i \<noteq> [] then filter (\<lambda>n. n \<notin> set (in_readonly_fields i)) (in_fields i)
     else filter (\<lambda>n. Some n \<noteq> in_fk_name i \<and> n \<notin> set (in_readonly_fields i))
            (column_names (in_model i)))"

definition fetch_inline_record :: "inline_admin \<Rightarrow> pyval \<Rightarrow> row db" where
  "fetch_inline_record i raw_id =
     sbind (lift_res (primary_key_column (in_model i))) (\<lambda>pk.
     sbind (lift_res (coerce_primary_key_value (in_model i) (py_str raw_id))) (\<lambda>v.
     sbind (find_by_pk (in_model i) pk v) (\<lambda>found.
     case found of
       None \<Rightarrow> throw (http 404 (''Inline '' @ inline_model_name i @ '' row '' @ py_repr raw_id
                                @ '' not found.''))
     | Some r \<Rightarrow> ret r)))"

definition parent_pk_value :: "sa_model \<Rightarrow> row \<Rightarrow> pyval res" where
  "parent_pk_value m parent = (case primary_keys m of
     [] \<Rightarrow> Inl (http 500 (''Parent '' @ mo_class m @ '' has no primary key.''))
   | pk # _ \<Rightarrow> Inr (getattr parent (col_name pk)))"

section \<open>The payload\<close>

fun normalize_inlines :: "(string \<times> pyval) list \<Rightarrow> (string \<times> pyval list) list res" where
  "normalize_inlines [] = Inr []"
| "normalize_inlines ((tablename, rows) # rest) = (case rows of
     VList rs \<Rightarrow> rbind (normalize_inlines rest) (\<lambda>more. Inr ((tablename, rs) # more))
   | _ \<Rightarrow> Inl (http 422 (''inlines['' @ [quote] @ tablename @ [quote]
                        @ ''] must be a list of row objects.'')))"

definition split_parent_payload :: "row \<Rightarrow> (row \<times> (string \<times> pyval list) list) res" where
  "split_parent_payload payload =
    (case map_of payload ''inlines'' of
       None \<Rightarrow> Inr (payload, [])
     | Some block \<Rightarrow>
         (case (if truthy block then block else VDict []) of
            VDict d \<Rightarrow> rbind (normalize_inlines d) (\<lambda>ns.
              Inr (filter (\<lambda>e. fst e \<noteq> ''inlines'') payload, ns))
          | _ \<Rightarrow> Inl (http 422 ([quote] @ ''inlines'' @ [quote]
                     @ '' must be an object keyed by child table name.''))))"

section \<open>Reading\<close>

definition inline_order :: "inline_admin \<Rightarrow> (column \<times> bool) list" where
  "inline_order i = concat (map (\<lambda>raw. case find_column (in_model i) (order_field raw) of
     None \<Rightarrow> [] | Some c \<Rightarrow> [(c, descending raw)]) (in_ordering i))"

definition inline_children :: "db_env \<Rightarrow> string list \<Rightarrow> inline_admin \<Rightarrow> pyval \<Rightarrow> session \<Rightarrow> row list" where
  "inline_children env protected i parent_id s =
    (case in_fk_name i of
       None \<Rightarrow> []
     | Some fk \<Rightarrow> (case (if fk = [] then None else find_column (in_model i) fk) of
         None \<Rightarrow> []
       | Some c \<Rightarrow> map (serialize build_default_registry (in_model i) (set protected) [])
           (sort_by (row_le env (inline_order i))
             (filter (\<lambda>r. getattr r fk = bound c parent_id) (table_rows s (table_key (in_model i)))))))"

definition fetch_inline_children ::
    "db_env \<Rightarrow> string list \<Rightarrow> model_admin \<Rightarrow> row \<Rightarrow> (string \<times> row list) list db" where
  "fetch_inline_children env protected a parent =
    (if inline_index a = [] then ret []
     else sbind (lift_res (parent_pk_value (ma_model a) parent)) (\<lambda>parent_id.
       gets (\<lambda>s. map (\<lambda>(t, i). (t, inline_children env protected i parent_id s)) (inline_index a))))"

section \<open>Writing\<close>

datatype inline_action = ICreate | IUpdate | IDelete

fun inline_action_name :: "inline_action \<Rightarrow> string" where
  "inline_action_name ICreate = ''create''"
| "inline_action_name IUpdate = ''update''"
| "inline_action_name IDelete = ''delete''"

definition enforce_inline_policy ::
    "inline_admin \<Rightarrow> inline_action \<Rightarrow> row \<Rightarrow> admin_ctx option \<Rightarrow> string \<Rightarrow> unit res" where
  "enforce_inline_policy i action obj ctx_opt tablename =
    (case (ctx_opt, in_policy i) of
       (Some ctx, Some p) \<Rightarrow>
         rbind (case action of
             ICreate \<Rightarrow> po_can_create p ctx
           | IUpdate \<Rightarrow> po_can_update_object p obj ctx
           | IDelete \<Rightarrow> po_can_delete_object p obj ctx)
         (\<lambda>allowed. guard allowed (http 403 (''Inline '' @ [quote] @ tablename @ [quote] @ '' ''
            @ inline_action_name action @ '' not permitted for this caller.'')))
     | _ \<Rightarrow> Inr ())"

definition inline_msg :: "string \<Rightarrow> string \<Rightarrow> string" where
  "inline_msg tablename rest = ''Inline '' @ [quote] @ tablename @ [quote] @ rest"

text \<open>\<open>model(**row)\<close> accepts only names the mapped class has.\<close>

definition construct_ok :: "sa_model \<Rightarrow> row \<Rightarrow> unit res" where
  "construct_ok m values = (case find (\<lambda>e. fst e \<notin> set (column_names m)) values of
     None \<Rightarrow> Inr ()
   | Some e \<Rightarrow> Inl (PyExc TypeError ([quote] @ fst e @ [quote]
       @ '' is an invalid keyword argument for '' @ mo_class m)))"

definition inline_delete :: "inline_admin \<Rightarrow> string \<Rightarrow> admin_ctx option \<Rightarrow> pyval \<Rightarrow> unit db" where
  "inline_delete i tablename ctx row_id =
    (if row_id = VNone then throw (http 422 (inline_msg tablename '' delete requires an id.''))
     else if \<not> in_can_delete i
     then throw (http 403 (inline_msg tablename '' does not allow deletion.''))
     else sbind (fetch_inline_record i row_id) (\<lambda>child.
       sbind (lift_res (enforce_inline_policy i IDelete child ctx tablename)) (\<lambda>_.
       delete_row (in_model i) child)))"

definition inline_create ::
    "db_env \<Rightarrow> inline_admin \<Rightarrow> string \<Rightarrow> string \<Rightarrow> pyval \<Rightarrow> admin_ctx option \<Rightarrow> row \<Rightarrow> unit db" where
  "inline_create env i tablename fk_name parent_id ctx row =
     sbind (lift_res (enforce_inline_policy i ICreate [] ctx tablename)) (\<lambda>_.
     let values = AList.update fk_name parent_id row in
     sbind (lift_res (construct_ok (in_model i) values)) (\<lambda>_.
     sbind (add_row env (in_model i) values) (\<lambda>_. ret ())))"

definition inline_update ::
    "inline_admin \<Rightarrow> string \<Rightarrow> admin_ctx option \<Rightarrow> pyval \<Rightarrow> row \<Rightarrow> unit db" where
  "inline_update i tablename ctx row_id row =
     sbind (fetch_inline_record i row_id) (\<lambda>child.
     sbind (lift_res (enforce_inline_policy i IUpdate child ctx tablename)) (\<lambda>_.
     store_row (in_model i) child (apply_changes (in_model i) row child)))"

definition process_inline_row ::
    "db_env \<Rightarrow> inline_admin \<Rightarrow> string \<Rightarrow> string \<Rightarrow> pyval \<Rightarrow> admin_ctx option \<Rightarrow> pyval \<Rightarrow> unit db" where
  "process_inline_row env i tablename fk_name parent_id ctx raw_row =
    (case raw_row of
       VDict d \<Rightarrow>
         (let wants_delete = (case map_of d ''_delete'' of None \<Rightarrow> False | Some v \<Rightarrow> truthy v);
              row_id = getattr d ''id'';
              row = filter (\<lambda>e. fst e \<notin> {''_delete'', ''id''}) d;
              unknown = filter (\<lambda>n. n \<notin> set (writable_columns_for_inline i)) (map fst row)
          in if wants_delete then inline_delete i tablename ctx row_id
             else if unknown \<noteq> []
             then throw (field_error (inline_msg tablename '' has unknown fields.'') unknown)
             else if row_id = VNone then inline_create env i tablename fk_name parent_id ctx row
             else inline_update i tablename ctx row_id row)
     | _ \<Rightarrow> throw (http 422 (inline_msg tablename '' row must be an object.'')))"

fun process_inline_rows ::
    "db_env \<Rightarrow> inline_admin \<Rightarrow> string \<Rightarrow> string \<Rightarrow> pyval \<Rightarrow> admin_ctx option \<Rightarrow> pyval list \<Rightarrow> unit db" where
  "process_inline_rows env i t fk parent_id ctx [] = ret ()"
| "process_inline_rows env i t fk parent_id ctx (r # rs) =
     sbind (process_inline_row env i t fk parent_id ctx r) (\<lambda>_.
     process_inline_rows env i t fk parent_id ctx rs)"

definition process_inline_table ::
    "db_env \<Rightarrow> model_admin \<Rightarrow> row \<Rightarrow> admin_ctx option \<Rightarrow> inline_admin \<Rightarrow> string \<Rightarrow> pyval list \<Rightarrow> unit db" where
  "process_inline_table env a parent ctx i tablename rows =
    (let fk = (case in_fk_name i of None \<Rightarrow> [] | Some f \<Rightarrow> f) in
     if fk = [] then throw (http 422 (inline_msg tablename '' has no fk_name configured.''))
     else sbind (lift_res (parent_pk_value (ma_model a) parent)) (\<lambda>parent_id.
       case in_max_num i of
         Some m \<Rightarrow> if int (length rows) > m
           then throw (http 422 (inline_msg tablename ('' exceeds max_num='' @ str_int m @ ''.'')))
           else process_inline_rows env i tablename fk parent_id ctx rows
       | None \<Rightarrow> process_inline_rows env i tablename fk parent_id ctx rows))"

fun process_inline_tables ::
    "db_env \<Rightarrow> model_admin \<Rightarrow> row \<Rightarrow> admin_ctx option \<Rightarrow> (string \<times> pyval list) list \<Rightarrow> unit db" where
  "process_inline_tables env a parent ctx [] = ret ()"
| "process_inline_tables env a parent ctx ((t, rows) # rest) =
    (case map_of (inline_index a) t of
       None \<Rightarrow> throw (PyExc KeyError t)
     | Some i \<Rightarrow> sbind (process_inline_table env a parent ctx i t rows) (\<lambda>_.
         process_inline_tables env a parent ctx rest))"

definition process_inline_writes ::
    "db_env \<Rightarrow> model_admin \<Rightarrow> row \<Rightarrow> admin_ctx option \<Rightarrow> (string \<times> pyval list) list \<Rightarrow> unit db" where
  "process_inline_writes env a parent ctx inline_payload =
    (if inline_payload = [] then ret ()
     else let unknown = filter (\<lambda>t. t \<notin> fst ` set (inline_index a)) (map fst inline_payload) in
       if unknown \<noteq> [] then throw (field_error ''Unknown inline target(s).'' unknown)
       else sbind (process_inline_tables env a parent ctx inline_payload) (\<lambda>_. flush env))"

section \<open>What a write leaves alone\<close>

text \<open>A procedure leaves_table a table.\<close>

definition leaves_table :: "string \<Rightarrow> 'a db \<Rightarrow> bool" where
  "leaves_table t m = (\<forall>s. table_rows (snd (m s)) t = table_rows s t)"

lemma leaves_table_simps [simp]: "leaves_table t (ret x)" "leaves_table t (throw e)" "leaves_table t (lift_res r)" "leaves_table t (gets f)"
  by (simp_all add: leaves_table_def)

lemma leaves_table_flush [simp]: "leaves_table t (flush env)"
  by (simp add: leaves_table_def flush_def)

lemma leaves_table_sbind:
  assumes "leaves_table t m" and "\<And>x. leaves_table t (f x)"
  shows "leaves_table t (sbind m f)"
  unfolding leaves_table_def
proof
  fix s
  obtain r s' where r: "m s = (r, s')" by (cases "m s")
  then have "table_rows s' t = table_rows s t"
    using assms(1) by (metis leaves_table_def snd_conv)
  then show "table_rows (snd (sbind m f s)) t = table_rows s t"
    using r assms(2) by (cases r) (auto simp: sbind_def leaves_table_def)
qed

lemma leaves_table_find [simp]: "leaves_table t (find_by_pk m pk v)"
  by (auto simp: leaves_table_def find_by_pk_def split: sum.splits)

lemma leaves_table_store [simp]: "t \<noteq> table_key m \<Longrightarrow> leaves_table t (store_row m old new)"
  by (simp add: leaves_table_def store_row_def)

lemma leaves_table_delete [simp]: "t \<noteq> table_key m \<Longrightarrow> leaves_table t (delete_row m old)"
  by (simp add: leaves_table_def delete_row_def)

lemma leaves_table_add [simp]: "t \<noteq> table_key m \<Longrightarrow> leaves_table t (add_row env m v)"
  by (simp add: leaves_table_def add_row_def Let_def)

lemma leaves_table_fetch [simp]: "leaves_table t (fetch_inline_record i r)"
  unfolding fetch_inline_record_def by (intro leaves_table_sbind) (auto split: option.splits)

lemma leaves_table_if: "leaves_table t m \<Longrightarrow> leaves_table t m' \<Longrightarrow> leaves_table t (if b then m else m')"
  by simp

lemmas leaves_table_intros = leaves_table_sbind leaves_table_if leaves_table_simps leaves_table_flush leaves_table_find leaves_table_fetch

lemma leaves_table_inline_row:
  assumes "t \<noteq> table_key (in_model i)"
  shows "leaves_table t (process_inline_row env i n fk p ctx r)"
proof (cases r)
  case (VDict d)
  have "leaves_table t (inline_delete i n ctx x)" for x
    using assms unfolding inline_delete_def by (intro leaves_table_intros) simp_all
  moreover have "leaves_table t (inline_create env i n fk p ctx x)" for x
    using assms unfolding inline_create_def Let_def by (intro leaves_table_intros) simp_all
  moreover have "leaves_table t (inline_update i n ctx x y)" for x y
    using assms unfolding inline_update_def by (intro leaves_table_intros) simp_all
  ultimately show ?thesis
    unfolding process_inline_row_def VDict pyval.case Let_def by (intro leaves_table_intros) simp_all
qed (simp_all add: process_inline_row_def)

lemma leaves_table_inline_rows:
  "t \<noteq> table_key (in_model i) \<Longrightarrow> leaves_table t (process_inline_rows env i n fk p ctx rs)"
  by (induction rs) (auto intro!: leaves_table_sbind leaves_table_inline_row)

lemma leaves_table_inline_tables:
  "\<forall>i \<in> snd ` set (inline_index a). t \<noteq> table_key (in_model i) \<Longrightarrow>
   leaves_table t (process_inline_tables env a parent ctx ps)"
proof (induction ps)
  case (Cons p ps)
  obtain n rows where p: "p = (n, rows)" by (cases p)
  show ?case
  proof (cases "map_of (inline_index a) n")
    case (Some i)
    then have "t \<noteq> table_key (in_model i)"
      using Cons.prems by (auto dest!: map_of_SomeD)
    then have "leaves_table t (process_inline_table env a parent ctx i n rows)"
      by (auto simp: process_inline_table_def Let_def intro!: leaves_table_sbind leaves_table_inline_rows
        split: option.splits)
    then show ?thesis
      using Some Cons by (auto simp: p intro!: leaves_table_sbind)
  qed (simp add: p)
qed simp

lemma set_foldl_update: "set (foldl (\<lambda>out i. AList.update (f i) i out) acc is)
    \<subseteq> set acc \<union> (\<lambda>i. (f i, i)) ` set is"
proof (induction "is" arbitrary: acc)
  case (Cons i js)
  then show ?case
    using set_update_subset [of "f i" i acc] by fastforce
qed simp

section \<open>Properties\<close>

text \<open>inline writes stay inside the inlines' child tables: whatever the payload, on success and on
  failure, every table that is not the table of one of the admin's inlines holds the same rows,
  the parent's own included.\<close>

theorem inline_writes_stay_in_child_tables:
  assumes "\<forall>i \<in> snd ` set (inline_index a). t \<noteq> table_key (in_model i)"
  shows "table_rows (snd (process_inline_writes env a parent ctx payload s)) t = table_rows s t"
proof -
  have "leaves_table t (process_inline_writes env a parent ctx payload)"
    unfolding process_inline_writes_def Let_def
    by (intro leaves_table_if leaves_table_simps leaves_table_sbind leaves_table_flush leaves_table_inline_tables assms)
  then show ?thesis by (simp add: leaves_table_def)
qed

definition link_column :: "string \<Rightarrow> bool \<Rightarrow> column" where
  "link_column n pk = \<lparr>col_name = n, col_classes = [SaString], col_type_name = ''String'',
     col_py_type = Some PyStr, col_length = None, col_enums = [], col_primary_key = pk,
     col_nullable = False, col_has_default = pk, col_foreign_keys = []\<rparr>"

definition comment_inline :: inline_admin where
  "comment_inline = \<lparr>in_model = \<lparr>mo_tablename = ''comments'', mo_schema = None, mo_class = ''Comment'',
       mo_tenant_base = True, mo_columns = [link_column ''id'' True, link_column ''post_id'' False,
         link_column ''body'' False]\<rparr>,
     in_fk_name = Some ''post_id'', in_fields = [''body''], in_readonly_fields = [], in_ordering = [],
     in_max_num = None, in_can_delete = True, in_value_field = None, in_policy = None, in_label = None,
     in_resolve_options = (\<lambda>c q n. ret None)\<rparr>"

definition post_admin :: model_admin where
  "post_admin = (ModelAdmin \<lparr>mo_tablename = ''posts'', mo_schema = None, mo_class = ''Post'',
     mo_tenant_base = True, mo_columns = [link_column ''id'' True]\<rparr>) \<lparr>ma_inlines := [comment_inline]\<rparr>"

definition two_posts :: session where
  "two_posts = \<lparr>se_tables = [
     (''posts'', [[(''id'', VStr ''p1'')], [(''id'', VStr ''p2'')]]),
     (''comments'', [[(''id'', VStr ''c''), (''post_id'', VStr ''p2''), (''body'', VStr ''mine'')]])],
     se_drawn = 0\<rparr>"

definition silent_db :: db_env where
  "silent_db = \<lparr>env_default = (\<lambda>n t c. VNone), env_check = (\<lambda>s. None), env_eq = (\<lambda>c x y. x = y),
     env_le = (\<lambda>x y. True), env_ilike = (\<lambda>p t. False)\<rparr>"

lemma inline_writes_stay_in_child_tables_witness:
  "table_rows (snd (process_inline_writes silent_db post_admin [(''id'', VStr ''p1'')] None
     [(''comments'', [VDict [(''body'', VStr ''hi'')]])] two_posts)) ''posts'' = table_rows two_posts ''posts''"
  by (rule inline_writes_stay_in_child_tables) code_simp

text \<open>which parent is being edited has no influence on an inline row that carries an id: the
  update or deletion it asks for is carried out on the child with that id, whichever parent the
  child belongs to.  (The writer looks the child up by primary key alone.)\<close>

theorem inline_update_and_delete_ignore_parent:
  assumes "map_of d ''id'' = Some row_id" and "row_id \<noteq> VNone"
  shows "process_inline_row env i tablename fk parent_id ctx (VDict d)
    = process_inline_row env i tablename fk other_parent_id ctx (VDict d)"
proof -
  have "getattr d ''id'' \<noteq> VNone" using assms by (simp add: getattr_def)
  then show ?thesis by (simp add: process_inline_row_def Let_def)
qed

lemma inline_update_and_delete_ignore_parent_witness:
  "getattr (hd (table_rows (snd (process_inline_row silent_db comment_inline ''comments'' ''post_id''
      (VStr ''p1'') None (VDict [(''id'', VStr ''c''), (''body'', VStr ''taken over'')]) two_posts)) ''comments''))
     ''body'' = VStr ''taken over''
   \<and> getattr (hd (table_rows two_posts ''comments'')) ''post_id'' = VStr ''p2''"
proof -
  have a: "getattr (hd (table_rows (snd (process_inline_row silent_db comment_inline ''comments'' ''post_id''
      (VStr ''p2'') None (VDict [(''id'', VStr ''c''), (''body'', VStr ''taken over'')]) two_posts)) ''comments''))
     ''body'' = VStr ''taken over''"
    by code_simp
  have b: "getattr (hd (table_rows two_posts ''comments'')) ''post_id'' = VStr ''p2''"
    by code_simp
  show ?thesis
    using a b inline_update_and_delete_ignore_parent [of "[(''id'', VStr ''c''), (''body'', VStr ''taken over'')]"
      "VStr ''c''" silent_db comment_inline "''comments''" "''post_id''" "VStr ''p1''" None "VStr ''p2''"]
    by simp
qed

end
