(* ===== verification/Registries.thy ===== *)
theory Registries
  imports Models
begin

text \<open>
  The registries that are filled while the app is set up and then frozen:
  \<open>PermissionRegistry\<close> (\<open>src/asterion/authz/registry.py\<close>), \<open>ProtectedFieldRegistry\<close>
  (\<open>src/asterion/security/protected_fields.py\<close>), \<open>PIIFieldRegistry\<close>
  (\<open>src/asterion/privacy/classification.py\<close>) and \<open>AdminRegistry\<close>
  (\<open>src/asterion/registry/registry.py\<close>).  Their common contract is the locale \<open>freezable\<close>,
  interpreted on each of them.
\<close>

section \<open>The contract\<close>

datatype 'k reg_op = Register 'k | Freeze

locale freezable =
  fixes register :: "'k \<Rightarrow> ('s, unit) proc"
    and freeze :: "'s \<Rightarrow> 's"
    and frozen :: "'s \<Rightarrow> bool"
    and names :: "'s \<Rightarrow> string set"
  assumes register_frozen: "frozen s \<Longrightarrow> \<exists>m. register k s = (Inl (PyExc RegistryFrozenError m), s)"
    and register_keeps_frozen: "frozen (snd (register k s)) = frozen s"
    and register_grows: "names s \<subseteq> names (snd (register k s))"
    and freeze_frozen: "frozen (freeze s)"
    and freeze_names: "names (freeze s) = names s"
    and freeze_idem: "frozen s \<Longrightarrow> freeze s = s"
begin

fun step :: "'k reg_op \<Rightarrow> 's \<Rightarrow> 's" where
  "step (Register k) s = snd (register k s)"
| "step Freeze s = freeze s"

definition run :: "'k reg_op list \<Rightarrow> 's \<Rightarrow> 's" where
  "run ops s = foldl (\<lambda>s op. step op s) s ops"

lemma step_frozen: "frozen s \<Longrightarrow> step op s = s"
  using register_frozen freeze_idem by (cases op) (auto, metis snd_conv)

lemma run_frozen: "frozen s \<Longrightarrow> run ops s = s"
  by (induction ops) (auto simp: run_def step_frozen)

lemma run_after_freeze: "run (ops @ Freeze # later) s = freeze (run ops s)"
  using run_frozen [OF freeze_frozen] by (simp add: run_def)

lemma run_grows: "names s \<subseteq> names (run ops s)"
proof (induction ops arbitrary: s)
  case (Cons op ops)
  have "names s \<subseteq> names (step op s)"
    using register_grows freeze_names by (cases op) auto
  then show ?case using Cons [of "step op s"] by (simp add: run_def)
qed (simp add: run_def)

lemma register_after_freeze:
  "\<exists>m. register k (run (ops @ Freeze # later) s)
     = (Inl (PyExc RegistryFrozenError m), freeze (run ops s))"
  using register_frozen [OF freeze_frozen] by (simp add: run_after_freeze)

end

section \<open>\<open>PermissionRegistry\<close>\<close>

record permission_registry =
  pk_keys :: "string list"
  pk_frozen :: bool

text \<open>The set of keys as a list without duplicates.\<close>

fun add_keys :: "string list \<Rightarrow> (permission_registry, unit) proc" where
  "add_keys [] = ret ()"
| "add_keys (raw # rest) = (\<lambda>s. case validate_permission_key (VStr raw) of
     Inl e \<Rightarrow> (Inl e, s)
   | Inr k \<Rightarrow> add_keys rest (s\<lparr>pk_keys := List.insert k (pk_keys s)\<rparr>))"

definition permission_register :: "string list \<Rightarrow> (permission_registry, unit) proc" where
  "permission_register keys = (\<lambda>s.
     if pk_frozen s then (Inl (PyExc RegistryFrozenError
       (''PermissionRegistry is frozen - extensions must register permission keys ''
        @ ''during register_permissions(), not later.'')), s)
     else add_keys keys s)"

definition permission_freeze :: "permission_registry \<Rightarrow> permission_registry" where
  "permission_freeze s = s\<lparr>pk_frozen := True\<rparr>"

definition permission_contains :: "pyval \<Rightarrow> permission_registry \<Rightarrow> bool" where
  "permission_contains key s = (case key of VStr k \<Rightarrow> k \<in> set (pk_keys s) | _ \<Rightarrow> False)"

definition permission_registry_init :: "string list \<Rightarrow> permission_registry res" where
  "permission_registry_init defaults =
     rbind (mapM (\<lambda>k. validate_permission_key (VStr k)) defaults) (\<lambda>ks.
     Inr \<lparr>pk_keys = remdups ks, pk_frozen = False\<rparr>)"

definition permission_all :: "permission_registry \<Rightarrow> string set" where
  "permission_all s = set (pk_keys s)"

lemma add_keys_frozen [simp]: "pk_frozen (snd (add_keys ks s)) = pk_frozen s"
  by (induction ks arbitrary: s) (auto split: sum.splits)

lemma add_keys_grows: "set (pk_keys s) \<subseteq> set (pk_keys (snd (add_keys ks s)))"
proof (induction ks arbitrary: s)
  case (Cons k ks)
  show ?case
    using Cons [of "s\<lparr>pk_keys := List.insert k (pk_keys s)\<rparr>" for k]
    by (auto split: sum.splits)
qed simp

abbreviation valid_keys :: "string list \<Rightarrow> bool" where
  "valid_keys ks \<equiv> \<forall>k \<in> set ks. key_segments (split_on CHR ''.'' k)"

lemma add_keys_valid: "valid_keys (pk_keys s) \<Longrightarrow> valid_keys (pk_keys (snd (add_keys ks s)))"
proof (induction ks arbitrary: s)
  case (Cons raw ks)
  show ?case
  proof (cases "validate_permission_key (VStr raw)")
    case (Inr r)
    then have "key_segments (split_on CHR ''.'' r)"
      by (simp add: validate_permission_key_Inr)
    then have "valid_keys (pk_keys (s\<lparr>pk_keys := List.insert r (pk_keys s)\<rparr>))"
      using Cons.prems by simp
    from Cons.IH [OF this] Inr show ?thesis
      by (simp only: add_keys.simps sum.case)
  qed (use Cons in simp)
qed simp

interpretation permission_reg: freezable permission_register permission_freeze pk_frozen permission_all
proof (unfold_locales, goal_cases)
  case (3 s k) then show ?case
    using add_keys_grows by (simp add: permission_register_def permission_all_def)
qed (auto simp: permission_register_def permission_freeze_def permission_all_def)

section \<open>\<open>ProtectedFieldRegistry\<close>\<close>

record field_registry =
  pf_fields :: "string list"
  pf_frozen :: bool

definition DEFAULT_PROTECTED_FIELDS :: "string list" where
  "DEFAULT_PROTECTED_FIELDS = [''hashed_password'', ''password'', ''password_hash'',
     ''shared_secret'', ''totp_secret'', ''tenant_salt'', ''setup_code'', ''qr_bootstrap_token'']"

definition protected_init :: "string list \<Rightarrow> field_registry" where
  "protected_init defaults = \<lparr>pf_fields = remdups defaults, pf_frozen = False\<rparr>"

fun add_fields :: "pyval list \<Rightarrow> (field_registry, unit) proc" where
  "add_fields [] = ret ()"
| "add_fields (name # rest) = (\<lambda>s. case name of
     VStr (c # cs) \<Rightarrow> add_fields rest (s\<lparr>pf_fields := List.insert (c # cs) (pf_fields s)\<rparr>)
   | _ \<Rightarrow> (Inl (PyExc ValueError
       (''Protected field name must be non-empty str, got '' @ py_repr name)), s))"

definition protected_register :: "pyval list \<Rightarrow> (field_registry, unit) proc" where
  "protected_register field_names = (\<lambda>s.
     if pf_frozen s then (Inl (PyExc RegistryFrozenError
       (''ProtectedFieldRegistry is frozen - extensions must register fields ''
        @ ''before create_admin finishes setup.'')), s)
     else add_fields field_names s)"

definition protected_freeze :: "field_registry \<Rightarrow> field_registry" where
  "protected_freeze s = s\<lparr>pf_frozen := True\<rparr>"

definition protected_contains :: "pyval \<Rightarrow> field_registry \<Rightarrow> bool" where
  "protected_contains name s = (case name of VStr n \<Rightarrow> n \<in> set (pf_fields s) | _ \<Rightarrow> False)"

definition protected_names :: "field_registry \<Rightarrow> string set" where
  "protected_names s = set (pf_fields s)"

lemma add_fields_frozen [simp]: "pf_frozen (snd (add_fields ks s)) = pf_frozen s"
  by (induction ks arbitrary: s) (auto split: pyval.splits list.splits)

lemma add_fields_grows: "set (pf_fields s) \<subseteq> set (pf_fields (snd (add_fields ks s)))"
proof (induction ks arbitrary: s)
  case (Cons k ks)
  have "set (pf_fields s) \<subseteq> set (pf_fields (snd (add_fields ks (s\<lparr>pf_fields := List.insert n (pf_fields s)\<rparr>))))"
    for n using Cons [of "s\<lparr>pf_fields := List.insert n (pf_fields s)\<rparr>"] by auto
  then show ?case by (auto split: pyval.splits list.splits)
qed simp

interpretation protected_reg: freezable protected_register protected_freeze pf_frozen protected_names
proof (unfold_locales, goal_cases)
  case (3 s k) then show ?case
    using add_fields_grows by (simp add: protected_register_def protected_names_def)
qed (auto simp: protected_register_def protected_freeze_def protected_names_def)

section \<open>\<open>PIIFieldRegistry\<close>\<close>

datatype pii_category = IDENTITY | CONTACT | BEHAVIORAL | SENSITIVE

record pii_registry =
  pii_fields :: "(string \<times> pii_category) list"
  pii_frozen :: bool

definition DEFAULT_PII_FIELDS :: "(string \<times> pii_category) list" where
  "DEFAULT_PII_FIELDS = [(''email'', CONTACT), (''full_name'', IDENTITY),
     (''actor_label'', CONTACT), (''ip_address'', CONTACT)]"

definition pii_init :: "(string \<times> pii_category) list \<Rightarrow> pii_registry" where
  "pii_init defaults = \<lparr>pii_fields = defaults, pii_frozen = False\<rparr>"

text \<open>The category argument is \<open>None\<close> for a value that is not a \<open>PIICategory\<close>.\<close>

definition pii_register :: "pyval \<times> pii_category option \<Rightarrow> (pii_registry, unit) proc" where
  "pii_register arg = (\<lambda>s.
     if pii_frozen s then (Inl (PyExc RegistryFrozenError
       (''PIIFieldRegistry is frozen - contribute fields before create_admin finishes setup.'')), s)
     else case fst arg of
       VStr (c # cs) \<Rightarrow> (case snd arg of
           Some cat \<Rightarrow> (Inr (), s\<lparr>pii_fields := AList.update (c # cs) cat (pii_fields s)\<rparr>)
         | None \<Rightarrow> (Inl (PyExc ValueError ''category must be a PIICategory''), s))
     | name \<Rightarrow> (Inl (PyExc ValueError
         (''PII field name must be a non-empty str, got '' @ py_repr name)), s))"

fun pii_register_many :: "(pyval \<times> pii_category option) list \<Rightarrow> (pii_registry, unit) proc" where
  "pii_register_many [] = ret ()"
| "pii_register_many (a # rest) = sbind (pii_register a) (\<lambda>_. pii_register_many rest)"

definition pii_freeze :: "pii_registry \<Rightarrow> pii_registry" where
  "pii_freeze s = s\<lparr>pii_frozen := True\<rparr>"

definition category_of :: "pii_registry \<Rightarrow> string \<Rightarrow> pii_category option" where
  "category_of s name = map_of (pii_fields s) name"

definition pii_names :: "pii_registry \<Rightarrow> string set" where
  "pii_names s = fst ` set (pii_fields s)"

definition pii_names_in :: "pii_category list \<Rightarrow> pii_registry \<Rightarrow> string list" where
  "pii_names_in cats s = map fst (filter (\<lambda>(n, c). c \<in> set cats) (pii_fields s))"

lemma keys_update: "fst ` set (AList.update k v xs) = insert k (fst ` set xs)"
  using dom_update [of k v xs] by (simp add: dom_map_of_conv_image_fst [symmetric])

interpretation pii_reg: freezable pii_register pii_freeze pii_frozen pii_names
proof (unfold_locales, goal_cases)
  case (3 s k) then show ?case
    by (auto simp: pii_register_def pii_names_def keys_update split: pyval.splits list.splits option.splits)
qed (auto simp: pii_register_def pii_freeze_def pii_names_def split: pyval.splits list.splits option.splits)

section \<open>\<open>AdminRegistry\<close>\<close>

record admin_registry =
  ar_registry :: "(string \<times> model_admin) list"
  ar_frozen :: bool

definition admin_registry_init :: admin_registry where
  "admin_registry_init = \<lparr>ar_registry = [], ar_frozen = False\<rparr>"

definition admin_register :: "model_admin \<Rightarrow> (admin_registry, unit) proc" where
  "admin_register admin = (\<lambda>s.
     if ar_frozen s then (Inl (PyExc RegistryFrozenError
       (''AdminRegistry is frozen - register ModelAdmins during the `register=` callback ''
        @ ''passed to create_admin(), not after the app has finished starting up.'')), s)
     else case validate_resource_name (VStr (model_name admin)) of
       Inl e \<Rightarrow> (Inl e, s)
     | Inr key \<Rightarrow> (Inr (), s\<lparr>ar_registry := AList.update key
         (admin\<lparr>ma_policy := map_option (bind_policy key) (ma_policy admin)\<rparr>) (ar_registry s)\<rparr>))"

definition admin_freeze :: "admin_registry \<Rightarrow> admin_registry" where
  "admin_freeze s = s\<lparr>ar_frozen := True\<rparr>"

definition admin_is_registered :: "sa_model \<Rightarrow> admin_registry \<Rightarrow> bool" where
  "admin_is_registered m s = (map_of (ar_registry s) (mo_tablename m) \<noteq> None)"

definition admin_get :: "admin_registry \<Rightarrow> string \<Rightarrow> model_admin option" where
  "admin_get s name = map_of (ar_registry s) name"

definition admin_all :: "admin_registry \<Rightarrow> model_admin list" where
  "admin_all s = map snd (ar_registry s)"

definition admin_model_names :: "admin_registry \<Rightarrow> string list" where
  "admin_model_names s = map fst (ar_registry s)"

definition admin_names :: "admin_registry \<Rightarrow> string set" where
  "admin_names s = fst ` set (ar_registry s)"

interpretation admin_reg: freezable admin_register admin_freeze ar_frozen admin_names
proof (unfold_locales, goal_cases)
  case (3 s k) then show ?case
    by (auto simp: admin_register_def admin_names_def keys_update split: sum.splits)
qed (auto simp: admin_register_def admin_freeze_def admin_names_def split: sum.splits)

text \<open>What a registration leaves behind: every entry is stored under its own table name, the name
  is a valid resource, and its policy, when it has one, is bound to a resource.\<close>

definition entry_ok :: "string \<times> model_admin \<Rightarrow> bool" where
  "entry_ok e = (fst e = model_name (snd e) \<and> resource_re (fst e)
     \<and> (case ma_policy (snd e) of None \<Rightarrow> True | Some p \<Rightarrow> po_resource p \<noteq> None))"

definition registry_ok :: "admin_registry \<Rightarrow> bool" where
  "registry_ok s = (distinct (map fst (ar_registry s)) \<and> (\<forall>e \<in> set (ar_registry s). entry_ok e))"

lemma model_name_policy [simp]: "model_name (a\<lparr>ma_policy := p\<rparr>) = model_name a"
  by (simp add: model_name_def)

lemma bind_policy_bound [simp]: "po_resource (bind_policy k p) \<noteq> None"
  by (simp add: bind_policy_def)

lemma admin_register_ok: "registry_ok s \<Longrightarrow> registry_ok (snd (admin_register a s))"
proof (cases "validate_resource_name (VStr (model_name a))")
  case (Inr k)
  assume ok: "registry_ok s"
  let ?a = "a\<lparr>ma_policy := map_option (bind_policy k) (ma_policy a)\<rparr>"
  have k: "k = model_name a" "resource_re k"
    using Inr by (auto simp: validate_resource_name_Inr)
  have a: "entry_ok (k, ?a)"
    using k bind_policy_bound by (auto simp: entry_ok_def simp del: not_None_eq split: option.split)
  have "entry_ok e" if "e \<in> set (AList.update k ?a (ar_registry s))" for e
    using that set_update_subset [of k ?a "ar_registry s"] ok a by (auto simp: registry_ok_def)
  moreover have "distinct (map fst (AList.update k ?a (ar_registry s)))"
    using ok by (intro distinct_update) (simp add: registry_ok_def)
  ultimately show ?thesis
    using ok Inr by (simp add: admin_register_def registry_ok_def)
qed (simp add: admin_register_def)

lemma registry_get: "registry_ok s \<Longrightarrow> admin_get s k = Some a \<Longrightarrow> model_name a = k \<and> resource_re k"
  by (auto simp: registry_ok_def entry_ok_def admin_get_def dest!: map_of_SomeD)

section \<open>Properties\<close>

text \<open>Once frozen, every one of the four registries ignores whatever comes later, and a later
  registration raises \<open>RegistryFrozenError\<close>: what a request reads is what setup left.\<close>

theorem registries_immutable_after_freeze:
  "permission_reg.run (p_ops @ Freeze # p_later) p = permission_freeze (permission_reg.run p_ops p)
   \<and> protected_reg.run (f_ops @ Freeze # f_later) f = protected_freeze (protected_reg.run f_ops f)
   \<and> pii_reg.run (i_ops @ Freeze # i_later) i = pii_freeze (pii_reg.run i_ops i)
   \<and> admin_reg.run (a_ops @ Freeze # a_later) a = admin_freeze (admin_reg.run a_ops a)
   \<and> (\<exists>m. admin_register k (admin_reg.run (a_ops @ Freeze # a_later) a)
        = (Inl (PyExc RegistryFrozenError m), admin_freeze (admin_reg.run a_ops a)))
   \<and> (\<exists>m. protected_register n (protected_reg.run (f_ops @ Freeze # f_later) f)
        = (Inl (PyExc RegistryFrozenError m), protected_freeze (protected_reg.run f_ops f)))"
  by (intro conjI permission_reg.run_after_freeze protected_reg.run_after_freeze
      pii_reg.run_after_freeze admin_reg.run_after_freeze admin_reg.register_after_freeze
      protected_reg.register_after_freeze)

text \<open>However extensions fill the protected-field registry, none of the default secrets ever
  leaves it, and no field registered by an admin or in the registry is readable through the
  static field permission.\<close>

theorem protected_fields_stay_protected:
  assumes "f \<in> set DEFAULT_PROTECTED_FIELDS"
  shows "protected_contains (VStr f) (protected_reg.run ops (protected_init DEFAULT_PROTECTED_FIELDS))
    \<and> static_field_permission (pf_fields (protected_reg.run ops (protected_init DEFAULT_PROTECTED_FIELDS))) a f
        = FP_HIDDEN"
proof -
  have "protected_names (protected_init DEFAULT_PROTECTED_FIELDS)
      \<subseteq> protected_names (protected_reg.run ops (protected_init DEFAULT_PROTECTED_FIELDS))"
    by (rule protected_reg.run_grows)
  then have "f \<in> set (pf_fields (protected_reg.run ops (protected_init DEFAULT_PROTECTED_FIELDS)))"
    using assms by (auto simp: protected_names_def protected_init_def)
  then show ?thesis
    by (simp add: protected_contains_def static_field_permission_def all_protected_def)
qed

lemma protected_fields_stay_protected_witness:
  "protected_contains (VStr ''totp_secret'')
     (protected_reg.run [Register [VStr ''oauth_access_token''], Freeze]
       (protected_init DEFAULT_PROTECTED_FIELDS))"
proof -
  have "''totp_secret'' \<in> set DEFAULT_PROTECTED_FIELDS" by code_simp
  from protected_fields_stay_protected [OF this] show ?thesis by blast
qed

end
