(* ===== verification/Sanitize.thy ===== *)
theory Sanitize
  imports Registries
begin

text \<open>
  Redaction before anything reaches a log or the audit trail:
  \<open>src/asterion/security/sanitize.py\<close> (secret keys), \<open>src/asterion/privacy/redaction.py\<close>
  (personal data by category) and the building of an audit row in
  \<open>src/asterion/audit/service.py\<close>.  A mapping is a \<open>VDict\<close> with string keys, as every payload
  that is parsed from JSON has.  The SHA-256 digest is a parameter.
\<close>

section \<open>Secret keys\<close>

definition REDACTED :: pyval where "REDACTED = VStr ''***REDACTED***''"

definition SENSITIVE_KEY_TOKENS :: "string list" where
  "SENSITIVE_KEY_TOKENS = [''password'', ''new_password'', ''current_password'',
     ''hashed_password'', ''password_hash'', ''token'', ''access_token'', ''refresh_token'',
     ''secret'', ''secret_key'', ''authorization'', ''cookie'', ''set_cookie'', ''api_key'',
     ''apikey'', ''private_key'']"

text \<open>\<open>[a-z0-9]\<close> under \<open>re.IGNORECASE\<close>.\<close>

definition alnum :: "char \<Rightarrow> bool" where
  "alnum c = (is_lower c \<or> is_upper c \<or> is_digit c)"

definition token_here :: "string \<Rightarrow> bool" where
  "token_here s = (\<exists>t \<in> set SENSITIVE_KEY_TOKENS. startswith (lower s) t
     \<and> (case drop (length t) s of [] \<Rightarrow> True | c # cs \<Rightarrow> \<not> alnum c))"

text \<open>\<open>search\<close> of the pattern, \<open>after\<close> telling whether the character before is alphanumeric.\<close>

fun token_search :: "bool \<Rightarrow> string \<Rightarrow> bool" where
  "token_search after [] = False"
| "token_search after (c # cs) = ((\<not> after \<and> token_here (c # cs)) \<or> token_search (alnum c) cs)"

definition is_sensitive_key :: "string \<Rightarrow> bool" where
  "is_sensitive_key key = token_search False (replace_char CHR ''-'' ''_'' key)"

fun is_container :: "pyval \<Rightarrow> bool" where
  "is_container (VDict _) = True"
| "is_container (VList _) = True"
| "is_container (VTuple _) = True"
| "is_container _ = False"

fun sanitize_payload :: "pyval \<Rightarrow> pyval" and sanitize_items :: "(string \<times> pyval) list \<Rightarrow> (string \<times> pyval) list"
  and sanitize_list :: "pyval list \<Rightarrow> pyval list" where
  "sanitize_payload (VDict d) = VDict (sanitize_items d)"
| "sanitize_payload (VList xs) = VList (sanitize_list xs)"
| "sanitize_payload (VTuple xs) = VTuple (sanitize_list xs)"
| "sanitize_payload v = v"
| "sanitize_items [] = []"
| "sanitize_items ((key, value) # rest) =
    (key, if is_sensitive_key key \<and> \<not> is_container value then REDACTED else sanitize_payload value)
    # sanitize_items rest"
| "sanitize_list [] = []"
| "sanitize_list (x # xs) = sanitize_payload x # sanitize_list xs"

text \<open>What sanitised data looks like, at every depth: a value under a sensitive key is a container
  or the redaction marker.\<close>

fun sanitized :: "pyval \<Rightarrow> bool" and sanitized_items :: "(string \<times> pyval) list \<Rightarrow> bool"
  and sanitized_list :: "pyval list \<Rightarrow> bool" where
  "sanitized (VDict d) = sanitized_items d"
| "sanitized (VList xs) = sanitized_list xs"
| "sanitized (VTuple xs) = sanitized_list xs"
| "sanitized v = True"
| "sanitized_items [] = True"
| "sanitized_items ((key, value) # rest) =
    ((is_sensitive_key key \<longrightarrow> is_container value \<or> value = REDACTED)
     \<and> sanitized value \<and> sanitized_items rest)"
| "sanitized_list [] = True"
| "sanitized_list (x # xs) = (sanitized x \<and> sanitized_list xs)"

lemma sanitized_REDACTED [simp]: "sanitized REDACTED"
  by (simp add: REDACTED_def)

lemma is_container_sanitize [simp]: "is_container (sanitize_payload v) = is_container v"
  by (cases v) auto

lemma sanitize_sanitized:
  "sanitized (sanitize_payload v)" "sanitized_items (sanitize_items d)"
  "sanitized_list (sanitize_list xs)"
  by (induction v and d and xs rule: sanitize_payload_sanitize_items_sanitize_list.induct) auto

lemma sanitize_fixpoint:
  "sanitized v \<Longrightarrow> sanitize_payload v = v"
  "sanitized_items d \<Longrightarrow> sanitize_items d = d"
  "sanitized_list xs \<Longrightarrow> sanitize_list xs = xs"
  by (induction v and d and xs rule: sanitize_payload_sanitize_items_sanitize_list.induct) auto

lemma sanitize_items_keys [simp]: "map fst (sanitize_items d) = map fst d"
  by (induction d) auto

lemma sanitize_items_map: "sanitize_items d = map (\<lambda>(k, v).
  (k, if is_sensitive_key k \<and> \<not> is_container v then REDACTED else sanitize_payload v)) d"
  by (induction d) auto

section \<open>Personal data\<close>

datatype pii_mode = PII_redact | PII_hash | PII_keep

definition REDACTED_PII :: pyval where "REDACTED_PII = VStr ''***PII***''"
definition SUPPRESSED_BEHAVIORAL :: pyval where
  "SUPPRESSED_BEHAVIORAL = VStr ''***BEHAVIORAL***''"

definition REDACTABLE_CATEGORIES :: "pii_category list" where
  "REDACTABLE_CATEGORIES = [IDENTITY, CONTACT, SENSITIVE]"

text \<open>The process-wide defaults and the digest.\<close>

record pii_env =
  pe_mode :: pii_mode
  pe_behavioral_detail :: bool
  pe_registry :: pii_registry
  pe_sha256 :: "string \<Rightarrow> string"

definition mask_value :: "pii_env \<Rightarrow> pyval \<Rightarrow> pii_mode \<Rightarrow> pyval" where
  "mask_value env value mode =
    (if mode = PII_hash then VStr (''pii:sha256:'' @ take 16 (pe_sha256 env (py_repr value)))
     else REDACTED_PII)"

definition redactable :: "pii_env \<Rightarrow> string \<Rightarrow> bool" where
  "redactable env key = (case category_of (pe_registry env) key of
     None \<Rightarrow> False | Some c \<Rightarrow> c \<in> set REDACTABLE_CATEGORIES)"

definition redact_pii :: "pii_env \<Rightarrow> pyval \<Rightarrow> pii_mode option \<Rightarrow> pyval" where
  "redact_pii env changes mode =
    (let resolved = (case mode of None \<Rightarrow> pe_mode env | Some m \<Rightarrow> m) in
     case changes of
       VDict d \<Rightarrow>
         if resolved = PII_keep then VDict d
         else VDict (map (\<lambda>(key, value).
           (key, if value \<noteq> VNone \<and> redactable env key then mask_value env value resolved
                 else value)) d)
     | _ \<Rightarrow> changes)"

definition suppress_behavioral :: "pii_env \<Rightarrow> pyval \<Rightarrow> bool option \<Rightarrow> pyval" where
  "suppress_behavioral env changes detail =
    (let resolved = (case detail of None \<Rightarrow> pe_behavioral_detail env | Some b \<Rightarrow> b) in
     case changes of
       VDict d \<Rightarrow>
         if resolved then VDict d
         else VDict (map (\<lambda>(key, value).
           (key, if value \<noteq> VNone \<and> category_of (pe_registry env) key = Some BEHAVIORAL
                 then SUPPRESSED_BEHAVIORAL else value)) d)
     | _ \<Rightarrow> changes)"

section \<open>Audit rows\<close>

record audit_kw =
  ak_action :: string
  ak_method :: string
  ak_path :: string
  ak_status_code :: int
  ak_actor :: "principal option"
  ak_tenant_id :: pyval
  ak_resource :: pyval
  ak_record_id :: pyval
  ak_changes :: "(string \<times> pyval) list option"
  ak_ip_address :: pyval
  ak_tenant_scoped :: bool
  ak_pii_mode :: "pii_mode option"
  ak_behavioral_detail :: "bool option"

definition coerce_actor_id :: "principal option \<Rightarrow> pyval" where
  "coerce_actor_id actor = (case actor of
     None \<Rightarrow> VNone
   | Some p \<Rightarrow> (case uuid_parse (pr_id p) of None \<Rightarrow> VNone | Some u \<Rightarrow> VUuid u))"

definition opt_str :: "string option \<Rightarrow> pyval" where
  "opt_str x = (case x of None \<Rightarrow> VNone | Some s \<Rightarrow> VStr s)"

text \<open>The values of the row, and whether it goes to the tenant's own table.\<close>

definition audit_payload :: "pii_env \<Rightarrow> audit_kw \<Rightarrow> bool \<times> row" where
  "audit_payload env kw =
    (let sanitized = (case ak_changes kw of
           None \<Rightarrow> VNone
         | Some d \<Rightarrow> suppress_behavioral env (redact_pii env (sanitize_payload (VDict d))
             (ak_pii_mode kw)) (ak_behavioral_detail kw));
         common = [
           (''method'', VStr (ak_method kw)), (''path'', VStr (ak_path kw)),
           (''status_code'', VInt (ak_status_code kw)),
           (''actor_user_id'', coerce_actor_id (ak_actor kw)),
           (''resource'', ak_resource kw),
           (''record_id'', if ak_record_id kw = VNone then VNone
                           else VStr (py_str (ak_record_id kw))),
           (''action'', VStr (ak_action kw)),
           (''actor_label'', case ak_actor kw of None \<Rightarrow> VNone | Some p \<Rightarrow> opt_str (pr_email p)),
           (''changes'', sanitized),
           (''ip_address'', ak_ip_address kw)]
     in if ak_tenant_scoped kw then (True, common)
        else (False, (''tenant_id'', ak_tenant_id kw) # common))"

text \<open>\<open>record_audit_in_session\<close>: the insert runs in a savepoint, so a failure leaves the session
  as it was and is not raised.  \<open>search_path_ok\<close> is the assertion that a tenant-scoped row goes
  to a tenant schema (\<open>src/asterion/tenancy/guard.py\<close>); \<open>audit\<close> and \<open>tenant_audit\<close> are the two
  mapped tables.\<close>

definition record_audit_in_session ::
    "pii_env \<Rightarrow> db_env \<Rightarrow> sa_model \<Rightarrow> sa_model \<Rightarrow> (session \<Rightarrow> bool) \<Rightarrow> audit_kw \<Rightarrow> unit db" where
  "record_audit_in_session env db audit tenant_audit search_path_ok kw = (\<lambda>s.
     if ak_tenant_scoped kw \<and> \<not> search_path_ok s then (Inr (), s)
     else case audit_payload env kw of (scoped, values) \<Rightarrow>
       (case sbind (add_row db (if scoped then tenant_audit else audit) values) (\<lambda>_. flush db) s of
          (Inl e, _) \<Rightarrow> (Inr (), s)
        | (Inr _, s') \<Rightarrow> (Inr (), s')))"

lemma record_audit_never_raises:
  "fst (record_audit_in_session env db a ta ok kw s) = Inr ()"
  by (auto simp: record_audit_in_session_def split: prod.splits sum.splits)

lemma audit_payload_scoped [simp]: "fst (audit_payload env kw) = ak_tenant_scoped kw"
  by (simp add: audit_payload_def Let_def)

lemma record_audit_all_or_nothing:
  "snd (record_audit_in_session env db a ta ok kw s) = s
   \<or> snd (record_audit_in_session env db a ta ok kw s)
       = snd (add_row db (if ak_tenant_scoped kw then ta else a) (snd (audit_payload env kw)) s)"
  by (simp add: record_audit_in_session_def case_prod_beta add_row_def flush_def Let_def sbind_def
      split: option.split)

section \<open>What an audit row can hold\<close>

text \<open>An entry of the recorded changes reveals nothing of a secret or of classified data.\<close>

definition entry_redacted :: "pii_env \<Rightarrow> string \<times> pyval \<Rightarrow> bool" where
  "entry_redacted env e = (case e of (k, v) \<Rightarrow>
     (is_sensitive_key k \<longrightarrow> is_container v \<or> v \<in> {VNone, REDACTED, REDACTED_PII, SUPPRESSED_BEHAVIORAL})
     \<and> (redactable env k \<longrightarrow> v \<in> {VNone, REDACTED_PII})
     \<and> (category_of (pe_registry env) k = Some BEHAVIORAL \<longrightarrow> v \<in> {VNone, SUPPRESSED_BEHAVIORAL}))"

lemma redactable_not_behavioral:
  "redactable env k \<Longrightarrow> category_of (pe_registry env) k \<noteq> Some BEHAVIORAL"
  by (auto simp: redactable_def REDACTABLE_CATEGORIES_def)

definition audit_changes :: "pii_env \<Rightarrow> (string \<times> pyval) list \<Rightarrow> pyval" where
  "audit_changes env d =
     suppress_behavioral env (redact_pii env (sanitize_payload (VDict d)) None) None"

text \<open>The three passes on one entry, under the secure defaults.\<close>

definition audit_value :: "pii_env \<Rightarrow> string \<Rightarrow> pyval \<Rightarrow> pyval" where
  "audit_value env k v =
    (let w = (if is_sensitive_key k \<and> \<not> is_container v then REDACTED else sanitize_payload v) in
     if w = VNone then VNone
     else if redactable env k then REDACTED_PII
     else if category_of (pe_registry env) k = Some BEHAVIORAL then SUPPRESSED_BEHAVIORAL
     else w)"

lemma audit_changes_map:
  assumes "pe_mode env = PII_redact" and "\<not> pe_behavioral_detail env"
  shows "audit_changes env d = VDict (map (\<lambda>e. (fst e, audit_value env (fst e) (snd e))) d)"
proof -
  have n: "REDACTED_PII \<noteq> VNone" by (simp add: REDACTED_PII_def)
  have "audit_changes env d = VDict (map (\<lambda>e. let k = fst e; v = snd e;
      w = (if is_sensitive_key k \<and> \<not> is_container v then REDACTED else sanitize_payload v);
      x = (if w \<noteq> VNone \<and> redactable env k then REDACTED_PII else w)
    in (k, if x \<noteq> VNone \<and> category_of (pe_registry env) k = Some BEHAVIORAL
           then SUPPRESSED_BEHAVIORAL else x)) d)"
    using assms by (simp add: audit_changes_def redact_pii_def suppress_behavioral_def
      sanitize_items_map mask_value_def split_def comp_def Let_def)
  also have "\<dots> = VDict (map (\<lambda>e. (fst e, audit_value env (fst e) (snd e))) d)"
    using redactable_not_behavioral n by (intro arg_cong [where f = VDict] map_cong refl)
      (simp add: audit_value_def Let_def)
  finally show ?thesis .
qed

lemma audit_value_redacted: "entry_redacted env (k, audit_value env k v)"
  using redactable_not_behavioral [of env k]
  by (simp add: entry_redacted_def audit_value_def Let_def)

section \<open>Properties\<close>



definition plain_pii_env :: pii_env where
  "plain_pii_env = \<lparr>pe_mode = PII_redact, pe_behavioral_detail = False,
     pe_registry = pii_init DEFAULT_PII_FIELDS, pe_sha256 = (\<lambda>s. s)\<rparr>"

definition sample_audit_kw :: audit_kw where
  "sample_audit_kw = \<lparr>ak_action = ''crud_update'', ak_method = ''PATCH'', ak_path = ''/users/1'',
     ak_status_code = 200, ak_actor = None, ak_tenant_id = VNone, ak_resource = VStr ''users'',
     ak_record_id = VInt 1,
     ak_changes = Some [(''email'', VStr ''a@b''), (''password'', VStr ''x''), (''title'', VStr ''t'')],
     ak_ip_address = VNone, ak_tenant_scoped = False, ak_pii_mode = None,
     ak_behavioral_detail = None\<rparr>"


end
