(* ===== verification/Crud.thy ===== *)
theory Crud
  imports Inline Sanitize
begin

text \<open>
  \<open>src/asterion/crud/services.py\<close>: list, read, create, update and delete of one record, with
  the policy gates, the field policy on the write schema, the hooks in their order, the
  singleton rule, the \<open>is_system\<close> guard and the inline children.  Every service is a
  procedure over the request session; hooks are procedures of the admin.  A hook sees and may
  change the tables; it does not change the attributes of the object in the service's hands.
\<close>

record crud_env =
  ce_db :: db_env
  ce_iso :: iso_parsers
  ce_protected :: "string list"

section \<open>Schema under a policy\<close>

definition apply_policy_to_field ::
    "admin_policy \<Rightarrow> admin_ctx \<Rightarrow> row option \<Rightarrow> field_info \<Rightarrow> field_info list res" where
  "apply_policy_to_field p ctx obj fi = rbind (po_field_permission p (fi_name fi) obj ctx) (\<lambda>perm.
     Inr (case perm of
         FP_HIDDEN \<Rightarrow> []
       | FP_READ \<Rightarrow> [fi\<lparr>fi_read_only := True\<rparr>]
       | FP_WRITE \<Rightarrow> [fi]))"

definition apply_field_policy_to_schema ::
    "admin_schema \<Rightarrow> model_admin \<Rightarrow> admin_ctx option \<Rightarrow> row option \<Rightarrow> admin_schema res" where
  "apply_field_policy_to_schema schema a ctx_opt obj =
    (case (ctx_opt, ma_policy a) of
       (Some ctx, Some p) \<Rightarrow>
         rbind (mapM (apply_policy_to_field p ctx obj) (as_fields schema)) (\<lambda>fss.
         Inr \<lparr>as_model_name = as_model_name schema, as_fields = concat fss\<rparr>)
     | _ \<Rightarrow> Inr schema)"

section \<open>Shared steps\<close>

definition get_record_or_404 :: "model_admin \<Rightarrow> string \<Rightarrow> row db" where
  "get_record_or_404 a record_id =
     sbind (lift_res (primary_key_column (ma_model a))) (\<lambda>pk.
     sbind (lift_res (coerce_primary_key_value (ma_model a) record_id)) (\<lambda>v.
     sbind (find_by_pk (ma_model a) pk v) (\<lambda>found.
     case found of None \<Rightarrow> throw (http 404 ''Record not found.'') | Some r \<Rightarrow> ret r)))"

definition deny :: "string \<Rightarrow> string \<Rightarrow> exn" where
  "deny resource action = http 403 (''Operation not permitted: '' @ action @ '' on '' @ resource)"

text \<open>A policy gate: nothing to check without a context or without a policy.\<close>

definition policy_gate ::
    "model_admin \<Rightarrow> admin_ctx option \<Rightarrow> (admin_policy \<Rightarrow> admin_ctx \<Rightarrow> bool res) \<Rightarrow> string \<Rightarrow> unit res" where
  "policy_gate a ctx_opt gate action = (case (ctx_opt, ma_policy a) of
     (Some ctx, Some p) \<Rightarrow> rbind (gate p ctx) (\<lambda>ok. guard ok (deny (model_name a) action))
   | _ \<Rightarrow> Inr ())"

definition augment_with_inlines :: "crud_env \<Rightarrow> row \<Rightarrow> row \<Rightarrow> model_admin \<Rightarrow> row db" where
  "augment_with_inlines ce payload record a =
    (if ma_inlines a = [] then ret payload
     else sbind (fetch_inline_children (ce_db ce) (ce_protected ce) a record) (\<lambda>children.
       ret (setattr ''inlines'' (VDict (map (\<lambda>(t, rs). (t, VList (map VDict rs))) children)) payload)))"

definition attach_label :: "(string \<times> (string \<times> string) list) \<Rightarrow> row \<Rightarrow> row" where
  "attach_label e item = (case e of (col, mapping) \<Rightarrow>
     let raw = getattr item col in
     if raw = VNone then item
     else case map_of mapping (py_str raw) of
       None \<Rightarrow> item | Some label \<Rightarrow> setattr (col @ ''__label'') (VStr label) item)"

definition attach_reference_labels ::
    "row list \<Rightarrow> row list \<Rightarrow> model_admin \<Rightarrow> admin_ctx option \<Rightarrow> row list db" where
  "attach_reference_labels items records a ctx =
     sbind (ma_resolve_list_labels a records ctx) (\<lambda>labels.
     ret (map (\<lambda>item. foldl (\<lambda>it e. attach_label e it) item labels) items))"

section \<open>List and read\<close>

record page_result =
  pr_items :: "row list"
  pr_total :: nat
  pr_limit :: int
  pr_offset :: int

definition list_statement ::
    "model_admin \<Rightarrow> (string \<times> string) list \<Rightarrow> string option \<Rightarrow> string option \<Rightarrow> stmt res" where
  "list_statement a filters date_hierarchy search =
     rbind (apply_filters select_all a filters) (\<lambda>st.
     rbind (apply_date_hierarchy st a date_hierarchy) (\<lambda>st.
     apply_search st a search))"

definition list_records ::
    "crud_env \<Rightarrow> model_admin \<Rightarrow> int \<Rightarrow> int \<Rightarrow> string option \<Rightarrow> (string \<times> string) list
     \<Rightarrow> string option \<Rightarrow> string option \<Rightarrow> admin_ctx option \<Rightarrow> page_result db" where
  "list_records ce a limit offset search filters order_param date_hierarchy ctx =
     sbind (lift_res (policy_gate a ctx po_can_view_model ''list'')) (\<lambda>_.
     sbind (lift_res (normalize_limit_offset limit offset)) (\<lambda>(n, k).
     sbind (lift_res (list_statement a filters date_hierarchy search)) (\<lambda>base.
     sbind (gets (count_rows (ce_db ce) base (ma_model a))) (\<lambda>total.
     sbind (lift_res (apply_ordering base a order_param)) (\<lambda>st.
     sbind (gets (page_rows (ce_db ce) st (ma_model a) (nat n) (nat k))) (\<lambda>records.
     sbind (lift_res (serialize_records_with_policy (ce_protected ce) a ctx records)) (\<lambda>items.
     sbind (attach_reference_labels items records a ctx) (\<lambda>items.
     ret \<lparr>pr_items = items, pr_total = total, pr_limit = n, pr_offset = k\<rparr>))))))))"

definition read_record :: "crud_env \<Rightarrow> model_admin \<Rightarrow> string \<Rightarrow> admin_ctx option \<Rightarrow> row db" where
  "read_record ce a record_id ctx =
     sbind (get_record_or_404 a record_id) (\<lambda>record.
     sbind (lift_res (policy_gate a ctx (\<lambda>p. po_can_view_object p record) ''read'')) (\<lambda>_.
     sbind (lift_res (serialize_record_with_policy (ce_protected ce) a ctx record)) (\<lambda>payload.
     sbind (attach_reference_labels [payload] [record] a ctx) (\<lambda>items.
     augment_with_inlines ce (hd items) record a))))"

section \<open>Create\<close>

text \<open>The singleton rule holds where a context is given and no policy owns the decision.\<close>

definition singleton_rule :: "model_admin \<Rightarrow> admin_ctx option \<Rightarrow> bool" where
  "singleton_rule a ctx = (ctx \<noteq> None \<and> ma_policy a = None \<and> ma_singleton a)"

definition with_hook :: "admin_ctx option \<Rightarrow> (admin_ctx \<Rightarrow> ('s, 'a) proc) \<Rightarrow> 'a \<Rightarrow> ('s, 'a) proc" where
  "with_hook ctx_opt hook dflt = (case ctx_opt of None \<Rightarrow> ret dflt | Some ctx \<Rightarrow> hook ctx)"

definition insert_record :: "crud_env \<Rightarrow> model_admin \<Rightarrow> row \<Rightarrow> row db" where
  "insert_record ce a values =
     sbind (lift_res (construct_ok (ma_model a) values)) (\<lambda>_.
     sbind (add_row (ce_db ce) (ma_model a) values) (\<lambda>record.
     sbind (flush (ce_db ce)) (\<lambda>_. ret record)))"

definition create_record :: "crud_env \<Rightarrow> model_admin \<Rightarrow> row \<Rightarrow> admin_ctx option \<Rightarrow> row db" where
  "create_record ce a payload ctx =
     sbind (lift_res (policy_gate a ctx po_can_create ''create'')) (\<lambda>_.
     sbind (gets (has_any_row (ma_model a))) (\<lambda>occupied.
     sbind (lift_res (guard (\<not> (singleton_rule a ctx \<and> occupied)) (deny (model_name a) ''create''))) (\<lambda>_.
     sbind (lift_res (apply_field_policy_to_schema (build_model_schema (ce_protected ce) a) a ctx None)) (\<lambda>schema.
     sbind (lift_res (split_parent_payload payload)) (\<lambda>(parent_payload, inline_payload).
     sbind (with_hook ctx (\<lambda>c. lift_res (ma_before_validate a parent_payload c)) parent_payload) (\<lambda>payload_in.
     sbind (lift_res (prepare_write_payload (ce_iso ce) payload_in schema (ma_model a) False)) (\<lambda>cleaned.
     sbind (with_hook ctx (\<lambda>c. lift_res (ma_validate_create a cleaned c)) ()) (\<lambda>_.
     sbind (with_hook ctx (\<lambda>c. lift_res (ma_before_create a cleaned c)) cleaned) (\<lambda>cleaned.
     sbind (insert_record ce a cleaned) (\<lambda>record.
     sbind (process_inline_writes (ce_db ce) a record ctx inline_payload) (\<lambda>_.
     sbind (with_hook ctx (ma_after_create a record) ()) (\<lambda>_.
     sbind (lift_res (serialize_record_with_policy (ce_protected ce) a ctx record)) (\<lambda>out.
     augment_with_inlines ce out record a)))))))))))))"

section \<open>Update\<close>

definition save_changes :: "crud_env \<Rightarrow> model_admin \<Rightarrow> row \<Rightarrow> row \<Rightarrow> row db" where
  "save_changes ce a record cleaned =
    (let new = apply_changes (ma_model a) cleaned record in
     sbind (store_row (ma_model a) record new) (\<lambda>_.
     sbind (flush (ce_db ce)) (\<lambda>_. ret new)))"

definition update_record_plain :: "crud_env \<Rightarrow> model_admin \<Rightarrow> string \<Rightarrow> row \<Rightarrow> (string \<times> pyval list) list \<Rightarrow> row db" where
  "update_record_plain ce a record_id parent_payload inline_payload =
     sbind (lift_res (prepare_write_payload (ce_iso ce) parent_payload
       (build_model_schema (ce_protected ce) a) (ma_model a) True)) (\<lambda>cleaned.
     sbind (get_record_or_404 a record_id) (\<lambda>record.
     sbind (save_changes ce a record cleaned) (\<lambda>new.
     sbind (process_inline_writes (ce_db ce) a new None inline_payload) (\<lambda>_.
     augment_with_inlines ce (serialize_record (ce_protected ce) a [] new) new a))))"

definition update_record_ctx ::
    "crud_env \<Rightarrow> model_admin \<Rightarrow> string \<Rightarrow> row \<Rightarrow> (string \<times> pyval list) list \<Rightarrow> admin_ctx \<Rightarrow> row db" where
  "update_record_ctx ce a record_id parent_payload inline_payload ctx =
     sbind (get_record_or_404 a record_id) (\<lambda>record.
     sbind (lift_res (policy_gate a (Some ctx) (\<lambda>p. po_can_update_object p record) ''update'')) (\<lambda>_.
     sbind (lift_res (apply_field_policy_to_schema (build_model_schema (ce_protected ce) a) a
       (Some ctx) (Some record))) (\<lambda>schema.
     sbind (lift_res (ma_before_validate a parent_payload ctx)) (\<lambda>payload_in.
     sbind (lift_res (prepare_write_payload (ce_iso ce) payload_in schema (ma_model a) True)) (\<lambda>cleaned.
     sbind (lift_res (ma_validate_update a record cleaned ctx)) (\<lambda>_.
     sbind (lift_res (ma_before_update a record cleaned ctx)) (\<lambda>cleaned.
     sbind (save_changes ce a record cleaned) (\<lambda>new.
     sbind (process_inline_writes (ce_db ce) a new (Some ctx) inline_payload) (\<lambda>_.
     sbind (ma_after_update a new cleaned ctx) (\<lambda>_.
     sbind (lift_res (serialize_record_with_policy (ce_protected ce) a (Some ctx) new)) (\<lambda>out.
     augment_with_inlines ce out new a)))))))))))"

definition update_record :: "crud_env \<Rightarrow> model_admin \<Rightarrow> string \<Rightarrow> row \<Rightarrow> admin_ctx option \<Rightarrow> row db" where
  "update_record ce a record_id payload ctx_opt =
     sbind (lift_res (split_parent_payload payload)) (\<lambda>(parent_payload, inline_payload).
     case ctx_opt of
       None \<Rightarrow> update_record_plain ce a record_id parent_payload inline_payload
     | Some ctx \<Rightarrow> update_record_ctx ce a record_id parent_payload inline_payload ctx)"

section \<open>Delete\<close>

definition delete_record :: "crud_env \<Rightarrow> model_admin \<Rightarrow> string \<Rightarrow> admin_ctx option \<Rightarrow> row db" where
  "delete_record ce a record_id ctx =
     sbind (get_record_or_404 a record_id) (\<lambda>record.
     sbind (lift_res (policy_gate a ctx (\<lambda>p. po_can_delete_object p record) ''delete'')) (\<lambda>_.
     sbind (lift_res (guard (\<not> singleton_rule a ctx) (deny (model_name a) ''delete''))) (\<lambda>_.
     sbind (with_hook ctx (ma_before_delete a record) ()) (\<lambda>_.
     sbind (lift_res (guard (\<not> truthy (getattr record ''is_system''))
       (http 409 ''System records cannot be deleted.''))) (\<lambda>_.
     sbind (delete_row (ma_model a) record) (\<lambda>_.
     sbind (flush (ce_db ce)) (\<lambda>_.
     sbind (with_hook ctx (ma_after_delete a record) ()) (\<lambda>_.
     ret [(''deleted'', VBool True)]))))))))"

section \<open>Lemmas\<close>

lemma apply_policy_to_field_Inr:
  assumes "apply_policy_to_field p ctx obj g = Inr fs" and "f \<in> set fs"
  shows "(f = g \<and> po_field_permission p (fi_name g) obj ctx = Inr FP_WRITE)
    \<or> f = g\<lparr>fi_read_only := True\<rparr>"
proof -
  from assms(1) obtain perm where "po_field_permission p (fi_name g) obj ctx = Inr perm"
    "fs = (case perm of FP_HIDDEN \<Rightarrow> [] | FP_READ \<Rightarrow> [g\<lparr>fi_read_only := True\<rparr>] | FP_WRITE \<Rightarrow> [g])"
    by (auto simp: apply_policy_to_field_def res_simps)
  then show ?thesis using assms(2) by (cases perm) auto
qed

text \<open>A policy can tighten the write schema and never loosen it.\<close>

lemma policy_schema_writable:
  assumes "apply_field_policy_to_schema schema a ctx obj = Inr schema'"
  shows "set (writable_field_names schema') \<subseteq> set (writable_field_names schema)"
proof (cases "\<exists>c p. ctx = Some c \<and> ma_policy a = Some p")
  case True
  then obtain c p fss where d: "mapM (apply_policy_to_field p c obj) (as_fields schema) = Inr fss"
      "as_fields schema' = concat fss"
    using assms by (auto simp: apply_field_policy_to_schema_def res_simps)
  have "\<exists>g \<in> set (as_fields schema). fi_name g = fi_name f \<and> fi_hidden g = fi_hidden f
      \<and> fi_primary_key g = fi_primary_key f \<and> (fi_read_only g \<longrightarrow> fi_read_only f)"
    if f: "f \<in> set (as_fields schema')" for f
  proof -
    from f d(2) obtain fs where fs: "fs \<in> set fss" "f \<in> set fs" by auto
    then obtain g where g: "g \<in> set (as_fields schema)" "apply_policy_to_field p c obj g = Inr fs"
      using mapM_Inr_set [OF d(1)] by blast
    show ?thesis
      using apply_policy_to_field_Inr [OF g(2) fs(2)] g(1) by (intro bexI [of _ g]) auto
  qed
  note src = this
  show ?thesis
  proof
    fix n assume "n \<in> set (writable_field_names schema')"
    then obtain f where f: "f \<in> set (as_fields schema')" "fi_name f = n" "\<not> fi_hidden f"
      "\<not> fi_read_only f" "\<not> fi_primary_key f" "n \<notin> set AUTO_READONLY"
      by (auto simp: writable_field_names_def)
    from src [OF f(1)] obtain g where "g \<in> set (as_fields schema)" "fi_name g = n" "\<not> fi_hidden g"
      "\<not> fi_read_only g" "\<not> fi_primary_key g"
      using f by auto
    then show "n \<in> set (writable_field_names schema)"
      using f(6) by (auto simp: writable_field_names_def intro!: image_eqI [of _ _ g])
  qed
next
  case False
  then have "schema' = schema"
    using assms by (auto simp: apply_field_policy_to_schema_def split: option.splits)
  then show ?thesis by simp
qed

text \<open>A field the policy does not grant \<open>WRITE\<close> on is not writable.\<close>

lemma policy_schema_write_granted:
  assumes "apply_field_policy_to_schema schema a (Some ctx) obj = Inr schema'"
    and "ma_policy a = Some p" and "f \<in> set (writable_field_names schema')"
  shows "po_field_permission p f obj ctx = Inr FP_WRITE"
proof -
  obtain fss where d: "mapM (apply_policy_to_field p ctx obj) (as_fields schema) = Inr fss"
      "as_fields schema' = concat fss"
    using assms(1,2) by (auto simp: apply_field_policy_to_schema_def res_simps)
  from assms(3) obtain fi where fi: "fi \<in> set (as_fields schema')" "fi_name fi = f" "\<not> fi_read_only fi"
    by (auto simp: writable_field_names_def)
  then obtain fs where fs: "fs \<in> set fss" "fi \<in> set fs" using d(2) by auto
  then obtain g where g: "apply_policy_to_field p ctx obj g = Inr fs"
    using mapM_Inr_set [OF d(1)] by blast
  show ?thesis
    using apply_policy_to_field_Inr [OF g fs(2)] fi by auto
qed

section \<open>What the services do with plain hooks\<close>

text \<open>Hooks that do nothing and no inline children: what the framework itself does.\<close>

definition plain_hooks :: "model_admin \<Rightarrow> bool" where
  "plain_hooks a = ((\<forall>d c. ma_before_validate a d c = Inr d) \<and> (\<forall>d c. ma_before_create a d c = Inr d)
     \<and> (\<forall>x d c. ma_before_update a x d c = Inr d)
     \<and> (\<forall>x c. ma_after_create a x c = ret ()) \<and> (\<forall>x d c. ma_after_update a x d c = ret ())
     \<and> (\<forall>x c. ma_before_delete a x c = ret ()) \<and> (\<forall>x c. ma_after_delete a x c = ret ())
     \<and> ma_inlines a = [])"

lemma split_no_inlines: 
  "split_parent_payload payload = Inr (parent, children) \<Longrightarrow> map_of payload ''inlines'' = None \<Longrightarrow>
   parent = payload \<and> children = []"
  by (simp add: split_parent_payload_def)

lemma with_hook_Some [simp]: "with_hook (Some c) h d = h c"
  by (simp add: with_hook_def)

lemma inline_writes_Nil [simp]: "process_inline_writes env a r ctx [] = ret ()"
  by (simp add: process_inline_writes_def)

lemma augment_plain: "ma_inlines a = [] \<Longrightarrow> augment_with_inlines ce p r a = ret p"
  by (simp add: augment_with_inlines_def)

lemma sbind_lift_Inr: "sbind (lift_res r) f s = (Inr y, s') \<longleftrightarrow> (\<exists>x. r = Inr x \<and> f x s = (Inr y, s'))"
  by (cases r) (auto simp: sbind_def lift_res_def)

lemma insert_record_Inr:
  assumes "insert_record ce a values s = (Inr r, s')"
  shows "r = build_row (ce_db ce) (se_drawn s) (ma_model a) values"
    and "table_rows s' t = (if t = table_key (ma_model a) then table_rows s t @ [r] else table_rows s t)"
  using assms by (auto simp: insert_record_def sbind_lift_Inr res_simps add_row_def flush_def Let_def
    split: option.splits)

lemma create_steps:
  assumes "create_record ce a payload (Some ctx) s = (Inr out, s')" and "plain_hooks a"
    and "map_of payload ''inlines'' = None"
  obtains schema cleaned obj where
    "policy_gate a (Some ctx) po_can_create ''create'' = Inr ()"
    "\<not> (singleton_rule a (Some ctx) \<and> has_any_row (ma_model a) s)"
    "apply_field_policy_to_schema (build_model_schema (ce_protected ce) a) a (Some ctx) None = Inr schema"
    "prepare_write_payload (ce_iso ce) payload schema (ma_model a) False = Inr cleaned"
    "insert_record ce a cleaned s = (Inr obj, s')"
    "serialize_record_with_policy (ce_protected ce) a (Some ctx) obj = Inr out"
proof -
  have sp: "split_parent_payload payload = Inr (payload, [])"
    using assms(3) by (simp add: split_parent_payload_def)
  show ?thesis
    using assms(1,2) that
    unfolding create_record_def plain_hooks_def
    by (auto simp: sbind_lift_Inr sp res_simps augment_plain split: if_splits) metis+
qed

text \<open>The value a column of a new row holds, given the payload.\<close>

lemma getattr_map: "distinct (map f xs) \<Longrightarrow> x \<in> set xs \<Longrightarrow> getattr (map (\<lambda>c. (f c, g c)) xs) (f x) = g x"
proof (induction xs)
  case (Cons y ys)
  then have "x \<noteq> y \<Longrightarrow> f x \<noteq> f y" by (auto simp: image_iff)
  with Cons show ?case by (auto simp: getattr_def)
qed simp

lemma build_row_col:
  assumes "distinct (column_names m)" and "c \<in> set (mo_columns m)"
  shows "getattr (build_row env n m values) (col_name c) =
    (case map_of values (col_name c) of Some v \<Rightarrow> bound c v | None \<Rightarrow> env_default env n (table_key m) c)"
  using getattr_map [of col_name "mo_columns m" c] assms by (simp add: build_row_def column_names_def)

text \<open>a record the framework creates (plain hooks, no inlines) is one new row of its own table.
  A column the payload does not name has the model's default; one it does name is writable both
  statically and for this caller, so a protected, read-only, automatic or policy-restricted
  column is never set from a payload.\<close>

theorem create_sets_only_writable_columns:
  assumes "create_record ce a payload (Some ctx) s = (Inr out, s')" and "plain_hooks a"
    and "map_of payload ''inlines'' = None" and "distinct (column_names (ma_model a))"
    and "fst ` set (ma_calculated_fields a) \<inter> set (column_names (ma_model a)) = {}"
  shows "\<exists>r. (\<forall>t. table_rows s' t =
        (if t = table_key (ma_model a) then table_rows s t @ [r] else table_rows s t))
    \<and> (\<forall>c \<in> set (mo_columns (ma_model a)).
        (col_name c \<notin> fst ` set payload
           \<and> getattr r (col_name c) = env_default (ce_db ce) (se_drawn s) (table_key (ma_model a)) c)
        \<or> (static_field_permission (ce_protected ce) a (col_name c) = FP_WRITE
           \<and> (\<forall>p. ma_policy a = Some p \<longrightarrow>
                po_field_permission p (col_name c) None ctx = Inr FP_WRITE)))"
proof -
  obtain schema cleaned obj where st:
    "apply_field_policy_to_schema (build_model_schema (ce_protected ce) a) a (Some ctx) None = Inr schema"
    "prepare_write_payload (ce_iso ce) payload schema (ma_model a) False = Inr cleaned"
    "insert_record ce a cleaned s = (Inr obj, s')"
    using create_steps [OF assms(1-3)] by metis
  have keys: "fst ` set cleaned = fst ` set payload"
    using prepare_Inr_keys(1) [OF st(2)] by (metis list.set_map)
  have w: "f \<in> set (writable_field_names schema)" if "f \<in> fst ` set payload" for f
    using that prepare_Inr_keys(2) [OF st(2)] keys by auto
  have col: "(col_name c \<notin> fst ` set payload
           \<and> getattr obj (col_name c) = env_default (ce_db ce) (se_drawn s) (table_key (ma_model a)) c)
      \<or> (static_field_permission (ce_protected ce) a (col_name c) = FP_WRITE
           \<and> (\<forall>p. ma_policy a = Some p \<longrightarrow>
                po_field_permission p (col_name c) None ctx = Inr FP_WRITE))"
    if c: "c \<in> set (mo_columns (ma_model a))" for c
  proof (cases "col_name c \<in> fst ` set payload")
    case True
    note wr = w [OF True]
    have calc: "col_name c \<notin> fst ` set (ma_calculated_fields a)"
      using assms(5) c by (auto simp: column_names_def)
    have "col_name c \<in> set (writable_field_names (build_model_schema (ce_protected ce) a))"
      using policy_schema_writable [OF st(1)] wr by blast
    from writable_is_static_write [OF this] have "static_field_permission (ce_protected ce) a (col_name c) = FP_WRITE"
      using calc by (simp add: static_field_permission_def)
    then show ?thesis using policy_schema_write_granted [OF st(1) _ wr] by blast
  next
    case False
    then have "map_of cleaned (col_name c) = None"
      using keys by (simp add: map_of_eq_None_iff)
    then show ?thesis
      using False insert_record_Inr(1) [OF st(3)] build_row_col [OF assms(4) c] by simp
  qed
  show ?thesis
    using insert_record_Inr(2) [OF st(3)] col by (intro exI [of _ obj]) blast
qed

lemma find_by_pk_Inr: "find_by_pk m pk v s = (Inr (Some r), s') \<Longrightarrow> s' = s \<and> r \<in> set (table_rows s (table_key m))"
  by (auto simp: find_by_pk_def find_Some_iff split: sum.splits)

lemma find_by_pk_state: "find_by_pk m pk v s = (res, s') \<Longrightarrow> s' = s"
  by (auto simp: find_by_pk_def split: sum.splits)

lemma get_record_Inr:
  assumes "get_record_or_404 a rid s = (Inr r, s')"
  shows "s' = s" and "r \<in> set (table_rows s (table_key (ma_model a)))"
proof -
  from assms obtain pk v found s1 where f: "find_by_pk (ma_model a) pk v s = (Inr found, s1)"
    "(case found of None \<Rightarrow> throw (http 404 ''Record not found.'') | Some r \<Rightarrow> ret r) s1 = (Inr r, s')"
    by (auto simp: get_record_or_404_def sbind_lift_Inr res_simps)
  then have "found = Some r" "s' = s1" by (auto split: option.splits)
  with f(1) show "s' = s" "r \<in> set (table_rows s (table_key (ma_model a)))"
    using find_by_pk_Inr by auto
qed

lemma save_changes_Inr:
  assumes "save_changes ce a old values s = (Inr new, s')"
  shows "new = apply_changes (ma_model a) values old"
    and "table_rows s' t = (if t = table_key (ma_model a)
      then map (\<lambda>r. if same_row (ma_model a) r old then new else r) (table_rows s t) else table_rows s t)"
  using assms by (auto simp: save_changes_def res_simps store_row_def flush_def Let_def split: option.splits)

lemma apply_changes_other:
  "f \<notin> fst ` set changes \<Longrightarrow> getattr (apply_changes m changes r) f = getattr r f"
  unfolding apply_changes_def by (intro getattr_setattrs_other) (auto simp: image_iff)

lemma update_steps:
  assumes "update_record ce a rid payload (Some ctx) s = (Inr out, s')" and "plain_hooks a"
    and "map_of payload ''inlines'' = None"
  obtains old schema cleaned new where
    "get_record_or_404 a rid s = (Inr old, s)"
    "policy_gate a (Some ctx) (\<lambda>p. po_can_update_object p old) ''update'' = Inr ()"
    "apply_field_policy_to_schema (build_model_schema (ce_protected ce) a) a (Some ctx) (Some old) = Inr schema"
    "prepare_write_payload (ce_iso ce) payload schema (ma_model a) True = Inr cleaned"
    "save_changes ce a old cleaned s = (Inr new, s')"
    "serialize_record_with_policy (ce_protected ce) a (Some ctx) new = Inr out"
proof -
  have sp: "split_parent_payload payload = Inr (payload, [])"
    using assms(3) by (simp add: split_parent_payload_def)
  from assms(1) obtain old where g: "get_record_or_404 a rid s = (Inr old, s)"
    unfolding update_record_def update_record_ctx_def
    by (auto simp: sbind_lift_Inr sp sbind_Inr_iff dest: get_record_Inr(1))
  show ?thesis
    using assms(1,2) that [OF g]
    unfolding update_record_def update_record_ctx_def plain_hooks_def
    by (auto simp: sbind_lift_Inr sp g sbind_Inr_iff res_simps augment_plain) metis
qed



section \<open>A concrete admin\<close>

definition text_column :: "string \<Rightarrow> bool \<Rightarrow> column" where
  "text_column n pk = \<lparr>col_name = n, col_classes = [SaString], col_type_name = ''String'',
     col_py_type = Some PyStr, col_length = None, col_enums = [], col_primary_key = pk,
     col_nullable = False, col_has_default = pk, col_foreign_keys = []\<rparr>"

definition notes_model :: sa_model where
  "notes_model = \<lparr>mo_tablename = ''notes'', mo_schema = None, mo_class = ''Note'',
     mo_tenant_base = True, mo_columns = [text_column ''id'' True, text_column ''title'' False,
       text_column ''status'' False, text_column ''is_system'' False]\<rparr>"

definition notes_admin :: model_admin where
  "notes_admin = (ModelAdmin notes_model)
     \<lparr>ma_readonly_fields := [''status''], ma_policy := Some (AdminPolicy (Some ''notes''))\<rparr>"

definition plain_db :: db_env where
  "plain_db = \<lparr>env_default = (\<lambda>n t c. if col_primary_key c then VStr (str_nat n) else VNone),
     env_check = (\<lambda>s. None), env_eq = (\<lambda>c x y. x = y), env_le = (\<lambda>x y. True),
     env_ilike = (\<lambda>p t. False)\<rparr>"

definition plain_crud :: crud_env where
  "plain_crud = \<lparr>ce_db = plain_db,
     ce_iso = \<lparr>ip_datetime = (\<lambda>s. None), ip_date = (\<lambda>s. None), ip_time = (\<lambda>s. None), ip_date_of = id\<rparr>,
     ce_protected = [''hashed_password'']\<rparr>"

definition notes_session :: session where
  "notes_session = \<lparr>se_tables = [(''notes'', [
     [(''id'', VStr ''a''), (''title'', VStr ''x''), (''status'', VStr ''open''), (''is_system'', VNone)],
     [(''id'', VStr ''b''), (''title'', VStr ''y''), (''status'', VStr ''open''), (''is_system'', VBool True)]])],
     se_drawn = 7\<rparr>"

lemma notes_admin_plain: "plain_hooks notes_admin"
  by (simp add: plain_hooks_def notes_admin_def ModelAdmin_def)

lemma isr_fst: "isr (fst p) \<Longrightarrow> p = (Inr (projr (fst p)), snd p)"
  by (cases p; cases "fst p") auto

lemma create_sets_only_writable_columns_witness:
  "\<exists>r. table_rows (snd (create_record plain_crud notes_admin [(''title'', VStr ''new'')] (Some anyone)
        notes_session)) ''notes'' = table_rows notes_session ''notes'' @ [r]"
proof -
  let ?run = "create_record plain_crud notes_admin [(''title'', VStr ''new'')] (Some anyone) notes_session"
  have "isr (fst ?run)" by code_simp
  note run = isr_fst [OF this]
  have k: "table_key (ma_model notes_admin) = ''notes''" by code_simp
  have "\<exists>r. \<forall>t. table_rows (snd ?run) t = (if t = table_key (ma_model notes_admin)
      then table_rows notes_session t @ [r] else table_rows notes_session t)"
    using create_sets_only_writable_columns [OF run notes_admin_plain]
    by (auto simp: notes_admin_def ModelAdmin_def notes_model_def text_column_def column_names_def)
  then show ?thesis unfolding k by metis
qed



end
