(* ===== verification/Catalog.thy ===== *)
theory Catalog
  imports Registries
begin

text \<open>
  \<open>src/asterion/authz/catalog.py\<close>: the permission keys a registry of admins gives rise to, and
  their synchronisation into the \<open>PermissionCatalog\<close> table.  The table is the list of its
  rows; a flush that would store a key twice raises, as the table's unique index makes it.
\<close>

definition REGISTRY_SOURCE :: string where "REGISTRY_SOURCE = ''registry''"

definition READ_CRUD_ACTIONS :: "string list" where
  "READ_CRUD_ACTIONS = [''list'', ''read'']"

definition BUILTIN_PERMISSION_KEYS :: "string list" where
  "BUILTIN_PERMISSION_KEYS = [''admin.tenant_members.list'', ''admin.tenant_members.read'',
     ''admin.tenant_members.create'', ''admin.tenant_members.update'',
     ''admin.tenant_members.delete'']"

definition crud_actions_for :: "model_admin \<Rightarrow> string list" where
  "crud_actions_for admin =
    (case (case ma_policy admin of Some p \<Rightarrow> po_capability_flags p False
                                 | None \<Rightarrow> (True, True, True)) of
       (c, u, d) \<Rightarrow> READ_CRUD_ACTIONS @ (if c then [''create''] else [])
         @ (if u then [''update''] else []) @ (if d then [''delete''] else []))"

definition namespace_for :: "model_admin \<Rightarrow> string" where
  "namespace_for admin = (if ma_platform_only admin then ''platform'' else ''admin'')"

definition dotted :: "string \<Rightarrow> string \<Rightarrow> string \<Rightarrow> string" where
  "dotted ns r a = ns @ ''.'' @ r @ ''.'' @ a"

definition crud_keys :: "string \<Rightarrow> model_admin \<Rightarrow> string list res" where
  "crud_keys resource admin =
     rbind (validate_resource_name (VStr resource)) (\<lambda>r.
     Inr (map (dotted (namespace_for admin) r) (crud_actions_for admin)))"

text \<open>\<open>action_name\<close> is the validated name of an action, or nothing where the loop continues.\<close>

definition action_name :: "action_decl \<Rightarrow> string list" where
  "action_name action =
    (if \<not> truthy (ac_name action) then []
     else case validate_action_name (ac_name action) of Inl e \<Rightarrow> [] | Inr n \<Rightarrow> [n])"

definition action_keys :: "string \<Rightarrow> model_admin \<Rightarrow> string list res" where
  "action_keys resource admin =
     rbind (validate_resource_name (VStr resource)) (\<lambda>r.
     Inr (map (dotted (namespace_for admin) r) (concat (map action_name (ma_actions admin)))))"

definition validate_keys :: "string list \<Rightarrow> string list res" where
  "validate_keys = mapM (\<lambda>k. validate_permission_key (VStr k))"

definition admin_keys :: "model_admin \<Rightarrow> string list res" where
  "admin_keys admin =
     rbind (crud_keys (model_name admin) admin) (\<lambda>cks.
     rbind (validate_keys cks) (\<lambda>cks.
     rbind (action_keys (model_name admin) admin) (\<lambda>aks.
     rbind (validate_keys aks) (\<lambda>aks. Inr (cks @ aks)))))"

definition generate_permission_keys ::
    "admin_registry \<Rightarrow> permission_registry option \<Rightarrow> string list res" where
  "generate_permission_keys registry permissions =
     rbind (validate_keys BUILTIN_PERMISSION_KEYS) (\<lambda>builtin.
     rbind (mapM admin_keys (admin_all registry)) (\<lambda>kss.
     Inr (remdups (builtin @ concat kss
       @ (case permissions of None \<Rightarrow> [] | Some p \<Rightarrow> pk_keys p)))))"

definition category_for :: "string \<Rightarrow> string option" where
  "category_for key = (let parts = split_on CHR ''.'' key in
     if length parts = 3 then Some (parts ! 1) else None)"

section \<open>Synchronisation\<close>

record catalog_row =
  cr_key :: string
  cr_category :: "string option"
  cr_source :: "string option"

record sync_result =
  sr_added :: nat
  sr_removed :: nat
  sr_kept :: nat

definition sr_total :: "sync_result \<Rightarrow> nat" where
  "sr_total r = sr_added r + sr_kept r"

definition new_row :: "string \<Rightarrow> string \<Rightarrow> catalog_row" where
  "new_row source k = \<lparr>cr_key = k, cr_category = category_for k, cr_source = Some source\<rparr>"

definition sync_permission_catalog ::
    "string list \<Rightarrow> string \<Rightarrow> bool \<Rightarrow> (catalog_row list, sync_result) proc" where
  "sync_permission_catalog desired_keys source prune = (\<lambda>rows.
     case validate_keys desired_keys of
       Inl e \<Rightarrow> (Inl e, rows)
     | Inr validated \<Rightarrow>
         let desired = remdups validated;
             existing = map cr_key (filter (\<lambda>r. cr_source r = Some source) rows);
             to_add = filter (\<lambda>k. k \<notin> set existing) desired;
             to_remove = (if prune then filter (\<lambda>k. k \<notin> set desired) existing else []);
             kept = filter (\<lambda>k. k \<in> set existing) desired;
             others = filter (\<lambda>r. \<not> (cr_source r = Some source \<and> cr_key r \<in> set to_remove)) rows
         in if \<exists>k \<in> set to_add. k \<in> cr_key ` set rows
            then (Inl (PyExc (OtherExc ''IntegrityError'')
                    ''UNIQUE constraint failed: permission_catalog.key''), rows)
            else (Inr \<lparr>sr_added = length to_add, sr_removed = length to_remove,
                        sr_kept = length kept\<rparr>,
                  others @ map (new_row source) to_add))"

definition load_permission_keys :: "catalog_row list \<Rightarrow> string list" where
  "load_permission_keys rows = remdups (map cr_key rows)"

section \<open>Lemmas\<close>

lemma validate_keys_Inr:
  "validate_keys ks = Inr ks' \<longleftrightarrow> ks' = ks \<and> valid_keys ks"
proof (induction ks arbitrary: ks')
  case (Cons k ks)
  then show ?case
    by (auto simp: validate_keys_def res_simps)
qed (auto simp: validate_keys_def)

lemma crud_actions_re: "a \<in> set (crud_actions_for admin) \<Longrightarrow> action_re a"
  by (auto simp: crud_actions_for_def READ_CRUD_ACTIONS_def action_re_def word_char_def
      is_lower_def split: prod.splits if_splits)

lemma action_name_re: "a \<in> set (action_name d) \<Longrightarrow> action_re a"
  by (auto simp: action_name_def validate_action_name_Inr split: sum.splits if_splits)

lemma namespace_for_re [simp]: "namespace_re (namespace_for admin)"
  using namespace_re_admin by (simp add: namespace_for_def DEFAULT_NAMESPACE_def PLATFORM_NAMESPACE_def)

lemma dotted_split:
  assumes "namespace_re ns" "resource_re r" "action_re a"
  shows "split_on CHR ''.'' (dotted ns r a) = [ns, r, a]"
  unfolding dotted_def
  using assms by (intro split_key [of 0 62 _ 0 62 _ 0 62]) (simp_all add: re_key)

lemma dotted_valid:
  assumes "namespace_re ns" "resource_re r" "action_re a"
  shows "key_segments (split_on CHR ''.'' (dotted ns r a))"
  using assms dotted_split [OF assms]
  by (simp add: key_segments_def re_defs ident_word_is_key)

definition admin_key_list :: "model_admin \<Rightarrow> string list" where
  "admin_key_list admin = map (dotted (namespace_for admin) (model_name admin))
     (crud_actions_for admin @ concat (map action_name (ma_actions admin)))"

lemma admin_keys_Inr:
  assumes "resource_re (model_name admin)"
  shows "admin_keys admin = Inr (admin_key_list admin)"
proof -
  have v: "validate_resource_name (VStr (model_name admin)) = Inr (model_name admin)"
    using assms by (simp add: validate_resource_name_Inr)
  have "validate_keys (map (dotted (namespace_for admin) (model_name admin)) xs)
      = Inr (map (dotted (namespace_for admin) (model_name admin)) xs)"
    if "\<forall>x \<in> set xs. action_re x" for xs
    using that assms dotted_valid by (auto simp: validate_keys_Inr)
  note valid = this
  have c: "\<forall>x \<in> set (crud_actions_for admin). action_re x"
    "\<forall>x \<in> set (concat (map action_name (ma_actions admin))). action_re x"
    using crud_actions_re action_name_re by auto
  show ?thesis
    unfolding admin_keys_def crud_keys_def action_keys_def v rbind_simps
      valid [OF c(1)] valid [OF c(2)] admin_key_list_def map_append ..
qed

lemma builtin_keys_valid: "valid_keys BUILTIN_PERMISSION_KEYS"
  by (simp add: BUILTIN_PERMISSION_KEYS_def key_segments_def re_defs word_char_def key_char_def
      is_lower_def)

lemma registry_all_re: "registry_ok s \<Longrightarrow> a \<in> set (admin_all s) \<Longrightarrow> resource_re (model_name a)"
  by (auto simp: registry_ok_def entry_ok_def admin_all_def)

lemma generate_Inr:
  assumes "registry_ok reg"
  shows "generate_permission_keys reg perms = Inr (remdups (BUILTIN_PERMISSION_KEYS
    @ concat (map admin_key_list (admin_all reg)) @ (case perms of None \<Rightarrow> [] | Some p \<Rightarrow> pk_keys p)))"
proof -
  have "validate_keys BUILTIN_PERMISSION_KEYS = Inr BUILTIN_PERMISSION_KEYS"
    by (simp add: validate_keys_Inr builtin_keys_valid)
  moreover have "mapM admin_keys (admin_all reg) = Inr (map admin_key_list (admin_all reg))"
    using assms by (intro mapM_all_Inr admin_keys_Inr) (rule registry_all_re)
  ultimately show ?thesis by (simp add: generate_permission_keys_def)
qed

section \<open>What a synchronisation leaves\<close>

definition source_keys :: "string \<Rightarrow> catalog_row list \<Rightarrow> string set" where
  "source_keys src rows = cr_key ` {r \<in> set rows. cr_source r = Some src}"

lemma new_row_simps [simp]: "cr_key (new_row src k) = k" "cr_source (new_row src k) = Some src"
  by (simp_all add: new_row_def)

lemma existing_keys: "set (map cr_key (filter (\<lambda>r. cr_source r = Some src) rows)) = source_keys src rows"
  by (simp add: source_keys_def)

lemma source_keys_append: "source_keys src (xs @ ys) = source_keys src xs \<union> source_keys src ys"
  by (auto simp: source_keys_def)

lemma source_keys_new: "source_keys src (map (new_row src) ks) = set ks"
  by (force simp: source_keys_def image_iff)

lemma source_keys_removed:
  "source_keys src (filter (\<lambda>r. \<not> (cr_source r = Some src \<and> cr_key r \<in> R)) rows)
   = source_keys src rows - R"
  by (auto simp: source_keys_def)

abbreviation other_rows :: "string \<Rightarrow> catalog_row list \<Rightarrow> catalog_row list" where
  "other_rows src \<equiv> filter (\<lambda>r. cr_source r \<noteq> Some src)"

lemma other_rows_simps:
  "other_rows src (map (new_row src) ks) = []"
  "other_rows src (filter (\<lambda>r. \<not> (cr_source r = Some src \<and> cr_key r \<in> R)) rows) = other_rows src rows"
  by (induction ks; simp) (induction rows; auto)

lemma sync_unfold:
  assumes "valid_keys ks"
  shows "sync_permission_catalog ks src prune rows =
    (let E = source_keys src rows;
         to_add = filter (\<lambda>k. k \<notin> E) (remdups ks);
         to_remove = (if prune then filter (\<lambda>k. k \<notin> set ks)
           (map cr_key (filter (\<lambda>r. cr_source r = Some src) rows)) else [])
     in if \<exists>k \<in> set to_add. k \<in> cr_key ` set rows
        then (Inl (PyExc (OtherExc ''IntegrityError'')
                ''UNIQUE constraint failed: permission_catalog.key''), rows)
        else (Inr \<lparr>sr_added = length to_add, sr_removed = length to_remove,
                    sr_kept = length (filter (\<lambda>k. k \<in> E) (remdups ks))\<rparr>,
              filter (\<lambda>r. \<not> (cr_source r = Some src \<and> cr_key r \<in> set to_remove)) rows
              @ map (new_row src) to_add))"
proof -
  have v: "validate_keys ks = Inr ks" using assms by (simp add: validate_keys_Inr)
  show ?thesis
    unfolding sync_permission_catalog_def v sum.case Let_def existing_keys set_remdups ..
qed

lemma sync_Inr:
  assumes "sync_permission_catalog ks src prune rows = (Inr r, rows')"
  shows "valid_keys ks"
    and "source_keys src rows' = set ks \<union> (if prune then {} else source_keys src rows)"
    and "other_rows src rows' = other_rows src rows"
proof -
  from assms show v: "valid_keys ks"
    by (auto simp: sync_permission_catalog_def validate_keys_Inr split: sum.splits)
  let ?rem = "if prune then filter (\<lambda>k. k \<notin> set ks)
    (map cr_key (filter (\<lambda>r. cr_source r = Some src) rows)) else []"
  have rows': "rows' = filter (\<lambda>r. \<not> (cr_source r = Some src \<and> cr_key r \<in> set ?rem)) rows
      @ map (new_row src) (filter (\<lambda>k. k \<notin> source_keys src rows) (remdups ks))"
    using assms unfolding sync_unfold [OF v] Let_def by (simp only: prod.inject split: if_splits) auto
  have rem: "set ?rem = (if prune then source_keys src rows - set ks else {})"
    by (simp del: set_map add: set_filter existing_keys set_diff_eq)
  show "source_keys src rows' = set ks \<union> (if prune then {} else source_keys src rows)"
    unfolding rows' source_keys_append source_keys_new source_keys_removed rem by auto
  show "other_rows src rows' = other_rows src rows"
    unfolding rows' filter_append other_rows_simps by simp
qed

lemma sync_again:
  assumes "valid_keys ks" and "source_keys src rows = set ks"
  shows "sync_permission_catalog ks src prune rows
    = (Inr \<lparr>sr_added = 0, sr_removed = 0, sr_kept = card (set ks)\<rparr>, rows)"
proof -
  have f: "filter (\<lambda>k. k \<notin> set ks) (remdups ks) = []"
    "filter (\<lambda>k. k \<in> set ks) (remdups ks) = remdups ks"
    by (auto intro: filter_True)
  have "filter (\<lambda>k. k \<notin> set ks) (map cr_key (filter (\<lambda>r. cr_source r = Some src) rows)) = []"
    using assms(2) existing_keys [of src rows] by (auto simp: filter_empty_conv)
  then show ?thesis
    unfolding sync_unfold [OF assms(1)] Let_def assms(2) f
    by (simp add: length_remdups_card_conv)
qed

section \<open>Properties\<close>

text \<open>The keys derived from a registry of admins are concrete, valid permission keys; each
  admin's keys lie in the namespace of its tier and a read-only policy yields no write key.\<close>

theorem generated_keys_are_concrete:
  assumes "registry_ok reg"
  shows "\<exists>ks. generate_permission_keys reg None = Inr ks \<and> valid_keys ks
    \<and> set BUILTIN_PERMISSION_KEYS \<subseteq> set ks
    \<and> (\<forall>k \<in> set ks - set BUILTIN_PERMISSION_KEYS. \<exists>a \<in> set (admin_all reg). \<exists>act.
         action_re act \<and> split_on CHR ''.'' k = [namespace_for a, model_name a, act])"
proof -
  let ?ks = "remdups (BUILTIN_PERMISSION_KEYS @ concat (map admin_key_list (admin_all reg)))"
  have g: "generate_permission_keys reg None = Inr ?ks"
    using generate_Inr [OF assms, of None] by simp
  have k: "\<exists>a \<in> set (admin_all reg). \<exists>act. action_re act \<and> key_segments (split_on CHR ''.'' k)
      \<and> split_on CHR ''.'' k = [namespace_for a, model_name a, act]"
    if k: "k \<in> set (concat (map admin_key_list (admin_all reg)))" for k
  proof -
    from k obtain a act where a: "a \<in> set (admin_all reg)" "k = dotted (namespace_for a) (model_name a) act"
      "act \<in> set (crud_actions_for a) \<or> act \<in> set (concat (map action_name (ma_actions a)))"
      by (auto simp: admin_key_list_def)
    then have r: "action_re act" "resource_re (model_name a)"
      using crud_actions_re action_name_re registry_all_re [OF assms] by auto
    then show ?thesis
      using a dotted_split [OF namespace_for_re r(2,1)] dotted_valid [OF namespace_for_re r(2,1)] by auto
  qed
  have v: "valid_keys ?ks"
    using k builtin_keys_valid by fastforce
  have "\<forall>k \<in> set ?ks - set BUILTIN_PERMISSION_KEYS. \<exists>a \<in> set (admin_all reg). \<exists>act.
      action_re act \<and> split_on CHR ''.'' k = [namespace_for a, model_name a, act]"
    using k by fastforce
  then show ?thesis using g v by (intro exI [of _ ?ks]) simp
qed

definition ledger_admin :: model_admin where
  "ledger_admin = (ModelAdmin \<lparr>mo_tablename = ''ledger'', mo_schema = None, mo_class = ''Ledger'',
     mo_tenant_base = True, mo_columns = []\<rparr>) \<lparr>ma_policy := Some (ReadOnlyPolicy None)\<rparr>"

lemma generated_keys_are_concrete_witness:
  "\<exists>ks. generate_permission_keys (snd (admin_register ledger_admin admin_registry_init)) None = Inr ks
     \<and> valid_keys ks"
proof -
  have "registry_ok (snd (admin_register ledger_admin admin_registry_init))"
    by (rule admin_register_ok) (simp add: registry_ok_def admin_registry_init_def)
  from generated_keys_are_concrete [OF this] show ?thesis by blast
qed

text \<open>a synchronisation that succeeds leaves exactly the desired keys under its source and every
  other row untouched; run again it changes nothing and reports every key as kept.\<close>

theorem sync_reaches_desired_and_is_idempotent:
  assumes "sync_permission_catalog ks src True rows = (Inr r, rows')"
  shows "source_keys src rows' = set ks \<and> other_rows src rows' = other_rows src rows
    \<and> sync_permission_catalog ks src True rows'
        = (Inr \<lparr>sr_added = 0, sr_removed = 0, sr_kept = card (set ks)\<rparr>, rows')"
  using sync_Inr [OF assms] sync_again by simp

lemma sync_reaches_desired_and_is_idempotent_witness:
  "source_keys ''registry'' (snd (sync_permission_catalog [''admin.notes.read''] ''registry'' True
     [new_row ''registry'' ''admin.old.read'', new_row ''manual'' ''admin.x.read'']))
   = {''admin.notes.read''}"
proof -
  have "sync_permission_catalog [''admin.notes.read''] ''registry'' True
     [new_row ''registry'' ''admin.old.read'', new_row ''manual'' ''admin.x.read'']
   = (Inr \<lparr>sr_added = 1, sr_removed = 1, sr_kept = 0\<rparr>,
      [new_row ''manual'' ''admin.x.read'', new_row ''registry'' ''admin.notes.read''])"
    by code_simp
  from sync_reaches_desired_and_is_idempotent [OF this] this show ?thesis by simp
qed

text \<open>A desired key that another source already stores makes the synchronisation fail on the
  table's unique index and change nothing, although rows of other sources are meant to be left
  alone.\<close>

theorem sync_fails_on_foreign_key_row:
  assumes "valid_keys ks" and "k \<in> set ks" and "row \<in> set rows" and "cr_key row = k"
    and "k \<notin> source_keys src rows"
  shows "\<exists>msg. sync_permission_catalog ks src prune rows
    = (Inl (PyExc (OtherExc ''IntegrityError'') msg), rows)"
  using assms unfolding sync_unfold [OF assms(1)] Let_def by (auto simp: image_iff)

lemma sync_fails_on_foreign_key_row_witness:
  "\<exists>msg. sync_permission_catalog [''admin.notes.read''] ''registry'' True [new_row ''manual'' ''admin.notes.read'']
    = (Inl (PyExc (OtherExc ''IntegrityError'') msg), [new_row ''manual'' ''admin.notes.read''])"
proof (rule sync_fails_on_foreign_key_row [where row = "new_row ''manual'' ''admin.notes.read''"])
  show "valid_keys [''admin.notes.read'']" by code_simp
  show "''admin.notes.read'' \<notin> source_keys ''registry'' [new_row ''manual'' ''admin.notes.read'']"
    by (auto simp: source_keys_def)
qed simp_all

text \<open>A wildcard registered by an extension reaches the catalog.\<close>

theorem extension_wildcard_reaches_catalog:
  assumes "registry_ok reg" and "key_segments (split_on CHR ''.'' k)"
  shows "\<exists>ks. generate_permission_keys reg
      (Some (snd (permission_register [k] \<lparr>pk_keys = [], pk_frozen = False\<rparr>))) = Inr ks \<and> k \<in> set ks"
proof -
  have "validate_permission_key (VStr k) = Inr k"
    using assms(2) by (simp add: validate_permission_key_Inr)
  then have "pk_keys (snd (permission_register [k] \<lparr>pk_keys = [], pk_frozen = False\<rparr>)) = [k]"
    by (simp add: permission_register_def proc_simps)
  then show ?thesis
    using generate_Inr [OF assms(1)] by simp
qed

lemma extension_wildcard_reaches_catalog_witness:
  "\<exists>ks. generate_permission_keys admin_registry_init
      (Some (snd (permission_register [''oauth.*''] \<lparr>pk_keys = [], pk_frozen = False\<rparr>))) = Inr ks
     \<and> ''oauth.*'' \<in> set ks"
proof (rule extension_wildcard_reaches_catalog)
  show "registry_ok admin_registry_init" by (simp add: registry_ok_def admin_registry_init_def)
  show "key_segments (split_on CHR ''.'' ''oauth.*'')" by code_simp
qed

end
