(* ===== verification/CrudRouter.thy ===== *)
theory CrudRouter
  imports Crud Catalog
begin

text \<open>
  \<open>src/asterion/crud/router.py\<close>: the handlers behind the CRUD routes.  A handler looks the admin
  up, authorises the caller against the tier the admin belongs to, runs the service and writes
  the audit row into the same session; the session is one transaction
  (\<open>src/asterion/db/dependencies.py\<close>), so an exception leaves the tables as they were.  The
  body of a write is a JSON object.
\<close>

record crud_request =
  rq_method :: string
  rq_path :: string
  rq_client_ip :: pyval
  rq_query :: "(string \<times> string) list"

record app =
  app_registry :: admin_registry
  app_crud :: crud_env
  app_pii :: pii_env
  app_audit :: sa_model
  app_tenant_audit :: sa_model
  app_search_path_ok :: "session \<Rightarrow> bool"

text \<open>The transaction of \<open>get_async_session\<close>: commit on return, roll back on an exception.\<close>

definition in_transaction :: "('s, 'a) proc \<Rightarrow> ('s, 'a) proc" where
  "in_transaction m = (\<lambda>s. case m s of (Inl e, _) \<Rightarrow> (Inl e, s) | (Inr x, s') \<Rightarrow> (Inr x, s'))"

definition get_admin_class :: "app \<Rightarrow> string \<Rightarrow> model_admin res" where
  "get_admin_class ap resource =
    (let missing = http 404 (''Resource '' @ [quote] @ resource @ [quote] @ '' is not registered.'') in
     case validate_resource_name (VStr resource) of
       Inl e \<Rightarrow> Inl (if catches InvalidResourceNameError e then missing else e)
     | Inr r \<Rightarrow> (case admin_get (app_registry ap) r of None \<Rightarrow> Inl missing | Some a \<Rightarrow> Inr a))"

definition require_resource_permission :: "admin_ctx \<Rightarrow> model_admin \<Rightarrow> string \<Rightarrow> unit res" where
  "require_resource_permission ctx a action =
    (if ma_platform_only a
     then rbind (platform_key (model_name a) action) (\<lambda>key.
       rbind (ctx_has_permission ctx key) (\<lambda>ok.
       guard ok (http 403 ''Platform privileges required.'')))
     else require_resource_access ctx (model_name a) action)"

definition audit_crud ::
    "app \<Rightarrow> crud_request \<Rightarrow> string \<Rightarrow> int \<Rightarrow> admin_ctx \<Rightarrow> string \<Rightarrow> pyval \<Rightarrow> row option \<Rightarrow> unit db" where
  "audit_crud ap rq action status ctx resource record_id changes =
     record_audit_in_session (app_pii ap) (ce_db (app_crud ap)) (app_audit ap) (app_tenant_audit ap)
       (app_search_path_ok ap)
       \<lparr> ak_action = action, ak_method = rq_method rq, ak_path = rq_path rq,
         ak_status_code = status, ak_actor = ctx_principal ctx,
         ak_tenant_id = (case ctx_tenant ctx of None \<Rightarrow> VNone | Some t \<Rightarrow> VStr (tn_id t)),
         ak_resource = VStr resource, ak_record_id = record_id, ak_changes = changes,
         ak_ip_address = rq_client_ip rq, ak_tenant_scoped = (ctx_tenant ctx \<noteq> None),
         ak_pii_mode = None, ak_behavioral_detail = None \<rparr>"

definition authorized :: "app \<Rightarrow> admin_ctx \<Rightarrow> string \<Rightarrow> string \<Rightarrow> model_admin res" where
  "authorized ap ctx resource action =
     rbind (get_admin_class ap resource) (\<lambda>a.
     rbind (require_resource_permission ctx a action) (\<lambda>_. Inr a))"

definition list_impl ::
    "app \<Rightarrow> string \<Rightarrow> crud_request \<Rightarrow> int \<Rightarrow> int \<Rightarrow> string option \<Rightarrow> string option \<Rightarrow> string option
     \<Rightarrow> admin_ctx \<Rightarrow> page_result db" where
  "list_impl ap resource rq limit offset search order_param dh ctx =
     sbind (lift_res (authorized ap ctx resource ''list'')) (\<lambda>a.
     sbind (lift_res (parse_filter_query (rq_query rq) a)) (\<lambda>filters.
     list_records (app_crud ap) a limit offset search filters order_param dh (Some ctx)))"

definition create_impl :: "app \<Rightarrow> string \<Rightarrow> crud_request \<Rightarrow> row \<Rightarrow> admin_ctx \<Rightarrow> row db" where
  "create_impl ap resource rq payload ctx =
     sbind (lift_res (authorized ap ctx resource ''create'')) (\<lambda>a.
     sbind (create_record (app_crud ap) a payload (Some ctx)) (\<lambda>result.
     sbind (audit_crud ap rq ''crud_create'' 201 ctx (model_name a) (getattr result ''id'') (Some payload)) (\<lambda>_.
     ret result)))"

definition read_impl :: "app \<Rightarrow> string \<Rightarrow> string \<Rightarrow> crud_request \<Rightarrow> admin_ctx \<Rightarrow> row db" where
  "read_impl ap resource record_id rq ctx =
     sbind (lift_res (authorized ap ctx resource ''read'')) (\<lambda>a.
     read_record (app_crud ap) a record_id (Some ctx))"

definition update_impl :: "app \<Rightarrow> string \<Rightarrow> string \<Rightarrow> crud_request \<Rightarrow> row \<Rightarrow> admin_ctx \<Rightarrow> row db" where
  "update_impl ap resource record_id rq payload ctx =
     sbind (lift_res (authorized ap ctx resource ''update'')) (\<lambda>a.
     sbind (update_record (app_crud ap) a record_id payload (Some ctx)) (\<lambda>result.
     sbind (audit_crud ap rq ''crud_update'' 200 ctx (model_name a) (VStr record_id) (Some payload)) (\<lambda>_.
     ret result)))"

definition delete_impl :: "app \<Rightarrow> string \<Rightarrow> string \<Rightarrow> crud_request \<Rightarrow> admin_ctx \<Rightarrow> row db" where
  "delete_impl ap resource record_id rq ctx =
     sbind (lift_res (authorized ap ctx resource ''delete'')) (\<lambda>a.
     sbind (delete_record (app_crud ap) a record_id (Some ctx)) (\<lambda>result.
     sbind (audit_crud ap rq ''crud_delete'' 200 ctx (model_name a) (VStr record_id) None) (\<lambda>_.
     ret result)))"

section \<open>Options of a foreign key and of an inline\<close>

definition resolve_model_scope :: "model_admin \<Rightarrow> string" where
  "resolve_model_scope a = (if mo_tenant_base (ma_model a) then ''tenant'' else ''global'')"

definition fk_rows :: "db_env \<Rightarrow> model_admin \<Rightarrow> column \<Rightarrow> column \<Rightarrow> string option \<Rightarrow> nat \<Rightarrow> session \<Rightarrow> (string \<times> string) list" where
  "fk_rows env target pk label q limit s =
    (let wanted = (case q of None \<Rightarrow> [] | Some t \<Rightarrow> strip t);
         st = \<lparr>st_where = (if wanted = [] then [] else [PSearch [label] (''%'' @ wanted @ ''%'')]),
               st_order = [(label, False)]\<rparr>
     in map (\<lambda>r. (py_str (getattr r (col_name pk)),
               if getattr r (col_name label) = VNone then py_str (getattr r (col_name pk))
               else py_str (getattr r (col_name label))))
          (page_rows env st (ma_model target) limit 0 s))"

definition fk_options_impl ::
    "app \<Rightarrow> string \<Rightarrow> string \<Rightarrow> int \<Rightarrow> string option \<Rightarrow> admin_ctx \<Rightarrow> (string \<times> string) list db" where
  "fk_options_impl ap resource field limit0 q ctx =
     sbind (lift_res (normalize_limit_offset limit0 0)) (\<lambda>(limit, _).
     sbind (lift_res (authorized ap ctx resource ''read'')) (\<lambda>a.
     case get_model_column (ma_model a) field of
       Inl _ \<Rightarrow> throw (http 404 (''Field '' @ [quote] @ field @ [quote] @ '' is not a column of ''
                         @ [quote] @ resource @ [quote] @ ''.''))
     | Inr column \<Rightarrow>
         sbind (ma_resolve_fk_options a field ctx q limit) (\<lambda>custom.
         case custom of
           Some os \<Rightarrow> ret (take (nat limit) os)
         | None \<Rightarrow> (case col_foreign_keys column of
             [] \<Rightarrow> throw (http 404 (''Field '' @ [quote] @ field @ [quote] @ '' is not a foreign key.''))
           | fk # _ \<Rightarrow> (case admin_get (app_registry ap) (fst fk) of
               None \<Rightarrow> ret []
             | Some target \<Rightarrow>
                 if resolve_model_scope target \<noteq> resolve_model_scope a then ret []
                 else sbind (lift_res (require_resource_permission ctx target ''list'')) (\<lambda>_.
                   sbind (lift_res (primary_key_column (ma_model target))) (\<lambda>pk.
                   sbind (lift_res (get_model_column (ma_model target) (label_field target))) (\<lambda>label.
                   gets (fk_rows (ce_db (app_crud ap)) target pk label q (nat limit))))))))))"

definition inline_options_impl ::
    "app \<Rightarrow> string \<Rightarrow> string \<Rightarrow> int \<Rightarrow> string option \<Rightarrow> admin_ctx \<Rightarrow> (string \<times> string) list db" where
  "inline_options_impl ap resource inline_table limit0 q ctx =
     sbind (lift_res (normalize_limit_offset limit0 0)) (\<lambda>(limit, _).
     sbind (lift_res (authorized ap ctx resource ''read'')) (\<lambda>a.
     case map_of (inline_index a) inline_table of
       None \<Rightarrow> throw (http 404 ([quote] @ inline_table @ [quote] @ '' is not an inline of ''
                         @ [quote] @ resource @ [quote] @ ''.''))
     | Some i \<Rightarrow> sbind (in_resolve_options i ctx q limit) (\<lambda>options.
         ret (take (nat limit) (case options of None \<Rightarrow> [] | Some os \<Rightarrow> os)))))"

section \<open>Authorisation of a request\<close>

lemma in_transaction_error: "in_transaction m s = (Inl e, s') \<Longrightarrow> s' = s"
  by (auto simp: in_transaction_def split: prod.splits sum.splits)

lemma in_transaction_ok: "in_transaction m s = (Inr x, s') \<longleftrightarrow> m s = (Inr x, s')"
  by (auto simp: in_transaction_def split: prod.splits sum.splits)

definition grants :: "admin_ctx \<Rightarrow> string \<Rightarrow> string \<Rightarrow> string \<Rightarrow> bool" where
  "grants ctx ns r a = (\<exists>g \<in> set (ctx_permissions ctx). strip g \<noteq> [] \<and> covers (key_parts g) [ns, r, a])"

lemma ctx_has_permission_key:
  "permission_key r a ns = Inr k \<Longrightarrow> namespace_re ns \<Longrightarrow> ctx_has_permission ctx k = Inr (grants ctx ns r a)"
  by (simp add: ctx_has_permission_def has_permission_key grants_def)

definition grants_all_platform :: "admin_ctx \<Rightarrow> bool" where
  "grants_all_platform ctx = (\<exists>g \<in> set (ctx_permissions ctx).
     strip g \<noteq> [] \<and> covers (key_parts g) [''platform'', ''*''])"

lemma platform_wildcard_granted:
  "ctx_has_permission ctx PLATFORM_WILDCARD = Inr (grants_all_platform ctx)"
proof -
  have s: "split_on CHR ''.'' PLATFORM_WILDCARD = [''platform'', ''*'']"
    by (simp add: PLATFORM_WILDCARD_def PLATFORM_NAMESPACE_def)
  have "key_segments [''platform'', ''*'']"
    using namespace_re_admin(2) by (simp add: key_segments_def PLATFORM_NAMESPACE_def)
  then show ?thesis
    using has_permission_valid [of PLATFORM_WILDCARD] s
    by (simp add: ctx_has_permission_def grants_all_platform_def)
qed

text \<open>Who the tenant-tier gate and the CRUD routes let through, for a resource and an action with
  valid names.\<close>

definition may_access_tenant_tier :: "admin_ctx \<Rightarrow> string \<Rightarrow> string \<Rightarrow> bool" where
  "may_access_tenant_tier ctx resource action =
    (grants ctx DEFAULT_NAMESPACE resource action
     \<or> (ctx_tenant ctx = None
        \<and> (\<not> single_tenant_superadmin_required ctx \<or> grants_all_platform ctx)))"

definition may_access :: "admin_ctx \<Rightarrow> model_admin \<Rightarrow> string \<Rightarrow> bool" where
  "may_access ctx a action =
    (if ma_platform_only a then grants ctx PLATFORM_NAMESPACE (model_name a) action
     else may_access_tenant_tier ctx (model_name a) action)"

lemma granted_key:
  assumes "resource_re r" "action_re action" "namespace_re ns"
  obtains k where "permission_key r action ns = Inr k"
    and "ctx_has_permission ctx k = Inr (grants ctx ns r action)"
    and "k = dotted ns r action"
  using assms ctx_has_permission_key [OF _ assms(3)] permission_key_Inr [OF assms(3)]
  unfolding dotted_def by blast

lemma require_resource_access_eq:
  assumes "resource_re r" "action_re action"
  shows "require_resource_access ctx r action =
    (if may_access_tenant_tier ctx r action then Inr ()
     else Inl (http 403 (if ctx_tenant ctx = None then ''Superadmin privileges required.''
       else ''Missing required permission: '' @ dotted DEFAULT_NAMESPACE r action)))"
proof -
  obtain k where k: "permission_key r action DEFAULT_NAMESPACE = Inr k"
    "ctx_has_permission ctx k = Inr (grants ctx DEFAULT_NAMESPACE r action)"
    "k = dotted DEFAULT_NAMESPACE r action"
    using granted_key [OF assms namespace_re_admin(1)] .
  show ?thesis
  proof (cases "ctx_tenant ctx")
    case None
    then show ?thesis
      using k(1,2) by (simp add: require_resource_access_def may_access_tenant_tier_def
        platform_wildcard_granted guard_def)
  next
    case (Some t)
    then show ?thesis
      using k by (simp add: require_resource_access_def may_access_tenant_tier_def guard_def)
  qed
qed

lemma require_resource_permission_eq:
  assumes "resource_re (model_name a)" "action_re action"
  shows "require_resource_permission ctx a action =
    (if may_access ctx a action then Inr ()
     else Inl (http 403 (if ma_platform_only a then ''Platform privileges required.''
       else if ctx_tenant ctx = None then ''Superadmin privileges required.''
       else ''Missing required permission: '' @ dotted DEFAULT_NAMESPACE (model_name a) action)))"
proof -
  obtain k where k: "permission_key (model_name a) action PLATFORM_NAMESPACE = Inr k"
    "ctx_has_permission ctx k = Inr (grants ctx PLATFORM_NAMESPACE (model_name a) action)"
    using granted_key [OF assms namespace_re_admin(2)] .
  show ?thesis
  proof (cases "ma_platform_only a")
    case True
    then show ?thesis
      using k by (simp add: require_resource_permission_def may_access_def platform_key_def guard_def)
  next
    case False
    then show ?thesis
      using require_resource_access_eq [OF assms]
      by (simp add: require_resource_permission_def may_access_def)
  qed
qed

lemma get_admin_class_Inr:
  assumes "registry_ok (app_registry ap)"
  shows "get_admin_class ap resource = Inr a \<longleftrightarrow> admin_get (app_registry ap) resource = Some a"
proof
  assume "admin_get (app_registry ap) resource = Some a"
  moreover from this have "validate_resource_name (VStr resource) = Inr resource"
    using registry_get [OF assms] by (simp add: validate_resource_name_Inr)
  ultimately show "get_admin_class ap resource = Inr a"
    by (simp add: get_admin_class_def Let_def)
next
  assume "get_admin_class ap resource = Inr a"
  then show "admin_get (app_registry ap) resource = Some a"
    by (auto simp: get_admin_class_def Let_def validate_resource_name_Inr
      split: sum.splits option.splits)
qed

lemma authorized_Inr:
  assumes "registry_ok (app_registry ap)" and "action_re action"
  shows "authorized ap ctx resource action = Inr a \<longleftrightarrow>
    admin_get (app_registry ap) resource = Some a \<and> may_access ctx a action"
proof -
  have "require_resource_permission ctx a action = Inr () \<longleftrightarrow> may_access ctx a action"
    if "admin_get (app_registry ap) resource = Some a"
    using registry_get [OF assms(1) that] require_resource_permission_eq [OF _ assms(2), of a ctx]
    by simp
  then show ?thesis
    by (auto simp: authorized_def res_simps get_admin_class_Inr [OF assms(1)])
qed

section \<open>Properties\<close>

text \<open>the gate of the CRUD routes is the decision table of the two tiers: a platform admin asks for
  \<open>platform.<resource>.<action>\<close> in every scope; any other admin for
  \<open>admin.<resource>.<action>\<close>, which outside a tenant the platform wildcard or the legacy flag also
  satisfy; everyone else gets a 403 with the message of the case.\<close>

theorem crud_gate_decision_table:
  assumes "resource_re (model_name a)" and "action_re action"
  shows "require_resource_permission ctx a action =
    (if ma_platform_only a
     then (if grants ctx PLATFORM_NAMESPACE (model_name a) action then Inr ()
           else Inl (http 403 ''Platform privileges required.''))
     else if grants ctx DEFAULT_NAMESPACE (model_name a) action then Inr ()
     else if ctx_tenant ctx = None
     then (if single_tenant_superadmin_required ctx \<and> \<not> grants_all_platform ctx
           then Inl (http 403 ''Superadmin privileges required.'') else Inr ())
     else Inl (http 403 (''Missing required permission: ''
       @ dotted DEFAULT_NAMESPACE (model_name a) action)))"
  unfolding require_resource_permission_eq [OF assms] may_access_def may_access_tenant_tier_def
  by simp

definition tenant_owner :: admin_ctx where
  "tenant_owner = \<lparr>ctx_principal = None,
     ctx_tenant = Some \<lparr>tn_id = ''1'', tn_slug = ''acme'', tn_name = None, tn_schema_name = None\<rparr>,
     ctx_permissions = [''admin.*''], ctx_require_superadmin = None\<rparr>"

lemma crud_gate_decision_table_witness:
  "require_resource_permission tenant_owner (notes_admin\<lparr>ma_platform_only := True\<rparr>) ''read''
   = Inl (http 403 ''Platform privileges required.'')"
proof -
  have "resource_re (model_name (notes_admin\<lparr>ma_platform_only := True\<rparr>))" "action_re ''read''"
    "\<not> grants tenant_owner PLATFORM_NAMESPACE (model_name (notes_admin\<lparr>ma_platform_only := True\<rparr>)) ''read''"
    "ma_platform_only (notes_admin\<lparr>ma_platform_only := True\<rparr>)"
    by code_simp+
  then show ?thesis
    using crud_gate_decision_table [of "notes_admin\<lparr>ma_platform_only := True\<rparr>" "''read''" tenant_owner] by simp
qed

text \<open>C24: a caller without the grant for the action gets a 403 from every one of the five CRUD routes,
  and no table is touched, the audit tables included; more generally a request that ends in any
  exception leaves the database as it was.\<close>

lemma unauthorized_403:
  assumes "registry_ok (app_registry ap)" and "admin_get (app_registry ap) resource = Some a"
    and "action_re action" and "\<not> may_access ctx a action"
  shows "\<exists>msg. authorized ap ctx resource action = Inl (http 403 msg)"
proof -
  have "resource_re (model_name a)" using registry_get [OF assms(1,2)] by simp
  then show ?thesis
    using require_resource_permission_eq [OF _ assms(3), of a ctx] assms(2,4)
      get_admin_class_Inr [OF assms(1), of resource a]
    by (simp add: authorized_def)
qed


definition notes_app :: app where
  "notes_app = \<lparr>app_registry = snd (admin_register notes_admin admin_registry_init),
     app_crud = plain_crud, app_pii = plain_pii_env, app_audit = notes_model,
     app_tenant_audit = notes_model, app_search_path_ok = (\<lambda>s. True)\<rparr>"

definition member_ctx :: admin_ctx where
  "member_ctx = \<lparr>ctx_principal = None,
     ctx_tenant = Some \<lparr>tn_id = ''1'', tn_slug = ''acme'', tn_name = None, tn_schema_name = None\<rparr>,
     ctx_permissions = [''admin.other.*''], ctx_require_superadmin = None\<rparr>"

definition plain_request :: crud_request where
  "plain_request = \<lparr>rq_method = ''DELETE'', rq_path = ''/notes/a'', rq_client_ip = VNone, rq_query = []\<rparr>"

lemma notes_app_ok: "registry_ok (app_registry notes_app)"
  unfolding notes_app_def by simp (rule admin_register_ok, simp add: registry_ok_def admin_registry_init_def)


text \<open>A create that succeeds is recorded: where the database accepts the audit row, the table of
  the caller's scope (the tenant's own audit table inside a tenant, the public one outside) holds
  exactly one more row, built from the action, the caller, the record and the redacted payload,
  and nothing else differs from what the service left.\<close>

theorem create_is_audited:
  assumes "create_impl ap resource rq payload ctx s = (Inr result, s')"
    and "\<forall>s. env_check (ce_db (app_crud ap)) s = None" and "\<forall>s. app_search_path_ok ap s"
  shows "\<exists>a s1. create_record (app_crud ap) a payload (Some ctx) s = (Inr result, s1)
    \<and> admin_get (app_registry ap) resource = Some a
    \<and> (let m = (if ctx_tenant ctx \<noteq> None then app_tenant_audit ap else app_audit ap) in
       \<forall>t. table_rows s' t = (if t = table_key m
         then table_rows s1 t @ [build_row (ce_db (app_crud ap)) (se_drawn s1) m
           (snd (audit_payload (app_pii ap) \<lparr> ak_action = ''crud_create'', ak_method = rq_method rq,
              ak_path = rq_path rq, ak_status_code = 201, ak_actor = ctx_principal ctx,
              ak_tenant_id = (case ctx_tenant ctx of None \<Rightarrow> VNone | Some t \<Rightarrow> VStr (tn_id t)),
              ak_resource = VStr (model_name a), ak_record_id = getattr result ''id'',
              ak_changes = Some payload, ak_ip_address = rq_client_ip rq,
              ak_tenant_scoped = (ctx_tenant ctx \<noteq> None), ak_pii_mode = None,
              ak_behavioral_detail = None \<rparr>))]
         else table_rows s1 t))"
proof -
  from assms(1) obtain a s1 where c: "authorized ap ctx resource ''create'' = Inr a"
    "create_record (app_crud ap) a payload (Some ctx) s = (Inr result, s1)"
    "audit_crud ap rq ''crud_create'' 201 ctx (model_name a) (getattr result ''id'') (Some payload) s1
       = (Inr (), s')"
    by (auto simp: create_impl_def sbind_lift_Inr sbind_Inr_iff) metis
  have g: "admin_get (app_registry ap) resource = Some a"
    using c(1) by (auto simp: authorized_def get_admin_class_def res_simps Let_def
      validate_resource_name_Inr split: sum.splits option.splits)
  show ?thesis
    using c(2,3) g assms(2,3)
    by (intro exI [of _ a] exI [of _ s1]) (auto simp: audit_crud_def record_audit_in_session_def
      sbind_def add_row_def flush_def Let_def case_prod_beta split: if_splits)
qed

lemma create_is_audited_witness:
  "length (table_rows (snd (create_impl notes_app ''notes'' plain_request [(''title'', VStr ''n'')] tenant_owner
     notes_session)) ''notes'') = length (table_rows notes_session ''notes'') + 2"
proof -
  let ?run = "create_impl notes_app ''notes'' plain_request [(''title'', VStr ''n'')] tenant_owner notes_session"
  have "isr (fst ?run)" by code_simp
  note run = isr_fst [OF this]
  have e: "\<forall>s. env_check (ce_db (app_crud notes_app)) s = None" "\<forall>s. app_search_path_ok notes_app s"
    by (simp_all add: notes_app_def plain_crud_def plain_db_def)
  from create_is_audited [OF run e] obtain a s1 where
    "create_record (app_crud notes_app) a [(''title'', VStr ''n'')] (Some tenant_owner) notes_session
       = (Inr (projr (fst ?run)), s1)" by blast
  show ?thesis by code_simp
qed

end
