(* ===== verification/Tokens.thy ===== *)
theory Tokens
  imports Sanitize
begin

text \<open>
  \<open>src/asterion/auth/tokens.py\<close>: the payloads of the four kinds of token the framework mints and
  the decoders and claim accessors every authentication path goes through.

  Signing and verifying is the library \<open>jose\<close>: a parameter, the record \<open>jose\<close> of its two calls.
  The type of a token is the library's.  An instant is an integer, in seconds; \<open>uuid.uuid4()\<close> is
  an argument.  The library writes the \<open>datetime\<close> of an \<open>exp\<close> claim as its Unix time.
\<close>

record 't jose =
  jwt_encode :: "row \<Rightarrow> string \<Rightarrow> string \<Rightarrow> 't"
  jwt_decode :: "int \<Rightarrow> 't \<Rightarrow> string \<Rightarrow> string list \<Rightarrow> string option \<Rightarrow> string option
    \<Rightarrow> (string \<times> bool) list \<Rightarrow> row option"

text \<open>\<open>jwt_decode j now token key algorithms issuer audience options\<close>: \<open>None\<close> is a \<open>JWTError\<close>.\<close>

definition TokenError :: exc_class where "TokenError = OtherExc ''TokenError''"

definition ACCESS_TOKEN_TYPE :: string where "ACCESS_TOKEN_TYPE = ''access''"
definition IMPERSONATION_TOKEN_TYPE :: string where "IMPERSONATION_TOKEN_TYPE = ''impersonation''"
definition REFRESH_TOKEN_TYPE :: string where "REFRESH_TOKEN_TYPE = ''refresh''"
definition MFA_CHALLENGE_TOKEN_TYPE :: string where "MFA_CHALLENGE_TOKEN_TYPE = ''mfa_challenge''"

lemmas token_types = ACCESS_TOKEN_TYPE_def IMPERSONATION_TOKEN_TYPE_def REFRESH_TOKEN_TYPE_def
  MFA_CHALLENGE_TOKEN_TYPE_def

text \<open>The keyword arguments every call takes from the config.\<close>

record jwt_settings =
  js_secret_key :: string
  js_algorithm :: string
  js_issuer :: "string option"
  js_audience :: "string option"

section \<open>Minting\<close>

definition stamp :: "string \<Rightarrow> string option \<Rightarrow> row \<Rightarrow> row" where
  "stamp key value payload = (case value of None \<Rightarrow> payload | Some v \<Rightarrow> setattr key (VStr v) payload)"

definition token_payload ::
    "jwt_settings \<Rightarrow> int \<Rightarrow> nat \<Rightarrow> row \<Rightarrow> int \<Rightarrow> string \<Rightarrow> row" where
  "token_payload js now uuid4 payload expires_delta type =
     stamp ''aud'' (js_audience js) (stamp ''iss'' (js_issuer js)
       (setattrs [(''iat'', VInt now), (''exp'', VInt (now + expires_delta)),
          (''jti'', VStr (uuid_str uuid4)), (''type'', VStr type)] payload))"

definition create_token ::
    "'t jose \<Rightarrow> jwt_settings \<Rightarrow> int \<Rightarrow> nat \<Rightarrow> row \<Rightarrow> int \<Rightarrow> string \<Rightarrow> 't" where
  "create_token j js now uuid4 payload expires_delta type =
     jwt_encode j (token_payload js now uuid4 payload expires_delta type)
       (js_secret_key js) (js_algorithm js)"

definition create_access_token ::
    "'t jose \<Rightarrow> jwt_settings \<Rightarrow> int \<Rightarrow> nat \<Rightarrow> nat \<Rightarrow> int \<Rightarrow> int \<Rightarrow> 't" where
  "create_access_token j js now uuid4 user_id expires_minutes token_version =
     create_token j js now uuid4 [(''sub'', VStr (uuid_str user_id)), (''tkv'', VInt token_version)]
       (60 * expires_minutes) ACCESS_TOKEN_TYPE"

definition create_refresh_token ::
    "'t jose \<Rightarrow> jwt_settings \<Rightarrow> int \<Rightarrow> nat \<Rightarrow> nat \<Rightarrow> int \<Rightarrow> int \<Rightarrow> 't" where
  "create_refresh_token j js now uuid4 user_id expires_minutes token_version =
     create_token j js now uuid4 [(''sub'', VStr (uuid_str user_id)), (''tkv'', VInt token_version)]
       (60 * expires_minutes) REFRESH_TOKEN_TYPE"

definition create_mfa_challenge_token ::
    "'t jose \<Rightarrow> jwt_settings \<Rightarrow> int \<Rightarrow> nat \<Rightarrow> nat \<Rightarrow> int \<Rightarrow> int \<Rightarrow> 't" where
  "create_mfa_challenge_token j js now uuid4 user_id expires_minutes token_version =
     create_token j js now uuid4 [(''sub'', VStr (uuid_str user_id)), (''tkv'', VInt token_version)]
       (60 * expires_minutes) MFA_CHALLENGE_TOKEN_TYPE"

definition create_impersonation_token ::
    "'t jose \<Rightarrow> jwt_settings \<Rightarrow> int \<Rightarrow> nat \<Rightarrow> nat \<Rightarrow> string \<Rightarrow> string option \<Rightarrow> int \<Rightarrow> int \<Rightarrow> 't" where
  "create_impersonation_token j js now uuid4 target_user_id impersonated_by tenant_id
       expires_minutes token_version =
     create_token j js now uuid4
       (stamp ''tenant_id'' tenant_id
         [(''sub'', VStr (uuid_str target_user_id)), (''tkv'', VInt token_version),
          (''impersonated_by'', VStr impersonated_by), (''renewable'', VBool False)])
       (60 * expires_minutes) IMPERSONATION_TOKEN_TYPE"

section \<open>Decoding\<close>

definition decode_options :: "jwt_settings \<Rightarrow> (string \<times> bool) list" where
  "decode_options js = (if js_audience js = None then [] else [(''require_aud'', True)])
     @ (if js_issuer js = None then [] else [(''require_iss'', True)])"

definition decode_token :: "'t jose \<Rightarrow> jwt_settings \<Rightarrow> int \<Rightarrow> 't \<Rightarrow> row res" where
  "decode_token j js now token =
     (case jwt_decode j now token (js_secret_key js) [js_algorithm js] (js_issuer js)
        (js_audience js) (decode_options js) of
        None \<Rightarrow> Inl (PyExc TokenError ''Invalid token'')
      | Some payload \<Rightarrow> Inr payload)"

text \<open>\<open>payload.get(key)\<close> is \<open>getattr payload key\<close>: \<open>None\<close> where the claim is absent.\<close>

definition decode_typed :: "'t jose \<Rightarrow> jwt_settings \<Rightarrow> string \<Rightarrow> int \<Rightarrow> 't \<Rightarrow> row res" where
  "decode_typed j js expected_type now token =
     rbind (decode_token j js now token) (\<lambda>payload.
     if getattr payload ''type'' \<noteq> VStr expected_type
     then Inl (PyExc TokenError ''Invalid token type'') else Inr payload)"

definition decode_refresh_token :: "'t jose \<Rightarrow> jwt_settings \<Rightarrow> int \<Rightarrow> 't \<Rightarrow> row res" where
  "decode_refresh_token j js now token = decode_typed j js REFRESH_TOKEN_TYPE now token"

definition decode_mfa_challenge_token :: "'t jose \<Rightarrow> jwt_settings \<Rightarrow> int \<Rightarrow> 't \<Rightarrow> row res" where
  "decode_mfa_challenge_token j js now token = decode_typed j js MFA_CHALLENGE_TOKEN_TYPE now token"

definition decode_access_token :: "'t jose \<Rightarrow> jwt_settings \<Rightarrow> bool \<Rightarrow> int \<Rightarrow> 't \<Rightarrow> row res" where
  "decode_access_token j js allow_impersonation now token =
     rbind (decode_token j js now token) (\<lambda>payload.
     let allowed_types = [VStr ACCESS_TOKEN_TYPE]
           @ (if allow_impersonation then [VStr IMPERSONATION_TOKEN_TYPE] else [])
     in if getattr payload ''type'' \<notin> set allowed_types
        then Inl (PyExc TokenError ''Invalid token type'') else Inr payload)"

section \<open>Claims\<close>

definition uuid_claim :: "row \<Rightarrow> string \<Rightarrow> bool \<Rightarrow> string \<Rightarrow> string \<Rightarrow> nat option res" where
  "uuid_claim payload key required missing_msg invalid_msg =
    (let v = getattr payload key in
     if \<not> truthy v then (if required then Inl (PyExc TokenError missing_msg) else Inr None)
     else case uuid_parse (py_str v) of
       None \<Rightarrow> Inl (PyExc TokenError invalid_msg)
     | Some u \<Rightarrow> Inr (Some u))"

definition get_subject_user_id :: "row \<Rightarrow> nat res" where
  "get_subject_user_id payload =
     rbind (uuid_claim payload ''sub'' True ''Missing token subject'' ''Invalid token subject'')
       (\<lambda>u. Inr (the u))"

text \<open>\<open>int(value)\<close> on a claim: the claims are what JSON carries; the framework writes this one
  as an integer, and a JSON number with a fraction is left out.\<close>

fun int_claim :: "pyval \<Rightarrow> int option" where
  "int_claim (VInt i) = Some i"
| "int_claim (VBool b) = Some (if b then 1 else 0)"
| "int_claim (VStr s) = py_int 10 s"
| "int_claim _ = None"

definition get_token_version :: "row \<Rightarrow> int res" where
  "get_token_version payload =
    (let v = getattr payload ''tkv'' in
     if v = VNone then Inl (PyExc TokenError ''Missing token version'')
     else case int_claim v of
       None \<Rightarrow> Inl (PyExc TokenError ''Invalid token version'')
     | Some i \<Rightarrow> Inr i)"

definition get_token_jti :: "row \<Rightarrow> string res" where
  "get_token_jti payload =
    (let jti = getattr payload ''jti'' in
     if \<not> truthy jti then Inl (PyExc TokenError ''Missing token jti'') else Inr (py_str jti))"

definition get_impersonator_user_id :: "row \<Rightarrow> nat option res" where
  "get_impersonator_user_id payload = uuid_claim payload ''impersonated_by'' False
     ''Missing impersonator user id'' ''Invalid impersonator user id''"

definition get_impersonation_tenant_id :: "row \<Rightarrow> nat option res" where
  "get_impersonation_tenant_id payload = uuid_claim payload ''tenant_id'' False
     ''Missing impersonation tenant id'' ''Invalid impersonation tenant id''"

definition is_impersonation_token :: "row \<Rightarrow> bool" where
  "is_impersonation_token payload = (getattr payload ''type'' = VStr IMPERSONATION_TOKEN_TYPE)"

definition is_normal_access_token :: "row \<Rightarrow> bool" where
  "is_normal_access_token payload = (getattr payload ''type'' = VStr ACCESS_TOKEN_TYPE)"

definition is_refresh_token :: "row \<Rightarrow> bool" where
  "is_refresh_token payload = (getattr payload ''type'' = VStr REFRESH_TOKEN_TYPE)"

text \<open>The three claims a token is judged by, read as every authentication path reads them: the
  first failure wins.\<close>

definition token_claims :: "row res \<Rightarrow> (row \<times> nat \<times> int \<times> string) res" where
  "token_claims decoded =
     rbind decoded (\<lambda>payload. rbind (get_subject_user_id payload) (\<lambda>user_id.
     rbind (get_token_version payload) (\<lambda>token_version.
     rbind (get_token_jti payload) (\<lambda>jti. Inr (payload, user_id, token_version, jti)))))"

section \<open>Facts on the claims\<close>

lemma getattr_stamp_other: "key \<noteq> k \<Longrightarrow> getattr (stamp k v payload) key = getattr payload key"
  by (cases v) (simp_all add: stamp_def getattr_setattr)

lemma truthy_uuid_str [simp]: "truthy (VStr (uuid_str u))"
proof -
  have "length (uuid_str u) \<noteq> 0" by (simp add: uuid_str_def uuid_hex_def Let_def)
  then show ?thesis by auto
qed

lemma token_payload_claims:
  assumes "\<And>k v. (k, v) \<in> set payload \<Longrightarrow> k \<notin> {''iat'', ''exp'', ''jti'', ''type''}"
  shows "getattr (token_payload js now u payload d type) ''type'' = VStr type"
    "getattr (token_payload js now u payload d type) ''jti'' = VStr (uuid_str u)"
    "getattr (token_payload js now u payload d type) ''exp'' = VInt (now + d)"
    "k \<in> {''sub'', ''tkv'', ''impersonated_by'', ''tenant_id''} \<Longrightarrow>
       getattr (token_payload js now u payload d type) k = getattr payload k"
  by (auto simp: token_payload_def getattr_stamp_other setattrs_def getattr_setattr)

lemma decode_typed_Inr:
  "decode_typed j js ty now t = Inr p \<longleftrightarrow>
     decode_token j js now t = Inr p \<and> getattr p ''type'' = VStr ty"
  by (auto simp: decode_typed_def res_simps split: if_splits)

lemma decode_access_Inr:
  "decode_access_token j js b now t = Inr p \<longleftrightarrow>
     decode_token j js now t = Inr p
     \<and> (is_normal_access_token p \<or> b \<and> is_impersonation_token p)"
  by (auto simp: decode_access_token_def is_normal_access_token_def is_impersonation_token_def
      res_simps Let_def split: if_splits)

lemma decode_error:
  "decode_typed j js ty now t = Inl e \<Longrightarrow> \<exists>m. e = PyExc TokenError m"
  "decode_access_token j js b now t = Inl e \<Longrightarrow> \<exists>m. e = PyExc TokenError m"
  by (auto simp: decode_typed_def decode_access_token_def decode_token_def res_simps Let_def
      split: if_splits option.splits)

lemma token_claims_Inr:
  "token_claims r = Inr (p, u, v, jti) \<longleftrightarrow> r = Inr p \<and> get_subject_user_id p = Inr u
     \<and> get_token_version p = Inr v \<and> get_token_jti p = Inr jti"
  by (auto simp: token_claims_def res_simps)

lemma subject_bound: "get_subject_user_id p = Inr u \<Longrightarrow> u < 2 ^ 128"
  by (auto simp: get_subject_user_id_def uuid_claim_def uuid_parse_def Let_def res_simps
      split: if_splits option.splits)

section \<open>Properties\<close>

text \<open>Documented behaviour of the library: decoding what was encoded with the same key and
  algorithm returns the payload while \<open>exp\<close> is not past, where the issuer and audience asked for
  are the payload's.\<close>

definition jose_decodes :: "'t jose \<Rightarrow> bool" where
  "jose_decodes j = (\<forall>payload key alg now e iss aud options.
     getattr payload ''exp'' = VInt e \<longrightarrow> now \<le> e
     \<longrightarrow> getattr payload ''iss'' = opt_str iss \<longrightarrow> getattr payload ''aud'' = opt_str aud
     \<longrightarrow> jwt_decode j now (jwt_encode j payload key alg) key [alg] iss aud options = Some payload)"

lemma stamped_claims:
  assumes "getattr payload ''iss'' = VNone" "getattr payload ''aud'' = VNone"
  shows "getattr (token_payload js now u payload d type) ''iss'' = opt_str (js_issuer js)"
    "getattr (token_payload js now u payload d type) ''aud'' = opt_str (js_audience js)"
  using assms by (auto simp: token_payload_def stamp_def opt_str_def setattrs_def getattr_setattr
      split: option.splits)

lemma decode_minted:
  assumes "jose_decodes j" and "now \<le> t0 + d"
    and "getattr payload ''iss'' = VNone" "getattr payload ''aud'' = VNone"
  shows "decode_token j js now (create_token j js t0 u payload d type)
    = Inr (token_payload js t0 u payload d type)"
proof -
  have e: "getattr (token_payload js t0 u payload d type) ''exp'' = VInt (t0 + d)"
    by (simp add: token_payload_def getattr_stamp_other setattrs_def getattr_setattr)
  show ?thesis
    using assms(1) [unfolded jose_decodes_def, rule_format, OF e assms(2) stamped_claims [OF assms(3,4)]]
    by (simp add: decode_token_def create_token_def)
qed

lemma getattr_Cons: "getattr ((k, v) # r) n = (if n = k then v else getattr r n)"
  by (simp add: getattr_def)

lemma getattr_Nil: "getattr [] n = VNone"
  by (simp add: getattr_def)

lemma minted_type:
  "getattr (token_payload js now u payload d type) ''type'' = VStr type"
  by (simp add: token_payload_def getattr_stamp_other setattrs_def getattr_setattr)

lemma minted_claims:
  assumes "getattr payload ''sub'' = VStr (uuid_str user)" "user < 2 ^ 128"
    and "getattr payload ''tkv'' = VInt version"
  shows "token_claims (Inr (token_payload js now u payload d type))
    = Inr (token_payload js now u payload d type, user, version, uuid_str u)"
  using assms
  by (simp add: token_claims_def get_subject_user_id_def uuid_claim_def get_token_version_def
      get_token_jti_def token_payload_def getattr_stamp_other setattrs_def getattr_setattr
      uuid_parse_str del: truthy.simps)

lemmas minting = create_access_token_def create_refresh_token_def create_mfa_challenge_token_def
  create_impersonation_token_def
lemmas decoding = decode_refresh_token_def decode_mfa_challenge_token_def decode_typed_def
  decode_access_token_def

text \<open>within its lifetime a minted token is accepted by the decoder of its own kind, which
  reads back the subject, the token version and the \<open>jti\<close> it was minted with, and by no other:
  an access token does not refresh or answer a challenge, a refresh or challenge token does not
  authenticate, and an impersonation token authenticates only where impersonation is allowed.\<close>

theorem token_kinds_do_not_cross:
  assumes "jose_decodes j" and "user < 2 ^ 128" and "now \<le> t0 + 60 * minutes"
  shows "(\<exists>p. token_claims (decode_access_token j js b now (create_access_token j js t0 u user minutes v))
      = Inr (p, user, v, uuid_str u) \<and> is_normal_access_token p)
    \<and> (\<exists>p. token_claims (decode_refresh_token j js now (create_refresh_token j js t0 u user minutes v))
      = Inr (p, user, v, uuid_str u))
    \<and> (\<exists>p. token_claims (decode_mfa_challenge_token j js now
        (create_mfa_challenge_token j js t0 u user minutes v)) = Inr (p, user, v, uuid_str u))
    \<and> (\<exists>p. token_claims (decode_access_token j js True now
        (create_impersonation_token j js t0 u user by tn minutes v)) = Inr (p, user, v, uuid_str u)
        \<and> is_impersonation_token p)
    \<and> (\<not> isr (decode_access_token j js b now (create_refresh_token j js t0 u user minutes v)))
    \<and> (\<not> isr (decode_access_token j js b now (create_mfa_challenge_token j js t0 u user minutes v)))
    \<and> (\<not> isr (decode_access_token j js False now
        (create_impersonation_token j js t0 u user by tn minutes v)))
    \<and> (\<not> isr (decode_refresh_token j js now (create_access_token j js t0 u user minutes v)))
    \<and> (\<not> isr (decode_refresh_token j js now (create_mfa_challenge_token j js t0 u user minutes v)))
    \<and> (\<not> isr (decode_refresh_token j js now
        (create_impersonation_token j js t0 u user by tn minutes v)))
    \<and> (\<not> isr (decode_mfa_challenge_token j js now (create_access_token j js t0 u user minutes v)))
    \<and> (\<not> isr (decode_mfa_challenge_token j js now (create_refresh_token j js t0 u user minutes v)))"
  using assms(2)
  by (intro conjI) (simp_all add: minting decoding decode_minted [OF assms(1,3)] minted_type
      minted_claims token_types is_normal_access_token_def is_impersonation_token_def getattr_Cons
      getattr_Nil getattr_stamp_other)

text \<open>A library whose token is the payload with its key and algorithm.\<close>

definition plain_jose :: "(row \<times> string \<times> string) jose" where
  "plain_jose = \<lparr>jwt_encode = (\<lambda>payload key alg. (payload, key, alg)),
     jwt_decode = (\<lambda>now token key algs iss aud options. case token of (payload, k, alg) \<Rightarrow>
       (case getattr payload ''exp'' of
          VInt e \<Rightarrow> if k = key \<and> alg \<in> set algs \<and> now \<le> e \<and> getattr payload ''iss'' = opt_str iss
             \<and> getattr payload ''aud'' = opt_str aud then Some payload else None
        | _ \<Rightarrow> None))\<rparr>"

lemma plain_jose_decodes: "jose_decodes plain_jose"
  by (auto simp: jose_decodes_def plain_jose_def)

definition demo_jwt :: jwt_settings where
  "demo_jwt = \<lparr>js_secret_key = ''k'', js_algorithm = ''HS256'', js_issuer = Some ''me'', js_audience = None\<rparr>"

lemma token_kinds_do_not_cross_witness:
  "\<not> isr (decode_access_token plain_jose demo_jwt True 100
     (create_refresh_token plain_jose demo_jwt 0 7 42 60 3))"
  using token_kinds_do_not_cross [OF plain_jose_decodes, of 42 100 0 60] by simp

end
