(* ===== verification/Passwords.thy ===== *)
theory Passwords
  imports Tokens
begin

text \<open>
  \<open>src/asterion/auth/password.py\<close> (hashing over a SHA-256 pre-hash, verification with the legacy
  fallback) and \<open>src/asterion/auth/password_policy.py\<close> (length, and the opt-in breach lookup that
  fails open).

  The hash functions, \<open>bcrypt\<close>, \<open>pyotp\<close> and the random sources are the parameters of the record
  \<open>crypto\<close>; a random source is a function of how many values have been drawn.  A byte string is a
  HOL string of its bytes.
\<close>

record crypto =
  cr_sha256 :: "string \<Rightarrow> string"
  cr_sha256_hex :: "string \<Rightarrow> string"
  cr_sha1_hex :: "string \<Rightarrow> string"
  cr_b64encode :: "string \<Rightarrow> string"
  cr_hashpw :: "nat \<Rightarrow> string \<Rightarrow> string"
  cr_checkpw :: "string \<Rightarrow> string \<Rightarrow> bool"
  cr_totp_verify :: "string \<Rightarrow> string \<Rightarrow> int \<Rightarrow> bool"
  cr_totp_uri :: "string \<Rightarrow> string \<Rightarrow> string \<Rightarrow> string"
  cr_random_base32 :: "nat \<Rightarrow> string"
  cr_token_urlsafe :: "nat \<Rightarrow> string"
  cr_token_hex :: "nat \<Rightarrow> string"
  cr_uuid4 :: "nat \<Rightarrow> nat"

text \<open>\<open>str.encode("utf-8")\<close> of a string of Latin-1 code points.\<close>

definition utf8 :: "string \<Rightarrow> string" where
  "utf8 s = concat (map (\<lambda>c. if ord c < 128 then [c]
     else [char_of (192 + ord c div 64 :: nat), char_of (128 + ord c mod 64 :: nat)]) s)"

section \<open>Hashing\<close>

definition prehash :: "crypto \<Rightarrow> string \<Rightarrow> string" where
  "prehash cr password = cr_b64encode cr (cr_sha256 cr (utf8 password))"

definition hash_password :: "crypto \<Rightarrow> nat \<Rightarrow> string \<Rightarrow> string" where
  "hash_password cr salt password = cr_hashpw cr salt (prehash cr password)"

definition verify_password :: "crypto \<Rightarrow> string \<Rightarrow> string \<Rightarrow> bool" where
  "verify_password cr plain hashed =
    (if cr_checkpw cr (prehash cr plain) (utf8 hashed) then True
     else cr_checkpw cr (take 72 (utf8 plain)) (utf8 hashed))"

definition validate_password_strength :: "string \<Rightarrow> int \<Rightarrow> unit res" where
  "validate_password_strength password min_length =
    (if int (length password) < min_length
     then Inl (PyExc ValueError (''Password must be at least '' @ str_int min_length @ '' characters.''))
     else Inr ())"

section \<open>The breach lookup\<close>

text \<open>\<open>str.splitlines\<close> and \<open>str.partition\<close>: a \<open>CR LF\<close> pair ends one line, and a trailing line
  end opens no further one.\<close>

definition line_end :: "char \<Rightarrow> bool" where
  "line_end c = (ord c \<in> {10, 11, 12, 13, 28, 29, 30, 133})"

fun splitlines :: "string \<Rightarrow> string list" where
  "splitlines [] = []"
| "splitlines (c # s) =
    (if line_end c
     then [] # splitlines (if ord c = 13 \<and> s \<noteq> [] \<and> ord (hd s) = 10 then tl s else s)
     else (case splitlines s of [] \<Rightarrow> [[c]] | l # ls \<Rightarrow>
       (if s \<noteq> [] \<and> line_end (hd s) then [c] # ls else (c # l) # ls)))"

definition partition_colon :: "string \<Rightarrow> string \<times> string" where
  "partition_colon line =
     (takeWhile (\<lambda>c. c \<noteq> CHR '':'') line, drop 1 (dropWhile (\<lambda>c. c \<noteq> CHR '':'') line))"

definition upper_char :: "char \<Rightarrow> char" where
  "upper_char c = (if is_lower c then char_of (ord c - 32 :: nat) else c)"

definition upper :: "string \<Rightarrow> string" where "upper s = map upper_char s"

text \<open>The count of the first line whose suffix is the one looked for.\<close>

fun count_in_lines :: "string \<Rightarrow> string list \<Rightarrow> int" where
  "count_in_lines suffix [] = 0"
| "count_in_lines suffix (line # rest) =
    (case partition_colon line of (line_suffix, count) \<Rightarrow>
      if upper (strip line_suffix) = suffix
      then (case py_int 10 (strip count) of Some n \<Rightarrow> n | None \<Rightarrow> 1)
      else count_in_lines suffix rest)"

text \<open>\<open>fetch\<close> is the HTTP call: the body of the response to a prefix, or the exception.\<close>

definition pwned_password_count :: "crypto \<Rightarrow> (string \<Rightarrow> string res) \<Rightarrow> string \<Rightarrow> int res" where
  "pwned_password_count cr fetch password =
    (let digest = upper (cr_sha1_hex cr (utf8 password)) in
     rbind (fetch (take 5 digest)) (\<lambda>body.
     Inr (count_in_lines (drop 5 digest) (splitlines body))))"

record password_policy =
  pp_min_length :: int
  pp_hibp_check :: bool

definition policy_validate ::
    "crypto \<Rightarrow> (string \<Rightarrow> string res) \<Rightarrow> password_policy \<Rightarrow> string \<Rightarrow> unit res" where
  "policy_validate cr fetch pp password =
     rbind (validate_password_strength password (pp_min_length pp)) (\<lambda>_.
     if \<not> pp_hibp_check pp then Inr ()
     else case pwned_password_count cr fetch password of
       Inl _ \<Rightarrow> Inr ()
     | Inr n \<Rightarrow> if n > 0 then Inl (PyExc ValueError
           ''This password has appeared in a known data breach. Please choose a different one.'')
         else Inr ())"

section \<open>Properties\<close>

definition breached :: "crypto \<Rightarrow> string \<Rightarrow> string \<Rightarrow> bool" where
  "breached cr password body =
     (0 < count_in_lines (drop 5 (upper (cr_sha1_hex cr (utf8 password)))) (splitlines body))"

text \<open>The default policy accepts a password exactly when it is long enough and, where the
  breach check is on, the lookup either fails or answers with a body that does not list it; only
  the first five characters of its hash are sent.\<close>

theorem password_accepted_iff:
  "policy_validate cr fetch pp password = Inr () \<longleftrightarrow>
     pp_min_length pp \<le> int (length password)
     \<and> (if pp_hibp_check pp
        then case fetch (take 5 (upper (cr_sha1_hex cr (utf8 password)))) of
               Inl e \<Rightarrow> True | Inr body \<Rightarrow> \<not> breached cr password body
        else True)"
  by (auto simp: policy_validate_def validate_password_strength_def pwned_password_count_def
      breached_def Let_def split: sum.splits)

end
