(* ===== verification/RateLimiter.thy ===== *)
theory RateLimiter
  imports Strings
begin

text \<open>
  \<open>src/asterion/auth/rate_limiter.py\<close>: the contract of \<open>RateLimiterBackend\<close> as a locale, with the
  facts every client of a limiter relies on, and \<open>InMemoryLoginRateLimiter\<close> as its
  interpretation.  \<open>src/asterion/core/net.py\<close>: the client address a limiter key may carry.

  \<open>time.time()\<close> is an argument of the operations that read the clock, an integer at the clock's
  resolution.
\<close>

section \<open>The contract\<close>

text \<open>\<open>hits s k now\<close> is the number of failures the backend still counts for \<open>k\<close> at \<open>now\<close>.\<close>

datatype limiter_event = Checked string int | Failed string int | Cleared string int

fun event_time :: "limiter_event \<Rightarrow> int" where
  "event_time (Checked k t) = t"
| "event_time (Failed k t) = t"
| "event_time (Cleared k t) = t"

text \<open>The reference reading: the failures of a key since it was last cleared.\<close>

fun failures_after :: "string \<Rightarrow> int list \<Rightarrow> limiter_event \<Rightarrow> int list" where
  "failures_after k ts (Checked k' t) = ts"
| "failures_after k ts (Failed k' t) = (if k' = k then ts @ [t] else ts)"
| "failures_after k ts (Cleared k' t) = (if k' = k then [] else ts)"

definition failures_of :: "string \<Rightarrow> limiter_event list \<Rightarrow> int list" where
  "failures_of k evs = foldl (failures_after k) [] evs"

definition recent :: "int \<Rightarrow> int \<Rightarrow> int list \<Rightarrow> nat" where
  "recent window now ts = length (filter (\<lambda>t. t > now - window) ts)"

definition chronological :: "limiter_event list \<Rightarrow> int \<Rightarrow> bool" where
  "chronological evs now = sorted (map event_time evs @ [now])"

lemma failures_of_snoc: "failures_of k (evs @ [e]) = failures_after k (failures_of k evs) e"
  by (simp add: failures_of_def)

lemma chronological_snoc:
  "chronological (evs @ [e]) now \<Longrightarrow> chronological evs (event_time e) \<and> event_time e \<le> now"
  by (auto simp: chronological_def sorted_append)

lemma recent_simps [simp]:
  "recent w now [] = 0"
  "recent w now (ts @ [t]) = recent w now ts + (if t > now - w then 1 else 0)"
  by (simp_all add: recent_def)

text \<open>What the source promises of a backend (\<open>RateLimiterBackend\<close>).\<close>

locale rate_limiter_backend =
  fixes is_limited :: "'s \<Rightarrow> string \<Rightarrow> int \<Rightarrow> bool \<times> 's"
    and record_failure :: "'s \<Rightarrow> string \<Rightarrow> int \<Rightarrow> 's"
    and clear :: "'s \<Rightarrow> string \<Rightarrow> 's"
    and hits :: "'s \<Rightarrow> string \<Rightarrow> int \<Rightarrow> nat"
    and cap :: "'s \<Rightarrow> int"
    and window :: "'s \<Rightarrow> int"
  assumes limited_iff: "fst (is_limited s k now) \<longleftrightarrow> cap s \<le> int (hits s k now)"
    and hits_is_limited: "t \<le> now \<Longrightarrow> hits (snd (is_limited s k' t)) k now = hits s k now"
    and hits_record_failure: "t \<le> now \<Longrightarrow> hits (record_failure s k' t) k now
          = hits s k now + (if k' = k \<and> t > now - window s then 1 else 0)"
    and hits_clear: "hits (clear s k') k now = (if k' = k then 0 else hits s k now)"
    and hits_mono: "t \<le> now \<Longrightarrow> hits s k now \<le> hits s k t"
    and settings [simp]:
      "cap (snd (is_limited s k t)) = cap s" "window (snd (is_limited s k t)) = window s"
      "cap (record_failure s k t) = cap s" "window (record_failure s k t) = window s"
      "cap (clear s k) = cap s" "window (clear s k) = window s"
begin

fun limiter_step :: "'s \<Rightarrow> limiter_event \<Rightarrow> 's" where
  "limiter_step s (Checked k t) = snd (is_limited s k t)"
| "limiter_step s (Failed k t) = record_failure s k t"
| "limiter_step s (Cleared k t) = clear s k"

definition limiter_run :: "'s \<Rightarrow> limiter_event list \<Rightarrow> 's" where
  "limiter_run s evs = foldl limiter_step s evs"

lemma step_settings: "cap (limiter_step s e) = cap s" "window (limiter_step s e) = window s"
  by (cases e; simp)+

lemma run_settings: "cap (limiter_run s evs) = cap s" "window (limiter_run s evs) = window s"
  by (induction evs rule: rev_induct) (simp_all add: limiter_run_def step_settings)

lemma hits_run:
  assumes "\<And>k now. hits s k now = 0" and "chronological evs now"
  shows "hits (limiter_run s evs) k now = recent (window s) now (failures_of k evs)"
  using assms(2)
proof (induction evs arbitrary: now rule: rev_induct)
  case Nil
  show ?case by (simp add: limiter_run_def failures_of_def assms(1))
next
  case (snoc e evs)
  have order: "chronological evs now" "event_time e \<le> now"
    using chronological_snoc [OF snoc.prems] snoc.prems
    by (auto simp: chronological_def sorted_append)
  have IH: "hits (foldl limiter_step s evs) k now = recent (window s) now (failures_of k evs)"
    using snoc.IH [OF order(1)] by (simp add: limiter_run_def)
  have w: "window (foldl limiter_step s evs) = window s"
    using run_settings by (simp add: limiter_run_def)
  show ?case
    using IH order(2) w
    by (cases e) (simp_all add: limiter_run_def failures_of_snoc hits_is_limited
        hits_record_failure hits_clear)
qed

text \<open>An attempt that consults the limiter first, as every route does.\<close>

definition attempt :: "'s \<Rightarrow> string \<times> int \<times> bool \<Rightarrow> 's" where
  "attempt s a = (case a of (k, t, ok) \<Rightarrow> case is_limited s k t of (limited, s1) \<Rightarrow>
     if limited then s1 else if ok then clear s1 k else record_failure s1 k t)"

lemma attempt_settings [simp]: "cap (attempt s a) = cap s" "window (attempt s a) = window s"
proof -
  obtain k t ok where a: "a = (k, t, ok)" by (cases a)
  show "cap (attempt s a) = cap s" "window (attempt s a) = window s"
    using settings(1,2) [of s k t] unfolding a attempt_def
    by (auto simp del: settings(1,2) simp: settings(3-6) split: prod.splits)
qed

lemma hits_attempt:
  assumes "\<And>k. int (hits s k t) \<le> max 0 (cap s)" and "a = (k, t, ok)" and "t \<le> now"
  shows "int (hits (attempt s a) k' now) \<le> max 0 (cap s)"
proof -
  obtain b s1 where s1: "is_limited s k t = (b, s1)" by (cases "is_limited s k t")
  have b: "b \<longleftrightarrow> cap s \<le> int (hits s k t)" using limited_iff [of s k t] s1 by simp
  have h: "hits s1 k'' now = hits s k'' now" for k''
    using hits_is_limited [OF assms(3), of s k k''] s1 by simp
  have mono: "hits s k'' now \<le> hits s k'' t" for k'' using hits_mono [OF assms(3)] .
  have le: "int (hits s k' now) \<le> max 0 (cap s)"
    using assms(1) [of k'] mono [of k'] by linarith
  show ?thesis
    using le b mono [of k] by (auto simp: assms(2) attempt_def s1 h hits_clear hits_record_failure [OF assms(3)])
qed

lemma attempts_bounded:
  assumes "\<And>k now. hits s k now = 0" and "sorted (map (fst \<circ> snd) as @ [now])"
  shows "int (hits (foldl attempt s as) k now) \<le> max 0 (cap s)"
  using assms(2)
proof (induction as arbitrary: k now rule: rev_induct)
  case Nil
  then show ?case by (simp add: assms(1))
next
  case (snoc a as)
  obtain k' t ok where a: "a = (k', t, ok)" by (cases a)
  have cap: "cap (foldl attempt s as) = cap s"
    by (induction as rule: rev_induct) simp_all
  have "int (hits (foldl attempt s as) k t) \<le> max 0 (cap (foldl attempt s as))" for k
    using snoc.IH [of t k] snoc.prems by (simp add: a cap sorted_append)
  from hits_attempt [OF this a, of now k] show ?case
    using snoc.prems by (simp add: cap a sorted_append)
qed

end

section \<open>The in-memory limiter\<close>

record in_memory_limiter =
  max_failures :: int
  window_seconds :: int
  failures :: "(string \<times> int list) list"

definition InMemoryLoginRateLimiter :: "int \<Rightarrow> int \<Rightarrow> in_memory_limiter" where
  "InMemoryLoginRateLimiter max_f window_s =
     \<lparr>max_failures = max_f, window_seconds = window_s, failures = []\<rparr>"

definition failures_get :: "in_memory_limiter \<Rightarrow> string \<Rightarrow> int list" where
  "failures_get l key = (case map_of (failures l) key of None \<Rightarrow> [] | Some ts \<Rightarrow> ts)"

definition trim :: "in_memory_limiter \<Rightarrow> string \<Rightarrow> int \<Rightarrow> int list \<times> in_memory_limiter" where
  "trim l key now =
    (let hits = filter (\<lambda>timestamp. timestamp > now - window_seconds l) (failures_get l key)
     in (hits, l\<lparr>failures := AList.update key hits (failures l)\<rparr>))"

definition is_limited :: "in_memory_limiter \<Rightarrow> string \<Rightarrow> int \<Rightarrow> bool \<times> in_memory_limiter" where
  "is_limited l key now = (case trim l key now of (hits, l1) \<Rightarrow>
     (int (length hits) \<ge> max_failures l, l1))"

definition record_failure :: "in_memory_limiter \<Rightarrow> string \<Rightarrow> int \<Rightarrow> in_memory_limiter" where
  "record_failure l key now = (case trim l key now of (hits, l1) \<Rightarrow>
     l1\<lparr>failures := AList.update key (hits @ [now]) (failures l1)\<rparr>)"

definition clear :: "in_memory_limiter \<Rightarrow> string \<Rightarrow> in_memory_limiter" where
  "clear l key = l\<lparr>failures := AList.delete key (failures l)\<rparr>"

definition reset :: "in_memory_limiter \<Rightarrow> in_memory_limiter" where
  "reset l = l\<lparr>failures := []\<rparr>"

definition in_window :: "in_memory_limiter \<Rightarrow> string \<Rightarrow> int \<Rightarrow> nat" where
  "in_window l key now = recent (window_seconds l) now (failures_get l key)"

lemma failures_get_update [simp]:
  "failures_get (l\<lparr>failures := AList.update k ts (failures l)\<rparr>) k' =
     (if k' = k then ts else failures_get l k')"
  by (simp add: failures_get_def update_conv')

lemma failures_get_delete [simp]:
  "failures_get (l\<lparr>failures := AList.delete k (failures l)\<rparr>) k' =
     (if k' = k then [] else failures_get l k')"
  by (simp add: failures_get_def delete_conv')

lemma recent_filter: "t \<le> now \<Longrightarrow>
    recent w now (filter (\<lambda>ts. ts > t - w) xs) = recent w now xs"
  unfolding recent_def filter_filter by (rule arg_cong [where f = length], rule filter_cong) auto

lemma recent_mono: "t \<le> now \<Longrightarrow> recent w now xs \<le> recent w t xs"
  by (induction xs) (auto simp: recent_def)

lemma snd_is_limited: "snd (is_limited l k t) = snd (trim l k t)"
  by (simp add: is_limited_def split: prod.split)

lemma record_failure_eq: "record_failure l k t = l\<lparr>failures := AList.update k
    (filter (\<lambda>ts. ts > t - window_seconds l) (failures_get l k) @ [t])
    (AList.update k (filter (\<lambda>ts. ts > t - window_seconds l) (failures_get l k)) (failures l))\<rparr>"
  by (simp add: record_failure_def trim_def Let_def)

lemma failures_get_record: "failures_get (record_failure l k t) k' =
    (if k' = k then filter (\<lambda>ts. ts > t - window_seconds l) (failures_get l k) @ [t]
     else failures_get l k')"
  by (simp add: record_failure_eq failures_get_def update_conv')

interpretation in_memory: rate_limiter_backend is_limited record_failure clear in_window
    max_failures window_seconds
proof unfold_locales
  show "fst (is_limited s k now) \<longleftrightarrow> max_failures s \<le> int (in_window s k now)" for s k now
    by (simp add: is_limited_def trim_def in_window_def recent_def Let_def)
  show "in_window (snd (is_limited s k' t)) k now = in_window s k now" if "t \<le> now" for t now s k' k
    using that by (simp add: snd_is_limited trim_def in_window_def recent_filter Let_def)
  show "in_window (record_failure s k' t) k now = in_window s k now
      + (if k' = k \<and> t > now - window_seconds s then 1 else 0)" if "t \<le> now" for t now s k' k
    using that by (auto simp: in_window_def failures_get_record recent_filter)
      (simp_all add: record_failure_eq recent_filter)
  show "in_window (clear s k') k now = (if k' = k then 0 else in_window s k now)" for s k' k now
    by (simp add: clear_def in_window_def)
  show "in_window s k now \<le> in_window s k t" if "t \<le> now" for t now s k
    using that by (simp add: in_window_def recent_mono)
qed (simp_all add: snd_is_limited trim_def Let_def record_failure_eq clear_def)

section \<open>\<open>client_ip\<close>\<close>

text \<open>A request is what the limiter key and the audit row read of it: the direct peer, the
  \<open>x-forwarded-for\<close> header and the runtime's \<open>trusted_proxy_count\<close>, \<open>None\<close> without a runtime.\<close>

record http_request =
  rq_method :: string
  rq_path :: string
  rq_peer :: "string option"
  rq_forwarded_for :: "string option"
  rq_trusted_proxies :: "int option"

definition client_ip :: "http_request \<Rightarrow> int \<Rightarrow> string option" where
  "client_ip r trusted_proxy_count =
    (if trusted_proxy_count \<le> 0 then rq_peer r
     else case rq_forwarded_for r of
       None \<Rightarrow> rq_peer r
     | Some xff \<Rightarrow>
         if xff = [] then rq_peer r
         else let parts = filter (\<lambda>p. p \<noteq> []) (map strip (split_on (CHR '','') xff)) in
           if int (length parts) < trusted_proxy_count then rq_peer r
           else Some (parts ! (length parts - nat trusted_proxy_count)))"

definition request_client_ip :: "http_request \<Rightarrow> string option" where
  "request_client_ip r = client_ip r (case rq_trusted_proxies r of None \<Rightarrow> 0 | Some n \<Rightarrow> n)"

section \<open>Properties\<close>

text \<open>What the login routes do with a limiter over time.\<close>

fun limiter_event_step :: "in_memory_limiter \<Rightarrow> limiter_event \<Rightarrow> in_memory_limiter" where
  "limiter_event_step l (Checked k t) = snd (is_limited l k t)"
| "limiter_event_step l (Failed k t) = record_failure l k t"
| "limiter_event_step l (Cleared k t) = clear l k"

lemma event_step_eq: "in_memory.limiter_step = limiter_event_step"
proof (rule ext, rule ext)
  show "in_memory.limiter_step l e = limiter_event_step l e" for l e by (cases e) simp_all
qed

lemma fresh_hits: "in_window (InMemoryLoginRateLimiter m w) k now = 0"
  by (simp add: in_window_def InMemoryLoginRateLimiter_def failures_get_def)

text \<open>the limiter throttles a key exactly when the failures recorded for it since it was last
  cleared, and younger than the window, have reached the cap: whatever checks, failures and
  clears of this and other keys came before, trimming the lists loses nothing.\<close>

theorem throttled_iff_recent_failures:
  assumes "chronological evs now"
  shows "fst (is_limited (foldl limiter_event_step (InMemoryLoginRateLimiter m w) evs) k now)
    \<longleftrightarrow> m \<le> int (recent w now (failures_of k evs))"
proof -
  let ?s = "InMemoryLoginRateLimiter m w"
  have "in_window (in_memory.limiter_run ?s evs) k now
      = recent (window_seconds ?s) now (failures_of k evs)"
    by (rule in_memory.hits_run [OF fresh_hits assms])
  then show ?thesis
    using in_memory.run_settings [of ?s evs]
    by (simp add: in_memory.limited_iff event_step_eq [symmetric] in_memory.limiter_run_def [symmetric])
      (simp add: InMemoryLoginRateLimiter_def)
qed

lemma throttled_iff_recent_failures_witness:
  "fst (is_limited (foldl limiter_event_step (InMemoryLoginRateLimiter 2 900)
     [Failed ''a'' 0, Checked ''a'' 10, Failed ''a'' 20, Failed ''b'' 30]) ''a'' 40)
   \<longleftrightarrow> 2 \<le> int (recent 900 40 (failures_of ''a''
     [Failed ''a'' 0, Checked ''a'' 10, Failed ''a'' 20, Failed ''b'' 30]))"
proof -
  have "chronological [Failed ''a'' 0, Checked ''a'' 10, Failed ''a'' 20, Failed ''b'' 30] 40"
    by code_simp
  from throttled_iff_recent_failures [OF this] show ?thesis .
qed

text \<open>A forwarded address is the one the outermost trusted proxy saw: what a client puts in
  front of the header cannot change it.\<close>

lemma nth_from_right:
  assumes "0 < n" and "n \<le> length ys"
  shows "(xs @ ys) ! (length (xs @ ys) - n) = ys ! (length ys - n)"
proof -
  have "length (xs @ ys) - n = length xs + (length ys - n)" using assms by simp
  then show ?thesis by simp
qed

lemma split_on_prefix:
  "split_on c (w @ c # s) = split_on c w @ split_on c s"
proof (induction w)
  case (Cons a w)
  then show ?case by (cases "split_on c w") auto
qed simp

text \<open>The address taken for a client behind \<open>n\<close> trusted proxies does not depend on what the
  client itself puts into the forwarded header, as long as the proxies have added their \<open>n\<close>
  entries; with no trusted proxy the header is never read.\<close>

theorem forged_forwarded_prefix_is_ignored:
  assumes "rq_forwarded_for r = Some appended"
    and "n \<le> int (length (filter (\<lambda>p. p \<noteq> []) (map strip (split_on (CHR '','') appended))))"
  shows "client_ip (r\<lparr>rq_forwarded_for := Some (forged @ '','' @ appended)\<rparr>) n =
      (if n \<le> 0 then rq_peer r else client_ip r n)"
proof (cases "n \<le> 0")
  case False
  let ?f = "\<lambda>s. filter (\<lambda>p. p \<noteq> []) (map strip (split_on (CHR '','') s))"
  have split: "?f (forged @ '','' @ appended) = ?f forged @ ?f appended"
    by (simp add: split_on_prefix)
  have ne: "appended \<noteq> []" using assms(2) False by (auto simp: strip_def lstrip_def rstrip_def)
  have "(?f forged @ ?f appended) ! (length (?f forged @ ?f appended) - nat n)
      = ?f appended ! (length (?f appended) - nat n)"
    using assms(2) False by (intro nth_from_right) linarith+
  then show ?thesis
    using False assms ne unfolding client_ip_def Let_def
    by (simp del: map_append filter_append add: split [simplified])
qed (simp add: client_ip_def)

definition proxied :: "string \<Rightarrow> http_request" where
  "proxied xff = \<lparr>rq_method = ''POST'', rq_path = ''/login'', rq_peer = Some ''10.0.0.1'',
     rq_forwarded_for = Some xff, rq_trusted_proxies = Some 1\<rparr>"

lemma forged_forwarded_prefix_is_ignored_witness:
  "client_ip (proxied ''1.1.1.1,203.0.113.7'') 1 = Some ''203.0.113.7''"
proof -
  have "(1::int) \<le> int (length (filter (\<lambda>p. p \<noteq> []) (map strip (split_on (CHR '','') ''203.0.113.7''))))"
    by code_simp
  from forged_forwarded_prefix_is_ignored [of "proxied ''203.0.113.7''" "''203.0.113.7''" 1 "''1.1.1.1''", OF _ this]
  have "client_ip (proxied ''1.1.1.1,203.0.113.7'') 1 = client_ip (proxied ''203.0.113.7'') 1"
    by (simp add: proxied_def)
  also have "\<dots> = Some ''203.0.113.7''" by code_simp
  finally show ?thesis .
qed

end
