(* ===== verification/Accounts.thy ===== *)
theory Accounts
  imports Passwords RateLimiter
begin

text \<open>
  The tables of the authentication subsystem (\<open>src/asterion/models/user.py\<close>, \<open>revoked_token.py\<close>,
  \<open>password_reset_token.py\<close>, \<open>two_factor_backup_code.py\<close>), the state a server keeps beside them
  (limiters, audit rows written outside the request's transaction, delivered tokens), and the
  stores over the tables: \<open>src/asterion/auth/revocation.py\<close>, \<open>password_reset.py\<close>, \<open>totp.py\<close>.

  An operation is a state transformer that may raise.  A flush may fail: the parameter
  \<open>en_flush\<close> is what the database answers.
\<close>

section \<open>Tables\<close>

record user =
  us_id :: nat
  us_email :: string
  us_hashed_password :: string
  us_full_name :: "string option"
  us_is_active :: bool
  us_is_superadmin :: bool
  us_token_version :: int
  us_password_login_disabled :: bool
  us_totp_secret :: "string option"
  us_totp_enabled :: bool

record revoked_token =
  rv_jti :: string
  rv_user_id :: "nat option"
  rv_expires_at :: "int option"
  rv_reason :: "string option"

record reset_token =
  rs_token_hash :: string
  rs_user_id :: nat
  rs_expires_at :: int
  rs_used_at :: "int option"

record backup_code =
  bc_user_id :: nat
  bc_code_hash :: string
  bc_used_at :: "int option"

record account_db =
  db_users :: "user list"
  db_revoked :: "revoked_token list"
  db_resets :: "reset_token list"
  db_codes :: "backup_code list"
  db_audit :: "row list"

text \<open>\<open>sv_shared_limiter\<close> is \<open>runtime.login_rate_limiter\<close>, which where present serves the login and
  the second factor; the other two are the module-level defaults of the two routers.
  \<open>sv_drawn\<close> counts the random values drawn.\<close>

record server =
  sv_db :: account_db
  sv_shared_limiter :: "in_memory_limiter option"
  sv_login_limiter :: in_memory_limiter
  sv_mfa_limiter :: in_memory_limiter
  sv_reset_limiter :: "in_memory_limiter option"
  sv_audit :: "row list"
  sv_sent :: "(string \<times> string) list"
  sv_drawn :: nat

type_synonym 'a serve = "(server, 'a) proc"

record auth_config =
  cf_jwt :: jwt_settings
  cf_app_title :: string
  cf_access_token_expire_minutes :: int
  cf_refresh_token_expire_minutes :: int
  cf_password_reset_token_expire_minutes :: int
  cf_login_rate_limit_by_ip :: bool
  cf_password_min_length :: int

record 't auth_env =
  en_jose :: "'t jose"
  en_crypto :: crypto
  en_config :: auth_config
  en_policy :: "password_policy option"
  en_fetch :: "string \<Rightarrow> string res"
  en_notifier :: bool
  en_pii :: pii_env
  en_flush :: "account_db \<Rightarrow> exn option"

section \<open>Access to the state\<close>

definition db_gets :: "(account_db \<Rightarrow> 'a) \<Rightarrow> 'a serve" where
  "db_gets f = gets (\<lambda>s. f (sv_db s))"

definition db_modify :: "(account_db \<Rightarrow> account_db) \<Rightarrow> unit serve" where
  "db_modify f = modify (\<lambda>s. s\<lparr>sv_db := f (sv_db s)\<rparr>)"

definition db_flush :: "'t auth_env \<Rightarrow> unit serve" where
  "db_flush env = (\<lambda>s. (case en_flush env (sv_db s) of None \<Rightarrow> Inr () | Some e \<Rightarrow> Inl e, s))"

definition draw :: "(nat \<Rightarrow> 'a) \<Rightarrow> 'a serve" where
  "draw f = (\<lambda>s. (Inr (f (sv_drawn s)), s\<lparr>sv_drawn := Suc (sv_drawn s)\<rparr>))"

text \<open>\<open>get_async_session\<close>: an exception rolls the tables back; the rest of the server is not part
  of the transaction.\<close>

definition transaction :: "'a serve \<Rightarrow> 'a serve" where
  "transaction m = (\<lambda>s. case m s of
     (Inl e, s') \<Rightarrow> (Inl e, s'\<lparr>sv_db := sv_db s\<rparr>)
   | (Inr x, s') \<Rightarrow> (Inr x, s'))"

definition find_user :: "nat \<Rightarrow> account_db \<Rightarrow> user option" where
  "find_user i db = find (\<lambda>u. us_id u = i) (db_users db)"

definition find_email :: "string \<Rightarrow> account_db \<Rightarrow> user option" where
  "find_email e db = find (\<lambda>u. us_email u = e) (db_users db)"

text \<open>Assigning attributes of a loaded user: the row with its id.\<close>

definition set_user :: "nat \<Rightarrow> (user \<Rightarrow> user) \<Rightarrow> account_db \<Rightarrow> account_db" where
  "set_user i f db = db\<lparr>db_users := map (\<lambda>u. if us_id u = i then f u else u) (db_users db)\<rparr>"

section \<open>Audit\<close>

definition request_audit_kwargs ::
    "http_request \<Rightarrow> int \<Rightarrow> string \<Rightarrow> principal option \<Rightarrow> (string \<times> pyval) list option \<Rightarrow> audit_kw" where
  "request_audit_kwargs rq code action actor changes =
     \<lparr>ak_action = action, ak_method = rq_method rq, ak_path = rq_path rq, ak_status_code = code,
      ak_actor = actor, ak_tenant_id = VNone, ak_resource = VNone, ak_record_id = VNone,
      ak_changes = changes, ak_ip_address = opt_str (request_client_ip rq),
      ak_tenant_scoped = False, ak_pii_mode = None, ak_behavioral_detail = None\<rparr>"

text \<open>\<open>record_audit_in_session\<close>: the insert runs in a savepoint and a failure is swallowed.\<close>

definition audit_in_session :: "'t auth_env \<Rightarrow> audit_kw \<Rightarrow> unit serve" where
  "audit_in_session env kw = (\<lambda>s.
     let db = (sv_db s)\<lparr>db_audit := db_audit (sv_db s) @ [snd (audit_payload (en_pii env) kw)]\<rparr>
     in (Inr (), case en_flush env db of None \<Rightarrow> s\<lparr>sv_db := db\<rparr> | Some e \<Rightarrow> s))"

text \<open>\<open>record_audit\<close>: an isolated session, committed whatever becomes of the request.\<close>

definition audit_isolated :: "'t auth_env \<Rightarrow> audit_kw \<Rightarrow> unit serve" where
  "audit_isolated env kw =
     modify (\<lambda>s. s\<lparr>sv_audit := sv_audit s @ [snd (audit_payload (en_pii env) kw)]\<rparr>)"

definition user_principal :: "user \<Rightarrow> principal" where
  "user_principal u = \<lparr>pr_id = uuid_str (us_id u), pr_email = Some (us_email u),
     pr_display_name = us_full_name u, pr_is_active = us_is_active u,
     pr_is_superadmin = us_is_superadmin u\<rparr>"

section \<open>Revocation\<close>

definition is_token_revoked :: "string \<Rightarrow> bool serve" where
  "is_token_revoked jti = db_gets (\<lambda>db. jti \<noteq> [] \<and> jti \<in> set (map rv_jti (db_revoked db)))"

definition revoke_token ::
    "'t auth_env \<Rightarrow> string \<Rightarrow> nat option \<Rightarrow> int option \<Rightarrow> string option \<Rightarrow> bool serve" where
  "revoke_token env jti user_id expires_at reason =
    (if jti = [] then ret False
     else sbind (is_token_revoked jti) (\<lambda>revoked.
       if revoked then ret False
       else sbind (db_modify (\<lambda>db. db\<lparr>db_revoked := db_revoked db @
              [\<lparr>rv_jti = jti, rv_user_id = user_id, rv_expires_at = expires_at, rv_reason = reason\<rparr>]\<rparr>))
         (\<lambda>_. sbind (db_flush env) (\<lambda>_. ret True))))"

text \<open>\<open>datetime.fromtimestamp\<close> fails on years outside 1 to 9999.\<close>

definition token_exp_as_datetime :: "row \<Rightarrow> int option" where
  "token_exp_as_datetime payload = (case int_claim (getattr payload ''exp'') of
     None \<Rightarrow> None
   | Some t \<Rightarrow> if -62135596800 \<le> t \<and> t \<le> 253402300799 then Some t else None)"

section \<open>Password-reset tokens\<close>

definition hash_token :: "'t auth_env \<Rightarrow> string \<Rightarrow> string" where
  "hash_token env raw = cr_sha256_hex (en_crypto env) (utf8 raw)"

definition create_password_reset :: "'t auth_env \<Rightarrow> int \<Rightarrow> nat \<Rightarrow> int \<Rightarrow> string serve" where
  "create_password_reset env now user_id ttl_minutes =
     sbind (draw (cr_token_urlsafe (en_crypto env))) (\<lambda>raw.
     sbind (db_modify (\<lambda>db. db\<lparr>db_resets := db_resets db @
         [\<lparr>rs_token_hash = hash_token env raw, rs_user_id = user_id,
           rs_expires_at = now + 60 * ttl_minutes, rs_used_at = None\<rparr>]\<rparr>)) (\<lambda>_.
     sbind (db_flush env) (\<lambda>_. ret raw)))"

definition consume_password_reset :: "'t auth_env \<Rightarrow> int \<Rightarrow> string \<Rightarrow> user option serve" where
  "consume_password_reset env now raw_token =
     sbind (db_gets (\<lambda>db. find (\<lambda>r. rs_token_hash r = hash_token env raw_token) (db_resets db)))
     (\<lambda>found. case found of
       None \<Rightarrow> ret None
     | Some r \<Rightarrow>
       if rs_used_at r \<noteq> None then ret None
       else if rs_expires_at r < now then ret None
       else sbind (db_gets (find_user (rs_user_id r))) (\<lambda>user. case user of
         None \<Rightarrow> ret None
       | Some u \<Rightarrow>
         sbind (db_modify (\<lambda>db. db\<lparr>db_resets := map (\<lambda>r.
             if rs_token_hash r = hash_token env raw_token then r\<lparr>rs_used_at := Some now\<rparr> else r)
             (db_resets db)\<rparr>)) (\<lambda>_.
         sbind (db_flush env) (\<lambda>_. ret (Some u)))))"

section \<open>Second factor\<close>

definition BACKUP_CODE_COUNT :: nat where "BACKUP_CODE_COUNT = 10"

definition verify_totp :: "'t auth_env \<Rightarrow> int \<Rightarrow> string option \<Rightarrow> string \<Rightarrow> bool" where
  "verify_totp env now secret code = (case secret of
     None \<Rightarrow> False
   | Some s \<Rightarrow> if s = [] \<or> code = [] then False
       else cr_totp_verify (en_crypto env) s (strip code) now)"

fun generate_backup_codes :: "'t auth_env \<Rightarrow> nat \<Rightarrow> string list serve" where
  "generate_backup_codes env 0 = ret []"
| "generate_backup_codes env (Suc n) =
     sbind (draw (cr_token_hex (en_crypto env))) (\<lambda>raw.
     sbind (generate_backup_codes env n) (\<lambda>codes. ret ((take 4 raw @ ''-'' @ drop 4 raw) # codes)))"

definition store_backup_codes :: "'t auth_env \<Rightarrow> nat \<Rightarrow> string list \<Rightarrow> unit serve" where
  "store_backup_codes env user_id codes =
     sbind (db_modify (\<lambda>db. db\<lparr>db_codes := db_codes db @ map (\<lambda>raw.
       \<lparr>bc_user_id = user_id, bc_code_hash = hash_token env raw, bc_used_at = None\<rparr>) codes\<rparr>))
     (\<lambda>_. db_flush env)"

definition clear_backup_codes :: "'t auth_env \<Rightarrow> nat \<Rightarrow> unit serve" where
  "clear_backup_codes env user_id =
     sbind (db_modify (\<lambda>db. db\<lparr>db_codes := filter (\<lambda>c. bc_user_id c \<noteq> user_id) (db_codes db)\<rparr>))
     (\<lambda>_. db_flush env)"

definition usable_code :: "'t auth_env \<Rightarrow> nat \<Rightarrow> string \<Rightarrow> backup_code \<Rightarrow> bool" where
  "usable_code env user_id raw_code c = (bc_user_id c = user_id
     \<and> bc_code_hash c = hash_token env (strip raw_code) \<and> bc_used_at c = None)"

text \<open>\<open>scalar_one_or_none\<close> raises where two rows match.\<close>

definition consume_backup_code :: "'t auth_env \<Rightarrow> int \<Rightarrow> nat \<Rightarrow> string \<Rightarrow> bool serve" where
  "consume_backup_code env now user_id raw_code =
    (if raw_code = [] then ret False
     else sbind (db_gets (\<lambda>db. filter (usable_code env user_id raw_code) (db_codes db))) (\<lambda>rows.
       case rows of
         [] \<Rightarrow> ret False
       | [c] \<Rightarrow>
         sbind (db_modify (\<lambda>db. db\<lparr>db_codes := map (\<lambda>c.
             if usable_code env user_id raw_code c then c\<lparr>bc_used_at := Some now\<rparr> else c)
             (db_codes db)\<rparr>)) (\<lambda>_.
         sbind (db_flush env) (\<lambda>_. ret True))
       | _ \<Rightarrow> throw (PyExc (OtherExc ''MultipleResultsFound'')
           ''Multiple rows were found when one or none was required'')))"

section \<open>What the stores keep\<close>

text \<open>The order on states every operation only moves up in: revoked tokens stay revoked, the
  token version of a user never falls, a used reset token stays used.\<close>

definition no_less :: "account_db \<Rightarrow> account_db \<Rightarrow> bool" where
  "no_less db db' \<longleftrightarrow>
     set (map rv_jti (db_revoked db)) \<subseteq> set (map rv_jti (db_revoked db'))
     \<and> (\<forall>i u. find_user i db = Some u \<longrightarrow>
          (\<exists>u'. find_user i db' = Some u' \<and> us_token_version u \<le> us_token_version u'))
     \<and> (\<forall>h r. find (\<lambda>r. rs_token_hash r = h) (db_resets db) = Some r \<longrightarrow>
          (\<exists>r'. find (\<lambda>r. rs_token_hash r = h) (db_resets db') = Some r'
            \<and> (rs_used_at r \<noteq> None \<longrightarrow> rs_used_at r' \<noteq> None)))"

definition climbs :: "'a serve \<Rightarrow> bool" where
  "climbs m \<longleftrightarrow> (\<forall>s. no_less (sv_db s) (sv_db (snd (m s))))"

lemma no_less_refl [simp, intro]: "no_less db db"
  by (simp add: no_less_def)

lemma no_less_trans: "no_less a b \<Longrightarrow> no_less b c \<Longrightarrow> no_less a c"
  unfolding no_less_def by (meson order_trans)

named_theorems climbs_intros \<open>operations that only move up\<close>

lemma climbs_basic [climbs_intros]:
  "climbs (ret x)" "climbs (throw e)" "climbs (lift_res r)" "climbs (gets f)" "climbs (db_gets g)"
  "climbs (db_flush env)" "climbs (draw h)"
  by (simp_all add: climbs_def db_gets_def db_flush_def draw_def)

lemma climbs_sbind [climbs_intros]:
  assumes "climbs m" and "\<And>x. climbs (f x)"
  shows "climbs (sbind m f)"
  unfolding climbs_def
proof
  fix s
  have m: "no_less (sv_db s) (sv_db (snd (m s)))" using assms(1) by (simp add: climbs_def)
  show "no_less (sv_db s) (sv_db (snd (sbind m f s)))"
  proof (cases "m s")
    case (Pair r s')
    show ?thesis
    proof (cases r)
      case (Inr x)
      have "no_less (sv_db s') (sv_db (snd (f x s')))" using assms(2) by (simp add: climbs_def)
      with m Pair Inr show ?thesis by (auto simp: sbind_def intro: no_less_trans)
    qed (use m Pair in \<open>simp add: sbind_def\<close>)
  qed
qed

lemma climbs_if [climbs_intros]: "climbs m \<Longrightarrow> climbs n \<Longrightarrow> climbs (if b then m else n)"
  by simp

lemma climbs_option [climbs_intros]:
  "climbs m \<Longrightarrow> (\<And>x. climbs (f x)) \<Longrightarrow> climbs (case z of None \<Rightarrow> m | Some x \<Rightarrow> f x)"
  by (cases z) simp_all

lemma climbs_sum [climbs_intros]:
  "(\<And>x. climbs (g x)) \<Longrightarrow> (\<And>x. climbs (f x)) \<Longrightarrow> climbs (case z of Inl e \<Rightarrow> g e | Inr x \<Rightarrow> f x)"
  by (cases z) simp_all

lemma climbs_prod [climbs_intros]:
  "(\<And>x y. climbs (f x y)) \<Longrightarrow> climbs (case z of (x, y) \<Rightarrow> f x y)"
  by (cases z) simp

lemma climbs_modify: "(\<And>s. sv_db (f s) = sv_db s) \<Longrightarrow> climbs (modify f)"
  by (simp add: climbs_def)

lemma climbs_db_modify: "(\<And>db. no_less db (f db)) \<Longrightarrow> climbs (db_modify f)"
  by (simp add: climbs_def db_modify_def)

lemma climbs_transaction [climbs_intros]: "climbs m \<Longrightarrow> climbs (transaction m)"
  by (auto simp: climbs_def transaction_def split: prod.splits sum.splits) (metis snd_conv)

lemma climbs_audit [climbs_intros]: "climbs (audit_in_session env kw)" "climbs (audit_isolated env kw)"
  by (auto simp: climbs_def audit_in_session_def audit_isolated_def Let_def no_less_def find_user_def
      split: option.splits)

lemma find_map_same:
  assumes "\<And>x. P (f x) = P x"
  shows "find P (map f xs) = map_option f (find P xs)"
  by (induction xs) (simp_all add: assms)

lemma find_append: "find P (xs @ ys) = (case find P xs of None \<Rightarrow> find P ys | Some x \<Rightarrow> Some x)"
  by (induction xs) auto

lemma find_user_set_user:
  assumes "\<And>u. us_id (f u) = us_id u"
  shows "find_user i (set_user j f db) = map_option (\<lambda>u. if us_id u = j then f u else u) (find_user i db)"
  unfolding find_user_def set_user_def using assms
  by (simp add: find_map_same)

lemma no_less_set_user:
  assumes "\<And>u. us_id (f u) = us_id u" and "\<And>u. us_token_version u \<le> us_token_version (f u)"
  shows "no_less db (set_user i f db)"
  unfolding no_less_def find_user_set_user [OF assms(1)] using assms(2)
  by (auto simp: set_user_def)

lemma climbs_revoke [climbs_intros]: "climbs (is_token_revoked jti)" "climbs (revoke_token env jti u x r)"
  by (auto simp: is_token_revoked_def revoke_token_def no_less_def find_user_def
      intro!: climbs_intros climbs_db_modify)

lemma climbs_create_reset [climbs_intros]: "climbs (create_password_reset env now u ttl)"
  by (auto simp: create_password_reset_def no_less_def find_user_def find_append
      intro!: climbs_intros climbs_db_modify)

lemma climbs_consume_reset [climbs_intros]: "climbs (consume_password_reset env now raw)"
proof -
  have "no_less db (db\<lparr>db_resets := map (\<lambda>r. if rs_token_hash r = h then r\<lparr>rs_used_at := Some now\<rparr> else r)
      (db_resets db)\<rparr>)" for db h
    by (auto simp: no_less_def find_user_def find_map_same)
  then show ?thesis
    unfolding consume_password_reset_def by (intro climbs_intros climbs_db_modify)
qed

lemma climbs_codes [climbs_intros]:
  "climbs (generate_backup_codes env n)" "climbs (store_backup_codes env u codes)"
  "climbs (clear_backup_codes env u)" "climbs (consume_backup_code env now u raw)"
proof -
  show "climbs (generate_backup_codes env n)"
    by (induction n) (auto intro!: climbs_intros)
  have nl: "no_less db (db\<lparr>db_codes := f db\<rparr>)" for db f
    by (simp add: no_less_def find_user_def)
  show "climbs (store_backup_codes env u codes)" "climbs (clear_backup_codes env u)"
    unfolding store_backup_codes_def clear_backup_codes_def
    by (intro climbs_intros climbs_db_modify nl)+
  show "climbs (consume_backup_code env now u raw)"
    unfolding consume_backup_code_def
    by (intro climbs_intros climbs_db_modify nl) (auto split: list.splits intro!: climbs_intros climbs_db_modify nl)
qed

end
