(* ===== verification/AuthRoutes.thy ===== *)
theory AuthRoutes
  imports Accounts
begin

text \<open>
  The routes of \<open>src/asterion/auth/router.py\<close> and \<open>two_factor_router.py\<close>, the dependencies of
  \<open>src/asterion/auth/dependencies.py\<close>, and the built-in providers of
  \<open>src/asterion/providers/auth.py\<close> and \<open>users.py\<close>.

  A route runs in the request's transaction.  \<open>now\<close> is the clock at the request.  Bearer
  credentials are what FastAPI's \<open>HTTPBearer\<close> reads: the scheme and the token.
\<close>

type_synonym 't credentials = "(string \<times> 't) option"

definition unauthorized :: "string \<Rightarrow> exn" where
  "unauthorized detail = HTTPExc 401 (VStr detail) [(''WWW-Authenticate'', ''Bearer'')]"

definition jwt :: "'t auth_env \<Rightarrow> jwt_settings" where "jwt env = cf_jwt (en_config env)"

text \<open>The \<open>try\<close> block around decoding and reading the claims.\<close>

definition claims_or :: "exn \<Rightarrow> row res \<Rightarrow> (row \<times> nat \<times> int \<times> string) res" where
  "claims_or err decoded = (case token_claims decoded of
     Inl e \<Rightarrow> Inl (if catches TokenError e then err else e)
   | Inr x \<Rightarrow> Inr x)"

section \<open>Dependencies\<close>

definition get_current_user ::
    "'t auth_env \<Rightarrow> int \<Rightarrow> 't credentials \<Rightarrow> (user \<times> row \<times> bool) serve" where
  "get_current_user env now credentials = (case credentials of
     None \<Rightarrow> throw (unauthorized ''Authentication required.'')
   | Some (scheme, token) \<Rightarrow>
     if lower scheme \<noteq> ''bearer'' then throw (unauthorized ''Authentication required.'')
     else sbind (lift_res (claims_or (unauthorized ''Invalid access token.'')
         (decode_access_token (en_jose env) (jwt env) True now token)))
     (\<lambda>(payload, user_id, token_version, jti).
     sbind (is_token_revoked jti) (\<lambda>revoked.
     if revoked then throw (unauthorized ''Token has been revoked.'')
     else sbind (db_gets (find_user user_id)) (\<lambda>user. case user of
       None \<Rightarrow> throw (unauthorized ''Invalid access token.'')
     | Some u \<Rightarrow>
       if \<not> us_is_active u then throw (http 403 ''User is inactive.'')
       else if us_token_version u \<noteq> token_version
       then throw (unauthorized ''Token has been revoked.'')
       else ret (u, payload, is_impersonation_token payload)))))"

definition require_superadmin :: "'t auth_env \<Rightarrow> int \<Rightarrow> 't credentials \<Rightarrow> user serve" where
  "require_superadmin env now credentials =
     sbind (get_current_user env now credentials) (\<lambda>(current_user, payload, impersonating).
     if is_impersonation_token payload
     then throw (http 403 ''Impersonation tokens cannot access superadmin routes.'')
     else if \<not> us_is_superadmin current_user
     then throw (http 403 ''Superadmin privileges required.'')
     else ret current_user)"

section \<open>Built-in providers\<close>

text \<open>\<open>BuiltinJWTAuthProvider.authenticate_request\<close>: \<open>None\<close> is an anonymous request.\<close>

definition authenticate_request ::
    "'t auth_env \<Rightarrow> int \<Rightarrow> 't credentials \<Rightarrow> (string \<times> row) option serve" where
  "authenticate_request env now credentials = (case credentials of
     None \<Rightarrow> ret None
   | Some (scheme, token) \<Rightarrow>
     if lower scheme \<noteq> ''bearer'' then ret None
     else sbind (lift_res (claims_or (unauthorized ''Invalid access token.'')
         (decode_access_token (en_jose env) (jwt env) True now token)))
     (\<lambda>(payload, user_id, token_version, jti).
     sbind (is_token_revoked jti) (\<lambda>revoked.
     if revoked then throw (unauthorized ''Token has been revoked.'')
     else sbind (db_gets (\<lambda>db. map_option us_token_version (find_user user_id db))) (\<lambda>stored.
       case stored of
         None \<Rightarrow> throw (unauthorized ''Invalid access token.'')
       | Some v \<Rightarrow>
         if v \<noteq> token_version then throw (unauthorized ''Token has been revoked.'')
         else ret (Some (uuid_str user_id, payload))))))"

text \<open>\<open>BuiltinSQLAlchemyUserProvider.get_by_id\<close>: the id is bound to a UUID column.\<close>

definition get_by_id :: "string \<Rightarrow> principal option serve" where
  "get_by_id user_id = (case uuid_parse user_id of
     None \<Rightarrow> throw (PyExc (OtherExc ''StatementError'') ''badly formed hexadecimal UUID string'')
   | Some i \<Rightarrow> sbind (db_gets (find_user i)) (\<lambda>found. case found of
       None \<Rightarrow> ret None
     | Some u \<Rightarrow> if us_is_active u then ret (Some (user_principal u)) else ret None))"

record 't auth_session =
  as_access_token :: 't
  as_token_type :: string
  as_expires_in :: "int option"
  as_subject :: "string option"
  as_refresh_token :: "'t option"

text \<open>The access and refresh tokens of a sign-in.\<close>

definition mint_access :: "'t auth_env \<Rightarrow> int \<Rightarrow> user \<Rightarrow> 't serve" where
  "mint_access env now u = sbind (draw (cr_uuid4 (en_crypto env))) (\<lambda>jti.
     ret (create_access_token (en_jose env) (jwt env) now jti (us_id u)
       (cf_access_token_expire_minutes (en_config env)) (us_token_version u)))"

definition mint_refresh :: "'t auth_env \<Rightarrow> int \<Rightarrow> user \<Rightarrow> 't serve" where
  "mint_refresh env now u = sbind (draw (cr_uuid4 (en_crypto env))) (\<lambda>jti.
     ret (create_refresh_token (en_jose env) (jwt env) now jti (us_id u)
       (cf_refresh_token_expire_minutes (en_config env)) (us_token_version u)))"

text \<open>\<open>BuiltinJWTAuthProvider.login\<close>: the reason of a \<open>LoginError\<close>, or the session.  The dummy
  verification on an unknown address only spends time.\<close>

definition builtin_login ::
    "'t auth_env \<Rightarrow> int \<Rightarrow> string \<Rightarrow> string \<Rightarrow> (string + 't auth_session) serve" where
  "builtin_login env now email password =
     sbind (db_gets (find_email email)) (\<lambda>user. case user of
       None \<Rightarrow> ret (Inl ''invalid_credentials'')
     | Some u \<Rightarrow>
       if \<not> verify_password (en_crypto env) password (us_hashed_password u)
       then ret (Inl ''invalid_credentials'')
       else if \<not> us_is_active u then ret (Inl ''inactive_user'')
       else sbind (mint_access env now u) (\<lambda>token.
         sbind (mint_refresh env now u) (\<lambda>refresh.
         ret (Inr \<lparr>as_access_token = token, as_token_type = ''bearer'',
           as_expires_in = Some (cf_access_token_expire_minutes (en_config env) * 60),
           as_subject = Some (uuid_str (us_id u)), as_refresh_token = Some refresh\<rparr>))))"

section \<open>Login\<close>

definition LOGIN_FAILURE_STATUS :: "string \<Rightarrow> nat \<times> string" where
  "LOGIN_FAILURE_STATUS reason =
    (if reason = ''invalid_credentials'' then (401, ''Invalid credentials.'')
     else if reason = ''inactive_user'' then (403, ''User is inactive.'')
     else (401, ''Invalid credentials.''))"

definition audit_login ::
    "'t auth_env \<Rightarrow> http_request \<Rightarrow> string \<Rightarrow> nat \<Rightarrow> string \<Rightarrow> principal option \<Rightarrow> string option
      \<Rightarrow> unit serve" where
  "audit_login env rq action code email actor reason =
     audit_isolated env (request_audit_kwargs rq (int code) action actor
       (Some ((''email'', VStr email) # (case reason of None \<Rightarrow> [] | Some r \<Rightarrow> [(''reason'', VStr r)]))))"

record 't token_response =
  tr_access_token :: "'t option"
  tr_token_type :: string
  tr_refresh_token :: "'t option"
  tr_mfa_required :: bool
  tr_mfa_token :: "'t option"

definition login_limiter :: "server \<Rightarrow> in_memory_limiter" where
  "login_limiter s = (case sv_shared_limiter s of Some l \<Rightarrow> l | None \<Rightarrow> sv_login_limiter s)"

definition set_login_limiter :: "in_memory_limiter \<Rightarrow> server \<Rightarrow> server" where
  "set_login_limiter l s = (case sv_shared_limiter s of
     Some _ \<Rightarrow> s\<lparr>sv_shared_limiter := Some l\<rparr> | None \<Rightarrow> s\<lparr>sv_login_limiter := l\<rparr>)"

definition login_limited :: "string \<Rightarrow> int \<Rightarrow> bool serve" where
  "login_limited key now = (\<lambda>s. case is_limited (login_limiter s) key now of (b, l) \<Rightarrow>
     (Inr b, set_login_limiter l s))"

definition login_failed :: "string \<Rightarrow> int \<Rightarrow> unit serve" where
  "login_failed key now = modify (\<lambda>s. set_login_limiter (record_failure (login_limiter s) key now) s)"

definition login_cleared :: "string \<Rightarrow> unit serve" where
  "login_cleared key = modify (\<lambda>s. set_login_limiter (clear (login_limiter s) key) s)"

definition limiter_key :: "'t auth_env \<Rightarrow> http_request \<Rightarrow> string \<Rightarrow> string" where
  "limiter_key env rq email =
    (if cf_login_rate_limit_by_ip (en_config env)
     then lower email @ ''|'' @ (case request_client_ip rq of
       None \<Rightarrow> ''unknown'' | Some ip \<Rightarrow> if ip = [] then ''unknown'' else ip)
     else lower email)"

text \<open>The account a session belongs to, where its subject is a built-in user's id.\<close>

definition user_for_mfa :: "string option \<Rightarrow> user option serve" where
  "user_for_mfa subject = (case subject of
     None \<Rightarrow> ret None
   | Some sub \<Rightarrow> (case uuid_parse sub of
       None \<Rightarrow> ret None
     | Some i \<Rightarrow> db_gets (find_user i)))"

definition session_principal :: "string option \<Rightarrow> string \<Rightarrow> principal option" where
  "session_principal subject email = map_option (\<lambda>sub. \<lparr>pr_id = sub, pr_email = Some email,
     pr_display_name = None, pr_is_active = True, pr_is_superadmin = False\<rparr>) subject"

type_synonym 't login_fn = "string \<Rightarrow> string \<Rightarrow> (string + 't auth_session) serve"

definition login_succeeded ::
    "'t auth_env \<Rightarrow> int \<Rightarrow> http_request \<Rightarrow> string \<Rightarrow> 't auth_session \<Rightarrow> 't token_response serve" where
  "login_succeeded env now rq email sess =
     sbind (user_for_mfa (as_subject sess)) (\<lambda>user.
     let actor = session_principal (as_subject sess) email in
     case (case user of None \<Rightarrow> None | Some u \<Rightarrow> if us_totp_enabled u then Some u else None) of
       Some u \<Rightarrow>
         sbind (draw (cr_uuid4 (en_crypto env))) (\<lambda>jti.
         let challenge = create_mfa_challenge_token (en_jose env) (jwt env) now jti (us_id u) 5
           (us_token_version u) in
         sbind (audit_login env rq ''login_success'' 200 email actor (Some ''mfa_required''))
         (\<lambda>_. ret \<lparr>tr_access_token = None, tr_token_type = ''bearer'', tr_refresh_token = None,
           tr_mfa_required = True, tr_mfa_token = Some challenge\<rparr>))
     | None \<Rightarrow>
         sbind (audit_login env rq ''login_success'' 200 email actor None) (\<lambda>_.
         ret \<lparr>tr_access_token = Some (as_access_token sess), tr_token_type = as_token_type sess,
           tr_refresh_token = as_refresh_token sess, tr_mfa_required = False, tr_mfa_token = None\<rparr>))"

definition login ::
    "'t auth_env \<Rightarrow> int \<Rightarrow> 't login_fn option \<Rightarrow> http_request \<Rightarrow> string \<Rightarrow> string
      \<Rightarrow> 't token_response serve" where
  "login env now login_fn rq email password = transaction (
     let key = limiter_key env rq email in
     case login_fn of
       None \<Rightarrow> throw (http 501 ''The configured auth provider does not support password login.'')
     | Some f \<Rightarrow>
       sbind (login_limited key now) (\<lambda>limited.
       if limited
       then sbind (audit_login env rq ''login_failure'' 429 email None (Some ''rate_limited''))
         (\<lambda>_. throw (http 429 ''Too many failed login attempts.''))
       else sbind (f email password) (\<lambda>result. case result of
         Inl reason \<Rightarrow>
           sbind (login_failed key now) (\<lambda>_.
           sbind (audit_login env rq ''login_failure'' (fst (LOGIN_FAILURE_STATUS reason)) email
             None (Some reason)) (\<lambda>_.
           throw (http (fst (LOGIN_FAILURE_STATUS reason)) (snd (LOGIN_FAILURE_STATUS reason)))))
       | Inr sess \<Rightarrow>
           sbind (login_cleared key) (\<lambda>_. login_succeeded env now rq email sess))))"

section \<open>Refresh and logout\<close>

definition refresh :: "'t auth_env \<Rightarrow> int \<Rightarrow> 't \<Rightarrow> 't token_response serve" where
  "refresh env now refresh_token = transaction (
     sbind (lift_res (claims_or (unauthorized ''Invalid refresh token.'')
         (decode_refresh_token (en_jose env) (jwt env) now refresh_token)))
     (\<lambda>(payload, user_id, token_version, jti).
     sbind (is_token_revoked jti) (\<lambda>revoked.
     if revoked then throw (http 401 ''Refresh token has been revoked.'')
     else sbind (db_gets (find_user user_id)) (\<lambda>user. case user of
       None \<Rightarrow> throw (http 401 ''Invalid refresh token.'')
     | Some u \<Rightarrow>
       if \<not> us_is_active u then throw (http 401 ''Invalid refresh token.'')
       else if us_token_version u \<noteq> token_version
       then throw (http 401 ''Refresh token has been revoked.'')
       else sbind (revoke_token env jti (Some (us_id u)) (token_exp_as_datetime payload)
           (Some ''refresh_rotation'')) (\<lambda>_.
         sbind (mint_access env now u) (\<lambda>new_access.
         sbind (mint_refresh env now u) (\<lambda>new_refresh.
         ret \<lparr>tr_access_token = Some new_access, tr_token_type = ''bearer'',
           tr_refresh_token = Some new_refresh, tr_mfa_required = False, tr_mfa_token = None\<rparr>)))))))"

definition logout :: "'t auth_env \<Rightarrow> int \<Rightarrow> http_request \<Rightarrow> 't credentials \<Rightarrow> string serve" where
  "logout env now rq credentials = transaction (
     sbind (get_current_user env now credentials) (\<lambda>(current_user, payload, impersonating).
     sbind (lift_res (get_token_jti payload)) (\<lambda>jti.
     sbind (revoke_token env jti (Some (us_id current_user)) (token_exp_as_datetime payload)
       (Some ''logout'')) (\<lambda>newly_revoked.
     sbind (audit_in_session env (request_audit_kwargs rq 200 ''logout''
       (Some (user_principal current_user))
       (Some [(''jti'', VStr jti), (''newly_revoked'', VBool newly_revoked)]))) (\<lambda>_.
     ret ''Session invalidated.'')))))"

text \<open>The attributes of the loaded user, as assigned, after the flush.\<close>

definition save_user :: "'t auth_env \<Rightarrow> user \<Rightarrow> (user \<Rightarrow> user) \<Rightarrow> user serve" where
  "save_user env u f = sbind (db_modify (set_user (us_id u) f)) (\<lambda>_.
     sbind (db_flush env) (\<lambda>_. ret (f u)))"

definition bump_version :: "user \<Rightarrow> user" where
  "bump_version u = u\<lparr>us_token_version := us_token_version u + 1\<rparr>"

definition logout_all :: "'t auth_env \<Rightarrow> int \<Rightarrow> http_request \<Rightarrow> 't credentials \<Rightarrow> string serve" where
  "logout_all env now rq credentials = transaction (
     sbind (get_current_user env now credentials) (\<lambda>(current_user, payload, impersonating).
     sbind (save_user env current_user bump_version) (\<lambda>u.
     sbind (audit_in_session env (request_audit_kwargs rq 200 ''logout_all''
       (Some (user_principal u)) (Some [(''bumped_to'', VInt (us_token_version u))]))) (\<lambda>_.
     ret ''All sessions invalidated.''))))"

section \<open>Password reset\<close>

definition reset_limited :: "string \<Rightarrow> int \<Rightarrow> bool serve" where
  "reset_limited key now = (\<lambda>s. case sv_reset_limiter s of
     None \<Rightarrow> (Inr False, s)
   | Some l \<Rightarrow> (case is_limited l key now of (b, l') \<Rightarrow>
       (Inr b, s\<lparr>sv_reset_limiter := Some l'\<rparr>)))"

definition reset_counted :: "string \<Rightarrow> int \<Rightarrow> unit serve" where
  "reset_counted key now = modify (\<lambda>s. s\<lparr>sv_reset_limiter :=
     map_option (\<lambda>l. record_failure l key now) (sv_reset_limiter s)\<rparr>)"

definition may_reset :: "user option \<Rightarrow> user option" where
  "may_reset user = (case user of None \<Rightarrow> None | Some u \<Rightarrow>
     if us_is_active u \<and> \<not> us_password_login_disabled u then Some u else None)"

definition password_reset_request ::
    "'t auth_env \<Rightarrow> int \<Rightarrow> http_request \<Rightarrow> string \<Rightarrow> string serve" where
  "password_reset_request env now rq email = transaction (
     let audit = (\<lambda>code actor changes. request_audit_kwargs rq code ''password_reset_request'' actor
       (Some ((''email'', VStr email) # changes))) in
     sbind (reset_limited (lower email) now) (\<lambda>limited.
     if limited
     then sbind (audit_isolated env (audit 429 None
         [(''issued'', VBool False), (''reason'', VStr ''rate_limited'')])) (\<lambda>_.
       throw (http 429 ''Too many password reset requests. Please try again later.''))
     else sbind (reset_counted (lower email) now) (\<lambda>_.
     sbind (db_gets (find_email email)) (\<lambda>user.
     sbind (case may_reset user of
         None \<Rightarrow> ret ()
       | Some u \<Rightarrow>
         sbind (create_password_reset env now (us_id u)
           (cf_password_reset_token_expire_minutes (en_config env))) (\<lambda>raw_token.
         if en_notifier env
         then modify (\<lambda>s. s\<lparr>sv_sent := sv_sent s @ [(email, raw_token)]\<rparr>)
         else ret ())) (\<lambda>_.
     sbind (audit_in_session env (audit 202 (map_option user_principal (may_reset user))
         [(''issued'', VBool (may_reset user \<noteq> None))])) (\<lambda>_.
     ret ''If the account exists, a reset link has been sent.''))))))"

definition password_check :: "'t auth_env \<Rightarrow> string \<Rightarrow> unit res" where
  "password_check env new_password =
    (case (case en_policy env of
         Some pp \<Rightarrow> policy_validate (en_crypto env) (en_fetch env) pp new_password
       | None \<Rightarrow> validate_password_strength new_password (cf_password_min_length (en_config env))) of
       Inr u \<Rightarrow> Inr u
     | Inl (PyExc c msg) \<Rightarrow> if ValueError \<in> set (mro c) then Inl (http 422 msg) else Inl (PyExc c msg)
     | Inl e \<Rightarrow> Inl e)"

definition password_reset_confirm ::
    "'t auth_env \<Rightarrow> int \<Rightarrow> http_request \<Rightarrow> string \<Rightarrow> string \<Rightarrow> string serve" where
  "password_reset_confirm env now rq token new_password = transaction (
     sbind (lift_res (password_check env new_password)) (\<lambda>_.
     sbind (consume_password_reset env now token) (\<lambda>user. case user of
       None \<Rightarrow> throw (http 400 ''Invalid or expired reset token.'')
     | Some u \<Rightarrow>
       sbind (draw (\<lambda>salt. hash_password (en_crypto env) salt new_password)) (\<lambda>hashed.
       sbind (save_user env u (\<lambda>u. bump_version
           (u\<lparr>us_hashed_password := hashed, us_is_active := True\<rparr>))) (\<lambda>u'.
       sbind (audit_in_session env (request_audit_kwargs rq 200 ''password_reset_confirm''
         (Some (user_principal u')) (Some [(''bumped_to'', VInt (us_token_version u'))]))) (\<lambda>_.
       ret ''Password updated.''))))))"

section \<open>Second factor\<close>

definition two_factor_setup :: "'t auth_env \<Rightarrow> int \<Rightarrow> 't credentials \<Rightarrow> (string \<times> string) serve" where
  "two_factor_setup env now credentials = transaction (
     sbind (get_current_user env now credentials) (\<lambda>(current_user, payload, impersonating).
     if us_totp_enabled current_user
     then throw (http 409 ''2FA is already enabled. Disable it first to re-enroll.'')
     else sbind (draw (cr_random_base32 (en_crypto env))) (\<lambda>secret.
       sbind (save_user env current_user (\<lambda>u. u\<lparr>us_totp_secret := Some secret\<rparr>)) (\<lambda>u.
       ret (secret, cr_totp_uri (en_crypto env) secret (us_email u) (cf_app_title (en_config env)))))))"

definition two_factor_enable ::
    "'t auth_env \<Rightarrow> int \<Rightarrow> http_request \<Rightarrow> 't credentials \<Rightarrow> string \<Rightarrow> string list serve" where
  "two_factor_enable env now rq credentials code = transaction (
     sbind (get_current_user env now credentials) (\<lambda>(current_user, payload, impersonating).
     if us_totp_enabled current_user then throw (http 409 ''2FA is already enabled.'')
     else if us_totp_secret current_user \<in> {None, Some []}
     then throw (http 400 ''No pending 2FA setup. Call /2fa/setup first.'')
     else if \<not> verify_totp env now (us_totp_secret current_user) code
     then throw (http 400 ''Invalid 2FA code.'')
     else sbind (save_user env current_user (\<lambda>u. u\<lparr>us_totp_enabled := True\<rparr>)) (\<lambda>u.
       sbind (clear_backup_codes env (us_id u)) (\<lambda>_.
       sbind (generate_backup_codes env BACKUP_CODE_COUNT) (\<lambda>codes.
       sbind (store_backup_codes env (us_id u) codes) (\<lambda>_.
       sbind (audit_in_session env (request_audit_kwargs rq 200 ''two_factor_enabled''
         (Some (user_principal u))
         (Some [(''backup_codes_issued'', VInt (int (length codes)))]))) (\<lambda>_.
       ret codes)))))))"

definition two_factor_disable ::
    "'t auth_env \<Rightarrow> int \<Rightarrow> http_request \<Rightarrow> 't credentials \<Rightarrow> string \<Rightarrow> string serve" where
  "two_factor_disable env now rq credentials code = transaction (
     sbind (get_current_user env now credentials) (\<lambda>(current_user, payload, impersonating).
     if \<not> us_totp_enabled current_user then throw (http 400 ''2FA is not enabled.'')
     else if \<not> verify_totp env now (us_totp_secret current_user) code
     then throw (http 400 ''Invalid 2FA code.'')
     else sbind (save_user env current_user
           (\<lambda>u. u\<lparr>us_totp_enabled := False, us_totp_secret := None\<rparr>)) (\<lambda>u.
       sbind (clear_backup_codes env (us_id u)) (\<lambda>_.
       sbind (audit_in_session env (request_audit_kwargs rq 200 ''two_factor_disabled''
         (Some (user_principal u)) None)) (\<lambda>_.
       ret ''2FA disabled.'')))))"

definition mfa_limiter :: "server \<Rightarrow> in_memory_limiter" where
  "mfa_limiter s = (case sv_shared_limiter s of Some l \<Rightarrow> l | None \<Rightarrow> sv_mfa_limiter s)"

definition set_mfa_limiter :: "in_memory_limiter \<Rightarrow> server \<Rightarrow> server" where
  "set_mfa_limiter l s = (case sv_shared_limiter s of
     Some _ \<Rightarrow> s\<lparr>sv_shared_limiter := Some l\<rparr> | None \<Rightarrow> s\<lparr>sv_mfa_limiter := l\<rparr>)"

definition mfa_limited :: "string \<Rightarrow> int \<Rightarrow> bool serve" where
  "mfa_limited key now = (\<lambda>s. case is_limited (mfa_limiter s) key now of (b, l) \<Rightarrow>
     (Inr b, set_mfa_limiter l s))"

definition mfa_failed :: "string \<Rightarrow> int \<Rightarrow> unit serve" where
  "mfa_failed key now = modify (\<lambda>s. set_mfa_limiter (record_failure (mfa_limiter s) key now) s)"

definition mfa_cleared :: "string \<Rightarrow> unit serve" where
  "mfa_cleared key = modify (\<lambda>s. set_mfa_limiter (clear (mfa_limiter s) key) s)"

definition mfa_principal :: "user \<Rightarrow> principal" where
  "mfa_principal u = \<lparr>pr_id = uuid_str (us_id u), pr_email = Some (us_email u),
     pr_display_name = None, pr_is_active = True, pr_is_superadmin = False\<rparr>"

definition audit_mfa_login ::
    "'t auth_env \<Rightarrow> http_request \<Rightarrow> string \<Rightarrow> nat \<Rightarrow> user option \<Rightarrow> string option \<Rightarrow> string option
      \<Rightarrow> unit serve" where
  "audit_mfa_login env rq action code user reason factor =
    (let changes = (case reason of None \<Rightarrow> [] | Some r \<Rightarrow> [(''reason'', VStr r)])
           @ (case factor of None \<Rightarrow> [] | Some f \<Rightarrow> [(''factor'', VStr f)])
     in audit_isolated env (request_audit_kwargs rq (int code) action
          (map_option mfa_principal user) (if changes = [] then None else Some changes)))"

definition bad_challenge :: exn where
  "bad_challenge = http 401 ''Invalid or expired MFA challenge.''"

text \<open>The second factor itself: the name of the factor that passed, or the refusal.\<close>

definition check_factor ::
    "'t auth_env \<Rightarrow> int \<Rightarrow> http_request \<Rightarrow> string \<Rightarrow> user \<Rightarrow> bool \<Rightarrow> string \<Rightarrow> string \<Rightarrow> string serve" where
  "check_factor env now rq mfa_key u has_code code backup_code =
    (if has_code
     then (if verify_totp env now (us_totp_secret u) code then ret ''totp''
       else sbind (mfa_failed mfa_key now) (\<lambda>_.
         sbind (audit_mfa_login env rq ''login_failure'' 401 (Some u) (Some ''invalid_totp'')
           (Some ''totp'')) (\<lambda>_. throw (http 401 ''Invalid 2FA code.''))))
     else sbind (consume_backup_code env now (us_id u) backup_code) (\<lambda>ok.
       if ok then ret ''backup_code''
       else sbind (mfa_failed mfa_key now) (\<lambda>_.
         sbind (audit_mfa_login env rq ''login_failure'' 401 (Some u) (Some ''invalid_backup_code'')
           (Some ''backup_code'')) (\<lambda>_. throw (http 401 ''Invalid backup code.'')))))"

definition or_empty :: "string option \<Rightarrow> string" where
  "or_empty x = (case x of None \<Rightarrow> [] | Some s \<Rightarrow> s)"

definition two_factor_login ::
    "'t auth_env \<Rightarrow> int \<Rightarrow> http_request \<Rightarrow> 't \<Rightarrow> string option \<Rightarrow> string option
      \<Rightarrow> 't token_response serve" where
  "two_factor_login env now rq mfa_token code backup_code = transaction (
     let has_code = (or_empty code \<noteq> []); has_backup = (or_empty backup_code \<noteq> []) in
     if has_code = has_backup
     then throw (http 400 (''Provide exactly one of '' @ repr_str ''code'' @ '' or '' @ repr_str ''backup_code'' @ ''.''))
     else sbind (lift_res (claims_or bad_challenge
         (decode_mfa_challenge_token (en_jose env) (jwt env) now mfa_token)))
     (\<lambda>(payload, user_id, token_version, jti).
     sbind (is_token_revoked jti) (\<lambda>revoked.
     if revoked
     then sbind (audit_mfa_login env rq ''login_failure'' 401 None (Some ''challenge_revoked'') None)
       (\<lambda>_. throw bad_challenge)
     else sbind (db_gets (find_user user_id)) (\<lambda>user. case user of
       None \<Rightarrow> throw bad_challenge
     | Some u \<Rightarrow>
       if \<not> us_is_active u then throw bad_challenge
       else if us_token_version u \<noteq> token_version then throw bad_challenge
       else if \<not> us_totp_enabled u then throw bad_challenge
       else let mfa_key = ''mfa:'' @ uuid_str (us_id u) in
       sbind (mfa_limited mfa_key now) (\<lambda>limited.
       if limited
       then sbind (audit_mfa_login env rq ''login_failure'' 429 (Some u) (Some ''mfa_rate_limited'') None)
         (\<lambda>_. throw (http 429 ''Too many 2FA attempts. Try again later.''))
       else sbind (check_factor env now rq mfa_key u has_code (or_empty code) (or_empty backup_code))
       (\<lambda>factor. sbind (mfa_cleared mfa_key) (\<lambda>_.
       sbind (revoke_token env jti (Some (us_id u)) (token_exp_as_datetime payload)
         (Some ''mfa_challenge_consumed'')) (\<lambda>_.
       sbind (mint_access env now u) (\<lambda>access.
       sbind (mint_refresh env now u) (\<lambda>refresh.
       sbind (audit_mfa_login env rq ''login_success'' 200 (Some u) None (Some factor)) (\<lambda>_.
       ret \<lparr>tr_access_token = Some access, tr_token_type = ''bearer'',
         tr_refresh_token = Some refresh, tr_mfa_required = False, tr_mfa_token = None\<rparr>)))))))))))"

end
