(* ===== verification/AuthRuns.thy ===== *)
theory AuthRuns
  imports AuthRoutes
begin

text \<open>
  The authentication routes as a state machine: a request is one step of the server, a run is a
  sequence of requests in the order of the clock.  The safety properties of the subsystem hold in
  every state a run reaches: what was revoked stays revoked, what was used stays used, and every
  authentication path judges a token the same way.
\<close>

section \<open>Steps and runs\<close>

datatype 't auth_request =
    Login http_request string string
  | Refresh 't
  | Logout http_request "'t credentials"
  | LogoutAll http_request "'t credentials"
  | ResetRequest http_request string
  | ResetConfirm http_request string string
  | Setup2fa "'t credentials"
  | Enable2fa http_request "'t credentials" string
  | Disable2fa http_request "'t credentials" string
  | Login2fa http_request 't "string option" "string option"

fun serve_request :: "'t auth_env \<Rightarrow> int \<Rightarrow> 't auth_request \<Rightarrow> server \<Rightarrow> server" where
  "serve_request env now (Login rq email password) s =
     snd (login env now (Some (builtin_login env now)) rq email password s)"
| "serve_request env now (Refresh token) s = snd (refresh env now token s)"
| "serve_request env now (Logout rq cred) s = snd (logout env now rq cred s)"
| "serve_request env now (LogoutAll rq cred) s = snd (logout_all env now rq cred s)"
| "serve_request env now (ResetRequest rq email) s = snd (password_reset_request env now rq email s)"
| "serve_request env now (ResetConfirm rq token pw) s =
     snd (password_reset_confirm env now rq token pw s)"
| "serve_request env now (Setup2fa cred) s = snd (two_factor_setup env now cred s)"
| "serve_request env now (Enable2fa rq cred code) s = snd (two_factor_enable env now rq cred code s)"
| "serve_request env now (Disable2fa rq cred code) s = snd (two_factor_disable env now rq cred code s)"
| "serve_request env now (Login2fa rq token code backup) s =
     snd (two_factor_login env now rq token code backup s)"

inductive auth_reach :: "'t auth_env \<Rightarrow> server \<Rightarrow> int \<Rightarrow> server \<Rightarrow> int \<Rightarrow> bool" for env where
  start: "auth_reach env s t s t"
| request: "auth_reach env s t s' t' \<Longrightarrow> t' \<le> now \<Longrightarrow> auth_reach env s t (serve_request env now rq s') now"

inductive_cases auth_reachE: "auth_reach env s t s' t'"

section \<open>Every request climbs\<close>

lemma climbs_current_user [climbs_intros]: "climbs (get_current_user env now cred)"
  unfolding get_current_user_def by (intro climbs_intros)

lemma climbs_mint [climbs_intros]: "climbs (mint_access env now u)" "climbs (mint_refresh env now u)"
  unfolding mint_access_def mint_refresh_def by (intro climbs_intros)+

lemma climbs_audits [climbs_intros]:
  "climbs (audit_login env rq action code email actor reason)"
  "climbs (audit_mfa_login env rq action code user reason factor)"
  unfolding audit_login_def audit_mfa_login_def Let_def by (intro climbs_intros)+

lemma sv_db_set_limiter [simp]:
  "sv_db (set_login_limiter l s) = sv_db s" "sv_db (set_mfa_limiter l s) = sv_db s"
  by (simp_all add: set_login_limiter_def set_mfa_limiter_def split: option.split)

lemma climbs_limiters [climbs_intros]:
  "climbs (login_limited key now)" "climbs (login_failed key now)" "climbs (login_cleared key)"
  "climbs (mfa_limited key now)" "climbs (mfa_failed key now)" "climbs (mfa_cleared key)"
  "climbs (reset_limited key now)" "climbs (reset_counted key now)"
  by (auto simp: climbs_def login_limited_def login_failed_def login_cleared_def mfa_limited_def
      mfa_failed_def mfa_cleared_def reset_limited_def reset_counted_def split: prod.split option.split)

lemma climbs_save_user [climbs_intros]:
  assumes "\<And>u. us_id (f u) = us_id u" and "\<And>u. us_token_version u \<le> us_token_version (f u)"
  shows "climbs (save_user env u f)"
  unfolding save_user_def by (intro climbs_intros climbs_db_modify no_less_set_user assms)

lemma climbs_login [climbs_intros]:
  "climbs (login env now (Some (builtin_login env now)) rq email password)"
proof -
  have "climbs (builtin_login env now email password)"
    unfolding builtin_login_def by (intro climbs_intros)
  moreover have "climbs (login_succeeded env now rq email sess)" for sess
    unfolding login_succeeded_def user_for_mfa_def Let_def by (intro climbs_intros)
  ultimately show ?thesis
    unfolding login_def Let_def option.case by (intro climbs_intros)
qed

lemma climbs_refresh [climbs_intros]: "climbs (refresh env now token)"
  unfolding refresh_def by (intro climbs_intros)

lemma climbs_logout [climbs_intros]: "climbs (logout env now rq cred)"
  unfolding logout_def by (intro climbs_intros)

lemma climbs_logout_all [climbs_intros]: "climbs (logout_all env now rq cred)"
  unfolding logout_all_def by (intro climbs_intros) (simp_all add: bump_version_def)

lemma climbs_reset_request [climbs_intros]: "climbs (password_reset_request env now rq email)"
  unfolding password_reset_request_def Let_def by (intro climbs_intros climbs_modify) simp

lemma climbs_reset_confirm [climbs_intros]: "climbs (password_reset_confirm env now rq token pw)"
  unfolding password_reset_confirm_def by (intro climbs_intros) (simp_all add: bump_version_def)

lemma climbs_two_factor [climbs_intros]:
  "climbs (two_factor_setup env now cred)" "climbs (two_factor_enable env now rq cred code)"
  "climbs (two_factor_disable env now rq cred code)"
  "climbs (two_factor_login env now rq token ocode backup)"
  unfolding two_factor_setup_def two_factor_enable_def two_factor_disable_def two_factor_login_def
    check_factor_def Let_def
  by (intro climbs_intros; simp)+

lemma climbs_request: "no_less (sv_db s) (sv_db (serve_request env now rq s))"
proof -
  have "no_less (sv_db s) (sv_db (snd (m s)))" if "climbs m" for m :: "'a serve"
    using that by (simp add: climbs_def)
  then show ?thesis by (cases rq) (simp_all add: climbs_intros [unfolded climbs_def])
qed

lemma reach_no_less: "auth_reach env s t s' t' \<Longrightarrow> no_less (sv_db s) (sv_db s') \<and> t \<le> t'"
  by (induction rule: auth_reach.induct) (auto intro: no_less_trans climbs_request)

lemma no_less_revoked: "no_less db db' \<Longrightarrow> jti \<in> rv_jti ` set (db_revoked db) \<Longrightarrow> jti \<in> rv_jti ` set (db_revoked db')"
  by (auto simp: no_less_def)

section \<open>Judging a token\<close>

text \<open>What makes a token with these claims acceptable in a state of the tables.\<close>

definition live_token :: "account_db \<Rightarrow> nat \<Rightarrow> int \<Rightarrow> string \<Rightarrow> user \<Rightarrow> bool" where
  "live_token db user_id version jti u \<longleftrightarrow>
     \<not> (jti \<noteq> [] \<and> jti \<in> rv_jti ` set (db_revoked db))
     \<and> find_user user_id db = Some u \<and> us_is_active u \<and> us_token_version u = version"

lemma claims_or_Inr: "claims_or e r = Inr x \<longleftrightarrow> token_claims r = Inr x"
    "Inr x = claims_or e r \<longleftrightarrow> token_claims r = Inr x"
  by (auto simp: claims_or_def split: sum.splits)

lemma is_token_revoked_run [simp]:
  "is_token_revoked jti s = (Inr (jti \<noteq> [] \<and> jti \<in> rv_jti ` set (db_revoked (sv_db s))), s)"
  by (simp add: is_token_revoked_def db_gets_def gets_def)

lemma db_gets_run [simp]: "db_gets f s = (Inr (f (sv_db s)), s)"
  by (simp add: db_gets_def gets_def)

lemma current_user_Inr:
  "get_current_user env now cred s = (Inr (u, p, i), s') \<longleftrightarrow>
     (\<exists>scheme token user_id version jti. cred = Some (scheme, token) \<and> lower scheme = ''bearer''
        \<and> token_claims (decode_access_token (en_jose env) (jwt env) True now token)
          = Inr (p, user_id, version, jti)
        \<and> live_token (sv_db s) user_id version jti u \<and> i = is_impersonation_token p \<and> s' = s)"
  unfolding get_current_user_def live_token_def
  by (cases cred) (auto simp: res_simps claims_or_Inr split: option.splits if_splits)

lemma authenticate_Inr:
  "authenticate_request env now cred s = (Inr (Some (ident, p)), s') \<longleftrightarrow>
     (\<exists>scheme token user_id version jti u. cred = Some (scheme, token) \<and> lower scheme = ''bearer''
        \<and> token_claims (decode_access_token (en_jose env) (jwt env) True now token)
          = Inr (p, user_id, version, jti)
        \<and> \<not> (jti \<noteq> [] \<and> jti \<in> rv_jti ` set (db_revoked (sv_db s)))
        \<and> find_user user_id (sv_db s) = Some u \<and> us_token_version u = version
        \<and> ident = uuid_str user_id \<and> s' = s)"
  unfolding authenticate_request_def
  by (cases cred) (auto simp: res_simps claims_or_Inr split: option.splits if_splits)

lemma get_by_id_Inr:
  "i < 2 ^ 128 \<Longrightarrow> get_by_id (uuid_str i) s = (Inr (Some pr), s') \<longleftrightarrow>
     (\<exists>u. find_user i (sv_db s) = Some u \<and> us_is_active u \<and> pr = user_principal u \<and> s' = s)"
  by (auto simp: get_by_id_def uuid_parse_str res_simps split: option.splits if_splits)

lemma transaction_Inr: "transaction m s = (Inr x, s') \<longleftrightarrow> m s = (Inr x, s')"
  by (auto simp: transaction_def split: prod.splits sum.splits)

lemma isr_run: "isr (fst r) \<longleftrightarrow> (\<exists>x s'. r = (Inr x, s'))"
  by (cases r) (auto simp: isr_iff)

lemma refresh_live:
  assumes "isr (fst (refresh env now token s))"
  shows "\<exists>p user_id version jti u. token_claims (decode_refresh_token (en_jose env) (jwt env) now token)
      = Inr (p, user_id, version, jti) \<and> live_token (sv_db s) user_id version jti u"
  using assms unfolding refresh_def live_token_def isr_run transaction_Inr
  by (auto simp: res_simps claims_or_Inr split: option.splits if_splits)

lemma two_factor_login_live:
  assumes "isr (fst (two_factor_login env now rq token ocode backup s))"
  shows "\<exists>p user_id version jti u.
      token_claims (decode_mfa_challenge_token (en_jose env) (jwt env) now token)
        = Inr (p, user_id, version, jti) \<and> live_token (sv_db s) user_id version jti u"
  using assms unfolding two_factor_login_def live_token_def isr_run transaction_Inr Let_def
  by (auto simp: res_simps claims_or_Inr split: option.splits if_splits)

section \<open>Properties\<close>

text \<open>A token no path accepts in a state, whatever the clock says.\<close>

definition refused :: "'t auth_env \<Rightarrow> server \<Rightarrow> 't \<Rightarrow> bool" where
  "refused env s token \<longleftrightarrow> (\<forall>now scheme rq code backup.
     \<not> isr (fst (get_current_user env now (Some (scheme, token)) s))
     \<and> (\<forall>x. fst (authenticate_request env now (Some (scheme, token)) s) \<noteq> Inr (Some x))
     \<and> \<not> isr (fst (refresh env now token s))
     \<and> \<not> isr (fst (two_factor_login env now rq token code backup s)))"

text \<open>The claims of a token are its own: whenever the library decodes it, it gives the same
  payload.\<close>

definition jose_stable :: "'t jose \<Rightarrow> bool" where
  "jose_stable j = (\<forall>now now' token key algs iss aud options payload.
     jwt_decode j now token key algs iss aud options = Some payload
     \<longrightarrow> jwt_decode j now' token key algs iss aud options \<in> {None, Some payload})"

definition carries :: "'t auth_env \<Rightarrow> 't \<Rightarrow> row \<Rightarrow> bool" where
  "carries env token p \<longleftrightarrow> (\<forall>now p'. decode_token (en_jose env) (jwt env) now token = Inr p' \<longrightarrow> p' = p)"

lemma stable_carries:
  assumes "jose_stable (en_jose env)" and "decode_token (en_jose env) (jwt env) now token = Inr p"
  shows "carries env token p"
  unfolding carries_def
proof (intro allI impI)
  fix now' p'
  assume p': "decode_token (en_jose env) (jwt env) now' token = Inr p'"
  let ?d = "\<lambda>now. jwt_decode (en_jose env) now token (js_secret_key (jwt env)) [js_algorithm (jwt env)]
     (js_issuer (jwt env)) (js_audience (jwt env)) (decode_options (jwt env))"
  have "?d now = Some p" "?d now' = Some p'"
    using assms(2) p' by (auto simp: decode_token_def split: option.splits)
  moreover have "?d now = Some p \<longrightarrow> ?d now' \<in> {None, Some p}"
    using assms(1) unfolding jose_stable_def by blast
  ultimately show "p' = p" by simp
qed

lemma decoded_carried:
  assumes "carries env token p"
  shows "token_claims (decode_access_token (en_jose env) (jwt env) b now token) = Inr (p', x) \<Longrightarrow> p' = p"
    and "token_claims (decode_refresh_token (en_jose env) (jwt env) now token) = Inr (p', x) \<Longrightarrow> p' = p"
    and "token_claims (decode_mfa_challenge_token (en_jose env) (jwt env) now token) = Inr (p', x) \<Longrightarrow> p' = p"
  using assms by (cases x; auto simp: carries_def token_claims_Inr decode_access_Inr decode_typed_Inr
      decode_refresh_token_def decode_mfa_challenge_token_def)+

lemma refusedI:
  assumes c: "carries env token p"
    and dead: "\<And>user_id version jti. get_subject_user_id p = Inr user_id \<Longrightarrow>
       get_token_version p = Inr version \<Longrightarrow> get_token_jti p = Inr jti \<Longrightarrow>
       (jti \<noteq> [] \<and> jti \<in> rv_jti ` set (db_revoked (sv_db s)))
       \<or> (\<forall>u. find_user user_id (sv_db s) = Some u \<longrightarrow> us_token_version u \<noteq> version)"
  shows "refused env s token"
  unfolding refused_def
proof (intro allI conjI)
  fix now scheme rq code backup x
  note simps = token_claims_Inr live_token_def
  show "\<not> isr (fst (get_current_user env now (Some (scheme, token)) s))"
  proof
    assume "isr (fst (get_current_user env now (Some (scheme, token)) s))"
    then obtain u p' i s' where "get_current_user env now (Some (scheme, token)) s = (Inr (u, p', i), s')"
      by (auto simp: isr_run)
    then show False
      using dead decoded_carried(1) [OF c] by (fastforce simp: current_user_Inr simps)
  qed
  show "fst (authenticate_request env now (Some (scheme, token)) s) \<noteq> Inr (Some x)"
  proof
    assume "fst (authenticate_request env now (Some (scheme, token)) s) = Inr (Some x)"
    then obtain ident p' s' where "authenticate_request env now (Some (scheme, token)) s = (Inr (Some (ident, p')), s')"
      by (metis prod.collapse)
    then show False
      using dead decoded_carried(1) [OF c] by (fastforce simp: authenticate_Inr simps)
  qed
  show "\<not> isr (fst (refresh env now token s))"
  proof
    assume "isr (fst (refresh env now token s))"
    from refresh_live [OF this] show False
      using dead decoded_carried(2) [OF c] by (fastforce simp: simps)
  qed
  show "\<not> isr (fst (two_factor_login env now rq token code backup s))"
  proof
    assume "isr (fst (two_factor_login env now rq token code backup s))"
    from two_factor_login_live [OF this] show False
      using dead decoded_carried(3) [OF c] by (fastforce simp: simps)
  qed
qed

lemma revoked_refused:
  assumes "carries env token p" and "get_token_jti p = Inr jti" and "jti \<noteq> []"
    and "jti \<in> rv_jti ` set (db_revoked (sv_db s))" and "auth_reach env s t s' t'"
  shows "refused env s' token"
  using no_less_revoked [OF conjunct1 [OF reach_no_less [OF assms(5)]] assms(4)] assms(2,3)
  by (intro refusedI [OF assms(1)]) auto

lemma no_less_version: "no_less db db' \<Longrightarrow> find_user i db = Some u \<Longrightarrow>
    \<exists>u'. find_user i db' = Some u' \<and> us_token_version u \<le> us_token_version u'"
  unfolding no_less_def by blast

lemma stale_refused:
  assumes "carries env token p" and "get_subject_user_id p = Inr user_id"
    and "get_token_version p = Inr version"
    and "find_user user_id (sv_db s) = Some u" and "version < us_token_version u"
    and "auth_reach env s t s' t'"
  shows "refused env s' token"
proof -
  obtain u' where "find_user user_id (sv_db s') = Some u'" "us_token_version u \<le> us_token_version u'"
    using no_less_version [OF conjunct1 [OF reach_no_less [OF assms(6)]] assms(4)] by blast
  then show ?thesis using assms(2,3,5) by (intro refusedI [OF assms(1)]) auto
qed

lemma jti_not_empty: "get_token_jti p = Inr jti \<Longrightarrow> getattr p ''jti'' = VStr j \<Longrightarrow> jti \<noteq> []"
  by (auto simp: get_token_jti_def Let_def split: if_splits)

lemma revoke_token_revokes:
  "revoke_token env jti u x r s = (Inr b, s') \<Longrightarrow> jti \<noteq> [] \<Longrightarrow> jti \<in> rv_jti ` set (db_revoked (sv_db s'))"
  by (auto simp: revoke_token_def db_modify_def db_flush_def res_simps split: if_splits option.splits)

lemma climbs_revoked: "climbs m \<Longrightarrow> m s = (r, s') \<Longrightarrow> jti \<in> rv_jti ` set (db_revoked (sv_db s))
    \<Longrightarrow> jti \<in> rv_jti ` set (db_revoked (sv_db s'))"
  unfolding climbs_def by (metis no_less_revoked snd_conv)

lemma refresh_revokes:
  assumes "refresh env now token s = (Inr resp, s')"
  shows "\<exists>p user_id version jti.
    token_claims (decode_refresh_token (en_jose env) (jwt env) now token) = Inr (p, user_id, version, jti)
    \<and> (jti \<noteq> [] \<longrightarrow> jti \<in> rv_jti ` set (db_revoked (sv_db s')))"
  using assms unfolding refresh_def transaction_Inr
  by (auto simp: res_simps claims_or_Inr split: option.splits if_splits)
    (metis climbs_mint climbs_revoked revoke_token_revokes)+

lemma logout_revokes:
  assumes "logout env now rq (Some (scheme, token)) s = (Inr resp, s')"
  shows "\<exists>p user_id version jti.
    token_claims (decode_access_token (en_jose env) (jwt env) True now token) = Inr (p, user_id, version, jti)
    \<and> (jti \<noteq> [] \<longrightarrow> jti \<in> rv_jti ` set (db_revoked (sv_db s')))"
proof -
  from assms obtain u p i jti s1 s2 b x where cu: "get_current_user env now (Some (scheme, token)) s = (Inr (u, p, i), s1)"
    and jti: "get_token_jti p = Inr jti"
    and rv: "revoke_token env jti (Some (us_id u)) (token_exp_as_datetime p) (Some ''logout'') s1 = (Inr b, s2)"
    and au: "audit_in_session env (request_audit_kwargs rq 200 ''logout'' (Some (user_principal u))
       (Some [(''jti'', VStr jti), (''newly_revoked'', VBool b)])) s2 = (x, s')"
    unfolding logout_def transaction_Inr by (auto simp: res_simps eq_commute [of "Inr _" "get_token_jti _"])
  have "jti \<noteq> [] \<Longrightarrow> jti \<in> rv_jti ` set (db_revoked (sv_db s'))"
    using climbs_revoked [OF climbs_audit(1) au revoke_token_revokes [OF rv]] .
  moreover obtain user_id version jti' where "token_claims (decode_access_token (en_jose env) (jwt env) True now token)
      = Inr (p, user_id, version, jti')"
    using cu by (auto simp: current_user_Inr)
  ultimately show ?thesis using jti by (auto simp: token_claims_Inr)
qed

lemma two_factor_login_revokes:
  assumes "two_factor_login env now rq token code backup s = (Inr resp, s')"
  shows "\<exists>p user_id version jti.
    token_claims (decode_mfa_challenge_token (en_jose env) (jwt env) now token) = Inr (p, user_id, version, jti)
    \<and> (jti \<noteq> [] \<longrightarrow> jti \<in> rv_jti ` set (db_revoked (sv_db s')))"
proof -
  from assms obtain p user_id version jti u s1 s2 s3 s4 b a r f where
    cl: "token_claims (decode_mfa_challenge_token (en_jose env) (jwt env) now token) = Inr (p, user_id, version, jti)"
    and rv: "revoke_token env jti (Some (us_id u)) (token_exp_as_datetime p)
       (Some ''mfa_challenge_consumed'') s1 = (Inr b, s2)"
    and rest: "mint_access env now u s2 = (Inr a, s3)" "mint_refresh env now u s3 = (Inr r, s4)"
      "audit_mfa_login env rq ''login_success'' 200 (Some u) None (Some f) s4 = (Inr (), s')"
    unfolding two_factor_login_def transaction_Inr Let_def
    by (auto simp: res_simps claims_or_Inr split: option.splits if_splits) blast+
  have "jti \<noteq> [] \<Longrightarrow> jti \<in> rv_jti ` set (db_revoked (sv_db s'))"
    using climbs_revoked [OF climbs_audits(2) rest(3) climbs_revoked [OF climbs_mint(2) rest(2)
        climbs_revoked [OF climbs_mint(1) rest(1) revoke_token_revokes [OF rv]]]] .
  with cl show ?thesis by blast
qed

text \<open>C40: the dependency \<open>get_current_user\<close> and the pair of built-in providers admit exactly the
  same requests: one returns a user with a payload exactly when the other two return that user's
  identity with the same payload.\<close>

theorem authentication_paths_agree:
  "(\<exists>u. fst (get_current_user env now cred s) = Inr (u, p, is_impersonation_token p)
        \<and> user_principal u = pr)
   \<longleftrightarrow> (\<exists>ident. fst (authenticate_request env now cred s) = Inr (Some (ident, p))
        \<and> fst (get_by_id ident s) = Inr (Some pr))"
proof -
  have fst_eq: "fst r = y \<longleftrightarrow> (\<exists>s'. r = (y, s'))" for r :: "'b \<times> server" and y
    by (cases r) simp
  show ?thesis
    unfolding fst_eq current_user_Inr authenticate_Inr live_token_def
    using subject_bound by (auto simp: token_claims_Inr get_by_id_Inr)
qed

text \<open>C36: a token that was used up stays used up.  Once a refresh token has been exchanged, an
  access token logged out, or a second-factor challenge answered, no path accepts that token in
  any state the server reaches by any sequence of later requests, at any time.\<close>

theorem spent_tokens_stay_spent:
  assumes "jose_stable (en_jose env)"
    and "isr (fst (refresh env now token s)) \<and> s1 = snd (refresh env now token s)
      \<or> isr (fst (logout env now rq (Some (scheme, token)) s))
          \<and> s1 = snd (logout env now rq (Some (scheme, token)) s)
      \<or> isr (fst (two_factor_login env now rq token code backup s))
          \<and> s1 = snd (two_factor_login env now rq token code backup s)"
    and "\<And>p. decode_token (en_jose env) (jwt env) now token = Inr p \<Longrightarrow> \<exists>u. getattr p ''jti'' = VStr u"
    and "auth_reach env s1 now s' now'"
  shows "refused env s' token"
proof -
  have "\<exists>p jti. decode_token (en_jose env) (jwt env) now token = Inr p \<and> get_token_jti p = Inr jti
      \<and> (jti \<noteq> [] \<longrightarrow> jti \<in> rv_jti ` set (db_revoked (sv_db s1)))"
    using assms(2) unfolding isr_run
    by (elim disjE conjE exE)
      (auto simp: token_claims_Inr decode_access_Inr decode_typed_Inr decode_refresh_token_def
        decode_mfa_challenge_token_def dest!: refresh_revokes logout_revokes two_factor_login_revokes)
  then obtain p jti where p: "decode_token (en_jose env) (jwt env) now token = Inr p"
      "get_token_jti p = Inr jti" "jti \<noteq> [] \<longrightarrow> jti \<in> rv_jti ` set (db_revoked (sv_db s1))" by blast
  with assms(3) have "jti \<noteq> []" using jti_not_empty by blast
  with p show ?thesis
    using revoked_refused [OF stable_carries [OF assms(1) p(1)] p(2) _ _ assms(4)] by blast
qed


lemma find_holds: "find P xs = Some x \<Longrightarrow> P x"
  by (auto simp: find_Some_iff)

lemma find_user_id: "find_user i db = Some u \<Longrightarrow> us_id u = i"
  by (auto simp: find_user_def find_Some_iff)

lemma save_user_stored:
  assumes "save_user env u f s = (Inr u', s')" and "\<And>u. us_id (f u) = us_id u"
    and "find_user (us_id u) (sv_db s) = Some v"
  shows "u' = f u \<and> find_user (us_id u) (sv_db s') = Some (f v)"
  using assms find_user_id [OF assms(3)]
  by (auto simp: save_user_def db_modify_def db_flush_def res_simps find_user_set_user split: option.splits)

lemma audit_in_session_user:
  "audit_in_session env kw s = (r, s') \<Longrightarrow> find_user i (sv_db s') = find_user i (sv_db s)"
  by (auto simp: audit_in_session_def Let_def find_user_def split: option.splits)

lemma logout_all_bumps:
  assumes "get_current_user env now cred s = (Inr (u, p, i), s0)"
    and "logout_all env now rq cred s = (Inr m, s')"
  shows "find_user (us_id u) (sv_db s) = Some u
    \<and> find_user (us_id u) (sv_db s') = Some (bump_version u)"
proof -
  have u: "find_user (us_id u) (sv_db s) = Some u" and s0: "s0 = s"
    using assms(1) by (auto simp: current_user_Inr live_token_def dest: find_user_id)
  from assms obtain u' s1 r where sv: "save_user env u bump_version s = (Inr u', s1)"
    and au: "audit_in_session env (request_audit_kwargs rq 200 ''logout_all''
       (Some (user_principal u')) (Some [(''bumped_to'', VInt (us_token_version u'))])) s1 = (r, s')"
    unfolding logout_all_def transaction_Inr s0 by (auto simp: res_simps)
  show ?thesis
    using u save_user_stored [OF sv _ u] audit_in_session_user [OF au] by (simp add: bump_version_def)
qed

lemma consume_reset_Inr:
  "consume_password_reset env now raw s = (Inr (Some u), s') \<longleftrightarrow>
     (\<exists>r. find (\<lambda>r. rs_token_hash r = hash_token env raw) (db_resets (sv_db s)) = Some r
        \<and> rs_used_at r = None \<and> now \<le> rs_expires_at r
        \<and> find_user (rs_user_id r) (sv_db s) = Some u
        \<and> s' = s\<lparr>sv_db := (sv_db s)\<lparr>db_resets := map (\<lambda>r.
             if rs_token_hash r = hash_token env raw then r\<lparr>rs_used_at := Some now\<rparr> else r)
             (db_resets (sv_db s))\<rparr>\<rparr> \<and> en_flush env (sv_db s') = None)"
  by (auto simp: consume_password_reset_def db_modify_def db_flush_def res_simps
      split: option.splits if_splits)

lemma reset_confirm_steps:
  assumes "password_reset_confirm env now rq raw pw s = (Inr m, s')"
  shows "\<exists>u r hashed. find (\<lambda>r. rs_token_hash r = hash_token env raw) (db_resets (sv_db s)) = Some r
    \<and> rs_used_at r = None \<and> now \<le> rs_expires_at r \<and> find_user (rs_user_id r) (sv_db s) = Some u
    \<and> find_user (us_id u) (sv_db s')
        = Some (bump_version (u\<lparr>us_hashed_password := hashed, us_is_active := True\<rparr>))
    \<and> (\<exists>r'. find (\<lambda>r. rs_token_hash r = hash_token env raw) (db_resets (sv_db s')) = Some r'
        \<and> rs_used_at r' \<noteq> None)"
proof -
  from assms obtain u s1 s2 s3 hashed u' x where co: "consume_password_reset env now raw s = (Inr (Some u), s1)"
    and dr: "draw (\<lambda>salt. hash_password (en_crypto env) salt pw) s1 = (Inr hashed, s2)"
    and sv: "save_user env u (\<lambda>u. bump_version (u\<lparr>us_hashed_password := hashed, us_is_active := True\<rparr>)) s2
      = (Inr u', s3)"
    and au: "audit_in_session env (request_audit_kwargs rq 200 ''password_reset_confirm''
         (Some (user_principal u')) (Some [(''bumped_to'', VInt (us_token_version u'))])) s3 = (x, s')"
    unfolding password_reset_confirm_def transaction_Inr
    by (auto simp: res_simps split: option.splits)
  from co [unfolded consume_reset_Inr] obtain r where
    r: "find (\<lambda>r. rs_token_hash r = hash_token env raw) (db_resets (sv_db s)) = Some r"
      "rs_used_at r = None" "now \<le> rs_expires_at r" "find_user (rs_user_id r) (sv_db s) = Some u"
    and s1: "s1 = s\<lparr>sv_db := (sv_db s)\<lparr>db_resets := map (\<lambda>r.
             if rs_token_hash r = hash_token env raw then r\<lparr>rs_used_at := Some now\<rparr> else r)
             (db_resets (sv_db s))\<rparr>\<rparr>" by auto
  have "find_user (us_id u) (sv_db s2) = Some u"
    using r(4) s1 dr find_user_id [OF r(4)] by (auto simp: draw_def find_user_def)
  then have "find_user (us_id u) (sv_db s3)
      = Some (bump_version (u\<lparr>us_hashed_password := hashed, us_is_active := True\<rparr>))"
    using save_user_stored [OF sv] by (simp add: bump_version_def)
  then have user: "find_user (us_id u) (sv_db s')
      = Some (bump_version (u\<lparr>us_hashed_password := hashed, us_is_active := True\<rparr>))"
    using audit_in_session_user [OF au] by simp
  have "find (\<lambda>r. rs_token_hash r = hash_token env raw) (db_resets (sv_db s'))
      = Some (r\<lparr>rs_used_at := Some now\<rparr>)"
  proof -
    have "db_resets (sv_db s') = db_resets (sv_db s1)"
      using dr sv au by (auto simp: draw_def save_user_def db_modify_def db_flush_def set_user_def
          audit_in_session_def Let_def res_simps split: option.splits)
    then show ?thesis
      using r(1) find_holds [OF r(1)] unfolding s1 by (simp add: find_map_same)
  qed
  with r user show ?thesis by auto
qed

text \<open>C37: signing out everywhere, or completing a password reset, ends every older session: no
  token of the user minted at or before the version it had then is accepted on any path in any
  state the server reaches afterwards.\<close>

theorem older_sessions_end:
  assumes "jose_stable (en_jose env)"
    and "fst (get_current_user env now cred s) = Inr (u, q, i)
          \<and> isr (fst (logout_all env now rq cred s)) \<and> s1 = snd (logout_all env now rq cred s)
      \<or> fst (consume_password_reset env now raw s) = Inr (Some u)
          \<and> isr (fst (password_reset_confirm env now rq raw pw s))
          \<and> s1 = snd (password_reset_confirm env now rq raw pw s)"
    and "decode_token (en_jose env) (jwt env) t0 token = Inr p"
    and "get_subject_user_id p = Inr (us_id u)" and "get_token_version p = Inr version"
    and "version \<le> us_token_version u" and "auth_reach env s1 now s' now'"
  shows "refused env s' token"
proof -
  have "\<exists>v. find_user (us_id u) (sv_db s1) = Some v \<and> us_token_version u < us_token_version v"
    using assms(2)
  proof (elim disjE conjE)
    assume a: "fst (get_current_user env now cred s) = Inr (u, q, i)"
      "isr (fst (logout_all env now rq cred s))" "s1 = snd (logout_all env now rq cred s)"
    obtain s0 m where "get_current_user env now cred s = (Inr (u, q, i), s0)"
      "logout_all env now rq cred s = (Inr m, s1)" using a by (metis isr_run prod.collapse snd_conv)
    from logout_all_bumps [OF this] show ?thesis by (auto simp: bump_version_def)
  next
    assume a: "fst (consume_password_reset env now raw s) = Inr (Some u)"
      "isr (fst (password_reset_confirm env now rq raw pw s))"
      "s1 = snd (password_reset_confirm env now rq raw pw s)"
    obtain s0 m where c: "consume_password_reset env now raw s = (Inr (Some u), s0)"
      and "password_reset_confirm env now rq raw pw s = (Inr m, s1)"
      using a by (metis isr_run prod.collapse snd_conv)
    from reset_confirm_steps [OF this(2)] c [unfolded consume_reset_Inr] show ?thesis
      by (auto simp: bump_version_def)
  qed
  then obtain v where "find_user (us_id u) (sv_db s1) = Some v" "version < us_token_version v"
    using assms(6) by auto
  then show ?thesis
    using stale_refused [OF stable_carries [OF assms(1,3)] assms(4,5) _ _ assms(7)] by blast
qed

text \<open>A password-reset token works at most once: after it has set a password, confirming with
  it again fails in every state the server reaches, and changes nothing in the tables.\<close>

theorem reset_token_single_use:
  assumes "isr (fst (password_reset_confirm env now rq raw pw s))"
    and "auth_reach env (snd (password_reset_confirm env now rq raw pw s)) now s' now'"
  shows "\<not> isr (fst (password_reset_confirm env now2 rq2 raw pw2 s'))
    \<and> sv_db (snd (password_reset_confirm env now2 rq2 raw pw2 s')) = sv_db s'"
proof -
  obtain m s1 where m: "password_reset_confirm env now rq raw pw s = (Inr m, s1)"
    using assms(1) by (auto simp: isr_run)
  from reset_confirm_steps [OF m] obtain r where
    "find (\<lambda>r. rs_token_hash r = hash_token env raw) (db_resets (sv_db s1)) = Some r" "rs_used_at r \<noteq> None"
    by blast
  moreover have "no_less (sv_db s1) (sv_db s')" using reach_no_less [OF assms(2)] m by simp
  ultimately obtain r' where r': "find (\<lambda>r. rs_token_hash r = hash_token env raw) (db_resets (sv_db s')) = Some r'"
    "rs_used_at r' \<noteq> None" unfolding no_less_def by blast
  have not: "\<not> isr (fst (password_reset_confirm env now2 rq2 raw pw2 s'))"
    using r' by (auto simp: isr_run dest: reset_confirm_steps)
  then show ?thesis
    by (auto simp: password_reset_confirm_def transaction_def split: prod.splits sum.splits)
qed

section \<open>A small server\<close>

definition demo_crypto :: crypto where
  "demo_crypto = \<lparr>cr_sha256 = (\<lambda>s. s), cr_sha256_hex = (\<lambda>s. s), cr_sha1_hex = (\<lambda>s. s),
     cr_b64encode = (\<lambda>s. s), cr_hashpw = (\<lambda>salt p. p), cr_checkpw = (\<lambda>p h. p = h),
     cr_totp_verify = (\<lambda>secret code now. code = ''123456''), cr_totp_uri = (\<lambda>secret a b. secret),
     cr_random_base32 = (\<lambda>n. ''SECRET''), cr_token_urlsafe = (\<lambda>n. ''raw''),
     cr_token_hex = (\<lambda>n. ''0a1b2c3d''), cr_uuid4 = (\<lambda>n. n)\<rparr>"

definition demo_auth :: "(row \<times> string \<times> string) auth_env" where
  "demo_auth = \<lparr>en_jose = plain_jose, en_crypto = demo_crypto,
     en_config = \<lparr>cf_jwt = demo_jwt, cf_app_title = ''asterion'', cf_access_token_expire_minutes = 60,
       cf_refresh_token_expire_minutes = 10080, cf_password_reset_token_expire_minutes = 30,
       cf_login_rate_limit_by_ip = False, cf_password_min_length = 8\<rparr>,
     en_policy = None, en_fetch = (\<lambda>prefix. Inr []), en_notifier = True,
     en_pii = \<lparr>pe_mode = PII_redact, pe_behavioral_detail = False, pe_registry = pii_init [],
       pe_sha256 = (\<lambda>s. s)\<rparr>, en_flush = (\<lambda>db. None)\<rparr>"

definition demo_user :: user where
  "demo_user = \<lparr>us_id = 42, us_email = ''a@b.c'', us_hashed_password = ''password'',
     us_full_name = None, us_is_active = True, us_is_superadmin = False, us_token_version = 3,
     us_password_login_disabled = False, us_totp_secret = None, us_totp_enabled = False\<rparr>"

definition demo_server :: "user \<Rightarrow> server" where
  "demo_server u = \<lparr>sv_db = \<lparr>db_users = [u], db_revoked = [], db_resets =
       [\<lparr>rs_token_hash = ''raw'', rs_user_id = 42, rs_expires_at = 1800, rs_used_at = None\<rparr>],
       db_codes = [], db_audit = []\<rparr>,
     sv_shared_limiter = None, sv_login_limiter = InMemoryLoginRateLimiter 5 900,
     sv_mfa_limiter = InMemoryLoginRateLimiter 5 900, sv_reset_limiter = None, sv_audit = [],
     sv_sent = [], sv_drawn = 1\<rparr>"

definition demo_refresh :: "row \<times> string \<times> string" where
  "demo_refresh = create_refresh_token plain_jose demo_jwt 0 7 42 60 3"

definition demo_access :: "row \<times> string \<times> string" where
  "demo_access = create_access_token plain_jose demo_jwt 0 7 42 60 3"

lemma plain_jose_stable: "jose_stable plain_jose"
  by (auto simp: jose_stable_def plain_jose_def split: pyval.splits)


lemmas run_defs = sbind_app transaction_def db_modify_def db_flush_def draw_def mint_access_def
  mint_refresh_def revoke_token_def save_user_def audit_in_session_def

lemma refresh_succeeds:
  assumes "token_claims (decode_refresh_token (en_jose env) (jwt env) now token) = Inr (p, i, v, jti)"
    and "live_token (sv_db s) i v jti u" and "\<And>db. en_flush env db = None"
  shows "isr (fst (refresh env now token s))"
  using assms by (simp add: refresh_def claims_or_def live_token_def run_defs proc_simps)

lemma current_user_succeeds:
  assumes "token_claims (decode_access_token (en_jose env) (jwt env) True now token) = Inr (p, i, v, jti)"
    and "live_token (sv_db s) i v jti u"
  shows "get_current_user env now (Some (''bearer'', token)) s = (Inr (u, p, is_impersonation_token p), s)"
proof -
  have "lower ''bearer'' = ''bearer''" by code_simp
  with assms show ?thesis by (auto simp: current_user_Inr)
qed

lemma logout_all_succeeds:
  assumes "get_current_user env now cred s = (Inr (u, p, b), s)" and "\<And>db. en_flush env db = None"
  shows "isr (fst (logout_all env now rq cred s))"
  using assms by (simp add: logout_all_def run_defs proc_simps Let_def)

lemma reset_confirm_succeeds:
  assumes "password_check env pw = Inr ()"
    and "consume_password_reset env now raw s = (Inr (Some u), s1)" and "\<And>db. en_flush env db = None"
  shows "isr (fst (password_reset_confirm env now rq raw pw s))"
  using assms by (simp add: password_reset_confirm_def run_defs proc_simps Let_def)

lemma demo_access_claims:
  "token_claims (decode_access_token (en_jose demo_auth) (jwt demo_auth) True 10 demo_access)
     = Inr (fst demo_access, 42, 3, uuid_str 7)"
  "decode_token (en_jose demo_auth) (jwt demo_auth) 10 demo_access = Inr (fst demo_access)"
  by code_simp+

lemma demo_refresh_claims:
  "token_claims (decode_refresh_token (en_jose demo_auth) (jwt demo_auth) 10 demo_refresh)
     = Inr (fst demo_refresh, 42, 3, uuid_str 7)"
  "decode_token (en_jose demo_auth) (jwt demo_auth) 10 demo_refresh = Inr (fst demo_refresh)"
  by code_simp+

lemma demo_live: "live_token (sv_db (demo_server demo_user)) 42 3 (uuid_str 7) demo_user"
  by code_simp

lemma demo_flush: "en_flush demo_auth db = None"
  by (simp add: demo_auth_def)

lemma demo_jose: "en_jose demo_auth = plain_jose"
  by (simp add: demo_auth_def)

lemma demo_current_user: "get_current_user demo_auth 10 (Some (''bearer'', demo_access)) (demo_server demo_user)
    = (Inr (demo_user, fst demo_access, False), demo_server demo_user)"
proof -
  have "\<not> is_impersonation_token (fst demo_access)" by code_simp
  then show ?thesis using current_user_succeeds [OF demo_access_claims(1) demo_live] by simp
qed

lemma spent_tokens_stay_spent_witness:
  "refused demo_auth (snd (refresh demo_auth 10 demo_refresh (demo_server demo_user))) demo_refresh"
proof (rule spent_tokens_stay_spent)
  show "jose_stable (en_jose demo_auth)" by (simp add: demo_jose plain_jose_stable)
  have "isr (fst (refresh demo_auth 10 demo_refresh (demo_server demo_user)))"
    by (rule refresh_succeeds [OF demo_refresh_claims(1) demo_live demo_flush])
  then show "isr (fst (refresh demo_auth 10 demo_refresh (demo_server demo_user)))
        \<and> snd (refresh demo_auth 10 demo_refresh (demo_server demo_user))
          = snd (refresh demo_auth 10 demo_refresh (demo_server demo_user))
      \<or> isr (fst (logout demo_auth 10 (proxied []) (Some ([], demo_refresh)) (demo_server demo_user)))
        \<and> snd (refresh demo_auth 10 demo_refresh (demo_server demo_user))
          = snd (logout demo_auth 10 (proxied []) (Some ([], demo_refresh)) (demo_server demo_user))
      \<or> isr (fst (two_factor_login demo_auth 10 (proxied []) demo_refresh None None (demo_server demo_user)))
        \<and> snd (refresh demo_auth 10 demo_refresh (demo_server demo_user))
          = snd (two_factor_login demo_auth 10 (proxied []) demo_refresh None None (demo_server demo_user))"
    by blast
  have "getattr (fst demo_refresh) ''jti'' = VStr (uuid_str 7)" by code_simp
  then show "\<exists>u. getattr p ''jti'' = VStr u"
    if "decode_token (en_jose demo_auth) (jwt demo_auth) 10 demo_refresh = Inr p" for p
    using that demo_refresh_claims(2) by auto
  show "auth_reach demo_auth (snd (refresh demo_auth 10 demo_refresh (demo_server demo_user))) 10
     (snd (refresh demo_auth 10 demo_refresh (demo_server demo_user))) 10"
    by (rule auth_reach.start)
qed

lemma older_sessions_end_witness:
  "refused demo_auth (snd (logout_all demo_auth 10 (proxied []) (Some (''bearer'', demo_access))
     (demo_server demo_user))) demo_refresh"
proof -
  have sub: "get_subject_user_id (fst demo_refresh) = Inr (us_id demo_user)"
    "get_token_version (fst demo_refresh) = Inr 3" "(3::int) \<le> us_token_version demo_user"
    by code_simp+
  have "isr (fst (logout_all demo_auth 10 (proxied []) (Some (''bearer'', demo_access)) (demo_server demo_user)))"
    by (rule logout_all_succeeds [OF demo_current_user demo_flush])
  then show ?thesis
    using older_sessions_end [OF _ _ demo_refresh_claims(2) sub auth_reach.start,
        where s = "demo_server demo_user" and now = 10 and cred = "Some (''bearer'', demo_access)"
          and q = "fst demo_access" and i = False and rq = "proxied []"]
    by (simp add: demo_jose plain_jose_stable demo_current_user)
qed

lemma demo_reset: "isr (fst (password_reset_confirm demo_auth 10 (proxied []) ''raw'' ''long enough'' (demo_server demo_user)))"
proof -
  have "isr (fst (consume_password_reset demo_auth 10 ''raw'' (demo_server demo_user)))
     \<and> fst (consume_password_reset demo_auth 10 ''raw'' (demo_server demo_user)) = Inr (Some demo_user)"
    "password_check demo_auth ''long enough'' = Inr ()" by code_simp+
  then show ?thesis
    using reset_confirm_succeeds [OF _ _ demo_flush, of "''long enough''" 10 "''raw''" "demo_server demo_user" demo_user]
    by (metis prod.collapse)
qed

lemma reset_token_single_use_witness:
  "\<not> isr (fst (password_reset_confirm demo_auth 20 (proxied []) ''raw'' ''long enough''
     (snd (password_reset_confirm demo_auth 10 (proxied []) ''raw'' ''long enough'' (demo_server demo_user)))))"
  using reset_token_single_use [OF demo_reset auth_reach.start] by blast

section \<open>What a sign-in takes\<close>

lemma mint_run:
  "mint_access env now u s = (Inr (create_access_token (en_jose env) (jwt env) now
      (cr_uuid4 (en_crypto env) (sv_drawn s)) (us_id u)
      (cf_access_token_expire_minutes (en_config env)) (us_token_version u)), s\<lparr>sv_drawn := Suc (sv_drawn s)\<rparr>)"
  "mint_refresh env now u s = (Inr (create_refresh_token (en_jose env) (jwt env) now
      (cr_uuid4 (en_crypto env) (sv_drawn s)) (us_id u)
      (cf_refresh_token_expire_minutes (en_config env)) (us_token_version u)), s\<lparr>sv_drawn := Suc (sv_drawn s)\<rparr>)"
  by (simp_all add: mint_access_def mint_refresh_def draw_def sbind_app proc_simps)

lemma audit_login_run: "audit_login env rq action code email actor reason s = (r, s') \<longleftrightarrow>
    r = Inr () \<and> s' = snd (audit_login env rq action code email actor reason s)"
  by (auto simp: audit_login_def audit_isolated_def modify_def)

lemma login_succeeded_Inr:
  assumes "fst (login_succeeded env now rq email sess s) = Inr r"
  shows "if \<exists>sub i u. as_subject sess = Some sub \<and> uuid_parse sub = Some i
            \<and> find_user i (sv_db s) = Some u \<and> us_totp_enabled u
         then tr_access_token r = None \<and> tr_refresh_token r = None \<and> tr_mfa_required r
         else tr_access_token r = Some (as_access_token sess)
            \<and> tr_refresh_token r = as_refresh_token sess \<and> \<not> tr_mfa_required r \<and> tr_mfa_token r = None"
proof -
  obtain s' where "login_succeeded env now rq email sess s = (Inr r, s')"
    using assms by (metis prod.collapse)
  then show ?thesis
    unfolding login_succeeded_def user_for_mfa_def Let_def
    by (auto simp: res_simps draw_def split: option.splits if_splits)
qed

text \<open>a password login that succeeds was not throttled, names an active account and its
  password, and gives tokens away only where that account has no second factor: with one, the
  answer is a challenge and neither an access nor a refresh token.\<close>

theorem password_login_outcome:
  assumes "fst (login env now (Some (builtin_login env now)) rq email password s) = Inr r"
    and "\<And>u. find_email email (sv_db s) = Some u \<Longrightarrow>
          us_id u < 2 ^ 128 \<and> find_user (us_id u) (sv_db s) = Some u"
  shows "\<not> fst (is_limited (login_limiter s) (limiter_key env rq email) now)
    \<and> (\<exists>u. find_email email (sv_db s) = Some u \<and> us_is_active u
         \<and> verify_password (en_crypto env) password (us_hashed_password u)
         \<and> (if us_totp_enabled u
            then tr_access_token r = None \<and> tr_refresh_token r = None \<and> tr_mfa_required r
            else tr_access_token r \<noteq> None \<and> tr_refresh_token r \<noteq> None \<and> \<not> tr_mfa_required r))"
proof -
  let ?key = "limiter_key env rq email"
  obtain s' where "login env now (Some (builtin_login env now)) rq email password s = (Inr r, s')"
    using assms(1) by (metis prod.collapse)
  then obtain s1 s2 s3 sess where lim: "login_limited ?key now s = (Inr False, s1)"
    and bl: "builtin_login env now email password s1 = (Inr (Inr sess), s2)"
    and cl: "login_cleared ?key s2 = (Inr (), s3)"
    and ls: "login_succeeded env now rq email sess s3 = (Inr r, s')"
    unfolding login_def transaction_Inr Let_def
    by (auto simp: res_simps split: sum.splits if_splits) (metis sum.exhaust)
  have nl: "\<not> fst (is_limited (login_limiter s) ?key now)" and db1: "sv_db s1 = sv_db s"
    using lim by (auto simp: login_limited_def split: prod.splits)
  from bl obtain u where u: "find_email email (sv_db s1) = Some u" "us_is_active u"
      "verify_password (en_crypto env) password (us_hashed_password u)"
    and sess: "as_subject sess = Some (uuid_str (us_id u))" "as_refresh_token sess \<noteq> None"
    and db2: "sv_db s2 = sv_db s1"
    unfolding builtin_login_def by (auto simp: res_simps mint_run split: option.splits if_splits)
  have db3: "sv_db s3 = sv_db s2" using cl by (auto simp: login_cleared_def)
  have id: "us_id u < 2 ^ 128" "find_user (us_id u) (sv_db s3) = Some u"
    using assms(2) u(1) db1 db2 db3 by auto
  have "fst (login_succeeded env now rq email sess s3) = Inr r" using ls by simp
  from login_succeeded_Inr [OF this] show ?thesis
    using nl u sess id db1 uuid_parse_str [OF id(1)] by (auto split: if_splits)
qed

lemma second_factor_passed:
  assumes "check_factor env now rq key u has_code code backup s = (Inr f, s')"
  shows "if has_code then verify_totp env now (us_totp_secret u) code
    else \<exists>c. filter (usable_code env (us_id u) backup) (db_codes (sv_db s)) = [c]"
  using assms unfolding check_factor_def consume_backup_code_def
  by (auto simp: res_simps split: if_splits list.splits)

text \<open>C39: the second step of a login gives tokens away only for a live challenge of an account
  that has a second factor, within the limit on attempts, and against a valid code or an unused
  backup code of that account, of which exactly one is given.\<close>

theorem second_factor_required:
  assumes "isr (fst (two_factor_login env now rq token code backup s))"
  shows "\<exists>p i v jti u. token_claims (decode_mfa_challenge_token (en_jose env) (jwt env) now token)
        = Inr (p, i, v, jti)
      \<and> live_token (sv_db s) i v jti u \<and> us_totp_enabled u
      \<and> \<not> fst (is_limited (mfa_limiter s) (''mfa:'' @ uuid_str (us_id u)) now)
      \<and> (if or_empty code \<noteq> []
         then or_empty backup = [] \<and> verify_totp env now (us_totp_secret u) (or_empty code)
         else \<exists>c. filter (usable_code env (us_id u) (or_empty backup)) (db_codes (sv_db s)) = [c])"
proof -
  obtain r s' where "two_factor_login env now rq token code backup s = (Inr r, s')"
    using assms by (auto simp: isr_run)
  then obtain p i v jti u s1 s2 f where
    one: "(or_empty code \<noteq> []) \<noteq> (or_empty backup \<noteq> [])"
    and cl: "token_claims (decode_mfa_challenge_token (en_jose env) (jwt env) now token) = Inr (p, i, v, jti)"
    and live: "live_token (sv_db s) i v jti u" "us_totp_enabled u"
    and lim: "mfa_limited (''mfa:'' @ uuid_str (us_id u)) now s = (Inr False, s1)"
    and cf: "check_factor env now rq (''mfa:'' @ uuid_str (us_id u)) u (or_empty code \<noteq> [])
       (or_empty code) (or_empty backup) s1 = (Inr f, s2)"
    unfolding two_factor_login_def transaction_Inr Let_def live_token_def
    by (auto simp: res_simps claims_or_Inr split: option.splits if_splits) blast+
  have "\<not> fst (is_limited (mfa_limiter s) (''mfa:'' @ uuid_str (us_id u)) now)" "sv_db s1 = sv_db s"
    using lim by (auto simp: mfa_limited_def split: prod.splits)
  then show ?thesis
    using one cl live second_factor_passed [OF cf] by (auto split: if_splits)
qed

text \<open>Completing a password reset activates the account: one that was deactivated after the
  reset was requested is active again, with the new password.\<close>

theorem password_reset_reactivates:
  assumes "fst (consume_password_reset env now raw s) = Inr (Some u)"
    and "isr (fst (password_reset_confirm env now rq raw pw s))"
  shows "\<exists>u'. find_user (us_id u) (sv_db (snd (password_reset_confirm env now rq raw pw s))) = Some u'
    \<and> us_is_active u'"
proof -
  obtain m s' where m: "password_reset_confirm env now rq raw pw s = (Inr m, s')"
    using assms(2) by (auto simp: isr_run)
  obtain s0 where "consume_password_reset env now raw s = (Inr (Some u), s0)"
    using assms(1) by (metis prod.collapse)
  with reset_confirm_steps [OF m] m show ?thesis
    by (auto simp: consume_reset_Inr bump_version_def)
qed

end
