(* ===== verification/Guessing.thy ===== *)
theory Guessing
  imports AuthRuns
begin

text \<open>
  How many guesses the authentication routes allow.  A small program logic over the outcome of an
  operation (\<open>hoare\<close>) carries the bound of each limiter through the routes of
  \<open>src/asterion/auth/router.py\<close> and \<open>two_factor_router.py\<close>; the reachable states of the server
  then never count more failures than the cap.  The witnesses of the sign-in properties follow.
\<close>


section \<open>Guessing is bounded\<close>

text \<open>A triple over the state and the outcome of an operation that may raise.\<close>

definition hoare :: "('s \<Rightarrow> bool) \<Rightarrow> ('s, 'a) proc \<Rightarrow> ('a \<Rightarrow> 's \<Rightarrow> bool) \<Rightarrow> ('s \<Rightarrow> bool) \<Rightarrow> bool" where
  "hoare P m Q E \<longleftrightarrow> (\<forall>s. P s \<longrightarrow> (case m s of (Inr x, s') \<Rightarrow> Q x s' | (Inl e, s') \<Rightarrow> E s'))"

lemma hoare_sbind:
  assumes "hoare P m Q E" and "\<And>x. hoare (Q x) (f x) R E"
  shows "hoare P (sbind m f) R E"
  using assms unfolding hoare_def sbind_def by (fastforce split: prod.splits sum.splits)

lemma hoare_weaken:
  assumes "hoare P m Q E" and "\<And>s. P' s \<Longrightarrow> P s" and "\<And>x s. Q x s \<Longrightarrow> Q' x s"
  shows "hoare P' m Q' E"
  using assms unfolding hoare_def by (fastforce split: prod.splits sum.splits)

lemma hoare_cases:
  "(\<And>e. z = Inl e \<Longrightarrow> hoare P (g e) Q E) \<Longrightarrow> (\<And>x. z = Inr x \<Longrightarrow> hoare P (f x) Q E) \<Longrightarrow>
     hoare P (case z of Inl e \<Rightarrow> g e | Inr x \<Rightarrow> f x) Q E"
  by (cases z) simp_all

lemma hoare_option:
  "(z = None \<Longrightarrow> hoare P m Q E) \<Longrightarrow> (\<And>x. z = Some x \<Longrightarrow> hoare P (f x) Q E) \<Longrightarrow>
     hoare P (case z of None \<Rightarrow> m | Some x \<Rightarrow> f x) Q E"
  by (cases z) simp_all

lemma hoare_if: "(b \<Longrightarrow> hoare P m Q E) \<Longrightarrow> (\<not> b \<Longrightarrow> hoare P n Q E) \<Longrightarrow> hoare P (if b then m else n) Q E"
  by simp

text \<open>Operations that leave the limiters alone keep every predicate on them.\<close>

definition limiters :: "server \<Rightarrow> in_memory_limiter option \<times> in_memory_limiter \<times> in_memory_limiter" where
  "limiters s = (sv_shared_limiter s, sv_login_limiter s, sv_mfa_limiter s)"

definition quiet :: "'a serve \<Rightarrow> bool" where
  "quiet m \<longleftrightarrow> (\<forall>s. limiters (snd (m s)) = limiters s)"

named_theorems quiet_intros \<open>operations that leave the limiters alone\<close>

lemma quiet_basic [quiet_intros]:
  "quiet (ret x)" "quiet (throw e)" "quiet (lift_res r)" "quiet (db_gets g)" "quiet (db_flush env)"
  "quiet (draw h)" "quiet (db_modify f)" "quiet (audit_in_session env kw)" "quiet (audit_isolated env kw)"
  "quiet (is_token_revoked jti)" "quiet (reset_limited key now)" "quiet (reset_counted key now)"
  "quiet (modify (\<lambda>s. s\<lparr>sv_sent := h2 s\<rparr>))"
  by (auto simp: quiet_def limiters_def db_gets_def db_flush_def draw_def db_modify_def Let_def
      audit_in_session_def audit_isolated_def is_token_revoked_def reset_limited_def reset_counted_def
      split: option.splits prod.splits)

lemma quiet_sbind [quiet_intros]:
  assumes "quiet m" and "\<And>x. quiet (f x)" shows "quiet (sbind m f)"
  using assms unfolding quiet_def sbind_def
  by (auto split: prod.splits sum.splits) (metis snd_conv)+

lemma quiet_cases [quiet_intros]:
  "quiet m \<Longrightarrow> quiet n \<Longrightarrow> quiet (if b then m else n)"
  "quiet m \<Longrightarrow> (\<And>x. quiet (f x)) \<Longrightarrow> quiet (case z of None \<Rightarrow> m | Some x \<Rightarrow> f x)"
  "(\<And>e. quiet (g e)) \<Longrightarrow> (\<And>x. quiet (h x)) \<Longrightarrow> quiet (case y of Inl e \<Rightarrow> g e | Inr x \<Rightarrow> h x)"
  "(\<And>x y. quiet (k x y)) \<Longrightarrow> quiet (case w of (x, y) \<Rightarrow> k x y)"
  by (simp_all split: option.split sum.split prod.split)

lemma quiet_transaction [quiet_intros]: "quiet m \<Longrightarrow> quiet (transaction m)"
  unfolding quiet_def transaction_def limiters_def
  by (auto split: prod.splits sum.splits) (metis prod.inject snd_conv)+

lemma hoare_quiet:
  assumes "quiet m" and "\<And>s s'. limiters s = limiters s' \<Longrightarrow> P s = P s'" and "\<And>s. P s \<Longrightarrow> E s"
  shows "hoare P m (\<lambda>_. P) E"
  unfolding hoare_def
proof (intro allI impI)
  fix s assume s: "P s"
  obtain r s' where r: "m s = (r, s')" by (cases "m s")
  have "limiters s' = limiters s" using assms(1) r by (auto simp: quiet_def dest: spec [of _ s])
  then have "P s'" using assms(2) s by blast
  then show "case m s of (Inr x, s') \<Rightarrow> P s' | (Inl e, s') \<Rightarrow> E s'"
    using r assms(3) by (cases r) simp_all
qed

lemma hoare_transaction:
  assumes "hoare P m Q E" and "\<And>s s'. limiters s = limiters s' \<Longrightarrow> E s = E s'"
  shows "hoare P (transaction m) Q E"
  unfolding hoare_def
proof (intro allI impI)
  fix s assume s: "P s"
  have roll: "E (s'\<lparr>sv_db := d\<rparr>) = E s'" for s' d
    by (rule assms(2)) (simp add: limiters_def)
  obtain r s' where r: "m s = (r, s')" by (cases "m s")
  show "case transaction m s of (Inr x, s') \<Rightarrow> Q x s' | (Inl e, s') \<Rightarrow> E s'"
    using assms(1) s r unfolding hoare_def transaction_def
    by (cases r) (auto simp: roll dest: spec [of _ s])
qed

text \<open>A limiter counts no more than its cap, and has room for one more failure of a key.\<close>

definition bounded :: "int \<Rightarrow> in_memory_limiter \<Rightarrow> bool" where
  "bounded t l \<longleftrightarrow> (\<forall>k now. t \<le> now \<longrightarrow> int (in_window l k now) \<le> max 0 (max_failures l))"

definition room :: "int \<Rightarrow> string \<Rightarrow> in_memory_limiter \<Rightarrow> bool" where
  "room t k l \<longleftrightarrow> bounded t l \<and> int (in_window l k t) < max_failures l"

lemma bounded_later: "bounded t l \<Longrightarrow> t \<le> t' \<Longrightarrow> bounded t' l"
  by (simp add: bounded_def)

lemma bounded_check:
  assumes "bounded t l" and "t \<le> now" and "is_limited l k now = (b, l')"
  shows "bounded now l' \<and> (\<not> b \<longrightarrow> room now k l')"
proof -
  have l': "l' = snd (is_limited l k now)" and b: "b = fst (is_limited l k now)"
    using assms(3) by simp_all
  show ?thesis
    using assms(1,2) unfolding l' b
    by (auto simp: bounded_def room_def in_memory.limited_iff in_memory.hits_is_limited)
qed

lemma bounded_record:
  assumes "room t k l" shows "bounded t (record_failure l k t)"
  unfolding bounded_def
proof (intro allI impI)
  fix k' now assume le: "t \<le> now"
  have "in_window l k now \<le> in_window l k t" by (rule in_memory.hits_mono [OF le])
  then show "int (in_window (record_failure l k t) k' now) \<le> max 0 (max_failures (record_failure l k t))"
    using assms le by (auto simp: room_def bounded_def in_memory.hits_record_failure [OF le])
qed

lemma bounded_clear: "bounded t l \<Longrightarrow> bounded t (clear l k)"
  by (simp add: bounded_def in_memory.hits_clear)

definition all_bounded :: "int \<Rightarrow> server \<Rightarrow> bool" where
  "all_bounded t s \<longleftrightarrow> bounded t (sv_login_limiter s) \<and> bounded t (sv_mfa_limiter s)
     \<and> (case sv_shared_limiter s of None \<Rightarrow> True | Some l \<Rightarrow> bounded t l)"

lemma limiter_predicates:
  assumes "limiters s = limiters s'"
  shows "all_bounded t s = all_bounded t s'" "login_limiter s = login_limiter s'" "mfa_limiter s = mfa_limiter s'"
  using assms by (simp_all add: limiters_def all_bounded_def login_limiter_def mfa_limiter_def
      split: option.split)

lemma all_bounded_set:
  "all_bounded t s \<Longrightarrow> bounded t l \<Longrightarrow> all_bounded t (set_login_limiter l s)"
  "all_bounded t s \<Longrightarrow> bounded t l \<Longrightarrow> all_bounded t (set_mfa_limiter l s)"
  "login_limiter (set_login_limiter l s) = l" "mfa_limiter (set_mfa_limiter l s) = l"
  by (auto simp: all_bounded_def set_login_limiter_def set_mfa_limiter_def login_limiter_def
      mfa_limiter_def split: option.splits)

lemma all_bounded_in:
  "all_bounded t s \<Longrightarrow> bounded t (login_limiter s)" "all_bounded t s \<Longrightarrow> bounded t (mfa_limiter s)"
  by (auto simp: all_bounded_def login_limiter_def mfa_limiter_def split: option.splits)

lemma all_bounded_later: "all_bounded t s \<Longrightarrow> t \<le> t' \<Longrightarrow> all_bounded t' s"
  by (auto simp: all_bounded_def bounded_later split: option.splits)

definition login_room :: "int \<Rightarrow> string \<Rightarrow> server \<Rightarrow> bool" where
  "login_room t k s \<longleftrightarrow> all_bounded t s \<and> room t k (login_limiter s)"

definition mfa_room :: "int \<Rightarrow> string \<Rightarrow> server \<Rightarrow> bool" where
  "mfa_room t k s \<longleftrightarrow> all_bounded t s \<and> room t k (mfa_limiter s)"

lemma hoare_limiters:
  "hoare (all_bounded now) (login_limited k now)
     (\<lambda>b. if b then all_bounded now else login_room now k) (all_bounded now)"
  "hoare (all_bounded now) (mfa_limited k now)
     (\<lambda>b. if b then all_bounded now else mfa_room now k) (all_bounded now)"
  "hoare (login_room now k) (login_failed k now) (\<lambda>_. all_bounded now) (all_bounded now)"
  "hoare (mfa_room now k) (mfa_failed k now) (\<lambda>_. all_bounded now) (all_bounded now)"
  "hoare (login_room now k) (login_cleared k) (\<lambda>_. all_bounded now) (all_bounded now)"
  "hoare (mfa_room now k) (mfa_cleared k) (\<lambda>_. all_bounded now) (all_bounded now)"
  unfolding hoare_def login_limited_def mfa_limited_def login_failed_def mfa_failed_def
    login_cleared_def mfa_cleared_def login_room_def mfa_room_def
  by (auto split: prod.splits simp: proc_simps intro!: all_bounded_set bounded_record bounded_clear
      dest: bounded_check [OF all_bounded_in(1) order_refl] bounded_check [OF all_bounded_in(2) order_refl]
      simp: all_bounded_set(3,4) room_def [symmetric] intro: all_bounded_in)

lemma quiet_parts [quiet_intros]:
  "quiet (get_current_user env now cred)" "quiet (mint_access env now u)" "quiet (mint_refresh env now u)"
  "quiet (audit_login env rq action acode email actor reason)"
  "quiet (audit_mfa_login env rq action acode ouser reason factor)"
  "quiet (revoke_token env jti ouid x r)" "quiet (save_user env u f)"
  "quiet (create_password_reset env now uid ttl)" "quiet (consume_password_reset env now raw)"
  "quiet (store_backup_codes env uid codes)" "quiet (clear_backup_codes env uid)"
  unfolding get_current_user_def mint_access_def mint_refresh_def audit_login_def audit_mfa_login_def
    revoke_token_def save_user_def create_password_reset_def consume_password_reset_def
    store_backup_codes_def clear_backup_codes_def Let_def
  by (intro quiet_intros)+

lemma quiet_codes [quiet_intros]:
  "quiet (generate_backup_codes env n)" "quiet (consume_backup_code env now u raw)"
proof -
  show "quiet (generate_backup_codes env n)" by (induction n) (auto intro!: quiet_intros)
  show "quiet (consume_backup_code env now u raw)"
    unfolding consume_backup_code_def
    by (intro quiet_intros) (auto split: list.splits intro!: quiet_intros)
qed

lemma quiet_routes:
  "quiet (refresh env now token)" "quiet (logout env now rq cred)" "quiet (logout_all env now rq cred)"
  "quiet (password_reset_request env now rq email)" "quiet (password_reset_confirm env now rq raw pw)"
  "quiet (two_factor_setup env now cred)" "quiet (two_factor_enable env now rq cred code)"
  "quiet (two_factor_disable env now rq cred code)"
  unfolding refresh_def logout_def logout_all_def password_reset_request_def password_reset_confirm_def
    two_factor_setup_def two_factor_enable_def two_factor_disable_def Let_def
  by (intro quiet_intros)+

lemma quiet_sign_in [quiet_intros]:
  "quiet (builtin_login env now email password)" "quiet (login_succeeded env now rq email sess)"
  unfolding builtin_login_def login_succeeded_def user_for_mfa_def Let_def by (intro quiet_intros)+

lemmas quiet_bounded = hoare_quiet [where P = "all_bounded now" and E = "all_bounded now" for now,
    OF _ limiter_predicates(1)]

lemma quiet_login_room: "quiet m \<Longrightarrow> hoare (login_room now k) m (\<lambda>_. login_room now k) (all_bounded now)"
  by (rule hoare_quiet) (auto simp: login_room_def dest: limiter_predicates)

lemma quiet_mfa_room: "quiet m \<Longrightarrow> hoare (mfa_room now k) m (\<lambda>_. mfa_room now k) (all_bounded now)"
  by (rule hoare_quiet) (auto simp: mfa_room_def dest: limiter_predicates)

lemma quiet_keeps: "quiet m \<Longrightarrow> hoare (all_bounded now) m (\<lambda>_. all_bounded now) (all_bounded now)"
  by (rule hoare_quiet) (auto dest: limiter_predicates(1))

lemma login_bounded:
  "hoare (all_bounded now) (login env now (Some (builtin_login env now)) rq email password)
     (\<lambda>_. all_bounded now) (all_bounded now)"
proof -
  let ?k = "limiter_key env rq email" and ?B = "all_bounded now"
  have rest: "hoare (login_room now ?k) (sbind (builtin_login env now email password) (\<lambda>result.
      case result of
         Inl reason \<Rightarrow>
           sbind (login_failed ?k now) (\<lambda>_.
           sbind (audit_login env rq ''login_failure'' (fst (LOGIN_FAILURE_STATUS reason)) email
             None (Some reason)) (\<lambda>_.
           throw (http (fst (LOGIN_FAILURE_STATUS reason)) (snd (LOGIN_FAILURE_STATUS reason)))))
       | Inr sess \<Rightarrow>
           sbind (login_cleared ?k) (\<lambda>_. login_succeeded env now rq email sess))) (\<lambda>_. ?B) ?B"
    by (rule hoare_sbind [OF quiet_login_room [OF quiet_sign_in(1)]], rule hoare_cases)
      (rule hoare_sbind [OF hoare_limiters(3)] hoare_sbind [OF hoare_limiters(5)],
        intro quiet_keeps quiet_intros)+
  have throttled: "hoare ?B (sbind (audit_login env rq ''login_failure'' 429 email None (Some ''rate_limited''))
         (\<lambda>_. throw (http 429 ''Too many failed login attempts.''))) (\<lambda>_. ?B) ?B"
    by (intro quiet_keeps quiet_intros)
  show ?thesis
    unfolding login_def Let_def option.case
    by (rule hoare_transaction [OF _ limiter_predicates(1)], rule hoare_sbind [OF hoare_limiters(1)])
      (rule hoare_if; simp add: rest throttled)
qed

lemma two_factor_login_bounded:
  "hoare (all_bounded now) (two_factor_login env now rq token code backup) (\<lambda>_. all_bounded now) (all_bounded now)"
proof -
  let ?B = "all_bounded now"
  have factor: "hoare (mfa_room now k) (check_factor env now rq k u has_code c b) (\<lambda>_. mfa_room now k) ?B"
    for k u has_code c b
  proof -
    have refuse: "hoare (mfa_room now k) (sbind (mfa_failed k now) (\<lambda>_. sbind (audit_mfa_login env rq action n
        (Some u) r f) (\<lambda>_. throw e))) (\<lambda>_. mfa_room now k) ?B" for action n r f e
      by (rule hoare_sbind [OF hoare_limiters(4)], rule hoare_sbind [OF quiet_keeps [OF quiet_parts(5)]])
        (simp add: hoare_def throw_def)
    show ?thesis
      unfolding check_factor_def
      by (intro hoare_if refuse hoare_sbind [OF quiet_mfa_room [OF quiet_codes(2)]] quiet_mfa_room quiet_intros)
  qed
  have tail: "hoare ?B (sbind (revoke_token env jti (Some (us_id u)) x y) (\<lambda>_.
       sbind (mint_access env now u) (\<lambda>access. sbind (mint_refresh env now u) (\<lambda>refresh.
       sbind (audit_mfa_login env rq ''login_success'' 200 (Some u) None (Some factor)) (\<lambda>_.
       ret (r access refresh)))))) (\<lambda>_. ?B) ?B" for jti u x y factor and r :: "'a \<Rightarrow> 'a \<Rightarrow> 'a token_response"
    by (intro quiet_keeps quiet_intros)
  have refused: "hoare ?B (throw e) (\<lambda>_. ?B) ?B"
    "hoare ?B (sbind (audit_mfa_login env rq action n u r f) (\<lambda>_. throw e)) (\<lambda>_. ?B) ?B"
    for e action n u r f
    by (intro quiet_keeps quiet_intros)+
  show ?thesis
    unfolding two_factor_login_def Let_def
    apply (rule hoare_transaction [OF _ limiter_predicates(1)])
    apply (rule hoare_if)
    apply (rule quiet_keeps, intro quiet_intros)
    apply (rule hoare_sbind [OF quiet_keeps [OF quiet_basic(3)]])
    apply (clarsimp split: prod.split)
    apply (rule hoare_sbind [OF quiet_keeps [OF quiet_basic(10)]])
    apply (rule hoare_if)
    apply (rule quiet_keeps, intro quiet_intros)
    apply (rule hoare_sbind [OF quiet_keeps [OF quiet_basic(4)]])
    apply (rule hoare_option)
    apply (rule quiet_keeps, intro quiet_intros)
    apply (intro hoare_if)
    apply (rule quiet_keeps, rule quiet_basic)+
    apply (rule hoare_sbind [OF hoare_limiters(2)])
    apply (rule hoare_if)
    apply simp
    apply (rule quiet_keeps, intro quiet_intros)
    apply simp
    apply (rule hoare_sbind [OF factor])
    apply (rule hoare_sbind [OF hoare_limiters(6)])
    apply (rule tail)
    apply simp
    done
qed

lemma request_bounded:
  assumes "all_bounded t s" and "t \<le> now"
  shows "all_bounded now (serve_request env now rq s)"
proof -
  have run: "all_bounded now (snd (m s))"
    if "hoare (all_bounded now) m (\<lambda>_. all_bounded now) (all_bounded now)" for m :: "'b serve"
    using that all_bounded_later [OF assms]
    by (cases "m s"; cases "fst (m s)") (auto simp: hoare_def dest: spec [of _ s])
  note routes = quiet_routes [THEN quiet_keeps]
  show ?thesis
    by (cases rq) (simp_all add: run [OF login_bounded] run [OF two_factor_login_bounded]
        run [OF routes(1)] run [OF routes(2)] run [OF routes(3)] run [OF routes(4)] run [OF routes(5)]
        run [OF routes(6)] run [OF routes(7)] run [OF routes(8)])
qed

lemma reach_bounded: "auth_reach env s t s' t' \<Longrightarrow> all_bounded t s \<Longrightarrow> all_bounded t' s'"
  by (induction rule: auth_reach.induct) (auto intro: request_bounded)




section \<open>Witnesses of the sign-in properties\<close>

lemma login_run:
  assumes "\<not> fst (is_limited (login_limiter s) (limiter_key env rq email) now)"
    and "find_email email (sv_db s) = Some u" "us_is_active u" "\<not> us_totp_enabled u"
      "verify_password (en_crypto env) password (us_hashed_password u)"
    and "us_id u < 2 ^ 128" "find_user (us_id u) (sv_db s) = Some u"
  shows "isr (fst (login env now (Some (builtin_login env now)) rq email password s))"
proof -
  obtain l where "is_limited (login_limiter s) (limiter_key env rq email) now = (False, l)"
    using assms(1) by (cases "is_limited (login_limiter s) (limiter_key env rq email) now") simp
  then show ?thesis
    using assms(2-) uuid_parse_str [OF assms(6)]
    by (simp add: login_def transaction_def login_limited_def builtin_login_def login_succeeded_def
        login_cleared_def user_for_mfa_def audit_login_def audit_isolated_def mint_run sbind_app
        proc_simps Let_def)
qed

definition demo_mfa_user :: user where
  "demo_mfa_user = demo_user\<lparr>us_totp_secret := Some ''SECRET'', us_totp_enabled := True\<rparr>"

definition demo_challenge :: "row \<times> string \<times> string" where
  "demo_challenge = create_mfa_challenge_token plain_jose demo_jwt 0 7 42 5 3"

lemma password_login_outcome_witness:
  "\<exists>r. fst (login demo_auth 10 (Some (builtin_login demo_auth 10)) (proxied []) ''a@b.c'' ''password''
      (demo_server demo_user)) = Inr r \<and> tr_access_token r \<noteq> None"
proof -
  have u: "find_email ''a@b.c'' (sv_db (demo_server demo_user)) = Some demo_user"
    "find_user (us_id demo_user) (sv_db (demo_server demo_user)) = Some demo_user"
    "us_id demo_user < 2 ^ 128" "us_is_active demo_user" "\<not> us_totp_enabled demo_user"
    by (simp_all add: find_email_def find_user_def demo_server_def demo_user_def)
  have "verify_password (en_crypto demo_auth) ''password'' (us_hashed_password demo_user)"
    "\<not> fst (is_limited (login_limiter (demo_server demo_user)) (limiter_key demo_auth (proxied []) ''a@b.c'') 10)"
    by code_simp+
  from login_run [OF this(2) u(1) u(4,5) this(1) u(3,2)] obtain r where
    r: "fst (login demo_auth 10 (Some (builtin_login demo_auth 10)) (proxied []) ''a@b.c'' ''password''
      (demo_server demo_user)) = Inr r" by (auto simp: isr_iff)
  from password_login_outcome [OF r] u have "tr_access_token r \<noteq> None" by auto
  with r show ?thesis by blast
qed

lemma two_factor_login_run:
  assumes "token_claims (decode_mfa_challenge_token (en_jose env) (jwt env) now token) = Inr (p, i, v, jti)"
    and "live_token (sv_db s) i v jti u" "us_totp_enabled u" "\<And>db. en_flush env db = None"
    and "\<not> fst (is_limited (mfa_limiter s) (''mfa:'' @ uuid_str (us_id u)) now)"
    and "verify_totp env now (us_totp_secret u) code" "code \<noteq> []"
  shows "isr (fst (two_factor_login env now rq token (Some code) None s))"
proof -
  obtain l where l: "is_limited (mfa_limiter s) (''mfa:'' @ uuid_str (us_id u)) now = (False, l)"
    using assms(5) by (cases "is_limited (mfa_limiter s) (''mfa:'' @ uuid_str (us_id u)) now") simp
  show ?thesis
    using assms(1-4,6,7) l unfolding two_factor_login_def live_token_def
    by (simp add: claims_or_def or_empty_def check_factor_def mfa_limited_def mfa_cleared_def
        audit_mfa_login_def audit_isolated_def run_defs proc_simps Let_def)
qed

lemma second_factor_required_witness:
  "isr (fst (two_factor_login demo_auth 10 (proxied []) demo_challenge (Some ''123456'') None
     (demo_server demo_mfa_user)))
   \<and> (\<exists>u :: user. us_totp_enabled u \<and> verify_totp demo_auth 10 (us_totp_secret u) ''123456'')"
proof -
  have cl: "token_claims (decode_mfa_challenge_token (en_jose demo_auth) (jwt demo_auth) 10 demo_challenge)
      = Inr (fst demo_challenge, 42, 3, uuid_str 7)" by code_simp
  have u: "live_token (sv_db (demo_server demo_mfa_user)) 42 3 (uuid_str 7) demo_mfa_user"
    "us_totp_enabled demo_mfa_user" by code_simp+
  have lim: "\<not> fst (is_limited (mfa_limiter (demo_server demo_mfa_user)) (''mfa:'' @ uuid_str (us_id demo_mfa_user)) 10)"
    "verify_totp demo_auth 10 (us_totp_secret demo_mfa_user) ''123456''" by code_simp+
  from two_factor_login_run [OF cl u demo_flush lim]
  have "isr (fst (two_factor_login demo_auth 10 (proxied []) demo_challenge (Some ''123456'') None
     (demo_server demo_mfa_user)))" by simp
  with second_factor_required [OF this] show ?thesis by (simp add: or_empty_def) blast
qed

definition demo_inactive_user :: user where
  "demo_inactive_user = demo_user\<lparr>us_is_active := False\<rparr>"

lemma password_reset_reactivates_witness:
  "\<not> us_is_active demo_inactive_user \<and> (\<exists>u'. find_user 42 (sv_db (snd (password_reset_confirm demo_auth 10
     (proxied []) ''raw'' ''long enough'' (demo_server demo_inactive_user)))) = Some u' \<and> us_is_active u')"
proof -
  have c: "fst (consume_password_reset demo_auth 10 ''raw'' (demo_server demo_inactive_user)) = Inr (Some demo_inactive_user)"
    "password_check demo_auth ''long enough'' = Inr ()" "us_id demo_inactive_user = 42"
    "\<not> us_is_active demo_inactive_user" by code_simp+
  obtain s1 where "consume_password_reset demo_auth 10 ''raw'' (demo_server demo_inactive_user)
      = (Inr (Some demo_inactive_user), s1)" using c(1) by (metis prod.collapse)
  from reset_confirm_succeeds [OF c(2) this demo_flush, of "proxied []"]
    password_reset_reactivates [OF c(1)] c(3,4) show ?thesis by simp
qed

end
