(* ===== verification/Formats.thy ===== *)
theory Formats
  imports Literals
begin

text \<open>
  Two readers of Python's standard library the tenant middleware relies on: \<open>json.loads\<close> and the
  part of \<open>ipaddress\<close> behind \<open>ip_address(text)\<close>, \<open>ip_network(text, strict=False)\<close> and
  \<open>address in network\<close>.  A text that raises \<open>ValueError\<close> is \<open>None\<close>.
\<close>

section \<open>JSON\<close>

definition json_space :: "char \<Rightarrow> bool" where
  "json_space c = (ord c \<in> {9, 10, 13, 32})"

definition skip_space :: "string \<Rightarrow> string" where
  "skip_space s = dropWhile json_space s"

definition hex4 :: "string \<Rightarrow> nat option" where
  "hex4 s = (if length s = 4 \<and> list_all (is_base_digit 16) s then Some (digits_value 16 s) else None)"

text \<open>A code point above 255 is the one character above the Latin-1 range the model has none
  for: it reads as 255, which no test of the modelled code tells from another.\<close>

definition code_point :: "nat \<Rightarrow> char" where
  "code_point n = (if n < 256 then char_of n else char_of (255::nat))"

definition simple_escape :: "char \<Rightarrow> char option" where
  "simple_escape c = map_of [(dquote, dquote), (CHR 0x5C, CHR 0x5C), (CHR ''/'', CHR ''/''),
     (CHR ''b'', CHR 0x08), (CHR ''f'', CHR 0x0C), (CHR ''n'', CHR 0x0A), (CHR ''r'', CHR 0x0D),
     (CHR ''t'', CHR 0x09)] c"

text \<open>The rest of a string literal after its opening quote.\<close>

fun json_string :: "nat \<Rightarrow> string \<Rightarrow> (string \<times> string) option" where
  "json_string 0 s = None"
| "json_string (Suc n) [] = None"
| "json_string (Suc n) (c # s) =
    (if c = dquote then Some ([], s)
     else if ord c < 32 then None
     else if c = CHR 0x5C then
       (case s of
          [] \<Rightarrow> None
        | e # s' \<Rightarrow>
          if e = CHR ''u'' then
            (case hex4 (take 4 s') of
               None \<Rightarrow> None
             | Some k \<Rightarrow> map_option (apfst (Cons (code_point k))) (json_string n (drop 4 s')))
          else (case simple_escape e of
               None \<Rightarrow> None
             | Some d \<Rightarrow> map_option (apfst (Cons d)) (json_string n s')))
     else map_option (apfst (Cons c)) (json_string n s))"

text \<open>\<open>-?(0|[1-9]\\d*)(\\.\\d+)?([eE][-+]?\\d+)?\<close>: an integer, or the text of a float.\<close>

definition json_number :: "string \<Rightarrow> (pyval \<times> string) option" where
  "json_number s0 =
    (let neg = (s0 \<noteq> [] \<and> hd s0 = CHR ''-''); s = (if neg then tl s0 else s0);
         ds = (if s \<noteq> [] \<and> hd s = CHR ''0'' then ''0'' else takeWhile is_digit s)
     in if ds = [] then None
     else let r = drop (length ds) s;
         fr = (if r \<noteq> [] \<and> hd r = CHR ''.'' then takeWhile is_digit (tl r) else []);
         frac = (if fr = [] then [] else CHR ''.'' # fr);
         r2 = drop (length frac) r;
         sg = (if r2 \<noteq> [] \<and> hd r2 \<in> {CHR ''e'', CHR ''E''} \<and> tl r2 \<noteq> [] \<and> hd (tl r2) \<in> {CHR ''+'', CHR ''-''}
               then [hd (tl r2)] else []);
         es = (if r2 \<noteq> [] \<and> hd r2 \<in> {CHR ''e'', CHR ''E''}
               then takeWhile is_digit (drop (1 + length sg) r2) else []);
         ex = (if es = [] then [] else hd r2 # sg @ es);
         r3 = drop (length ex) r2;
         n = int (digits_value 10 ds)
     in Some (if frac = [] \<and> ex = [] then VInt (if neg then - n else n)
              else VObj ''float'' ((if neg then ''-'' else []) @ ds @ frac @ ex), r3))"

definition json_words :: "(string \<times> pyval) list" where
  "json_words = [(''null'', VNone), (''true'', VBool True), (''false'', VBool False),
     (''NaN'', VObj ''float'' ''nan''), (''Infinity'', VObj ''float'' ''inf''),
     (''-Infinity'', VObj ''float'' ''-inf'')]"

text \<open>A value, the elements after \<open>[\<close> and the members after \<open>{\<close>; the fuel bounds the nesting and the
  length together, and the length of the text is enough.\<close>

fun json_value :: "nat \<Rightarrow> string \<Rightarrow> (pyval \<times> string) option"
  and json_elements :: "nat \<Rightarrow> string \<Rightarrow> (pyval list \<times> string) option"
  and json_members :: "nat \<Rightarrow> string \<Rightarrow> ((string \<times> pyval) list \<times> string) option" where
  "json_value 0 s = None"
| "json_value (Suc n) s =
    (case s of
       [] \<Rightarrow> None
     | c # r \<Rightarrow>
       if c = dquote then map_option (apfst VStr) (json_string n r)
       else if c = CHR ''['' then
         (if startswith (skip_space r) '']'' then Some (VList [], drop 1 (skip_space r))
          else map_option (apfst VList) (json_elements n (skip_space r)))
       else if c = CHR ''{'' then
         (if startswith (skip_space r) ''}'' then Some (VDict [], drop 1 (skip_space r))
          else map_option (apfst (\<lambda>m. VDict (foldl (\<lambda>d (k, v). AList.update k v d) [] m)))
            (json_members n (skip_space r)))
       else (case find (\<lambda>w. startswith s (fst w)) json_words of
               Some w \<Rightarrow> Some (snd w, drop (length (fst w)) s)
             | None \<Rightarrow> json_number s))"
| "json_elements 0 s = None"
| "json_elements (Suc n) s =
    (case json_value n s of
       None \<Rightarrow> None
     | Some (v, r) \<Rightarrow>
       (let r1 = skip_space r in
        if startswith r1 '']'' then Some ([v], drop 1 r1)
        else if startswith r1 '','' then
          map_option (apfst (Cons v)) (json_elements n (skip_space (drop 1 r1)))
        else None))"
| "json_members 0 s = None"
| "json_members (Suc n) s =
    (case s of
       [] \<Rightarrow> None
     | c # r0 \<Rightarrow>
       if c \<noteq> dquote then None
       else (case json_string n r0 of
         None \<Rightarrow> None
       | Some (k, r) \<Rightarrow>
         if \<not> startswith (skip_space r) '':'' then None
         else (case json_value n (skip_space (drop 1 (skip_space r))) of
           None \<Rightarrow> None
         | Some (v, r2) \<Rightarrow>
           (let r3 = skip_space r2 in
            if startswith r3 ''}'' then Some ([(k, v)], drop 1 r3)
            else if startswith r3 '','' then
              map_option (apfst (Cons (k, v))) (json_members n (skip_space (drop 1 r3)))
            else None))))"

definition json_loads :: "string \<Rightarrow> pyval option" where
  "json_loads s = (case json_value (3 * length s + 3) (skip_space s) of
     Some (v, r) \<Rightarrow> if skip_space r = [] then Some v else None
   | None \<Rightarrow> None)"

section \<open>IP addresses\<close>

datatype ip = IPv4 int | IPv6 int

fun octet :: "string \<Rightarrow> int option" where
  "octet s = (if s = [] \<or> \<not> list_all is_digit s \<or> 3 < length s
       \<or> (s \<noteq> ''0'' \<and> hd s = CHR ''0'')
     then None
     else let v = int (digits_value 10 s) in if v > 255 then None else Some v)"

definition parse_ipv4 :: "string \<Rightarrow> int option" where
  "parse_ipv4 s = (case map octet (split_on CHR ''.'' s) of
     [Some a, Some b, Some c, Some d] \<Rightarrow> Some (((a * 256 + b) * 256 + c) * 256 + d)
   | _ \<Rightarrow> None)"

definition hextet :: "string \<Rightarrow> int option" where
  "hextet s = (if s = [] \<or> 4 < length s \<or> \<not> list_all (is_base_digit 16) s then None
     else Some (int (digits_value 16 s)))"

definition hextets :: "string list \<Rightarrow> int option" where
  "hextets parts = (if \<exists>p \<in> set parts. hextet p = None then None
     else Some (foldl (\<lambda>acc p. acc * 65536 + the (hextet p)) 0 parts))"

definition int_hex4 :: "int \<Rightarrow> string" where
  "int_hex4 i = hex_fixed 4 (nat i)"

text \<open>A trailing dotted part stands for two groups; at most one inner group may be empty, and the
  groups it leaves out are zero; an empty first or last group is only half of a \<open>::\<close>.\<close>

definition parse_ipv6 :: "string \<Rightarrow> int option" where
  "parse_ipv6 text =
    (let s = takeWhile (\<lambda>c. c \<noteq> CHR ''%'') text;
         scope = drop (length s) text;
         parts0 = split_on CHR '':'' s;
         v4 = (CHR ''.'' \<in> set (last parts0));
         tail = (if v4 then (case parse_ipv4 (last parts0) of
             None \<Rightarrow> None
           | Some i \<Rightarrow> Some [int_hex4 (i div 65536), int_hex4 (i mod 65536)]) else Some [last parts0])
     in if s = [] \<or> (scope \<noteq> [] \<and> (length scope < 2 \<or> CHR ''%'' \<in> set (tl scope)))
          \<or> length parts0 < 3 then None
     else case tail of
       None \<Rightarrow> None
     | Some t \<Rightarrow>
       let parts = butlast parts0 @ t;
           empties = filter (\<lambda>i. parts ! i = []) [1..<length parts - 1]
       in if 9 < length parts \<or> 1 < length empties then None
       else (case empties of
           [] \<Rightarrow> if length parts \<noteq> 8 then None else hextets parts
         | k # _ \<Rightarrow>
           let hi = (if hd parts = [] then k - 1 else k);
               lo = (if last parts = [] then length parts - k - 2 else length parts - k - 1)
           in if (hd parts = [] \<and> hi \<noteq> 0) \<or> (last parts = [] \<and> lo \<noteq> 0) \<or> 7 < hi + lo then None
           else hextets (take hi parts @ replicate (8 - (hi + lo)) ''0'' @ drop (length parts - lo) parts)))"

definition ip_address :: "string \<Rightarrow> ip option" where
  "ip_address s = (case parse_ipv4 s of
     Some i \<Rightarrow> Some (IPv4 i)
   | None \<Rightarrow> if CHR ''/'' \<in> set s then None else map_option IPv6 (parse_ipv6 s))"

text \<open>A network is its address with the host bits cleared, and the number of those bits.\<close>

datatype ip_net = Net4 int nat | Net6 int nat

definition clear_host :: "nat \<Rightarrow> int \<Rightarrow> int" where
  "clear_host bits i = i div 2 ^ bits * 2 ^ bits"

definition prefix_length :: "nat \<Rightarrow> string \<Rightarrow> nat option" where
  "prefix_length w s = (if s = [] \<or> \<not> list_all is_digit s then None
     else let v = digits_value 10 s in if v \<le> w then Some v else None)"

text \<open>A mask written as an address: a net mask, or else a host mask.\<close>

definition mask_prefix :: "string \<Rightarrow> nat option" where
  "mask_prefix s = (case parse_ipv4 s of
     None \<Rightarrow> None
   | Some m \<Rightarrow>
     (case find (\<lambda>p. m = 2 ^ 32 - 2 ^ (32 - p)) [0..<33] of
        Some p \<Rightarrow> Some p
      | None \<Rightarrow> find (\<lambda>p. m = 2 ^ (32 - p) - 1) [0..<33]))"

definition network4 :: "string list \<Rightarrow> ip_net option" where
  "network4 parts = (case parts of
     [a] \<Rightarrow> map_option (\<lambda>i. Net4 i 0) (parse_ipv4 a)
   | [a, m] \<Rightarrow> (case (parse_ipv4 a,
         case prefix_length 32 m of Some p \<Rightarrow> Some p | None \<Rightarrow> mask_prefix m) of
       (Some i, Some p) \<Rightarrow> Some (Net4 (clear_host (32 - p) i) (32 - p))
     | _ \<Rightarrow> None)
   | _ \<Rightarrow> None)"

definition network6 :: "string list \<Rightarrow> ip_net option" where
  "network6 parts = (case parts of
     [a] \<Rightarrow> map_option (\<lambda>i. Net6 i 0) (parse_ipv6 a)
   | [a, m] \<Rightarrow> (case (parse_ipv6 a, prefix_length 128 m) of
       (Some i, Some p) \<Rightarrow> Some (Net6 (clear_host (128 - p) i) (128 - p))
     | _ \<Rightarrow> None)
   | _ \<Rightarrow> None)"

definition ip_network :: "string \<Rightarrow> ip_net option" where
  "ip_network s = (let parts = split_on CHR ''/'' s in
     case network4 parts of Some n \<Rightarrow> Some n | None \<Rightarrow> network6 parts)"

fun ip_in :: "ip \<Rightarrow> ip_net \<Rightarrow> bool" where
  "ip_in (IPv4 i) (Net4 n bits) = (clear_host bits i = n)"
| "ip_in (IPv6 i) (Net6 n bits) = (clear_host bits i = n)"
| "ip_in _ _ = False"

lemma clear_host_eq_iff: "clear_host b i = clear_host b j \<longleftrightarrow> i div 2 ^ b = j div 2 ^ b"
  by (auto simp: clear_host_def)

end
