(* ===== verification/Tenancy.thy ===== *)
theory Tenancy
  imports Formats Permissions RateLimiter
begin

text \<open>
  From a request to its tenant: \<open>src/asterion/tenancy/schema_names.py\<close>, \<open>context.py\<close>,
  \<open>resolver.py\<close> (slug extraction and the per-process cache), \<open>middleware.py\<close> (the tenant's state
  and its address allowlist), \<open>schema_strategy.py\<close> and \<open>guard.py\<close> (the search path), and
  \<open>src/asterion/core/tenant_rate_limit.py\<close>.
\<close>

section \<open>Schema names\<close>

text \<open>\<open>re.sub(r"_+", "_", s)\<close>\<close>

fun squeeze :: "char \<Rightarrow> string \<Rightarrow> string" where
  "squeeze c [] = []"
| "squeeze c (x # xs) = (if x = c \<and> xs \<noteq> [] \<and> hd xs = c then squeeze c xs else x # squeeze c xs)"

definition make_tenant_schema_name :: "pyval \<Rightarrow> string res" where
  "make_tenant_schema_name v = rbind (validate_tenant_slug v) (\<lambda>slug.
     let normalized = strip_chars ''_'' (squeeze CHR ''_'' (map (\<lambda>c. if c = CHR ''-'' then CHR ''_'' else c) slug)) in
     if normalized = []
     then Inl (PyExc InvalidSchemaNameError ''Tenant slug does not produce a valid schema name.'')
     else validate_schema_name (VStr (rstrip_chars ''_'' (take 63 (''tenant_'' @ normalized)))))"

definition tenant_schema_ok :: "string \<Rightarrow> unit res" where
  "tenant_schema_ok schema_name =
    (if \<not> startswith schema_name ''tenant_''
     then Inl (PyExc InvalidSchemaNameError
       (''Tenant schema name must start with '' @ repr_str ''tenant_'' @ '': '' @ repr_str schema_name))
     else rbind (validate_schema_name (VStr schema_name)) (\<lambda>_. Inr ()))"

text \<open>The first entry of the connection's search path after \<open>SET LOCAL\<close>.\<close>

definition set_search_path :: "string \<Rightarrow> (string list, unit) proc" where
  "set_search_path schema_name = sbind (lift_res (tenant_schema_ok schema_name)) (\<lambda>_.
     modify (\<lambda>_. [schema_name, ''public'']))"

definition NON_TENANT_SCHEMAS :: "string list" where
  "NON_TENANT_SCHEMAS = ['''', ''public'', ''$user'', ''pg_catalog'']"

text \<open>\<open>raw\<close> is what \<open>current_setting('search_path', true)\<close> returns.\<close>

definition assert_tenant_search_path :: "bool \<Rightarrow> string option \<Rightarrow> unit res" where
  "assert_tenant_search_path is_postgres raw =
    (if \<not> is_postgres then Inr ()
     else let first = strip_chars [dquote] (strip (hd (split_on CHR '','' (case raw of None \<Rightarrow> [] | Some r \<Rightarrow> r)))) in
       if first \<in> set NON_TENANT_SCHEMAS
       then Inl (PyExc (OtherExc ''TenantScopeError'')
         (''Tenant-scoped write attempted without a tenant search_path (current: ''
          @ (case raw of None \<Rightarrow> ''None'' | Some r \<Rightarrow> repr_str r)
          @ ''). Refusing to write into the wrong schema.''))
       else Inr ())"

section \<open>Tenants\<close>

record tenant_row =
  te_id :: nat
  te_slug :: string
  te_name :: string
  te_is_active :: bool
  te_schema_name :: string
  te_allowed_cidrs :: "string option"
  te_offboarded_at :: "int option"

record tenant_context =
  tc_id :: nat
  tc_slug :: string
  tc_name :: string
  tc_is_active :: bool
  tc_schema_name :: string
  tc_allowed_cidrs :: "string option"

definition from_orm :: "tenant_row \<Rightarrow> tenant_context" where
  "from_orm t = \<lparr>tc_id = te_id t, tc_slug = te_slug t, tc_name = te_name t,
     tc_is_active = te_is_active t, tc_schema_name = te_schema_name t,
     tc_allowed_cidrs = te_allowed_cidrs t\<rparr>"

text \<open>\<open>BuiltinTenantProvider.resolve_tenant\<close> of \<open>src/asterion/providers/tenants.py\<close>.\<close>

definition admin_tenant :: "tenant_context option \<Rightarrow> tenant option" where
  "admin_tenant ctx = map_option (\<lambda>c. \<lparr>tn_id = uuid_str (tc_id c), tn_slug = tc_slug c,
     tn_name = Some (tc_name c), tn_schema_name = Some (tc_schema_name c)\<rparr>) ctx"

section \<open>Resolution\<close>

record tenant_config =
  tg_resolution :: string
  tg_header_name :: string
  tg_ttl :: int

record web_request =
  wr_http :: http_request
  wr_headers :: "(string \<times> string) list"

text \<open>Header names compare without case.\<close>

definition header :: "web_request \<Rightarrow> string \<Rightarrow> string option" where
  "header r name = map_of (map (\<lambda>(k, v). (lower k, v)) (wr_headers r)) (lower name)"

definition resolution_strategy :: "tenant_config option \<Rightarrow> string \<times> string" where
  "resolution_strategy cfg = (case cfg of
     None \<Rightarrow> (''header'', ''X-Tenant-Slug'')
   | Some c \<Rightarrow> (if tg_resolution c = [] then ''header'' else tg_resolution c,
       if tg_header_name c = [] then ''X-Tenant-Slug'' else tg_header_name c))"

definition normalize_slug :: "string option \<Rightarrow> string option" where
  "normalize_slug v = (case v of
     None \<Rightarrow> None
   | Some s \<Rightarrow> if lower (strip s) = [] then None else Some (lower (strip s)))"

definition extract_slug :: "tenant_config option \<Rightarrow> web_request \<Rightarrow> string option" where
  "extract_slug cfg r = (case resolution_strategy cfg of (strategy, header_name) \<Rightarrow>
     if strategy = ''subdomain'' then
       let host = hd (split_on CHR '':'' (case header r ''host'' of None \<Rightarrow> [] | Some h \<Rightarrow> h));
           parts = split_on CHR ''.'' host
       in if 2 \<le> length parts then normalize_slug (Some (hd parts)) else None
     else normalize_slug (header r header_name))"

text \<open>The cache: slug, context or \<open>None\<close> for an unknown tenant, expiry.\<close>

type_synonym tenant_cache = "(string \<times> tenant_context option \<times> int) list"

definition mem_get :: "int \<Rightarrow> tenant_cache \<Rightarrow> string \<Rightarrow> tenant_context option option" where
  "mem_get now cache slug = (case map_of cache slug of
     None \<Rightarrow> None
   | Some (ctx, expiry) \<Rightarrow> if now < expiry then Some ctx else None)"

definition mem_set :: "int \<Rightarrow> string \<Rightarrow> tenant_context option \<Rightarrow> int \<Rightarrow> tenant_cache \<Rightarrow> tenant_cache" where
  "mem_set now slug ctx ttl cache =
    (if ttl \<le> 0 then AList.delete slug cache else AList.update slug (ctx, now + ttl) cache)"

definition invalidate_tenant :: "string \<Rightarrow> tenant_cache \<Rightarrow> tenant_cache" where
  "invalidate_tenant slug cache = AList.delete slug cache"

definition clear_tenant_cache :: "tenant_cache \<Rightarrow> tenant_cache" where
  "clear_tenant_cache cache = []"

text \<open>\<open>lookup\<close> is the \<open>SELECT\<close> on the tenants table at the time of the request.\<close>

definition resolve_tenant ::
    "tenant_config \<Rightarrow> (string \<Rightarrow> tenant_row option) \<Rightarrow> int \<Rightarrow> web_request \<Rightarrow> tenant_cache
      \<Rightarrow> tenant_context option \<times> tenant_cache" where
  "resolve_tenant cfg lookup now r cache = (case extract_slug (Some cfg) r of
     None \<Rightarrow> (None, cache)
   | Some slug \<Rightarrow> (case mem_get now cache slug of
       Some ctx \<Rightarrow> (ctx, cache)
     | None \<Rightarrow>
       let ctx = map_option from_orm (lookup slug) in (ctx, mem_set now slug ctx (tg_ttl cfg) cache)))"

section \<open>The middleware\<close>

text \<open>The request goes on with its tenant, or is answered with the error envelope.\<close>

datatype mw_outcome = Pass "tenant_context option" | Respond nat string string

definition network_of :: "pyval \<Rightarrow> ip_net option" where
  "network_of v = (case v of
     VStr s \<Rightarrow> ip_network s
   | VInt n \<Rightarrow> if 0 \<le> n \<and> n < 2 ^ 32 then Some (Net4 n 0)
       else if 0 \<le> n \<and> n < 2 ^ 128 then Some (Net6 n 0) else None
   | VBool b \<Rightarrow> Some (Net4 (if b then 1 else 0) 0)
   | _ \<Rightarrow> None)"

text \<open>\<open>any(addr in ip_network(c, strict=False) for c in cidrs if c)\<close>\<close>

fun in_allowlist :: "ip \<Rightarrow> pyval list \<Rightarrow> bool res" where
  "in_allowlist addr [] = Inr False"
| "in_allowlist addr (c # cs) =
    (if \<not> truthy c then in_allowlist addr cs
     else case network_of c of
       None \<Rightarrow> Inl (PyExc ValueError (py_repr c @ '' does not appear to be an IPv4 or IPv6 network''))
     | Some n \<Rightarrow> if ip_in addr n then Inr True else in_allowlist addr cs)"

definition split_lines :: "string \<Rightarrow> string list" where
  "split_lines s = split_on CHR 0x0A (map (\<lambda>c. if ord c \<in> {11, 12, 13, 28, 29, 30, 133} then CHR 0x0A else c) s)"

definition cidr_list :: "string \<Rightarrow> pyval list res" where
  "cidr_list text = (case json_loads text of
     None \<Rightarrow> Inr (map VStr (filter (\<lambda>c. c \<noteq> []) (map strip (split_lines text))))
   | Some (VList xs) \<Rightarrow> Inr xs
   | Some (VDict d) \<Rightarrow> Inr (map (\<lambda>e. VStr (fst e)) d)
   | Some (VStr s) \<Rightarrow> Inr (map (\<lambda>c. VStr [c]) s)
   | Some v \<Rightarrow> Inl (PyExc TypeError (repr_str (type_name v) @ '' object is not iterable'')))"

text \<open>The message of the refusal, if the address is refused.\<close>

definition check_address :: "http_request \<Rightarrow> string \<Rightarrow> string option res" where
  "check_address rq allowed = (case request_client_ip rq of
     None \<Rightarrow> Inr (Some ''Access denied: client IP could not be determined.'')
   | Some peer \<Rightarrow>
     if peer = []
     then Inr (Some ''Access denied: client IP could not be determined.'')
     else case ip_address peer of
       None \<Rightarrow> Inl (PyExc ValueError
         (repr_str peer @ '' does not appear to be an IPv4 or IPv6 address''))
     | Some addr \<Rightarrow> rbind (cidr_list allowed) (\<lambda>cidrs. rbind (in_allowlist addr cidrs) (\<lambda>ok.
         Inr (if ok then None
              else Some ''Access denied: IP not in tenant allowlist.''))))"

definition tenant_dispatch ::
    "tenant_config \<Rightarrow> (string \<Rightarrow> tenant_row option) \<Rightarrow> int \<Rightarrow> web_request \<Rightarrow> tenant_cache
      \<Rightarrow> mw_outcome res \<times> tenant_cache" where
  "tenant_dispatch cfg lookup now r cache = (case extract_slug (Some cfg) r of
     None \<Rightarrow> (Inr (Pass None), cache)
   | Some slug \<Rightarrow> (case resolve_tenant cfg lookup now r cache of (ctx, cache') \<Rightarrow>
       (case ctx of
          None \<Rightarrow> Inr (Respond 404 ''not_found'' (''Tenant '' @ repr_str slug @ '' not found.''))
        | Some c \<Rightarrow>
          if \<not> tc_is_active c
          then Inr (Respond 403 ''forbidden'' (''Tenant '' @ repr_str slug @ '' is disabled.''))
          else (case tc_allowed_cidrs c of
              None \<Rightarrow> Inr (Pass (Some c))
            | Some allowed \<Rightarrow>
              if allowed = [] then Inr (Pass (Some c))
              else rbind (check_address (wr_http r) allowed) (\<lambda>refusal.
                Inr (case refusal of None \<Rightarrow> Pass (Some c) | Some message \<Rightarrow> Respond 403 ''forbidden'' message))),
        cache')))"

text \<open>\<open>TenantRateLimitMiddleware.dispatch\<close> over the in-process backend: \<open>None\<close> passes.\<close>

definition rate_limit_dispatch ::
    "bool \<Rightarrow> tenant_config option \<Rightarrow> int \<Rightarrow> web_request \<Rightarrow> in_memory_limiter option
      \<Rightarrow> mw_outcome option \<times> in_memory_limiter option" where
  "rate_limit_dispatch enabled cfg now r backend =
    (if \<not> enabled then (None, backend)
     else case backend of
       None \<Rightarrow> (None, None)
     | Some l \<Rightarrow> (case extract_slug cfg r of
         None \<Rightarrow> (None, Some l)
       | Some slug \<Rightarrow> (case is_limited l (''tenant:'' @ slug) now of (limited, l1) \<Rightarrow>
           if limited
           then (Some (Respond 429 ''rate_limited'' ''Per-tenant rate limit exceeded. Please retry later.''), Some l1)
           else (None, Some (record_failure l1 (''tenant:'' @ slug) now)))))"

section \<open>Runs of the cache\<close>

text \<open>\<open>tbl u\<close> is the tenants table at time \<open>u\<close>, as the \<open>SELECT\<close> of a request at that time reads it;
  other processes may change it at any time.  The steps of one process: a request, an eviction
  (\<open>offboard_tenant\<close> ends with one), a cleared cache.\<close>

inductive tenant_run ::
    "tenant_config \<Rightarrow> (int \<Rightarrow> string \<Rightarrow> tenant_row option) \<Rightarrow> int \<Rightarrow> tenant_cache \<Rightarrow> bool" for cfg tbl where
  start: "tenant_run cfg tbl t []"
| serve: "tenant_run cfg tbl t cache \<Longrightarrow> t \<le> now \<Longrightarrow>
    tenant_run cfg tbl now (snd (tenant_dispatch cfg (tbl now) now r cache))"
| evict: "tenant_run cfg tbl t cache \<Longrightarrow> tenant_run cfg tbl t (invalidate_tenant slug cache)"
| wipe: "tenant_run cfg tbl t cache \<Longrightarrow> tenant_run cfg tbl t (clear_tenant_cache cache)"

text \<open>Every entry is what the table held when it was read, and ends with its time to live.\<close>

definition cache_ok ::
    "tenant_config \<Rightarrow> (int \<Rightarrow> string \<Rightarrow> tenant_row option) \<Rightarrow> int \<Rightarrow> tenant_cache \<Rightarrow> bool" where
  "cache_ok cfg tbl t cache \<longleftrightarrow> (\<forall>slug ctx e. map_of cache slug = Some (ctx, e) \<longrightarrow>
     (\<exists>u \<le> t. e = u + tg_ttl cfg \<and> ctx = map_option from_orm (tbl u slug)))"

lemma cache_ok_Nil [simp]: "cache_ok cfg tbl t []"
  by (simp add: cache_ok_def)

lemma cache_ok_later: "cache_ok cfg tbl t cache \<Longrightarrow> t \<le> t' \<Longrightarrow> cache_ok cfg tbl t' cache"
  unfolding cache_ok_def by (meson order_trans)

lemma cache_ok_delete: "cache_ok cfg tbl t cache \<Longrightarrow> cache_ok cfg tbl t (AList.delete slug cache)"
  by (auto simp: cache_ok_def delete_conv' restrict_map_def split: if_splits)

lemma cache_ok_set:
  assumes "cache_ok cfg tbl now cache"
  shows "cache_ok cfg tbl now (mem_set now slug (map_option from_orm (tbl now slug)) (tg_ttl cfg) cache)"
  using assms cache_ok_delete [OF assms]
  by (auto simp: mem_set_def cache_ok_def update_conv' split: if_splits)

lemma cache_ok_resolve:
  assumes "cache_ok cfg tbl now cache"
  shows "cache_ok cfg tbl now (snd (resolve_tenant cfg (tbl now) now r cache))"
  using assms cache_ok_set by (simp add: resolve_tenant_def Let_def split: option.split)

lemma snd_dispatch:
  "snd (tenant_dispatch cfg lookup now r cache) = snd (resolve_tenant cfg lookup now r cache)"
  by (simp add: tenant_dispatch_def resolve_tenant_def split: option.split prod.split)

lemma tenant_run_ok: "tenant_run cfg tbl t cache \<Longrightarrow> cache_ok cfg tbl t cache"
  by (induction rule: tenant_run.induct)
    (auto simp: snd_dispatch invalidate_tenant_def clear_tenant_cache_def
      intro: cache_ok_resolve cache_ok_delete cache_ok_later)

text \<open>What a lookup answers was in the table at most one time to live ago.\<close>

lemma resolve_fresh:
  assumes "cache_ok cfg tbl t cache" and "t \<le> now" and "extract_slug (Some cfg) r = Some slug"
  obtains u where "u \<le> now" "u = now \<or> now < u + tg_ttl cfg"
    "fst (resolve_tenant cfg (tbl now) now r cache) = map_option from_orm (tbl u slug)"
proof (cases "mem_get now cache slug")
  case None
  then show thesis using assms(3) that [of now] by (simp add: resolve_tenant_def Let_def)
next
  case (Some ctx)
  then obtain e where e: "map_of cache slug = Some (ctx, e)" "now < e"
    by (auto simp: mem_get_def split: option.splits if_splits)
  then obtain u where "u \<le> t" "e = u + tg_ttl cfg" "ctx = map_option from_orm (tbl u slug)"
    using assms(1) unfolding cache_ok_def by blast
  then show thesis
    using e Some assms(2,3) that [of u] by (simp add: resolve_tenant_def)
qed

section \<open>Properties\<close>

text \<open>The client's address, as the middleware takes it, lies in a network of the allowlist.\<close>

definition address_allowed :: "http_request \<Rightarrow> string option \<Rightarrow> bool" where
  "address_allowed rq cidrs = (case cidrs of None \<Rightarrow> True | Some allowed \<Rightarrow>
     allowed = [] \<or> (\<exists>peer addr nets c n. request_client_ip rq = Some peer
       \<and> ip_address peer = Some addr \<and> cidr_list allowed = Inr nets \<and> c \<in> set nets
       \<and> network_of c = Some n \<and> ip_in addr n))"

lemma in_allowlist_True:
  "in_allowlist addr cs = Inr True \<Longrightarrow> \<exists>c n. c \<in> set cs \<and> network_of c = Some n \<and> ip_in addr n"
  by (induction cs) (auto split: if_splits option.splits)

lemma check_address_None:
  assumes "check_address rq allowed = Inr None"
  shows "address_allowed rq (Some allowed)"
proof -
  obtain peer addr nets where "request_client_ip rq = Some peer" "ip_address peer = Some addr"
      "cidr_list allowed = Inr nets" "in_allowlist addr nets = Inr True"
    using assms by (auto simp: check_address_def res_simps split: option.splits if_splits)
  then show ?thesis
    using in_allowlist_True by (fastforce simp: address_allowed_def)
qed

lemma dispatch_Pass:
  assumes "tenant_dispatch cfg lookup now r cache = (Inr (Pass (Some ctx)), cache')"
  obtains slug where "extract_slug (Some cfg) r = Some slug"
    "fst (resolve_tenant cfg lookup now r cache) = Some ctx"
    "tc_is_active ctx" "address_allowed (wr_http r) (tc_allowed_cidrs ctx)"
proof -
  obtain slug c1 where s: "extract_slug (Some cfg) r = Some slug"
      "resolve_tenant cfg lookup now r cache = (Some ctx, c1)" "tc_is_active ctx"
    using assms by (auto simp: tenant_dispatch_def res_simps
        split: option.splits prod.splits if_splits)
  moreover have "address_allowed (wr_http r) (tc_allowed_cidrs ctx)"
  proof (cases "tc_allowed_cidrs ctx")
    case (Some allowed)
    show ?thesis
    proof (cases "allowed = []")
      case False
      then have "check_address (wr_http r) allowed = Inr None"
        using assms s Some by (auto simp: tenant_dispatch_def res_simps split: option.splits)
      then show ?thesis using Some check_address_None by simp
    qed (simp add: Some address_allowed_def)
  qed (simp add: address_allowed_def)
  ultimately show thesis using that by simp
qed

text \<open>C23: in every run of the middleware, a request that goes on with a tenant names a tenant whose
  row was in the table, active and with an allowlist that admits the caller's address, now or at
  most one time to live ago: a tenant that is disabled, deleted or closed to an address stops being
  served within that time.\<close>

theorem admitted_tenant_was_live:
  assumes "tenant_run cfg tbl t cache" and "t \<le> now"
    and "tenant_dispatch cfg (tbl now) now r cache = (Inr (Pass (Some ctx)), cache')"
  shows "\<exists>slug u row. extract_slug (Some cfg) r = Some slug
    \<and> u \<le> now \<and> (u = now \<or> now < u + tg_ttl cfg)
    \<and> tbl u slug = Some row \<and> ctx = from_orm row \<and> te_is_active row
    \<and> address_allowed (wr_http r) (te_allowed_cidrs row)"
proof -
  obtain slug where s: "extract_slug (Some cfg) r = Some slug"
      "fst (resolve_tenant cfg (tbl now) now r cache) = Some ctx"
      "tc_is_active ctx" "address_allowed (wr_http r) (tc_allowed_cidrs ctx)"
    using dispatch_Pass [OF assms(3)] .
  obtain u where u: "u \<le> now" "u = now \<or> now < u + tg_ttl cfg"
      "fst (resolve_tenant cfg (tbl now) now r cache) = map_option from_orm (tbl u slug)"
    using resolve_fresh [OF tenant_run_ok [OF assms(1)] assms(2) s(1)] .
  then obtain row where "tbl u slug = Some row" "ctx = from_orm row"
    using s(2) by (cases "tbl u slug") auto
  then show ?thesis using s u by (auto simp: from_orm_def)
qed

definition demo_tenants :: "int \<Rightarrow> string \<Rightarrow> tenant_row option" where
  "demo_tenants t slug = (if slug = ''acme'' then Some \<lparr>te_id = 7, te_slug = ''acme'', te_name = ''Acme'',
     te_is_active = True, te_schema_name = ''tenant_acme'', te_allowed_cidrs = Some ''10.0.0.0/8'',
     te_offboarded_at = None\<rparr> else None)"

definition demo_tenant_config :: tenant_config where
  "demo_tenant_config = \<lparr>tg_resolution = ''header'', tg_header_name = ''X-Tenant-Slug'', tg_ttl = 30\<rparr>"

definition demo_tenant_request :: web_request where
  "demo_tenant_request = \<lparr>wr_http = \<lparr>rq_method = ''GET'', rq_path = ''/'',
     rq_peer = Some ''10.1.2.3'', rq_forwarded_for = None, rq_trusted_proxies = None\<rparr>,
     wr_headers = [(''x-tenant-slug'', '' Acme'')]\<rparr>"

definition demo_tenant :: tenant_context where
  "demo_tenant = \<lparr>tc_id = 7, tc_slug = ''acme'', tc_name = ''Acme'', tc_is_active = True,
     tc_schema_name = ''tenant_acme'', tc_allowed_cidrs = Some ''10.0.0.0/8''\<rparr>"

lemma admitted_tenant_was_live_witness:
  "\<exists>slug u row. extract_slug (Some demo_tenant_config) demo_tenant_request = Some slug
    \<and> u \<le> 20 \<and> (u = 20 \<or> 20 < u + tg_ttl demo_tenant_config)
    \<and> demo_tenants u slug = Some row \<and> demo_tenant = from_orm row \<and> te_is_active row
    \<and> address_allowed (wr_http demo_tenant_request) (te_allowed_cidrs row)"
proof (rule admitted_tenant_was_live)
  have "tenant_run demo_tenant_config demo_tenants 5 (snd (tenant_dispatch demo_tenant_config
      (demo_tenants 5) 5 demo_tenant_request []))"
    by (rule tenant_run.serve [OF tenant_run.start [of _ _ 0]]) simp
  moreover have "snd (tenant_dispatch demo_tenant_config (demo_tenants 5) 5 demo_tenant_request [])
      = [(''acme'', Some demo_tenant, 35)]" by code_simp
  ultimately show "tenant_run demo_tenant_config demo_tenants 5 [(''acme'', Some demo_tenant, 35)]"
    by simp
  show "tenant_dispatch demo_tenant_config (demo_tenants 20) 20 demo_tenant_request
      [(''acme'', Some demo_tenant, 35)]
    = (Inr (Pass (Some demo_tenant)), [(''acme'', Some demo_tenant, 35)])" by code_simp
qed simp

end
