(* ===== verification/Rbac.thy ===== *)
theory Rbac
  imports AuthRuns Tenancy Catalog
begin

text \<open>
  Who may do what in which tenant: the tables of \<open>src/asterion/models/tenant_membership.py\<close>,
  \<open>tenant_rbac.py\<close> and \<open>platform_rbac.py\<close>, the permission provider
  (\<open>src/asterion/providers/permissions.py\<close>), and the request context
  (\<open>build_admin_context\<close> of \<open>src/asterion/admin/context.py\<close>) with the session it runs in
  (\<open>get_async_session\<close> of \<open>src/asterion/db/dependencies.py\<close>).

  The tables without a schema live once per tenant schema; a statement reads the first schema of
  its search path that has them.
\<close>

section \<open>Tables\<close>

record membership =
  mb_id :: nat
  mb_user_id :: nat
  mb_tenant_id :: nat
  mb_is_active :: bool

text \<open>\<open>TenantRole\<close> and \<open>PlatformRole\<close> have the same columns, and so have their permission rows.\<close>

record role =
  ro_id :: nat
  ro_name :: string
  ro_description :: "string option"
  ro_is_system :: bool

record role_permission =
  rp_role_id :: nat
  rp_key :: string

record membership_role =
  mr_membership_id :: nat
  mr_role_id :: nat

record platform_user_role =
  pu_user_id :: nat
  pu_role_id :: nat

record tenant_tables =
  tt_roles :: "role list"
  tt_permissions :: "role_permission list"
  tt_links :: "membership_role list"

record site_db =
  sd_tenants :: "tenant_row list"
  sd_memberships :: "membership list"
  sd_catalog :: "catalog_row list"
  sd_platform_roles :: "role list"
  sd_platform_permissions :: "role_permission list"
  sd_platform_users :: "platform_user_role list"
  sd_schemas :: "(string \<times> tenant_tables) list"

record site =
  st_server :: server
  st_db :: site_db

text \<open>\<open>sn_postgres\<close> is whether the database URL names PostgreSQL; on SQLite the one schema is
  \<open>main\<close>.  \<open>sn_flush\<close> is what the database answers to a flush.\<close>

record 't site_env =
  sn_auth :: "'t auth_env"
  sn_postgres :: bool
  sn_multi_tenant :: bool
  sn_require_superadmin :: bool
  sn_invite_ttl :: int
  sn_invite_notifier :: bool
  sn_flush :: "site \<Rightarrow> exn option"

type_synonym 'a handler = "(site, 'a) proc"

section \<open>Access to the state\<close>

definition on_server :: "'a serve \<Rightarrow> 'a handler" where
  "on_server m = (\<lambda>s. case m (st_server s) of (r, v) \<Rightarrow> (r, s\<lparr>st_server := v\<rparr>))"

definition sd_gets :: "(site_db \<Rightarrow> 'a) \<Rightarrow> 'a handler" where
  "sd_gets f = gets (\<lambda>s. f (st_db s))"

definition sd_modify :: "(site_db \<Rightarrow> site_db) \<Rightarrow> unit handler" where
  "sd_modify f = modify (\<lambda>s. s\<lparr>st_db := f (st_db s)\<rparr>)"

definition sn_flushed :: "'t site_env \<Rightarrow> unit handler" where
  "sn_flushed env = (\<lambda>s. (case sn_flush env s of None \<Rightarrow> Inr () | Some e \<Rightarrow> Inl e, s))"

definition new_id :: "'t site_env \<Rightarrow> nat handler" where
  "new_id env = on_server (draw (cr_uuid4 (en_crypto (sn_auth env))))"

text \<open>The schema a table without one is found in.\<close>

definition local_schema :: "'t site_env \<Rightarrow> string list \<Rightarrow> site_db \<Rightarrow> string option" where
  "local_schema env path db =
     find (\<lambda>n. map_of (sd_schemas db) n \<noteq> None) (if sn_postgres env then path else [''main''])"

definition undefined_table :: exn where
  "undefined_table = PyExc (OtherExc ''ProgrammingError'') ''relation does not exist''"

definition schema_tables :: "string \<Rightarrow> site_db \<Rightarrow> tenant_tables" where
  "schema_tables n db = the (map_of (sd_schemas db) n)"

definition set_tables :: "string \<Rightarrow> tenant_tables \<Rightarrow> site_db \<Rightarrow> site_db" where
  "set_tables n t db = db\<lparr>sd_schemas := AList.update n t (sd_schemas db)\<rparr>"

definition tt_gets :: "'t site_env \<Rightarrow> string list \<Rightarrow> (tenant_tables \<Rightarrow> 'a) \<Rightarrow> 'a handler" where
  "tt_gets env path f = (\<lambda>s. (case local_schema env path (st_db s) of
     None \<Rightarrow> Inl undefined_table | Some n \<Rightarrow> Inr (f (schema_tables n (st_db s))), s))"

definition tt_modify ::
    "'t site_env \<Rightarrow> string list \<Rightarrow> (tenant_tables \<Rightarrow> tenant_tables) \<Rightarrow> unit handler" where
  "tt_modify env path f = (\<lambda>s. case local_schema env path (st_db s) of
     None \<Rightarrow> (Inl undefined_table, s)
   | Some n \<Rightarrow> (Inr (), s\<lparr>st_db := set_tables n (f (schema_tables n (st_db s))) (st_db s)\<rparr>))"

section \<open>The request's session\<close>

definition session_path :: "'t site_env \<Rightarrow> tenant_context option \<Rightarrow> string list res" where
  "session_path env tctx = (case tctx of
     None \<Rightarrow> Inr [''public'']
   | Some c \<Rightarrow>
     if sn_postgres env
     then (case set_search_path (tc_schema_name c) [''public''] of
       (Inl e, _) \<Rightarrow> Inl e | (Inr _, path) \<Rightarrow> Inr path)
     else Inr [''public''])"

text \<open>One transaction: an exception rolls every table back.\<close>

definition in_session :: "'t site_env \<Rightarrow> tenant_context option \<Rightarrow> (string list \<Rightarrow> 'a handler) \<Rightarrow> 'a handler" where
  "in_session env tctx body = (\<lambda>s.
     case sbind (lift_res (session_path env tctx)) body s of
       (Inl e, s') \<Rightarrow> (Inl e, s'\<lparr>st_db := st_db s,
         st_server := (st_server s')\<lparr>sv_db := sv_db (st_server s)\<rparr>\<rparr>)
     | (Inr x, s') \<Rightarrow> (Inr x, s'))"

section \<open>Effective permissions\<close>

text \<open>A text bound to a UUID column.\<close>

definition bind_uuid :: "string \<Rightarrow> nat res" where
  "bind_uuid text = (case uuid_parse text of
     Some u \<Rightarrow> Inr u
   | None \<Rightarrow> Inl (PyExc (OtherExc ''StatementError'') ''badly formed hexadecimal UUID string''))"

definition scalar_one_or_none :: "'a list \<Rightarrow> 'a option res" where
  "scalar_one_or_none rows = (case rows of
     [] \<Rightarrow> Inr None
   | [x] \<Rightarrow> Inr (Some x)
   | _ \<Rightarrow> Inl (PyExc (OtherExc ''MultipleResultsFound'')
       ''Multiple rows were found when one or none was required''))"

text \<open>The keys of the roles with these ids.\<close>

definition keys_of_roles :: "role list \<Rightarrow> role_permission list \<Rightarrow> nat list \<Rightarrow> string list" where
  "keys_of_roles roles perms ids = remdups (map rp_key (filter
     (\<lambda>p. rp_role_id p \<in> set (map ro_id (filter (\<lambda>r. ro_id r \<in> set ids) roles))) perms))"

definition platform_permissions :: "principal \<Rightarrow> site_db \<Rightarrow> string list res" where
  "platform_permissions user db = rbind (bind_uuid (pr_id user)) (\<lambda>uid.
     Inr (keys_of_roles (sd_platform_roles db) (sd_platform_permissions db)
       (map pu_role_id (filter (\<lambda>l. pu_user_id l = uid) (sd_platform_users db)))))"

definition schema_for :: "tenant \<Rightarrow> string res" where
  "schema_for t = (case tn_schema_name t of
     Some n \<Rightarrow> if n \<noteq> [] then Inr n else make_tenant_schema_name (VStr (tn_slug t))
   | None \<Rightarrow> make_tenant_schema_name (VStr (tn_slug t)))"

definition membership_of :: "nat \<Rightarrow> nat \<Rightarrow> site_db \<Rightarrow> membership list" where
  "membership_of uid tid db =
     filter (\<lambda>m. mb_user_id m = uid \<and> mb_tenant_id m = tid \<and> mb_is_active m) (sd_memberships db)"

definition role_keys :: "'t site_env \<Rightarrow> string list \<Rightarrow> nat \<Rightarrow> site_db \<Rightarrow> string list res" where
  "role_keys env path mid db = (case local_schema env path db of
     None \<Rightarrow> Inl undefined_table
   | Some n \<Rightarrow> let t = schema_tables n db in
       Inr (keys_of_roles (tt_roles t) (tt_permissions t)
         (map mr_role_id (filter (\<lambda>l. mr_membership_id l = mid) (tt_links t)))))"

text \<open>\<open>has_request\<close> is whether the caller passed the request.\<close>

definition get_permissions ::
    "'t site_env \<Rightarrow> bool \<Rightarrow> principal \<Rightarrow> tenant option \<Rightarrow> site_db \<Rightarrow> string list res" where
  "get_permissions env has_request user tenant db =
    (if pr_is_superadmin user then Inr [''admin.*'', ''platform.*'']
     else if \<not> has_request then Inr []
     else case tenant of
       None \<Rightarrow> platform_permissions user db
     | Some t \<Rightarrow>
       if \<not> sn_postgres env then Inr []
       else rbind (bind_uuid (pr_id user)) (\<lambda>uid. rbind (bind_uuid (tn_id t)) (\<lambda>tid.
         rbind (scalar_one_or_none (membership_of uid tid db)) (\<lambda>membership.
         case membership of
           None \<Rightarrow> Inr []
         | Some m \<Rightarrow>
           rbind (schema_for t) (\<lambda>schema. rbind (tenant_schema_ok schema) (\<lambda>_.
           role_keys env [schema, ''public''] (mb_id m) db))))))"

section \<open>The request context\<close>

text \<open>\<open>tctx\<close> is \<open>request.state.tenant\<close>, what the tenant middleware left.\<close>

definition build_admin_context ::
    "'t site_env \<Rightarrow> int \<Rightarrow> 't credentials \<Rightarrow> tenant_context option \<Rightarrow> admin_ctx handler" where
  "build_admin_context env now credentials tctx =
     sbind (on_server (authenticate_request (sn_auth env) now credentials)) (\<lambda>identity.
     sbind (case identity of None \<Rightarrow> ret None
       | Some (user_id, _) \<Rightarrow> on_server (get_by_id user_id)) (\<lambda>principal.
     sbind (case principal of None \<Rightarrow> ret []
       | Some p \<Rightarrow> sbind (sd_gets (get_permissions env True p (admin_tenant tctx))) lift_res)
     (\<lambda>permissions.
     ret \<lparr>ctx_principal = principal, ctx_tenant = admin_tenant tctx,
       ctx_permissions = permissions,
       ctx_require_superadmin = Some (sn_require_superadmin env)\<rparr>)))"

definition require_admin_context ::
    "'t site_env \<Rightarrow> int \<Rightarrow> 't credentials \<Rightarrow> tenant_context option \<Rightarrow> admin_ctx handler" where
  "require_admin_context env now credentials tctx =
     sbind (build_admin_context env now credentials tctx) (\<lambda>ctx.
     if ctx_principal ctx = None
     then throw (HTTPExc 401 (VStr ''Authentication required.'') [(''WWW-Authenticate'', ''Bearer'')])
     else ret ctx)"

text \<open>A route: the context first, then the session, then the handler.\<close>

definition admin_route ::
    "'t site_env \<Rightarrow> int \<Rightarrow> 't credentials \<Rightarrow> tenant_context option
      \<Rightarrow> (string list \<Rightarrow> admin_ctx \<Rightarrow> 'a handler) \<Rightarrow> 'a handler" where
  "admin_route env now credentials tctx body =
     sbind (require_admin_context env now credentials tctx) (\<lambda>ctx.
     in_session env tctx (\<lambda>path. body path ctx))"

section \<open>What a handler leaves alone\<close>

text \<open>A relation between the states before and after that every step of a handler respects.\<close>

definition keeps :: "(site \<Rightarrow> site \<Rightarrow> bool) \<Rightarrow> 'a handler \<Rightarrow> bool" where
  "keeps R m \<longleftrightarrow> (\<forall>s. R s (snd (m s)))"

locale frame =
  fixes R :: "site \<Rightarrow> site \<Rightarrow> bool"
  assumes refl: "R s s" and trans: "R s t \<Longrightarrow> R t u \<Longrightarrow> R s u"
begin

lemma keeps_sbind:
  assumes "keeps R m" and "\<And>x s s'. m s = (Inr x, s') \<Longrightarrow> R s' (snd (f x s'))"
  shows "keeps R (sbind m f)"
  unfolding keeps_def
proof
  fix s
  obtain r s' where m: "m s = (r, s')" by fastforce
  moreover from this have "R s s'" using assms(1) by (metis keeps_def snd_conv)
  ultimately show "R s (snd (sbind m f s))"
    using assms(2) trans by (cases r) (auto simp: sbind_def)
qed

lemma keeps_sbind_all:
  assumes "keeps R m" and "\<And>x. keeps R (f x)"
  shows "keeps R (sbind m f)"
  using assms by (intro keeps_sbind) (simp_all add: keeps_def)

lemma keeps_pure:
  "keeps R (ret x)" "keeps R (throw e)" "keeps R (lift_res r)" "keeps R (gets f)"
  "keeps R (sd_gets g)" "keeps R (tt_gets env path h)" "keeps R (sn_flushed env)"
  by (simp_all add: keeps_def refl sd_gets_def tt_gets_def sn_flushed_def)

lemma keeps_if: "(b \<Longrightarrow> keeps R m) \<Longrightarrow> (\<not> b \<Longrightarrow> keeps R n) \<Longrightarrow> keeps R (if b then m else n)"
  by simp

lemma keeps_option:
  "keeps R m \<Longrightarrow> (\<And>x. keeps R (f x)) \<Longrightarrow> keeps R (case z of None \<Rightarrow> m | Some x \<Rightarrow> f x)"
  by (cases z) simp_all

lemma keeps_prod: "(\<And>x y. keeps R (f x y)) \<Longrightarrow> keeps R (case z of (x, y) \<Rightarrow> f x y)"
  by (cases z) simp

lemma keeps_on_server:
  assumes "\<And>s. R s (s\<lparr>st_server := snd (m (st_server s))\<rparr>)"
  shows "keeps R (on_server m)"
  using assms by (auto simp: keeps_def on_server_def split: prod.split) (metis snd_conv)

lemmas keeps_intros = keeps_pure keeps_if keeps_option keeps_prod keeps_sbind_all

end

section \<open>What the members of one tenant may change\<close>

definition own_tenant_only :: "'t site_env \<Rightarrow> string list \<Rightarrow> nat \<Rightarrow> site \<Rightarrow> site \<Rightarrow> bool" where
  "own_tenant_only env path tid s s' \<longleftrightarrow> (let db = st_db s; db' = st_db s' in
     filter (\<lambda>m. mb_tenant_id m \<noteq> tid) (sd_memberships db')
       = filter (\<lambda>m. mb_tenant_id m \<noteq> tid) (sd_memberships db)
     \<and> sd_tenants db' = sd_tenants db \<and> sd_catalog db' = sd_catalog db
     \<and> sd_platform_roles db' = sd_platform_roles db
     \<and> sd_platform_permissions db' = sd_platform_permissions db
     \<and> sd_platform_users db' = sd_platform_users db
     \<and> (\<forall>n. map_option tt_roles (map_of (sd_schemas db') n) = map_option tt_roles (map_of (sd_schemas db) n)
        \<and> map_option tt_permissions (map_of (sd_schemas db') n)
            = map_option tt_permissions (map_of (sd_schemas db) n)
        \<and> (Some n \<noteq> local_schema env path db \<longrightarrow> map_of (sd_schemas db') n = map_of (sd_schemas db) n))
     \<and> (\<exists>new. db_users (sv_db (st_server s')) = db_users (sv_db (st_server s)) @ new
        \<and> (\<forall>u \<in> set new. \<not> us_is_active u \<and> \<not> us_is_superadmin u)))"

lemma local_schema_cong:
  assumes "\<And>n. map_option f (map_of (sd_schemas db') n) = map_option f (map_of (sd_schemas db) n)"
  shows "local_schema env path db' = local_schema env path db"
proof -
  have "(map_of (sd_schemas db') n \<noteq> None) = (map_of (sd_schemas db) n \<noteq> None)" for n
    using assms [of n] by (metis map_option_is_None)
  then show ?thesis unfolding local_schema_def by presburger
qed

lemma own_tenant_only_path:
  "own_tenant_only env path tid s s' \<Longrightarrow> local_schema env path (st_db s') = local_schema env path (st_db s)"
  by (rule local_schema_cong [of tt_roles]) (simp add: own_tenant_only_def Let_def)

interpretation own_tenant: frame "own_tenant_only env path tid" for env path tid
proof
  show "own_tenant_only env path tid s s" for s
    by (simp add: own_tenant_only_def)
  fix s t u assume st: "own_tenant_only env path tid s t" and tu: "own_tenant_only env path tid t u"
  obtain new new' where n: "db_users (sv_db (st_server t)) = db_users (sv_db (st_server s)) @ new"
      "\<forall>u \<in> set new. \<not> us_is_active u \<and> \<not> us_is_superadmin u"
      "db_users (sv_db (st_server u)) = db_users (sv_db (st_server t)) @ new'"
      "\<forall>u \<in> set new'. \<not> us_is_active u \<and> \<not> us_is_superadmin u"
    using st tu by (auto simp: own_tenant_only_def Let_def)
  then have "db_users (sv_db (st_server u)) = db_users (sv_db (st_server s)) @ (new @ new')"
      "\<forall>u \<in> set (new @ new'). \<not> us_is_active u \<and> \<not> us_is_superadmin u" by auto
  then show "own_tenant_only env path tid s u"
    using st tu own_tenant_only_path [OF st] unfolding own_tenant_only_def Let_def by fastforce
qed

lemma keeps_sd_modify:
  assumes "\<And>db. filter (\<lambda>m. mb_tenant_id m \<noteq> tid) (sd_memberships (f db))
      = filter (\<lambda>m. mb_tenant_id m \<noteq> tid) (sd_memberships db)"
    and "\<And>db. f db = db\<lparr>sd_memberships := sd_memberships (f db)\<rparr>"
  shows "keeps (own_tenant_only env path tid) (sd_modify f)"
proof -
  have "sd_tenants (f db) = sd_tenants db" "sd_catalog (f db) = sd_catalog db"
    "sd_platform_roles (f db) = sd_platform_roles db"
    "sd_platform_permissions (f db) = sd_platform_permissions db"
    "sd_platform_users (f db) = sd_platform_users db" "sd_schemas (f db) = sd_schemas db" for db
    by (subst assms(2); simp)+
  then show ?thesis
    using assms(1) by (simp add: keeps_def sd_modify_def own_tenant_only_def)
qed

lemma keeps_tt_modify:
  assumes "\<And>t. tt_roles (f t) = tt_roles t" and "\<And>t. tt_permissions (f t) = tt_permissions t"
  shows "keeps (own_tenant_only env path tid) (tt_modify env path f)"
  unfolding keeps_def
proof
  fix s
  show "own_tenant_only env path tid s (snd (tt_modify env path f s))"
  proof (cases "local_schema env path (st_db s)")
    case None
    then show ?thesis by (simp add: tt_modify_def own_tenant.refl)
  next
    case (Some n)
    then obtain t where "map_of (sd_schemas (st_db s)) n = Some t"
      by (auto simp: local_schema_def find_Some_iff)
    then show ?thesis
      using Some assms
      by (simp add: tt_modify_def own_tenant_only_def set_tables_def schema_tables_def update_conv')
  qed
qed

section \<open>Operations that only read\<close>

named_theorems reads_intros \<open>operations that leave the state as it is\<close>

definition reads :: "('s, 'a) proc \<Rightarrow> bool" where
  "reads m \<longleftrightarrow> (\<forall>s. snd (m s) = s)"

lemma reads_pure [reads_intros]:
  "reads (ret x)" "reads (throw e)" "reads (lift_res r)" "reads (gets f)" "reads (db_gets g)"
  "reads (sd_gets h)" "reads (tt_gets env path k)" "reads (is_token_revoked jti)"
  by (simp_all add: reads_def db_gets_def sd_gets_def tt_gets_def)

lemma reads_sbind [reads_intros]:
  assumes "reads m" and "\<And>x. reads (f x)"
  shows "reads (sbind m f)"
  unfolding reads_def
proof
  fix s
  obtain r where m: "m s = (r, s)"
    using assms(1) by (metis prod.collapse reads_def)
  show "snd (sbind m f s) = s"
    using m assms(2) by (cases r) (simp_all add: sbind_def reads_def)
qed

lemma reads_cases [reads_intros]:
  "reads m \<Longrightarrow> reads n \<Longrightarrow> reads (if b then m else n)"
  "reads m \<Longrightarrow> (\<And>x. reads (g x)) \<Longrightarrow> reads (case z of None \<Rightarrow> m | Some x \<Rightarrow> g x)"
  "(\<And>x y. reads (h x y)) \<Longrightarrow> reads (case p of (x, y) \<Rightarrow> h x y)"
  by (simp_all split: option.split prod.split)

lemma reads_on_server [reads_intros]: "reads m \<Longrightarrow> reads (on_server m)"
  by (simp add: reads_def on_server_def case_prod_beta)

lemma reads_context [reads_intros]:
  "reads (authenticate_request e now cred)" "reads (get_by_id i)"
  "reads (build_admin_context env now cred tctx)" "reads (require_admin_context env now cred tctx)"
  unfolding require_admin_context_def build_admin_context_def authenticate_request_def get_by_id_def
  by (intro reads_intros)+

lemma reads_run: "reads m \<Longrightarrow> m s = (r, s') \<Longrightarrow> s' = s"
  by (drule spec [OF iffD1 [OF reads_def], of _ s]) simp

lemma reads_eq: "reads m \<Longrightarrow> m s = (fst (m s), s)"
  unfolding reads_def by (metis prod.collapse)

lemma fst_sbind: "reads m \<Longrightarrow> fst (sbind m f s) = (case fst (m s) of Inl e \<Rightarrow> Inl e | Inr x \<Rightarrow> fst (f x s))"
  using reads_eq [of m s] by (auto simp: sbind_def split: sum.splits prod.splits)

lemma fst_on_server [simp]: "fst (on_server m s) = fst (m (st_server s))"
  by (simp add: on_server_def case_prod_beta)

section \<open>The context of a request\<close>

lemma on_server_Inr: "on_server m s = (Inr x, s') \<longleftrightarrow>
    (\<exists>v. m (st_server s) = (Inr x, v) \<and> s' = s\<lparr>st_server := v\<rparr>)"
  by (auto simp: on_server_def split: prod.splits)

text \<open>The principal of a context: anonymous, or an active account.\<close>

lemma authenticated_account:
  assumes "authenticate_request e now cred v = (Inr (Some (ident, p)), v')"
    and "get_by_id ident v = (Inr (Some pr), v'')"
  obtains u where "us_is_active u" "us_id u < 2 ^ 128" "find_user (us_id u) (sv_db v) = Some u"
    "pr = user_principal u"
proof -
  obtain i r version jti where i: "ident = uuid_str i" "token_claims r = Inr (p, i, version, jti)"
    using assms(1) by (auto simp: authenticate_Inr)
  then have lt: "i < 2 ^ 128"
    using subject_bound by (auto simp: token_claims_Inr)
  then obtain u where u: "find_user i (sv_db v) = Some u" "us_is_active u" "pr = user_principal u"
    using assms(2) i get_by_id_Inr by blast
  moreover have "us_id u = i"
    using u(1) by (auto simp: find_user_def find_Some_iff)
  ultimately show thesis using that lt by simp
qed

text \<open>The context of an admitted request: an active account and its effective permissions.\<close>

lemma require_admin_context_Inr:
  assumes "require_admin_context env now cred tctx s = (Inr ctx, s')"
  obtains u where "s' = s" "ctx_tenant ctx = admin_tenant tctx"
    "ctx_require_superadmin ctx = Some (sn_require_superadmin env)"
    "find_user (us_id u) (sv_db (st_server s)) = Some u" "us_is_active u" "us_id u < 2 ^ 128"
    "ctx_principal ctx = Some (user_principal u)"
    "get_permissions env True (user_principal u) (admin_tenant tctx) (st_db s)
       = Inr (ctx_permissions ctx)"
proof -
  have same: "s' = s" by (rule reads_run [OF reads_context(4) assms])
  have "fst (require_admin_context env now cred tctx s) = Inr ctx" using assms by simp
  then obtain identity principal where
      a: "fst (authenticate_request (sn_auth env) now cred (st_server s)) = Inr identity"
    and g: "fst ((case identity of None \<Rightarrow> ret None
       | Some (user_id, _) \<Rightarrow> on_server (get_by_id user_id)) s) = Inr principal"
    and p: "fst ((case principal of None \<Rightarrow> ret []
       | Some p \<Rightarrow> sbind (sd_gets (get_permissions env True p (admin_tenant tctx))) lift_res) s)
         = Inr (ctx_permissions ctx)"
    and ctx: "ctx_principal ctx = principal" "principal \<noteq> None" "ctx_tenant ctx = admin_tenant tctx"
      "ctx_require_superadmin ctx = Some (sn_require_superadmin env)"
    unfolding require_admin_context_def build_admin_context_def sbind_assoc
    by (auto simp: fst_sbind reads_intros split: sum.splits if_splits)
  obtain pr where pr: "principal = Some pr" using ctx(2) by auto
  then obtain ident q where i: "identity = Some (ident, q)"
    using g by (cases identity) auto
  have "authenticate_request (sn_auth env) now cred (st_server s) = (Inr (Some (ident, q)), st_server s)"
    using a i reads_eq [OF reads_context(1)] by metis
  moreover have "get_by_id ident (st_server s) = (Inr (Some pr), st_server s)"
    using g i pr reads_eq [OF reads_context(2)] by (simp add: fst_on_server) metis
  ultimately obtain u where u: "us_is_active u" "us_id u < 2 ^ 128"
      "find_user (us_id u) (sv_db (st_server s)) = Some u" "pr = user_principal u"
    by (rule authenticated_account)
  show thesis
    using that [of u] same ctx u pr p by (simp add: sd_gets_def fst_sbind reads_intros)
qed

section \<open>Where a permission comes from\<close>

text \<open>The chain of rows behind a key a member holds in a tenant: an active membership of this
  tenant, a role of the tenant's schema linked to it, a permission of that role.\<close>

definition holds_key :: "'t site_env \<Rightarrow> tenant_context \<Rightarrow> site_db \<Rightarrow> nat \<Rightarrow> string \<Rightarrow> bool" where
  "holds_key env c db uid key \<longleftrightarrow> sn_postgres env
     \<and> (\<exists>m n r. m \<in> set (sd_memberships db) \<and> mb_user_id m = uid \<and> mb_tenant_id m = tc_id c
        \<and> mb_is_active m \<and> local_schema env [tc_schema_name c, ''public''] db = Some n
        \<and> r \<in> set (tt_roles (schema_tables n db))
        \<and> \<lparr>mr_membership_id = mb_id m, mr_role_id = ro_id r\<rparr> \<in> set (tt_links (schema_tables n db))
        \<and> \<lparr>rp_role_id = ro_id r, rp_key = key\<rparr> \<in> set (tt_permissions (schema_tables n db)))"

lemma membership_role_eta: "l = \<lparr>mr_membership_id = i, mr_role_id = j\<rparr> \<longleftrightarrow> mr_membership_id l = i \<and> mr_role_id l = j"
  by (cases l) auto

lemma role_permission_eta: "p = \<lparr>rp_role_id = i, rp_key = k\<rparr> \<longleftrightarrow> rp_role_id p = i \<and> rp_key p = k"
  by (cases p) auto

lemma link_in: "\<lparr>mr_membership_id = i, mr_role_id = j\<rparr> \<in> set ls
    \<longleftrightarrow> (\<exists>l \<in> set ls. mr_membership_id l = i \<and> mr_role_id l = j)"
  using membership_role_eta by metis

lemma linked_roles: "j \<in> set (map mr_role_id (filter (\<lambda>l. mr_membership_id l = i) ls))
    \<longleftrightarrow> \<lparr>mr_membership_id = i, mr_role_id = j\<rparr> \<in> set ls"
  unfolding link_in by auto

lemma permission_in: "\<lparr>rp_role_id = i, rp_key = k\<rparr> \<in> set ps
    \<longleftrightarrow> (\<exists>p \<in> set ps. rp_role_id p = i \<and> rp_key p = k)"
  using role_permission_eta by metis

lemma keys_of_roles_iff: "key \<in> set (keys_of_roles roles perms ids) \<longleftrightarrow>
    (\<exists>r \<in> set roles. ro_id r \<in> set ids \<and> \<lparr>rp_role_id = ro_id r, rp_key = key\<rparr> \<in> set perms)"
  unfolding keys_of_roles_def permission_in by auto

lemma scalar_one_or_none_Inr:
  "scalar_one_or_none rows = Inr x \<longleftrightarrow> rows = (case x of None \<Rightarrow> [] | Some y \<Rightarrow> [y])"
  by (auto simp: scalar_one_or_none_def split: list.splits option.splits)

lemma bind_uuid_str: "i < 2 ^ 128 \<Longrightarrow> bind_uuid (uuid_str i) = Inr i"
  by (simp add: bind_uuid_def uuid_parse_str)

lemma role_keys_Inr: "role_keys env path mid db = Inr keys \<longleftrightarrow> (\<exists>n. local_schema env path db = Some n
    \<and> keys = keys_of_roles (tt_roles (schema_tables n db)) (tt_permissions (schema_tables n db))
        (map mr_role_id (filter (\<lambda>l. mr_membership_id l = mid) (tt_links (schema_tables n db)))))"
  by (auto simp: role_keys_def Let_def split: option.splits)

text \<open>C10: inside a tenant, what an account that is not a superadmin may do is exactly what the rows of
  that tenant say: a key is effective if and only if the database is PostgreSQL and the account has
  an active membership of this tenant, linked in the tenant's own schema to a role that carries the
  key.  Roles of other tenants and platform roles give nothing here.\<close>

theorem effective_tenant_permissions:
  assumes "get_permissions env True (user_principal u) (admin_tenant (Some c)) db = Inr keys"
    and "\<not> us_is_superadmin u" and "us_id u < 2 ^ 128" and "tc_id c < 2 ^ 128"
    and "tc_schema_name c \<noteq> []"
  shows "key \<in> set keys \<longleftrightarrow> holds_key env c db (us_id u) key"
proof (cases "sn_postgres env")
  case True
  let ?path = "[tc_schema_name c, ''public'']"
  obtain mo where mo: "scalar_one_or_none (membership_of (us_id u) (tc_id c) db) = Inr mo"
    and keys: "(case mo of None \<Rightarrow> Inr [] | Some m \<Rightarrow> rbind (tenant_schema_ok (tc_schema_name c))
        (\<lambda>_. role_keys env ?path (mb_id m) db)) = Inr keys"
    using assms True by (auto simp: get_permissions_def user_principal_def admin_tenant_def
        bind_uuid_str schema_for_def rbind_Inr_iff)
  show ?thesis
  proof (cases mo)
    case None
    then have "membership_of (us_id u) (tc_id c) db = []" using mo by (simp add: scalar_one_or_none_Inr)
    then show ?thesis
      using keys None by (auto simp: holds_key_def membership_of_def filter_empty_conv)
  next
    case (Some m)
    have "set (membership_of (us_id u) (tc_id c) db) = {m}"
      using mo Some by (simp add: scalar_one_or_none_Inr)
    then have m: "x \<in> set (sd_memberships db) \<and> mb_user_id x = us_id u \<and> mb_tenant_id x = tc_id c
        \<and> mb_is_active x \<longleftrightarrow> x = m" for x
      by (auto simp: membership_of_def)
    obtain n where n: "local_schema env ?path db = Some n"
      "keys = keys_of_roles (tt_roles (schema_tables n db)) (tt_permissions (schema_tables n db))
        (map mr_role_id (filter (\<lambda>l. mr_membership_id l = mb_id m) (tt_links (schema_tables n db))))"
      using keys Some by (auto simp: rbind_Inr_iff role_keys_Inr)
    have "holds_key env c db (us_id u) key \<longleftrightarrow> (\<exists>r \<in> set (tt_roles (schema_tables n db)).
        \<lparr>mr_membership_id = mb_id m, mr_role_id = ro_id r\<rparr> \<in> set (tt_links (schema_tables n db))
        \<and> \<lparr>rp_role_id = ro_id r, rp_key = key\<rparr> \<in> set (tt_permissions (schema_tables n db)))"
    proof -
      have "holds_key env c db (us_id u) key \<longleftrightarrow> (\<exists>x. (x \<in> set (sd_memberships db) \<and> mb_user_id x = us_id u
          \<and> mb_tenant_id x = tc_id c \<and> mb_is_active x) \<and> (\<exists>r \<in> set (tt_roles (schema_tables n db)).
          \<lparr>mr_membership_id = mb_id x, mr_role_id = ro_id r\<rparr> \<in> set (tt_links (schema_tables n db))
          \<and> \<lparr>rp_role_id = ro_id r, rp_key = key\<rparr> \<in> set (tt_permissions (schema_tables n db))))"
        using n(1) True by (auto simp: holds_key_def)
      then show ?thesis by (simp add: m)
    qed
    also have "\<dots> \<longleftrightarrow> key \<in> set keys"
      unfolding n(2) keys_of_roles_iff linked_roles by (rule refl)
    finally show ?thesis by simp
  qed
qed (use assms in \<open>auto simp: get_permissions_def user_principal_def admin_tenant_def holds_key_def\<close>)

section \<open>A site to try things on\<close>

lemma require_admin_context_succeeds:
  assumes "fst (authenticate_request (sn_auth env) now cred (st_server s)) = Inr (Some (uuid_str (us_id u), p))"
    and "find_user (us_id u) (sv_db (st_server s)) = Some u" and "us_is_active u" and "us_id u < 2 ^ 128"
    and "get_permissions env True (user_principal u) (admin_tenant tctx) (st_db s) = Inr keys"
  shows "require_admin_context env now cred tctx s =
    (Inr \<lparr>ctx_principal = Some (user_principal u), ctx_tenant = admin_tenant tctx,
       ctx_permissions = keys, ctx_require_superadmin = Some (sn_require_superadmin env)\<rparr>, s)"
proof -
  have "fst (get_by_id (uuid_str (us_id u)) (st_server s)) = Inr (Some (user_principal u))"
    using assms(2-4) by (simp add: get_by_id_def uuid_parse_str sbind_def)
  then have "fst (require_admin_context env now cred tctx s) =
    Inr \<lparr>ctx_principal = Some (user_principal u), ctx_tenant = admin_tenant tctx,
       ctx_permissions = keys, ctx_require_superadmin = Some (sn_require_superadmin env)\<rparr>"
    unfolding require_admin_context_def build_admin_context_def sbind_assoc
    by (simp add: fst_sbind reads_intros assms(1,5) sd_gets_def)
  then show ?thesis
    using reads_eq [OF reads_context(4), of env now cred tctx s] by simp
qed

definition demo_tables :: tenant_tables where
  "demo_tables = \<lparr>tt_roles = [\<lparr>ro_id = 2, ro_name = ''owner'', ro_description = None, ro_is_system = True\<rparr>,
       \<lparr>ro_id = 3, ro_name = ''staff'', ro_description = None, ro_is_system = False\<rparr>],
     tt_permissions = [\<lparr>rp_role_id = 2, rp_key = ''admin.*''\<rparr>, \<lparr>rp_role_id = 3, rp_key = ''admin.users.list''\<rparr>],
     tt_links = [\<lparr>mr_membership_id = 1, mr_role_id = 2\<rparr>, \<lparr>mr_membership_id = 5, mr_role_id = 3\<rparr>]\<rparr>"

definition demo_site :: site where
  "demo_site = \<lparr>st_server = demo_server demo_user, st_db = \<lparr>sd_tenants = [],
     sd_memberships = [\<lparr>mb_id = 1, mb_user_id = 42, mb_tenant_id = 7, mb_is_active = True\<rparr>,
       \<lparr>mb_id = 5, mb_user_id = 43, mb_tenant_id = 7, mb_is_active = True\<rparr>],
     sd_catalog = map (new_row ''registry'') [''admin.users.list'', ''platform.tenants.update''],
     sd_platform_roles = [], sd_platform_permissions = [], sd_platform_users = [],
     sd_schemas = [(''tenant_acme'', demo_tables)]\<rparr>\<rparr>"

definition demo_site_env :: "(row \<times> string \<times> string) site_env" where
  "demo_site_env = \<lparr>sn_auth = demo_auth, sn_postgres = True, sn_multi_tenant = True,
     sn_require_superadmin = True, sn_invite_ttl = 60, sn_invite_notifier = True, sn_flush = (\<lambda>s. None)\<rparr>"

definition demo_cred :: "(row \<times> string \<times> string) credentials" where
  "demo_cred = Some (''bearer'', demo_access)"

lemma demo_local_schema: "local_schema demo_site_env [''tenant_acme'', ''public''] (st_db demo_site) = Some ''tenant_acme''"
  "schema_tables ''tenant_acme'' (st_db demo_site) = demo_tables"
  by (simp_all add: local_schema_def demo_site_env_def demo_site_def schema_tables_def)

lemma demo_permissions:
  "get_permissions demo_site_env True (user_principal demo_user) (admin_tenant (Some demo_tenant)) (st_db demo_site)
    = Inr [''admin.*'']"
proof -
  have "tenant_schema_ok ''tenant_acme'' = Inr ()" by code_simp
  moreover have "membership_of 42 7 (st_db demo_site)
      = [\<lparr>mb_id = 1, mb_user_id = 42, mb_tenant_id = 7, mb_is_active = True\<rparr>]"
    by (simp add: membership_of_def demo_site_def)
  moreover have "role_keys demo_site_env [''tenant_acme'', ''public''] 1 (st_db demo_site) = Inr [''admin.*'']"
  proof -
    have "keys_of_roles (tt_roles demo_tables) (tt_permissions demo_tables)
        (map mr_role_id (filter (\<lambda>l. mr_membership_id l = 1) (tt_links demo_tables))) = [''admin.*'']"
      by code_simp
    then show ?thesis by (simp add: role_keys_def demo_local_schema)
  qed
  ultimately show ?thesis
    by (simp add: get_permissions_def user_principal_def admin_tenant_def demo_user_def demo_tenant_def
        bind_uuid_str schema_for_def scalar_one_or_none_def) (simp add: demo_site_env_def)
qed

definition demo_ctx :: admin_ctx where
  "demo_ctx = \<lparr>ctx_principal = Some (user_principal demo_user), ctx_tenant = admin_tenant (Some demo_tenant),
     ctx_permissions = [''admin.*''], ctx_require_superadmin = Some True\<rparr>"

lemma demo_context: "require_admin_context demo_site_env 10 demo_cred (Some demo_tenant) demo_site = (Inr demo_ctx, demo_site)"
proof -
  have "authenticate_request demo_auth 10 demo_cred (demo_server demo_user)
      = (Inr (Some (uuid_str 42, fst demo_access)), demo_server demo_user)"
    using demo_access_claims(1) demo_live
    by (force simp: authenticate_Inr demo_cred_def live_token_def lower_def lower_char_def is_upper_def)
  then have "fst (authenticate_request (sn_auth demo_site_env) 10 demo_cred (st_server demo_site))
      = Inr (Some (uuid_str (us_id demo_user), fst demo_access))"
    by (simp add: demo_site_env_def demo_site_def demo_user_def)
  from require_admin_context_succeeds [OF this _ _ _ demo_permissions] show ?thesis
    by (simp add: demo_ctx_def demo_site_env_def) (simp add: demo_site_def demo_server_def find_user_def demo_user_def)
qed

lemma effective_tenant_permissions_witness:
  "''admin.*'' \<in> set [''admin.*''] \<longleftrightarrow> holds_key demo_site_env demo_tenant (st_db demo_site) (us_id demo_user) ''admin.*''"
  by (rule effective_tenant_permissions [OF demo_permissions]) (simp_all add: demo_user_def demo_tenant_def)

end
