(* ===== verification/Members.thy ===== *)
theory Members
  imports Rbac
begin

text \<open>
  The member routes of a tenant: \<open>src/asterion/admin/member_router.py\<close>, over the provisioning
  helpers of \<open>src/asterion/auth/provisioning.py\<close> and \<open>invite.py\<close>.

  A handler runs in the request's session with its search path and the request's context.  A set
  the source iterates over is taken in the order of a list.
\<close>

section \<open>Provisioning\<close>

definition unusable_password_hash :: "'t site_env \<Rightarrow> string handler" where
  "unusable_password_hash env = (let cr = en_crypto (sn_auth env) in
     sbind (on_server (draw (cr_token_urlsafe cr))) (\<lambda>secret.
     on_server (draw (\<lambda>salt. hash_password cr salt secret))))"

definition add_user :: "user \<Rightarrow> unit serve" where
  "add_user u = db_modify (\<lambda>db. db\<lparr>db_users := db_users db @ [u]\<rparr>)"

definition create_passwordless_user ::
    "'t site_env \<Rightarrow> string \<Rightarrow> string option \<Rightarrow> bool \<Rightarrow> bool \<Rightarrow> user handler" where
  "create_passwordless_user env email full_name active password_login_disabled =
     sbind (unusable_password_hash env) (\<lambda>hashed.
     sbind (new_id env) (\<lambda>i.
     let u = \<lparr>us_id = i, us_email = email, us_hashed_password = hashed, us_full_name = full_name,
       us_is_active = active, us_is_superadmin = False, us_token_version = 0,
       us_password_login_disabled = password_login_disabled, us_totp_secret = None,
       us_totp_enabled = False\<rparr> in
     sbind (on_server (add_user u)) (\<lambda>_.
     sbind (sn_flushed env) (\<lambda>_. ret u))))"

text \<open>Assigning the attribute of a loaded membership changes its row, deleting it removes its row.\<close>

definition set_membership :: "membership \<Rightarrow> bool \<Rightarrow> site_db \<Rightarrow> site_db" where
  "set_membership m active db = db\<lparr>sd_memberships :=
     map (\<lambda>x. if x = m then m\<lparr>mb_is_active := active\<rparr> else x) (sd_memberships db)\<rparr>"

definition delete_membership :: "membership \<Rightarrow> site_db \<Rightarrow> site_db" where
  "delete_membership m db = db\<lparr>sd_memberships := filter (\<lambda>x. x \<noteq> m) (sd_memberships db)\<rparr>"

text \<open>\<open>scalar_one_or_none\<close> of the memberships a \<open>where\<close> clause selects.\<close>

definition one_membership :: "(membership \<Rightarrow> bool) \<Rightarrow> membership option handler" where
  "one_membership P =
     sbind (sd_gets (\<lambda>db. scalar_one_or_none (filter P (sd_memberships db)))) lift_res"

definition ensure_membership :: "'t site_env \<Rightarrow> nat \<Rightarrow> nat \<Rightarrow> membership handler" where
  "ensure_membership env user_id tenant_id =
     sbind (one_membership (\<lambda>m. mb_user_id m = user_id \<and> mb_tenant_id m = tenant_id))
     (\<lambda>membership. case membership of
       None \<Rightarrow>
         sbind (new_id env) (\<lambda>i.
         let m = \<lparr>mb_id = i, mb_user_id = user_id, mb_tenant_id = tenant_id, mb_is_active = True\<rparr> in
         sbind (sd_modify (\<lambda>db. db\<lparr>sd_memberships := sd_memberships db @ [m]\<rparr>)) (\<lambda>_.
         sbind (sn_flushed env) (\<lambda>_. ret m)))
     | Some m \<Rightarrow>
         if \<not> mb_is_active m
         then sbind (sd_modify (set_membership m True)) (\<lambda>_. ret (m\<lparr>mb_is_active := True\<rparr>))
         else ret m)"

definition create_invite :: "'t site_env \<Rightarrow> int \<Rightarrow> nat \<Rightarrow> int \<Rightarrow> string handler" where
  "create_invite env now user_id ttl_minutes =
     on_server (create_password_reset (sn_auth env) now user_id ttl_minutes)"

section \<open>Helpers\<close>

definition require_tenant :: "admin_ctx \<Rightarrow> nat res" where
  "require_tenant ctx = (case ctx_tenant ctx of
     None \<Rightarrow> Inl (http 400 ''Member management requires a tenant context.'')
   | Some t \<Rightarrow> (case uuid_parse (tn_id t) of
       Some i \<Rightarrow> Inr i
     | None \<Rightarrow> Inl (http 400 (''Invalid tenant id: '' @ repr_str (tn_id t)))))"

definition parse_uuid :: "string \<Rightarrow> string \<Rightarrow> nat res" where
  "parse_uuid label raw = (case uuid_parse raw of
     Some i \<Rightarrow> Inr i
   | None \<Rightarrow> Inl (http 400 (''Invalid '' @ label @ '': '' @ repr_str raw)))"

definition resolve_roles :: "'t site_env \<Rightarrow> string list \<Rightarrow> string list \<Rightarrow> role list handler" where
  "resolve_roles env path role_ids =
    (if role_ids = [] then ret []
     else sbind (lift_res (mapM (parse_uuid ''role_id'') role_ids)) (\<lambda>parsed.
       sbind (tt_gets env path (\<lambda>t. filter (\<lambda>r. ro_id r \<in> set parsed) (tt_roles t))) (\<lambda>roles.
       let missing = filter (\<lambda>i. i \<notin> set (map ro_id roles)) parsed in
       if missing \<noteq> []
       then throw (http 404 (''Unknown role_id(s): '' @ join '', '' (map uuid_str missing)))
       else ret roles)))"

definition get_membership :: "nat \<Rightarrow> nat \<Rightarrow> membership handler" where
  "get_membership tenant_id membership_id =
     sbind (one_membership (\<lambda>m. mb_id m = membership_id \<and> mb_tenant_id m = tenant_id))
     (\<lambda>membership. case membership of
       None \<Rightarrow> throw (http 404 ''No such member in this tenant.'')
     | Some m \<Rightarrow> ret m)"

text \<open>The roles of one membership by name, as the response shows them.\<close>

definition roles_of :: "tenant_tables \<Rightarrow> nat \<Rightarrow> pyval list" where
  "roles_of t mid = map (\<lambda>r. VDict [(''id'', VStr (uuid_str (ro_id r))), (''name'', VStr (ro_name r))])
     (sort_key ro_name (concat (map (\<lambda>l. filter (\<lambda>r. ro_id r = mr_role_id l) (tt_roles t))
       (filter (\<lambda>l. mr_membership_id l = mid) (tt_links t)))))"

definition roles_by_membership ::
    "'t site_env \<Rightarrow> string list \<Rightarrow> nat list \<Rightarrow> (nat \<times> pyval list) list handler" where
  "roles_by_membership env path membership_ids =
    (if membership_ids = [] then ret []
     else tt_gets env path (\<lambda>t. filter (\<lambda>(i, rs). rs \<noteq> [])
       (map (\<lambda>i. (i, roles_of t i)) (remdups membership_ids))))"

definition roles_in :: "(nat \<times> pyval list) list \<Rightarrow> nat \<Rightarrow> pyval list" where
  "roles_in roles_map i = (case map_of roles_map i of None \<Rightarrow> [] | Some rs \<Rightarrow> rs)"

definition member_view :: "membership \<Rightarrow> user \<Rightarrow> pyval list \<Rightarrow> pyval" where
  "member_view m u roles = VDict [(''membership_id'', VStr (uuid_str (mb_id m))),
     (''user_id'', VStr (uuid_str (us_id u))), (''email'', VStr (us_email u)),
     (''full_name'', opt_str (us_full_name u)), (''is_active'', VBool (mb_is_active m)),
     (''user_is_active'', VBool (us_is_active u)), (''roles'', VList roles)]"

definition replace_links :: "nat \<Rightarrow> nat list \<Rightarrow> tenant_tables \<Rightarrow> tenant_tables" where
  "replace_links mid desired t =
    (let current = map mr_role_id (filter (\<lambda>l. mr_membership_id l = mid) (tt_links t)) in
     t\<lparr>tt_links := filter (\<lambda>l. mr_membership_id l = mid \<longrightarrow> mr_role_id l \<in> set desired) (tt_links t)
        @ map (\<lambda>i. \<lparr>mr_membership_id = mid, mr_role_id = i\<rparr>)
            (filter (\<lambda>i. i \<notin> set current) (remdups desired))\<rparr>)"

definition set_membership_roles :: "'t site_env \<Rightarrow> string list \<Rightarrow> nat \<Rightarrow> role list \<Rightarrow> unit handler" where
  "set_membership_roles env path mid desired_roles =
     tt_modify env path (replace_links mid (map ro_id desired_roles))"

section \<open>Routes\<close>

definition list_members :: "'t site_env \<Rightarrow> string list \<Rightarrow> admin_ctx \<Rightarrow> pyval handler" where
  "list_members env path ctx =
     sbind (lift_res (assert_permission (ctx_permissions ctx) ''admin.tenant_members.list'')) (\<lambda>_.
     sbind (lift_res (require_tenant ctx)) (\<lambda>tenant_id.
     sbind (sd_gets (\<lambda>db. filter (\<lambda>m. mb_tenant_id m = tenant_id) (sd_memberships db))) (\<lambda>ms.
     sbind (on_server (db_gets (\<lambda>db. concat (map (\<lambda>m.
       map (\<lambda>u. (m, u)) (filter (\<lambda>u. us_id u = mb_user_id m) (db_users db))) ms)))) (\<lambda>joined.
     let rows = sort_key (\<lambda>(m, u). us_email u) joined in
     sbind (roles_by_membership env path (map (\<lambda>(m, u). mb_id m) rows)) (\<lambda>roles_map.
     ret (VDict [(''members'', VList (map (\<lambda>(m, u).
       member_view m u (roles_in roles_map (mb_id m))) rows))]))))))"

text \<open>The account of the address, a new one where there is none, and whether it is new.\<close>

definition find_or_invite :: "'t site_env \<Rightarrow> string \<Rightarrow> string option \<Rightarrow> (user \<times> bool) handler" where
  "find_or_invite env email full_name =
     sbind (on_server (db_gets (find_email email))) (\<lambda>found. case found of
       Some u \<Rightarrow> ret (u, False)
     | None \<Rightarrow>
       sbind (create_passwordless_user env email full_name False False) (\<lambda>u. ret (u, True)))"

definition send_invite :: "'t site_env \<Rightarrow> int \<Rightarrow> string \<Rightarrow> user \<Rightarrow> unit handler" where
  "send_invite env now email u =
     sbind (create_invite env now (us_id u) (sn_invite_ttl env)) (\<lambda>raw_token.
     if sn_invite_notifier env
     then on_server (modify (\<lambda>s. s\<lparr>sv_sent := sv_sent s @ [(email, raw_token)]\<rparr>))
     else ret ())"

definition add_member ::
    "'t site_env \<Rightarrow> int \<Rightarrow> string \<Rightarrow> string option \<Rightarrow> string list \<Rightarrow> string list \<Rightarrow> admin_ctx
      \<Rightarrow> pyval handler" where
  "add_member env now address full_name role_ids path ctx =
     sbind (lift_res (assert_permission (ctx_permissions ctx) ''admin.tenant_members.create'')) (\<lambda>_.
     sbind (lift_res (require_tenant ctx)) (\<lambda>tenant_id.
     let email = strip (lower address) in
     sbind (resolve_roles env path role_ids) (\<lambda>desired_roles.
     sbind (find_or_invite env email full_name) (\<lambda>(user, invited).
     sbind (ensure_membership env (us_id user) tenant_id) (\<lambda>membership.
     sbind (if desired_roles \<noteq> []
       then set_membership_roles env path (mb_id membership) desired_roles else ret ()) (\<lambda>_.
     sbind (sn_flushed env) (\<lambda>_.
     sbind (if invited then send_invite env now email user else ret ()) (\<lambda>_.
     sbind (roles_by_membership env path [mb_id membership]) (\<lambda>roles_map.
     ret (VDict [(''invited'', VBool invited),
       (''member'', member_view membership user (roles_in roles_map (mb_id membership)))]))))))))))"

definition update_member ::
    "'t site_env \<Rightarrow> string \<Rightarrow> bool option \<Rightarrow> string list option \<Rightarrow> string list \<Rightarrow> admin_ctx
      \<Rightarrow> pyval handler" where
  "update_member env membership_id is_active role_ids path ctx =
     sbind (lift_res (assert_permission (ctx_permissions ctx) ''admin.tenant_members.update'')) (\<lambda>_.
     sbind (lift_res (require_tenant ctx)) (\<lambda>tenant_id.
     sbind (lift_res (parse_uuid ''membership_id'' membership_id)) (\<lambda>mid.
     sbind (get_membership tenant_id mid) (\<lambda>m0.
     let m = (case is_active of None \<Rightarrow> m0 | Some b \<Rightarrow> m0\<lparr>mb_is_active := b\<rparr>) in
     sbind (case is_active of None \<Rightarrow> ret () | Some b \<Rightarrow> sd_modify (set_membership m0 b)) (\<lambda>_.
     sbind (case role_ids of
         None \<Rightarrow> ret ()
       | Some ids \<Rightarrow> sbind (resolve_roles env path ids) (\<lambda>desired_roles.
           set_membership_roles env path (mb_id m) desired_roles)) (\<lambda>_.
     sbind (sn_flushed env) (\<lambda>_.
     sbind (on_server (db_gets (find_user (mb_user_id m)))) (\<lambda>user. case user of
       None \<Rightarrow> throw (http 404 ''Member user account not found.'')
     | Some u \<Rightarrow>
       sbind (roles_by_membership env path [mb_id m]) (\<lambda>roles_map.
       ret (VDict [(''member'', member_view m u (roles_in roles_map (mb_id m)))]))))))))))"

definition remove_member :: "'t site_env \<Rightarrow> string \<Rightarrow> string list \<Rightarrow> admin_ctx \<Rightarrow> pyval handler" where
  "remove_member env membership_id path ctx =
     sbind (lift_res (assert_permission (ctx_permissions ctx) ''admin.tenant_members.delete'')) (\<lambda>_.
     sbind (lift_res (require_tenant ctx)) (\<lambda>tenant_id.
     sbind (lift_res (parse_uuid ''membership_id'' membership_id)) (\<lambda>mid.
     sbind (get_membership tenant_id mid) (\<lambda>m.
     sbind (tt_modify env path (\<lambda>t. t\<lparr>tt_links :=
       filter (\<lambda>l. mr_membership_id l \<noteq> mb_id m) (tt_links t)\<rparr>)) (\<lambda>_.
     sbind (sd_modify (delete_membership m)) (\<lambda>_.
     sbind (sn_flushed env) (\<lambda>_.
     ret (VDict [(''detail'', VStr ''Member removed from tenant.''),
       (''membership_id'', VStr membership_id)]))))))))"

section \<open>The routes stay in their tenant\<close>

abbreviation tenant_keeps :: "'t site_env \<Rightarrow> string list \<Rightarrow> nat \<Rightarrow> 'a handler \<Rightarrow> bool" where
  "tenant_keeps env path tid m \<equiv> keeps (own_tenant_only env path tid) m"

lemma keeps_draw: "tenant_keeps env path tid (on_server (draw f))"
  by (rule own_tenant.keeps_on_server) (simp add: own_tenant_only_def draw_def)

lemma keeps_db_gets: "tenant_keeps env path tid (on_server (db_gets f))"
  by (rule own_tenant.keeps_on_server) (simp add: own_tenant_only_def db_gets_def)

lemma keeps_same_users:
  assumes "\<And>v. db_users (sv_db (snd (m v))) = db_users (sv_db v)"
  shows "tenant_keeps env path tid (on_server m)"
  by (rule own_tenant.keeps_on_server) (simp add: own_tenant_only_def assms)

lemma keeps_new_id: "tenant_keeps env path tid (new_id env')"
  by (simp add: new_id_def keeps_draw)

lemma keeps_add_user:
  "\<not> us_is_active u \<Longrightarrow> \<not> us_is_superadmin u \<Longrightarrow> tenant_keeps env path tid (on_server (add_user u))"
  by (rule own_tenant.keeps_on_server)
    (simp add: own_tenant_only_def add_user_def db_modify_def)

lemma keeps_invite: "tenant_keeps env path tid (create_invite env' now u ttl)"
proof -
  have "db_users (sv_db (snd (create_password_reset e now u ttl v))) = db_users (sv_db v)" for e v
    by (auto simp: create_password_reset_def sbind_def draw_def db_modify_def db_flush_def
        split: prod.splits sum.splits option.splits)
  then show ?thesis unfolding create_invite_def by (rule keeps_same_users)
qed

lemma keeps_users:
  "tenant_keeps env path tid (create_passwordless_user env' email name False b)"
  "tenant_keeps env path tid (find_or_invite env' email name)"
  "tenant_keeps env path tid (send_invite env' now email u)"
proof -
  show c: "tenant_keeps env path tid (create_passwordless_user env' email name False b)" for b
    unfolding create_passwordless_user_def unusable_password_hash_def Let_def
    by (intro own_tenant.keeps_intros keeps_draw keeps_new_id keeps_add_user) simp_all
  show "tenant_keeps env path tid (find_or_invite env' email name)"
    unfolding find_or_invite_def by (intro own_tenant.keeps_intros keeps_db_gets c)
  show "tenant_keeps env path tid (send_invite env' now email u)"
    unfolding send_invite_def
    by (intro own_tenant.keeps_intros keeps_invite keeps_same_users) simp
qed

lemma keeps_set_membership:
  assumes "mb_tenant_id m = tid"
  shows "tenant_keeps env path tid (sd_modify (set_membership m b))"
    "tenant_keeps env path tid (sd_modify (delete_membership m))"
proof -
  have "filter (\<lambda>m. mb_tenant_id m \<noteq> tid) (map (\<lambda>x. if x = m then m\<lparr>mb_is_active := b\<rparr> else x) ms)
      = filter (\<lambda>m. mb_tenant_id m \<noteq> tid) ms" for ms
    using assms by (induction ms) auto
  then show "tenant_keeps env path tid (sd_modify (set_membership m b))"
    by (intro keeps_sd_modify) (simp_all add: set_membership_def)
  have "filter (\<lambda>m. mb_tenant_id m \<noteq> tid) (filter (\<lambda>x. x \<noteq> m) ms) = filter (\<lambda>m. mb_tenant_id m \<noteq> tid) ms" for ms
    using assms by (induction ms) auto
  then show "tenant_keeps env path tid (sd_modify (delete_membership m))"
    by (intro keeps_sd_modify) (simp_all add: delete_membership_def)
qed

lemma one_row: "filter P xs = [x] \<Longrightarrow> P x \<and> x \<in> set xs"
  by (metis filter_eq_Cons_iff in_set_conv_decomp)

lemma one_membership_run:
  "one_membership P s = (r, s') \<Longrightarrow> s' = s \<and>
     (\<forall>m. r = Inr (Some m) \<longrightarrow> P m \<and> m \<in> set (sd_memberships (st_db s)))"
  by (auto simp: one_membership_def sd_gets_def sbind_def gets_def lift_res_def
      scalar_one_or_none_Inr split: sum.splits dest!: one_row)

lemma keeps_one_membership:
  assumes "\<And>m. P m \<Longrightarrow> tenant_keeps env path tid (f (Some m))" and "tenant_keeps env path tid (f None)"
  shows "tenant_keeps env path tid (sbind (one_membership P) f)"
proof (rule own_tenant.keeps_sbind)
  show "tenant_keeps env path tid (one_membership P)"
    unfolding one_membership_def by (intro own_tenant.keeps_intros)
  fix x s s' assume "one_membership P s = (Inr x, s')"
  then have "\<forall>m. x = Some m \<longrightarrow> P m" by (auto dest: one_membership_run)
  then show "own_tenant_only env path tid s' (snd (f x s'))"
    using assms by (cases x) (simp_all add: keeps_def)
qed

lemma keeps_get_membership:
  assumes "\<And>m. mb_tenant_id m = tid \<Longrightarrow> tenant_keeps env path tid (f m)"
  shows "tenant_keeps env path tid (sbind (get_membership tid mid) f)"
  unfolding get_membership_def sbind_assoc using assms
  by (intro keeps_one_membership) (simp_all add: own_tenant.keeps_intros)

lemma keeps_ensure: "tenant_keeps env path tid (ensure_membership env' u tid)"
  unfolding ensure_membership_def Let_def
  by (intro keeps_one_membership)
    (auto intro!: own_tenant.keeps_intros keeps_new_id keeps_set_membership keeps_sd_modify)

lemma keeps_roles:
  "tenant_keeps env path tid (resolve_roles env path ids)"
  "tenant_keeps env path tid (set_membership_roles env path mid roles)"
  "tenant_keeps env path tid (roles_by_membership env path mids)"
  unfolding resolve_roles_def set_membership_roles_def roles_by_membership_def Let_def
  by (intro own_tenant.keeps_intros keeps_tt_modify; simp add: replace_links_def Let_def)+

lemmas member_keeps = own_tenant.keeps_intros keeps_db_gets keeps_users keeps_ensure keeps_roles
  keeps_set_membership keeps_tt_modify

section \<open>Requests\<close>

datatype member_request =
    ListMembers
  | AddMember string "string option" "string list"
  | UpdateMember string "bool option" "string list option"
  | RemoveMember string

fun member_handler ::
    "'t site_env \<Rightarrow> int \<Rightarrow> member_request \<Rightarrow> string list \<Rightarrow> admin_ctx \<Rightarrow> pyval handler" where
  "member_handler env now ListMembers path ctx = list_members env path ctx"
| "member_handler env now (AddMember address name ids) path ctx = add_member env now address name ids path ctx"
| "member_handler env now (UpdateMember i active ids) path ctx = update_member env i active ids path ctx"
| "member_handler env now (RemoveMember i) path ctx = remove_member env i path ctx"

fun member_action :: "member_request \<Rightarrow> string" where
  "member_action ListMembers = ''list''"
| "member_action (AddMember _ _ _) = ''create''"
| "member_action (UpdateMember _ _ _) = ''update''"
| "member_action (RemoveMember _) = ''delete''"

definition member_route ::
    "'t site_env \<Rightarrow> int \<Rightarrow> 't credentials \<Rightarrow> tenant_context option \<Rightarrow> member_request \<Rightarrow> pyval handler" where
  "member_route env now credentials tctx rq =
     admin_route env now credentials tctx (member_handler env now rq)"

lemma member_handler_keeps:
  assumes "require_tenant ctx = Inr tid"
  shows "tenant_keeps env path tid (member_handler env now rq path ctx)"
proof (cases rq)
  case ListMembers
  then show ?thesis by (simp add: list_members_def assms Let_def)
    (intro member_keeps)
next
  case AddMember
  then show ?thesis by (simp add: add_member_def assms Let_def) (intro member_keeps)
next
  case UpdateMember
  then show ?thesis
    by (auto simp: update_member_def assms Let_def intro!: member_keeps keeps_get_membership split: option.split)
next
  case RemoveMember
  then show ?thesis
    by (auto simp: remove_member_def assms intro!: member_keeps keeps_get_membership)
qed

lemma member_handler_permission:
  assumes "member_handler env now rq path ctx s = (Inr v, s')"
  shows "has_permission (ctx_permissions ctx) (''admin.tenant_members.'' @ member_action rq) = Inr True"
proof -
  have "assert_permission (ctx_permissions ctx) (''admin.tenant_members.'' @ member_action rq) = Inr ()"
    using assms by (cases rq)
      (auto simp: list_members_def add_member_def update_member_def remove_member_def res_simps)
  then show ?thesis by (auto simp: assert_permission_def res_simps)
qed

section \<open>Properties\<close>

lemma keepsD: "keeps R m \<Longrightarrow> m s = (r, s') \<Longrightarrow> R s s'"
  unfolding keeps_def by (drule spec [of _ s]) simp

definition request_path :: "'t site_env \<Rightarrow> tenant_context \<Rightarrow> string list" where
  "request_path env c = (if sn_postgres env then [tc_schema_name c, ''public''] else [''public''])"

lemma session_path_Inr: "session_path env (Some c) = Inr path \<Longrightarrow> path = request_path env c"
  by (auto simp: session_path_def request_path_def set_search_path_def res_simps split: if_splits sum.splits prod.splits)

lemma require_tenant_context:
  assumes "ctx_tenant ctx = admin_tenant (Some c)" and "tc_id c < 2 ^ 128"
  shows "require_tenant ctx = Inr (tc_id c)"
  using assms by (simp add: require_tenant_def admin_tenant_def uuid_parse_str)

text \<open>A route is its context, read in the state before, and its handler in one transaction.\<close>

lemma admin_route_run:
  assumes "admin_route env now cred (Some c) body s = (r, s')"
  shows "(\<exists>e. r = Inl e \<and> st_db s' = st_db s \<and> sv_db (st_server s') = sv_db (st_server s))
    \<or> (\<exists>ctx x. r = Inr x \<and> require_admin_context env now cred (Some c) s = (Inr ctx, s)
         \<and> body (request_path env c) ctx s = (Inr x, s'))"
proof -
  have ctx: "require_admin_context env now cred (Some c) s = (fst (require_admin_context env now cred (Some c) s), s)"
    by (rule reads_eq [OF reads_context(4)])
  show ?thesis
  proof (cases "fst (require_admin_context env now cred (Some c) s)")
    case (Inl e)
    then show ?thesis using assms ctx by (auto simp: admin_route_def sbind_def)
  next
    case admitted: (Inr ctx)
    then have run: "in_session env (Some c) (\<lambda>path. body path ctx) s = (r, s')"
      using assms ctx by (simp add: admin_route_def sbind_def)
    show ?thesis
    proof (cases r)
      case (Inl e)
      then show ?thesis using run by (auto simp: in_session_def split: prod.splits sum.splits)
    next
      case (Inr x)
      then have "sbind (lift_res (session_path env (Some c))) (\<lambda>path. body path ctx) s = (Inr x, s')"
        using run by (auto simp: in_session_def split: prod.splits sum.splits)
      then obtain path where "session_path env (Some c) = Inr path" "body path ctx s = (Inr x, s')"
        by (cases "session_path env (Some c)") auto
      then show ?thesis
        using Inr ctx session_path_Inr [of env c path] admitted by auto
    qed
  qed
qed

definition may_manage_members :: "'t site_env \<Rightarrow> tenant_context \<Rightarrow> site_db \<Rightarrow> user \<Rightarrow> string \<Rightarrow> bool" where
  "may_manage_members env c db u action \<longleftrightarrow> us_is_superadmin u
     \<or> (\<exists>key. holds_key env c db (us_id u) key \<and> covers (key_parts key) [''admin'', ''tenant_members'', action])"

lemma member_keys:
  "split_on CHR ''.'' (''admin.tenant_members.'' @ member_action rq) = [''admin'', ''tenant_members'', member_action rq]"
  "key_segments (split_on CHR ''.'' (''admin.tenant_members.'' @ member_action rq))"
  by (cases rq; simp add: key_segments_def re_defs word_char_def key_char_def is_lower_def)+



text \<open>Revoking access.  A membership that is switched off, or removed, gives no key.\<close>

lemma one_membership_Inr:
  "one_membership P s = (Inr x, s') \<longleftrightarrow> s' = s
     \<and> filter P (sd_memberships (st_db s)) = (case x of None \<Rightarrow> [] | Some m \<Rightarrow> [m])"
  unfolding one_membership_def scalar_one_or_none_Inr [symmetric] by (auto simp: sd_gets_def res_simps)

lemma get_membership_Inr:
  "get_membership tid mid s = (Inr m, s') \<longleftrightarrow> s' = s
     \<and> filter (\<lambda>m. mb_id m = mid \<and> mb_tenant_id m = tid) (sd_memberships (st_db s)) = [m]"
  by (auto simp: get_membership_def res_simps one_membership_Inr split: option.splits
      intro: exI [of _ "Some m"])

definition ends_access :: "member_request \<Rightarrow> nat \<Rightarrow> bool" where
  "ends_access rq mid \<longleftrightarrow> (\<exists>i ids. uuid_parse i = Some mid
     \<and> (rq = RemoveMember i \<or> rq = UpdateMember i (Some False) ids))"

interpretation same_members: frame "\<lambda>s s'. sd_memberships (st_db s') = sd_memberships (st_db s)"
  by unfold_locales auto

lemma same_members_keeps:
  "keeps (\<lambda>s s'. sd_memberships (st_db s') = sd_memberships (st_db s)) (tt_modify env path f)"
  "keeps (\<lambda>s s'. sd_memberships (st_db s') = sd_memberships (st_db s)) (on_server m)"
  by (auto simp: keeps_def tt_modify_def set_tables_def on_server_def split: option.splits prod.splits)

lemma remove_member_leaves:
  assumes "remove_member env i path ctx s = (Inr v, s')" and "uuid_parse i = Some mid"
    and "require_tenant ctx = Inr tid"
  shows "\<exists>m. filter (\<lambda>m. mb_id m = mid \<and> mb_tenant_id m = tid) (sd_memberships (st_db s)) = [m]
    \<and> sd_memberships (st_db s') = filter (\<lambda>x. x \<noteq> m) (sd_memberships (st_db s))"
  using assms by (auto simp: remove_member_def res_simps get_membership_Inr parse_uuid_def
      sd_modify_def delete_membership_def sn_flushed_def tt_modify_def set_tables_def
      split: option.splits)

lemma update_member_leaves:
  assumes "update_member env i (Some b) ids path ctx s = (Inr v, s')" and "uuid_parse i = Some mid"
    and "require_tenant ctx = Inr tid"
  shows "\<exists>m. filter (\<lambda>m. mb_id m = mid \<and> mb_tenant_id m = tid) (sd_memberships (st_db s)) = [m]
    \<and> sd_memberships (st_db s')
        = map (\<lambda>x. if x = m then m\<lparr>mb_is_active := b\<rparr> else x) (sd_memberships (st_db s))"
proof -
  let ?rest = "\<lambda>m. sbind (case ids of None \<Rightarrow> ret ()
       | Some ids \<Rightarrow> sbind (resolve_roles env path ids) (\<lambda>desired_roles.
           set_membership_roles env path (mb_id m) desired_roles)) (\<lambda>_.
     sbind (sn_flushed env) (\<lambda>_.
     sbind (on_server (db_gets (find_user (mb_user_id m)))) (\<lambda>user. case user of
       None \<Rightarrow> throw (http 404 ''Member user account not found.'')
     | Some u \<Rightarrow>
       sbind (roles_by_membership env path [mb_id m]) (\<lambda>roles_map.
       ret (VDict [(''member'', member_view m u (roles_in roles_map (mb_id m)))])))))"
  have k: "keeps (\<lambda>s s'. sd_memberships (st_db s') = sd_memberships (st_db s)) (?rest m)" for m
    unfolding resolve_roles_def roles_by_membership_def set_membership_roles_def Let_def
    by (intro same_members.keeps_intros same_members_keeps)
  obtain m s1 where m: "get_membership tid mid s = (Inr m, s)"
      "sd_modify (set_membership m b) s = (Inr (), s1)" "?rest (m\<lparr>mb_is_active := b\<rparr>) s1 = (Inr v, s')"
    using assms by (auto simp: update_member_def res_simps parse_uuid_def Let_def get_membership_Inr
        split: option.splits)
  have "sd_memberships (st_db s') = sd_memberships (st_db s1)"
    by (rule keepsD [OF k m(3)])
  then show ?thesis using m(1,2) by (auto simp: get_membership_Inr sd_modify_def set_membership_def)
qed

text \<open>removing a member, or switching its membership off, ends its access to the tenant at once:
  afterwards the account holds no key there, whatever roles its membership had.  (One membership
  per account and tenant is the table's unique constraint.)\<close>

theorem removed_member_loses_access:
  assumes "member_route env now cred (Some c) rq s = (Inr v, s')" and "tc_id c < 2 ^ 128"
    and "ends_access rq (mb_id m)" and "m \<in> set (sd_memberships (st_db s))" and "mb_tenant_id m = tc_id c"
    and "distinct (map (\<lambda>m. (mb_user_id m, mb_tenant_id m)) (sd_memberships (st_db s)))"
  shows "\<not> holds_key env c (st_db s') (mb_user_id m) key"
proof -
  obtain ctx where ctx: "require_admin_context env now cred (Some c) s = (Inr ctx, s)"
      "member_handler env now rq (request_path env c) ctx s = (Inr v, s')"
    using admin_route_run [OF assms(1) [unfolded member_route_def]] by auto
  then have t: "require_tenant ctx = Inr (tc_id c)"
    using require_tenant_context [OF _ assms(2)] by (auto elim: require_admin_context_Inr)
  obtain i ids where i: "uuid_parse i = Some (mb_id m)"
      "rq = RemoveMember i \<or> rq = UpdateMember i (Some False) ids"
    using assms(3) by (auto simp: ends_access_def)
  obtain m' where m': "filter (\<lambda>x. mb_id x = mb_id m \<and> mb_tenant_id x = tc_id c)
        (sd_memberships (st_db s)) = [m']"
    and after: "\<forall>x \<in> set (sd_memberships (st_db s')). mb_is_active x \<longrightarrow>
        x \<noteq> m' \<and> x \<in> set (sd_memberships (st_db s))"
    using i(2)
  proof
    assume "rq = RemoveMember i"
    then have "remove_member env i (request_path env c) ctx s = (Inr v, s')"
      using ctx(2) by simp
    from remove_member_leaves [OF this i(1) t] show thesis by (elim exE conjE) (rule that, auto)
  next
    assume "rq = UpdateMember i (Some False) ids"
    then have "update_member env i (Some False) ids (request_path env c) ctx s = (Inr v, s')"
      using ctx(2) by simp
    from update_member_leaves [OF this i(1) t] show thesis by (elim exE conjE) (rule that, auto dest: arg_cong [of _ _ mb_is_active])
  qed
  have "m \<in> set (filter (\<lambda>x. mb_id x = mb_id m \<and> mb_tenant_id x = tc_id c) (sd_memberships (st_db s)))"
    using assms(4,5) by simp
  then have "m' = m" unfolding m' by simp
  have "x = m" if "x \<in> set (sd_memberships (st_db s))" "mb_user_id x = mb_user_id m" "mb_tenant_id x = tc_id c" for x
    using that assms(4-6) by (auto simp: distinct_map inj_on_def)
  then show ?thesis
    using after \<open>m' = m\<close> by (auto simp: holds_key_def)
qed

text \<open>A member with the wildcard of the tenant removes another one.\<close>

definition demo_removal :: "(exn + pyval) \<times> site" where
  "demo_removal = member_route demo_site_env 10 demo_cred (Some demo_tenant) (RemoveMember (uuid_str 5)) demo_site"

lemma demo_remove_handler:
  "isr (fst (remove_member demo_site_env (uuid_str 5) [''tenant_acme'', ''public''] demo_ctx demo_site))"
proof -
  have "assert_permission (ctx_permissions demo_ctx) ''admin.tenant_members.delete'' = Inr ()"
    by (simp add: demo_ctx_def) code_simp
  moreover have "require_tenant demo_ctx = Inr 7"
    by (simp add: require_tenant_def demo_ctx_def admin_tenant_def uuid_parse_str demo_tenant_def)
  moreover have "get_membership 7 5 demo_site
      = (Inr \<lparr>mb_id = 5, mb_user_id = 43, mb_tenant_id = 7, mb_is_active = True\<rparr>, demo_site)"
    by (simp add: get_membership_Inr demo_site_def)
  ultimately show ?thesis
    by (simp add: remove_member_def sbind_app proc_simps parse_uuid_def uuid_parse_str tt_modify_def
        demo_local_schema sd_modify_def sn_flushed_def) (simp add: demo_site_env_def)
qed

lemma demo_path: "session_path demo_site_env (Some demo_tenant) = Inr [''tenant_acme'', ''public'']"
  "request_path demo_site_env demo_tenant = [''tenant_acme'', ''public'']"
proof -
  have "set_search_path ''tenant_acme'' [''public''] = (Inr (), [''tenant_acme'', ''public''])" by code_simp
  then show "session_path demo_site_env (Some demo_tenant) = Inr [''tenant_acme'', ''public'']"
    by (simp add: session_path_def demo_tenant_def) (simp add: demo_site_env_def)
  show "request_path demo_site_env demo_tenant = [''tenant_acme'', ''public'']"
    by (simp add: request_path_def demo_tenant_def) (simp add: demo_site_env_def)
qed

lemma demo_removal_ok: "\<exists>v. demo_removal = (Inr v, snd demo_removal)"
proof -
  obtain v s' where h: "remove_member demo_site_env (uuid_str 5) [''tenant_acme'', ''public''] demo_ctx demo_site
      = (Inr v, s')"
    using demo_remove_handler by (cases "remove_member demo_site_env (uuid_str 5) [''tenant_acme'', ''public''] demo_ctx demo_site")
      (auto simp: isr_iff)
  then have "demo_removal = (Inr v, s')"
    by (simp add: demo_removal_def member_route_def admin_route_def sbind_app demo_context in_session_def demo_path)
  then show ?thesis unfolding \<open>demo_removal = (Inr v, s')\<close> by simp
qed


lemma removed_member_loses_access_witness:
  "holds_key demo_site_env demo_tenant (st_db demo_site) 43 ''admin.users.list''
   \<and> \<not> holds_key demo_site_env demo_tenant (st_db (snd demo_removal)) 43 ''admin.users.list''"
proof -
  obtain v where "demo_removal = (Inr v, snd demo_removal)" using demo_removal_ok ..
  note run = this [unfolded demo_removal_def]
  have ends: "ends_access (RemoveMember (uuid_str 5)) 5"
    unfolding ends_access_def by (intro exI [of _ "uuid_str 5"]) (simp add: uuid_parse_str)
  let ?m = "\<lparr>mb_id = 5, mb_user_id = 43, mb_tenant_id = 7, mb_is_active = True\<rparr>"
  have rows: "?m \<in> set (sd_memberships (st_db demo_site))"
      "distinct (map (\<lambda>m. (mb_user_id m, mb_tenant_id m)) (sd_memberships (st_db demo_site)))"
    by (simp_all add: demo_site_def)
  have "\<not> holds_key demo_site_env demo_tenant (st_db (snd demo_removal)) 43 ''admin.users.list''"
    using removed_member_loses_access [OF run _ _ rows(1) _ rows(2)] ends
    by (simp add: demo_tenant_def demo_removal_def)
  moreover have "holds_key demo_site_env demo_tenant (st_db demo_site) 43 ''admin.users.list''"
  proof -
    let ?r = "\<lparr>ro_id = 3, ro_name = ''staff'', ro_description = None, ro_is_system = False\<rparr>"
    have "sn_postgres demo_site_env" "tc_id demo_tenant = 7" "tc_schema_name demo_tenant = ''tenant_acme''"
      by (simp_all add: demo_site_env_def demo_tenant_def)
    moreover have "?r \<in> set (tt_roles demo_tables)"
        "\<lparr>mr_membership_id = 5, mr_role_id = 3\<rparr> \<in> set (tt_links demo_tables)"
        "\<lparr>rp_role_id = 3, rp_key = ''admin.users.list''\<rparr> \<in> set (tt_permissions demo_tables)"
      by (simp_all add: demo_tables_def)
    ultimately show ?thesis
      unfolding holds_key_def using rows(1) demo_local_schema
      by (intro conjI exI [of _ ?m] exI [of _ "''tenant_acme''"] exI [of _ ?r]) simp_all
  qed
  ultimately show ?thesis by simp
qed

end
