(* ===== verification/Matrix.thy ===== *)
theory Matrix
  imports Members CrudRouter
begin

text \<open>
  The permission matrix, \<open>src/asterion/admin/permission_matrix_router.py\<close>: the grid of roles and
  keys of a tenant, and the \<open>PUT\<close> that replaces the keys of some roles.
\<close>

section \<open>Reading the grid\<close>

text \<open>\<open>ORDER BY category, key\<close>, rows without a category last.\<close>

definition by_category :: "catalog_row list \<Rightarrow> catalog_row list" where
  "by_category rows = (let ks = sort_key cr_key rows in
     sort_key (\<lambda>r. or_empty (cr_category r)) (filter (\<lambda>r. cr_category r \<noteq> None) ks)
       @ filter (\<lambda>r. cr_category r = None) ks)"

definition role_view :: "role \<Rightarrow> pyval" where
  "role_view r = VDict [(''id'', VStr (uuid_str (ro_id r))), (''name'', VStr (ro_name r)),
     (''description'', opt_str (ro_description r)), (''is_system'', VBool (ro_is_system r))]"

definition keys_of_role :: "nat \<Rightarrow> tenant_tables \<Rightarrow> string list" where
  "keys_of_role rid t = map rp_key (filter (\<lambda>p. rp_role_id p = rid) (tt_permissions t))"

text \<open>The roles by name, then whatever other role id a permission row carries.\<close>

definition matrix_assignments :: "tenant_tables \<Rightarrow> role list \<Rightarrow> (string \<times> pyval) list" where
  "matrix_assignments t roles = map (\<lambda>i. (uuid_str i, VList (map VStr (sort (keys_of_role i t)))))
     (map ro_id roles @ filter (\<lambda>i. i \<notin> set (map ro_id roles))
        (rev (remdups (rev (map rp_role_id (tt_permissions t))))))"

definition get_matrix :: "'t site_env \<Rightarrow> string list \<Rightarrow> admin_ctx \<Rightarrow> pyval handler" where
  "get_matrix env path ctx =
     sbind (lift_res (assert_permission (ctx_permissions ctx) ''admin.tenant_roles.list'')) (\<lambda>_.
     if sn_multi_tenant env \<and> ctx_tenant ctx = None
     then ret (VDict [(''roles'', VList []), (''permissions'', VList []), (''assignments'', VDict [])])
     else sbind (tt_gets env path (\<lambda>t. t)) (\<lambda>t.
       sbind (sd_gets (\<lambda>db. by_category (sd_catalog db))) (\<lambda>permissions.
       let roles = sort_key ro_name (tt_roles t) in
       ret (VDict [(''roles'', VList (map role_view roles)),
         (''permissions'', VList (map (\<lambda>p. VDict [(''key'', VStr (cr_key p)),
            (''category'', opt_str (cr_category p))]) permissions)),
         (''assignments'', VDict (matrix_assignments t roles))]))))"

section \<open>Replacing keys\<close>

text \<open>The roles the request names, refused if one is unknown or a system role.\<close>

definition check_role :: "role list \<Rightarrow> nat \<Rightarrow> unit res" where
  "check_role roles rid = (case find (\<lambda>r. ro_id r = rid) roles of
     None \<Rightarrow> Inl (http 404 (''Unknown role_id: '' @ uuid_str rid))
   | Some r \<Rightarrow>
     if ro_is_system r
     then Inl (http 403 (''Role '' @ repr_str (ro_name r)
       @ '' is a system role and cannot be edited via the matrix.''))
     else Inr ())"

definition requested_key :: "string \<Rightarrow> string res" where
  "requested_key k = (case validate_permission_key (VStr k) of
     Inl (PyExc InvalidPermissionKeyError msg) \<Rightarrow>
       Inl (http 400 (''Invalid permission key: '' @ repr_str k @ '': '' @ msg))
   | Inl e \<Rightarrow> Inl e
   | Inr key \<Rightarrow> Inr key)"

definition delete_keys :: "nat \<Rightarrow> string list \<Rightarrow> tenant_tables \<Rightarrow> tenant_tables" where
  "delete_keys rid to_remove t = t\<lparr>tt_permissions :=
     filter (\<lambda>p. \<not> (rp_role_id p = rid \<and> rp_key p \<in> set to_remove)) (tt_permissions t)\<rparr>"

definition add_keys_to :: "nat \<Rightarrow> string list \<Rightarrow> tenant_tables \<Rightarrow> tenant_tables" where
  "add_keys_to rid to_add t = t\<lparr>tt_permissions :=
     tt_permissions t @ map (\<lambda>k. \<lparr>rp_role_id = rid, rp_key = k\<rparr>) to_add\<rparr>"

text \<open>One role: \<open>current\<close> is what it held when the request began.  The query for the rows to delete
  flushes what was added.\<close>

definition apply_role :: "'t site_env \<Rightarrow> string list \<Rightarrow> nat \<Rightarrow> string list \<Rightarrow> string list \<Rightarrow> unit handler" where
  "apply_role env path rid current desired =
    (let to_add = filter (\<lambda>k. k \<notin> set current) (remdups desired);
         to_remove = filter (\<lambda>k. k \<notin> set desired) current in
     sbind (tt_modify env path (add_keys_to rid to_add)) (\<lambda>_.
     if to_remove = [] then ret ()
     else sbind (sn_flushed env) (\<lambda>_. tt_modify env path (delete_keys rid to_remove))))"

fun apply_roles ::
    "'t site_env \<Rightarrow> string list \<Rightarrow> tenant_tables \<Rightarrow> (nat \<times> string list) list \<Rightarrow> unit handler" where
  "apply_roles env path t0 [] = ret ()"
| "apply_roles env path t0 ((rid, desired) # rest) =
     sbind (apply_role env path rid (keys_of_role rid t0) desired) (\<lambda>_. apply_roles env path t0 rest)"

definition update_matrix ::
    "'t site_env \<Rightarrow> (string \<times> string list) list \<Rightarrow> string list \<Rightarrow> admin_ctx \<Rightarrow> pyval handler" where
  "update_matrix env assignments path ctx =
     sbind (lift_res (assert_permission (ctx_permissions ctx) ''admin.tenant_role_permissions.update'')) (\<lambda>_.
     if assignments = [] then get_matrix env path ctx
     else sbind (lift_res (mapM (parse_uuid ''role_id'') (map fst assignments))) (\<lambda>role_ids.
       sbind (tt_gets env path (\<lambda>t. t)) (\<lambda>t.
       sbind (lift_res (mapM (check_role (tt_roles t)) role_ids)) (\<lambda>_.
       sbind (sd_gets (\<lambda>db. map cr_key (sd_catalog db))) (\<lambda>catalog_keys.
       sbind (lift_res (mapM (\<lambda>(r, keys). mapM requested_key keys) assignments)) (\<lambda>desired.
       let unknown_keys = filter (\<lambda>k. k \<notin> set catalog_keys) (remdups (concat desired)) in
       if unknown_keys \<noteq> []
       then throw (http 400 (''Unknown permission keys (not in PermissionCatalog): ''
         @ join '', '' (sort unknown_keys)))
       else sbind (apply_roles env path t (zip role_ids desired)) (\<lambda>_.
         sbind (sn_flushed env) (\<lambda>_. get_matrix env path ctx))))))))"

definition matrix_route ::
    "'t site_env \<Rightarrow> int \<Rightarrow> 't credentials \<Rightarrow> tenant_context option \<Rightarrow> (string \<times> string list) list
      \<Rightarrow> pyval handler" where
  "matrix_route env now credentials tctx assignments =
     admin_route env now credentials tctx (update_matrix env assignments)"

section \<open>What a successful update leaves\<close>

lemma tt_gets_Inr: "tt_gets env path f s = (Inr x, s') \<longleftrightarrow> s' = s \<and>
    (\<exists>n. local_schema env path (st_db s) = Some n \<and> x = f (schema_tables n (st_db s)))"
  by (auto simp: tt_gets_def split: option.splits)

lemma tt_modify_Inr: "tt_modify env path f s = (Inr x, s') \<longleftrightarrow>
    (\<exists>n. local_schema env path (st_db s) = Some n
      \<and> s' = s\<lparr>st_db := set_tables n (f (schema_tables n (st_db s))) (st_db s)\<rparr>)"
  by (auto simp: tt_modify_def split: option.splits)

lemma sn_flushed_Inr: "sn_flushed env s = (Inr x, s') \<longleftrightarrow> s' = s \<and> sn_flush env s = None"
  by (auto simp: sn_flushed_def split: option.splits)

lemma set_tables_simps [simp]:
  "schema_tables n (set_tables n t db) = t"
  "set_tables n t' (set_tables n t db) = set_tables n t' db"
  by (simp_all add: set_tables_def schema_tables_def update_conv')

lemma local_schema_set: "local_schema env path db = Some n \<Longrightarrow> local_schema env path (set_tables n t db) = Some n"
proof -
  assume n: "local_schema env path db = Some n"
  then have "map_of (sd_schemas db) n \<noteq> None" by (auto simp: local_schema_def find_Some_iff)
  then have "(map_of (sd_schemas (set_tables n t db)) k \<noteq> None) = (map_of (sd_schemas db) k \<noteq> None)" for k
    by (simp add: set_tables_def update_conv')
  then show ?thesis using n unfolding local_schema_def by presburger
qed

text \<open>The tables after one role, and after all of them.\<close>

definition role_replaced :: "nat \<Rightarrow> string list \<Rightarrow> string list \<Rightarrow> tenant_tables \<Rightarrow> tenant_tables" where
  "role_replaced rid current desired t =
     delete_keys rid (filter (\<lambda>k. k \<notin> set desired) current)
       (add_keys_to rid (filter (\<lambda>k. k \<notin> set current) (remdups desired)) t)"

lemma delete_keys_Nil [simp]: "delete_keys rid [] t = t"
  by (simp add: delete_keys_def)

lemma apply_role_Inr:
  assumes "apply_role env path rid current desired s = (Inr u, s')"
    and "local_schema env path (st_db s) = Some n"
  shows "s' = s\<lparr>st_db := set_tables n (role_replaced rid current desired (schema_tables n (st_db s))) (st_db s)\<rparr>"
  using assms unfolding apply_role_def role_replaced_def Let_def
  by (auto simp: res_simps tt_modify_Inr sn_flushed_Inr local_schema_set split: if_splits)

fun roles_replaced :: "tenant_tables \<Rightarrow> (nat \<times> string list) list \<Rightarrow> tenant_tables \<Rightarrow> tenant_tables" where
  "roles_replaced t0 [] t = t"
| "roles_replaced t0 ((rid, desired) # rest) t =
     roles_replaced t0 rest (role_replaced rid (keys_of_role rid t0) desired t)"

lemma apply_roles_Inr:
  assumes "apply_roles env path t0 xs s = (Inr u, s')"
    and "local_schema env path (st_db s) = Some n"
  shows "s' = s\<lparr>st_db := set_tables n (roles_replaced t0 xs (schema_tables n (st_db s))) (st_db s)\<rparr>
    \<or> xs = [] \<and> s' = s"
  using assms
proof (induction xs arbitrary: s)
  case (Cons x xs)
  obtain rid desired where x: "x = (rid, desired)" by fastforce
  then obtain s1 where s1: "apply_role env path rid (keys_of_role rid t0) desired s = (Inr (), s1)"
      "apply_roles env path t0 xs s1 = (Inr u, s')"
    using Cons.prems(1) by (auto simp: res_simps)
  have eq: "s1 = s\<lparr>st_db := set_tables n (role_replaced rid (keys_of_role rid t0) desired
      (schema_tables n (st_db s))) (st_db s)\<rparr>"
    by (rule apply_role_Inr [OF s1(1) Cons.prems(2)])
  then have "local_schema env path (st_db s1) = Some n"
    using local_schema_set [OF Cons.prems(2)] by simp
  from Cons.IH [OF s1(2) this] show ?case
    using eq x by auto
qed simp

lemma role_replaced_simps [simp]:
  "tt_roles (role_replaced rid cur ks t) = tt_roles t" "tt_links (role_replaced rid cur ks t) = tt_links t"
  by (simp_all add: role_replaced_def delete_keys_def add_keys_to_def)

lemma keys_of_role_replaced:
  "rid' \<noteq> rid \<Longrightarrow> keys_of_role rid' (role_replaced rid cur ks t) = keys_of_role rid' t"
  "set (keys_of_role rid (role_replaced rid (keys_of_role rid t) ks t)) = set ks"
proof -
  show "keys_of_role rid' (role_replaced rid cur ks t) = keys_of_role rid' t" if "rid' \<noteq> rid"
    using that by (auto simp: keys_of_role_def role_replaced_def delete_keys_def add_keys_to_def
      filter_empty_conv intro!: arg_cong [of _ _ "map rp_key"] filter_cong)
  show "set (keys_of_role rid (role_replaced rid (keys_of_role rid t) ks t)) = set ks"
    by (force simp: keys_of_role_def role_replaced_def delete_keys_def add_keys_to_def)
qed

lemma roles_replaced_simps [simp]:
  "tt_roles (roles_replaced t0 xs t) = tt_roles t" "tt_links (roles_replaced t0 xs t) = tt_links t"
  by (induction t0 xs t rule: roles_replaced.induct) auto

lemma roles_replaced_other:
  "rid \<notin> fst ` set xs \<Longrightarrow> keys_of_role rid (roles_replaced t0 xs t) = keys_of_role rid t"
  by (induction t0 xs t rule: roles_replaced.induct) (auto simp: keys_of_role_replaced)

lemma roles_replaced_own:
  assumes "distinct (map fst xs)" and "(rid, ks) \<in> set xs"
    and "\<And>i. i \<in> fst ` set xs \<Longrightarrow> keys_of_role i t = keys_of_role i t0"
  shows "set (keys_of_role rid (roles_replaced t0 xs t)) = set ks"
  using assms
proof (induction xs arbitrary: t)
  case (Cons x xs)
  obtain i js where x: "x = (i, js)" by fastforce
  let ?t = "role_replaced i (keys_of_role i t0) js t"
  have i: "i \<notin> fst ` set xs" using Cons.prems(1) x by auto
  have same: "keys_of_role i t0 = keys_of_role i t" using Cons.prems(3) [of i] x by simp
  show ?case
  proof (cases "(rid, ks) \<in> set xs")
    case True
    have "keys_of_role j ?t = keys_of_role j t0" if "j \<in> fst ` set xs" for j
      using that i Cons.prems(3) [of j] keys_of_role_replaced(1) [of j i] by (metis image_insert insert_iff list.simps(15))
    with True Cons.IH [of ?t] Cons.prems(1) x show ?thesis by simp
  next
    case False
    then have "rid = i" "ks = js" using Cons.prems(2) x by auto
    then show ?thesis
      using roles_replaced_other [OF i] keys_of_role_replaced(2) [where rid = i and ks = js and t = t] x same by simp
  qed
qed simp

lemma parse_uuid_Inr: "parse_uuid label raw = Inr i \<longleftrightarrow> uuid_parse raw = Some i"
  by (simp add: parse_uuid_def split: option.split)

lemma requested_key_Inr: "requested_key k = Inr k' \<Longrightarrow> k' = k"
  using validate_permission_key_Inr by (auto simp: requested_key_def split: sum.splits exn.splits exc_class.splits)

lemma mapM_requested: "mapM requested_key ks = Inr ks' \<Longrightarrow> ks' = ks"
  by (induction ks arbitrary: ks') (auto simp: res_simps dest: requested_key_Inr)

lemma mapM_assignments: "mapM (\<lambda>(r, keys). mapM requested_key keys) assignments = Inr desired \<Longrightarrow> desired = map snd assignments"
  by (induction assignments arbitrary: desired) (auto simp: res_simps dest: mapM_requested)

lemma mapM_parse: "mapM (parse_uuid label) raws = Inr ids \<Longrightarrow> map Some ids = map uuid_parse raws"
  by (induction raws arbitrary: ids) (auto simp: res_simps parse_uuid_Inr)

lemma mapM_check: "mapM (check_role roles) ids = Inr us \<Longrightarrow> i \<in> set ids \<Longrightarrow>
    \<exists>r \<in> set roles. ro_id r = i \<and> \<not> ro_is_system r"
  by (induction ids arbitrary: us)
    (auto simp: res_simps check_role_def find_Some_iff split: option.splits if_splits)

lemma get_matrix_state: "reads (get_matrix env path ctx)"
  unfolding get_matrix_def Let_def by (intro reads_intros)

lemma update_matrix_Inr:
  assumes "update_matrix env assignments path ctx s = (Inr v, s')" and "assignments \<noteq> []"
    and "local_schema env path (st_db s) = Some n"
  obtains ids us where "map Some ids = map (\<lambda>(r, keys). uuid_parse r) assignments"
    "mapM (check_role (tt_roles (schema_tables n (st_db s)))) ids = Inr us"
    "\<forall>(r, keys) \<in> set assignments. set keys \<subseteq> cr_key ` set (sd_catalog (st_db s))"
    "st_db s' = set_tables n (roles_replaced (schema_tables n (st_db s)) (zip ids (map snd assignments))
       (schema_tables n (st_db s))) (st_db s)" "st_server s' = st_server s"
proof -
  let ?t = "schema_tables n (st_db s)"
  obtain ids us desired s1 where ids: "mapM (parse_uuid ''role_id'') (map fst assignments) = Inr ids"
    and check: "mapM (check_role (tt_roles ?t)) ids = Inr us"
    and desired: "mapM (\<lambda>(r, keys). mapM requested_key keys) assignments = Inr desired"
    and known: "filter (\<lambda>k. k \<notin> cr_key ` set (sd_catalog (st_db s))) (remdups (concat desired)) = []"
    and run: "apply_roles env path ?t (zip ids desired) s = (Inr (), s1)"
    and rest: "get_matrix env path ctx s1 = (Inr v, s')"
    using assms by (auto simp: update_matrix_def res_simps tt_gets_Inr sd_gets_def sn_flushed_Inr Let_def
        lift_res_Inr simp del: run_eq_simps(3) split: if_splits)
  have d: "desired = map snd assignments" by (rule mapM_assignments [OF desired])
  have ids': "map Some ids = map (\<lambda>(r, keys). uuid_parse r) assignments"
    using mapM_parse [OF ids] by (simp add: case_prod_beta)
  have "zip ids desired \<noteq> []"
    using assms(2) ids' d by (cases assignments) auto
  then have s1: "s1 = s\<lparr>st_db := set_tables n (roles_replaced ?t (zip ids desired) ?t) (st_db s)\<rparr>"
    using apply_roles_Inr [OF run assms(3)] by auto
  have "s' = s1" by (rule reads_run [OF get_matrix_state rest])
  moreover have "\<forall>(r, keys) \<in> set assignments. set keys \<subseteq> cr_key ` set (sd_catalog (st_db s))"
    using known d by (fastforce simp: filter_empty_conv)
  ultimately show thesis using that ids' check d s1 by auto
qed

section \<open>Properties\<close>

text \<open>C11: a successful update of the matrix leaves each role it names with exactly the keys it lists,
  all of them keys of the catalog and the role no system role; every other role, the role table, the
  links of the members and every other table are as before.\<close>

theorem matrix_update_exact:
  assumes "update_matrix env assignments path ctx s = (Inr v, s')" and "assignments \<noteq> []"
    and "local_schema env path (st_db s) = Some n"
    and "distinct (map (\<lambda>(r, keys). uuid_parse r) assignments)"
  shows "(\<forall>(r, keys) \<in> set assignments. \<exists>rid. uuid_parse r = Some rid
         \<and> set (keys_of_role rid (schema_tables n (st_db s'))) = set keys
         \<and> set keys \<subseteq> cr_key ` set (sd_catalog (st_db s))
         \<and> (\<exists>ro \<in> set (tt_roles (schema_tables n (st_db s))). ro_id ro = rid \<and> \<not> ro_is_system ro))
    \<and> (\<forall>rid. Some rid \<notin> (\<lambda>(r, keys). uuid_parse r) ` set assignments \<longrightarrow>
         keys_of_role rid (schema_tables n (st_db s')) = keys_of_role rid (schema_tables n (st_db s)))
    \<and> tt_roles (schema_tables n (st_db s')) = tt_roles (schema_tables n (st_db s))
    \<and> tt_links (schema_tables n (st_db s')) = tt_links (schema_tables n (st_db s))
    \<and> st_db s' = set_tables n (schema_tables n (st_db s')) (st_db s) \<and> st_server s' = st_server s"
proof -
  let ?t = "schema_tables n (st_db s)"
  obtain ids us where ids: "map Some ids = map (\<lambda>(r, keys). uuid_parse r) assignments"
    and check: "mapM (check_role (tt_roles ?t)) ids = Inr us"
    and known: "\<forall>(r, keys) \<in> set assignments. set keys \<subseteq> cr_key ` set (sd_catalog (st_db s))"
    and s': "st_db s' = set_tables n (roles_replaced ?t (zip ids (map snd assignments)) ?t) (st_db s)"
      "st_server s' = st_server s"
    by (rule update_matrix_Inr [OF assms(1-3)])
  let ?xs = "zip ids (map snd assignments)"
  have len: "length ids = length assignments" using ids by (metis length_map)
  then have fst: "map fst ?xs = ids" by simp
  have dist: "distinct (map fst ?xs)" using assms(4) ids fst by (metis distinct_map)
  have own: "\<exists>rid. uuid_parse r = Some rid
      \<and> set (keys_of_role rid (schema_tables n (st_db s'))) = set keys
      \<and> set keys \<subseteq> cr_key ` set (sd_catalog (st_db s))
      \<and> (\<exists>ro \<in> set (tt_roles ?t). ro_id ro = rid \<and> \<not> ro_is_system ro)" if rk: "(r, keys) \<in> set assignments" for r keys
  proof -
    obtain i where i: "i < length assignments" "assignments ! i = (r, keys)"
      using rk by (auto simp: in_set_conv_nth)
    have "map Some ids ! i = map (\<lambda>(r, keys). uuid_parse r) assignments ! i" using ids by simp
    then have rid: "uuid_parse r = Some (ids ! i)" using i len by simp
    have "(ids ! i, keys) \<in> set ?xs" using i len by (force simp: in_set_zip)
    then have "set (keys_of_role (ids ! i) (schema_tables n (st_db s'))) = set keys"
      using roles_replaced_own [OF dist, of "ids ! i" keys ?t ?t] s'(1) by simp
    then show ?thesis
      using rid known rk mapM_check [OF check, of "ids ! i"] i len by auto
  qed
  have other: "keys_of_role rid (schema_tables n (st_db s')) = keys_of_role rid ?t"
    if "Some rid \<notin> (\<lambda>(r, keys). uuid_parse r) ` set assignments" for rid
  proof -
    have "Some rid \<notin> set (map Some ids)" using that ids by (metis list.set_map)
    then have "rid \<notin> fst ` set ?xs" using fst by (metis image_eqI list.set_map)
    then show ?thesis using roles_replaced_other s'(1) by simp
  qed
  show ?thesis using own other s' by auto
qed

lemma schema_tables_set: "schema_tables k (set_tables n t db) = (if k = n then t else schema_tables k db)"
  by (simp add: set_tables_def schema_tables_def update_conv')

lemma set_tables_fields [simp]:
  "sd_memberships (set_tables n t db) = sd_memberships db"
  by (simp add: set_tables_def)

lemma platform_gate_open:
  assumes "platform_key (model_name a) action = Inr key" and "ma_platform_only a"
    and "key \<in> set (ctx_permissions ctx)"
  shows "require_resource_permission ctx a action = Inr ()"
proof -
  let ?ws = "[PLATFORM_NAMESPACE, model_name a, action]"
  have k: "permission_key (model_name a) action PLATFORM_NAMESPACE = Inr key"
    using assms(1) by (simp add: platform_key_def)
  then have v: "resource_re (model_name a)" "action_re action" "key = join ''.'' ?ws"
    using permission_key_Inr [OF namespace_re_admin(2)] by auto
  have parts: "key_parts key = ?ws"
    using key_parts_join [of ?ws] v namespace_re_admin(2) re_key by auto
  have "\<forall>w \<in> set ?ws. w \<noteq> ''*''"
    using permission_key_parts(2) [OF k namespace_re_admin(2)] v namespace_re_admin(2)
    by (auto dest!: re_key simp: is_lower_def PLATFORM_NAMESPACE_def)
  then have "covers (key_parts key) ?ws" unfolding parts covers_def by auto
  moreover have "strip key \<noteq> []"
  proof
    assume "strip key = []"
    then have "key_parts key = [[]]" by (simp add: key_parts_def)
    then show False using parts by simp
  qed
  ultimately show ?thesis
    using assms has_permission_key [OF k namespace_re_admin(2)]
    by (auto simp: require_resource_permission_def platform_key_def ctx_has_permission_def guard_def)
qed

text \<open>the matrix hands out platform authority.  Whoever may edit the matrix of a tenant can list any
  \<open>platform.*\<close> key of the catalog for a custom role; from then on every member with that role
  holds the key inside the tenant, and the gate of a platform-only admin lets it through there.
  Nothing but the catalog stands between a tenant and the platform tier, although the bootstrap
  code says such keys are never assignable to a tenant role.\<close>

theorem matrix_grants_platform_keys:
  assumes "matrix_route env now cred (Some c) [(uuid_str (ro_id r), [key])] s = (Inr v, s')"
    and "ro_id r < 2 ^ 128" and "platform_key (model_name a) action = Inr key" and "ma_platform_only a"
    and "sn_postgres env" and "local_schema env [tc_schema_name c, ''public''] (st_db s) = Some n"
    and "r \<in> set (tt_roles (schema_tables n (st_db s)))"
    and "\<lparr>mr_membership_id = mb_id m, mr_role_id = ro_id r\<rparr> \<in> set (tt_links (schema_tables n (st_db s)))"
    and "m \<in> set (sd_memberships (st_db s))" and "mb_is_active m" and "mb_tenant_id m = tc_id c"
    and "mb_user_id m = us_id u" and "\<not> us_is_superadmin u" and "us_id u < 2 ^ 128"
    and "tc_id c < 2 ^ 128" and "tc_schema_name c \<noteq> []"
  shows "holds_key env c (st_db s') (us_id u) key
    \<and> (\<forall>ctx. get_permissions env True (user_principal u) (admin_tenant (Some c)) (st_db s')
          = Inr (ctx_permissions ctx) \<longrightarrow> require_resource_permission ctx a action = Inr ())"
proof -
  have path: "request_path env c = [tc_schema_name c, ''public'']"
    using assms(5) by (simp add: request_path_def)
  obtain ctx where run: "update_matrix env [(uuid_str (ro_id r), [key])] (request_path env c) ctx s = (Inr v, s')"
    using admin_route_run [OF assms(1) [unfolded matrix_route_def]] by auto
  let ?t = "schema_tables n (st_db s)" and ?t' = "schema_tables n (st_db s')"
  note id = uuid_parse_str [OF assms(2)]
  have after: "set (keys_of_role (ro_id r) ?t') = {key}" "tt_roles ?t' = tt_roles ?t"
      "tt_links ?t' = tt_links ?t" "st_db s' = set_tables n ?t' (st_db s)"
    using matrix_update_exact [OF run _ assms(6) [folded path]] by (auto simp del: power_numeral simp: id)
  have "key \<in> set (keys_of_role (ro_id r) ?t')" using after(1) by simp
  then have "\<lparr>rp_role_id = ro_id r, rp_key = key\<rparr> \<in> set (tt_permissions ?t')"
    by (auto simp: keys_of_role_def permission_in)
  moreover have "local_schema env [tc_schema_name c, ''public''] (st_db s') = Some n"
    by (subst after(4)) (rule local_schema_set [OF assms(6)])
  moreover have "sd_memberships (st_db s') = sd_memberships (st_db s)"
    by (subst after(4)) simp
  ultimately have holds: "holds_key env c (st_db s') (us_id u) key"
    unfolding holds_key_def using assms(5,7-12) after(2,3) by auto
  moreover have "require_resource_permission ctx' a action = Inr ()"
    if "get_permissions env True (user_principal u) (admin_tenant (Some c)) (st_db s') = Inr (ctx_permissions ctx')" for ctx'
    using platform_gate_open [OF assms(3,4)]
      effective_tenant_permissions [OF that assms(13-16)] holds by blast
  ultimately show ?thesis by blast
qed

text \<open>A member with the wildcard of the tenant gives a colleague the platform's own tenant switch.\<close>

definition demo_grant :: "(exn + pyval) \<times> site" where
  "demo_grant = matrix_route demo_site_env 10 demo_cred (Some demo_tenant)
     [(uuid_str 3, [''platform.tenants.update''])] demo_site"

lemma apply_roles_succeeds:
  assumes "local_schema env path (st_db s) = Some n" and "\<And>s. sn_flush env s = None"
  shows "\<exists>db. apply_roles env path t0 xs s = (Inr (), s\<lparr>st_db := db\<rparr>) \<and> local_schema env path db = Some n"
  using assms(1)
proof (induction xs arbitrary: s)
  case Nil
  then show ?case by (intro exI [of _ "st_db s"]) simp
next
  case (Cons x xs)
  obtain rid desired where x: "x = (rid, desired)" by fastforce
  obtain db where db: "apply_role env path rid (keys_of_role rid t0) desired s = (Inr (), s\<lparr>st_db := db\<rparr>)"
      "local_schema env path db = Some n"
    using Cons.prems local_schema_set [OF Cons.prems]
    by (cases "filter (\<lambda>k. k \<notin> set desired) (keys_of_role rid t0) = []")
      (simp_all add: apply_role_def Let_def sbind_app tt_modify_def sn_flushed_def assms(2) ret_def)
  from Cons.IH [of "s\<lparr>st_db := db\<rparr>"] db x show ?case by (auto simp: sbind_app)
qed

lemma update_matrix_succeeds:
  assumes "assert_permission (ctx_permissions ctx) ''admin.tenant_role_permissions.update'' = Inr ()"
    and "assert_permission (ctx_permissions ctx) ''admin.tenant_roles.list'' = Inr ()"
    and "local_schema env path (st_db s) = Some n" and "\<And>s. sn_flush env s = None"
    and "ctx_tenant ctx \<noteq> None" and "assignments \<noteq> []"
    and "mapM (parse_uuid ''role_id'') (map fst assignments) = Inr ids"
    and "mapM (check_role (tt_roles (schema_tables n (st_db s)))) ids = Inr us"
    and "mapM (\<lambda>(r, keys). mapM requested_key keys) assignments = Inr desired"
    and "filter (\<lambda>k. k \<notin> cr_key ` set (sd_catalog (st_db s))) (remdups (concat desired)) = []"
  shows "isr (fst (update_matrix env assignments path ctx s))"
proof -
  obtain db where db: "apply_roles env path (schema_tables n (st_db s)) (zip ids desired) s = (Inr (), s\<lparr>st_db := db\<rparr>)"
      "local_schema env path db = Some n"
    using apply_roles_succeeds [OF assms(3,4)] by blast
  have "isr (fst (get_matrix env path ctx (s\<lparr>st_db := db\<rparr>)))"
    using assms(2,5) db(2) by (simp add: get_matrix_def sbind_app tt_gets_def sd_gets_def gets_def ret_def Let_def)
  then show ?thesis
    using assms(1,3,6-10) db
    by (simp add: update_matrix_def sbind_app tt_gets_def sd_gets_def gets_def Let_def
        sn_flushed_def assms(4))
qed

lemma demo_update_matrix:
  "isr (fst (update_matrix demo_site_env [(uuid_str 3, [''platform.tenants.update''])]
     [''tenant_acme'', ''public''] demo_ctx demo_site))"
proof (rule update_matrix_succeeds [OF _ _ demo_local_schema(1)])
  show "assert_permission (ctx_permissions demo_ctx) ''admin.tenant_role_permissions.update'' = Inr ()"
      "assert_permission (ctx_permissions demo_ctx) ''admin.tenant_roles.list'' = Inr ()"
    by (simp_all add: demo_ctx_def) code_simp+
  show "sn_flush demo_site_env s = None" for s by (simp add: demo_site_env_def)
  show "ctx_tenant demo_ctx \<noteq> None" by (simp add: demo_ctx_def admin_tenant_def)
  show "mapM (parse_uuid ''role_id'') (map fst [(uuid_str 3, [''platform.tenants.update''])]) = Inr [3]"
    by (simp add: parse_uuid_Inr uuid_parse_str parse_uuid_def)
  show "mapM (check_role (tt_roles (schema_tables ''tenant_acme'' (st_db demo_site)))) [3] = Inr [()]"
    unfolding demo_local_schema(2) by code_simp
  show "mapM (\<lambda>(r, keys). mapM requested_key keys) [(uuid_str 3, [''platform.tenants.update''])]
      = Inr [[''platform.tenants.update'']]"
  proof -
    have "requested_key ''platform.tenants.update'' = Inr ''platform.tenants.update''" by code_simp
    then show ?thesis by simp
  qed
  show "filter (\<lambda>k. k \<notin> cr_key ` set (sd_catalog (st_db demo_site))) (remdups (concat [[''platform.tenants.update'']])) = []"
    by (simp add: demo_site_def)
qed simp

lemma demo_grant_ok: "\<exists>v. demo_grant = (Inr v, snd demo_grant)"
proof -
  obtain v s' where "update_matrix demo_site_env [(uuid_str 3, [''platform.tenants.update''])]
     [''tenant_acme'', ''public''] demo_ctx demo_site = (Inr v, s')"
    using demo_update_matrix by (auto simp: isr_run)
  then have "demo_grant = (Inr v, s')"
    by (simp add: demo_grant_def matrix_route_def admin_route_def sbind_app demo_context in_session_def demo_path)
  then show ?thesis unfolding \<open>demo_grant = (Inr v, s')\<close> by simp
qed

definition demo_platform_admin :: model_admin where
  "demo_platform_admin = (ModelAdmin \<lparr>mo_tablename = ''tenants'', mo_schema = Some ''public'',
     mo_class = ''Tenant'', mo_tenant_base = False, mo_columns = []\<rparr>) \<lparr>ma_platform_only := True\<rparr>"

definition demo_colleague :: user where
  "demo_colleague = demo_user\<lparr>us_id := 43\<rparr>"

lemma matrix_grants_platform_keys_witness:
  "holds_key demo_site_env demo_tenant (st_db (snd demo_grant)) 43 ''platform.tenants.update''"
proof -
  let ?r = "\<lparr>ro_id = 3, ro_name = ''staff'', ro_description = None, ro_is_system = False\<rparr>"
  let ?m = "\<lparr>mb_id = 5, mb_user_id = 43, mb_tenant_id = 7, mb_is_active = True\<rparr>"
  obtain v where run: "demo_grant = (Inr v, snd demo_grant)" using demo_grant_ok ..
  have "tc_schema_name demo_tenant = ''tenant_acme''" "tc_id demo_tenant = 7" by (simp_all add: demo_tenant_def)
  moreover have "platform_key (model_name demo_platform_admin) ''update'' = Inr ''platform.tenants.update''" by code_simp
  moreover have "sn_postgres demo_site_env" by (simp add: demo_site_env_def)
  moreover have "?r \<in> set (tt_roles demo_tables)"
      "\<lparr>mr_membership_id = mb_id ?m, mr_role_id = ro_id ?r\<rparr> \<in> set (tt_links demo_tables)"
    by (simp_all add: demo_tables_def)
  moreover have "?m \<in> set (sd_memberships (st_db demo_site))" by (simp add: demo_site_def)
  ultimately have "holds_key demo_site_env demo_tenant (st_db (snd demo_grant)) (us_id demo_colleague) ''platform.tenants.update''"
    using matrix_grants_platform_keys [of demo_site_env 10 demo_cred demo_tenant ?r "''platform.tenants.update''"
        demo_site v "snd demo_grant" demo_platform_admin "''update''" "''tenant_acme''" ?m demo_colleague]
      run [unfolded demo_grant_def] demo_local_schema
    by (simp add: demo_colleague_def demo_user_def demo_grant_def demo_platform_admin_def)
  then show ?thesis by (simp add: demo_colleague_def demo_user_def)
qed

lemma matrix_update_exact_witness:
  "set (keys_of_role 3 (schema_tables ''tenant_acme'' (st_db (snd demo_grant)))) = {''platform.tenants.update''}
   \<and> keys_of_role 2 (schema_tables ''tenant_acme'' (st_db (snd demo_grant))) = [''admin.*'']"
proof -
  obtain v where "demo_grant = (Inr v, snd demo_grant)" using demo_grant_ok ..
  from admin_route_run [OF this [unfolded demo_grant_def matrix_route_def], folded matrix_route_def, folded demo_grant_def]
  obtain ctx where run: "update_matrix demo_site_env [(uuid_str 3, [''platform.tenants.update''])]
      [''tenant_acme'', ''public''] ctx demo_site = (Inr v, snd demo_grant)"
    by (auto simp: demo_path)
  have id: "uuid_parse (uuid_str 3) = Some 3" by (simp add: uuid_parse_str)
  have "keys_of_role 2 demo_tables = [''admin.*'']" by code_simp
  then show ?thesis
    using matrix_update_exact [OF run _ demo_local_schema(1)] by (auto simp: id demo_local_schema)
qed

end
