(* ===== verification/Bootstrap.thy ===== *)
theory Bootstrap
  imports Matrix
begin

text \<open>
  Creating a tenant: \<open>src/asterion/tenancy/bootstrap.py\<close>, the seeding of its default roles
  included.  The theorem at the end bounds what seeding grants.
\<close>

section \<open>Public rows\<close>

definition DEFAULT_ROLE_DEFS :: "(string \<times> string) list" where
  "DEFAULT_ROLE_DEFS = [(''owner'', ''Full tenant access''), (''admin'', ''Administrative access''),
     (''viewer'', ''Read-only access'')]"

definition OWNER_FALLBACK_PERMISSIONS :: "string list" where
  "OWNER_FALLBACK_PERMISSIONS = [''admin.*'']"

definition ADMIN_PERMISSIONS_DENY :: "string list" where
  "ADMIN_PERMISSIONS_DENY = [''admin.audit_logs.delete'', ''admin.users.delete'']"

definition tenant_of_slug :: "string \<Rightarrow> tenant_row option handler" where
  "tenant_of_slug slug =
     sbind (sd_gets (\<lambda>db. scalar_one_or_none (filter (\<lambda>t. te_slug t = slug) (sd_tenants db)))) lift_res"

definition create_tenant_record :: "'t site_env \<Rightarrow> string \<Rightarrow> pyval \<Rightarrow> tenant_row handler" where
  "create_tenant_record env name slug_value =
     sbind (lift_res (validate_tenant_slug slug_value)) (\<lambda>slug.
     sbind (lift_res (make_tenant_schema_name (VStr slug))) (\<lambda>schema_name.
     sbind (tenant_of_slug slug) (\<lambda>existing. case existing of
       Some t \<Rightarrow> ret t
     | None \<Rightarrow>
       sbind (new_id env) (\<lambda>i.
       let t = \<lparr>te_id = i, te_slug = slug, te_name = name, te_is_active = True,
         te_schema_name = schema_name, te_allowed_cidrs = None, te_offboarded_at = None\<rparr> in
       sbind (sd_modify (\<lambda>db. db\<lparr>sd_tenants := sd_tenants db @ [t]\<rparr>)) (\<lambda>_.
       sbind (sn_flushed env) (\<lambda>_. ret t))))))"

definition assign_owner_membership :: "'t site_env \<Rightarrow> tenant_row \<Rightarrow> user \<Rightarrow> membership handler" where
  "assign_owner_membership env t u = ensure_membership env (us_id u) (te_id t)"

section \<open>Seeding\<close>

text \<open>The keys of the catalog a tenant role may hold.\<close>

definition tenant_catalog_keys :: "catalog_row list \<Rightarrow> string list res" where
  "tenant_catalog_keys rows = mapM (\<lambda>k. validate_permission_key (VStr k))
     (filter (\<lambda>k. \<not> startswith k ''platform.'') (map cr_key rows))"

definition ensure_role :: "'t site_env \<Rightarrow> string list \<Rightarrow> string \<times> string \<Rightarrow> role handler" where
  "ensure_role env path def =
     sbind (tt_gets env path (\<lambda>t. scalar_one_or_none (filter (\<lambda>r. ro_name r = fst def) (tt_roles t)))) (\<lambda>found.
     sbind (lift_res found) (\<lambda>existing. case existing of
       Some r \<Rightarrow> ret r
     | None \<Rightarrow>
       sbind (new_id env) (\<lambda>i.
       let r = \<lparr>ro_id = i, ro_name = fst def, ro_description = Some (snd def), ro_is_system = True\<rparr> in
       sbind (tt_modify env path (\<lambda>t. t\<lparr>tt_roles := tt_roles t @ [r]\<rparr>)) (\<lambda>_.
       sbind (sn_flushed env) (\<lambda>_. ret r)))))"

fun ensure_roles :: "'t site_env \<Rightarrow> string list \<Rightarrow> (string \<times> string) list \<Rightarrow> (string \<times> role) list handler" where
  "ensure_roles env path [] = ret []"
| "ensure_roles env path (d # ds) =
     sbind (ensure_role env path d) (\<lambda>r. sbind (ensure_roles env path ds) (\<lambda>rs. ret ((fst d, r) # rs)))"

text \<open>The keys a default role is granted.\<close>

definition default_keys :: "string list \<Rightarrow> string \<Rightarrow> string list" where
  "default_keys catalog_keys name =
    (if name = ''owner'' then OWNER_FALLBACK_PERMISSIONS @ catalog_keys
     else if name = ''admin'' then filter (\<lambda>k. k \<notin> set ADMIN_PERMISSIONS_DENY) catalog_keys
     else filter (\<lambda>k. endswith k ''.list'') catalog_keys)"

definition granted :: "nat \<Rightarrow> string list \<Rightarrow> tenant_tables \<Rightarrow> tenant_tables" where
  "granted rid keys t = (let existing = map rp_key (filter (\<lambda>p. rp_role_id p = rid) (tt_permissions t)) in
     t\<lparr>tt_permissions := tt_permissions t @ map (\<lambda>k. \<lparr>rp_role_id = rid, rp_key = k\<rparr>)
        (filter (\<lambda>k. k \<notin> set existing) (remdups keys))\<rparr>)"

definition grant_permissions :: "'t site_env \<Rightarrow> string list \<Rightarrow> role \<Rightarrow> string list \<Rightarrow> unit handler" where
  "grant_permissions env path r keys =
    (if keys = [] then ret () else tt_modify env path (granted (ro_id r) keys))"

definition assign_membership_role :: "'t site_env \<Rightarrow> string list \<Rightarrow> nat \<Rightarrow> role \<Rightarrow> unit handler" where
  "assign_membership_role env path mid r =
     sbind (tt_gets env path (\<lambda>t. filter (\<lambda>l. mr_membership_id l = mid \<and> mr_role_id l = ro_id r) (tt_links t)))
     (\<lambda>existing. if existing = []
       then tt_modify env path (\<lambda>t. t\<lparr>tt_links := tt_links t @
         [\<lparr>mr_membership_id = mid, mr_role_id = ro_id r\<rparr>]\<rparr>)
       else ret ())"

definition role_named :: "(string \<times> role) list \<Rightarrow> string \<Rightarrow> role" where
  "role_named role_map name = the (map_of role_map name)"

definition seed_default_tenant_roles ::
    "'t site_env \<Rightarrow> string list \<Rightarrow> nat option \<Rightarrow> (string \<times> role) list handler" where
  "seed_default_tenant_roles env path owner_membership_id =
     sbind (sd_gets (\<lambda>db. tenant_catalog_keys (sd_catalog db))) (\<lambda>keys.
     sbind (lift_res keys) (\<lambda>catalog_keys.
     sbind (ensure_roles env path DEFAULT_ROLE_DEFS) (\<lambda>role_map.
     sbind (grant_permissions env path (role_named role_map ''owner'') (default_keys catalog_keys ''owner'')) (\<lambda>_.
     sbind (grant_permissions env path (role_named role_map ''admin'') (default_keys catalog_keys ''admin'')) (\<lambda>_.
     sbind (grant_permissions env path (role_named role_map ''viewer'') (default_keys catalog_keys ''viewer'')) (\<lambda>_.
     sbind (case owner_membership_id of None \<Rightarrow> ret ()
       | Some mid \<Rightarrow> assign_membership_role env path mid (role_named role_map ''owner'')) (\<lambda>_.
     sbind (sn_flushed env) (\<lambda>_.
     ret role_map))))))))"

section \<open>Bootstrapping a tenant\<close>

text \<open>\<open>CREATE SCHEMA IF NOT EXISTS\<close> and the tenant migrations, which create the tables where they
  are missing.\<close>

definition provision_tenant_schema :: "string \<Rightarrow> unit handler" where
  "provision_tenant_schema schema_name = sd_modify (\<lambda>db. if map_of (sd_schemas db) schema_name = None
     then db\<lparr>sd_schemas := sd_schemas db @
       [(schema_name, \<lparr>tt_roles = [], tt_permissions = [], tt_links = []\<rparr>)]\<rparr>
     else db)"

text \<open>\<open>get_tenant_session\<close>: its own transaction on the tenant's search path.\<close>

definition tenant_session :: "string \<Rightarrow> (string list \<Rightarrow> 'a handler) \<Rightarrow> 'a handler" where
  "tenant_session schema_name body = (\<lambda>s.
     case (case set_search_path schema_name [''public''] of
         (Inl e, _) \<Rightarrow> throw e s | (Inr _, path) \<Rightarrow> body path s) of
       (Inl e, s') \<Rightarrow> (Inl e, s'\<lparr>st_db := st_db s\<rparr>)
     | (Inr x, s') \<Rightarrow> (Inr x, s'))"

definition audit_internal :: "string \<Rightarrow> string \<Rightarrow> pyval \<Rightarrow> row \<Rightarrow> unit handler" where
  "audit_internal path action actor changes = on_server (db_modify (\<lambda>db. db\<lparr>db_audit := db_audit db @
     [[(''method'', VStr ''INTERNAL''), (''path'', VStr path), (''status_code'', VInt 0),
       (''action'', VStr action), (''actor_user_id'', actor), (''changes'', VDict changes)]]\<rparr>))"

text \<open>\<open>sync_permission_catalog\<close> on the stored catalog.\<close>

definition sync_catalog :: "string list \<Rightarrow> sync_result handler" where
  "sync_catalog keys = (\<lambda>s. case sync_permission_catalog keys REGISTRY_SOURCE True (sd_catalog (st_db s)) of
     (r, rows) \<Rightarrow> (r, s\<lparr>st_db := (st_db s)\<lparr>sd_catalog := rows\<rparr>\<rparr>))"

definition bootstrap_tenant ::
    "'t site_env \<Rightarrow> pyval \<Rightarrow> nat option \<Rightarrow> admin_registry option \<Rightarrow> permission_registry option \<Rightarrow> unit handler" where
  "bootstrap_tenant env slug_value owner_membership_id registry permissions =
    (if \<not> sn_postgres env then ret ()
     else sbind (lift_res (validate_tenant_slug slug_value)) (\<lambda>slug.
       sbind (lift_res (make_tenant_schema_name (VStr slug))) (\<lambda>schema_name.
       sbind (if registry \<noteq> None \<or> permissions \<noteq> None
         then sbind (lift_res (generate_permission_keys
             (case registry of Some r \<Rightarrow> r | None \<Rightarrow> admin_registry_init) permissions)) (\<lambda>keys.
           if keys \<noteq> [] then sbind (sync_catalog keys) (\<lambda>_. sn_flushed env) else ret ())
         else ret ()) (\<lambda>_.
       sbind (provision_tenant_schema schema_name) (\<lambda>_.
       sbind (tenant_session schema_name (\<lambda>path. seed_default_tenant_roles env path owner_membership_id)) (\<lambda>_.
       audit_internal ''/tenancy/bootstrap'' ''tenant.created'' VNone
         [(''schema_name'', VStr schema_name)]))))))"

section \<open>What seeding leaves\<close>

lemma set_tables_same: "local_schema env path db = Some n \<Longrightarrow> set_tables n (schema_tables n db) db = db"
  by (auto simp: local_schema_def find_Some_iff set_tables_def schema_tables_def update_triv)

lemma set_tables_over [simp]:
  "sd_catalog (set_tables n t db) = sd_catalog db"
  by (simp add: set_tables_def)

text \<open>A role that is there or added.\<close>

definition role_ensured :: "tenant_tables \<Rightarrow> string \<Rightarrow> role \<Rightarrow> tenant_tables \<Rightarrow> bool" where
  "role_ensured t name r t' \<longleftrightarrow> ro_name r = name \<and> r \<in> set (tt_roles t')
     \<and> (t' = t \<or> t' = t\<lparr>tt_roles := tt_roles t @ [r]\<rparr>)"

lemma ensure_role_Inr:
  assumes "ensure_role env path d s = (Inr r, s')" and "local_schema env path (st_db s) = Some n"
  shows "\<exists>t'. role_ensured (schema_tables n (st_db s)) (fst d) r t'
    \<and> st_db s' = set_tables n t' (st_db s) \<and> local_schema env path (st_db s') = Some n"
proof -
  obtain found where f: "scalar_one_or_none (filter (\<lambda>r. ro_name r = fst d) (tt_roles (schema_tables n (st_db s)))) = Inr found"
    and cont: "(case found of Some r \<Rightarrow> ret r
     | None \<Rightarrow>
       sbind (new_id env) (\<lambda>i.
       let r = \<lparr>ro_id = i, ro_name = fst d, ro_description = Some (snd d), ro_is_system = True\<rparr> in
       sbind (tt_modify env path (\<lambda>t. t\<lparr>tt_roles := tt_roles t @ [r]\<rparr>)) (\<lambda>_.
       sbind (sn_flushed env) (\<lambda>_. ret r)))) s = (Inr r, s')"
    using assms by (auto simp: ensure_role_def res_simps tt_gets_Inr lift_res_Inr simp del: run_eq_simps(3))
  show ?thesis
  proof (cases found)
    case (Some r')
    then have "filter (\<lambda>r. ro_name r = fst d) (tt_roles (schema_tables n (st_db s))) = [r']"
      using f by (simp add: scalar_one_or_none_Inr)
    then have "ro_name r' = fst d \<and> r' \<in> set (tt_roles (schema_tables n (st_db s)))" by (rule one_row)
    then show ?thesis
      using Some cont assms(2) set_tables_same [OF assms(2)]
      by (intro exI [of _ "schema_tables n (st_db s)"]) (simp add: role_ensured_def)
  next
    case None
    let ?t = "schema_tables n (st_db s)"
    have "st_db s' = set_tables n (?t\<lparr>tt_roles := tt_roles ?t @ [r]\<rparr>) (st_db s)" "ro_name r = fst d"
      using None cont assms(2)
      by (auto simp: res_simps Let_def new_id_def on_server_def draw_def tt_modify_Inr sn_flushed_Inr)
    then show ?thesis
      using local_schema_set [OF assms(2)]
      by (intro exI [of _ "?t\<lparr>tt_roles := tt_roles ?t @ [r]\<rparr>"]) (simp add: role_ensured_def)
  qed
qed

lemma grant_permissions_Inr:
  assumes "grant_permissions env path r keys s = (Inr u, s')" and "local_schema env path (st_db s) = Some n"
  shows "st_db s' = set_tables n (granted (ro_id r) keys (schema_tables n (st_db s))) (st_db s)
    \<and> local_schema env path (st_db s') = Some n"
  using assms local_schema_set [OF assms(2)] set_tables_same [OF assms(2)]
  by (auto simp: grant_permissions_def tt_modify_Inr granted_def split: if_splits)

definition linked :: "nat \<Rightarrow> role \<Rightarrow> tenant_tables \<Rightarrow> tenant_tables" where
  "linked mid r t = (if \<lparr>mr_membership_id = mid, mr_role_id = ro_id r\<rparr> \<in> set (tt_links t) then t
     else t\<lparr>tt_links := tt_links t @ [\<lparr>mr_membership_id = mid, mr_role_id = ro_id r\<rparr>]\<rparr>)"

lemma assign_role_Inr:
  assumes "assign_membership_role env path mid r s = (Inr u, s')" and "local_schema env path (st_db s) = Some n"
  shows "st_db s' = set_tables n (linked mid r (schema_tables n (st_db s))) (st_db s)
    \<and> local_schema env path (st_db s') = Some n"
  using assms local_schema_set [OF assms(2)] set_tables_same [OF assms(2)]
  by (auto simp: assign_membership_role_def res_simps tt_gets_Inr tt_modify_Inr linked_def link_in
      filter_empty_conv split: if_splits)

lemma keys_of_role_granted:
  "set (keys_of_role rid (granted rid keys t)) = set (keys_of_role rid t) \<union> set keys"
  "rid' \<noteq> rid \<Longrightarrow> keys_of_role rid' (granted rid keys t) = keys_of_role rid' t"
proof -
  show "set (keys_of_role rid (granted rid keys t)) = set (keys_of_role rid t) \<union> set keys"
    by (force simp: keys_of_role_def granted_def Let_def)
  show "keys_of_role rid' (granted rid keys t) = keys_of_role rid' t" if "rid' \<noteq> rid"
    using that by (auto simp: keys_of_role_def granted_def Let_def filter_empty_conv)
qed

lemma granted_simps [simp]:
  "tt_roles (granted rid keys t) = tt_roles t" "tt_links (granted rid keys t) = tt_links t"
  "tt_roles (linked mid r t) = tt_roles t" "tt_permissions (linked mid r t) = tt_permissions t"
  "keys_of_role i (linked mid r t) = keys_of_role i t"
  by (simp_all add: granted_def Let_def linked_def keys_of_role_def)

text \<open>The whole of the seeding, as a change of the tenant's tables.\<close>

definition seeded :: "tenant_tables \<Rightarrow> string list \<Rightarrow> role \<Rightarrow> role \<Rightarrow> role \<Rightarrow> nat option \<Rightarrow> tenant_tables" where
  "seeded t cat ow ad vi mid = (let t' = granted (ro_id vi) (default_keys cat ''viewer'')
       (granted (ro_id ad) (default_keys cat ''admin'') (granted (ro_id ow) (default_keys cat ''owner'') t))
     in case mid of None \<Rightarrow> t' | Some i \<Rightarrow> linked i ow t')"

lemma seed_Inr:
  assumes "seed_default_tenant_roles env path mid s = (Inr rm, s')" and "local_schema env path (st_db s) = Some n"
  obtains cat ow ad vi t1 t2 t3 where "tenant_catalog_keys (sd_catalog (st_db s)) = Inr cat"
    "rm = [(''owner'', ow), (''admin'', ad), (''viewer'', vi)]"
    "role_ensured (schema_tables n (st_db s)) ''owner'' ow t1" "role_ensured t1 ''admin'' ad t2"
    "role_ensured t2 ''viewer'' vi t3" "st_db s' = set_tables n (seeded t3 cat ow ad vi mid) (st_db s)"
proof -
  obtain cat s1 s2 s3 s4 s5 where cat: "tenant_catalog_keys (sd_catalog (st_db s)) = Inr cat"
    and roles: "ensure_roles env path DEFAULT_ROLE_DEFS s = (Inr rm, s1)"
    and g: "grant_permissions env path (role_named rm ''owner'') (default_keys cat ''owner'') s1 = (Inr (), s2)"
      "grant_permissions env path (role_named rm ''admin'') (default_keys cat ''admin'') s2 = (Inr (), s3)"
      "grant_permissions env path (role_named rm ''viewer'') (default_keys cat ''viewer'') s3 = (Inr (), s4)"
    and l: "(case mid of None \<Rightarrow> ret ()
       | Some i \<Rightarrow> assign_membership_role env path i (role_named rm ''owner'')) s4 = (Inr (), s5)" "s' = s5"
    using assms(1) unfolding seed_default_tenant_roles_def
    by (auto simp: res_simps sd_gets_def sn_flushed_Inr lift_res_Inr simp del: run_eq_simps(3))
  obtain ow ad vi r1 r2 where e: "ensure_role env path (''owner'', ''Full tenant access'') s = (Inr ow, r1)"
      "ensure_role env path (''admin'', ''Administrative access'') r1 = (Inr ad, r2)"
      "ensure_role env path (''viewer'', ''Read-only access'') r2 = (Inr vi, s1)"
    and rm: "rm = [(''owner'', ow), (''admin'', ad), (''viewer'', vi)]"
    using roles by (auto simp: DEFAULT_ROLE_DEFS_def res_simps)
  obtain t1 where t1: "role_ensured (schema_tables n (st_db s)) ''owner'' ow t1"
      "st_db r1 = set_tables n t1 (st_db s)" "local_schema env path (st_db r1) = Some n"
    using ensure_role_Inr [OF e(1) assms(2)] by auto
  obtain t2 where t2: "role_ensured t1 ''admin'' ad t2" "st_db r2 = set_tables n t2 (st_db s)"
      "local_schema env path (st_db r2) = Some n"
    using ensure_role_Inr [OF e(2) t1(3)] t1(2) by auto
  obtain t3 where t3: "role_ensured t2 ''viewer'' vi t3" "st_db s1 = set_tables n t3 (st_db s)"
      "local_schema env path (st_db s1) = Some n"
    using ensure_role_Inr [OF e(3) t2(3)] t2(2) by auto
  note g1 = grant_permissions_Inr [OF g(1) t3(3)]
  note g2 = grant_permissions_Inr [OF g(2) conjunct2 [OF g1]]
  note g3 = grant_permissions_Inr [OF g(3) conjunct2 [OF g2]]
  have "st_db s' = set_tables n (seeded t3 cat ow ad vi mid) (st_db s)"
  proof (cases mid)
    case None
    then show ?thesis using l g1 g2 g3 t3(2) rm by (simp add: seeded_def role_named_def)
  next
    case (Some i)
    then have "assign_membership_role env path i ow s4 = (Inr (), s5)"
      using l rm by (simp add: role_named_def)
    from assign_role_Inr [OF this conjunct2 [OF g3]] show ?thesis
      using l g1 g2 g3 t3(2) rm Some by (simp add: seeded_def role_named_def)
  qed
  then show thesis using that cat rm t1(1) t2(1) t3(1) by blast
qed

lemma role_ensured_facts:
  assumes "role_ensured t name r t'"
  shows "ro_name r = name" "r \<in> set (tt_roles t')" "set (tt_roles t) \<subseteq> set (tt_roles t')"
    "tt_permissions t' = tt_permissions t" "tt_links t' = tt_links t"
  using assms by (auto simp: role_ensured_def)

lemma keys_of_role_cong: "tt_permissions t' = tt_permissions t \<Longrightarrow> keys_of_role i t' = keys_of_role i t"
  by (simp add: keys_of_role_def)

lemma seeded_keys:
  assumes "ro_id ow \<noteq> ro_id ad" "ro_id ow \<noteq> ro_id vi" "ro_id ad \<noteq> ro_id vi"
  shows "set (keys_of_role (ro_id ow) (seeded t cat ow ad vi mid)) = set (keys_of_role (ro_id ow) t) \<union> set (default_keys cat ''owner'')"
    "set (keys_of_role (ro_id ad) (seeded t cat ow ad vi mid)) = set (keys_of_role (ro_id ad) t) \<union> set (default_keys cat ''admin'')"
    "set (keys_of_role (ro_id vi) (seeded t cat ow ad vi mid)) = set (keys_of_role (ro_id vi) t) \<union> set (default_keys cat ''viewer'')"
    "i \<notin> {ro_id ow, ro_id ad, ro_id vi} \<Longrightarrow> keys_of_role i (seeded t cat ow ad vi mid) = keys_of_role i t"
  using assms assms [symmetric]
  by (cases mid; simp add: seeded_def Let_def keys_of_role_granted)+

lemma seeded_roles [simp]: "tt_roles (seeded t cat ow ad vi mid) = tt_roles t"
  by (simp add: seeded_def Let_def split: option.split)

text \<open>No key of the catalog a tenant role may hold reaches the platform tier.\<close>

lemma tenant_keys_below_platform:
  assumes "tenant_catalog_keys rows = Inr cat" and "k \<in> set (default_keys cat name)"
  shows "\<not> covers (key_parts k) (''platform'' # rest)"
proof (cases "k = ''admin.*''")
  case True
  moreover have "key_parts ''admin.*'' = [''admin'', ''*'']" by code_simp
  ultimately show ?thesis by (simp add: covers_def)
next
  case False
  then have "k \<in> set cat"
    using assms(2) by (auto simp: default_keys_def OWNER_FALLBACK_PERMISSIONS_def split: if_splits)
  then have seg: "key_segments (split_on CHR ''.'' k)" and np: "\<not> startswith k ''platform.''"
    using assms(1) mapM_Inr_set [of "\<lambda>k. validate_permission_key (VStr k)"]
    by (force simp: tenant_catalog_keys_def validate_permission_key_Inr)+
  obtain g gs where g: "split_on CHR ''.'' k = g # gs" "gs \<noteq> []" "namespace_re g"
    using seg by (auto simp: key_segments_def split: list.splits)
  have "g \<noteq> ''platform''"
  proof
    assume "g = ''platform''"
    then have "k = ''platform'' @ ''.'' @ join ''.'' gs"
      using join_split_on [of "CHR ''.''" k] g by (simp add: join_Cons)
    then have "k = ''platform.'' @ join ''.'' gs" by simp
    then show False using np startswith_append by metis
  qed
  moreover have "g \<noteq> ''*''"
    using g(3) by (auto simp: namespace_re_def is_lower_def)
  ultimately show ?thesis
    using g valid_key_parts [OF seg] by (cases gs) (auto simp: covers_def)
qed

lemma distinct_keyed: "distinct (map f xs) \<Longrightarrow> x \<in> set xs \<Longrightarrow> y \<in> set xs \<Longrightarrow> f x = f y \<Longrightarrow> x = y"
  by (auto simp: distinct_map inj_on_def)

lemma filter_unique: "distinct (map f xs) \<Longrightarrow> x \<in> set xs \<Longrightarrow> filter (\<lambda>y. f y = f x) xs = [x]"
  by (induction xs) (auto simp: filter_empty_conv dest: image_eqI)

lemma granted_nothing:
  assumes "set keys \<subseteq> set (keys_of_role rid t)"
  shows "granted rid keys t = t"
proof -
  have "filter (\<lambda>k. k \<notin> set (map rp_key (filter (\<lambda>p. rp_role_id p = rid) (tt_permissions t)))) (remdups keys) = []"
    using assms by (auto simp: keys_of_role_def filter_empty_conv)
  then show ?thesis unfolding granted_def Let_def by simp
qed

lemma ensure_role_again:
  assumes "local_schema env path (st_db s) = Some n" and "distinct (map ro_name (tt_roles (schema_tables n (st_db s))))"
    and "r \<in> set (tt_roles (schema_tables n (st_db s)))" and "ro_name r = fst d"
  shows "ensure_role env path d s = (Inr r, s)"
  using filter_unique [OF assms(2,3)] assms(1,4)
  by (simp add: ensure_role_def sbind_app tt_gets_def scalar_one_or_none_def proc_simps)

lemma grant_again:
  assumes "local_schema env path (st_db s) = Some n"
    and "set keys \<subseteq> set (keys_of_role (ro_id r) (schema_tables n (st_db s)))"
  shows "grant_permissions env path r keys s = (Inr (), s)"
  using assms granted_nothing [OF assms(2)] set_tables_same [OF assms(1)]
  by (simp add: grant_permissions_def tt_modify_def ret_def)

section \<open>Properties\<close>

lemma linked_again:
  assumes "local_schema env path (st_db s) = Some n"
    and "\<lparr>mr_membership_id = mid, mr_role_id = ro_id r\<rparr> \<in> set (tt_links (schema_tables n (st_db s)))"
  shows "assign_membership_role env path mid r s = (Inr (), s)"
  using assms by (auto simp: assign_membership_role_def sbind_app tt_gets_def link_in filter_empty_conv ret_def)

lemma seeded_linked: "mid = Some i \<Longrightarrow>
    \<lparr>mr_membership_id = i, mr_role_id = ro_id ow\<rparr> \<in> set (tt_links (seeded t cat ow ad vi mid))"
  by (simp add: seeded_def linked_def Let_def)

lemma seed_again:
  assumes "local_schema env path (st_db s) = Some n" and "distinct (map ro_name (tt_roles (schema_tables n (st_db s))))"
    and "{ow, ad, vi} \<subseteq> set (tt_roles (schema_tables n (st_db s)))"
    and "ro_name ow = ''owner''" "ro_name ad = ''admin''" "ro_name vi = ''viewer''"
    and "tenant_catalog_keys (sd_catalog (st_db s)) = Inr cat"
    and "set (default_keys cat ''owner'') \<subseteq> set (keys_of_role (ro_id ow) (schema_tables n (st_db s)))"
      "set (default_keys cat ''admin'') \<subseteq> set (keys_of_role (ro_id ad) (schema_tables n (st_db s)))"
      "set (default_keys cat ''viewer'') \<subseteq> set (keys_of_role (ro_id vi) (schema_tables n (st_db s)))"
    and "\<And>i. mid = Some i \<Longrightarrow> \<lparr>mr_membership_id = i, mr_role_id = ro_id ow\<rparr> \<in> set (tt_links (schema_tables n (st_db s)))"
    and "sn_flush env s = None"
  shows "seed_default_tenant_roles env path mid s = (Inr [(''owner'', ow), (''admin'', ad), (''viewer'', vi)], s)"
proof -
  note ensure = ensure_role_again [OF assms(1,2)]
  have "ensure_roles env path DEFAULT_ROLE_DEFS s = (Inr [(''owner'', ow), (''admin'', ad), (''viewer'', vi)], s)"
    using ensure [of ow "(''owner'', ''Full tenant access'')"] ensure [of ad "(''admin'', ''Administrative access'')"]
      ensure [of vi "(''viewer'', ''Read-only access'')"] assms(3-6)
    by (simp add: DEFAULT_ROLE_DEFS_def sbind_app ret_def)
  moreover have named: "role_named [(''owner'', ow), (''admin'', ad), (''viewer'', vi)] ''owner'' = ow"
      "role_named [(''owner'', ow), (''admin'', ad), (''viewer'', vi)] ''admin'' = ad"
      "role_named [(''owner'', ow), (''admin'', ad), (''viewer'', vi)] ''viewer'' = vi"
    by (simp_all add: role_named_def)
  moreover have "(case mid of None \<Rightarrow> ret () | Some i \<Rightarrow> assign_membership_role env path i
      (role_named [(''owner'', ow), (''admin'', ad), (''viewer'', vi)] ''owner'')) s = (Inr (), s)"
    using linked_again [OF assms(1) assms(11)] by (simp add: named ret_def split: option.split)
  ultimately show ?thesis
    using grant_again [OF assms(1) assms(8)] grant_again [OF assms(1) assms(9)] grant_again [OF assms(1) assms(10)]
      assms(7,12)
    by (simp add: seed_default_tenant_roles_def sbind_app sd_gets_def gets_def lift_res_def
        sn_flushed_def ret_def)
qed

text \<open>C12: seeding a tenant adds to each of the three default roles exactly its default keys (the owner
  gets \<open>admin.*\<close> and the tenant keys of the catalog, the admin those without the deny list, the
  viewer the \<open>.list\<close> keys), takes nothing from any role, and none of these keys, wildcard or not,
  covers a key of the platform tier; repeating it changes nothing.  (Role ids and names are unique
  by the table's constraints.)\<close>

theorem seeding_is_bounded_and_idempotent:
  assumes "seed_default_tenant_roles env path mid s = (Inr rm, s')"
    and "local_schema env path (st_db s) = Some n"
    and "distinct (map ro_id (tt_roles (schema_tables n (st_db s'))))"
    and "distinct (map ro_name (tt_roles (schema_tables n (st_db s'))))" and "sn_flush env s' = None"
  shows "\<exists>cat ow ad vi. rm = [(''owner'', ow), (''admin'', ad), (''viewer'', vi)]
    \<and> tenant_catalog_keys (sd_catalog (st_db s)) = Inr cat
    \<and> (\<forall>(name, r) \<in> set rm. ro_name r = name \<and> r \<in> set (tt_roles (schema_tables n (st_db s')))
         \<and> set (keys_of_role (ro_id r) (schema_tables n (st_db s')))
             = set (keys_of_role (ro_id r) (schema_tables n (st_db s))) \<union> set (default_keys cat name)
         \<and> (\<forall>k \<in> set (default_keys cat name). \<forall>rest. \<not> covers (key_parts k) (''platform'' # rest)))
    \<and> (\<forall>i. i \<notin> ro_id ` snd ` set rm \<longrightarrow> keys_of_role i (schema_tables n (st_db s'))
             = keys_of_role i (schema_tables n (st_db s)))
    \<and> seed_default_tenant_roles env path mid s' = (Inr rm, s')"
proof -
  let ?t = "schema_tables n (st_db s)" and ?t' = "schema_tables n (st_db s')"
  obtain cat ow ad vi t1 t2 t3 where cat: "tenant_catalog_keys (sd_catalog (st_db s)) = Inr cat"
    and rm: "rm = [(''owner'', ow), (''admin'', ad), (''viewer'', vi)]"
    and e: "role_ensured ?t ''owner'' ow t1" "role_ensured t1 ''admin'' ad t2" "role_ensured t2 ''viewer'' vi t3"
    and s': "st_db s' = set_tables n (seeded t3 cat ow ad vi mid) (st_db s)"
    by (rule seed_Inr [OF assms(1,2)])
  have t': "?t' = seeded t3 cat ow ad vi mid" using s' by simp
  have roles: "{ow, ad, vi} \<subseteq> set (tt_roles ?t')" and names: "ro_name ow = ''owner''" "ro_name ad = ''admin''" "ro_name vi = ''viewer''"
    using e [THEN role_ensured_facts(1)] e [THEN role_ensured_facts(2)] e [THEN role_ensured_facts(3)] t' by auto
  have "ow \<noteq> ad" "ow \<noteq> vi" "ad \<noteq> vi" using names by auto
  then have ids: "ro_id ow \<noteq> ro_id ad" "ro_id ow \<noteq> ro_id vi" "ro_id ad \<noteq> ro_id vi"
    using distinct_keyed [OF assms(3), of ow ad] distinct_keyed [OF assms(3), of ow vi]
      distinct_keyed [OF assms(3), of ad vi] roles by auto
  have "tt_permissions t3 = tt_permissions ?t"
    using e [THEN role_ensured_facts(4)] by simp
  then have same: "keys_of_role i t3 = keys_of_role i ?t" for i by (rule keys_of_role_cong)
  note keys = seeded_keys [OF ids, where t = t3 and cat = cat and mid = mid, folded t', unfolded same]
  have local: "local_schema env path (st_db s') = Some n" using s' local_schema_set [OF assms(2)] by simp
  have "seed_default_tenant_roles env path mid s' = (Inr rm, s')"
    unfolding rm
  proof (rule seed_again [OF local assms(4) roles names _ _ _ _ _ assms(5)])
    show "tenant_catalog_keys (sd_catalog (st_db s')) = Inr cat" using cat s' by simp
    show "set (default_keys cat ''owner'') \<subseteq> set (keys_of_role (ro_id ow) ?t')"
      "set (default_keys cat ''admin'') \<subseteq> set (keys_of_role (ro_id ad) ?t')"
      "set (default_keys cat ''viewer'') \<subseteq> set (keys_of_role (ro_id vi) ?t')"
      unfolding keys(1-3) by blast+
    show "mid = Some i \<Longrightarrow> \<lparr>mr_membership_id = i, mr_role_id = ro_id ow\<rparr> \<in> set (tt_links ?t')" for i
      unfolding t' by (rule seeded_linked)
  qed
  moreover have "\<forall>(name, r) \<in> set rm. ro_name r = name \<and> r \<in> set (tt_roles ?t')
       \<and> set (keys_of_role (ro_id r) ?t') = set (keys_of_role (ro_id r) ?t) \<union> set (default_keys cat name)
       \<and> (\<forall>k \<in> set (default_keys cat name). \<forall>rest. \<not> covers (key_parts k) (''platform'' # rest))"
    unfolding rm using names roles keys(1-3) tenant_keys_below_platform [OF cat] by simp
  ultimately show ?thesis using rm cat keys(4) by simp
qed

definition demo_new_site :: site where
  "demo_new_site = demo_site\<lparr>st_db := (st_db demo_site)\<lparr>sd_schemas :=
     [(''tenant_acme'', \<lparr>tt_roles = [], tt_permissions = [], tt_links = []\<rparr>)]\<rparr>\<rparr>"

definition demo_seeding :: "(exn + (string \<times> role) list) \<times> site" where
  "demo_seeding = seed_default_tenant_roles demo_site_env [''tenant_acme'', ''public''] (Some 1) demo_new_site"

lemma seeding_is_bounded_and_idempotent_witness:
  "isr (fst demo_seeding)
   \<and> seed_default_tenant_roles demo_site_env [''tenant_acme'', ''public''] (Some 1) (snd demo_seeding) = demo_seeding"
proof -
  have ok: "isr (fst demo_seeding)" by code_simp
  then obtain rm where rm: "seed_default_tenant_roles demo_site_env [''tenant_acme'', ''public''] (Some 1) demo_new_site
      = (Inr rm, snd demo_seeding)"
    by (auto simp: demo_seeding_def isr_run)
  have "distinct (map ro_id (tt_roles (schema_tables ''tenant_acme'' (st_db (snd demo_seeding)))))"
    "distinct (map ro_name (tt_roles (schema_tables ''tenant_acme'' (st_db (snd demo_seeding)))))"
    "local_schema demo_site_env [''tenant_acme'', ''public''] (st_db demo_new_site) = Some ''tenant_acme''"
    by code_simp+
  moreover have "sn_flush demo_site_env (snd demo_seeding) = None" by (simp add: demo_site_env_def)
  ultimately have "seed_default_tenant_roles demo_site_env [''tenant_acme'', ''public''] (Some 1) (snd demo_seeding)
      = (Inr rm, snd demo_seeding)"
    using seeding_is_bounded_and_idempotent [OF rm] by blast
  then show ?thesis using ok rm by (simp add: demo_seeding_def)
qed

end
