(* ===== verification/Outbox.thy ===== *)
theory Outbox
  imports Prelude
begin

text \<open>
  The email outbox, \<open>src/asterion/extensions/email/outbox.py\<close>: enqueueing, and the worker that
  sends what is due with bounded retries and backoff.  The theorem is the promise the worker
  exists for: run often enough, it settles every mail, whatever the mail server answers.

  Times are seconds.  \<open>deliver now row\<close> is what the transport does with a row at a time: \<open>None\<close>
  where it takes the mail, the text of the exception where it raises.
\<close>

section \<open>Rows\<close>

record email_content =
  ec_subject :: string
  ec_text :: string
  ec_html :: "string option"

datatype mail_status = Pending | Sent | Failed

record outbox_row =
  ob_id :: nat
  ob_to :: string
  ob_content :: email_content
  ob_status :: mail_status
  ob_attempts :: int
  ob_last_error :: "string option"
  ob_scheduled_at :: int
  ob_sent_at :: "int option"
  ob_created_at :: int

type_synonym transport = "int \<Rightarrow> outbox_row \<Rightarrow> string option"

definition enqueue_email ::
    "nat \<Rightarrow> int \<Rightarrow> string \<Rightarrow> email_content \<Rightarrow> int option \<Rightarrow> outbox_row list \<Rightarrow> outbox_row list" where
  "enqueue_email i now to content scheduled_at rows = rows @
     [\<lparr>ob_id = i, ob_to = to, ob_content = content, ob_status = Pending, ob_attempts = 0,
       ob_last_error = None, ob_scheduled_at = (case scheduled_at of Some t \<Rightarrow> t | None \<Rightarrow> now),
       ob_sent_at = None, ob_created_at = now\<rparr>]"

section \<open>The worker\<close>

definition backoff :: "int \<Rightarrow> int" where
  "backoff attempts = 60 * min (attempts * attempts) 60"

definition attempt_send :: "transport \<Rightarrow> int \<Rightarrow> int \<Rightarrow> outbox_row \<Rightarrow> outbox_row" where
  "attempt_send deliver max_attempts now r = (case deliver now r of
     None \<Rightarrow> r\<lparr>ob_status := Sent, ob_sent_at := Some now\<rparr>
   | Some err \<Rightarrow>
     let r' = r\<lparr>ob_attempts := ob_attempts r + 1, ob_last_error := Some err\<rparr> in
     if max_attempts \<le> ob_attempts r' then r'\<lparr>ob_status := Failed\<rparr>
     else r'\<lparr>ob_scheduled_at := now + backoff (ob_attempts r')\<rparr>)"

definition due :: "int \<Rightarrow> outbox_row \<Rightarrow> bool" where
  "due now r = (ob_status r = Pending \<and> ob_scheduled_at r \<le> now)"

definition batch_of :: "nat \<Rightarrow> int \<Rightarrow> outbox_row list \<Rightarrow> outbox_row list" where
  "batch_of batch now rows = take batch (sort_key ob_created_at (filter (due now) rows))"

record outbox_counts =
  oc_sent :: nat
  oc_failed :: nat
  oc_retried :: nat

definition count_status :: "outbox_row list \<Rightarrow> outbox_counts" where
  "count_status done_rows = \<lparr>oc_sent = length (filter (\<lambda>r. ob_status r = Sent) done_rows),
     oc_failed = length (filter (\<lambda>r. ob_status r = Failed) done_rows),
     oc_retried = length (filter (\<lambda>r. ob_status r = Pending) done_rows)\<rparr>"

definition process_outbox ::
    "transport \<Rightarrow> nat \<Rightarrow> int \<Rightarrow> int \<Rightarrow> outbox_row list \<Rightarrow> outbox_counts \<times> outbox_row list" where
  "process_outbox deliver batch max_attempts now rows =
    (let picked = batch_of batch now rows in
     (count_status (map (attempt_send deliver max_attempts now) picked),
      map (\<lambda>r. if ob_id r \<in> set (map ob_id picked) then attempt_send deliver max_attempts now r else r) rows))"

section \<open>Settling\<close>

text \<open>The attempts a row may still take.\<close>

definition weight :: "int \<Rightarrow> outbox_row \<Rightarrow> nat" where
  "weight max_attempts r = (if ob_status r = Pending then max 1 (nat (max_attempts - ob_attempts r)) else 0)"

definition outbox_potential :: "int \<Rightarrow> outbox_row list \<Rightarrow> nat" where
  "outbox_potential max_attempts rows = sum_list (map (weight max_attempts) rows)"

fun worker_runs :: "transport \<Rightarrow> nat \<Rightarrow> int \<Rightarrow> int list \<Rightarrow> outbox_row list \<Rightarrow> outbox_row list" where
  "worker_runs deliver batch max_attempts [] rows = rows"
| "worker_runs deliver batch max_attempts (now # ts) rows =
     worker_runs deliver batch max_attempts ts (snd (process_outbox deliver batch max_attempts now rows))"

lemma backoff_le: "backoff n \<le> 3600"
  by (simp add: backoff_def)

lemma attempt_send_weight: "ob_status r = Pending \<Longrightarrow> weight m (attempt_send deliver m now r) < weight m r"
  by (auto simp: attempt_send_def weight_def Let_def split: option.split)

lemma attempt_send_keeps [simp]: "ob_id (attempt_send deliver m now r) = ob_id r"
  by (simp add: attempt_send_def Let_def split: option.split)

lemma picked_due: "r \<in> set (batch_of batch now rows) \<Longrightarrow> r \<in> set rows \<and> due now r"
  by (auto simp: batch_of_def dest!: in_set_takeD)

text \<open>With unique ids a row is attempted exactly if it was picked.\<close>

lemma picked_id:
  assumes "distinct (map ob_id rows)" and "r \<in> set rows"
  shows "ob_id r \<in> set (map ob_id (batch_of batch now rows)) \<longleftrightarrow> r \<in> set (batch_of batch now rows)"
  using assms by (auto simp: distinct_map inj_on_def dest: picked_due)

definition processed :: "transport \<Rightarrow> nat \<Rightarrow> int \<Rightarrow> int \<Rightarrow> outbox_row list \<Rightarrow> outbox_row \<Rightarrow> outbox_row" where
  "processed deliver batch m now rows r =
    (if r \<in> set (batch_of batch now rows) then attempt_send deliver m now r else r)"

lemma process_outbox_rows:
  "distinct (map ob_id rows) \<Longrightarrow>
   snd (process_outbox deliver batch m now rows) = map (processed deliver batch m now rows) rows"
  unfolding process_outbox_def Let_def snd_conv
  by (rule map_cong [OF refl]) (simp only: picked_id processed_def)

lemma ids_kept: "map ob_id (snd (process_outbox deliver batch m now rows)) = map ob_id rows"
  by (simp add: process_outbox_def Let_def)

lemma processed_weight: "weight m (processed deliver batch m now rows r) \<le> weight m r"
  using attempt_send_weight by (auto simp: processed_def due_def intro: less_imp_le dest!: picked_due)

lemma sum_list_decrease:
  fixes f g :: "'a \<Rightarrow> nat"
  assumes "\<And>x. x \<in> set xs \<Longrightarrow> g x \<le> f x" and "y \<in> set xs" and "g y < f y"
  shows "sum_list (map g xs) < sum_list (map f xs)"
proof -
  obtain as bs where xs: "xs = as @ y # bs" using assms(2) by (auto simp: in_set_conv_decomp)
  have "sum_list (map g as) \<le> sum_list (map f as)" "sum_list (map g bs) \<le> sum_list (map f bs)"
    using assms(1) xs by (auto intro!: sum_list_mono)
  then show ?thesis using assms(3) xs by simp
qed

text \<open>A run with something due and room for one row uses up an attempt.\<close>

lemma run_decreases:
  assumes "distinct (map ob_id rows)" and "0 < batch" and "r \<in> set rows" and "due now r"
  shows "outbox_potential m (snd (process_outbox deliver batch m now rows)) < outbox_potential m rows"
proof -
  have "r \<in> set (sort_key ob_created_at (filter (due now) rows))"
    using assms(3,4) by simp
  then have "batch_of batch now rows \<noteq> []"
    using assms(2) unfolding batch_of_def by (metis empty_iff empty_set not_less_zero take_eq_Nil2)
  then obtain x where x: "x \<in> set (batch_of batch now rows)" by (cases "batch_of batch now rows") auto
  then have "x \<in> set rows" "weight m (processed deliver batch m now rows x) < weight m x"
    using picked_due [OF x] attempt_send_weight by (auto simp: processed_def due_def)
  then show ?thesis
    unfolding outbox_potential_def process_outbox_rows [OF assms(1)] map_map comp_def
    by (intro sum_list_decrease [OF processed_weight])
qed

section \<open>Properties\<close>

text \<open>What may become of a row over runs at the times \<open>ts\<close>.\<close>

definition progress :: "int \<Rightarrow> int set \<Rightarrow> outbox_row \<Rightarrow> outbox_row \<Rightarrow> bool" where
  "progress m ts r r' \<longleftrightarrow> ob_id r' = ob_id r \<and> ob_to r' = ob_to r \<and> ob_content r' = ob_content r
     \<and> (ob_status r \<noteq> Pending \<longrightarrow> r' = r)
     \<and> (ob_status r = Pending \<longrightarrow> ob_status r' = Pending
          \<or> ob_status r' = Sent \<and> (\<exists>t \<in> ts. ob_sent_at r' = Some t)
          \<or> ob_status r' = Failed \<and> m \<le> ob_attempts r' \<and> ob_last_error r' \<noteq> None)"

lemma progress_refl: "progress m ts r r"
  by (simp add: progress_def)

lemma progress_trans: "progress m ts r r' \<Longrightarrow> progress m us r' r'' \<Longrightarrow> progress m (ts \<union> us) r r''"
  by (auto simp: progress_def)

lemma processed_progress: "progress m {now} r (processed deliver batch m now rows r)"
  by (auto simp: processed_def progress_def attempt_send_def Let_def due_def split: option.split dest!: picked_due)

lemma worker_runs_progress:
  assumes "distinct (map ob_id rows)"
  shows "list_all2 (progress m (set ts)) rows (worker_runs deliver batch m ts rows)"
  using assms
proof (induction ts arbitrary: rows)
  case Nil
  then show ?case by (simp add: list_all2_refl progress_refl)
next
  case (Cons now ts)
  let ?rows = "snd (process_outbox deliver batch m now rows)"
  have "list_all2 (progress m {now}) rows ?rows"
    unfolding process_outbox_rows [OF Cons.prems]
    by (simp add: list_all2_map2 list_all2_same processed_progress)
  moreover have "list_all2 (progress m (set ts)) ?rows (worker_runs deliver batch m ts ?rows)"
    using Cons.prems by (intro Cons.IH) (simp add: ids_kept)
  ultimately have "list_all2 (progress m ({now} \<union> set ts)) rows (worker_runs deliver batch m ts ?rows)"
    by (rule list_all2_trans [rotated]) (rule progress_trans)
  then show ?case by simp
qed

lemma no_potential: "outbox_potential m rows = 0 \<longleftrightarrow> (\<forall>r \<in> set rows. ob_status r \<noteq> Pending)"
proof -
  have "weight m r = 0 \<longleftrightarrow> ob_status r \<noteq> Pending" for r by (simp add: weight_def)
  then show ?thesis by (auto simp: outbox_potential_def)
qed

text \<open>What is still pending after a run is due an hour later at the latest.\<close>

lemma due_again:
  assumes "ob_status (processed deliver batch m now rows r) = Pending" and "now + 3600 \<le> t"
    and "ob_status r = Pending \<Longrightarrow> ob_scheduled_at r \<le> t"
  shows "ob_scheduled_at (processed deliver batch m now rows r) \<le> t"
  using assms backoff_le [of "ob_attempts r + 1"]
  by (auto simp: processed_def attempt_send_def Let_def split: option.splits if_splits)

lemma worker_runs_settle:
  assumes "distinct (map ob_id rows)" and "0 < batch" and "sorted_wrt (\<lambda>t t'. t + 3600 \<le> t') ts"
    and "\<forall>r \<in> set rows. ob_status r = Pending \<longrightarrow> (\<forall>t \<in> set ts. ob_scheduled_at r \<le> t)"
    and "outbox_potential m rows \<le> length ts"
  shows "\<forall>r \<in> set (worker_runs deliver batch m ts rows). ob_status r \<noteq> Pending"
  using assms
proof (induction ts arbitrary: rows)
  case Nil
  then show ?case by (simp flip: no_potential [of m])
next
  case (Cons now ts)
  let ?rows = "snd (process_outbox deliver batch m now rows)"
  note rows = process_outbox_rows [OF Cons.prems(1), of deliver batch m now]
  have "outbox_potential m ?rows \<le> length ts"
  proof (cases "\<exists>r \<in> set rows. ob_status r = Pending")
    case True
    then obtain r where "r \<in> set rows" "due now r" using Cons.prems(4) by (auto simp: due_def)
    from run_decreases [OF Cons.prems(1,2) this, where m = m and deliver = deliver] show ?thesis
      using Cons.prems(5) by simp
  next
    case False
    then have "\<forall>r \<in> set ?rows. ob_status r \<noteq> Pending"
      unfolding rows by (auto simp: processed_def due_def dest!: picked_due)
    then show ?thesis by (simp add: no_potential [THEN iffD2])
  qed
  moreover have "\<forall>r \<in> set ?rows. ob_status r = Pending \<longrightarrow> (\<forall>t \<in> set ts. ob_scheduled_at r \<le> t)"
    unfolding rows using Cons.prems(3,4) by (auto intro!: due_again)
  moreover have "distinct (map ob_id ?rows)" "sorted_wrt (\<lambda>t t'. t + 3600 \<le> t') ts"
    using Cons.prems(1,3) by (simp_all add: ids_kept)
  ultimately have "\<forall>r \<in> set (worker_runs deliver batch m ts ?rows). ob_status r \<noteq> Pending"
    using Cons.IH [OF _ Cons.prems(2)] by blast
  then show ?case by simp
qed


definition demo_mails :: "outbox_row list" where
  "demo_mails = enqueue_email 2 5 ''b@x'' \<lparr>ec_subject = ''s'', ec_text = ''t'', ec_html = None\<rparr> None
     (enqueue_email 1 0 ''a@x'' \<lparr>ec_subject = ''s'', ec_text = ''t'', ec_html = None\<rparr> None [])"

text \<open>A server that refuses one address for good.\<close>

definition demo_transport :: transport where
  "demo_transport now r = (if ob_to r = ''a@x'' then Some ''refused'' else None)"


end
