(* ===== verification/Csv.thy ===== *)
theory Csv
  imports Models
begin

text \<open>
  Exported and imported files, \<open>src/asterion/extensions/import_export/router.py\<close>: the cells of a
  record, \<open>_build_csv\<close> and \<open>_parse_csv_upload\<close>, with the parts of Python's \<open>csv\<close> module they use.
  The writer is \<open>DictWriter\<close> with \<open>QUOTE_MINIMAL\<close>; the reader is the state machine behind
  \<open>DictReader\<close>, fed with the lines of the text and one end-of-line mark after each.  The theorem
  is that an exported file reads back as the cells it was written from.
\<close>

abbreviation LF :: char where "LF \<equiv> CHR 0x0A"
abbreviation CR :: char where "CR \<equiv> CHR 0x0D"

definition dquote :: char where "dquote = CHR 0x22"

lemma dquote_neq [simp]: "dquote \<noteq> CHR '',''" "CHR '','' \<noteq> dquote" "dquote \<noteq> LF" "LF \<noteq> dquote"
    "dquote \<noteq> CR" "CR \<noteq> dquote"
  by (simp_all add: dquote_def)

section \<open>Writing\<close>

definition cell :: "pyval \<Rightarrow> string" where
  "cell v = (if v = VNone then [] else py_str v)"

definition needs_quotes :: "string \<Rightarrow> bool" where
  "needs_quotes s = (\<exists>c \<in> set s. c = CHR '','' \<or> c = dquote \<or> c = CR \<or> c = LF)"

definition double_quotes :: "string \<Rightarrow> string" where
  "double_quotes s = concat (map (\<lambda>c. if c = dquote then [dquote, dquote] else [c]) s)"

definition csv_field :: "string \<Rightarrow> string" where
  "csv_field s = (if needs_quotes s then dquote # double_quotes s @ [dquote] else s)"

text \<open>A row that is one empty field is written as a pair of quotes.\<close>

definition csv_row :: "string list \<Rightarrow> string" where
  "csv_row fs = (if fs = [[]] then [dquote, dquote] else join '','' (map csv_field fs)) @ [CR, LF]"

definition build_csv :: "row list \<Rightarrow> string list \<Rightarrow> string" where
  "build_csv rows columns = csv_row columns
     @ concat (map (\<lambda>r. csv_row (map (\<lambda>c. cell (getattr r c)) columns)) rows)"

section \<open>Reading\<close>

datatype csv_mode = StartRecord | StartField | InField | InQuoted | QuoteInQuoted | EatCrnl

record csv_state =
  cs_mode :: csv_mode
  cs_field :: string
  cs_fields :: "string list"

definition csv_start :: csv_state where
  "csv_start = \<lparr>cs_mode = StartRecord, cs_field = [], cs_fields = []\<rparr>"

definition csv_error :: "string \<Rightarrow> exn" where
  "csv_error msg = PyExc (OtherExc ''Error'') msg"

definition field_size_limit :: int where "field_size_limit = 131072"

definition save_field :: "csv_mode \<Rightarrow> csv_state \<Rightarrow> csv_state" where
  "save_field m st = st\<lparr>cs_mode := m, cs_field := [], cs_fields := cs_fields st @ [cs_field st]\<rparr>"

definition add_char :: "csv_mode \<Rightarrow> csv_state \<Rightarrow> char \<Rightarrow> csv_state res" where
  "add_char m st c = (if field_size_limit \<le> int (length (cs_field st))
     then Inl (csv_error ''field larger than field limit (131072)'')
     else Inr (st\<lparr>cs_mode := m, cs_field := cs_field st @ [c]\<rparr>))"

text \<open>\<open>None\<close> is the end of a line.\<close>

definition after_field :: "char option \<Rightarrow> csv_mode" where
  "after_field c = (if c = None then StartRecord else EatCrnl)"

definition ends_line :: "char option \<Rightarrow> bool" where
  "ends_line c = (c = None \<or> c = Some LF \<or> c = Some CR)"

definition start_field :: "csv_state \<Rightarrow> char option \<Rightarrow> csv_state res" where
  "start_field st c = (case c of
     None \<Rightarrow> Inr (save_field StartRecord st)
   | Some x \<Rightarrow>
     if x = LF \<or> x = CR then Inr (save_field EatCrnl st)
     else if x = dquote then Inr (st\<lparr>cs_mode := InQuoted\<rparr>)
     else if x = CHR '','' then Inr (save_field StartField st)
     else add_char InField st x)"

definition csv_char :: "csv_state \<Rightarrow> char option \<Rightarrow> csv_state res" where
  "csv_char st c = (case cs_mode st of
     StartRecord \<Rightarrow>
       if c = None then Inr st
       else if ends_line c then Inr (st\<lparr>cs_mode := EatCrnl\<rparr>)
       else start_field st c
   | StartField \<Rightarrow> start_field st c
   | InField \<Rightarrow>
       if ends_line c then Inr (save_field (after_field c) st)
       else if c = Some (CHR '','') then Inr (save_field StartField st)
       else add_char InField st (the c)
   | InQuoted \<Rightarrow>
       if c = None then Inr st
       else if c = Some dquote then Inr (st\<lparr>cs_mode := QuoteInQuoted\<rparr>)
       else add_char InQuoted st (the c)
   | QuoteInQuoted \<Rightarrow>
       if c = Some dquote then add_char InQuoted st dquote
       else if c = Some (CHR '','') then Inr (save_field StartField st)
       else if ends_line c then Inr (save_field (after_field c) st)
       else add_char InField st (the c)
   | EatCrnl \<Rightarrow>
       if c = None then Inr (st\<lparr>cs_mode := StartRecord\<rparr>)
       else if ends_line c then Inr st
       else Inl (csv_error
         ''new-line character seen in unquoted field - do you need to open the file with newline=?''))"

text \<open>The lines of the text, each with its end mark.\<close>

fun csv_tokens :: "string \<Rightarrow> char option list" where
  "csv_tokens [] = []"
| "csv_tokens (c # cs) = Some c # (if c = LF \<or> cs = [] then [None] else []) @ csv_tokens cs"

text \<open>The reader hands a row out when an end mark leaves it at the start of a record, and what it
  has when the text ends inside quotes.\<close>

fun csv_read :: "csv_state \<Rightarrow> char option list \<Rightarrow> string list list res" where
  "csv_read st [] = Inr (if cs_field st \<noteq> [] \<or> cs_mode st = InQuoted
     then [cs_fields st @ [cs_field st]] else [])"
| "csv_read st (c # cs) = rbind (csv_char st c) (\<lambda>st'.
     if c = None \<and> cs_mode st' = StartRecord
     then rbind (csv_read csv_start cs) (\<lambda>rows. Inr (cs_fields st' # rows))
     else csv_read st' cs)"

definition csv_rows :: "string \<Rightarrow> string list list res" where
  "csv_rows text = csv_read csv_start (csv_tokens text)"

text \<open>\<open>dict(zip(fieldnames, row))\<close>; what is too much stands under the key \<open>None\<close>, written here as
  the \<open>None\<close> of an option, what is missing is \<open>None\<close>.\<close>

type_synonym csv_dict = "(string option \<times> pyval) list"

definition dict_of_row :: "string list \<Rightarrow> string list \<Rightarrow> csv_dict" where
  "dict_of_row names fs =
     foldl (\<lambda>d (k, v). AList.update k v d) []
       (zip (map Some names) (map VStr fs)
        @ (if length names < length fs then [(None, VList (map VStr (drop (length names) fs)))] else [])
        @ map (\<lambda>k. (Some k, VNone)) (drop (length fs) names))"

definition parse_csv_upload :: "string \<Rightarrow> csv_dict list res" where
  "parse_csv_upload text = rbind (csv_rows text) (\<lambda>rows. Inr (case rows of
     [] \<Rightarrow> []
   | names # rest \<Rightarrow> map (dict_of_row names) (filter (\<lambda>fs. fs \<noteq> []) rest)))"

section \<open>Reading what was written\<close>

text \<open>A text that is followed by more has an end mark after each of its line feeds only.\<close>

definition inner_tokens :: "string \<Rightarrow> char option list" where
  "inner_tokens s = concat (map (\<lambda>c. Some c # (if c = LF then [None] else [])) s)"

lemma inner_tokens_simps [simp]:
  "inner_tokens [] = []"
  "inner_tokens (c # s) = Some c # (if c = LF then [None] else []) @ inner_tokens s"
  "inner_tokens (s @ t) = inner_tokens s @ inner_tokens t"
  by (simp_all add: inner_tokens_def)

lemma csv_tokens_append: "t \<noteq> [] \<Longrightarrow> csv_tokens (s @ t) = inner_tokens s @ csv_tokens t"
  by (induction s) auto

lemma csv_tokens_rows: "csv_tokens (s @ [CR, LF] @ t) = inner_tokens s @ [Some CR, Some LF, None] @ csv_tokens t"
  using csv_tokens_append [of "[CR, LF] @ t" s] by (cases t) auto

text \<open>The reader between flds: \<open>fs\<close> is saved, nothing is read of the next one.\<close>

definition between :: "csv_mode \<Rightarrow> string list \<Rightarrow> csv_state" where
  "between m fs = \<lparr>cs_mode = m, cs_field = [], cs_fields = fs\<rparr>"

definition in_field :: "csv_mode \<Rightarrow> string list \<Rightarrow> string \<Rightarrow> csv_state" where
  "in_field m fs f = \<lparr>cs_mode = m, cs_field = f, cs_fields = fs\<rparr>"

lemma between_in_field: "between m fs = in_field m fs []"
  by (simp add: between_def in_field_def)

lemmas csv_run = csv_char_def start_field_def add_char_def save_field_def in_field_def ends_line_def
  after_field_def

lemma read_plain:
  assumes "\<not> needs_quotes s" and "int (length f + length s) \<le> field_size_limit"
  shows "csv_read (in_field InField fs f) (inner_tokens s @ rest) = csv_read (in_field InField fs (f @ s)) rest"
  using assms
proof (induction s arbitrary: f)
  case (Cons c s)
  then show ?case
    using Cons.IH [of "f @ [c]"] by (auto simp: needs_quotes_def csv_run)
qed simp

lemma read_quoted:
  assumes "int (length f + length s) \<le> field_size_limit"
  shows "csv_read (in_field InQuoted fs f) (inner_tokens (double_quotes s) @ rest) =
    csv_read (in_field InQuoted fs (f @ s)) rest"
  using assms
proof (induction s arbitrary: f)
  case (Cons c s)
  then show ?case
    using Cons.IH [of "f @ [c]"] by (auto simp: double_quotes_def csv_run)
qed (simp add: double_quotes_def)

text \<open>Where a reader stands when the text of a field has gone by: an empty unquoted one leaves no
  trace.\<close>

definition after_text :: "csv_mode \<Rightarrow> string list \<Rightarrow> string \<Rightarrow> csv_state" where
  "after_text m fs f = (if f = [] then in_field m fs []
     else if needs_quotes f then in_field QuoteInQuoted fs f else in_field InField fs f)"

lemma read_field:
  assumes "m \<in> {StartRecord, StartField}" and "int (length f) \<le> field_size_limit"
  shows "csv_read (in_field m fs []) (inner_tokens (csv_field f) @ rest) = csv_read (after_text m fs f) rest"
proof (cases f)
  case (Cons c s)
  show ?thesis
  proof (cases "needs_quotes f")
    case True
    have "csv_read (in_field m fs []) (Some dquote # ts) = csv_read (in_field InQuoted fs []) ts" for ts
      using assms(1) by (auto simp: csv_run)
    moreover have "csv_read (in_field InQuoted fs f) (Some dquote # rest) = csv_read (in_field QuoteInQuoted fs f) rest"
      by (simp add: csv_run)
    ultimately show ?thesis
      using True Cons assms(2) read_quoted [of "[]" f fs "Some dquote # rest"]
      by (simp add: csv_field_def after_text_def)
  next
    case False
    then have c: "c \<noteq> CHR '','' \<and> c \<noteq> dquote \<and> c \<noteq> CR \<and> c \<noteq> LF" and s: "\<not> needs_quotes s"
      using Cons by (auto simp: needs_quotes_def)
    have "csv_read (in_field m fs []) (Some c # ts) = csv_read (in_field InField fs [c]) ts" for ts
      using assms(1) c by (auto simp: csv_run field_size_limit_def)
    then show ?thesis
      using False Cons c assms(2) read_plain [OF s, of "[c]" fs rest]
      by (simp add: csv_field_def after_text_def)
  qed
qed (simp add: csv_field_def needs_quotes_def after_text_def)

lemma read_comma:
  "m \<in> {StartRecord, StartField} \<Longrightarrow>
   csv_read (after_text m fs f) (Some (CHR '','') # rest) = csv_read (in_field StartField (fs @ [f]) []) rest"
  by (auto simp: after_text_def csv_run)

lemma read_row_end:
  "m = StartField \<or> (m = StartRecord \<and> f \<noteq> []) \<Longrightarrow>
   csv_read (after_text m fs f) (Some CR # Some LF # None # rest) =
     rbind (csv_read csv_start rest) (\<lambda>rows. Inr ((fs @ [f]) # rows))"
  by (auto simp: after_text_def csv_run)

lemma read_fields:
  assumes "flds \<noteq> []" and "\<forall>f \<in> set flds. int (length f) \<le> field_size_limit"
    and "m = StartField \<or> (m = StartRecord \<and> flds \<noteq> [[]])"
  shows "csv_read (in_field m fs []) (inner_tokens (join '','' (map csv_field flds))
      @ Some CR # Some LF # None # rest) =
    rbind (csv_read csv_start rest) (\<lambda>rows. Inr ((fs @ flds) # rows))"
  using assms
proof (induction flds arbitrary: m fs)
  case (Cons f flds)
  have m: "m \<in> {StartRecord, StartField}" and f: "int (length f) \<le> field_size_limit" using Cons.prems by auto
  show ?case
  proof (cases "flds = []")
    case True
    then show ?thesis
      using read_field [OF m f, of fs] read_row_end [of m f fs rest] Cons.prems(3) by auto
  next
    case False
    then show ?thesis
      using read_field [OF m f, of fs] read_comma [OF m, of fs f] Cons.IH [of StartField "fs @ [f]"]
        Cons.prems(2) by (simp add: join_Cons)
  qed
qed simp

lemma read_row:
  assumes "flds \<noteq> []" and "\<forall>f \<in> set flds. int (length f) \<le> field_size_limit"
  shows "csv_rows (csv_row flds @ t) = rbind (csv_rows t) (\<lambda>rows. Inr (flds # rows))"
proof (cases "flds = [[]]")
  case True
  have "csv_tokens (csv_row flds @ t) = [Some dquote, Some dquote, Some CR, Some LF, None] @ csv_tokens t"
    using csv_tokens_rows [of "[dquote, dquote]" t] True by (simp add: csv_row_def)
  then show ?thesis using True by (simp add: csv_rows_def csv_run csv_start_def)
next
  case False
  have "csv_tokens (csv_row flds @ t) =
      inner_tokens (join '','' (map csv_field flds)) @ [Some CR, Some LF, None] @ csv_tokens t"
    using csv_tokens_rows [of "join '','' (map csv_field flds)" t] False by (simp add: csv_row_def)
  moreover have "csv_start = in_field StartRecord [] []" by (simp add: csv_start_def in_field_def)
  ultimately show ?thesis
    using read_fields [OF assms, of StartRecord "[]" "csv_tokens t"] False by (simp add: csv_rows_def)
qed

lemma read_rows:
  assumes "\<forall>flds \<in> set table. flds \<noteq> [] \<and> (\<forall>f \<in> set flds. int (length f) \<le> field_size_limit)"
  shows "csv_rows (concat (map csv_row table)) = Inr table"
  using assms by (induction table) (simp_all add: read_row, simp add: csv_rows_def csv_start_def)

lemma foldl_update_new:
  assumes "distinct (map fst kvs)" and "fst ` set d \<inter> fst ` set kvs = {}"
  shows "foldl (\<lambda>d (k, v). AList.update k v d) d kvs = d @ kvs"
  using assms
proof (induction kvs arbitrary: d)
  case (Cons e kvs)
  obtain k v where e: "e = (k, v)" by (cases e)
  have "AList.update k v d = d @ [(k, v)]" if "k \<notin> fst ` set d" for d :: "('a \<times> 'b) list"
    using that by (induction d) auto
  then show ?case using Cons e by simp
qed simp

lemma dict_of_full_row:
  assumes "distinct names" and "length fs = length names"
  shows "dict_of_row names fs = zip (map Some names) (map VStr fs)"
proof -
  have "distinct (map fst (zip (map Some names) (map VStr fs)))"
    using assms by (simp add: distinct_map)
  from foldl_update_new [OF this, of "[]"] show ?thesis using assms(2) by (simp add: dict_of_row_def)
qed

text \<open>C22: an exported CSV file reads back.  Whatever the cells hold - commas, quotes, line breaks,
  nothing - the upload parser gives for every exported record a dictionary of the same columns in
  the same order with the text of the same cells.\<close>

theorem exported_csv_reads_back:
  assumes "columns \<noteq> []" and "distinct columns" and "\<forall>c \<in> set columns. int (length c) \<le> field_size_limit"
    and "\<forall>r \<in> set rows. \<forall>c \<in> set columns. int (length (cell (getattr r c))) \<le> field_size_limit"
  shows "parse_csv_upload (build_csv rows columns) =
    Inr (map (\<lambda>r. map (\<lambda>c. (Some c, VStr (cell (getattr r c)))) columns) rows)"
proof -
  let ?cells = "\<lambda>r. map (\<lambda>c. cell (getattr r c)) columns"
  have "csv_rows (concat (map csv_row (columns # map ?cells rows))) = Inr (columns # map ?cells rows)"
    using assms by (intro read_rows) auto
  then have "parse_csv_upload (build_csv rows columns) = Inr (map (\<lambda>r. dict_of_row columns (?cells r)) rows)"
    using assms(1) by (simp add: parse_csv_upload_def build_csv_def comp_def)
  then show ?thesis
    using assms(2) by (simp add: dict_of_full_row zip_map_map map_map zip_same_conv_map comp_def)
qed

definition demo_export :: "row list" where
  "demo_export = [[(''live'', VBool True), (''note'', VStr [CHR ''a'', CHR '','', dquote, LF, CHR ''b''])],
     [(''live'', VBool False), (''note'', VNone)]]"

lemma exported_csv_reads_back_witness:
  "parse_csv_upload (build_csv demo_export [''live'', ''note'']) =
     Inr [[(Some ''live'', VStr ''True''), (Some ''note'', VStr [CHR ''a'', CHR '','', dquote, LF, CHR ''b''])],
          [(Some ''live'', VStr ''False''), (Some ''note'', VStr [])]]"
proof -
  have cells: "map (\<lambda>r. map (\<lambda>c. (Some c, VStr (cell (getattr r c)))) [''live'', ''note'']) demo_export =
     [[(Some ''live'', VStr ''True''), (Some ''note'', VStr [CHR ''a'', CHR '','', dquote, LF, CHR ''b''])],
      [(Some ''live'', VStr ''False''), (Some ''note'', VStr [])]]"
    by code_simp
  show ?thesis
    unfolding cells [symmetric]
    by (rule exported_csv_reads_back)
      (simp_all add: field_size_limit_def demo_export_def getattr_def cell_def)
qed

end
