(* ===== verification/ImportExport.thy ===== *)
theory ImportExport
  imports CrudRouter Csv
begin

text \<open>
  The bulk routes of \<open>src/asterion/extensions/import_export/router.py\<close>: exporting a filtered list
  or a selection, importing a file row by row, each row in a savepoint of its own, and the dry run
  in a savepoint around them.  Third-party code is a parameter: \<open>openpyxl\<close> reads and writes
  workbooks, the codec turns the uploaded bytes into text.

  A row with more cells than the header keeps them under the key \<open>None\<close>; hooks are modelled on
  payloads with string keys, so such a row goes straight to the check that refuses it.  The context
  differs from the request's in its \<open>source\<close> label alone, which nothing modelled here reads.
\<close>

record bulk_env =
  be_openpyxl :: bool
  be_decode :: "string \<Rightarrow> string"
  be_sheet :: "string \<Rightarrow> pyval list list option res"
  be_workbook :: "pyval list list \<Rightarrow> string"

definition MAX_EXPORT_ROWS :: int where "MAX_EXPORT_ROWS = 10000"

definition MAX_IMPORT_ROWS :: int where "MAX_IMPORT_ROWS = 5000"

definition SUPPORTED_EXPORT_FORMATS :: "string list" where
  "SUPPORTED_EXPORT_FORMATS = [''csv'', ''xlsx'']"

definition available_formats :: "bulk_env \<Rightarrow> string list" where
  "available_formats env = (if be_openpyxl env then [''csv'', ''xlsx''] else [''csv''])"

definition resolve_admin :: "app \<Rightarrow> string \<Rightarrow> model_admin res" where
  "resolve_admin ap resource =
    (let missing = http 404 (''Resource '' @ [quote] @ resource @ [quote] @ '' is not registered.'') in
     case validate_resource_name (VStr resource) of
       Inl e \<Rightarrow> Inl (if catches InvalidResourceNameError e then missing else e)
     | Inr r \<Rightarrow> (case admin_get (app_registry ap) r of None \<Rightarrow> Inl missing | Some a \<Rightarrow> Inr a))"

section \<open>Export\<close>

definition columns_for :: "model_admin \<Rightarrow> row list \<Rightarrow> string list" where
  "columns_for a rows = (if ma_list_display a \<noteq> [] then ma_list_display a
     else case rows of [] \<Rightarrow> [] | r # _ \<Rightarrow> map fst r)"

definition xlsx_cell :: "pyval \<Rightarrow> pyval" where
  "xlsx_cell v = (case v of
     VNone \<Rightarrow> VNone | VBool _ \<Rightarrow> v | VInt _ \<Rightarrow> v | VStr _ \<Rightarrow> v
   | VObj c s \<Rightarrow> if c = ''float'' then v else VStr s
   | _ \<Rightarrow> VStr (py_str v))"

definition xlsx_missing :: "string \<Rightarrow> exn" where
  "xlsx_missing what = http 501 (''XLSX '' @ what @ '' requires openpyxl. Install with '' @ [quote]
     @ ''pip install asterion-admin[xlsx]'' @ [quote] @ '' and restart the app.'')"

definition build_xlsx :: "bulk_env \<Rightarrow> row list \<Rightarrow> string list \<Rightarrow> string res" where
  "build_xlsx env rows columns = (if \<not> be_openpyxl env then Inl (xlsx_missing ''export'')
     else Inr (be_workbook env (map VStr columns
       # map (\<lambda>r. map (\<lambda>c. xlsx_cell (getattr r c)) columns) rows)))"

text \<open>The statement of an export: the selected ids, or the filters and the search of the list.\<close>

definition export_statement ::
    "model_admin \<Rightarrow> crud_request \<Rightarrow> string option \<Rightarrow> string list \<Rightarrow> stmt res" where
  "export_statement a rq search ids =
    (if ids \<noteq> [] then
       rbind (guard (int (length ids) \<le> MAX_EXPORT_ROWS) (http 413
         (''Too many ids: '' @ str_nat (length ids) @ '' (cap: 10000).''))) (\<lambda>_.
       rbind (primary_key_column (ma_model a)) (\<lambda>pk.
       rbind (case mapM (coerce_primary_key_value (ma_model a)) ids of
           Inl (HTTPExc st d h) \<Rightarrow>
             Inl (http 400 (''One or more '' @ [quote] @ ''ids'' @ [quote]
               @ '' values are not valid for this resource.''))
         | r \<Rightarrow> r) (\<lambda>coerced.
       apply_ordering (select_all\<lparr>st_where := [PIn pk coerced]\<rparr>) a None)))
     else
       rbind (parse_filter_query (rq_query rq) a) (\<lambda>filters.
       rbind (apply_filters select_all a filters) (\<lambda>st.
       rbind (apply_search st a search) (\<lambda>st.
       apply_ordering st a None))))"

record export_response =
  ex_content :: string
  ex_media_type :: string
  ex_filename :: string

definition export_body ::
    "bulk_env \<Rightarrow> model_admin \<Rightarrow> string \<Rightarrow> row list \<Rightarrow> string list \<Rightarrow> export_response res" where
  "export_body env a fmt rows columns =
    (if fmt = ''csv'' then Inr \<lparr>ex_content = build_csv rows columns,
       ex_media_type = ''text/csv; charset=utf-8'', ex_filename = model_name a @ ''.csv''\<rparr>
     else rbind (build_xlsx env rows columns) (\<lambda>body. Inr \<lparr>ex_content = body,
       ex_media_type = ''application/vnd.openxmlformats-officedocument.spreadsheetml.sheet'',
       ex_filename = model_name a @ ''.xlsx''\<rparr>))"

definition export_changes ::
    "crud_request \<Rightarrow> nat \<Rightarrow> string \<Rightarrow> string option \<Rightarrow> string list \<Rightarrow> row" where
  "export_changes rq n fmt search ids =
    [(''rows'', VInt (int n)), (''format'', VStr fmt),
     (''search'', case search of None \<Rightarrow> VNone | Some t \<Rightarrow> VStr t),
     (''selected_ids'', VInt (int (length ids))),
     (''filters'', VDict (foldl (\<lambda>d (k, v). AList.update k (VStr v) d) []
        (filter (\<lambda>e. startswith (fst e) ''filter_'') (rq_query rq))))]"

definition export_records ::
    "app \<Rightarrow> bulk_env \<Rightarrow> string \<Rightarrow> crud_request \<Rightarrow> string \<Rightarrow> string option \<Rightarrow> int \<Rightarrow> string list
     \<Rightarrow> admin_ctx \<Rightarrow> export_response db" where
  "export_records ap env resource rq fmt search limit ids ctx =
     sbind (lift_res (guard (fmt \<in> set SUPPORTED_EXPORT_FORMATS) (http 400
       (''Unsupported export format: '' @ repr_str fmt @ ''. Supported: ''
        @ join '', '' SUPPORTED_EXPORT_FORMATS @ ''.'')))) (\<lambda>_.
     sbind (lift_res (resolve_admin ap resource)) (\<lambda>a.
     sbind (lift_res (require_resource_access ctx (model_name a) ''list'')) (\<lambda>_.
     sbind (lift_res (export_statement a rq search ids)) (\<lambda>st.
     sbind (gets (page_rows (ce_db (app_crud ap)) st (ma_model a)
       (nat (max 1 (min limit MAX_EXPORT_ROWS))) 0)) (\<lambda>records.
     let rows = serialize_records (ce_protected (app_crud ap)) a [] records in
     sbind (lift_res (export_body env a fmt rows (columns_for a rows))) (\<lambda>response.
     sbind (audit_crud ap rq ''crud_export'' 200 ctx (model_name a) VNone
       (Some (export_changes rq (length rows) fmt search ids))) (\<lambda>_.
     ret response)))))))"

section \<open>Import\<close>

record upload =
  ul_filename :: string
  ul_raw :: string

definition detect_import_format :: "string \<Rightarrow> string res" where
  "detect_import_format filename =
    (let name = lower filename in
     if endswith name ''.csv'' then Inr ''csv''
     else if endswith name ''.xlsx'' then Inr ''xlsx''
     else Inl (http 400 ''Unsupported import file extension. Upload a .csv or .xlsx file.''))"

definition xlsx_item :: "string list \<Rightarrow> pyval list \<Rightarrow> csv_dict" where
  "xlsx_item headers row = foldl (\<lambda>d (k, v). AList.update (Some k) v d) []
     (map (\<lambda>i. (headers ! i, if i < length row then row ! i else VNone))
       (filter (\<lambda>i. headers ! i \<noteq> []) [0..<length headers]))"

definition parse_xlsx_upload :: "bulk_env \<Rightarrow> string \<Rightarrow> csv_dict list res" where
  "parse_xlsx_upload env raw = (if \<not> be_openpyxl env then Inl (xlsx_missing ''import'')
     else rbind (be_sheet env raw) (\<lambda>ws. Inr (case ws of
         Some (header # rest) \<Rightarrow>
           filter (\<lambda>item. \<exists>v \<in> set (map snd item). v \<noteq> VNone \<and> v \<noteq> VStr [])
             (map (xlsx_item (map (\<lambda>h. if h = VNone then [] else py_str h) header)) rest)
       | _ \<Rightarrow> [])))"

definition parse_upload :: "bulk_env \<Rightarrow> string \<Rightarrow> string \<Rightarrow> csv_dict list res" where
  "parse_upload env fmt raw = (if fmt = ''csv'' then parse_csv_upload (be_decode env raw)
     else parse_xlsx_upload env raw)"

definition normalize_import_row :: "csv_dict \<Rightarrow> csv_dict" where
  "normalize_import_row d = filter (\<lambda>e. snd e \<noteq> VStr []) d"

definition string_keys :: "csv_dict \<Rightarrow> row res" where
  "string_keys d = (if None \<in> fst ` set d
     then Inl (HTTPExc 422 (VDict [(''message'', VStr ''Payload contains unknown fields.''),
       (''fields'', VList [VNone])]) [])
     else Inr (map (\<lambda>(k, v). (the k, v)) d))"

text \<open>The message of a refused row.  \<open>', '.join(map(str, fields))\<close> needs something it can iterate
  over.\<close>

definition iterated :: "pyval \<Rightarrow> pyval list res" where
  "iterated v = (case v of
     VList xs \<Rightarrow> Inr xs | VTuple xs \<Rightarrow> Inr xs
   | VStr s \<Rightarrow> Inr (map (\<lambda>c. VStr [c]) s)
   | VDict d \<Rightarrow> Inr (map (\<lambda>e. VStr (fst e)) d)
   | _ \<Rightarrow> Inl (PyExc TypeError ([quote] @ type_name v @ [quote] @ '' object is not iterable'')))"

definition format_error_detail :: "pyval \<Rightarrow> string res" where
  "format_error_detail detail = (case detail of
     VStr s \<Rightarrow> Inr s
   | VDict d \<Rightarrow>
       let msg = (case map_of d ''message'' of Some m \<Rightarrow> m | None \<Rightarrow> VStr ''Validation error'');
           names = getattr d ''fields'' in
       if truthy names
       then rbind (iterated names) (\<lambda>xs. Inr (py_str msg @ '' ('' @ join '', '' (map py_str xs) @ '')''))
       else Inr (py_str msg)
   | _ \<Rightarrow> Inr (py_str detail))"

fun exc_name :: "exc_class \<Rightarrow> string" where
  "exc_name ValueError = ''ValueError''"
| "exc_name TypeError = ''TypeError''"
| "exc_name RuntimeError = ''RuntimeError''"
| "exc_name KeyError = ''KeyError''"
| "exc_name LookupError = ''LookupError''"
| "exc_name PermissionError = ''PermissionError''"
| "exc_name ValidationError = ''ValidationError''"
| "exc_name InvalidResourceNameError = ''InvalidResourceNameError''"
| "exc_name InvalidActionNameError = ''InvalidActionNameError''"
| "exc_name InvalidTenantSlugError = ''InvalidTenantSlugError''"
| "exc_name InvalidSchemaNameError = ''InvalidSchemaNameError''"
| "exc_name InvalidPermissionKeyError = ''InvalidPermissionKeyError''"
| "exc_name RegistryFrozenError = ''RegistryFrozenError''"
| "exc_name (OtherExc c) = c"

definition import_error :: "exn \<Rightarrow> string res" where
  "import_error e = (case e of
     HTTPExc _ detail _ \<Rightarrow> format_error_detail detail
   | PyExc c msg \<Rightarrow> Inr (if msg \<noteq> [] then msg else exc_name c))"

definition import_row ::
    "crud_env \<Rightarrow> model_admin \<Rightarrow> admin_schema \<Rightarrow> admin_ctx \<Rightarrow> csv_dict \<Rightarrow> unit db" where
  "import_row ce a schema ctx raw_row =
     sbind (lift_res (string_keys (normalize_import_row raw_row))) (\<lambda>row_payload.
     sbind (lift_res (ma_before_validate a row_payload ctx)) (\<lambda>row_payload.
     sbind (lift_res (clean_write_payload row_payload schema False)) (\<lambda>cleaned.
     sbind (lift_res (ma_validate_create a cleaned ctx)) (\<lambda>_.
     sbind (lift_res (ma_before_create a cleaned ctx)) (\<lambda>cleaned.
     sbind (insert_record ce a cleaned) (\<lambda>record.
     ma_after_create a record ctx))))))"

text \<open>A savepoint gives the tables back on an exception; the defaults drawn stay drawn.\<close>

definition restore :: "session \<Rightarrow> session \<Rightarrow> session" where
  "restore s s' = s'\<lparr>se_tables := se_tables s\<rparr>"

definition in_savepoint :: "'a db \<Rightarrow> 'a db" where
  "in_savepoint m = (\<lambda>s. case m s of
     (Inl e, s') \<Rightarrow> (Inl e, restore s s') | (Inr x, s') \<Rightarrow> (Inr x, s'))"

fun import_rows ::
    "crud_env \<Rightarrow> model_admin \<Rightarrow> admin_schema \<Rightarrow> admin_ctx \<Rightarrow> nat \<Rightarrow> csv_dict list
     \<Rightarrow> (nat \<times> (nat \<times> string) list) db" where
  "import_rows ce a schema ctx idx [] = ret (0, [])"
| "import_rows ce a schema ctx idx (raw_row # rows) = (\<lambda>s.
     case in_savepoint (import_row ce a schema ctx raw_row) s of
       (Inr _, s1) \<Rightarrow> sbind (import_rows ce a schema ctx (Suc idx) rows) (\<lambda>(created, errors).
         ret (Suc created, errors)) s1
     | (Inl e, s1) \<Rightarrow> sbind (lift_res (import_error e)) (\<lambda>msg.
         sbind (import_rows ce a schema ctx (Suc idx) rows) (\<lambda>(created, errors).
         ret (created, (idx, msg) # errors))) s1)"

definition run_batch :: "bool \<Rightarrow> 'a db \<Rightarrow> 'a db" where
  "run_batch dry_run m = (if dry_run then (\<lambda>s. case m s of (r, s') \<Rightarrow> (r, restore s s')) else m)"

record import_report =
  im_dry_run :: bool
  im_created :: nat
  im_failed :: nat
  im_total :: nat
  im_errors :: "(nat \<times> string) list"

definition import_report_of :: "bool \<Rightarrow> nat \<times> (nat \<times> string) list \<Rightarrow> import_report" where
  "import_report_of dry_run res = (case res of (created, errors) \<Rightarrow>
     \<lparr>im_dry_run = dry_run, im_created = created, im_failed = length errors,
      im_total = created + length errors, im_errors = errors\<rparr>)"

definition import_changes :: "import_report \<Rightarrow> string \<Rightarrow> string \<Rightarrow> row" where
  "import_changes rep fmt filename =
    [(''created'', VInt (int (im_created rep))), (''failed'', VInt (int (im_failed rep))),
     (''format'', VStr fmt), (''filename'', VStr filename)]"

definition import_records ::
    "app \<Rightarrow> bulk_env \<Rightarrow> string \<Rightarrow> crud_request \<Rightarrow> upload \<Rightarrow> bool \<Rightarrow> admin_ctx \<Rightarrow> import_report db" where
  "import_records ap env resource rq file dry_run ctx =
     sbind (lift_res (resolve_admin ap resource)) (\<lambda>a.
     sbind (lift_res (require_resource_access ctx (model_name a) ''create'')) (\<lambda>_.
     let filename = (if ul_filename file = [] then ''upload'' else ul_filename file) in
     sbind (lift_res (detect_import_format filename)) (\<lambda>fmt.
     sbind (lift_res (parse_upload env fmt (ul_raw file))) (\<lambda>rows.
     sbind (lift_res (guard (int (length rows) \<le> MAX_IMPORT_ROWS) (http 413
       (''Too many rows: '' @ str_nat (length rows) @ '' (cap: 5000). Split the file or raise the limit.'')))) (\<lambda>_.
     sbind (run_batch dry_run (import_rows (app_crud ap) a
       (build_model_schema (ce_protected (app_crud ap)) a) ctx 1 rows)) (\<lambda>res.
     let rep = import_report_of dry_run res in
     if dry_run then ret rep
     else sbind (audit_crud ap rq ''crud_import'' 200 ctx (model_name a) VNone
       (Some (import_changes rep fmt filename))) (\<lambda>_. ret rep)))))))"

section \<open>What an import does\<close>

lemma resolve_admin_eq: "resolve_admin = get_admin_class"
  by (simp add: fun_eq_iff resolve_admin_def get_admin_class_def)

lemma table_rows_restore [simp]: "table_rows (restore s s') t = table_rows s t"
  by (simp add: restore_def table_rows_def)

text \<open>A row built from a row of the file: a column the file fills is statically writable and has the
  cell's value, every other column has its default.\<close>

definition imported_from :: "crud_env \<Rightarrow> model_admin \<Rightarrow> csv_dict \<Rightarrow> row \<Rightarrow> bool" where
  "imported_from ce a raw r \<longleftrightarrow> (\<forall>c \<in> set (mo_columns (ma_model a)).
     (case map_of (normalize_import_row raw) (Some (col_name c)) of
        Some v \<Rightarrow> static_field_permission (ce_protected ce) a (col_name c) = FP_WRITE
          \<and> getattr r (col_name c) = bound c v
      | None \<Rightarrow> \<exists>n. getattr r (col_name c) = env_default (ce_db ce) n (table_key (ma_model a)) c))"

lemma map_of_string_keys:
  assumes "string_keys d = Inr p"
  shows "map_of p k = map_of d (Some k)"
proof -
  have "None \<notin> fst ` set d" and p: "p = map (\<lambda>(k, v). (the k, v)) d"
    using assms by (auto simp: string_keys_def split: if_splits)
  then show ?thesis unfolding p by (induction d) auto
qed

lemma import_row_Inr:
  assumes "import_row ce a (build_model_schema (ce_protected ce) a) ctx raw s = (Inr u, s')"
    and "plain_hooks a" and "distinct (column_names (ma_model a))"
    and "fst ` set (ma_calculated_fields a) \<inter> set (column_names (ma_model a)) = {}"
  obtains r where "imported_from ce a raw r"
    and "\<And>t. table_rows s' t = (if t = table_key (ma_model a) then table_rows s t @ [r] else table_rows s t)"
proof -
  let ?schema = "build_model_schema (ce_protected ce) a"
  obtain p cleaned where p: "string_keys (normalize_import_row raw) = Inr p"
    and c: "clean_write_payload p ?schema False = Inr cleaned"
    and run: "sbind (insert_record ce a cleaned) (\<lambda>record. ma_after_create a record ctx) s = (Inr u, s')"
    using assms(1,2) by (auto simp: import_row_def plain_hooks_def sbind_lift_Inr)
  obtain r where r: "insert_record ce a cleaned s = (Inr r, s')"
    using run assms(2) by (auto simp: sbind_Inr_iff plain_hooks_def)
  note r' = insert_record_Inr [OF r]
  have w: "static_field_permission (ce_protected ce) a (col_name col) = FP_WRITE"
    if "col \<in> set (mo_columns (ma_model a))" "map_of p (col_name col) = Some v" for col v
  proof -
    have "col_name col \<in> set (writable_field_names ?schema)"
      using c that(2) unfolding clean_Inr by (auto dest!: map_of_SomeD)
    moreover have "col_name col \<in> set (column_names (ma_model a))"
      using that(1) by (simp add: column_names_def)
    ultimately show ?thesis
      using writable_is_static_write [of "col_name col" "ce_protected ce" a] assms(4)
      by (auto simp: static_field_permission_def)
  qed
  show ?thesis
  proof (rule that)
    show "table_rows s' t = (if t = table_key (ma_model a) then table_rows s t @ [r] else table_rows s t)" for t
      by (rule r'(2))
    have "cleaned = p" using c by (simp add: clean_Inr)
    then show "imported_from ce a raw r"
      unfolding imported_from_def using w map_of_string_keys [OF p]
      by (auto simp: r'(1) build_row_col [OF assms(3)] split: option.split)
  qed
qed


text \<open>The rows of the file against what became of them: \<open>Some r\<close> was imported as \<open>r\<close>.\<close>

definition kept :: "row option list \<Rightarrow> row list" where
  "kept outs = concat (map (\<lambda>x. case x of None \<Rightarrow> [] | Some r \<Rightarrow> [r]) outs)"

lemma kept_simps [simp]: "kept [] = []" "kept (None # outs) = kept outs" "kept (Some r # outs) = r # kept outs"
  by (simp_all add: kept_def)

definition refused :: "nat \<Rightarrow> row option list \<Rightarrow> nat list" where
  "refused i outs = filter (\<lambda>j. outs ! (j - i) = None) [i..<i + length outs]"

lemma refused_simps [simp]:
  "refused i [] = []"
  "refused i (x # outs) = (if x = None then [i] else []) @ refused (Suc i) outs"
proof -
  have "(x # outs) ! (j - i) = outs ! (j - Suc i)" if "j \<in> set [Suc i..<Suc i + length outs]" for j
  proof -
    have "Suc i \<le> j" using that by (simp only: set_upt atLeastLessThan_iff)
    then have "j - i = Suc (j - Suc i)" by arith
    then show ?thesis by (simp only: nth_Cons_Suc)
  qed
  then have "filter (\<lambda>j. (x # outs) ! (j - i) = None) [Suc i..<Suc i + length outs] =
    filter (\<lambda>j. outs ! (j - Suc i) = None) [Suc i..<Suc i + length outs]"
    by (intro filter_cong refl) (simp only:)
  then show "refused i (x # outs) = (if x = None then [i] else []) @ refused (Suc i) outs"
    by (cases x) (simp_all add: refused_def upt_conv_Cons del: upt_Suc)
qed (simp add: refused_def)

definition imported_rows :: "crud_env \<Rightarrow> model_admin \<Rightarrow> csv_dict list \<Rightarrow> row option list \<Rightarrow> bool" where
  "imported_rows ce a rows outs \<longleftrightarrow>
     list_all2 (\<lambda>raw x. case x of None \<Rightarrow> True | Some r \<Rightarrow> imported_from ce a raw r) rows outs"

lemma import_rows_Inr:
  assumes "import_rows ce a (build_model_schema (ce_protected ce) a) ctx idx rows s = (Inr (created, errors), s')"
    and "plain_hooks a" and "distinct (column_names (ma_model a))"
    and "fst ` set (ma_calculated_fields a) \<inter> set (column_names (ma_model a)) = {}"
  shows "\<exists>outs. imported_rows ce a rows outs \<and> created = length (kept outs) \<and> map fst errors = refused idx outs
    \<and> (\<forall>t. table_rows s' t = table_rows s t @ (if t = table_key (ma_model a) then kept outs else []))"
  using assms(1)
proof (induction rows arbitrary: idx s created errors)
  case Nil
  then show ?case by (intro exI [of _ "[]"]) (simp add: imported_rows_def)
next
  case (Cons raw rows)
  let ?schema = "build_model_schema (ce_protected ce) a"
  show ?case
  proof (cases "import_row ce a ?schema ctx raw s")
    case (Pair res s1)
    show ?thesis
    proof (cases res)
      case (Inl e)
      obtain errs where rest: "import_rows ce a ?schema ctx (Suc idx) rows (restore s s1) = (Inr (created, errs), s')"
          "map fst errors = idx # map fst errs"
        using Cons.prems Pair Inl by (auto simp: in_savepoint_def sbind_lift_Inr sbind_Inr_iff)
      from Cons.IH [OF rest(1)] obtain outs where o: "imported_rows ce a rows outs" "created = length (kept outs)"
        "map fst errs = refused (Suc idx) outs"
        "\<forall>t. table_rows s' t = table_rows s t @ (if t = table_key (ma_model a) then kept outs else [])"
        by auto
      then show ?thesis using rest(2) by (intro exI [of _ "None # outs"]) (simp add: imported_rows_def)
    next
      case (Inr u)
      obtain k where rest: "import_rows ce a ?schema ctx (Suc idx) rows s1 = (Inr (k, errors), s')" "created = Suc k"
        using Cons.prems Pair Inr by (auto simp: in_savepoint_def sbind_Inr_iff)
      obtain r where r: "imported_from ce a raw r"
        "\<And>t. table_rows s1 t = (if t = table_key (ma_model a) then table_rows s t @ [r] else table_rows s t)"
        using import_row_Inr [OF Pair [unfolded Inr] assms(2-4)] by metis
      from Cons.IH [OF rest(1)] obtain outs where o: "imported_rows ce a rows outs" "k = length (kept outs)"
        "map fst errors = refused (Suc idx) outs"
        "\<forall>t. table_rows s' t = table_rows s1 t @ (if t = table_key (ma_model a) then kept outs else [])"
        by auto
      then show ?thesis using rest(2) r by (intro exI [of _ "Some r # outs"]) (simp add: imported_rows_def)
    qed
  qed
qed

text \<open>An audit row goes to the audit table of the caller's scope and nowhere else.\<close>

lemma audit_crud_other:
  assumes "audit_crud ap rq action st ctx resource rid changes s = (x, s')"
    and "t \<noteq> table_key (app_audit ap)" and "t \<noteq> table_key (app_tenant_audit ap)"
  shows "table_rows s' t = table_rows s t"
proof -
  let ?m = "audit_crud ap rq action st ctx resource rid changes"
  have s': "s' = snd (?m s)" using assms(1) by simp
  have "snd (?m s) = s \<or> (\<exists>m values. m \<in> {app_audit ap, app_tenant_audit ap}
      \<and> snd (?m s) = snd (add_row (ce_db (app_crud ap)) m values s))"
    unfolding audit_crud_def
    by (rule disj_forward [OF record_audit_all_or_nothing], assumption) (auto split: if_splits)
  then show ?thesis unfolding s' using assms(2,3) by (auto simp: add_row_def Let_def)
qed


lemma kept_refused: "length (kept outs) + length (refused i outs) = length outs"
proof (induction outs arbitrary: i)
  case (Cons x outs)
  then show ?case using Cons [of "Suc i"] by (cases x) simp_all
qed simp

lemma run_batch_Inr:
  "run_batch dry_run m s = (Inr x, s') \<longleftrightarrow>
     (\<exists>s1. m s = (Inr x, s1) \<and> s' = (if dry_run then restore s s1 else s1))"
  by (auto simp: run_batch_def split: prod.split)

lemma import_steps:
  assumes "import_records ap env resource rq file dry_run ctx s = (Inr rep, s')"
    and "resolve_admin ap resource = Inr a"
  obtains fmt rows created errors s1 where "parse_upload env fmt (ul_raw file) = Inr rows"
      "int (length rows) \<le> MAX_IMPORT_ROWS"
      "import_rows (app_crud ap) a (build_model_schema (ce_protected (app_crud ap)) a) ctx 1 rows s
         = (Inr (created, errors), s1)"
      "rep = import_report_of dry_run (created, errors)"
      "dry_run \<longrightarrow> s' = restore s s1"
      "\<not> dry_run \<longrightarrow> (\<exists>x changes name. audit_crud ap rq ''crud_import'' 200 ctx name VNone changes s1 = (x, s'))"
proof -
  obtain fmt rows where rows: "parse_upload env fmt (ul_raw file) = Inr rows" "int (length rows) \<le> MAX_IMPORT_ROWS"
    and rest: "sbind (run_batch dry_run (import_rows (app_crud ap) a
        (build_model_schema (ce_protected (app_crud ap)) a) ctx 1 rows)) (\<lambda>res.
      let rep = import_report_of dry_run res in
      if dry_run then ret rep
      else sbind (audit_crud ap rq ''crud_import'' 200 ctx (model_name a) VNone
        (Some (import_changes rep fmt (if ul_filename file = [] then ''upload'' else ul_filename file))))
        (\<lambda>_. ret rep)) s = (Inr rep, s')"
    using assms by (auto simp: import_records_def sbind_lift_Inr Let_def split: if_split_asm)
  obtain created errors s2 where run: "run_batch dry_run (import_rows (app_crud ap) a
        (build_model_schema (ce_protected (app_crud ap)) a) ctx 1 rows) s = (Inr (created, errors), s2)"
    and fin: "(let rep = import_report_of dry_run (created, errors) in
      if dry_run then ret rep
      else sbind (audit_crud ap rq ''crud_import'' 200 ctx (model_name a) VNone
        (Some (import_changes rep fmt (if ul_filename file = [] then ''upload'' else ul_filename file))))
        (\<lambda>_. ret rep)) s2 = (Inr rep, s')"
    using rest unfolding sbind_Inr_iff by auto
  obtain s1 where s1: "import_rows (app_crud ap) a (build_model_schema (ce_protected (app_crud ap)) a) ctx 1 rows s
      = (Inr (created, errors), s1)" "s2 = (if dry_run then restore s s1 else s1)"
    using run unfolding run_batch_Inr by auto
  show thesis
    using fin s1(2)
    by (intro that [OF rows s1(1)]) (auto simp: Let_def sbind_Inr_iff split: if_splits)
qed

text \<open>C21: an import keeps exactly the rows it reports.  For an admin with plain hooks there is, for
  each row of the file, either the record it became or its number in the error list; the report's
  counts are theirs, every record comes from its row and sets statically writable columns only, the
  table grows by those records in file order, and no other table but the audit's changes.  A dry
  run reports the same and leaves every table as it was.\<close>

theorem import_keeps_the_rows_it_reports:
  assumes "import_records ap env resource rq file dry_run ctx s = (Inr rep, s')"
    and "resolve_admin ap resource = Inr a" and "plain_hooks a"
    and "distinct (column_names (ma_model a))"
    and "fst ` set (ma_calculated_fields a) \<inter> set (column_names (ma_model a)) = {}"
  shows "\<exists>fmt rows outs. parse_upload env fmt (ul_raw file) = Inr rows \<and> int (length rows) \<le> MAX_IMPORT_ROWS
    \<and> list_all2 (\<lambda>raw x. case x of None \<Rightarrow> True | Some r \<Rightarrow> imported_from (app_crud ap) a raw r) rows outs
    \<and> im_created rep = length (kept outs) \<and> im_total rep = length rows
    \<and> map fst (im_errors rep) = filter (\<lambda>i. outs ! (i - 1) = None) [1..<1 + length rows]
    \<and> (\<forall>t. t \<noteq> table_key (app_audit ap) \<longrightarrow> t \<noteq> table_key (app_tenant_audit ap) \<longrightarrow>
         table_rows s' t = table_rows s t
           @ (if t = table_key (ma_model a) \<and> \<not> dry_run then kept outs else []))
    \<and> (dry_run \<longrightarrow> se_tables s' = se_tables s)"
proof -
  let ?schema = "build_model_schema (ce_protected (app_crud ap)) a"
  obtain fmt rows created errors s1 where rows: "parse_upload env fmt (ul_raw file) = Inr rows"
      "int (length rows) \<le> MAX_IMPORT_ROWS"
    and run: "import_rows (app_crud ap) a ?schema ctx 1 rows s = (Inr (created, errors), s1)"
    and rep: "rep = import_report_of dry_run (created, errors)"
    and fin: "dry_run \<longrightarrow> s' = restore s s1"
      "\<not> dry_run \<longrightarrow> (\<exists>x changes name. audit_crud ap rq ''crud_import'' 200 ctx name VNone changes s1 = (x, s'))"
    by (rule import_steps [OF assms(1,2)])
  obtain outs where o: "imported_rows (app_crud ap) a rows outs" "created = length (kept outs)"
      "map fst errors = refused 1 outs"
      "\<forall>t. table_rows s1 t = table_rows s t @ (if t = table_key (ma_model a) then kept outs else [])"
    using import_rows_Inr [OF run assms(3-5)] by blast
  have len: "length outs = length rows" using o(1) by (auto simp: imported_rows_def dest: list_all2_lengthD)
  have "length errors = length (refused 1 outs)" using o(3) by (metis length_map)
  then have total: "created + length errors = length rows"
    using kept_refused [of outs 1] o(2) len by simp
  have tables: "table_rows s' t = table_rows s t
      @ (if t = table_key (ma_model a) \<and> \<not> dry_run then kept outs else [])"
    if "t \<noteq> table_key (app_audit ap)" "t \<noteq> table_key (app_tenant_audit ap)" for t
  proof (cases dry_run)
    case True
    then show ?thesis using fin(1) by simp
  next
    case False
    then obtain x changes name where
      "audit_crud ap rq ''crud_import'' 200 ctx name VNone changes s1 = (x, s')" using fin(2) by blast
    from audit_crud_other [OF this that] show ?thesis using o(4) False by simp
  qed
  show ?thesis
    using rows o(1-3) rep total len tables fin(1)
    by (intro exI [of _ fmt] exI [of _ rows] exI [of _ outs])
      (simp add: import_report_of_def imported_rows_def refused_def restore_def)
qed


text \<open>the bulk routes do not know the tier and the policy of an admin.  Making an admin
  platform-only, giving it another policy or making it a singleton changes nothing about what
  importing into it and exporting from it does and whom it admits, although the CRUD routes turn on all
  three.\<close>

theorem bulk_routes_ignore_policy:
  assumes "resolve_admin ap resource = Inr a"
    and "resolve_admin (ap\<lparr>app_registry := reg\<rparr>) resource =
      Inr (a\<lparr>ma_policy := p, ma_platform_only := b, ma_singleton := c\<rparr>)"
  shows "import_records (ap\<lparr>app_registry := reg\<rparr>) env resource rq file dry_run ctx =
      import_records ap env resource rq file dry_run ctx
    \<and> export_records (ap\<lparr>app_registry := reg\<rparr>) env resource rq fmt search limit ids ctx =
      export_records ap env resource rq fmt search limit ids ctx"
proof -
  let ?a = "a\<lparr>ma_policy := p, ma_platform_only := b, ma_singleton := c\<rparr>"
  have name: "model_name ?a = model_name a" by (simp add: model_name_def)
  have schema: "build_model_schema reg' ?a = build_model_schema reg' a" for reg'
    by (simp add: build_model_schema_def all_protected_def name)
  have row: "import_row ce ?a sch ctx = import_row ce a sch ctx" for ce sch
    by (simp add: fun_eq_iff import_row_def insert_record_def)
  have rows: "import_rows ce ?a sch ctx i xs = import_rows ce a sch ctx i xs" for ce sch i xs
    by (induction xs arbitrary: i) (simp_all only: import_rows.simps row)
  have audit: "audit_crud (ap\<lparr>app_registry := reg\<rparr>) = audit_crud ap"
    by (simp add: fun_eq_iff audit_crud_def)
  have parts: "filter_pred ?a = filter_pred a" "search_column ?a = search_column a"
      "order_clause ?a = order_clause a" "parse_filter_query q ?a = parse_filter_query q a" for q
    by (simp_all add: fun_eq_iff filter_pred_def search_column_def order_clause_def parse_filter_query_def
      Let_def cong: if_cong)
  have "default_ordering ?a = default_ordering a"
    by (simp add: fun_eq_iff default_ordering_def parts cong: if_cong)
  then have "apply_ordering st ?a = apply_ordering st a" for st
    by (simp add: fun_eq_iff apply_ordering_def Let_def cong: if_cong)
  then have st: "export_statement ?a = export_statement a"
    by (simp add: fun_eq_iff export_statement_def apply_filters_def apply_search_def parts
      cong: if_cong option.case_cong)
  have ser: "serialize_records prot ?a hidden = serialize_records prot a hidden" for prot hidden
    by (simp add: fun_eq_iff serialize_records_def serialize_record_def all_protected_def)
  have body: "export_body env' ?a = export_body env' a" "columns_for ?a = columns_for a" for env'
    by (simp_all add: fun_eq_iff export_body_def columns_for_def name)
  show ?thesis
    unfolding import_records_def export_records_def assms sbind_simps name rows schema audit st ser body
    by (simp cong: if_cong)
qed


definition bulk_app :: app where
  "bulk_app = notes_app\<lparr>app_audit := notes_model\<lparr>mo_tablename := ''audit_logs''\<rparr>,
     app_tenant_audit := notes_model\<lparr>mo_tablename := ''tenant_audit_logs''\<rparr>\<rparr>"

definition plain_bulk :: bulk_env where
  "plain_bulk = \<lparr>be_openpyxl = False, be_decode = id, be_sheet = (\<lambda>raw. Inr None), be_workbook = (\<lambda>t. [])\<rparr>"

text \<open>A file with a good row and a row that is too long.\<close>

definition demo_upload :: upload where
  "demo_upload = \<lparr>ul_filename = ''notes.csv'',
     ul_raw = concat (map csv_row [[''title''], [''new''], [''a'', ''b'']])\<rparr>"

definition importer :: admin_ctx where
  "importer = anyone\<lparr>ctx_tenant := None, ctx_permissions := [''admin.notes.*''], ctx_require_superadmin := None\<rparr>"


lemma demo_rows: "parse_upload plain_bulk ''csv'' (ul_raw demo_upload) =
   Inr [[(Some ''title'', VStr ''new'')], [(Some ''title'', VStr ''a''), (None, VList [VStr ''b''])]]"
proof -
  have "csv_rows (ul_raw demo_upload) = Inr [[''title''], [''new''], [''a'', ''b'']]"
    unfolding demo_upload_def upload.simps
    by (rule read_rows) (simp add: field_size_limit_def)
  then show ?thesis
    by (simp add: parse_upload_def parse_csv_upload_def plain_bulk_def dict_of_row_def)
qed

definition registered_notes :: model_admin where
  "registered_notes = notes_admin\<lparr>ma_policy := map_option (bind_policy ''notes'') (ma_policy notes_admin)\<rparr>"

lemma demo_resolve: "resolve_admin bulk_app ''notes'' = Inr registered_notes"
proof -
  have "validate_resource_name (VStr ''notes'') = Inr ''notes''" by code_simp
  moreover have "model_name notes_admin = ''notes''" by code_simp
  ultimately show ?thesis
    by (simp add: resolve_admin_def bulk_app_def notes_app_def admin_get_def admin_register_def
      admin_registry_init_def registered_notes_def)
qed

lemma demo_access: "require_resource_access importer (model_name registered_notes) ''create'' = Inr ()"
  by code_simp

lemma demo_format: "detect_import_format (ul_filename demo_upload) = Inr ''csv''" "ul_filename demo_upload \<noteq> []"
  by code_simp+

lemma demo_import_rows:
  "isr (fst (import_rows plain_crud registered_notes
     (build_model_schema (ce_protected plain_crud) registered_notes) importer 1
     [[(Some ''title'', VStr ''new'')], [(Some ''title'', VStr ''a''), (None, VList [VStr ''b''])]] notes_session))"
  by code_simp


lemma demo_import_ok:
  "isr (fst (import_records bulk_app plain_bulk ''notes'' plain_request demo_upload False importer notes_session))"
proof -
  have crud: "app_crud bulk_app = plain_crud" by (simp add: bulk_app_def notes_app_def)
  obtain res s1 where run: "import_rows plain_crud registered_notes
     (build_model_schema (ce_protected plain_crud) registered_notes) importer 1
     [[(Some ''title'', VStr ''new'')], [(Some ''title'', VStr ''a''), (None, VList [VStr ''b''])]] notes_session
     = (Inr res, s1)"
    using demo_import_rows isr_fst by blast
  have audit: "isr (fst (sbind (audit_crud bulk_app plain_request ''crud_import'' 200 importer n VNone c)
      (\<lambda>_. ret x) s1))" for n c x
    using record_audit_never_raises unfolding audit_crud_def sbind_def
    by (simp add: case_prod_beta)
  show ?thesis
    unfolding import_records_def demo_resolve sbind_simps demo_access Let_def if_not_P [OF demo_format(2)]
      demo_format(1) demo_rows crud
    using run audit
    by (simp add: MAX_IMPORT_ROWS_def run_batch_def sbind_app [where m = "import_rows _ _ _ _ _ _"]
      del: import_rows.simps)
qed

lemma import_keeps_the_rows_it_reports_witness:
  "\<exists>rep s' outs. import_records bulk_app plain_bulk ''notes'' plain_request demo_upload False importer notes_session
       = (Inr rep, s')
     \<and> im_total rep = 2 \<and> im_created rep = length (kept outs)
     \<and> table_rows s' ''notes'' = table_rows notes_session ''notes'' @ kept outs"
proof -
  let ?run = "import_records bulk_app plain_bulk ''notes'' plain_request demo_upload False importer notes_session"
  note run = isr_fst [OF demo_import_ok]
  have "plain_hooks registered_notes" "distinct (column_names (ma_model registered_notes))"
    "fst ` set (ma_calculated_fields registered_notes) \<inter> set (column_names (ma_model registered_notes)) = {}"
    "table_key (ma_model registered_notes) = ''notes''" "table_key (app_audit bulk_app) \<noteq> ''notes''"
    "table_key (app_tenant_audit bulk_app) \<noteq> ''notes''"
    by (simp_all add: plain_hooks_def registered_notes_def notes_admin_def ModelAdmin_def notes_model_def
      column_names_def text_column_def table_key_def bulk_app_def)
  note facts = this
  from import_keeps_the_rows_it_reports [OF run demo_resolve facts(1-3)] obtain fmt rows outs where
    "parse_upload plain_bulk fmt (ul_raw demo_upload) = Inr rows"
    and o: "im_created (projr (fst ?run)) = length (kept outs)" "im_total (projr (fst ?run)) = length rows"
    "list_all2 (\<lambda>raw x. case x of None \<Rightarrow> True | Some r \<Rightarrow> imported_from (app_crud bulk_app) registered_notes raw r) rows outs"
    "table_rows (snd ?run) ''notes'' = table_rows notes_session ''notes'' @ kept outs"
    using facts(4-6) by auto
  moreover have "parse_upload plain_bulk f (ul_raw demo_upload) = Inr rows \<Longrightarrow> length rows = 2" for f
    using demo_rows by (cases "f = ''csv''") (auto simp: parse_upload_def parse_xlsx_upload_def plain_bulk_def)
  ultimately have "length rows = 2" by blast
  then show ?thesis
    using run o by (intro exI [of _ "projr (fst ?run)"] exI [of _ "snd ?run"] exI [of _ outs]) simp
qed

lemma bulk_routes_ignore_policy_witness:
  "import_records (bulk_app\<lparr>app_registry := \<lparr>ar_registry = [(''notes'', registered_notes
        \<lparr>ma_policy := None, ma_platform_only := True, ma_singleton := True\<rparr>)], ar_frozen = True\<rparr>\<rparr>)
      plain_bulk ''notes'' plain_request demo_upload False importer notes_session
    = import_records bulk_app plain_bulk ''notes'' plain_request demo_upload False importer notes_session"
proof -
  let ?a = "registered_notes\<lparr>ma_policy := None, ma_platform_only := True, ma_singleton := True\<rparr>"
  have "validate_resource_name (VStr ''notes'') = Inr ''notes''" by code_simp
  then have "resolve_admin (bulk_app\<lparr>app_registry := \<lparr>ar_registry = [(''notes'', ?a)], ar_frozen = True\<rparr>\<rparr>) ''notes''
      = Inr ?a"
    by (simp add: resolve_admin_def admin_get_def)
  from bulk_routes_ignore_policy [OF demo_resolve this] show ?thesis by simp
qed

end
