(* ===== verification/Estate.thy ===== *)
theory Estate
  imports Members
begin

text \<open>
  The global tables beside accounts and memberships - impersonation log, saved filters, data-subject
  requests (\<open>src/asterion/models/impersonation_log.py\<close>, \<open>saved_filter.py\<close>,
  \<open>data_subject_request.py\<close>) - as one state with the site and the process's tenant cache, and the
  router of saved filters, \<open>src/asterion/admin/saved_filter_router.py\<close>.  The theorem is that saved
  filters are private: no request of one owner is seen by another.
\<close>

section \<open>Tables\<close>

record impersonation_log =
  il_superadmin_id :: nat
  il_target_user_id :: nat
  il_tenant_id :: "nat option"
  il_jti :: string
  il_reason :: "string option"

record saved_filter =
  sf_id :: nat
  sf_user_id :: string
  sf_tenant_id :: "string option"
  sf_resource :: string
  sf_name :: string
  sf_payload :: row
  sf_created_at :: int

record subject_request =
  dq_id :: nat
  dq_subject_user_id :: nat
  dq_request_type :: string
  dq_status :: string
  dq_handled_by :: "nat option"
  dq_note :: "string option"
  dq_created_at :: int

record estate =
  es_site :: site
  es_impersonations :: "impersonation_log list"
  es_filters :: "saved_filter list"
  es_requests :: "subject_request list"
  es_cache :: tenant_cache

text \<open>\<open>ev_tables\<close> is what \<open>information_schema\<close> and \<open>SELECT *\<close> show of a schema, \<open>ev_ilike\<close> the match of
  an \<open>ILIKE\<close> pattern, \<open>ev_iso\<close> the \<open>isoformat()\<close> of an instant, \<open>ev_decode\<close> the text of a
  \<open>bytes\<close> value, which the model knows by its \<open>str()\<close>.\<close>

record 't estate_env =
  ev_site :: "'t site_env"
  ev_flush :: "estate \<Rightarrow> exn option"
  ev_require_reason :: bool
  ev_impersonation :: bool
  ev_protected :: "string list"
  ev_tables :: "site_db \<Rightarrow> string \<Rightarrow> (string \<times> row list) list"
  ev_ilike :: "string \<Rightarrow> string \<Rightarrow> bool"
  ev_iso :: "int \<Rightarrow> string"
  ev_decode :: "string \<Rightarrow> string"

type_synonym 'a governed = "(estate, 'a) proc"

definition on_site :: "'a handler \<Rightarrow> 'a governed" where
  "on_site m = (\<lambda>s. case m (es_site s) of (r, v) \<Rightarrow> (r, s\<lparr>es_site := v\<rparr>))"

definition ev_flushed :: "'t estate_env \<Rightarrow> unit governed" where
  "ev_flushed env = (\<lambda>s. (case ev_flush env s of None \<Rightarrow> Inr () | Some e \<Rightarrow> Inl e, s))"

text \<open>A transaction over all tables; limiters, the cache and random values are outside of it.  Nothing
  run in one commits an isolated audit row, so both parts of the audit table go back.\<close>

definition rolled_back :: "estate \<Rightarrow> estate \<Rightarrow> estate" where
  "rolled_back s s' = s'\<lparr>
     es_site := (es_site s')\<lparr>st_db := st_db (es_site s),
       st_server := (st_server (es_site s'))\<lparr>sv_db := sv_db (st_server (es_site s)),
         sv_audit := sv_audit (st_server (es_site s))\<rparr>\<rparr>,
     es_impersonations := es_impersonations s, es_filters := es_filters s, es_requests := es_requests s\<rparr>"

definition in_estate :: "'a governed \<Rightarrow> 'a governed" where
  "in_estate m = (\<lambda>s. case m s of (Inl e, s') \<Rightarrow> (Inl e, rolled_back s s') | (Inr x, s') \<Rightarrow> (Inr x, s'))"

lemma in_estate_Inr: "in_estate m s = (Inr x, s') \<longleftrightarrow> m s = (Inr x, s')"
  by (auto simp: in_estate_def split: prod.split sum.split)

lemma on_site_Inr: "on_site m s = (Inr x, s') \<longleftrightarrow> (\<exists>v. m (es_site s) = (Inr x, v) \<and> s' = s\<lparr>es_site := v\<rparr>)"
  by (auto simp: on_site_def split: prod.split)

section \<open>Saved filters\<close>

definition MAX_NAME_LEN :: int where "MAX_NAME_LEN = 200"

definition filter_user_id :: "admin_ctx \<Rightarrow> string res" where
  "filter_user_id ctx = (case ctx_principal ctx of
     None \<Rightarrow> Inl (http 401 ''Authentication required.'')
   | Some p \<Rightarrow> Inr (pr_id p))"

definition filter_tenant_id :: "admin_ctx \<Rightarrow> string option" where
  "filter_tenant_id ctx = map_option tn_id (ctx_tenant ctx)"

definition filter_view :: "'t estate_env \<Rightarrow> saved_filter \<Rightarrow> pyval" where
  "filter_view env f = VDict [(''id'', VStr (uuid_str (sf_id f))), (''resource'', VStr (sf_resource f)),
     (''name'', VStr (sf_name f)), (''payload'', VDict (sf_payload f)),
     (''created_at'', VStr (ev_iso env (sf_created_at f)))]"

definition filter_resource :: "pyval \<Rightarrow> string res" where
  "filter_resource v = (case validate_resource_name v of
     Inl e \<Rightarrow> Inl (if catches InvalidResourceNameError e then http 422 (''Invalid '' @ [quote] @ ''resource'' @ [quote] @ '' value.'') else e)
   | Inr r \<Rightarrow> Inr r)"

definition get_or :: "row \<Rightarrow> string \<Rightarrow> pyval \<Rightarrow> pyval" where
  "get_or d k dflt = (case map_of d k of Some v \<Rightarrow> v | None \<Rightarrow> dflt)"

definition filter_name :: "row \<Rightarrow> string res" where
  "filter_name payload = (let name = strip (py_str (get_or payload ''name'' (VStr []))) in
     if name = [] \<or> int (length name) > MAX_NAME_LEN
     then Inl (http 422 ([quote] @ ''name'' @ [quote] @ '' is required and must be <= 200 characters.''))
     else Inr name)"

definition filter_body :: "row \<Rightarrow> row res" where
  "filter_body payload = (case get_or payload ''payload'' (VDict []) of
     VDict d \<Rightarrow> Inr d
   | _ \<Rightarrow> Inl (http 422 ([quote] @ ''payload'' @ [quote] @ '' must be an object.'')))"

definition owned_by :: "string \<Rightarrow> string option \<Rightarrow> saved_filter \<Rightarrow> bool" where
  "owned_by user tenant f = (sf_user_id f = user \<and> sf_tenant_id f = tenant)"

definition upsert_filter ::
    "'t estate_env \<Rightarrow> int \<Rightarrow> string \<Rightarrow> string option \<Rightarrow> string \<Rightarrow> string \<Rightarrow> row \<Rightarrow> saved_filter governed" where
  "upsert_filter env now user tenant resource name body =
     sbind (gets (\<lambda>s. scalar_one_or_none (filter (\<lambda>f. owned_by user tenant f
       \<and> sf_resource f = resource \<and> sf_name f = name) (es_filters s)))) (\<lambda>found.
     sbind (lift_res found) (\<lambda>existing. case existing of
       Some f \<Rightarrow> sbind (modify (\<lambda>s. s\<lparr>es_filters := map (\<lambda>g.
           if sf_id g = sf_id f then g\<lparr>sf_payload := body\<rparr> else g) (es_filters s)\<rparr>)) (\<lambda>_.
         ret (f\<lparr>sf_payload := body\<rparr>))
     | None \<Rightarrow> sbind (on_site (new_id (ev_site env))) (\<lambda>i.
         let f = \<lparr>sf_id = i, sf_user_id = user, sf_tenant_id = tenant, sf_resource = resource,
           sf_name = name, sf_payload = body, sf_created_at = now\<rparr> in
         sbind (modify (\<lambda>s. s\<lparr>es_filters := es_filters s @ [f]\<rparr>)) (\<lambda>_. ret f))))"

definition create_saved_filter :: "'t estate_env \<Rightarrow> int \<Rightarrow> row \<Rightarrow> admin_ctx \<Rightarrow> pyval governed" where
  "create_saved_filter env now payload ctx =
     sbind (lift_res (filter_resource (get_or payload ''resource'' (VStr [])))) (\<lambda>resource.
     sbind (lift_res (filter_name payload)) (\<lambda>name.
     sbind (lift_res (filter_body payload)) (\<lambda>body.
     sbind (lift_res (filter_user_id ctx)) (\<lambda>user.
     sbind (upsert_filter env now user (filter_tenant_id ctx) resource name body) (\<lambda>f.
     sbind (ev_flushed env) (\<lambda>_.
     ret (filter_view env f)))))))"

text \<open>Newest first.\<close>

definition list_saved_filters :: "'t estate_env \<Rightarrow> string \<Rightarrow> admin_ctx \<Rightarrow> pyval governed" where
  "list_saved_filters env resource0 ctx =
     sbind (lift_res (filter_resource (VStr resource0))) (\<lambda>resource.
     sbind (lift_res (filter_user_id ctx)) (\<lambda>user.
     gets (\<lambda>s. VList (map (filter_view env) (sort_key (\<lambda>f. - sf_created_at f)
       (filter (\<lambda>f. owned_by user (filter_tenant_id ctx) f \<and> sf_resource f = resource) (es_filters s)))))))"

definition delete_saved_filter :: "string \<Rightarrow> admin_ctx \<Rightarrow> pyval governed" where
  "delete_saved_filter filter_id ctx = (case uuid_parse filter_id of
     None \<Rightarrow> throw (http 404 ''Saved filter not found.'')
   | Some i \<Rightarrow> sbind (lift_res (filter_user_id ctx)) (\<lambda>user.
       let doomed = (\<lambda>f. sf_id f = i \<and> owned_by user (filter_tenant_id ctx) f) in
       sbind (gets (\<lambda>s. length (filter doomed (es_filters s)))) (\<lambda>rowcount.
       sbind (modify (\<lambda>s. s\<lparr>es_filters := filter (\<lambda>f. \<not> doomed f) (es_filters s)\<rparr>)) (\<lambda>_.
       if rowcount = 0 then throw (http 404 ''Saved filter not found.'') else ret VNone))))"

datatype filter_request =
    CreateFilter row
  | ListFilters string
  | DeleteFilter string

definition filter_route :: "'t estate_env \<Rightarrow> int \<Rightarrow> filter_request \<Rightarrow> admin_ctx \<Rightarrow> pyval governed" where
  "filter_route env now rq ctx = in_estate (case rq of
     CreateFilter payload \<Rightarrow> create_saved_filter env now payload ctx
   | ListFilters resource \<Rightarrow> list_saved_filters env resource ctx
   | DeleteFilter i \<Rightarrow> delete_saved_filter i ctx)"

section \<open>Privacy of saved filters\<close>

definition owner_of :: "admin_ctx \<Rightarrow> (string \<times> string option) option" where
  "owner_of ctx = map_option (\<lambda>p. (pr_id p, filter_tenant_id ctx)) (ctx_principal ctx)"

text \<open>The filters of everybody but one owner.\<close>

definition others :: "(string \<times> string option) option \<Rightarrow> estate \<Rightarrow> saved_filter list" where
  "others owner s = filter (\<lambda>f. Some (sf_user_id f, sf_tenant_id f) \<noteq> owner) (es_filters s)"

lemma on_site_filters [simp]: "es_filters (snd (on_site m s)) = es_filters s"
  by (simp add: on_site_def split: prod.split)

lemma filter_map_other: "(\<And>x. x \<in> set xs \<Longrightarrow> P (f x) = P x \<and> (P x \<longrightarrow> f x = x)) \<Longrightarrow> filter P (map f xs) = filter P xs"
  by (induction xs) auto

lemma upsert_spares:
  assumes "distinct (map sf_id (es_filters s))"
  shows "others (Some (user, tenant)) (snd (upsert_filter env now user tenant resource name body s))
    = others (Some (user, tenant)) s"
proof (cases "filter (\<lambda>f. owned_by user tenant f \<and> sf_resource f = resource \<and> sf_name f = name) (es_filters s)")
  case Nil
  then show ?thesis
    by (auto simp: upsert_filter_def scalar_one_or_none_def sbind_app others_def Let_def on_site_def
      proc_simps split: prod.splits sum.splits)
next
  case (Cons f rest)
  then have f: "f \<in> set (es_filters s)" "owned_by user tenant f"
    using filter_eq_ConsD [OF Cons] by auto
  have other: "sf_id g = sf_id f \<Longrightarrow> g = f" if "g \<in> set (es_filters s)" for g
    using assms f(1) that by (auto simp: distinct_map inj_on_def)
  have "others (Some (user, tenant)) (s\<lparr>es_filters := map (\<lambda>g. if sf_id g = sf_id f
      then g\<lparr>sf_payload := body\<rparr> else g) (es_filters s)\<rparr>) = others (Some (user, tenant)) s"
    unfolding others_def using f(2) other
    by simp (intro filter_map_other, auto simp: owned_by_def)
  then show ?thesis
    using Cons by (cases rest) (auto simp: upsert_filter_def scalar_one_or_none_def sbind_app proc_simps)
qed

lemma others_in_estate:
  assumes "others owner (snd (m s)) = others owner s"
  shows "others owner (snd (in_estate m s)) = others owner s"
  using assms by (auto simp: in_estate_def others_def rolled_back_def split: prod.split sum.split)

lemma others_tail:
  assumes "others owner (snd (m s)) = others owner s" and "\<And>x s. es_filters (snd (f x s)) = es_filters s"
  shows "others owner (snd (sbind m f s)) = others owner s"
proof (cases "m s")
  case (Pair r s')
  then show ?thesis using assms by (cases r) (simp_all add: sbind_app others_def)
qed

lemma others_lift:
  assumes "\<And>x. r = Inr x \<Longrightarrow> others owner (snd (f x s)) = others owner s"
  shows "others owner (snd (sbind (lift_res r) f s)) = others owner s"
  using assms by (cases r) (simp_all add: sbind_app proc_simps)

lemma others_delete:
  "others (Some (user, tenant)) (s\<lparr>es_filters := filter (\<lambda>f. sf_id f = i \<longrightarrow> \<not> owned_by user tenant f) (es_filters s)\<rparr>)
    = others (Some (user, tenant)) s"
  by (auto simp: others_def owned_by_def intro: filter_cong)

lemma filter_request_spares:
  assumes "distinct (map sf_id (es_filters s))"
  shows "others (owner_of ctx) (snd (filter_route env now rq ctx s)) = others (owner_of ctx) s"
proof -
  have flush: "es_filters (snd (sbind (ev_flushed env) (\<lambda>_. ret v) t)) = es_filters t" for v :: pyval and t
    by (simp add: ev_flushed_def sbind_app proc_simps split: option.split)
  show ?thesis
  proof (cases rq)
    case (CreateFilter payload)
    show ?thesis
      unfolding filter_route_def CreateFilter filter_request.case create_saved_filter_def
      by (intro others_in_estate others_lift others_tail flush)
        (auto simp: filter_user_id_def owner_of_def upsert_spares assms split: option.splits)
  next
    case (ListFilters resource)
    show ?thesis
      unfolding filter_route_def ListFilters filter_request.case list_saved_filters_def
      by (intro others_in_estate others_lift) simp
  next
    case (DeleteFilter i)
    show ?thesis
      unfolding filter_route_def DeleteFilter filter_request.case delete_saved_filter_def
      by (cases "uuid_parse i") (auto intro!: others_in_estate others_lift simp: Let_def others_delete sbind_app
        proc_simps filter_user_id_def owner_of_def split: option.splits)
  qed
qed

lemma list_depends:
  assumes "filter (\<lambda>f. Some (sf_user_id f, sf_tenant_id f) = owner_of ctx) (es_filters s)
    = filter (\<lambda>f. Some (sf_user_id f, sf_tenant_id f) = owner_of ctx) (es_filters s')"
  shows "fst (list_saved_filters env resource ctx s) = fst (list_saved_filters env resource ctx s')"
proof (cases "filter_user_id ctx")
  case (Inr user)
  have "filter (\<lambda>f. owned_by user (filter_tenant_id ctx) f \<and> sf_resource f = r) xs
      = filter (\<lambda>f. sf_resource f = r) (filter (\<lambda>f. Some (sf_user_id f, sf_tenant_id f) = owner_of ctx) xs)" for r xs
    using Inr by (auto simp: filter_user_id_def owner_of_def owned_by_def intro: filter_cong split: option.splits)
  then show ?thesis
    using Inr assms by (cases "filter_resource (VStr resource)")
      (simp_all add: list_saved_filters_def sbind_app proc_simps del: filter_filter)
qed (cases "filter_resource (VStr resource)", simp_all add: list_saved_filters_def sbind_app proc_simps)

text \<open>Saved filters are private.  A request on saved filters, whether it creates, replaces, lists
  or deletes, changes nothing of what another owner - another account, or the same account in another
  tenant - sees of its own filters.\<close>

theorem saved_filters_are_private:
  assumes "owner_of ctx \<noteq> owner_of ctx'" and "distinct (map sf_id (es_filters s))"
  shows "fst (list_saved_filters env' resource ctx' (snd (filter_route env now rq ctx s)))
    = fst (list_saved_filters env' resource ctx' s)"
proof (rule list_depends)
  have own: "filter (\<lambda>f. Some (sf_user_id f, sf_tenant_id f) = owner_of ctx') (es_filters t)
      = filter (\<lambda>f. Some (sf_user_id f, sf_tenant_id f) = owner_of ctx') (others (owner_of ctx) t)" for t
    using assms(1) by (auto simp: others_def intro: filter_cong)
  show "filter (\<lambda>f. Some (sf_user_id f, sf_tenant_id f) = owner_of ctx') (es_filters (snd (filter_route env now rq ctx s)))
      = filter (\<lambda>f. Some (sf_user_id f, sf_tenant_id f) = owner_of ctx') (es_filters s)"
    unfolding own filter_request_spares [OF assms(2)] ..
qed

section \<open>A small estate\<close>

definition demo_filter :: saved_filter where
  "demo_filter = \<lparr>sf_id = 5, sf_user_id = uuid_str 42, sf_tenant_id = Some (uuid_str 7),
     sf_resource = ''posts'', sf_name = ''drafts'', sf_payload = [], sf_created_at = 0\<rparr>"

definition demo_estate :: estate where
  "demo_estate = \<lparr>es_site = demo_site, es_impersonations = [], es_filters = [demo_filter],
     es_requests = [], es_cache = []\<rparr>"

definition demo_estate_env :: "(row \<times> string \<times> string) estate_env" where
  "demo_estate_env = \<lparr>ev_site = demo_site_env, ev_flush = (\<lambda>s. None), ev_require_reason = True,
     ev_impersonation = True, ev_protected = DEFAULT_PROTECTED_FIELDS, ev_tables = (\<lambda>db n. []),
     ev_ilike = (\<lambda>x p. True), ev_iso = (\<lambda>t. ''1970-01-01T00:00:00+00:00''), ev_decode = (\<lambda>s. s)\<rparr>"

definition demo_stranger :: admin_ctx where
  "demo_stranger = demo_ctx\<lparr>ctx_principal := Some (user_principal (demo_user\<lparr>us_id := 43\<rparr>))\<rparr>"

lemma saved_filters_are_private_witness:
  "fst (list_saved_filters demo_estate_env ''posts'' demo_ctx
     (snd (filter_route demo_estate_env 9 (DeleteFilter (uuid_str 5)) demo_stranger demo_estate)))
   = fst (list_saved_filters demo_estate_env ''posts'' demo_ctx demo_estate)"
proof (rule saved_filters_are_private)
  have "uuid_str 43 \<noteq> uuid_str 42"
    using uuid_parse_str [of 42] uuid_parse_str [of 43] by auto
  then show "owner_of demo_stranger \<noteq> owner_of demo_ctx"
    by (simp add: owner_of_def demo_stranger_def demo_ctx_def user_principal_def demo_user_def)
  show "distinct (map sf_id (es_filters demo_estate))" by (simp add: demo_estate_def)
qed

end
