(* ===== verification/Root.thy ===== *)
theory Root
  imports Estate Bootstrap
begin

text \<open>
  The superadmin's routes, \<open>src/asterion/root/\<close> (\<open>router.py\<close>, \<open>users.py\<close>, \<open>tenants.py\<close>,
  \<open>impersonation.py\<close>), over \<open>src/asterion/privacy/anonymizer.py\<close>, \<open>privacy/export.py\<close> and
  \<open>src/asterion/tenancy/offboarding.py\<close>.

  Offboarding and the register of data-subject requests commit in transactions of their own; the
  rest of a route runs in the request's.  Rows carry the columns of the model's records.
\<close>

section \<open>Shared\<close>

definition accounts :: "(account_db \<Rightarrow> 'a) \<Rightarrow> 'a governed" where
  "accounts f = on_site (on_server (db_gets f))"

definition one_tenant :: "(tenant_row \<Rightarrow> bool) \<Rightarrow> tenant_row option governed" where
  "one_tenant P = on_site
     (sbind (sd_gets (\<lambda>db. scalar_one_or_none (filter P (sd_tenants db)))) lift_res)"

definition root_audit ::
    "'t estate_env \<Rightarrow> http_request \<Rightarrow> int \<Rightarrow> string \<Rightarrow> user \<Rightarrow> nat option \<Rightarrow> string \<Rightarrow> nat \<Rightarrow> row \<Rightarrow> unit governed" where
  "root_audit env rq code action admin tenant_id resource record_id changes =
     on_site (on_server (audit_in_session (sn_auth (ev_site env))
       ((request_audit_kwargs rq code action (Some (user_principal admin)) (Some changes))
          \<lparr>ak_tenant_id := (case tenant_id of None \<Rightarrow> VNone | Some i \<Rightarrow> VUuid i),
           ak_resource := VStr resource, ak_record_id := VUuid record_id\<rparr>)))"

text \<open>The value a UUID column is compared with.\<close>

definition uuid_value :: "pyval \<Rightarrow> nat option" where
  "uuid_value v = (case v of VUuid u \<Rightarrow> Some u | VStr s \<Rightarrow> uuid_parse s | _ \<Rightarrow> None)"

text \<open>\<open>_jsonable\<close>, the same in both modules.\<close>

fun jsonable :: "(string \<Rightarrow> string) \<Rightarrow> pyval \<Rightarrow> pyval"
  and jsonable_items :: "(string \<Rightarrow> string) \<Rightarrow> row \<Rightarrow> row"
  and jsonable_list :: "(string \<Rightarrow> string) \<Rightarrow> pyval list \<Rightarrow> pyval list" where
  "jsonable dec (VUuid u) = VStr (uuid_str u)"
| "jsonable dec (VDateTime s) = VStr s"
| "jsonable dec (VObj c s) = (if c \<in> {''bytes'', ''bytearray''} then VStr (dec s)
     else if c \<in> {''date'', ''time'', ''Decimal''} then VStr s else VObj c s)"
| "jsonable dec (VDict d) = VDict (jsonable_items dec d)"
| "jsonable dec (VList xs) = VList (jsonable_list dec xs)"
| "jsonable dec (VTuple xs) = VList (jsonable_list dec xs)"
| "jsonable dec v = v"
| "jsonable_items dec [] = []"
| "jsonable_items dec ((k, v) # rest) = (k, jsonable dec v) # jsonable_items dec rest"
| "jsonable_list dec [] = []"
| "jsonable_list dec (x # xs) = jsonable dec x # jsonable_list dec xs"

definition row_to_dict :: "(string \<Rightarrow> string) \<Rightarrow> string list \<Rightarrow> row \<Rightarrow> pyval" where
  "row_to_dict dec protected r = VDict (jsonable_items dec (filter (\<lambda>(k, v). k \<notin> set protected) r))"

text \<open>The columns of the mapped classes.\<close>

definition opt_uuid :: "nat option \<Rightarrow> pyval" where
  "opt_uuid x = (case x of None \<Rightarrow> VNone | Some i \<Rightarrow> VUuid i)"

definition user_columns :: "user \<Rightarrow> row" where
  "user_columns u = [(''email'', VStr (us_email u)), (''hashed_password'', VStr (us_hashed_password u)),
     (''full_name'', opt_str (us_full_name u)), (''is_active'', VBool (us_is_active u)),
     (''is_superadmin'', VBool (us_is_superadmin u)), (''token_version'', VInt (us_token_version u)),
     (''password_login_disabled'', VBool (us_password_login_disabled u)),
     (''totp_secret'', opt_str (us_totp_secret u)), (''totp_enabled'', VBool (us_totp_enabled u)),
     (''id'', VUuid (us_id u))]"

definition membership_columns :: "membership \<Rightarrow> row" where
  "membership_columns m = [(''user_id'', VUuid (mb_user_id m)), (''tenant_id'', VUuid (mb_tenant_id m)),
     (''is_active'', VBool (mb_is_active m)), (''id'', VUuid (mb_id m))]"

definition tenant_columns :: "'t estate_env \<Rightarrow> tenant_row \<Rightarrow> row" where
  "tenant_columns env t = [(''name'', VStr (te_name t)), (''slug'', VStr (te_slug t)),
     (''schema_name'', VStr (te_schema_name t)), (''is_active'', VBool (te_is_active t)),
     (''offboarded_at'', case te_offboarded_at t of None \<Rightarrow> VNone | Some x \<Rightarrow> VDateTime (ev_iso env x)),
     (''allowed_cidrs'', opt_str (te_allowed_cidrs t)), (''id'', VUuid (te_id t))]"

definition impersonation_columns :: "impersonation_log \<Rightarrow> row" where
  "impersonation_columns l = [(''superadmin_id'', VUuid (il_superadmin_id l)),
     (''target_user_id'', VUuid (il_target_user_id l)), (''tenant_id'', opt_uuid (il_tenant_id l)),
     (''jti'', VStr (il_jti l)), (''reason'', opt_str (il_reason l))]"

definition filter_columns :: "'t estate_env \<Rightarrow> saved_filter \<Rightarrow> row" where
  "filter_columns env f = [(''user_id'', VStr (sf_user_id f)), (''tenant_id'', opt_str (sf_tenant_id f)),
     (''resource'', VStr (sf_resource f)), (''name'', VStr (sf_name f)),
     (''payload'', VDict (sf_payload f)), (''id'', VUuid (sf_id f)),
     (''created_at'', VDateTime (ev_iso env (sf_created_at f)))]"

definition request_columns :: "'t estate_env \<Rightarrow> subject_request \<Rightarrow> row" where
  "request_columns env q = [(''subject_user_id'', VUuid (dq_subject_user_id q)),
     (''request_type'', VStr (dq_request_type q)), (''status'', VStr (dq_status q)),
     (''handled_by_user_id'', opt_uuid (dq_handled_by q)), (''note'', opt_str (dq_note q)),
     (''id'', VUuid (dq_id q)), (''created_at'', VDateTime (ev_iso env (dq_created_at q)))]"

section \<open>Users\<close>

definition user_out :: "user \<Rightarrow> pyval" where
  "user_out u = VDict [(''id'', VStr (uuid_str (us_id u))), (''email'', VStr (us_email u)),
     (''full_name'', opt_str (us_full_name u)), (''is_active'', VBool (us_is_active u)),
     (''is_superadmin'', VBool (us_is_superadmin u))]"

definition out_of_principal :: "principal \<Rightarrow> pyval" where
  "out_of_principal p = VDict [(''id'', VStr (pr_id p)), (''email'', opt_str (pr_email p)),
     (''full_name'', opt_str (pr_display_name p)), (''is_active'', VBool (pr_is_active p)),
     (''is_superadmin'', VBool (pr_is_superadmin p))]"

definition like_needle :: "string \<Rightarrow> string" where
  "like_needle search = ''%'' @ strip search @ ''%''"

text \<open>\<open>ILIKE\<close> on a null is null, which selects nothing.\<close>

definition user_matches :: "'t estate_env \<Rightarrow> string option \<Rightarrow> user \<Rightarrow> bool" where
  "user_matches env search u = (case search of
     None \<Rightarrow> True
   | Some s \<Rightarrow> s = [] \<or> ev_ilike env (us_email u) (like_needle s)
       \<or> (case us_full_name u of None \<Rightarrow> False | Some n \<Rightarrow> ev_ilike env n (like_needle s)))"

definition page_of :: "int \<Rightarrow> int \<Rightarrow> 'a list \<Rightarrow> 'a list" where
  "page_of limit offset rows = take (nat limit) (drop (nat offset) rows)"

definition provider_list_users ::
    "'t estate_env \<Rightarrow> int \<Rightarrow> int \<Rightarrow> string option \<Rightarrow> (principal list \<times> int \<times> int \<times> int) governed" where
  "provider_list_users env limit offset search =
     sbind (lift_res (validate_limit_offset (VInt limit) (VInt offset) MAX_PAGE_LIMIT DEFAULT_PAGE_LIMIT))
     (\<lambda>(n, k).
     sbind (accounts (\<lambda>db. filter (user_matches env search) (db_users db))) (\<lambda>rows.
     ret (map user_principal (page_of n k (sort_key us_email rows)), int (length rows), n, k)))"

definition list_page :: "pyval list \<Rightarrow> int \<Rightarrow> int \<Rightarrow> int \<Rightarrow> pyval" where
  "list_page items n limit offset = VDict [(''items'', VList items), (''total'', VInt n),
     (''limit'', VInt limit), (''offset'', VInt offset)]"

definition list_users :: "'t estate_env \<Rightarrow> int \<Rightarrow> int \<Rightarrow> string option \<Rightarrow> pyval governed" where
  "list_users env limit offset search =
     sbind (provider_list_users env limit offset search) (\<lambda>(items, count, n, k).
     ret (list_page (map out_of_principal items) count n k))"

definition load_user :: "nat \<Rightarrow> user governed" where
  "load_user i = sbind (accounts (find_user i)) (\<lambda>found. case found of
     None \<Rightarrow> throw (http 404 ''User not found.'')
   | Some u \<Rightarrow> ret u)"

definition read_user :: "nat \<Rightarrow> pyval governed" where
  "read_user i = sbind (load_user i) (\<lambda>u. ret (user_out u))"

section \<open>Anonymisation\<close>

definition ANONYMIZED_EMAIL_DOMAIN :: string where
  "ANONYMIZED_EMAIL_DOMAIN = ''anonymized.invalid''"

definition anonymized_email :: "nat \<Rightarrow> string" where
  "anonymized_email i = ''anonymized-'' @ uuid_str i @ ''@'' @ ANONYMIZED_EMAIL_DOMAIN"

definition tombstone :: "string \<Rightarrow> user \<Rightarrow> user" where
  "tombstone hashed u = u\<lparr>us_email := anonymized_email (us_id u), us_full_name := None,
     us_totp_secret := None, us_totp_enabled := False, us_hashed_password := hashed,
     us_is_active := False, us_token_version := us_token_version u + 1\<rparr>"

definition anonymize_user :: "'t estate_env \<Rightarrow> user \<Rightarrow> unit governed" where
  "anonymize_user env u = sbind (on_site (unusable_password_hash (ev_site env))) (\<lambda>hashed.
     on_site (on_server (db_modify (set_user (us_id u) (tombstone hashed)))))"

definition by_actor :: "nat \<Rightarrow> row \<Rightarrow> bool" where
  "by_actor i r = (uuid_value (getattr r ''actor_user_id'') = Some i)"

definition strip_actor :: "nat \<Rightarrow> row \<Rightarrow> row" where
  "strip_actor i r = (if by_actor i r
     then setattrs [(''actor_label'', VNone), (''ip_address'', VNone)] r else r)"

text \<open>The public table is the rows of the session and the ones committed in isolation.\<close>

definition audit_rows :: "server \<Rightarrow> row list" where
  "audit_rows v = db_audit (sv_db v) @ sv_audit v"

definition map_audit :: "(row list \<Rightarrow> row list) \<Rightarrow> server \<Rightarrow> server" where
  "map_audit f v = v\<lparr>sv_db := (sv_db v)\<lparr>db_audit := f (db_audit (sv_db v))\<rparr>, sv_audit := f (sv_audit v)\<rparr>"

definition anonymize_audit_actor :: "nat \<Rightarrow> nat governed" where
  "anonymize_audit_actor i =
     sbind (on_site (on_server (gets (\<lambda>v. length (filter (by_actor i) (audit_rows v)))))) (\<lambda>rowcount.
     sbind (on_site (on_server (modify (map_audit (map (strip_actor i)))))) (\<lambda>_.
     ret rowcount))"

definition anonymize_user_endpoint ::
    "'t estate_env \<Rightarrow> http_request \<Rightarrow> user \<Rightarrow> nat \<Rightarrow> pyval governed" where
  "anonymize_user_endpoint env rq admin i =
     sbind (load_user i) (\<lambda>u.
     if us_id u = us_id admin then throw (http 409 ''You cannot anonymise your own account.'')
     else sbind (anonymize_user env u) (\<lambda>_.
       sbind (anonymize_audit_actor i) (\<lambda>redacted.
       sbind (ev_flushed env) (\<lambda>_.
       sbind (root_audit env rq 200 ''user_anonymize'' admin None ''users'' i
         [(''user_id'', VStr (uuid_str i)), (''audit_rows_redacted'', VInt (int redacted))]) (\<lambda>_.
       ret (VDict [(''id'', VStr (uuid_str i)), (''anonymized'', VBool True),
         (''audit_rows_redacted'', VInt (int redacted))]))))))"

section \<open>Data-subject requests\<close>

definition SubjectNotFoundError :: exc_class where "SubjectNotFoundError = OtherExc ''SubjectNotFoundError''"
definition TenantNotFoundError :: exc_class where "TenantNotFoundError = OtherExc ''TenantNotFoundError''"

text \<open>\<open>try ... except c\<close> around a call.\<close>

definition or_raise :: "exc_class \<Rightarrow> (string \<Rightarrow> exn) \<Rightarrow> 'a governed \<Rightarrow> 'a governed" where
  "or_raise c replacement m = (\<lambda>s. case m s of
     (Inl (PyExc d message), s') \<Rightarrow>
       (Inl (if catches c (PyExc d message) then replacement message else PyExc d message), s')
   | (Inl e, s') \<Rightarrow> (Inl e, s')
   | (Inr x, s') \<Rightarrow> (Inr x, s'))"

definition REQUEST_TYPES :: "string list" where
  "REQUEST_TYPES = [''access'', ''export'', ''rectification'', ''erasure'', ''restriction'']"

definition REQUEST_STATUSES :: "string list" where
  "REQUEST_STATUSES = [''received'', ''completed'', ''rejected'']"

text \<open>The \<open>repr\<close> of the set, in the order written.\<close>

definition expected_one_of :: "string \<Rightarrow> string \<Rightarrow> string list \<Rightarrow> string" where
  "expected_one_of what got names = ''Unknown '' @ what @ '' '' @ repr_str got
     @ ''; expected one of frozenset({'' @ join '', '' (map repr_str names) @ ''}).''"

definition export_subject :: "'t estate_env \<Rightarrow> int \<Rightarrow> nat \<Rightarrow> pyval governed" where
  "export_subject env now i =
     sbind (accounts (find_user i)) (\<lambda>found. case found of
       None \<Rightarrow> throw (PyExc SubjectNotFoundError (''No user with id '' @ uuid_str i @ ''.''))
     | Some u \<Rightarrow> gets (\<lambda>s. let dict = row_to_dict (ev_decode env) [] in
         VDict [(''generated_at'', VStr (ev_iso env now)), (''scope'', VStr ''public''),
           (''scope_note'', VStr (''Public/global data only. Tenant-local business data is the ''
              @ ''operator'' @ [quote] @ ''s domain model and is exported per-tenant, not here, to ''
              @ ''preserve tenant isolation.'')),
           (''subject'', row_to_dict (ev_decode env) (ev_protected env) (user_columns u)),
           (''memberships'', VList (map (\<lambda>m. dict (membership_columns m))
              (filter (\<lambda>m. mb_user_id m = i) (sd_memberships (st_db (es_site s)))))),
           (''audit_actions'', VList (map dict (filter (by_actor i) (audit_rows (st_server (es_site s)))))),
           (''impersonations'', VList (map (\<lambda>l. dict (impersonation_columns l))
              (filter (\<lambda>l. il_target_user_id l = i \<or> il_superadmin_id l = i) (es_impersonations s)))),
           (''saved_filters'', VList (map (\<lambda>f. dict (filter_columns env f))
              (filter (\<lambda>f. sf_user_id f = uuid_str i) (es_filters s)))),
           (''data_subject_requests'', VList (map (\<lambda>q. dict (request_columns env q))
              (sort_key dq_created_at (filter (\<lambda>q. dq_subject_user_id q = i) (es_requests s)))))]))"

text \<open>Its own transaction.\<close>

definition record_subject_request ::
    "'t estate_env \<Rightarrow> int \<Rightarrow> nat \<Rightarrow> string \<Rightarrow> string \<Rightarrow> nat option \<Rightarrow> string option \<Rightarrow> pyval governed" where
  "record_subject_request env now i request_type status handled_by note =
    (if request_type \<notin> set REQUEST_TYPES
     then throw (PyExc ValueError (expected_one_of ''request_type'' request_type REQUEST_TYPES))
     else if status \<notin> set REQUEST_STATUSES
     then throw (PyExc ValueError (expected_one_of ''status'' status REQUEST_STATUSES))
     else in_estate (sbind (on_site (new_id (ev_site env))) (\<lambda>rid.
       let q = \<lparr>dq_id = rid, dq_subject_user_id = i, dq_request_type = request_type, dq_status = status,
         dq_handled_by = handled_by, dq_note = note, dq_created_at = now\<rparr> in
       sbind (modify (\<lambda>s. s\<lparr>es_requests := es_requests s @ [q]\<rparr>)) (\<lambda>_.
       sbind (ev_flushed env) (\<lambda>_.
       ret (row_to_dict (ev_decode env) [] (request_columns env q)))))))"

definition list_subject_requests :: "'t estate_env \<Rightarrow> nat \<Rightarrow> pyval governed" where
  "list_subject_requests env i = gets (\<lambda>s. VList (map (\<lambda>q. row_to_dict (ev_decode env) [] (request_columns env q))
     (sort_key dq_created_at (filter (\<lambda>q. dq_subject_user_id q = i) (es_requests s)))))"

definition export_user_data ::
    "'t estate_env \<Rightarrow> int \<Rightarrow> http_request \<Rightarrow> user \<Rightarrow> nat \<Rightarrow> pyval governed" where
  "export_user_data env now rq admin i =
     sbind (or_raise SubjectNotFoundError (\<lambda>_. http 404 ''User not found.'') (export_subject env now i)) (\<lambda>bundle.
     sbind (record_subject_request env now i ''access'' ''completed'' (Some (us_id admin))
       (Some ''Data export generated via root API.'')) (\<lambda>_.
     sbind (root_audit env rq 200 ''subject_export'' admin None ''users'' i
       [(''subject_user_id'', VStr (uuid_str i))]) (\<lambda>_.
     ret bundle)))"

definition create_user_dsar ::
    "'t estate_env \<Rightarrow> int \<Rightarrow> http_request \<Rightarrow> user \<Rightarrow> nat \<Rightarrow> string \<Rightarrow> string \<Rightarrow> string option \<Rightarrow> pyval governed" where
  "create_user_dsar env now rq admin i request_type status note =
     sbind (load_user i) (\<lambda>_.
     sbind (or_raise ValueError (\<lambda>message. http 422 message)
       (record_subject_request env now i request_type status (Some (us_id admin)) note)) (\<lambda>row.
     sbind (root_audit env rq 201 ''subject_request_log'' admin None ''users'' i
       [(''subject_user_id'', VStr (uuid_str i)), (''request_type'', VStr request_type)]) (\<lambda>_.
     ret row)))"

section \<open>Tenants\<close>

definition tenant_out :: "tenant_row \<Rightarrow> pyval" where
  "tenant_out t = VDict [(''id'', VStr (uuid_str (te_id t))), (''slug'', VStr (te_slug t)),
     (''name'', VStr (te_name t)), (''schema_name'', VStr (te_schema_name t)),
     (''is_active'', VBool (te_is_active t))]"

definition tenant_matches :: "'t estate_env \<Rightarrow> string option \<Rightarrow> tenant_row \<Rightarrow> bool" where
  "tenant_matches env search t = (case search of
     None \<Rightarrow> True
   | Some s \<Rightarrow> s = [] \<or> ev_ilike env (te_slug t) (like_needle s) \<or> ev_ilike env (te_name t) (like_needle s))"

definition list_tenants :: "'t estate_env \<Rightarrow> int \<Rightarrow> int \<Rightarrow> string option \<Rightarrow> pyval governed" where
  "list_tenants env limit offset search =
     sbind (lift_res (validate_limit_offset (VInt limit) (VInt offset) MAX_PAGE_LIMIT DEFAULT_PAGE_LIMIT))
     (\<lambda>(n, k).
     sbind (on_site (sd_gets (\<lambda>db. filter (tenant_matches env search) (sd_tenants db)))) (\<lambda>rows.
     ret (list_page (map tenant_out (page_of n k (sort_key te_slug rows))) (int (length rows)) n k)))"

definition load_tenant :: "nat \<Rightarrow> tenant_row governed" where
  "load_tenant i = sbind (one_tenant (\<lambda>t. te_id t = i)) (\<lambda>found. case found of
     None \<Rightarrow> throw (http 404 ''Tenant not found.'')
   | Some t \<Rightarrow> ret t)"

definition read_tenant :: "nat \<Rightarrow> pyval governed" where
  "read_tenant i = sbind (load_tenant i) (\<lambda>t. ret (tenant_out t))"

definition access_tenant :: "'t estate_env \<Rightarrow> http_request \<Rightarrow> user \<Rightarrow> nat \<Rightarrow> pyval governed" where
  "access_tenant env rq admin i =
     sbind (load_tenant i) (\<lambda>t.
     sbind (root_audit env rq 200 ''tenant_access'' admin (Some (te_id t)) ''tenants'' (te_id t)
       [(''slug'', VStr (te_slug t))]) (\<lambda>_.
     ret (tenant_out t)))"

section \<open>Offboarding\<close>

definition tenant_by_slug :: "string \<Rightarrow> tenant_row governed" where
  "tenant_by_slug slug = sbind (one_tenant (\<lambda>t. te_slug t = slug)) (\<lambda>found. case found of
     None \<Rightarrow> throw (PyExc TenantNotFoundError (''Tenant '' @ repr_str slug @ '' not found.''))
   | Some t \<Rightarrow> ret t)"

definition dump_schema_tables :: "'t estate_env \<Rightarrow> site_db \<Rightarrow> string \<Rightarrow> pyval" where
  "dump_schema_tables env db schema_name = VDict (map (\<lambda>(name, rows).
     (name, VList (map (row_to_dict (ev_decode env) []) rows))) (sort_key fst (ev_tables env db schema_name)))"

definition export_tenant :: "'t estate_env \<Rightarrow> int \<Rightarrow> pyval \<Rightarrow> bool \<Rightarrow> (tenant_row \<times> row) governed" where
  "export_tenant env now slug_value include_schema_dump =
     sbind (lift_res (validate_tenant_slug slug_value)) (\<lambda>slug.
     sbind (tenant_by_slug slug) (\<lambda>t.
     sbind (gets (\<lambda>s. map (\<lambda>m. row_to_dict (ev_decode env) [] (membership_columns m))
       (filter (\<lambda>m. mb_tenant_id m = te_id t) (sd_memberships (st_db (es_site s)))))) (\<lambda>members.
     let bundle = [(''exported_at'', VStr (ev_iso env now)),
       (''tenant'', row_to_dict (ev_decode env) [] (tenant_columns env t)), (''memberships'', VList members)] in
     if include_schema_dump \<and> sn_postgres (ev_site env)
     then sbind (lift_res (tenant_schema_ok (te_schema_name t))) (\<lambda>_.
       sbind (gets (\<lambda>s. dump_schema_tables env (st_db (es_site s)) (te_schema_name t))) (\<lambda>tables.
       ret (t, bundle @ [(''schema'', VDict [(''name'', VStr (te_schema_name t)), (''tables'', tables)])])))
     else ret (t, bundle @ (''schema'', VNone) #
       (if include_schema_dump \<and> \<not> sn_postgres (ev_site env)
        then [(''schema_note'', VStr (''SQLite has no per-tenant schema; tenant tables share the public ''
          @ ''schema and cannot be dumped in isolation.''))]
        else [])))))"

definition audit_of_tenant :: "nat \<Rightarrow> row \<Rightarrow> bool" where
  "audit_of_tenant i r = (uuid_value (getattr r ''tenant_id'') = Some i)"

text \<open>\<open>_delete_public_rows\<close>: the four tables and the number of rows each loses.\<close>

definition public_rows :: "nat \<Rightarrow> estate \<Rightarrow> row" where
  "public_rows i s = [
     (''memberships'', VInt (int (length (filter (\<lambda>m. mb_tenant_id m = i) (sd_memberships (st_db (es_site s))))))),
     (''audit'', VInt (int (length (filter (audit_of_tenant i) (audit_rows (st_server (es_site s))))))),
     (''impersonations'', VInt (int (length (filter (\<lambda>l. il_tenant_id l = Some i) (es_impersonations s))))),
     (''saved_filters'', VInt (int (length (filter (\<lambda>f. sf_tenant_id f = Some (uuid_str i)) (es_filters s)))))]"

definition without_public_rows :: "nat \<Rightarrow> estate \<Rightarrow> estate" where
  "without_public_rows i s = s\<lparr>
     es_site := \<lparr>st_server = map_audit (filter (\<lambda>r. \<not> audit_of_tenant i r)) (st_server (es_site s)),
       st_db = (st_db (es_site s))\<lparr>sd_memberships :=
         filter (\<lambda>m. mb_tenant_id m \<noteq> i) (sd_memberships (st_db (es_site s)))\<rparr>\<rparr>,
     es_impersonations := filter (\<lambda>l. il_tenant_id l \<noteq> Some i) (es_impersonations s),
     es_filters := filter (\<lambda>f. sf_tenant_id f \<noteq> Some (uuid_str i)) (es_filters s)\<rparr>"

definition delete_public_rows :: "nat \<Rightarrow> row governed" where
  "delete_public_rows i = sbind (gets (public_rows i)) (\<lambda>deleted.
     sbind (modify (without_public_rows i)) (\<lambda>_. ret deleted))"

definition drop_schema :: "string \<Rightarrow> unit governed" where
  "drop_schema name = on_site (sd_modify (\<lambda>db. db\<lparr>sd_schemas := filter (\<lambda>e. fst e \<noteq> name) (sd_schemas db)\<rparr>))"

definition drop_or_archive :: "int \<Rightarrow> string \<Rightarrow> nat \<Rightarrow> unit governed" where
  "drop_or_archive now mode i = on_site (sd_modify (\<lambda>db. db\<lparr>sd_tenants :=
     if mode = ''drop'' then filter (\<lambda>t. te_id t \<noteq> i) (sd_tenants db)
     else map (\<lambda>t. if te_id t = i then t\<lparr>te_is_active := False, te_offboarded_at := Some now\<rparr> else t)
       (sd_tenants db)\<rparr>))"

text \<open>The transaction of \<open>offboard_tenant\<close>.\<close>

definition offboard_rows ::
    "'t estate_env \<Rightarrow> int \<Rightarrow> string \<Rightarrow> string \<Rightarrow> string \<Rightarrow> nat option \<Rightarrow> row governed" where
  "offboard_rows env now slug schema_name mode actor = in_estate (
     sbind (tenant_by_slug slug) (\<lambda>t.
     sbind (delete_public_rows (te_id t)) (\<lambda>deleted.
     sbind (if sn_postgres (ev_site env) then drop_schema schema_name else ret ()) (\<lambda>_.
     sbind (drop_or_archive now mode (te_id t)) (\<lambda>_.
     sbind (on_site (audit_internal ''/tenancy/offboard'' ''tenant_offboard'' (opt_uuid actor)
       [(''slug'', VStr slug), (''schema_name'', VStr schema_name), (''mode'', VStr mode),
        (''schema_dropped'', VBool (sn_postgres (ev_site env))), (''public_rows_deleted'', VDict deleted)])) (\<lambda>_.
     sbind (ev_flushed env) (\<lambda>_. ret deleted)))))))"

definition offboard_tenant ::
    "'t estate_env \<Rightarrow> int \<Rightarrow> pyval \<Rightarrow> string \<Rightarrow> nat option \<Rightarrow> bool \<Rightarrow> row governed" where
  "offboard_tenant env now slug_value mode actor include_schema_dump =
    (if mode \<notin> set [''archive'', ''drop'']
     then throw (PyExc ValueError (''Unknown offboard mode: '' @ repr_str mode @ '' (expected ''
       @ repr_str ''archive'' @ '' or '' @ repr_str ''drop'' @ '').''))
     else sbind (lift_res (validate_tenant_slug slug_value)) (\<lambda>slug.
       sbind (export_tenant env now (VStr slug) include_schema_dump) (\<lambda>(t, export).
       sbind (lift_res (tenant_schema_ok (te_schema_name t))) (\<lambda>_.
       sbind (offboard_rows env now slug (te_schema_name t) mode actor) (\<lambda>deleted.
       sbind (modify (\<lambda>s. s\<lparr>es_cache := invalidate_tenant slug (es_cache s)\<rparr>)) (\<lambda>_.
       ret [(''slug'', VStr slug), (''schema_name'', VStr (te_schema_name t)), (''mode'', VStr mode),
         (''schema_dropped'', VBool (sn_postgres (ev_site env))),
         (''public_rows_deleted'', VDict deleted), (''export'', VDict export)]))))))"

definition offboard_tenant_route ::
    "'t estate_env \<Rightarrow> int \<Rightarrow> user \<Rightarrow> nat \<Rightarrow> string \<Rightarrow> bool \<Rightarrow> pyval governed" where
  "offboard_tenant_route env now admin i mode include_schema_dump =
     sbind (load_tenant i) (\<lambda>t.
     sbind (or_raise TenantNotFoundError (\<lambda>_. http 404 ''Tenant not found.'')
       (offboard_tenant env now (VStr (te_slug t)) mode (Some (us_id admin)) include_schema_dump)) (\<lambda>result.
     ret (VDict (filter (\<lambda>(k, v). k \<noteq> ''export'') result))))"

section \<open>Impersonation\<close>

definition DEFAULT_IMPERSONATION_MINUTES :: int where "DEFAULT_IMPERSONATION_MINUTES = 60"
definition MAX_IMPERSONATION_MINUTES :: int where "MAX_IMPERSONATION_MINUTES = 8 * 60"

record impersonate_request =
  im_target_user_id :: nat
  im_tenant_id :: "nat option"
  im_duration_minutes :: "int option"
  im_reason :: "string option"

text \<open>The constraints of the body's fields.\<close>

definition impersonate_request_ok :: "impersonate_request \<Rightarrow> bool" where
  "impersonate_request_ok p = (
     (case im_duration_minutes p of None \<Rightarrow> True | Some d \<Rightarrow> 1 \<le> d \<and> d \<le> MAX_IMPERSONATION_MINUTES)
     \<and> (case im_reason p of None \<Rightarrow> True | Some r \<Rightarrow> length r \<le> 500))"

record 't impersonate_response =
  ir_access_token :: 't
  ir_expires_in :: int
  ir_target_user_id :: nat
  ir_tenant_id :: "nat option"
  ir_tenant_slug :: "string option"

definition load_target :: "nat \<Rightarrow> user governed" where
  "load_target i = sbind (accounts (find_user i)) (\<lambda>found. case found of
     None \<Rightarrow> throw (http 404 ''Target user not found.'')
   | Some u \<Rightarrow> if \<not> us_is_active u then throw (http 409 ''Target user is inactive.'') else ret u)"

definition validate_tenant :: "nat \<Rightarrow> tenant_row governed" where
  "validate_tenant i = sbind (load_tenant i) (\<lambda>t.
     if \<not> te_is_active t then throw (http 409 ''Tenant is inactive.'') else ret t)"

definition resolve_target_tenant :: "nat \<Rightarrow> nat option \<Rightarrow> (nat option \<times> string option) governed" where
  "resolve_target_tenant target_id requested = (case requested of
     Some i \<Rightarrow> sbind (validate_tenant i) (\<lambda>t. ret (Some (te_id t), Some (te_slug t)))
   | None \<Rightarrow>
     sbind (on_site (sd_gets (\<lambda>db. remdups (map mb_tenant_id
       (filter (\<lambda>m. mb_user_id m = target_id \<and> mb_is_active m) (sd_memberships db)))))) (\<lambda>ids.
     case ids of
       [only] \<Rightarrow> sbind (one_tenant (\<lambda>t. te_id t = only)) (\<lambda>candidate. ret (case candidate of
           None \<Rightarrow> (None, None)
         | Some t \<Rightarrow> if \<not> te_is_active t then (None, None) else (Some (te_id t), Some (te_slug t))))
     | _ \<Rightarrow> ret (None, None)))"

definition stated_reason :: "impersonate_request \<Rightarrow> string option" where
  "stated_reason p = (let r = strip (case im_reason p of None \<Rightarrow> [] | Some t \<Rightarrow> t) in
     if r = [] then None else Some r)"

definition session_minutes :: "impersonate_request \<Rightarrow> int" where
  "session_minutes p = (case im_duration_minutes p of
     None \<Rightarrow> DEFAULT_IMPERSONATION_MINUTES
   | Some d \<Rightarrow> if d = 0 then DEFAULT_IMPERSONATION_MINUTES else d)"

definition log_impersonation :: "impersonation_log \<Rightarrow> unit governed" where
  "log_impersonation l = modify (\<lambda>s. s\<lparr>es_impersonations := es_impersonations s @ [l]\<rparr>)"

definition mint_impersonation ::
    "'t estate_env \<Rightarrow> int \<Rightarrow> user \<Rightarrow> user \<Rightarrow> nat option \<Rightarrow> int \<Rightarrow> 't governed" where
  "mint_impersonation env now admin target tenant_id minutes = (let ae = sn_auth (ev_site env) in
     sbind (on_site (new_id (ev_site env))) (\<lambda>uuid4.
     ret (create_impersonation_token (en_jose ae) (jwt ae) now uuid4 (us_id target)
       (uuid_str (us_id admin)) (map_option uuid_str tenant_id) minutes (us_token_version target))))"

text \<open>The log row, the flush and the audit row.\<close>

definition record_impersonation ::
    "'t estate_env \<Rightarrow> http_request \<Rightarrow> user \<Rightarrow> user \<Rightarrow> nat option \<Rightarrow> int \<Rightarrow> string option \<Rightarrow> string \<Rightarrow> unit governed" where
  "record_impersonation env rq admin target tenant_id minutes reason jti =
     sbind (log_impersonation \<lparr>il_superadmin_id = us_id admin, il_target_user_id = us_id target,
       il_tenant_id = tenant_id, il_jti = jti, il_reason = reason\<rparr>) (\<lambda>_.
     sbind (ev_flushed env) (\<lambda>_.
     root_audit env rq 200 ''impersonation_start'' admin tenant_id ''users'' (us_id target)
       [(''target_user_id'', VStr (uuid_str (us_id target))),
        (''tenant_id'', case tenant_id of None \<Rightarrow> VNone | Some i \<Rightarrow> VStr (uuid_str i)),
        (''duration_minutes'', VInt minutes), (''jti'', VStr jti), (''reason'', opt_str reason)]))"

definition impersonate ::
    "'t estate_env \<Rightarrow> int \<Rightarrow> http_request \<Rightarrow> user \<Rightarrow> impersonate_request \<Rightarrow> 't impersonate_response governed" where
  "impersonate env now rq admin p =
    (if im_target_user_id p = us_id admin then throw (http 400 ''Cannot impersonate yourself.'')
     else let reason = stated_reason p; minutes = session_minutes p; ae = sn_auth (ev_site env) in
     if ev_require_reason env \<and> reason = None
     then throw (HTTPExc 422 (VDict [(''message'', VStr ''A reason is required to impersonate a user.''),
       (''fields'', VList [VDict [(''name'', VStr ''reason''), (''message'', VStr ''This field is required.'')]])]) [])
     else sbind (load_target (im_target_user_id p)) (\<lambda>target.
       sbind (resolve_target_tenant (us_id target) (im_tenant_id p)) (\<lambda>(tenant_id, tenant_slug).
       sbind (mint_impersonation env now admin target tenant_id minutes) (\<lambda>token.
       sbind (lift_res (rbind (decode_access_token (en_jose ae) (jwt ae) True now token) get_token_jti)) (\<lambda>jti.
       sbind (record_impersonation env rq admin target tenant_id minutes reason jti) (\<lambda>_.
       ret \<lparr>ir_access_token = token, ir_expires_in = minutes * 60, ir_target_user_id = us_id target,
         ir_tenant_id = tenant_id, ir_tenant_slug = tenant_slug\<rparr>))))))"

section \<open>The router\<close>

datatype root_request =
    ListUsers int int "string option"
  | ReadUser nat
  | AnonymizeUser nat
  | ExportUser nat
  | ListRequests nat
  | LogRequest nat string string "string option"
  | ListTenants int int "string option"
  | ReadTenant nat
  | AccessTenant nat
  | OffboardTenant nat string bool
  | Impersonate impersonate_request

datatype 't root_response = Json pyval | Impersonation "'t impersonate_response"

text \<open>A body the declared types refuse.\<close>

definition request_validation_error :: exn where
  "request_validation_error = PyExc (OtherExc ''RequestValidationError'') []"

definition body_ok :: "root_request \<Rightarrow> bool" where
  "body_ok req = (case req of
     LogRequest i request_type status note \<Rightarrow> request_type \<in> set REQUEST_TYPES
   | OffboardTenant i mode dump \<Rightarrow> mode \<in> set [''archive'', ''drop'']
   | Impersonate p \<Rightarrow> impersonate_request_ok p
   | _ \<Rightarrow> True)"

definition json :: "pyval governed \<Rightarrow> 't root_response governed" where
  "json m = sbind m (\<lambda>v. ret (Json v))"

definition root_handler ::
    "'t estate_env \<Rightarrow> int \<Rightarrow> http_request \<Rightarrow> root_request \<Rightarrow> user \<Rightarrow> 't root_response governed" where
  "root_handler env now rq req admin = (case req of
     ListUsers limit offset search \<Rightarrow> json (list_users env limit offset search)
   | ReadUser i \<Rightarrow> json (read_user i)
   | AnonymizeUser i \<Rightarrow> json (in_estate (anonymize_user_endpoint env rq admin i))
   | ExportUser i \<Rightarrow> json (export_user_data env now rq admin i)
   | ListRequests i \<Rightarrow> json (list_subject_requests env i)
   | LogRequest i request_type status note \<Rightarrow> json (create_user_dsar env now rq admin i request_type status note)
   | ListTenants limit offset search \<Rightarrow> json (list_tenants env limit offset search)
   | ReadTenant i \<Rightarrow> json (read_tenant i)
   | AccessTenant i \<Rightarrow> json (access_tenant env rq admin i)
   | OffboardTenant i mode dump \<Rightarrow> json (offboard_tenant_route env now admin i mode dump)
   | Impersonate p \<Rightarrow> sbind (in_estate (impersonate env now rq admin p)) (\<lambda>r. ret (Impersonation r)))"

definition root_admin :: "'t estate_env \<Rightarrow> int \<Rightarrow> 't credentials \<Rightarrow> user governed" where
  "root_admin env now cred = on_site (on_server (require_superadmin (sn_auth (ev_site env)) now cred))"

text \<open>\<open>build_root_router\<close>: the impersonation route is mounted only where it is enabled.  The
  dependency runs before the body is judged.\<close>

definition mounted :: "'t estate_env \<Rightarrow> root_request \<Rightarrow> bool" where
  "mounted env req = (case req of Impersonate p \<Rightarrow> ev_impersonation env | _ \<Rightarrow> True)"

definition root_route ::
    "'t estate_env \<Rightarrow> int \<Rightarrow> http_request \<Rightarrow> 't credentials \<Rightarrow> root_request \<Rightarrow> 't root_response governed" where
  "root_route env now rq cred req =
    (if \<not> mounted env req then throw (http 404 ''Not Found'')
     else sbind (root_admin env now cred) (\<lambda>admin.
       if \<not> body_ok req then throw request_validation_error
       else root_handler env now rq req admin))"

end
