(* ===== verification/Governance.thy ===== *)
theory Governance
  imports Root
begin

text \<open>
  What the superadmin's routes of \<open>src/asterion/root/\<close> guarantee: who may call them, that an
  impersonation is accounted for and cannot climb, what offboarding and anonymisation leave behind,
  and what a subject export holds.
\<close>

section \<open>Running the routes\<close>

lemma accounts_run [simp]: "accounts f s = (Inr (f (sv_db (st_server (es_site s)))), s)"
  by (simp add: accounts_def on_site_def on_server_def)

lemma one_tenant_run [simp]:
  "one_tenant P s = (scalar_one_or_none (filter P (sd_tenants (st_db (es_site s)))), s)"
  by (cases "scalar_one_or_none (filter P (sd_tenants (st_db (es_site s))))")
    (simp_all add: one_tenant_def on_site_def sd_gets_def sbind_app proc_simps)

lemma ev_flushed_Inr: "ev_flushed env s = (Inr x, s') \<longleftrightarrow> s' = s \<and> ev_flush env s = None"
  by (auto simp: ev_flushed_def split: option.splits)

text \<open>A live session of an active superadmin, not an impersonated one.\<close>

definition superadmin_session :: "'t estate_env \<Rightarrow> int \<Rightarrow> 't credentials \<Rightarrow> estate \<Rightarrow> user \<Rightarrow> bool" where
  "superadmin_session env now cred s u \<longleftrightarrow> (let ae = sn_auth (ev_site env) in
     \<exists>scheme token payload version jti. cred = Some (scheme, token)
       \<and> token_claims (decode_access_token (en_jose ae) (jwt ae) True now token)
          = Inr (payload, us_id u, version, jti)
       \<and> is_normal_access_token payload
       \<and> live_token (sv_db (st_server (es_site s))) (us_id u) version jti u \<and> us_is_superadmin u)"

lemma require_superadmin_Inr:
  assumes "require_superadmin ae now cred v = (Inr u, v')"
  shows "v' = v \<and> (\<exists>scheme token payload version jti. cred = Some (scheme, token)
       \<and> token_claims (decode_access_token (en_jose ae) (jwt ae) True now token)
          = Inr (payload, us_id u, version, jti)
       \<and> is_normal_access_token payload \<and> live_token (sv_db v) (us_id u) version jti u \<and> us_is_superadmin u)"
proof -
  obtain p i where c: "get_current_user ae now cred v = (Inr (u, p, i), v)"
      and v: "v' = v" "\<not> is_impersonation_token p" "us_is_superadmin u"
    using assms by (auto simp: require_superadmin_def res_simps current_user_Inr split: if_splits)
  obtain scheme token user_id version jti where t: "cred = Some (scheme, token)"
      "token_claims (decode_access_token (en_jose ae) (jwt ae) True now token) = Inr (p, user_id, version, jti)"
      "live_token (sv_db v) user_id version jti u"
    using c by (auto simp: current_user_Inr)
  moreover have "user_id = us_id u" using t(3) by (auto simp: live_token_def dest: find_user_id)
  moreover have "is_normal_access_token p" using t(2) v(2) by (auto simp: token_claims_Inr decode_access_Inr)
  ultimately show ?thesis using v by blast
qed

lemma require_superadmin_reads: "reads (require_superadmin ae now cred)"
  unfolding require_superadmin_def get_current_user_def by (intro reads_intros)+

lemma root_admin_run: "root_admin env now cred s = (fst (root_admin env now cred s), s)"
  using require_superadmin_reads [of "sn_auth (ev_site env)" now cred]
  by (simp add: root_admin_def on_site_def on_server_def reads_def case_prod_beta)

lemma root_admin_Inr:
  assumes "root_admin env now cred s = (Inr u, s')"
  shows "s' = s \<and> superadmin_session env now cred s u"
proof -
  obtain v where v: "require_superadmin (sn_auth (ev_site env)) now cred (st_server (es_site s)) = (Inr u, v)"
    using assms by (auto simp: root_admin_def on_site_Inr on_server_def split: prod.splits)
  show ?thesis
    using assms root_admin_run [of env now cred s] require_superadmin_Inr [OF v]
    unfolding superadmin_session_def Let_def by simp
qed

lemma root_request_Inr:
  assumes "root_route env now rq cred req s = (Inr x, s')"
  shows "\<exists>admin. root_admin env now cred s = (Inr admin, s) \<and> superadmin_session env now cred s admin
    \<and> mounted env req \<and> body_ok req \<and> root_handler env now rq req admin s = (Inr x, s')"
  using assms
  by (auto simp: root_route_def res_simps split: if_splits dest: root_admin_Inr)

lemma root_request_refused:
  "(\<exists>e. root_route env now rq cred req s = (Inl e, s)) \<or> (\<exists>u. superadmin_session env now cred s u)"
proof (cases "root_admin env now cred s")
  case (Pair r s1)
  then show ?thesis
    using root_admin_run [of env now cred s]
    by (cases r) (auto simp: root_route_def sbind_app proc_simps dest: root_admin_Inr)
qed

text \<open>C2: The superadmin's routes answer only a live session of an active superadmin that is not an
  impersonated one.  Every other request is refused and changes nothing.\<close>

theorem root_routes_need_superadmin:
  "(\<exists>e. root_route env now rq cred req s = (Inl e, s)) \<or> (\<exists>u. superadmin_session env now cred s u)"
  by (rule root_request_refused)

section \<open>Impersonation\<close>

lemma root_audit_run:
  "\<exists>v. root_audit env rq code action admin tid resource i changes s = (Inr (), s\<lparr>es_site := v\<rparr>)"
  by (auto simp: root_audit_def on_site_def on_server_def audit_in_session_def Let_def split: prod.splits)

lemma mint_impersonation_Inr:
  assumes "mint_impersonation env now admin target tid minutes s = (Inr token, s')"
  shows "\<exists>v uuid4. s' = s\<lparr>es_site := v\<rparr> \<and> token = create_impersonation_token (en_jose (sn_auth (ev_site env)))
    (jwt (sn_auth (ev_site env))) now uuid4 (us_id target) (uuid_str (us_id admin)) (map_option uuid_str tid)
    minutes (us_token_version target)"
  using assms by (auto simp: mint_impersonation_def Let_def res_simps on_site_Inr)

lemma load_target_Inr:
  "load_target i s = (Inr u, s') \<longleftrightarrow> s' = s \<and> find_user i (sv_db (st_server (es_site s))) = Some u \<and> us_is_active u"
  by (auto simp: load_target_def sbind_app proc_simps split: option.splits)

lemma resolve_target_tenant_same:
  assumes "resolve_target_tenant i requested s = (Inr x, s')"
  shows "s' = s"
  using assms
  by (auto simp: resolve_target_tenant_def validate_tenant_def load_tenant_def res_simps on_site_def sd_gets_def
      proc_simps sbind_app split: option.splits list.splits if_splits sum.splits)

lemma Inr_rbind: "Inr y = rbind m f \<longleftrightarrow> (\<exists>x. m = Inr x \<and> f x = Inr y)"
  by (cases m) auto

lemma record_impersonation_Inr:
  assumes "record_impersonation env rq admin target tid minutes reason jti s = (Inr x, s')"
  shows "es_impersonations s' = es_impersonations s @ [\<lparr>il_superadmin_id = us_id admin,
    il_target_user_id = us_id target, il_tenant_id = tid, il_jti = jti, il_reason = reason\<rparr>]"
proof -
  let ?t = "s\<lparr>es_impersonations := es_impersonations s @ [\<lparr>il_superadmin_id = us_id admin,
    il_target_user_id = us_id target, il_tenant_id = tid, il_jti = jti, il_reason = reason\<rparr>]\<rparr>"
  obtain changes where "root_audit env rq 200 ''impersonation_start'' admin tid ''users'' (us_id target) changes ?t
      = (Inr x, s')"
    using assms by (auto simp: record_impersonation_def log_impersonation_def sbind_Inr_iff ev_flushed_Inr)
  then show ?thesis
    using root_audit_run [of env rq 200 "''impersonation_start''" admin tid "''users''" "us_id target" changes ?t]
    by auto
qed

lemma impersonate_Inr:
  assumes "impersonate env now rq admin p s = (Inr r, s')"
  shows "\<exists>target tid payload uuid4 jti. im_target_user_id p \<noteq> us_id admin
    \<and> (ev_require_reason env \<longrightarrow> stated_reason p \<noteq> None)
    \<and> find_user (im_target_user_id p) (sv_db (st_server (es_site s))) = Some target \<and> us_is_active target
    \<and> ir_access_token r = create_impersonation_token (en_jose (sn_auth (ev_site env)))
        (jwt (sn_auth (ev_site env))) now uuid4 (us_id target) (uuid_str (us_id admin))
        (map_option uuid_str tid) (session_minutes p) (us_token_version target)
    \<and> decode_access_token (en_jose (sn_auth (ev_site env))) (jwt (sn_auth (ev_site env))) True now
        (ir_access_token r) = Inr payload
    \<and> get_token_jti payload = Inr jti \<and> ir_expires_in r = session_minutes p * 60
    \<and> es_impersonations s' = es_impersonations s @ [\<lparr>il_superadmin_id = us_id admin,
        il_target_user_id = us_id target, il_tenant_id = tid, il_jti = jti, il_reason = stated_reason p\<rparr>]"
proof -
  have pre: "im_target_user_id p \<noteq> us_id admin" "ev_require_reason env \<longrightarrow> stated_reason p \<noteq> None"
    using assms by (auto simp: impersonate_def Let_def split: if_splits)
  then have "sbind (load_target (im_target_user_id p)) (\<lambda>target.
       sbind (resolve_target_tenant (us_id target) (im_tenant_id p)) (\<lambda>(tenant_id, tenant_slug).
       sbind (mint_impersonation env now admin target tenant_id (session_minutes p)) (\<lambda>token.
       sbind (lift_res (rbind (decode_access_token (en_jose (sn_auth (ev_site env)))
         (jwt (sn_auth (ev_site env))) True now token) get_token_jti)) (\<lambda>jti.
       sbind (record_impersonation env rq admin target tenant_id (session_minutes p) (stated_reason p) jti) (\<lambda>_.
       ret \<lparr>ir_access_token = token, ir_expires_in = session_minutes p * 60, ir_target_user_id = us_id target,
         ir_tenant_id = tenant_id, ir_tenant_slug = tenant_slug\<rparr>))))) s = (Inr r, s')"
    using assms unfolding impersonate_def Let_def by (cases "stated_reason p") (auto split: if_splits)
  then obtain target tid slug s1 s2 token payload jti s3 where run:
      "load_target (im_target_user_id p) s = (Inr target, s1)"
      "resolve_target_tenant (us_id target) (im_tenant_id p) s1 = (Inr (tid, slug), s2)"
      "mint_impersonation env now admin target tid (session_minutes p) s2 = (Inr token, s3)"
      "decode_access_token (en_jose (sn_auth (ev_site env))) (jwt (sn_auth (ev_site env))) True now token = Inr payload"
      "get_token_jti payload = Inr jti"
      "record_impersonation env rq admin target tid (session_minutes p) (stated_reason p) jti s3 = (Inr (), s')"
      "r = \<lparr>ir_access_token = token, ir_expires_in = session_minutes p * 60,
         ir_target_user_id = us_id target, ir_tenant_id = tid, ir_tenant_slug = slug\<rparr>"
    by (auto simp: sbind_Inr_iff Inr_rbind split: prod.splits)
  have s: "s1 = s" "s2 = s" using run(1,2) by (auto simp: load_target_Inr dest: resolve_target_tenant_same)
  show ?thesis
    using pre run(1,4,5,7) mint_impersonation_Inr [OF run(3)] record_impersonation_Inr [OF run(6)]
    unfolding s by (auto simp: load_target_Inr)
qed

lemma impersonation_token_climbs_nowhere:
  assumes "carries (sn_auth (ev_site env)) token payload" and "is_impersonation_token payload"
  shows "\<exists>e. root_route env now rq (Some (scheme, token)) req s = (Inl e, s)"
proof -
  have "\<not> superadmin_session env now (Some (scheme, token)) s u" for u
  proof
    assume "superadmin_session env now (Some (scheme, token)) s u"
    then obtain p' x where t: "token_claims (decode_access_token (en_jose (sn_auth (ev_site env)))
        (jwt (sn_auth (ev_site env))) True now token) = Inr (p', x)" "is_normal_access_token p'"
      by (auto simp: superadmin_session_def Let_def)
    have "p' = payload" by (rule decoded_carried(1) [OF assms(1) t(1)])
    with t(2) assms(2) show False
      by (simp add: is_normal_access_token_def is_impersonation_token_def token_types)
  qed
  with root_request_refused [of env now rq "Some (scheme, token)" req s] show ?thesis by blast
qed

lemma impersonation_claims:
  assumes "jose_decodes j" and "i < 2 ^ 128" and "0 \<le> minutes"
  shows "\<exists>payload. decode_token j js now (create_impersonation_token j js now uuid4 i by tid minutes v) = Inr payload
    \<and> token_claims (decode_access_token j js True now (create_impersonation_token j js now uuid4 i by tid minutes v))
        = Inr (payload, i, v, uuid_str uuid4)
    \<and> is_impersonation_token payload \<and> getattr payload ''impersonated_by'' = VStr by"
proof -
  have "getattr (token_payload js now u (stamp ''tenant_id'' tid [(''sub'', VStr (uuid_str i)), (''tkv'', VInt v),
      (''impersonated_by'', VStr by), (''renewable'', VBool False)]) d type) ''impersonated_by'' = VStr by" for u d type
    by (simp add: token_payload_def getattr_stamp_other setattrs_def getattr_setattr getattr_Cons)
  then show ?thesis
    using assms(2)
    by (simp add: minting decoding decode_minted [OF assms(1)] assms(3) minted_type minted_claims token_types
        is_impersonation_token_def getattr_Cons getattr_Nil getattr_stamp_other)
qed

lemma session_minutes_bounds:
  assumes "impersonate_request_ok p"
  shows "1 \<le> session_minutes p" "session_minutes p \<le> MAX_IMPERSONATION_MINUTES"
  using assms by (auto simp: impersonate_request_ok_def session_minutes_def DEFAULT_IMPERSONATION_MINUTES_def
      MAX_IMPERSONATION_MINUTES_def split: option.splits)


section \<open>A superadmin at work\<close>

lemma root_admin_succeeds:
  assumes "token_claims (decode_access_token (en_jose (sn_auth (ev_site env))) (jwt (sn_auth (ev_site env))) True now token)
      = Inr (payload, i, v, jti)"
    and "live_token (sv_db (st_server (es_site s))) i v jti u" and "us_is_superadmin u"
    and "\<not> is_impersonation_token payload"
  shows "root_admin env now (Some (''bearer'', token)) s = (Inr u, s)"
proof -
  have "require_superadmin (sn_auth (ev_site env)) now (Some (''bearer'', token)) (st_server (es_site s))
      = (Inr u, st_server (es_site s))"
    using current_user_succeeds [OF assms(1,2)] assms(3,4)
    by (simp add: require_superadmin_def sbind_app proc_simps)
  then show ?thesis by (simp add: root_admin_def on_site_def on_server_def)
qed

lemma impersonate_succeeds:
  assumes "im_target_user_id p \<noteq> us_id admin" and "stated_reason p \<noteq> None" and "impersonate_request_ok p"
    and "find_user (im_target_user_id p) (sv_db (st_server (es_site s))) = Some u" and "us_is_active u"
    and "resolve_target_tenant (us_id u) (im_tenant_id p) s = (Inr (tid, slug), s)"
    and "jose_decodes (en_jose (sn_auth (ev_site env)))" and "im_target_user_id p < 2 ^ 128"
    and "\<And>t. ev_flush env t = None"
  shows "\<exists>r s'. impersonate env now rq admin p s = (Inr r, s')"
proof -
  have mint: "\<exists>uuid4 s1. mint_impersonation env now admin u tid (session_minutes p) s
      = (Inr (create_impersonation_token (en_jose (sn_auth (ev_site env))) (jwt (sn_auth (ev_site env))) now uuid4
          (us_id u) (uuid_str (us_id admin)) (map_option uuid_str tid) (session_minutes p) (us_token_version u)), s1)"
    by (auto simp: mint_impersonation_def Let_def sbind_app new_id_def on_site_def on_server_def draw_def proc_simps)
  then obtain uuid4 s1 token where m: "mint_impersonation env now admin u tid (session_minutes p) s = (Inr token, s1)"
      "token = create_impersonation_token (en_jose (sn_auth (ev_site env))) (jwt (sn_auth (ev_site env))) now uuid4
          (us_id u) (uuid_str (us_id admin)) (map_option uuid_str tid) (session_minutes p) (us_token_version u)"
    by blast
  have u: "us_id u < 2 ^ 128" using find_user_id [OF assms(4)] assms(8) by simp
  have jti: "rbind (decode_access_token (en_jose (sn_auth (ev_site env))) (jwt (sn_auth (ev_site env))) True now token)
      get_token_jti = Inr (uuid_str uuid4)"
    using impersonation_claims [OF assms(7) u, of "session_minutes p" "jwt (sn_auth (ev_site env))" now uuid4
        "uuid_str (us_id admin)" "map_option uuid_str tid" "us_token_version u"] session_minutes_bounds [OF assms(3)]
    unfolding m(2) by (auto simp: token_claims_Inr)
  have "\<exists>s2. record_impersonation env rq admin u tid (session_minutes p) (stated_reason p) (uuid_str uuid4) s1
      = (Inr (), s2)"
    using assms(9) by (simp add: record_impersonation_def log_impersonation_def sbind_app proc_simps ev_flushed_def)
      (meson root_audit_run)
  moreover have "load_target (im_target_user_id p) s = (Inr u, s)"
    using assms(4,5) by (simp add: load_target_Inr)
  ultimately show ?thesis
    using assms(1,2,6) m(1) jti by (auto simp: impersonate_def Let_def sbind_app proc_simps)
qed

definition demo_boss :: user where "demo_boss = demo_user\<lparr>us_is_superadmin := True\<rparr>"

definition demo_target :: user where "demo_target = demo_user\<lparr>us_id := 43, us_email := ''t@b.c''\<rparr>"

definition demo_root :: estate where
  "demo_root = demo_estate\<lparr>es_site := demo_site\<lparr>st_server := (demo_server demo_boss)
     \<lparr>sv_db := (sv_db (demo_server demo_boss))\<lparr>db_users := [demo_boss, demo_target]\<rparr>\<rparr>\<rparr>\<rparr>"

definition demo_impersonate_request :: impersonate_request where
  "demo_impersonate_request = \<lparr>im_target_user_id = 43, im_tenant_id = None, im_duration_minutes = Some 30,
     im_reason = Some ''support''\<rparr>"

lemma demo_root_env:
  "sn_auth (ev_site demo_estate_env) = demo_auth" "ev_flush demo_estate_env t = None"
  "ev_impersonation demo_estate_env" "ev_require_reason demo_estate_env"
  by (simp_all add: demo_estate_env_def demo_site_env_def)

lemma demo_root_users: "db_users (sv_db (st_server (es_site demo_root))) = [demo_boss, demo_target]"
  by (simp add: demo_root_def)

lemma demo_normal: "\<not> is_impersonation_token (fst demo_access)"
  by code_simp

lemma demo_root_admin: "root_admin demo_estate_env 10 demo_cred demo_root = (Inr demo_boss, demo_root)"
proof -
  have "live_token (sv_db (st_server (es_site demo_root))) 42 3 (uuid_str 7) demo_boss"
    by (simp add: live_token_def find_user_def demo_root_def demo_server_def demo_boss_def demo_user_def)
  moreover have "us_is_superadmin demo_boss" by (simp add: demo_boss_def)
  ultimately show ?thesis
    using root_admin_succeeds [of demo_estate_env 10 demo_access "fst demo_access" 42 3 "uuid_str 7" demo_root demo_boss]
      demo_access_claims(1) by (simp add: demo_cred_def demo_root_env demo_normal)
qed


section \<open>Offboarding\<close>

lemma scalar_one_Inr: "scalar_one_or_none xs = Inr (Some x) \<longleftrightarrow> xs = [x]"
  by (auto simp: scalar_one_or_none_def split: list.splits)

lemma load_tenant_Inr: "load_tenant i s = (Inr t, s') \<longleftrightarrow>
    s' = s \<and> filter (\<lambda>t. te_id t = i) (sd_tenants (st_db (es_site s))) = [t]"
  by (auto simp: load_tenant_def sbind_Inr_iff scalar_one_Inr split: option.splits)

lemma tenant_by_slug_Inr: "tenant_by_slug slug s = (Inr t, s') \<longleftrightarrow>
    s' = s \<and> filter (\<lambda>t. te_slug t = slug) (sd_tenants (st_db (es_site s))) = [t]"
  by (auto simp: tenant_by_slug_def sbind_Inr_iff scalar_one_Inr split: option.splits)

lemma same_tenant:
  assumes "filter (\<lambda>t. te_id t = i) ts = [t]" and "filter (\<lambda>u. te_slug u = te_slug t) ts = [t']"
  shows "t' = t"
proof -
  have "t \<in> set (filter (\<lambda>u. te_slug u = te_slug t) ts)" using one_row [OF assms(1)] by simp
  then show ?thesis using assms(2) by simp
qed

lemma export_tenant_Inr:
  assumes "export_tenant env now (VStr slug) dump s = (Inr (t, bundle), s')" and "lower (strip slug) = slug"
  shows "s' = s \<and> filter (\<lambda>t. te_slug t = slug) (sd_tenants (st_db (es_site s))) = [t]"
proof -
  obtain x where "validate_tenant_slug (VStr slug) = Inr x"
    using assms(1) by (cases "validate_tenant_slug (VStr slug)") (auto simp: export_tenant_def)
  moreover from this have "x = slug" using assms(2) by (simp add: validate_tenant_slug_Inr)
  ultimately show ?thesis
    using assms(1) by (auto simp: export_tenant_def Let_def sbind_Inr_iff tenant_by_slug_Inr split: if_splits)
qed

definition tenants_after :: "int \<Rightarrow> string \<Rightarrow> nat \<Rightarrow> tenant_row list \<Rightarrow> tenant_row list" where
  "tenants_after now mode i ts = (if mode = ''drop'' then filter (\<lambda>t. te_id t \<noteq> i) ts
     else map (\<lambda>t. if te_id t = i then t\<lparr>te_is_active := False, te_offboarded_at := Some now\<rparr> else t) ts)"

lemma offboard_rows_Inr:
  assumes "offboard_rows env now slug name mode actor s = (Inr deleted, s')"
    and "filter (\<lambda>t. te_slug t = slug) (sd_tenants (st_db (es_site s))) = [t]"
  shows "\<exists>row. es_site s' = \<lparr>st_server = (let v = map_audit (filter (\<lambda>r. \<not> audit_of_tenant (te_id t) r)) (st_server (es_site s)) in
        v\<lparr>sv_db := (sv_db v)\<lparr>db_audit := db_audit (sv_db v) @ [row]\<rparr>\<rparr>),
      st_db = (st_db (es_site s))\<lparr>sd_memberships := filter (\<lambda>m. mb_tenant_id m \<noteq> te_id t) (sd_memberships (st_db (es_site s))),
        sd_schemas := (if sn_postgres (ev_site env) then filter (\<lambda>e. fst e \<noteq> name) (sd_schemas (st_db (es_site s)))
          else sd_schemas (st_db (es_site s))),
        sd_tenants := tenants_after now mode (te_id t) (sd_tenants (st_db (es_site s)))\<rparr>\<rparr>
    \<and> \<not> audit_of_tenant (te_id t) row
    \<and> es_impersonations s' = filter (\<lambda>l. il_tenant_id l \<noteq> Some (te_id t)) (es_impersonations s)
    \<and> es_filters s' = filter (\<lambda>f. sf_tenant_id f \<noteq> Some (uuid_str (te_id t))) (es_filters s)
    \<and> es_requests s' = es_requests s \<and> es_cache s' = es_cache s"
proof -
  show ?thesis
    using assms
    by (auto simp: offboard_rows_def in_estate_Inr sbind_Inr_iff tenant_by_slug_Inr delete_public_rows_def
        drop_schema_def drop_or_archive_def audit_internal_def on_site_Inr sd_modify_def on_server_def db_modify_def
        proc_simps ev_flushed_Inr without_public_rows_def tenants_after_def Let_def audit_of_tenant_def getattr_def
        uuid_value_def split: if_splits)
qed
lemma or_raise_Inr: "or_raise c f m s = (Inr x, s') \<longleftrightarrow> m s = (Inr x, s')"
  by (auto simp: or_raise_def split: prod.splits sum.splits exn.splits)

text \<open>The tenant with the id, when the slugs are stored as \<open>create_tenant_record\<close> stores them.\<close>

definition tenant_stored :: "estate \<Rightarrow> nat \<Rightarrow> tenant_row \<Rightarrow> bool" where
  "tenant_stored s i t \<longleftrightarrow> filter (\<lambda>t. te_id t = i) (sd_tenants (st_db (es_site s))) = [t]
     \<and> lower (strip (te_slug t)) = te_slug t"

lemma offboard_route_Inr:
  assumes "offboard_tenant_route env now admin i mode dump s = (Inr x, s')" and "tenant_stored s i t"
  shows "\<exists>s1 deleted. filter (\<lambda>u. te_slug u = te_slug t) (sd_tenants (st_db (es_site s))) = [t]
    \<and> offboard_rows env now (te_slug t) (te_schema_name t) mode (Some (us_id admin)) s = (Inr deleted, s1)
    \<and> s' = s1\<lparr>es_cache := invalidate_tenant (te_slug t) (es_cache s1)\<rparr>"
proof -
  obtain result where r: "offboard_tenant env now (VStr (te_slug t)) mode (Some (us_id admin)) dump s = (Inr result, s')"
    using assms by (auto simp: offboard_tenant_route_def sbind_Inr_iff load_tenant_Inr or_raise_Inr tenant_stored_def)
  have c: "lower (strip (te_slug t)) = te_slug t" using assms(2) by (simp add: tenant_stored_def)
  obtain slug u export s0 s1 deleted where run:
      "validate_tenant_slug (VStr (te_slug t)) = Inr slug"
      "export_tenant env now (VStr slug) dump s = (Inr (u, export), s0)"
      "offboard_rows env now slug (te_schema_name u) mode (Some (us_id admin)) s0 = (Inr deleted, s1)"
      "s' = s1\<lparr>es_cache := invalidate_tenant slug (es_cache s1)\<rparr>"
    using r by (auto simp: offboard_tenant_def sbind_Inr_iff proc_simps Inr_rbind split: if_splits prod.splits)
  have slug: "slug = te_slug t" using run(1) c by (simp add: validate_tenant_slug_Inr)
  have "s0 = s" "filter (\<lambda>u. te_slug u = te_slug t) (sd_tenants (st_db (es_site s))) = [u]"
    using export_tenant_Inr [OF run(2)] c by (simp_all add: slug)
  moreover from this(2) have "u = t" using assms(2) by (intro same_tenant) (auto simp: tenant_stored_def)
  ultimately show ?thesis using run(3,4) by (simp add: slug)
qed

lemma offboard_state:
  assumes "root_route env now rq cred (OffboardTenant i mode dump) s = (Inr x, s')" and "tenant_stored s i t"
  shows "\<exists>row. es_site s' = \<lparr>st_server = (let v = map_audit (filter (\<lambda>r. \<not> audit_of_tenant i r)) (st_server (es_site s)) in
        v\<lparr>sv_db := (sv_db v)\<lparr>db_audit := db_audit (sv_db v) @ [row]\<rparr>\<rparr>),
      st_db = (st_db (es_site s))\<lparr>sd_memberships := filter (\<lambda>m. mb_tenant_id m \<noteq> i) (sd_memberships (st_db (es_site s))),
        sd_schemas := (if sn_postgres (ev_site env) then filter (\<lambda>e. fst e \<noteq> te_schema_name t) (sd_schemas (st_db (es_site s)))
          else sd_schemas (st_db (es_site s))),
        sd_tenants := tenants_after now mode i (sd_tenants (st_db (es_site s)))\<rparr>\<rparr>
    \<and> \<not> audit_of_tenant i row
    \<and> es_impersonations s' = filter (\<lambda>l. il_tenant_id l \<noteq> Some i) (es_impersonations s)
    \<and> es_filters s' = filter (\<lambda>f. sf_tenant_id f \<noteq> Some (uuid_str i)) (es_filters s)
    \<and> es_cache s' = invalidate_tenant (te_slug t) (es_cache s)
    \<and> filter (\<lambda>u. te_slug u = te_slug t) (sd_tenants (st_db (es_site s))) = [t]"
proof -
  obtain admin v where r: "offboard_tenant_route env now admin i mode dump s = (Inr v, s')"
    using root_request_Inr [OF assms(1)] by (auto simp: root_handler_def json_def sbind_Inr_iff)
  obtain s1 deleted where o: "filter (\<lambda>u. te_slug u = te_slug t) (sd_tenants (st_db (es_site s))) = [t]"
      "offboard_rows env now (te_slug t) (te_schema_name t) mode (Some (us_id admin)) s = (Inr deleted, s1)"
      "s' = s1\<lparr>es_cache := invalidate_tenant (te_slug t) (es_cache s1)\<rparr>"
    using offboard_route_Inr [OF r assms(2)] by blast
  have "te_id t = i" using assms(2) one_row by (fastforce simp: tenant_stored_def)
  then show ?thesis using o(1,3) offboard_rows_Inr [OF o(2,1)] by auto
qed

lemma find_filter_Cons: "filter P xs = [x] \<Longrightarrow> find P xs = Some x"
  by (induction xs) (auto split: if_splits)

lemma find_after:
  assumes "filter (\<lambda>u. te_slug u = te_slug t) ts = [t]" and "te_id t = i"
  shows "find (\<lambda>u. te_slug u = te_slug t) (tenants_after now mode i ts)
    = (if mode = ''drop'' then None else Some (t\<lparr>te_is_active := False, te_offboarded_at := Some now\<rparr>))"
proof (cases "mode = ''drop''")
  case True
  have "u \<in> set ts \<Longrightarrow> te_slug u = te_slug t \<Longrightarrow> u = t" for u
    using arg_cong [OF assms(1), of set] by auto
  then show ?thesis using True assms(2) by (auto simp: tenants_after_def find_None_iff)
next
  case False
  then show ?thesis
    using find_filter_Cons [OF assms(1)] assms(2) by (simp add: tenants_after_def find_map_same)
qed

text \<open>C7: An offboarded tenant is closed at once in the process that offboarded it: a request naming
  its slug is answered 404 or 403 by the tenant middleware, whatever the process had cached, and no
  account but a superadmin holds any permission in it.\<close>

theorem offboarded_tenant_is_closed:
  assumes "root_route env now rq cred (OffboardTenant i mode dump) s = (Inr x, s')" and "tenant_stored s i t"
    and "extract_slug (Some cfg) r = Some (te_slug t)" and "i < 2 ^ 128" and "j < 2 ^ 128"
    and "pr_id p = uuid_str j" and "\<not> pr_is_superadmin p" and "tn_id tn = uuid_str i"
  shows "(\<exists>kind message. fst (tenant_dispatch cfg (\<lambda>slug. find (\<lambda>u. te_slug u = slug) (sd_tenants (st_db (es_site s'))))
        now' r (es_cache s')) \<in> {Inr (Respond 404 kind message), Inr (Respond 403 kind message)})
    \<and> get_permissions env' True p (Some tn) (st_db (es_site s')) = Inr []"
proof -
  note st = offboard_state [OF assms(1,2)]
  have i: "te_id t = i" using assms(2) one_row by (fastforce simp: tenant_stored_def)
  have tenants: "sd_tenants (st_db (es_site s')) = tenants_after now mode i (sd_tenants (st_db (es_site s)))"
      and cache: "map_of (es_cache s') (te_slug t) = None"
      and slug: "filter (\<lambda>u. te_slug u = te_slug t) (sd_tenants (st_db (es_site s))) = [t]"
      and m: "sd_memberships (st_db (es_site s')) = filter (\<lambda>m. mb_tenant_id m \<noteq> i) (sd_memberships (st_db (es_site s)))"
    using st by (auto simp: invalidate_tenant_def delete_conv')
  have "membership_of j i (st_db (es_site s')) = []"
    unfolding membership_of_def m by (simp add: filter_empty_conv)
  then have "get_permissions env' True p (Some tn) (st_db (es_site s')) = Inr []"
    using assms(4-8) by (simp add: get_permissions_def bind_uuid_str scalar_one_or_none_def)
  moreover have "resolve_tenant cfg (\<lambda>slug. find (\<lambda>u. te_slug u = slug) (sd_tenants (st_db (es_site s')))) now' r (es_cache s')
      = (let ctx = map_option from_orm (if mode = ''drop'' then None
            else Some (t\<lparr>te_is_active := False, te_offboarded_at := Some now\<rparr>)) in
          (ctx, mem_set now' (te_slug t) ctx (tg_ttl cfg) (es_cache s')))"
    using assms(3) cache by (simp add: resolve_tenant_def mem_get_def tenants find_after [OF slug i])
  ultimately show ?thesis
    using assms(3) by (auto simp: tenant_dispatch_def Let_def from_orm_def)
qed
definition demo_tenant_row :: tenant_row where
  "demo_tenant_row = \<lparr>te_id = 7, te_slug = ''acme'', te_name = ''Acme'', te_is_active = True,
     te_schema_name = ''tenant_acme'', te_allowed_cidrs = None, te_offboarded_at = None\<rparr>"

definition demo_root_tenant :: estate where
  "demo_root_tenant = demo_root\<lparr>es_site := (es_site demo_root)\<lparr>st_db := (st_db demo_site)\<lparr>sd_tenants := [demo_tenant_row]\<rparr>\<rparr>\<rparr>"

lemma demo_stored: "tenant_stored demo_root_tenant 7 demo_tenant_row"
proof -
  have "lower (strip ''acme'') = ''acme''" by code_simp
  then show ?thesis by (simp add: tenant_stored_def demo_root_tenant_def demo_tenant_row_def)
qed

lemma root_admin_same_accounts:
  assumes "root_admin env now cred s = (Inr u, s)" and "st_server (es_site t) = st_server (es_site s)"
  shows "root_admin env now cred t = (Inr u, t)"
proof -
  have "fst (root_admin env now cred x) = fst (require_superadmin (sn_auth (ev_site env)) now cred (st_server (es_site x)))" for x
    by (simp add: root_admin_def on_site_def on_server_def case_prod_beta)
  then have "fst (root_admin env now cred t) = Inr u" using assms by (metis fst_conv)
  then show ?thesis using root_admin_run [of env now cred t] by simp
qed

lemma offboard_rows_succeeds:
  assumes "filter (\<lambda>t. te_slug t = slug) (sd_tenants (st_db (es_site s))) = [t]" and "\<And>t. ev_flush env t = None"
  shows "\<exists>deleted s'. offboard_rows env now slug name mode actor s = (Inr deleted, s')"
proof -
  have t: "tenant_by_slug slug s = (Inr t, s)" by (simp add: tenant_by_slug_Inr assms(1))
  show ?thesis
    using assms(2)
    by (cases "sn_postgres (ev_site env)") (simp_all add: offboard_rows_def in_estate_def t delete_public_rows_def
      drop_schema_def drop_or_archive_def audit_internal_def on_site_def sd_modify_def on_server_def db_modify_def
      proc_simps ev_flushed_def sbind_app)
qed

lemma demo_offboarding: "\<exists>x s'. root_route demo_estate_env 10 (proxied []) demo_cred (OffboardTenant 7 ''archive'' True)
    demo_root_tenant = (Inr x, s')"
proof -
  have v: "validate_tenant_slug (VStr ''acme'') = Inr ''acme''" "tenant_schema_ok ''tenant_acme'' = Inr ()" by code_simp+
  have rows: "filter (\<lambda>t. te_slug t = ''acme'') (sd_tenants (st_db (es_site demo_root_tenant))) = [demo_tenant_row]"
      "filter (\<lambda>t. te_id t = 7) (sd_tenants (st_db (es_site demo_root_tenant))) = [demo_tenant_row]"
      "te_slug demo_tenant_row = ''acme''" "te_schema_name demo_tenant_row = ''tenant_acme''"
    by (simp_all add: demo_root_tenant_def demo_tenant_row_def)
  obtain deleted s' where o: "offboard_rows demo_estate_env 10 ''acme'' ''tenant_acme'' ''archive'' (Some (us_id demo_boss)) demo_root_tenant
      = (Inr deleted, s')"
    using offboard_rows_succeeds [OF rows(1)] demo_root_env(2) by blast
  have "\<exists>b. export_tenant demo_estate_env 10 (VStr ''acme'') True demo_root_tenant = (Inr (demo_tenant_row, b), demo_root_tenant)"
    by (simp add: export_tenant_def v sbind_app proc_simps Let_def tenant_by_slug_def rows scalar_one_or_none_def)
  then obtain b where b: "export_tenant demo_estate_env 10 (VStr ''acme'') True demo_root_tenant = (Inr (demo_tenant_row, b), demo_root_tenant)" ..
  have "root_admin demo_estate_env 10 demo_cred demo_root_tenant = (Inr demo_boss, demo_root_tenant)"
    by (rule root_admin_same_accounts [OF demo_root_admin]) (simp add: demo_root_tenant_def)
  then show ?thesis
    by (simp add: root_route_def mounted_def body_ok_def root_handler_def json_def offboard_tenant_route_def sbind_app
        load_tenant_def rows scalar_one_or_none_def proc_simps or_raise_def offboard_tenant_def v b o)
qed


lemma offboarded_tenant_is_closed_witness:
  "\<exists>s' :: estate. get_permissions demo_site_env True (user_principal demo_user)
     (Some \<lparr>tn_id = uuid_str 7, tn_slug = ''acme'', tn_name = None, tn_schema_name = Some ''tenant_acme''\<rparr>) (st_db (es_site s')) = Inr []"
proof -
  obtain x s' where r: "root_route demo_estate_env 10 (proxied []) demo_cred (OffboardTenant 7 ''archive'' True)
      demo_root_tenant = (Inr x, s')"
    using demo_offboarding by blast
  have "extract_slug (Some demo_tenant_config) demo_tenant_request = Some ''acme''" by code_simp
  then have slug: "extract_slug (Some demo_tenant_config) demo_tenant_request = Some (te_slug demo_tenant_row)"
    by (simp add: demo_tenant_row_def)
  show ?thesis
    by (rule exI, rule conjunct2 [OF offboarded_tenant_is_closed [OF r demo_stored slug, of 42]])
      (simp_all add: user_principal_def demo_user_def)
qed

section \<open>Anonymisation\<close>

lemma load_user_Inr: "load_user i s = (Inr u, s') \<longleftrightarrow> s' = s \<and> find_user i (sv_db (st_server (es_site s))) = Some u"
  by (auto simp: load_user_def sbind_Inr_iff split: option.splits)

lemma unusable_password_hash_Inr:
  assumes "on_site (unusable_password_hash env) s = (Inr hashed, s')"
  shows "\<exists>n. s' = s\<lparr>es_site := (es_site s)\<lparr>st_server := (st_server (es_site s))\<lparr>sv_drawn := n\<rparr>\<rparr>\<rparr>"
  using assms
  by (auto simp: unusable_password_hash_def Let_def on_site_Inr sbind_Inr_iff on_server_def draw_def)

lemma anonymize_endpoint_Inr:
  assumes "anonymize_user_endpoint env rq admin i s = (Inr x, s')"
  shows "i \<noteq> us_id admin \<and> (\<exists>u hashed s1 n changes. find_user i (sv_db (st_server (es_site s))) = Some u
    \<and> st_server (es_site s1) = map_audit (map (strip_actor i)) ((st_server (es_site s))
        \<lparr>sv_drawn := n, sv_db := set_user i (tombstone hashed) (sv_db (st_server (es_site s)))\<rparr>)
    \<and> root_audit env rq 200 ''user_anonymize'' admin None ''users'' i changes s1 = (Inr (), s'))"
proof -
  obtain u where u: "find_user i (sv_db (st_server (es_site s))) = Some u" "us_id u \<noteq> us_id admin"
    using assms by (auto simp: anonymize_user_endpoint_def sbind_Inr_iff load_user_Inr split: if_splits)
  then obtain redacted s0 s1 where run: "anonymize_user env u s = (Inr (), s0)"
      "anonymize_audit_actor i s0 = (Inr redacted, s1)"
      "root_audit env rq 200 ''user_anonymize'' admin None ''users'' i
         [(''user_id'', VStr (uuid_str i)), (''audit_rows_redacted'', VInt (int redacted))] s1 = (Inr (), s')"
    using assms by (auto simp: anonymize_user_endpoint_def sbind_Inr_iff load_user_Inr ev_flushed_Inr split: if_splits)
  have id: "us_id u = i" using find_user_id [OF u(1)] .
  obtain hashed t where a: "on_site (unusable_password_hash (ev_site env)) s = (Inr hashed, t)"
      "s0 = t\<lparr>es_site := (es_site t)\<lparr>st_server := (st_server (es_site t))
         \<lparr>sv_db := set_user i (tombstone hashed) (sv_db (st_server (es_site t)))\<rparr>\<rparr>\<rparr>"
    using run(1) id by (auto simp: anonymize_user_def sbind_Inr_iff on_site_Inr on_server_def db_modify_def proc_simps)
  obtain n where "t = s\<lparr>es_site := (es_site s)\<lparr>st_server := (st_server (es_site s))\<lparr>sv_drawn := n\<rparr>\<rparr>\<rparr>"
    using unusable_password_hash_Inr [OF a(1)] by blast
  then have "st_server (es_site s1) = map_audit (map (strip_actor i)) ((st_server (es_site s))
        \<lparr>sv_drawn := n, sv_db := set_user i (tombstone hashed) (sv_db (st_server (es_site s)))\<rparr>)"
    using run(2) a(2) by (auto simp: anonymize_audit_actor_def sbind_Inr_iff on_site_Inr on_server_def proc_simps)
  then show ?thesis using u id run(3) by blast
qed

lemma root_audit_server:
  assumes "root_audit env rq code action admin tid resource i changes s = (Inr (), s')"
  shows "st_server (es_site s') = st_server (es_site s)
    \<or> (\<exists>row. getattr row ''actor_user_id'' = coerce_actor_id (Some (user_principal admin))
        \<and> st_server (es_site s') = (st_server (es_site s))\<lparr>sv_db := (sv_db (st_server (es_site s)))
             \<lparr>db_audit := db_audit (sv_db (st_server (es_site s))) @ [row]\<rparr>\<rparr>)"
proof -
  define kw where "kw = (request_audit_kwargs rq code action (Some (user_principal admin)) (Some changes))
    \<lparr>ak_tenant_id := (case tid of None \<Rightarrow> VNone | Some i \<Rightarrow> VUuid i),
     ak_resource := VStr resource, ak_record_id := VUuid i\<rparr>"
  let ?v = "st_server (es_site s)" and ?row = "snd (audit_payload (en_pii (sn_auth (ev_site env))) kw)"
  have "getattr ?row ''actor_user_id'' = coerce_actor_id (Some (user_principal admin))"
    by (simp add: audit_payload_def Let_def kw_def request_audit_kwargs_def getattr_def)
  moreover have "st_server (es_site s') = snd (audit_in_session (sn_auth (ev_site env)) kw ?v)"
    using assms unfolding root_audit_def kw_def [symmetric]
    by (auto simp: on_site_Inr on_server_def split: prod.splits)
  moreover have "snd (audit_in_session (sn_auth (ev_site env)) kw ?v) \<in> {?v,
      ?v\<lparr>sv_db := (sv_db ?v)\<lparr>db_audit := db_audit (sv_db ?v) @ [?row]\<rparr>\<rparr>}"
    by (simp add: audit_in_session_def Let_def split: option.split)
  ultimately show ?thesis by auto
qed

lemma anonymize_state:
  assumes "root_route env now rq cred (AnonymizeUser i) s = (Inr x, s')"
  shows "\<exists>admin u hashed rows. superadmin_session env now cred s admin \<and> i \<noteq> us_id admin
    \<and> find_user i (sv_db (st_server (es_site s))) = Some u
    \<and> db_users (sv_db (st_server (es_site s'))) = map (\<lambda>u. if us_id u = i then tombstone hashed u else u)
        (db_users (sv_db (st_server (es_site s))))
    \<and> db_resets (sv_db (st_server (es_site s'))) = db_resets (sv_db (st_server (es_site s)))
    \<and> db_audit (sv_db (st_server (es_site s'))) = map (strip_actor i) (db_audit (sv_db (st_server (es_site s)))) @ rows
    \<and> (\<forall>r \<in> set rows. getattr r ''actor_user_id'' = coerce_actor_id (Some (user_principal admin)))
    \<and> sv_audit (st_server (es_site s')) = map (strip_actor i) (sv_audit (st_server (es_site s)))"
proof -
  obtain admin v where admin: "superadmin_session env now cred s admin"
      "anonymize_user_endpoint env rq admin i s = (Inr v, s')"
    using root_request_Inr [OF assms] by (auto simp: root_handler_def json_def sbind_Inr_iff in_estate_Inr)
  obtain u hashed s1 n changes where a: "i \<noteq> us_id admin" "find_user i (sv_db (st_server (es_site s))) = Some u"
      "st_server (es_site s1) = map_audit (map (strip_actor i)) ((st_server (es_site s))
        \<lparr>sv_drawn := n, sv_db := set_user i (tombstone hashed) (sv_db (st_server (es_site s)))\<rparr>)"
      "root_audit env rq 200 ''user_anonymize'' admin None ''users'' i changes s1 = (Inr (), s')"
    using anonymize_endpoint_Inr [OF admin(2)] by blast
  from root_audit_server [OF a(4)] show ?thesis
  proof
    assume "st_server (es_site s') = st_server (es_site s1)"
    then show ?thesis using admin(1) a(1,2)
      by (intro exI [of _ admin] exI [of _ u] exI [of _ hashed] exI [of _ "[]"])
        (simp add: a(3) map_audit_def set_user_def)
  next
    assume "\<exists>row. getattr row ''actor_user_id'' = coerce_actor_id (Some (user_principal admin))
        \<and> st_server (es_site s') = (st_server (es_site s1))\<lparr>sv_db := (sv_db (st_server (es_site s1)))
             \<lparr>db_audit := db_audit (sv_db (st_server (es_site s1))) @ [row]\<rparr>\<rparr>"
    then obtain row where "getattr row ''actor_user_id'' = coerce_actor_id (Some (user_principal admin))"
        "st_server (es_site s') = (st_server (es_site s1))\<lparr>sv_db := (sv_db (st_server (es_site s1)))
             \<lparr>db_audit := db_audit (sv_db (st_server (es_site s1))) @ [row]\<rparr>\<rparr>" by blast
    then show ?thesis using admin(1) a(1,2)
      by (intro exI [of _ admin] exI [of _ u] exI [of _ hashed] exI [of _ "[row]"])
        (simp add: a(3) map_audit_def set_user_def)
  qed
qed

lemma session_id_bound: "superadmin_session env now cred s u \<Longrightarrow> us_id u < 2 ^ 128"
  by (auto simp: superadmin_session_def Let_def token_claims_Inr dest: subject_bound)

lemma strip_actor_stripped:
  assumes "by_actor i (strip_actor i r)"
  shows "getattr (strip_actor i r) ''actor_label'' = VNone \<and> getattr (strip_actor i r) ''ip_address'' = VNone"
  using assms by (auto simp: strip_actor_def by_actor_def setattrs_def getattr_setattr)

lemma anonymize_succeeds:
  assumes "find_user i (sv_db (st_server (es_site s))) = Some u" and "i \<noteq> us_id admin" and "\<And>t. ev_flush env t = None"
  shows "\<exists>x s'. anonymize_user_endpoint env rq admin i s = (Inr x, s')"
proof -
  have id: "us_id u = i" using find_user_id [OF assms(1)] .
  have "\<exists>s0. anonymize_user env u s = (Inr (), s0)"
    by (simp add: anonymize_user_def unusable_password_hash_def Let_def on_site_def on_server_def draw_def
        db_modify_def sbind_app proc_simps)
  then obtain s0 where s0: "anonymize_user env u s = (Inr (), s0)" ..
  obtain redacted s1 where s1: "anonymize_audit_actor i s0 = (Inr redacted, s1)"
    by (simp add: anonymize_audit_actor_def on_site_def on_server_def sbind_app proc_simps)
  obtain v where "root_audit env rq 200 ''user_anonymize'' admin None ''users'' i
      [(''user_id'', VStr (uuid_str i)), (''audit_rows_redacted'', VInt (int redacted))] s1 = (Inr (), s1\<lparr>es_site := v\<rparr>)"
    using root_audit_run by blast
  moreover have "load_user i s = (Inr u, s)" by (simp add: load_user_Inr assms(1))
  ultimately show ?thesis
    using assms(2,3) id s0 s1 by (simp add: anonymize_user_endpoint_def sbind_app ev_flushed_def proc_simps)
qed

lemma demo_anonymize: "\<exists>x s'. root_route demo_estate_env 10 (proxied []) demo_cred (AnonymizeUser 43) demo_root = (Inr x, s')"
proof -
  have "find_user 43 (sv_db (st_server (es_site demo_root))) = Some demo_target" "43 \<noteq> us_id demo_boss"
    by (simp_all add: find_user_def demo_root_users demo_boss_def demo_target_def demo_user_def)
  from anonymize_succeeds [OF this demo_root_env(2), of "proxied []"] show ?thesis
    by (auto simp: root_route_def mounted_def body_ok_def root_handler_def json_def in_estate_def demo_root_admin
        sbind_app proc_simps)
qed


text \<open>Anonymisation leaves the reset and invite tokens of the account.  Whoever holds an unused one
  can still set a password with it, which makes the anonymised account active again.\<close>

theorem anonymised_account_can_be_revived:
  assumes "root_route env now rq cred (AnonymizeUser i) s = (Inr x, s')"
    and "find (\<lambda>r. rs_token_hash r = hash_token ae raw) (db_resets (sv_db (st_server (es_site s)))) = Some rt"
    and "rs_user_id rt = i" and "rs_used_at rt = None" and "t \<le> rs_expires_at rt"
    and "password_check ae pw = Inr ()" and "\<And>db. en_flush ae db = None"
  shows "\<exists>u. isr (fst (password_reset_confirm ae t rq' raw pw (st_server (es_site s'))))
    \<and> find_user i (sv_db (snd (password_reset_confirm ae t rq' raw pw (st_server (es_site s'))))) = Some u
    \<and> us_is_active u"
proof -
  let ?v = "st_server (es_site s')"
  obtain u hashed where u: "find_user i (sv_db (st_server (es_site s))) = Some u"
      "db_users (sv_db ?v) = map (\<lambda>u. if us_id u = i then tombstone hashed u else u) (db_users (sv_db (st_server (es_site s))))"
      "db_resets (sv_db ?v) = db_resets (sv_db (st_server (es_site s)))"
    using anonymize_state [OF assms(1)] by blast
  have "find_user i (sv_db ?v) = map_option (\<lambda>u. if us_id u = i then tombstone hashed u else u)
      (find_user i (sv_db (st_server (es_site s))))"
    unfolding find_user_def u(2) by (rule find_map_same) (simp add: tombstone_def)
  then obtain w where w: "find_user i (sv_db ?v) = Some w" using u(1) by auto
  then have "fst (consume_password_reset ae t raw ?v) = Inr (Some w)"
    using assms(2-5,7) u(3) by (simp add: consume_password_reset_def sbind_app proc_simps db_modify_def db_flush_def)
  then obtain v1 where "consume_password_reset ae t raw ?v = (Inr (Some w), v1)"
    by (metis prod.collapse)
  from reset_confirm_succeeds [OF assms(6) this assms(7)]
  have ok: "isr (fst (password_reset_confirm ae t rq' raw pw ?v))" .
  then obtain m v' where m: "password_reset_confirm ae t rq' raw pw ?v = (Inr m, v')" by (auto simp: isr_run)
  have "us_id w = i" using find_user_id [OF w] .
  then show ?thesis
    using reset_confirm_steps [OF m] ok m assms(2,3) u(3) w by (auto simp: bump_version_def)
qed

definition demo_reset_root :: estate where
  "demo_reset_root = demo_root\<lparr>es_site := (es_site demo_root)\<lparr>st_server := (st_server (es_site demo_root))\<lparr>sv_db :=
    (sv_db (st_server (es_site demo_root)))\<lparr>db_resets := [\<lparr>rs_token_hash = ''raw'', rs_user_id = 43,
      rs_expires_at = 1800, rs_used_at = None\<rparr>]\<rparr>\<rparr>\<rparr>\<rparr>"

lemma anonymised_account_can_be_revived_witness:
  "\<exists>(v :: server) (u :: user). find_user 43 (sv_db v) = Some u \<and> us_is_active u"
proof -
  have "find_user 43 (sv_db (st_server (es_site demo_reset_root))) = Some demo_target" "43 \<noteq> us_id demo_boss"
    by (simp_all add: find_user_def demo_reset_root_def demo_root_users demo_boss_def demo_target_def demo_user_def)
  from anonymize_succeeds [OF this demo_root_env(2), of "proxied []"]
  obtain x s' where a: "anonymize_user_endpoint demo_estate_env (proxied []) demo_boss 43 demo_reset_root = (Inr x, s')" by blast
  have live: "live_token (sv_db (st_server (es_site demo_reset_root))) 42 3 (uuid_str 7) demo_boss"
    by (simp add: live_token_def find_user_def demo_reset_root_def demo_root_def demo_server_def demo_boss_def demo_user_def)
  have "root_admin demo_estate_env 10 demo_cred demo_reset_root = (Inr demo_boss, demo_reset_root)"
    using root_admin_succeeds [of demo_estate_env 10 demo_access "fst demo_access", OF _ live] demo_access_claims(1)
    by (simp add: demo_cred_def demo_root_env demo_boss_def demo_normal)
  then have run: "root_route demo_estate_env 10 (proxied []) demo_cred (AnonymizeUser 43) demo_reset_root = (Inr (Json x), s')"
    using a by (simp add: root_route_def mounted_def body_ok_def root_handler_def json_def in_estate_def
        sbind_app proc_simps)
  have "password_check demo_auth ''long enough'' = Inr ()" by code_simp
  moreover have "hash_token demo_auth ''raw'' = ''raw''" by code_simp
  ultimately show ?thesis
    using anonymised_account_can_be_revived [OF run, where ae = demo_auth and raw = "''raw''" and t = 20
        and pw = "''long enough''" and rq' = "proxied []"] by (auto simp: demo_flush demo_reset_root_def)
qed

end
