(* ===== verification/Retention.thy ===== *)
theory Retention
  imports Governance
begin

text \<open>
  Retention: \<open>src/asterion/privacy/retention.py\<close>.  The audit table of a tenant lives in its schema,
  and is gone with it.  The state adds these tables and the column \<open>users.deactivated_at\<close> to the
  estate; \<open>rn_instant\<close> reads a row's \<open>created_at\<close> as an instant in seconds.
\<close>

record retention_state =
  rs_estate :: estate
  rs_deactivated :: "(nat \<times> int) list"
  rs_tenant_audit :: "(string \<times> row list) list"

record 't retention_env =
  rn_estate :: "'t estate_env"
  rn_instant :: "pyval \<Rightarrow> int"

type_synonym 'a retaining = "(retention_state, 'a) proc"

definition in_retention :: "'a governed \<Rightarrow> 'a retaining" where
  "in_retention m = (\<lambda>s. case m (rs_estate s) of (r, v) \<Rightarrow> (r, s\<lparr>rs_estate := v\<rparr>))"

text \<open>\<open>session.begin()\<close>: an exception rolls the tables back.\<close>

definition retention_transaction :: "'a retaining \<Rightarrow> 'a retaining" where
  "retention_transaction m = (\<lambda>s. case m s of
     (Inl e, s') \<Rightarrow> (Inl e, s\<lparr>rs_estate := rolled_back (rs_estate s) (rs_estate s')\<rparr>)
   | (Inr x, s') \<Rightarrow> (Inr x, s'))"

section \<open>Pruning\<close>

definition retention_cutoff :: "int \<Rightarrow> int \<Rightarrow> int" where
  "retention_cutoff retention_days now = now - retention_days * (24 * 60 * 60)"

definition older :: "'t retention_env \<Rightarrow> int \<Rightarrow> row \<Rightarrow> bool" where
  "older env cutoff r = (rn_instant env (getattr r ''created_at'') < cutoff)"

text \<open>\<open>DELETE ... WHERE created_at < cutoff\<close>, with its row count.\<close>

definition prune :: "'t retention_env \<Rightarrow> int \<Rightarrow> row list \<Rightarrow> row list \<times> nat" where
  "prune env cutoff rows = (filter (\<lambda>r. \<not> older env cutoff r) rows, length (filter (older env cutoff) rows))"

definition prune_public_audit :: "'t retention_env \<Rightarrow> int \<Rightarrow> nat retaining" where
  "prune_public_audit env cutoff = in_retention (on_site (on_server (
     sbind (gets (\<lambda>v. snd (prune env cutoff (audit_rows v)))) (\<lambda>n.
     sbind (modify (map_audit (\<lambda>rows. fst (prune env cutoff rows)))) (\<lambda>_. ret n)))))"

text \<open>The schema a search path finds the audit table of a tenant in.\<close>

definition tenant_audit_schema :: "'t retention_env \<Rightarrow> string list \<Rightarrow> retention_state \<Rightarrow> string option" where
  "tenant_audit_schema env path s = find (\<lambda>n. map_of (sd_schemas (st_db (es_site (rs_estate s)))) n \<noteq> None
       \<and> map_of (rs_tenant_audit s) n \<noteq> None)
     (if sn_postgres (ev_site (rn_estate env)) then path else [''main''])"

text \<open>A statement over the audit table of a tenant: what it answers and what it leaves.\<close>

definition on_tenant_audit ::
    "'t retention_env \<Rightarrow> string list \<Rightarrow> (row list \<Rightarrow> row list \<times> nat) \<Rightarrow> nat retaining" where
  "on_tenant_audit env path f = (\<lambda>s. case tenant_audit_schema env path s of
     None \<Rightarrow> (Inl undefined_table, s)
   | Some n \<Rightarrow> (case f (the (map_of (rs_tenant_audit s) n)) of (rows, count) \<Rightarrow>
       (Inr count, s\<lparr>rs_tenant_audit := AList.update n rows (rs_tenant_audit s)\<rparr>)))"

definition prune_tenant_audit :: "'t retention_env \<Rightarrow> string list \<Rightarrow> int \<Rightarrow> nat retaining" where
  "prune_tenant_audit env path cutoff = on_tenant_audit env path (prune env cutoff)"

definition anonymize_tenant_audit_actor :: "'t retention_env \<Rightarrow> string list \<Rightarrow> nat \<Rightarrow> nat retaining" where
  "anonymize_tenant_audit_actor env path i =
     on_tenant_audit env path (\<lambda>rows. (map (strip_actor i) rows, length (filter (by_actor i) rows)))"

section \<open>Anonymising accounts\<close>

definition expired_account :: "int \<Rightarrow> retention_state \<Rightarrow> user \<Rightarrow> bool" where
  "expired_account cutoff s u = (\<not> us_is_active u
     \<and> (case map_of (rs_deactivated s) (us_id u) of None \<Rightarrow> False | Some t \<Rightarrow> t < cutoff)
     \<and> \<not> endswith (us_email u) (''@'' @ ANONYMIZED_EMAIL_DOMAIN))"

fun anonymize_each :: "'t retention_env \<Rightarrow> user list \<Rightarrow> nat list retaining" where
  "anonymize_each env [] = ret []"
| "anonymize_each env (u # us) =
     sbind (in_retention (anonymize_user (rn_estate env) u)) (\<lambda>_.
     sbind (in_retention (anonymize_audit_actor (us_id u))) (\<lambda>_.
     sbind (anonymize_each env us) (\<lambda>ids. ret (us_id u # ids))))"

definition anonymize_expired_users :: "'t retention_env \<Rightarrow> int \<Rightarrow> nat list retaining" where
  "anonymize_expired_users env cutoff = retention_transaction (
     sbind (gets (\<lambda>s. filter (expired_account cutoff s) (db_users (sv_db (st_server (es_site (rs_estate s)))))))
       (anonymize_each env))"

section \<open>The run\<close>

fun redact_each :: "'t retention_env \<Rightarrow> string list \<Rightarrow> nat list \<Rightarrow> unit retaining" where
  "redact_each env path [] = ret ()"
| "redact_each env path (i # is) =
     sbind (anonymize_tenant_audit_actor env path i) (\<lambda>_. redact_each env path is)"

definition sweep_tenant :: "'t retention_env \<Rightarrow> int \<Rightarrow> nat list \<Rightarrow> string \<Rightarrow> nat retaining" where
  "sweep_tenant env cutoff ids schema_name = retention_transaction (case set_search_path schema_name [''public''] of
     (Inl e, _) \<Rightarrow> throw e
   | (Inr _, path) \<Rightarrow>
       sbind (prune_tenant_audit env path cutoff) (\<lambda>n.
       sbind (redact_each env path ids) (\<lambda>_. ret n)))"

type_synonym counts = "(string \<times> nat) list"

fun sweep_tenants :: "'t retention_env \<Rightarrow> int \<Rightarrow> nat list \<Rightarrow> (string \<times> string) list \<Rightarrow> counts \<Rightarrow> counts retaining" where
  "sweep_tenants env cutoff ids [] results = ret results"
| "sweep_tenants env cutoff ids ((slug, schema_name) # ts) results =
     sbind (sweep_tenant env cutoff ids schema_name) (\<lambda>n.
     sweep_tenants env cutoff ids ts (AList.update slug n results))"

definition apply_retention ::
    "'t retention_env \<Rightarrow> int \<Rightarrow> bool \<Rightarrow> int option \<Rightarrow> int \<Rightarrow> counts retaining" where
  "apply_retention env retention_days all_tenants user_anonymize_after_days now =
    (let cutoff = retention_cutoff retention_days now in
     sbind (retention_transaction (prune_public_audit env cutoff)) (\<lambda>public.
     sbind (case user_anonymize_after_days of
         None \<Rightarrow> ret ([], [(''public'', public)])
       | Some days \<Rightarrow> sbind (anonymize_expired_users env (retention_cutoff days now)) (\<lambda>ids.
           ret (ids, AList.update ''anonymized_users'' (length ids) [(''public'', public)]))) (\<lambda>(ids, results).
     if \<not> all_tenants \<or> \<not> sn_postgres (ev_site (rn_estate env)) then ret results
     else sbind (gets (\<lambda>s. map (\<lambda>t. (te_slug t, te_schema_name t)) (sd_tenants (st_db (es_site (rs_estate s)))))) (\<lambda>tenants.
       sweep_tenants env cutoff ids tenants results))))"

section \<open>What a statement leaves\<close>

lemma in_retention_Inr: "in_retention m s = (Inr x, s') \<longleftrightarrow>
    (\<exists>v. m (rs_estate s) = (Inr x, v) \<and> s' = s\<lparr>rs_estate := v\<rparr>)"
  by (auto simp: in_retention_def split: prod.splits)

lemma retention_transaction_Inr: "retention_transaction m s = (Inr x, s') \<longleftrightarrow> m s = (Inr x, s')"
  by (auto simp: retention_transaction_def split: prod.splits sum.splits)

abbreviation public_audit :: "retention_state \<Rightarrow> row list" where
  "public_audit s \<equiv> audit_rows (st_server (es_site (rs_estate s)))"

abbreviation all_users :: "retention_state \<Rightarrow> user list" where
  "all_users s \<equiv> db_users (sv_db (st_server (es_site (rs_estate s))))"

abbreviation all_tenants :: "retention_state \<Rightarrow> tenant_row list" where
  "all_tenants s \<equiv> sd_tenants (st_db (es_site (rs_estate s)))"

text \<open>The parts of the state that the accounts and the audit trail are not among.\<close>

definition apart :: "retention_state \<Rightarrow> retention_state \<Rightarrow> bool" where
  "apart s s' \<longleftrightarrow> st_db (es_site (rs_estate s')) = st_db (es_site (rs_estate s))
     \<and> rs_deactivated s' = rs_deactivated s \<and> rs_tenant_audit s' = rs_tenant_audit s"

lemma audit_rows_map [simp]: "audit_rows (map_audit (map f) v) = map f (audit_rows v)"
  "audit_rows (map_audit (\<lambda>rows. fst (prune env c rows)) v) = filter (\<lambda>r. \<not> older env c r) (audit_rows v)"
  by (simp_all add: audit_rows_def map_audit_def prune_def)

lemma prune_public_Inr:
  "prune_public_audit env c s = (Inr n, s') \<Longrightarrow> public_audit s' = filter (\<lambda>r. \<not> older env c r) (public_audit s)
     \<and> n = length (filter (older env c) (public_audit s)) \<and> all_users s' = all_users s \<and> apart s s'"
  by (auto simp: prune_public_audit_def in_retention_Inr on_site_Inr on_server_Inr sbind_Inr_iff apart_def)
    (simp_all add: map_audit_def prune_def)

lemma anonymize_user_Inr:
  assumes "anonymize_user env u s = (Inr (), s')"
  shows "\<exists>hashed. db_users (sv_db (st_server (es_site s')))
      = map (\<lambda>v. if us_id v = us_id u then tombstone hashed v else v) (db_users (sv_db (st_server (es_site s))))
    \<and> audit_rows (st_server (es_site s')) = audit_rows (st_server (es_site s)) \<and> st_db (es_site s') = st_db (es_site s)"
proof -
  obtain hashed t where a: "on_site (unusable_password_hash (ev_site env)) s = (Inr hashed, t)"
      "s' = t\<lparr>es_site := (es_site t)\<lparr>st_server := (st_server (es_site t))
         \<lparr>sv_db := set_user (us_id u) (tombstone hashed) (sv_db (st_server (es_site t)))\<rparr>\<rparr>\<rparr>"
    using assms by (auto simp: anonymize_user_def sbind_Inr_iff on_site_Inr on_server_def db_modify_def proc_simps)
  obtain n where "t = s\<lparr>es_site := (es_site s)\<lparr>st_server := (st_server (es_site s))\<lparr>sv_drawn := n\<rparr>\<rparr>\<rparr>"
    using unusable_password_hash_Inr [OF a(1)] by blast
  then show ?thesis using a(2) by (auto simp: set_user_def audit_rows_def)
qed

lemma anonymize_each_Inr:
  assumes "anonymize_each env us s = (Inr ids, s')"
  shows "ids = map us_id us \<and> public_audit s' = map (fold strip_actor ids) (public_audit s) \<and> apart s s'
    \<and> (\<forall>v \<in> set (all_users s'). (v \<in> set (all_users s) \<and> us_id v \<notin> set ids)
        \<or> (\<exists>i. us_email v = anonymized_email i))"
  using assms
proof (induction us arbitrary: s ids)
  case Nil
  then show ?case by (auto simp: apart_def)
next
  case (Cons u us)
  obtain s1 s2 n rest where r: "in_retention (anonymize_user (rn_estate env) u) s = (Inr (), s1)"
    "in_retention (anonymize_audit_actor (us_id u)) s1 = (Inr n, s2)" "anonymize_each env us s2 = (Inr rest, s')"
    "ids = us_id u # rest"
    using Cons.prems by (auto simp: sbind_Inr_iff)
  obtain v1 where v1: "anonymize_user (rn_estate env) u (rs_estate s) = (Inr (), v1)" "s1 = s\<lparr>rs_estate := v1\<rparr>"
    using r(1) by (auto simp: in_retention_Inr)
  obtain hashed where h: "all_users s1 = map (\<lambda>v. if us_id v = us_id u then tombstone hashed v else v) (all_users s)"
    "public_audit s1 = public_audit s" "apart s s1"
    using anonymize_user_Inr [OF v1(1)] v1(2) by (auto simp: apart_def)
  have a: "public_audit s2 = map (strip_actor (us_id u)) (public_audit s1)" "all_users s2 = all_users s1" "apart s1 s2"
    using r(2) by (auto simp: anonymize_audit_actor_def in_retention_Inr on_site_Inr on_server_Inr sbind_Inr_iff apart_def
      map_audit_def audit_rows_def)
  note ih = Cons.IH [OF r(3)]
  have t: "us_email (tombstone hashed v) = anonymized_email (us_id v)" for v by (simp add: tombstone_def)
  have "(v \<in> set (all_users s) \<and> us_id v \<notin> set ids) \<or> (\<exists>i. us_email v = anonymized_email i)"
    if v: "v \<in> set (all_users s')" for v
  proof (cases "\<exists>i. us_email v = anonymized_email i")
    case False
    then have "v \<in> set (all_users s2)" "us_id v \<notin> set rest" using ih v by auto
    moreover from this obtain w where w: "w \<in> set (all_users s)" "v = (if us_id w = us_id u then tombstone hashed w else w)"
      using a(2) h(1) by auto
    moreover have "us_id w \<noteq> us_id u" using False w(2) t by metis
    ultimately show ?thesis using r(4) by auto
  qed simp
  then show ?case using ih a h r(4) by (auto simp: apart_def)
qed

lemma set_search_path_run: "set_search_path n p = (Inr (), path) \<Longrightarrow> path = [n, ''public'']"
  by (auto simp: set_search_path_def res_simps)

lemma on_tenant_audit_Inr:
  assumes "on_tenant_audit env [n, ''public''] f s = (Inr c, s')" "sn_postgres (ev_site (rn_estate env))"
    and "map_of (rs_tenant_audit s) ''public'' = None"
  obtains rows where "map_of (rs_tenant_audit s) n = Some rows" "c = snd (f rows)"
    "s' = s\<lparr>rs_tenant_audit := AList.update n (fst (f rows)) (rs_tenant_audit s)\<rparr>"
    "map_of (sd_schemas (st_db (es_site (rs_estate s)))) n \<noteq> None"
  using assms by (auto simp: on_tenant_audit_def tenant_audit_schema_def split: option.splits prod.splits if_splits)

text \<open>The audit table of one schema is what \<open>f\<close> makes of it, and nothing else changed.\<close>

definition only_table :: "string \<Rightarrow> (row list \<Rightarrow> row list) \<Rightarrow> retention_state \<Rightarrow> retention_state \<Rightarrow> bool" where
  "only_table n f s s' \<longleftrightarrow> rs_estate s' = rs_estate s \<and> rs_deactivated s' = rs_deactivated s
    \<and> map_of (rs_tenant_audit s') = (map_of (rs_tenant_audit s))(n := map_option f (map_of (rs_tenant_audit s) n))"

lemma redact_each_Inr:
  assumes "redact_each env [n, ''public''] ids s = (Inr (), s')" "sn_postgres (ev_site (rn_estate env))"
    and "map_of (rs_tenant_audit s) ''public'' = None"
  shows "only_table n (map (fold strip_actor ids)) s s'"
  using assms
proof (induction ids arbitrary: s)
  case Nil
  then show ?case by (auto simp: only_table_def fun_eq_iff option.map_id0 [unfolded id_def] intro!: ext)
next
  case (Cons i ids)
  obtain c s1 where r: "anonymize_tenant_audit_actor env [n, ''public''] i s = (Inr c, s1)"
    "redact_each env [n, ''public''] ids s1 = (Inr (), s')"
    using Cons.prems(1) by (auto simp: sbind_Inr_iff)
  obtain rows where t: "map_of (rs_tenant_audit s) n = Some rows"
    "s1 = s\<lparr>rs_tenant_audit := AList.update n (map (strip_actor i) rows) (rs_tenant_audit s)\<rparr>"
    by (rule on_tenant_audit_Inr [OF r(1) [unfolded anonymize_tenant_audit_actor_def] Cons.prems(2,3)]) simp
  have "n \<noteq> ''public''" using t(1) Cons.prems(3) by auto
  then have "map_of (rs_tenant_audit s1) ''public'' = None" using t(2) Cons.prems(3) by (simp add: update_conv')
  from Cons.IH [OF r(2) Cons.prems(2) this] show ?case using t by (auto simp: only_table_def update_conv' fun_eq_iff)
qed

lemma sweep_tenant_Inr:
  assumes "sweep_tenant env c ids n s = (Inr k, s')" "sn_postgres (ev_site (rn_estate env))"
    and "map_of (rs_tenant_audit s) ''public'' = None"
  shows "only_table n (\<lambda>rows. map (fold strip_actor ids) (filter (\<lambda>r. \<not> older env c r) rows)) s s'
    \<and> map_of (rs_tenant_audit s) n \<noteq> None \<and> map_of (sd_schemas (st_db (es_site (rs_estate s)))) n \<noteq> None"
proof -
  obtain path where p: "set_search_path n [''public''] = (Inr (), path)"
    using assms(1) by (auto simp: sweep_tenant_def retention_transaction_Inr split: prod.splits sum.splits)
  note [simp] = set_search_path_run [OF p]
  obtain s1 where r: "prune_tenant_audit env [n, ''public''] c s = (Inr k, s1)" "redact_each env [n, ''public''] ids s1 = (Inr (), s')"
    using assms(1) p by (auto simp: sweep_tenant_def retention_transaction_Inr sbind_Inr_iff)
  obtain rows where t: "map_of (rs_tenant_audit s) n = Some rows"
    "s1 = s\<lparr>rs_tenant_audit := AList.update n (filter (\<lambda>r. \<not> older env c r) rows) (rs_tenant_audit s)\<rparr>"
    "map_of (sd_schemas (st_db (es_site (rs_estate s)))) n \<noteq> None"
    by (rule on_tenant_audit_Inr [OF r(1) [unfolded prune_tenant_audit_def] assms(2,3)]) (simp add: prune_def)
  have "n \<noteq> ''public''" using t(1) assms(3) by auto
  then have "map_of (rs_tenant_audit s1) ''public'' = None" using t(2) assms(3) by (simp add: update_conv')
  from redact_each_Inr [OF r(2) assms(2) this] show ?thesis
    using t by (auto simp: only_table_def update_conv' fun_eq_iff)
qed

lemma sweep_tenants_Inr:
  assumes "sweep_tenants env c ids ts results s = (Inr out, s')" "sn_postgres (ev_site (rn_estate env))"
    and "map_of (rs_tenant_audit s) ''public'' = None"
  shows "rs_estate s' = rs_estate s \<and> rs_deactivated s' = rs_deactivated s
    \<and> (\<forall>t \<in> set ts. map_of (sd_schemas (st_db (es_site (rs_estate s)))) (snd t) \<noteq> None)
    \<and> (\<forall>t \<in> set ts. map_of (rs_tenant_audit s) (snd t) \<noteq> None)
    \<and> (\<forall>n. n \<notin> snd ` set ts \<longrightarrow> map_of (rs_tenant_audit s') n = map_of (rs_tenant_audit s) n)
    \<and> (distinct (map snd ts) \<longrightarrow> (\<forall>t \<in> set ts. map_of (rs_tenant_audit s') (snd t)
        = map_option (\<lambda>rows. map (fold strip_actor ids) (filter (\<lambda>r. \<not> older env c r) rows)) (map_of (rs_tenant_audit s) (snd t))))"
  using assms
proof (induction ts arbitrary: results s)
  case (Cons t ts)
  obtain slug n where t [simp]: "t = (slug, n)" by (cases t)
  obtain k s1 where r: "sweep_tenant env c ids n s = (Inr k, s1)"
    "sweep_tenants env c ids ts (AList.update slug k results) s1 = (Inr out, s')"
    using Cons.prems(1) by (auto simp: sbind_Inr_iff)
  note o = sweep_tenant_Inr [OF r(1) Cons.prems(2,3)]
  then have "map_of (rs_tenant_audit s1) ''public'' = None" using Cons.prems(3) by (auto simp: only_table_def)
  note ih = Cons.IH [OF r(2) Cons.prems(2) this]
  show ?case using ih o by (auto simp: only_table_def split: if_splits)
qed simp

text \<open>The accounts a run anonymises, and what it makes of a table of the audit trail.\<close>

definition retired_accounts :: "int option \<Rightarrow> int \<Rightarrow> retention_state \<Rightarrow> nat list" where
  "retired_accounts after now s = (case after of None \<Rightarrow> []
     | Some d \<Rightarrow> map us_id (filter (expired_account (retention_cutoff d now) s)
         (db_users (sv_db (st_server (es_site (rs_estate s)))))))"

definition retained :: "'t retention_env \<Rightarrow> int \<Rightarrow> nat list \<Rightarrow> row list \<Rightarrow> row list" where
  "retained env cutoff ids rows = map (fold strip_actor ids) (filter (\<lambda>r. \<not> older env cutoff r) rows)"

lemma fold_Nil_id: "fold f [] = (\<lambda>x. x)"
  by (simp add: fun_eq_iff)

lemma anonymized_email_domain: "endswith (anonymized_email i) (''@'' @ ANONYMIZED_EMAIL_DOMAIN)"
proof -
  have "startswith (a @ b) a" for a b :: string by (induction a) auto
  from this [of "rev (''@'' @ ANONYMIZED_EMAIL_DOMAIN)" "rev (''anonymized-'' @ uuid_str i)"] show ?thesis
    unfolding endswith_def anonymized_email_def by (simp only: rev_append append_assoc)
qed

lemma run_before_sweep:
  assumes "apply_retention env days True after now s = (Inr results, s')" "sn_postgres (ev_site (rn_estate env))"
  obtains s2 counts where
    "sweep_tenants env (retention_cutoff days now) (retired_accounts after now s)
       (map (\<lambda>t. (te_slug t, te_schema_name t)) (all_tenants s)) counts s2 = (Inr results, s')"
    "public_audit s2 = retained env (retention_cutoff days now) (retired_accounts after now s) (public_audit s)" "apart s s2"
    "\<And>d. after = Some d \<Longrightarrow> filter (expired_account (retention_cutoff d now) s) (all_users s2) = []"
proof -
  obtain public s1 ids counts s2 where r: "prune_public_audit env (retention_cutoff days now) s = (Inr public, s1)"
    "(case after of None \<Rightarrow> ret ([], [(''public'', public)])
       | Some d \<Rightarrow> sbind (anonymize_expired_users env (retention_cutoff d now)) (\<lambda>ids.
           ret (ids, AList.update ''anonymized_users'' (length ids) [(''public'', public)]))) s1 = (Inr (ids, counts), s2)"
    "sweep_tenants env (retention_cutoff days now) ids (map (\<lambda>t. (te_slug t, te_schema_name t)) (all_tenants s2)) counts s2
       = (Inr results, s')"
    using assms by (auto simp: apply_retention_def Let_def sbind_Inr_iff retention_transaction_Inr split: prod.splits)
  note p = prune_public_Inr [OF r(1)]
  have "ids = retired_accounts after now s \<and> apart s1 s2 \<and> public_audit s2 = map (fold strip_actor ids) (public_audit s1)
    \<and> (\<forall>d. after = Some d \<longrightarrow> filter (expired_account (retention_cutoff d now) s) (all_users s2) = [])"
  proof (cases after)
    case None
    then show ?thesis using r(2) by (auto simp: retired_accounts_def apart_def fold_Nil_id)
  next
    case (Some d)
    then obtain us where us: "us = filter (expired_account (retention_cutoff d now) s1) (all_users s1)"
      "anonymize_each env us s1 = (Inr ids, s2)"
      using r(2) by (auto simp: anonymize_expired_users_def sbind_Inr_iff retention_transaction_Inr)
    note a = anonymize_each_Inr [OF us(2)]
    have e: "expired_account (retention_cutoff d now) s1 = expired_account (retention_cutoff d now) s"
      using p by (simp add: fun_eq_iff expired_account_def apart_def)
    have "\<not> expired_account (retention_cutoff d now) s v" if v: "v \<in> set (all_users s2)" for v
    proof (cases "\<exists>i. us_email v = anonymized_email i")
      case True
      then show ?thesis using anonymized_email_domain by (auto simp: expired_account_def)
    next
      case False
      then have "v \<in> set (all_users s1)" "us_id v \<notin> set (map us_id us)" using a v by auto
      then have "v \<notin> set us" by auto
      then show ?thesis using \<open>v \<in> set (all_users s1)\<close> us(1) e by auto
    qed
    then show ?thesis using a us(1) e p Some by (auto simp: retired_accounts_def filter_empty_conv)
  qed
  then show ?thesis using that [of counts s2] r(3) p by (auto simp: apart_def retained_def)
qed

text \<open>C17: A run of the retention job over all tenants that completes leaves exactly the audit rows that are
  not older than the cutoff, in the public table and in the one of every tenant, with the personal data
  of the accounts it anonymised taken out; the tables of other schemas are as they were.  No account is
  left that the same run would have to anonymise.\<close>

theorem retention_keeps_exactly_the_young:
  assumes "apply_retention env days True after now s = (Inr results, s')" "sn_postgres (ev_site (rn_estate env))"
    and "map_of (rs_tenant_audit s) ''public'' = None" "ts = sd_tenants (st_db (es_site (rs_estate s)))"
    and "distinct (map te_schema_name ts)" "ids = retired_accounts after now s" "c = retention_cutoff days now"
  shows "audit_rows (st_server (es_site (rs_estate s'))) = retained env c ids (audit_rows (st_server (es_site (rs_estate s))))
    \<and> (\<forall>t \<in> set ts. \<exists>rows. map_of (rs_tenant_audit s) (te_schema_name t) = Some rows
        \<and> map_of (rs_tenant_audit s') (te_schema_name t) = Some (retained env c ids rows))
    \<and> (\<forall>n. n \<notin> te_schema_name ` set ts \<longrightarrow> map_of (rs_tenant_audit s') n = map_of (rs_tenant_audit s) n)
    \<and> retired_accounts after now s' = []"
proof -
  obtain s2 counts where r: "sweep_tenants env c ids (map (\<lambda>t. (te_slug t, te_schema_name t)) ts) counts s2 = (Inr results, s')"
    "public_audit s2 = retained env c ids (public_audit s)" "apart s s2"
    "\<And>d. after = Some d \<Longrightarrow> filter (expired_account (retention_cutoff d now) s) (all_users s2) = []"
    by (rule run_before_sweep [OF assms(1,2)]) (use assms(4,6,7) in auto)
  have p: "map_of (rs_tenant_audit s2) ''public'' = None" "rs_tenant_audit s2 = rs_tenant_audit s"
    using r(3) assms(3) by (simp_all add: apart_def)
  note w = sweep_tenants_Inr [OF r(1) assms(2) p(1)]
  have names: "map snd (map (\<lambda>t. (te_slug t, te_schema_name t)) ts) = map te_schema_name ts"
    "snd ` set (map (\<lambda>t. (te_slug t, te_schema_name t)) ts) = te_schema_name ` set ts" by (auto simp: image_iff)
  have e: "expired_account c' s' = expired_account c' s" for c'
    using r(3) w by (simp add: fun_eq_iff expired_account_def apart_def)
  have "retired_accounts after now s' = []"
    using r(4) w by (cases after) (simp_all add: retired_accounts_def e)
  moreover have "\<exists>rows. map_of (rs_tenant_audit s) (te_schema_name t) = Some rows
        \<and> map_of (rs_tenant_audit s') (te_schema_name t) = Some (retained env c ids rows)" if "t \<in> set ts" for t
    using w that assms(5) p(2) unfolding names by (force simp: retained_def)
  moreover have "\<forall>n. n \<notin> te_schema_name ` set ts \<longrightarrow> map_of (rs_tenant_audit s') n = map_of (rs_tenant_audit s) n"
    using w p(2) unfolding names by simp
  ultimately show ?thesis using r(2) w by simp
qed

text \<open>C18: One archived tenant stops the retention job.  Offboarding in its default mode drops the schema of
  the tenant and keeps its row; every later run over all tenants meets the missing table and raises,
  so the tenants after it are never pruned.\<close>

theorem archived_tenant_stops_retention:
  assumes "root_route (rn_estate env) t rq cred (OffboardTenant i ''archive'' dump) v = (Inr x, v')"
    and "tenant_stored v i row" "sn_postgres (ev_site (rn_estate env))"
    and "rs_estate s = v'" "map_of (rs_tenant_audit s) ''public'' = None"
  shows "\<exists>e. fst (apply_retention env days True after now s) = Inl e"
proof (rule ccontr)
  assume "\<nexists>e. fst (apply_retention env days True after now s) = Inl e"
  then obtain results s' where run: "apply_retention env days True after now s = (Inr results, s')"
    by (metis old.sum.exhaust prod.collapse)
  obtain s2 counts where r: "sweep_tenants env (retention_cutoff days now) (retired_accounts after now s)
       (map (\<lambda>t. (te_slug t, te_schema_name t)) (all_tenants s)) counts s2 = (Inr results, s')" "apart s s2"
    by (rule run_before_sweep [OF run assms(3)])
  have st: "sd_schemas (st_db (es_site v')) = filter (\<lambda>e. fst e \<noteq> te_schema_name row) (sd_schemas (st_db (es_site v)))"
    "sd_tenants (st_db (es_site v')) = tenants_after t ''archive'' i (sd_tenants (st_db (es_site v)))"
    using offboard_state [OF assms(1,2)] assms(3) by auto
  have "row \<in> set (sd_tenants (st_db (es_site v)))"
    using assms(2) by (auto simp: tenant_stored_def filter_eq_Cons_iff)
  moreover have "map te_schema_name (tenants_after t ''archive'' i us) = map te_schema_name us" for us
    by (induction us) (auto simp: tenants_after_def)
  then have "te_schema_name ` set (tenants_after t ''archive'' i us) = te_schema_name ` set us" for us
    by (metis list.set_map)
  ultimately have "te_schema_name row \<in> te_schema_name ` set (all_tenants s)"
    by (simp add: st(2) assms(4))
  then have "map_of (sd_schemas (st_db (es_site (rs_estate s2)))) (te_schema_name row) \<noteq> None"
    using sweep_tenants_Inr [OF r(1) assms(3)] r(2) assms(5) by (auto simp: apart_def)
  moreover have "map_of (sd_schemas (st_db (es_site v'))) (te_schema_name row) = None"
    unfolding st(1) by (simp add: map_of_eq_None_iff image_iff)
  ultimately show False using r(2) assms(4) by (simp add: apart_def)
qed

section \<open>Examples\<close>

definition demo_retention_env :: "_ retention_env" where
  "demo_retention_env = \<lparr>rn_estate = demo_estate_env, rn_instant = (\<lambda>v. case v of VInt i \<Rightarrow> i | _ \<Rightarrow> 0)\<rparr>"

definition demo_retention :: "estate \<Rightarrow> retention_state" where
  "demo_retention v = \<lparr>rs_estate = v, rs_deactivated = [],
     rs_tenant_audit = [(''tenant_acme'', [[(''created_at'', VInt 5)], [(''created_at'', VInt 200000)]])]\<rparr>"

lemma archived_tenant_stops_retention_witness:
  "\<exists>v' e. (\<exists>x. root_route demo_estate_env 10 (proxied []) demo_cred (OffboardTenant 7 ''archive'' True) demo_root_tenant = (Inr x, v'))
    \<and> fst (apply_retention demo_retention_env 1 True None 200001 (demo_retention v')) = Inl e"
proof -
  obtain x v' where o: "root_route (rn_estate demo_retention_env) 10 (proxied []) demo_cred (OffboardTenant 7 ''archive'' True)
      demo_root_tenant = (Inr x, v')"
    using demo_offboarding by (auto simp: demo_retention_env_def)
  have p: "sn_postgres (ev_site (rn_estate demo_retention_env))"
    by (simp add: demo_retention_env_def demo_estate_env_def demo_site_env_def)
  have q: "rs_estate (demo_retention v') = v'" "map_of (rs_tenant_audit (demo_retention v')) ''public'' = None"
    by (simp_all add: demo_retention_def)
  from archived_tenant_stops_retention [OF o demo_stored p q, of 1 None 200001] o show ?thesis
    by (auto simp: demo_retention_env_def)
qed

lemma demo_retention_runs: "isr (fst (apply_retention demo_retention_env 1 True None 200001 (demo_retention demo_root_tenant)))"
  by code_simp

lemma retention_keeps_exactly_the_young_witness:
  "\<exists>results s'. apply_retention demo_retention_env 1 True None 200001 (demo_retention demo_root_tenant) = (Inr results, s')
    \<and> map_of (rs_tenant_audit s') ''tenant_acme'' = Some [[(''created_at'', VInt 200000)]]"
proof -
  let ?s = "demo_retention demo_root_tenant"
  obtain results s' where r: "apply_retention demo_retention_env 1 True None 200001 ?s = (Inr results, s')"
    using isr_fst [OF demo_retention_runs] by metis
  have p: "sn_postgres (ev_site (rn_estate demo_retention_env))" "map_of (rs_tenant_audit ?s) ''public'' = None"
    "sd_tenants (st_db (es_site (rs_estate ?s))) = [demo_tenant_row]"
    by (simp_all add: demo_retention_env_def demo_estate_env_def demo_site_env_def demo_retention_def demo_root_tenant_def)
  have "map_of (rs_tenant_audit s') ''tenant_acme'' = Some (retained demo_retention_env (retention_cutoff 1 200001) []
      [[(''created_at'', VInt 5)], [(''created_at'', VInt 200000)]])"
    using retention_keeps_exactly_the_young [OF r p(1,2) p(3) [symmetric] _ refl refl]
    by (simp add: demo_tenant_row_def retired_accounts_def demo_retention_def)
  then show ?thesis using r
    by (simp add: retained_def older_def retention_cutoff_def demo_retention_env_def getattr_def)
qed

end
