(* ===== verification/Sealing.thy ===== *)
theory Sealing
  imports Formats Passwords
begin

text \<open>
  The sealed state of an OAuth flow, \<open>src/asterion/extensions/auth_oauth/state.py\<close>, over what it uses
  of Python's standard library: \<open>json.dumps\<close> of a flat object, \<open>base64.urlsafe_b64encode\<close> and
  \<open>urlsafe_b64decode\<close>.  HMAC-SHA256 is a parameter; a byte string is a HOL string of its bytes.
  The theorem is that what was sealed unseals to itself while it is fresh.
\<close>

section \<open>Base 64\<close>

definition b64_alphabet :: string where
  "b64_alphabet = ''ABCDEFGHIJKLMNOPQRSTUVWXYZabcdefghijklmnopqrstuvwxyz0123456789-_''"

definition b64_char :: "nat \<Rightarrow> char" where
  "b64_char n = b64_alphabet ! (n mod 64)"

fun position :: "char \<Rightarrow> nat \<Rightarrow> string \<Rightarrow> nat option" where
  "position c n [] = None"
| "position c n (d # ds) = (if c = d then Some n else position c (Suc n) ds)"

text \<open>The decoder first maps \<open>-\<close> and \<open>_\<close> to \<open>+\<close> and \<open>/\<close>, so it reads both alphabets.\<close>

definition b64_index :: "char \<Rightarrow> nat option" where
  "b64_index c = (if c = CHR ''+'' then Some 62 else if c = CHR ''/'' then Some 63
     else position c 0 b64_alphabet)"

text \<open>\<open>urlsafe_b64encode(data).rstrip(b"=")\<close>\<close>

fun b64url :: "string \<Rightarrow> string" where
  "b64url [] = []"
| "b64url [a] = [b64_char (of_char a div 4), b64_char (of_char a mod 4 * 16)]"
| "b64url [a, b] = [b64_char (of_char a div 4), b64_char (of_char a mod 4 * 16 + of_char b div 16),
     b64_char (of_char b mod 16 * 4)]"
| "b64url (a # b # c # rest) = b64_char (of_char a div 4)
     # b64_char (of_char a mod 4 * 16 + of_char b div 16)
     # b64_char (of_char b mod 16 * 4 + of_char c div 64) # b64_char (of_char c mod 64) # b64url rest"

text \<open>\<open>binascii.a2b_base64\<close>: characters outside the alphabet are skipped, a complete padding ends the
  input.  The state is the position in the group of four, the paddings seen and the bits left over.\<close>

fun a2b :: "nat \<Rightarrow> nat \<Rightarrow> nat \<Rightarrow> string \<Rightarrow> string option" where
  "a2b q p l [] = (if q = 0 then Some [] else None)"
| "a2b q p l (c # cs) =
    (if c = CHR ''='' then
       (if 2 \<le> q \<and> 4 \<le> q + Suc p then Some [] else a2b q (if 2 \<le> q then Suc p else p) l cs)
     else case b64_index c of
       None \<Rightarrow> a2b q p l cs
     | Some v \<Rightarrow>
       if q = 0 then a2b 1 0 v cs
       else if q = 1 then map_option (Cons (char_of (l * 4 + v div 16))) (a2b 2 0 (v mod 16) cs)
       else if q = 2 then map_option (Cons (char_of (l * 16 + v div 4))) (a2b 3 0 (v mod 4) cs)
       else map_option (Cons (char_of (l * 64 + v))) (a2b 0 0 0 cs))"

definition padded :: "string \<Rightarrow> string" where
  "padded s = s @ replicate ((4 - length s mod 4) mod 4) CHR ''=''"

definition b64url_decode :: "string \<Rightarrow> string option" where
  "b64url_decode s = a2b 0 0 0 s"

lemma b64_alphabet_index:
  "list_all (\<lambda>n. b64_index (b64_alphabet ! n) = Some n \<and> b64_alphabet ! n \<noteq> CHR ''='' \<and> ord (b64_alphabet ! n) < 128
     \<and> b64_alphabet ! n \<noteq> CHR ''.'') [0..<64]"
  by code_simp

lemma b64_char_facts:
  "b64_char n \<noteq> CHR ''=''" "b64_char n \<noteq> CHR ''.''" "ord (b64_char n) < 128" "b64_index (b64_char n) = Some (n mod 64)"
  using b64_alphabet_index by (simp_all add: b64_char_def list_all_iff)

lemma sextets:
  fixes a b c :: nat
  assumes "a < 256" "b < 256" "c < 256"
  shows "a div 4 mod 64 = a div 4" "(a mod 4 * 16 + b div 16) mod 64 = a mod 4 * 16 + b div 16"
    "(b mod 16 * 4 + c div 64) mod 64 = b mod 16 * 4 + c div 64" "a mod 4 * 16 mod 64 = a mod 4 * 16"
    "b mod 16 * 4 mod 64 = b mod 16 * 4" "b div 16 mod 16 = b div 16" "c div 64 mod 4 = c div 64"
proof -
  have "a mod 4 < 4" "b div 16 < 16" "b mod 16 < 16" "c div 64 < 4" "a div 4 < 64" using assms by auto
  then show "a div 4 mod 64 = a div 4" "(a mod 4 * 16 + b div 16) mod 64 = a mod 4 * 16 + b div 16"
    "(b mod 16 * 4 + c div 64) mod 64 = b mod 16 * 4 + c div 64" "a mod 4 * 16 mod 64 = a mod 4 * 16"
    "b mod 16 * 4 mod 64 = b mod 16 * 4" "b div 16 mod 16 = b div 16" "c div 64 mod 4 = c div 64"
    by simp_all
qed

lemma group_bytes:
  fixes a b c :: nat
  assumes "b < 256" "c < 256"
  shows "(a mod 4 * 16 + b div 16) div 16 = a mod 4" "(a mod 4 * 16 + b div 16) mod 16 = b div 16"
    "(b mod 16 * 4 + c div 64) div 4 = b mod 16" "(b mod 16 * 4 + c div 64) mod 4 = c div 64"
proof -
  have "b div 16 < 16" "c div 64 < 4" using assms by auto
  then show "(a mod 4 * 16 + b div 16) div 16 = a mod 4" "(a mod 4 * 16 + b div 16) mod 16 = b div 16"
    "(b mod 16 * 4 + c div 64) div 4 = b mod 16" "(b mod 16 * 4 + c div 64) mod 4 = c div 64"
    by (simp_all add: div_add1_eq)
qed

lemma of_char_less: "(of_char c :: nat) < 256"
  using nat_of_char_less_256 .

lemma replicate_two: "replicate 2 x = [x, x]"
  by (simp add: numeral_2_eq_2)

lemma b64_roundtrip: "b64url_decode (padded (b64url bs)) = Some bs"
proof -
  have "a2b 0 0 0 (b64url bs @ replicate ((4 - length (b64url bs) mod 4) mod 4) CHR ''='') = Some bs"
  proof (induction bs rule: b64url.induct)
    case (4 a b c rest)
    have "length (b64url (a # b # c # rest)) mod 4 = length (b64url rest) mod 4" by simp
    then show ?case
      using 4 by (simp add: b64_char_facts sextets [OF of_char_less of_char_less of_char_less]
        group_bytes [OF of_char_less of_char_less] del: One_nat_def)
  qed (simp_all add: b64_char_facts sextets [OF of_char_less of_char_less of_char_less]
        group_bytes [OF of_char_less of_char_less] replicate_two)
  then show ?thesis by (simp add: b64url_decode_def padded_def)
qed

section \<open>\<open>json.dumps\<close>\<close>

text \<open>With \<open>ensure_ascii\<close>, the default: everything outside printable ASCII is escaped.\<close>

definition json_escape :: "char \<Rightarrow> string" where
  "json_escape c = (if c = dquote then [CHR 0x5C, dquote]
     else if c = CHR 0x5C then [CHR 0x5C, CHR 0x5C]
     else if c = CHR 0x0A then [CHR 0x5C, CHR ''n''] else if c = CHR 0x0D then [CHR 0x5C, CHR ''r'']
     else if c = CHR 0x09 then [CHR 0x5C, CHR ''t''] else if c = CHR 0x08 then [CHR 0x5C, CHR ''b'']
     else if c = CHR 0x0C then [CHR 0x5C, CHR ''f'']
     else if 32 \<le> ord c \<and> ord c \<le> 126 then [c]
     else [CHR 0x5C, CHR ''u''] @ hex_fixed 4 (ord c))"

definition json_quote :: "string \<Rightarrow> string" where
  "json_quote s = dquote # concat (map json_escape s) @ [dquote]"

text \<open>The values the sealed objects hold: strings and integers.\<close>

definition json_scalar :: "pyval \<Rightarrow> string" where
  "json_scalar v = (case v of VStr s \<Rightarrow> json_quote s | VInt i \<Rightarrow> str_int i | _ \<Rightarrow> [])"

definition json_entry :: "string \<times> pyval \<Rightarrow> string" where
  "json_entry e = json_quote (fst e) @ '':'' @ json_scalar (snd e)"

definition json_object :: "row \<Rightarrow> string" where
  "json_object d = ''{'' @ join '','' (map json_entry d) @ ''}''"

fun is_scalar :: "pyval \<Rightarrow> bool" where
  "is_scalar (VStr _) = True"
| "is_scalar (VInt _) = True"
| "is_scalar _ = False"

lemma dquote_char: "dquote = CHR 0x22"
  by code_simp

lemma escaped_char:
  "json_string (Suc n) (json_escape c @ rest) = map_option (apfst (Cons c)) (json_string n rest)"
proof -
  have less: "ord c < 256" using of_char_less [of c] by simp
  then have small: "ord c mod 65536 = ord c" by (intro mod_less) linarith
  have h: "hex4 (hex_fixed 4 (ord c)) = Some (ord c)"
  proof -
    have "is_base_digit 16 x" if "x \<in> set (hex_fixed 4 (ord c))" for x
      using hex_fixed_chars [OF that] hex_lower_not by blast
    then show ?thesis
      using small by (simp add: hex4_def list_all_iff digits_value_hex_fixed del: hex_fixed.simps)
  qed
  have "code_point (ord c) = c" using of_char_less [of c] by (simp add: code_point_def)
  then have hex: "json_string (Suc n) ((CHR 0x5C # CHR ''u'' # hex_fixed 4 (ord c)) @ rest)
      = map_option (apfst (Cons c)) (json_string n rest)"
    using h by (simp add: dquote_char del: hex_fixed.simps)
  show ?thesis
  proof (cases "c \<in> {dquote, CHR 0x5C, CHR 0x0A, CHR 0x0D, CHR 0x09, CHR 0x08, CHR 0x0C}")
    case True
    then show ?thesis
      by (elim insertE emptyE) (simp_all add: json_escape_def simple_escape_def dquote_char)
  next
    case False
    then show ?thesis
      using hex by (simp add: json_escape_def del: hex_fixed.simps json_string.simps)
        (simp add: dquote_char del: hex_fixed.simps)
  qed
qed

lemma quoted_string:
  "length s < n \<Longrightarrow> json_string n (concat (map json_escape s) @ dquote # rest) = Some (s, rest)"
proof (induction s arbitrary: n)
  case Nil
  then show ?case by (cases n) simp_all
next
  case (Cons c s)
  then obtain m where "n = Suc m" "length s < m" by (cases n) auto
  then show ?case using Cons.IH by (simp add: escaped_char)
qed

lemma digit_char_facts: "d < 10 \<Longrightarrow> is_digit (digit_char d) \<and> the (digit_value (digit_char d)) = d"
  by (simp add: digit_char_def digit_value_def is_digit_def)

lemma str_nat_digits: "list_all is_digit (str_nat n) \<and> digits_value 10 (str_nat n) = n"
proof (induction n rule: str_nat.induct)
  case (1 n)
  show ?case
  proof (cases "n < 10")
    case True
    then show ?thesis
      using digit_char_facts [of n] by (subst (1 2) str_nat.simps) (simp add: digits_value_def)
  next
    case False
    have d: "n mod 10 < 10" by simp
    show ?thesis
      using 1 [OF False] False digit_char_facts [OF d]
      by (subst (1 2) str_nat.simps) (simp add: digits_value_snoc)
  qed
qed

lemma str_nat_first: "hd (str_nat n) = CHR ''0'' \<Longrightarrow> str_nat n = ''0''"
proof (induction n rule: str_nat.induct)
  case (1 n)
  show ?case
  proof (cases "n < 10")
    case True
    then have "digit_char n = CHR ''0''" using "1.prems" by (subst (asm) str_nat.simps) simp
    then show ?thesis using True by (subst str_nat.simps) simp
  next
    case False
    then have "hd (str_nat (n div 10)) = CHR ''0''" using "1.prems" by (subst (asm) str_nat.simps) simp
    then have "str_nat (n div 10) = ''0''" using 1(1) [OF False] by blast
    then have "n div 10 = 0" using str_nat_digits [of "n div 10"] by (simp add: digits_value_def digit_value_def is_digit_def)
    then show ?thesis using False by simp
  qed
qed

definition closes :: "string \<Rightarrow> bool" where
  "closes rest = (rest \<noteq> [] \<and> hd rest \<in> {CHR '','', CHR ''}''})"

lemma printed_nat: "closes rest \<Longrightarrow> takeWhile is_digit (str_nat n @ rest) = str_nat n"
proof -
  assume "closes rest"
  then have "takeWhile is_digit rest = []" by (cases rest) (auto simp: closes_def is_digit_def)
  then show ?thesis
    using str_nat_digits [of n] by (simp add: takeWhile_append2 list_all_iff)
qed

lemma number_tail:
  assumes "closes rest"
  shows "rest \<noteq> []" "hd rest \<noteq> CHR ''.''" "hd rest \<noteq> CHR ''e''" "hd rest \<noteq> CHR ''E''"
  using assms by (auto simp: closes_def)

lemma unsigned_number:
  assumes "closes rest"
  shows "(if str_nat n @ rest \<noteq> [] \<and> hd (str_nat n @ rest) = CHR ''0'' then ''0''
    else takeWhile is_digit (str_nat n @ rest)) = str_nat n"
  using str_nat_first [of n] printed_nat [OF assms, of n] by auto

lemma str_nat_sign: "hd (str_nat n) \<noteq> CHR ''-''"
proof -
  have "is_digit (hd (str_nat n))"
    using str_nat_digits [of n] by (cases "str_nat n") auto
  then show ?thesis by (auto simp: is_digit_def)
qed

lemma drop_str_nat [simp]: "drop (length (str_nat n)) (str_nat n @ rest) = rest"
  by simp

lemma number_parts:
  assumes "closes rest" and s: "(if neg then tl s0 else s0) = str_nat n @ rest"
    "neg = (s0 \<noteq> [] \<and> hd s0 = CHR ''-'')"
  shows "json_number s0 = Some (VInt (if neg then - int n else int n), rest)"
proof -
  have ds: "(if str_nat n @ rest \<noteq> [] \<and> hd (str_nat n @ rest) = CHR ''0'' then ''0''
    else takeWhile is_digit (str_nat n @ rest)) = str_nat n"
    by (rule unsigned_number [OF assms(1)])
  have v: "digits_value 10 (str_nat n) = n" using str_nat_digits [of n] by simp
  show ?thesis
    unfolding json_number_def Let_def s(2) [symmetric] s(1) ds
    using number_tail [OF assms(1)] v by simp
qed

lemma printed_number:
  assumes "closes rest"
  shows "json_number (str_int i @ rest) = Some (VInt i, rest)"
  using number_parts [OF assms, of "i < 0" "str_int i @ rest" "nat \<bar>i\<bar>"] str_nat_sign [of "nat i"]
  by (cases "i < 0") (simp_all add: str_int_def)

lemma str_int_first:
  "\<exists>c r. str_int i = c # r \<and> (is_digit c \<or> c = CHR ''-'' \<and> (\<exists>d r'. r = d # r' \<and> is_digit d))"
proof -
  have "\<exists>d r. str_nat n = d # r \<and> is_digit d" for n
    using str_nat_digits [of n] by (cases "str_nat n") auto
  from this [of "nat i"] this [of "nat (- i)"] show ?thesis
    by (cases "i < 0") (auto simp: str_int_def)
qed

lemma scalar_value:
  assumes "is_scalar v" "length (json_scalar v) < n" "closes rest"
  shows "json_value n (json_scalar v @ rest) = Some (v, rest)"
proof (cases v)
  case (VStr x)
  have len: "length x \<le> length (concat (map json_escape x))"
  proof (induction x)
    case (Cons c x)
    have "1 \<le> length (json_escape c)" by (simp add: json_escape_def)
    with Cons show ?case by (simp del: One_nat_def)
  qed simp
  obtain m where m: "n = Suc m" using assms(2) by (cases n) auto
  then have "length x < m" using assms(2) len VStr by (simp add: json_scalar_def json_quote_def)
  then show ?thesis
    using VStr m by (simp add: json_scalar_def json_quote_def quoted_string)
next
  case (VInt i)
  obtain m where m: "n = Suc m" using assms(2) by (cases n) auto
  obtain c r where c: "str_int i = c # r" "is_digit c \<or> c = CHR ''-'' \<and> (\<exists>d r'. r = d # r' \<and> is_digit d)"
    using str_int_first [of i] by (elim exE conjE) (rule that)
  have no: "\<not> startswith (str_int i @ rest) w" if "w \<in> fst ` set json_words" for w
    using that c(2) unfolding c(1)
    by (auto simp: json_words_def is_digit_def)
  then have "find (\<lambda>w. startswith (str_int i @ rest) (fst w)) json_words = None"
    unfolding find_None_iff by blast
  moreover have "c \<noteq> dquote" "c \<noteq> CHR ''[''" "c \<noteq> CHR ''{''"
    using c(2) by (auto simp: is_digit_def dquote_char)
  moreover have "json_number (str_int i @ rest) = Some (v, rest)"
    using printed_number [OF assms(3)] VInt by simp
  ultimately show ?thesis using VInt m c(1) by (simp add: json_scalar_def)
qed (use assms(1) in simp_all)

lemma scalar_text:
  assumes "is_scalar v"
  shows "skip_space (json_scalar v @ rest) = json_scalar v @ rest"
proof (cases v)
  case (VInt i)
  obtain c r where "str_int i = c # r" "is_digit c \<or> c = CHR ''-''"
    using str_int_first [of i] by (elim exE conjE) (rule that, auto)
  then show ?thesis using VInt by (auto simp: json_scalar_def skip_space_def json_space_def is_digit_def)
qed (use assms in \<open>simp_all add: json_scalar_def json_quote_def skip_space_def json_space_def dquote_def\<close>)

lemma closing: "closes (CHR '','' # r)" "closes (CHR ''}'' # r)"
  by (simp_all add: closes_def)

lemma skip_closing [simp]:
  "skip_space (CHR '','' # r) = CHR '','' # r" "skip_space (CHR ''}'' # r) = CHR ''}'' # r"
  "skip_space (CHR '':'' # r) = CHR '':'' # r" "skip_space (dquote # r) = dquote # r"
  by (simp_all add: skip_space_def json_space_def dquote_def)

lemma length_quote: "length k + 2 \<le> length (json_quote k)"
proof -
  have "length k \<le> length (concat (map json_escape k))"
  proof (induction k)
    case (Cons c k)
    have "1 \<le> length (json_escape c)" by (simp add: json_escape_def)
    with Cons show ?case by (simp del: One_nat_def)
  qed simp
  then show ?thesis by (simp add: json_quote_def)
qed

text \<open>What follows the value of a member.\<close>

lemma member_step:
  assumes "json_string n s = Some (k, CHR '':'' # t)" "json_value n (skip_space t) = Some (v, rest)"
  shows "rest = CHR ''}'' # r \<Longrightarrow> json_members (Suc n) (dquote # s) = Some ([(k, v)], r)"
    "rest = CHR '','' # r \<Longrightarrow> json_members (Suc n) (dquote # s) =
       map_option (apfst (Cons (k, v))) (json_members n (skip_space r))"
  using assms by simp_all

lemma one_member:
  assumes "is_scalar v" "length (json_entry (k, v)) \<le> n"
  shows "json_members (Suc n) (json_entry (k, v) @ CHR ''}'' # r) = Some ([(k, v)], r)" (is ?last)
    "json_members (Suc n) (json_entry (k, v) @ CHR '','' # r) =
       map_option (apfst (Cons (k, v))) (json_members n (skip_space r))" (is ?more)
proof -
  have "length (json_quote k) + length (json_scalar v) + 1 \<le> n" using assms(2) by (simp add: json_entry_def)
  then have n: "length k < n" "length (json_scalar v) < n" using length_quote [of k] by auto
  have e: "json_entry (k, v) @ x # r = dquote # concat (map json_escape k) @ dquote # CHR '':'' # json_scalar v @ x # r" for x
    by (simp add: json_entry_def json_quote_def)
  note str = quoted_string [OF n(1)]
  have val: "json_value n (skip_space (json_scalar v @ x # r)) = Some (v, x # r)" if "closes (x # r)" for x
    using scalar_value [OF assms(1) n(2) that] scalar_text [OF assms(1)] by simp
  show ?last unfolding e by (rule member_step(1) [OF str val [OF closing(2)] refl])
  show ?more unfolding e by (rule member_step(2) [OF str val [OF closing(1)] refl])
qed

lemma printed_members:
  "d \<noteq> [] \<Longrightarrow> list_all (\<lambda>e. is_scalar (snd e)) d \<Longrightarrow> length (join '','' (map json_entry d)) < n
    \<Longrightarrow> json_members n (join '','' (map json_entry d) @ CHR ''}'' # rest) = Some (d, rest)"
proof (induction d arbitrary: n)
  case (Cons e d)
  obtain k v where e: "e = (k, v)" by (cases e)
  obtain m where m: "n = Suc m" using Cons.prems(3) by (cases n) auto
  show ?case
  proof (cases "d = []")
    case True
    then show ?thesis
      using Cons.prems m one_member(1) [of v k m rest] e by simp
  next
    case False
    then have j: "join '','' (map json_entry (e # d)) = json_entry e @ '','' @ join '','' (map json_entry d)"
      by (simp add: join_Cons)
    obtain e' d' where "d = e' # d'" using False by (cases d) auto
    then have t: "skip_space (join '','' (map json_entry d) @ r) = join '','' (map json_entry d) @ r" for r
      by (cases d') (simp_all add: json_entry_def json_quote_def)
    have l: "length (json_entry (k, v)) \<le> m" "length (join '','' (map json_entry d)) < m"
      using Cons.prems(3) m unfolding j unfolding e by simp_all
    have "json_members m (join '','' (map json_entry d) @ CHR ''}'' # rest) = Some (d, rest)"
      using Cons.IH [OF False _ l(2)] Cons.prems(2) by simp
    then show ?thesis
      using one_member(2) [of v k m "join '','' (map json_entry d) @ CHR ''}'' # rest"] l(1)
        Cons.prems(2) e m t j by (simp del: json_members.simps)
  qed
qed simp

lemma update_distinct:
  "distinct (map fst (acc @ d)) \<Longrightarrow> foldl (\<lambda>d (k, v). AList.update k v d) acc d = acc @ d"
proof (induction d arbitrary: acc)
  case (Cons e d)
  obtain k v where e: "e = (k, v)" by (cases e)
  have "AList.update k v acc = acc @ [(k, v)]" if "k \<notin> fst ` set acc"
    using that by (induction acc) auto
  then have "AList.update k v acc = acc @ [(k, v)]" using Cons.prems e by auto
  then show ?case using Cons e by simp
qed simp

lemma printed_object:
  assumes "d \<noteq> []" "list_all (\<lambda>e. is_scalar (snd e)) d" "distinct (map fst d)" "length (json_object d) \<le> n"
  shows "json_value n (json_object d @ rest) = Some (VDict d, rest)"
proof -
  let ?b = "join '','' (map json_entry d)"
  obtain m where n: "n = Suc m" "length ?b < m"
    using assms(4) by (cases n) (auto simp: json_object_def)
  obtain t where b: "?b @ CHR ''}'' # rest = dquote # t"
    using assms(1) by (cases d; cases "tl d") (auto simp: json_entry_def json_quote_def)
  have fold: "foldl (\<lambda>d (k, v). AList.update k v d) [] d = d"
    using update_distinct [of "[]" d] assms(3) by simp
  have "json_value (Suc m) (CHR ''{'' # ?b @ CHR ''}'' # rest) = Some (VDict d, rest)"
    using printed_members [OF assms(1,2) n(2), of rest] fold unfolding b
    by (simp add: dquote_char skip_space_def json_space_def del: json_members.simps)
  then show ?thesis by (simp add: json_object_def n(1) del: json_value.simps)
qed

lemma object_text: "skip_space (json_object d @ rest) = json_object d @ rest"
  by (simp add: json_object_def skip_space_def json_space_def)

lemma json_object_loads:
  assumes "d \<noteq> []" "list_all (\<lambda>e. is_scalar (snd e)) d" "distinct (map fst d)"
  shows "json_loads (json_object d @ rest) = (if skip_space rest = [] then Some (VDict d) else None)"
  using printed_object [OF assms, of "3 * length (json_object d @ rest) + 3" rest]
  by (simp add: json_loads_def object_text del: json_value.simps)

section \<open>Bytes and text\<close>

definition is_ascii :: "string \<Rightarrow> bool" where
  "is_ascii s = list_all (\<lambda>c. ord c < 128) s"

definition continuation :: "char \<Rightarrow> bool" where
  "continuation c = (128 \<le> ord c \<and> ord c < 192)"

text \<open>\<open>bytes.decode("utf-8")\<close>: overlong forms, surrogates and numbers past U+10FFFF are refused.\<close>

fun utf8_decode :: "string \<Rightarrow> string option" where
  "utf8_decode [] = Some []"
| "utf8_decode (a # r) =
    (if ord a < 128 then map_option (Cons a) (utf8_decode r)
     else if 194 \<le> ord a \<and> ord a < 224 then
       (case r of b # r' \<Rightarrow>
          if continuation b
          then map_option (Cons (code_point ((ord a - 192) * 64 + (ord b - 128)))) (utf8_decode r') else None
        | _ \<Rightarrow> None)
     else if 224 \<le> ord a \<and> ord a < 240 then
       (case r of b # c # r' \<Rightarrow>
          let n = ((ord a - 224) * 64 + (ord b - 128)) * 64 + (ord c - 128) in
          if continuation b \<and> continuation c \<and> 2048 \<le> n \<and> (n < 55296 \<or> 57344 \<le> n)
          then map_option (Cons (code_point n)) (utf8_decode r') else None
        | _ \<Rightarrow> None)
     else if 240 \<le> ord a \<and> ord a < 245 then
       (case r of b # c # d # r' \<Rightarrow>
          let n = (((ord a - 240) * 64 + (ord b - 128)) * 64 + (ord c - 128)) * 64 + (ord d - 128) in
          if continuation b \<and> continuation c \<and> continuation d \<and> 65536 \<le> n \<and> n < 1114112
          then map_option (Cons (code_point n)) (utf8_decode r') else None
        | _ \<Rightarrow> None)
     else None)"

lemma utf8_ascii: "is_ascii s \<Longrightarrow> utf8 s = s"
  by (induction s) (simp_all add: is_ascii_def utf8_def)

lemma utf8_decode_ascii: "is_ascii s \<Longrightarrow> utf8_decode (s @ r) = map_option (append s) (utf8_decode r)"
  by (cases "utf8_decode r"; induction s) (simp_all add: is_ascii_def)

lemma is_ascii_append [simp]: "is_ascii (s @ t) \<longleftrightarrow> is_ascii s \<and> is_ascii t"
  by (simp add: is_ascii_def)

lemma ascii_escape: "is_ascii (json_escape c)"
proof -
  have "ord x < 128" if "x \<in> set (hex_fixed 4 (ord c))" for x
    using hex_fixed_chars [OF that] by (auto simp: hex_lower_def is_digit_def)
  then show ?thesis
    by (simp add: json_escape_def is_ascii_def list_all_iff dquote_char del: hex_fixed.simps)
qed

lemma ascii_scalar: "is_scalar v \<Longrightarrow> is_ascii (json_scalar v)"
proof (cases v)
  case (VInt i)
  have "is_ascii (str_nat n)" for n
    using str_nat_digits [of n] by (auto simp: is_ascii_def list_all_iff is_digit_def)
  then show ?thesis using VInt by (simp add: json_scalar_def str_int_def) (simp add: is_ascii_def)
next
  case (VStr x)
  have "is_ascii (concat (map json_escape x))"
    using ascii_escape by (induction x) (auto simp: is_ascii_def)
  then show ?thesis using VStr by (simp add: json_scalar_def json_quote_def is_ascii_def dquote_char)
qed simp_all

lemma ascii_join: "(\<And>w. w \<in> set ws \<Longrightarrow> is_ascii w) \<Longrightarrow> is_ascii (join '','' ws)"
proof (induction ws)
  case (Cons w ws)
  then show ?case by (cases ws) (simp_all add: is_ascii_def)
qed (simp add: is_ascii_def)

lemma ascii_object: "list_all (\<lambda>e. is_scalar (snd e)) d \<Longrightarrow> is_ascii (json_object d)"
proof -
  assume d: "list_all (\<lambda>e. is_scalar (snd e)) d"
  have "is_ascii (json_entry e)" if "e \<in> set d" for e
    using that d ascii_scalar [of "snd e"] ascii_scalar [of "VStr (fst e)"]
    by (auto simp: json_entry_def list_all_iff json_scalar_def) (simp add: is_ascii_def)
  then have "is_ascii (join '','' (map json_entry d))" by (intro ascii_join) auto
  then show ?thesis by (simp add: json_object_def) (simp add: is_ascii_def)
qed

section \<open>The sealed state\<close>

text \<open>\<open>OAuthFlowState\<close>.  The constructor checks no types, so a field is whatever the decoded object
  holds; the login handler seals five strings and an integer.\<close>

record oauth_flow_state =
  of_state :: pyval
  of_code_verifier :: pyval
  of_nonce :: pyval
  of_provider_id :: pyval
  of_return_to :: pyval
  of_created_at :: pyval

definition OAuthStateInvalidError :: exc_class where "OAuthStateInvalidError = OtherExc ''OAuthStateInvalidError''"
definition OAuthStateExpiredError :: exc_class where "OAuthStateExpiredError = OtherExc ''OAuthStateExpiredError''"

text \<open>\<open>except OAuthStateError\<close>, the base of the two.\<close>

definition is_state_error :: "exn \<Rightarrow> bool" where
  "is_state_error e = (catches OAuthStateInvalidError e \<or> catches OAuthStateExpiredError e)"

definition STATE_TTL_SECONDS :: int where "STATE_TTL_SECONDS = 600"

text \<open>HMAC-SHA256 of a key and a message, both bytes.  Encoding a text that is not ASCII raises.\<close>

type_synonym mac = "string \<Rightarrow> string \<Rightarrow> string"

definition sign :: "mac \<Rightarrow> string \<Rightarrow> string \<Rightarrow> string res" where
  "sign mac value secret_key =
    (if is_ascii value then Inr (b64url (mac (utf8 secret_key) value))
     else Inl (PyExc (OtherExc ''UnicodeEncodeError'') ''ordinal not in range(128)''))"

definition asdict :: "oauth_flow_state \<Rightarrow> row" where
  "asdict p = [(''state'', of_state p), (''code_verifier'', of_code_verifier p), (''nonce'', of_nonce p),
     (''provider_id'', of_provider_id p), (''return_to'', of_return_to p), (''created_at'', of_created_at p)]"

definition seal_state :: "mac \<Rightarrow> oauth_flow_state \<Rightarrow> string \<Rightarrow> string res" where
  "seal_state mac payload secret_key =
    (let body_b64 = b64url (utf8 (json_object (asdict payload))) in
     rbind (sign mac body_b64 secret_key) (\<lambda>sig. Inr (body_b64 @ ''.'' @ sig)))"

text \<open>\<open>OAuthFlowState(**data)\<close>: a mapping with exactly the six keys, in any order.\<close>

definition flow_of :: "pyval \<Rightarrow> oauth_flow_state option" where
  "flow_of data = (case data of
     VDict d \<Rightarrow>
       (if set (map fst d) = {''state'', ''code_verifier'', ''nonce'', ''provider_id'', ''return_to'', ''created_at''}
        then Some \<lparr>of_state = getattr d ''state'', of_code_verifier = getattr d ''code_verifier'',
          of_nonce = getattr d ''nonce'', of_provider_id = getattr d ''provider_id'',
          of_return_to = getattr d ''return_to'', of_created_at = getattr d ''created_at''\<rparr>
        else None)
   | _ \<Rightarrow> None)"

definition rpartition :: "string \<Rightarrow> string \<times> string" where
  "rpartition s = (let t = rev (takeWhile (\<lambda>c. c \<noteq> CHR ''.'') (rev s)) in
     (take (length s - length t - 1) s, t))"

definition state_invalid :: "string \<Rightarrow> exn" where
  "state_invalid msg = PyExc OAuthStateInvalidError msg"

text \<open>\<open>compare_digest\<close> refuses a text that is not ASCII.  A creation time that is not a number
  cannot be subtracted; a JSON float is left out.\<close>

fun seconds :: "pyval \<Rightarrow> int option" where
  "seconds (VInt i) = Some i"
| "seconds (VBool b) = Some (if b then 1 else 0)"
| "seconds _ = None"

definition unseal_state :: "mac \<Rightarrow> int \<Rightarrow> string \<Rightarrow> string \<Rightarrow> int \<Rightarrow> oauth_flow_state res" where
  "unseal_state mac now raw_cookie secret_key max_age_seconds =
    (if raw_cookie = [] \<or> CHR ''.'' \<notin> set raw_cookie
     then Inl (state_invalid ''state cookie missing or malformed'')
     else case rpartition raw_cookie of (body_b64, sig) \<Rightarrow>
     rbind (sign mac body_b64 secret_key) (\<lambda>expected.
     if \<not> is_ascii sig
     then Inl (PyExc TypeError ''comparing strings with non-ASCII characters is not supported'')
     else if sig \<noteq> expected then Inl (state_invalid ''state cookie signature mismatch'')
     else case Option.bind (b64url_decode (padded body_b64)) utf8_decode of
       None \<Rightarrow> Inl (state_invalid ''state cookie payload undecodable'')
     | Some text \<Rightarrow>
     (case json_loads text of
       None \<Rightarrow> Inl (state_invalid ''state cookie payload undecodable'')
     | Some data \<Rightarrow>
     (case flow_of data of
       None \<Rightarrow> Inl (state_invalid ''state cookie schema mismatch'')
     | Some payload \<Rightarrow>
     (case seconds (of_created_at payload) of
       None \<Rightarrow> Inl (PyExc TypeError ''unsupported operand type(s) for -'')
     | Some created_at \<Rightarrow>
       (let age = now - created_at in
        if age < 0 then Inl (state_invalid ''state cookie created in the future'')
        else if age > max_age_seconds
        then Inl (PyExc OAuthStateExpiredError (''state cookie expired ('' @ str_int age @ ''s > ''
          @ str_int max_age_seconds @ ''s TTL)''))
        else Inr payload))))))"

lemma ascii_b64url: "is_ascii (b64url bs) \<and> CHR ''.'' \<notin> set (b64url bs)"
  by (induction bs rule: b64url.induct) (simp_all add: is_ascii_def b64_char_facts b64_char_facts(2) [symmetric])

lemma rpartition_dot:
  "CHR ''.'' \<notin> set t \<Longrightarrow> rpartition (s @ CHR ''.'' # t) = (s, t)"
proof -
  assume t: "CHR ''.'' \<notin> set t"
  have "takeWhile (\<lambda>c. c \<noteq> CHR ''.'') (rev t @ CHR ''.'' # rev s) = rev t"
    using t by (subst takeWhile_append2) auto
  then show ?thesis by (simp add: rpartition_def Let_def)
qed

lemma rpartition_inv:
  assumes "CHR ''.'' \<in> set s" "rpartition s = (b, t)"
  shows "s = b @ CHR ''.'' # t \<and> CHR ''.'' \<notin> set t"
proof -
  obtain b' t' where s: "s = b' @ CHR ''.'' # t'" "CHR ''.'' \<notin> set t'"
    using split_list_last [OF assms(1)] by blast
  then show ?thesis using assms(2) rpartition_dot [OF s(2), of b'] by simp
qed

lemma seal_state_text:
  "list_all (\<lambda>e. is_scalar (snd e)) (asdict p) \<Longrightarrow> seal_state mac p key =
     Inr (b64url (json_object (asdict p)) @ ''.'' @ b64url (mac (utf8 key) (b64url (json_object (asdict p)))))"
  using ascii_b64url by (simp add: seal_state_def sign_def utf8_ascii ascii_object Let_def)

lemma flow_of_asdict: "flow_of (VDict (asdict p)) = Some p"
proof -
  have "set (map fst (asdict p)) = {''state'', ''code_verifier'', ''nonce'', ''provider_id'', ''return_to'', ''created_at''}"
    by (simp add: asdict_def)
  then show ?thesis unfolding flow_of_def by (simp add: asdict_def getattr_def)
qed

section \<open>What the seal promises\<close>

definition plain_flow :: "oauth_flow_state \<Rightarrow> int \<Rightarrow> bool" where
  "plain_flow p t = (is_VStr (of_state p) \<and> is_VStr (of_code_verifier p) \<and> is_VStr (of_nonce p)
     \<and> is_VStr (of_provider_id p) \<and> is_VStr (of_return_to p) \<and> of_created_at p = VInt t)"

lemma is_VStr_scalar: "is_VStr v \<Longrightarrow> is_scalar v"
  by (cases v) simp_all

lemma plain_flow_scalar: "plain_flow p t \<Longrightarrow> list_all (\<lambda>e. is_scalar (snd e)) (asdict p)"
  by (simp add: plain_flow_def asdict_def is_VStr_scalar)

lemma decoded_body:
  assumes "plain_flow p t"
  shows "Option.bind (b64url_decode (padded (b64url (json_object (asdict p))))) utf8_decode = Some (json_object (asdict p))"
    "json_loads (json_object (asdict p)) = Some (VDict (asdict p))"
proof -
  show "Option.bind (b64url_decode (padded (b64url (json_object (asdict p))))) utf8_decode = Some (json_object (asdict p))"
    using utf8_decode_ascii [OF ascii_object [OF plain_flow_scalar [OF assms]], of "[]"] by (simp add: b64_roundtrip)
  show "json_loads (json_object (asdict p)) = Some (VDict (asdict p))"
    using json_object_loads [OF _ plain_flow_scalar [OF assms], of "[]"]
    by (simp add: asdict_def skip_space_def)
qed

text \<open>What the login handler seals, five texts and the time, unseals with the same key to itself
  for as long as the time to live has not passed, whatever characters the texts hold; before its time
  it is refused as forged and after the time to live as expired.\<close>

lemma sealed_state_roundtrip:
  assumes "plain_flow p t" "seal_state mac p key = Inr cookie"
  shows "unseal_state mac now cookie key ttl =
    (if now < t then Inl (state_invalid ''state cookie created in the future'')
     else if t + ttl < now
     then Inl (PyExc OAuthStateExpiredError (''state cookie expired ('' @ str_int (now - t) @ ''s > '' @ str_int ttl @ ''s TTL)''))
     else Inr p)"
proof -
  let ?b = "b64url (json_object (asdict p))"
  have c: "cookie = ?b @ CHR ''.'' # b64url (mac (utf8 key) ?b)"
    using assms(2) seal_state_text [OF plain_flow_scalar [OF assms(1)]] by simp
  have r: "rpartition cookie = (?b, b64url (mac (utf8 key) ?b))"
    unfolding c using ascii_b64url by (intro rpartition_dot) blast
  have s: "sign mac ?b key = Inr (b64url (mac (utf8 key) ?b))"
    using ascii_b64url by (simp add: sign_def)
  have t: "of_created_at p = VInt t" using assms(1) by (simp add: plain_flow_def)
  have "cookie \<noteq> []" "CHR ''.'' \<in> set cookie" unfolding c by simp_all
  then show ?thesis
    using r s t decoded_body [OF assms(1)] ascii_b64url
    by (simp add: unseal_state_def flow_of_asdict Let_def)
qed

definition demo_mac :: mac where
  "demo_mac key msg = take 32 (key @ msg @ replicate 32 CHR 0x00)"

definition demo_flow :: oauth_flow_state where
  "demo_flow = \<lparr>of_state = VStr ''s1'', of_code_verifier = VStr ''cv'', of_nonce = VStr ''n1'',
     of_provider_id = VStr ''google'', of_return_to = VStr ''/admin/x'', of_created_at = VInt 1000\<rparr>"

lemma demo_flow_plain: "plain_flow demo_flow 1000"
  by (simp add: plain_flow_def demo_flow_def)

lemma sealed_state_roundtrip_witness:
  "\<exists>cookie. seal_state demo_mac demo_flow ''k'' = Inr cookie
     \<and> unseal_state demo_mac 1500 cookie ''k'' 600 = Inr demo_flow"
  using sealed_state_roundtrip [OF demo_flow_plain seal_state_text [OF plain_flow_scalar [OF demo_flow_plain]],
      where now = 1500 and ttl = 600] seal_state_text [OF plain_flow_scalar [OF demo_flow_plain]]
  by simp

text \<open>What an accepted cookie is: a body with its own code under the key, at most the time to live old.\<close>

lemma opened_state:
  assumes "unseal_state mac now cookie key ttl = Inr p"
  shows "\<exists>body text data. cookie = body @ ''.'' @ b64url (mac (utf8 key) body)
    \<and> Option.bind (b64url_decode (padded body)) utf8_decode = Some text \<and> json_loads text = Some data
    \<and> flow_of data = Some p
    \<and> (\<exists>t. seconds (of_created_at p) = Some t \<and> t \<le> now \<and> now \<le> t + ttl)"
proof -
  obtain body sig where r: "rpartition cookie = (body, sig)" by (cases "rpartition cookie")
  have dot: "CHR ''.'' \<in> set cookie"
    using assms by (auto simp: unseal_state_def split: if_splits)
  then have c: "cookie = body @ CHR ''.'' # sig" using rpartition_inv r by blast
  show ?thesis
    using assms dot r
    by (auto simp: unseal_state_def sign_def c Let_def res_simps split: if_splits option.splits)
qed

lemma b64url_append:
  "length a mod 3 = 0 \<Longrightarrow> a2b 0 0 0 (b64url a @ r) = map_option (append a) (a2b 0 0 0 r)"
proof (induction a rule: b64url.induct)
  case (4 a b c rest)
  have "length rest mod 3 = 0" using "4.prems" by simp
  then show ?case
    using "4.IH" by (cases "a2b 0 0 0 r") (simp_all add: b64_char_facts sextets [OF of_char_less of_char_less of_char_less]
        group_bytes [OF of_char_less of_char_less])
next
  case 1
  then show ?case by (cases "a2b 0 0 0 r") simp_all
qed simp_all

text \<open>The bearer tokens of the application carry a code under the same key, of the same form.
  None is ever read as a state cookie: a signed token with a JSON header of whole groups, as the one of
  the default algorithm is, whatever its payload, is refused.\<close>

theorem bearer_token_is_no_state_cookie:
  assumes "list_all (\<lambda>e. is_scalar (snd e)) header" "distinct (map fst header)" "header \<noteq> []"
    "length (json_object header) mod 3 = 0" "''nonce'' \<notin> set (map fst header)"
    "is_ascii payload" "CHR ''.'' \<notin> set sig" "is_ascii sig"
  shows "\<exists>msg. unseal_state mac now (b64url (json_object header) @ ''.'' @ payload @ ''.'' @ sig) key ttl
    = Inl (state_invalid msg)"
proof -
  let ?h = "json_object header" and ?body = "b64url (json_object header) @ ''.'' @ payload"
  let ?cookie = "b64url ?h @ ''.'' @ payload @ ''.'' @ sig"
  have r: "rpartition ?cookie = (?body, sig)" using rpartition_dot [OF assms(7), of ?body] by simp
  have a: "is_ascii ?body" using ascii_b64url assms(6) by (simp add: is_ascii_def)
  have dot: "a2b 0 0 0 (CHR ''.'' # r) = a2b 0 0 0 r" for r
    by (simp add: b64_index_def) (simp add: b64_alphabet_def)
  obtain pad where pad: "padded ?body = b64url ?h @ CHR ''.'' # pad" by (simp add: padded_def)
  have d: "b64url_decode (padded ?body) = map_option (append ?h) (a2b 0 0 0 pad)"
    unfolding pad by (simp add: b64url_decode_def b64url_append [OF assms(4)] dot del: a2b.simps)
  have "Option.bind (b64url_decode (padded ?body)) utf8_decode = None
    \<or> (\<exists>rest. Option.bind (b64url_decode (padded ?body)) utf8_decode = Some (?h @ rest))"
    unfolding d by (cases "a2b 0 0 0 pad") (auto simp: utf8_decode_ascii [OF ascii_object [OF assms(1)]])
  moreover note loads = json_object_loads [OF assms(3,1,2)]
  moreover have "flow_of (VDict header) = None"
    using assms(5) by (simp add: flow_of_def) blast
  ultimately have "\<exists>msg. unseal_state mac now ?cookie key ttl = Inl (state_invalid msg)"
    unfolding unseal_state_def r using a assms(8) by (auto simp: sign_def loads)
  then show ?thesis .
qed

theorem bearer_token_is_no_state_cookie_witness:
  "\<exists>msg. unseal_state demo_mac 1500 (b64url ''{\"alg\":\"HS256\",\"typ\":\"JWT\"}'' @ ''.'' @ ''eyJzdWIiOiJ4In0'' @ ''.'' @ ''c2ln'') ''k'' 600
    = Inl (state_invalid msg)"
proof -
  let ?h = "[(''alg'', VStr ''HS256''), (''typ'', VStr ''JWT'')]"
  have h: "json_object ?h = ''{\"alg\":\"HS256\",\"typ\":\"JWT\"}''" by code_simp
  have "length (json_object ?h) mod 3 = 0" unfolding h by simp
  from bearer_token_is_no_state_cookie [OF _ _ _ this, of "''eyJzdWIiOiJ4In0''" "''c2ln''" demo_mac 1500 "''k''" 600]
  show ?thesis unfolding h by (simp add: is_ascii_def)
qed

end
