(* ===== verification/OAuthFlow.thy ===== *)
theory OAuthFlow
  imports Sealing AuthRoutes
begin

text \<open>
  The OAuth extension, \<open>src/asterion/extensions/auth_oauth/\<close>: the data (\<open>dto.py\<close>, \<open>models.py\<close>),
  the claim mapper (\<open>mappers.py\<close>), the Google adapter (\<open>providers.py\<close>), the key cache (\<open>jwks.py\<close>),
  the verification of an ID token (\<open>verifier.py\<close>), the resolution of an identity to an account
  (\<open>user_provider.py\<close>), the two handlers of a provider (\<open>router.py\<close>) and the extension object
  (\<open>__init__.py\<close>).

  The HTTP client and the library \<open>jose\<close> are parameters.  \<open>now\<close> is the wall clock and \<open>tick\<close> the
  monotonic clock at a call, \<open>later\<close> the monotonic clock when a fetch returns.
\<close>

section \<open>Data\<close>

text \<open>The optional claims are copied from the token as they are, whatever their type.\<close>

record external_identity_data =
  ex_provider :: string
  ex_provider_subject :: string
  ex_email_at_provider :: pyval
  ex_email_verified :: "bool option"
  ex_name :: pyval
  ex_given_name :: pyval
  ex_family_name :: pyval
  ex_picture_url :: pyval
  ex_locale :: pyval
  ex_hosted_domain :: pyval
  ex_raw_extra :: row

record external_identity =
  ei_provider :: string
  ei_provider_subject :: string
  ei_user_id :: nat
  ei_email_at_provider :: "string option"
  ei_name :: "string option"
  ei_picture_url :: "string option"
  ei_hosted_domain :: "string option"

section \<open>Mapping the claims\<close>

definition quoted :: "string \<Rightarrow> string" where
  "quoted s = [quote] @ s @ [quote]"

definition google_typed_claims :: "string list" where
  "google_typed_claims = [''sub'', ''email'', ''email_verified'', ''name'', ''given_name'', ''family_name'',
     ''picture'', ''locale'', ''hd'']"

definition InvalidClaimsError :: exc_class where "InvalidClaimsError = OtherExc ''InvalidClaimsError''"

definition google_claim_mapper :: "row \<Rightarrow> external_identity_data res" where
  "google_claim_mapper claims = (case getattr claims ''sub'' of
     VStr sub \<Rightarrow>
       if sub = [] then Inl (PyExc InvalidClaimsError (''Google OIDC claims are missing the required '' @ quoted ''sub'' @ '' field''))
       else Inr \<lparr>ex_provider = ''google'', ex_provider_subject = sub,
         ex_email_at_provider = getattr claims ''email'',
         ex_email_verified = (case getattr claims ''email_verified'' of
             VStr t \<Rightarrow> Some (lower t = ''true'') | VBool b \<Rightarrow> Some b | _ \<Rightarrow> None),
         ex_name = getattr claims ''name'', ex_given_name = getattr claims ''given_name'',
         ex_family_name = getattr claims ''family_name'', ex_picture_url = getattr claims ''picture'',
         ex_locale = getattr claims ''locale'', ex_hosted_domain = getattr claims ''hd'',
         ex_raw_extra = filter (\<lambda>e. fst e \<notin> set google_typed_claims) claims\<rparr>
   | _ \<Rightarrow> Inl (PyExc InvalidClaimsError (''Google OIDC claims are missing the required '' @ quoted ''sub'' @ '' field'')))"

section \<open>HTTP\<close>

text \<open>What a request of the HTTP client comes to: an \<open>httpx.HTTPError\<close>, or a response with its status,
  the length of its body, the body read as JSON and its \<open>Cache-Control\<close> header.\<close>

record reply =
  rp_status :: nat
  rp_length :: int
  rp_json :: "pyval option"
  rp_cache_control :: string

datatype http_reply = HttpError string | HttpReply reply

section \<open>\<open>urllib.parse\<close>\<close>

definition unreserved :: "char \<Rightarrow> bool" where
  "unreserved c = (is_lower c \<or> is_upper c \<or> is_digit c \<or> c \<in> set ''_.-~'')"

definition quote_url :: "string \<Rightarrow> string \<Rightarrow> string" where
  "quote_url safe s = concat (map (\<lambda>c. if unreserved c \<or> c \<in> set safe then [c]
     else [CHR ''%'', upper_char (hex_char (ord c div 16)), upper_char (hex_char (ord c mod 16))]) (utf8 s))"

definition quote_plus :: "string \<Rightarrow> string" where
  "quote_plus s = map (\<lambda>c. if c = CHR '' '' then CHR ''+'' else c) (quote_url '' '' s)"

definition urlencode :: "(string \<times> string) list \<Rightarrow> string" where
  "urlencode params = join ''&'' (map (\<lambda>(k, v). quote_plus k @ ''='' @ quote_plus v) params)"

section \<open>The Google adapter\<close>

record google_provider =
  gp_id :: string
  gp_label :: string
  gp_client_id :: string
  gp_client_secret :: string
  gp_scopes :: "string list"
  gp_extra_authorize_params :: "(string \<times> string) list"

definition AUTHORIZE_ENDPOINT :: string where
  "AUTHORIZE_ENDPOINT = ''https://accounts.google.com/o/oauth2/v2/auth''"
definition TOKEN_ENDPOINT :: string where "TOKEN_ENDPOINT = ''https://oauth2.googleapis.com/token''"
definition JWKS_URI :: string where "JWKS_URI = ''https://www.googleapis.com/oauth2/v3/certs''"
definition ISSUER :: string where "ISSUER = ''https://accounts.google.com''"

definition google_provider_init ::
    "string \<Rightarrow> string \<Rightarrow> string \<Rightarrow> string \<Rightarrow> string list \<Rightarrow> (string \<times> string) list \<Rightarrow> google_provider res" where
  "google_provider_init client_id client_secret provider_id label scopes extra =
    (if client_id = [] \<or> client_secret = []
     then Inl (PyExc ValueError ''GoogleOIDCProvider requires non-empty client_id and client_secret'')
     else Inr \<lparr>gp_id = provider_id, gp_label = label, gp_client_id = client_id, gp_client_secret = client_secret,
       gp_scopes = (if scopes = [] then [''openid'', ''email'', ''profile''] else scopes),
       gp_extra_authorize_params = extra\<rparr>)"

definition set_default :: "(string \<times> string) list \<Rightarrow> string \<times> string \<Rightarrow> (string \<times> string) list" where
  "set_default params e = (if fst e \<in> fst ` set params then params else params @ [e])"

definition authorize_params ::
    "google_provider \<Rightarrow> string \<Rightarrow> string \<Rightarrow> string \<Rightarrow> string \<Rightarrow> (string \<times> string) list" where
  "authorize_params gp state nonce code_challenge redirect_uri =
     foldl set_default [(''response_type'', ''code''), (''client_id'', gp_client_id gp),
       (''redirect_uri'', redirect_uri), (''scope'', join '' '' (gp_scopes gp)), (''state'', state),
       (''nonce'', nonce), (''code_challenge'', code_challenge), (''code_challenge_method'', ''S256'')]
       (gp_extra_authorize_params gp)"

definition build_authorize_url ::
    "google_provider \<Rightarrow> string \<Rightarrow> string \<Rightarrow> string \<Rightarrow> string \<Rightarrow> string" where
  "build_authorize_url gp state nonce code_challenge redirect_uri =
     AUTHORIZE_ENDPOINT @ ''?'' @ urlencode (authorize_params gp state nonce code_challenge redirect_uri)"

definition TokenExchangeError :: exc_class where "TokenExchangeError = OtherExc ''TokenExchangeError''"

definition exchange_code ::
    "(string \<Rightarrow> row \<Rightarrow> http_reply) \<Rightarrow> google_provider \<Rightarrow> string \<Rightarrow> pyval \<Rightarrow> string \<Rightarrow> row res" where
  "exchange_code post gp code code_verifier redirect_uri =
    (case post TOKEN_ENDPOINT [(''grant_type'', VStr ''authorization_code''), (''code'', VStr code),
        (''client_id'', VStr (gp_client_id gp)), (''client_secret'', VStr (gp_client_secret gp)),
        (''redirect_uri'', VStr redirect_uri), (''code_verifier'', code_verifier)] of
       HttpError msg \<Rightarrow> Inl (PyExc TokenExchangeError (''token exchange request failed: '' @ msg))
     | HttpReply r \<Rightarrow>
       if 400 \<le> rp_status r
       then Inl (PyExc TokenExchangeError (''token endpoint returned HTTP '' @ str_nat (rp_status r)))
       else case rp_json r of
         None \<Rightarrow> Inl (PyExc TokenExchangeError ''token response was not JSON'')
       | Some payload \<Rightarrow> (case payload of
           VDict d \<Rightarrow> if ''id_token'' \<in> fst ` set d then Inr d
             else Inl (PyExc TokenExchangeError (''token response missing '' @ quoted ''id_token'' @ '' - IdP did not honour the openid scope''))
         | _ \<Rightarrow> Inl (PyExc TokenExchangeError (''token response missing '' @ quoted ''id_token'' @ '' - IdP did not honour the openid scope''))))"

section \<open>The key cache\<close>

text \<open>\<open>jc_fetches\<close> counts the fetches made: \<open>fetch uri n\<close> is what the \<open>n\<close>-th one comes to.\<close>

record jwks_client =
  jc_uri :: string
  jc_default_ttl :: int
  jc_keys :: "(string \<times> pyval) list"
  jc_valid_until :: int
  jc_fetches :: nat

type_synonym 'a jwks = "(jwks_client, 'a) proc"
type_synonym fetcher = "string \<Rightarrow> nat \<Rightarrow> http_reply"

definition MAX_JWKS_BYTES :: int where "MAX_JWKS_BYTES = 1024 * 1024"

definition JWKSFetchError :: exc_class where "JWKSFetchError = OtherExc ''JWKSFetchError''"
definition JWKSInvalidResponseError :: exc_class where
  "JWKSInvalidResponseError = OtherExc ''JWKSInvalidResponseError''"
definition JWKSKeyNotFoundError :: exc_class where "JWKSKeyNotFoundError = OtherExc ''JWKSKeyNotFoundError''"

definition is_jwks_error :: "exn \<Rightarrow> bool" where
  "is_jwks_error e = (catches JWKSFetchError e \<or> catches JWKSInvalidResponseError e \<or> catches JWKSKeyNotFoundError e)"

definition jwks_client_init :: "string \<Rightarrow> jwks_client" where
  "jwks_client_init uri = \<lparr>jc_uri = uri, jc_default_ttl = 3600, jc_keys = [], jc_valid_until = 0, jc_fetches = 0\<rparr>"

text \<open>\<open>max-age\s*=\s*(\d+)\<close>, the first match: the digits at one place, then the search over all.\<close>

definition max_age_at :: "string \<Rightarrow> string" where
  "max_age_at s = (if startswith (lower s) ''max-age''
     then let r = dropWhile is_space (drop 7 s) in
       if r \<noteq> [] \<and> hd r = CHR ''='' then takeWhile is_digit (dropWhile is_space (tl r)) else []
     else [])"

fun max_age_search :: "string \<Rightarrow> string option" where
  "max_age_search [] = None"
| "max_age_search (c # s) = (if max_age_at (c # s) \<noteq> [] then Some (max_age_at (c # s)) else max_age_search s)"

definition ttl_from_response :: "reply \<Rightarrow> int option" where
  "ttl_from_response r = Option.bind (max_age_search (rp_cache_control r)) (py_int 10)"

definition keys_of_document :: "pyval list \<Rightarrow> (string \<times> pyval) list" where
  "keys_of_document keys = foldl (\<lambda>m jwk. case jwk of
     VDict d \<Rightarrow> (case getattr d ''kid'' of VStr kid \<Rightarrow> if kid = [] then m else AList.update kid jwk m | _ \<Rightarrow> m)
   | _ \<Rightarrow> m) [] keys"

definition jwks_of_reply :: "jwks_client \<Rightarrow> reply \<Rightarrow> (string \<times> pyval) list res" where
  "jwks_of_reply c r =
    (if 400 \<le> rp_status r
     then Inl (PyExc JWKSFetchError (''JWKS endpoint returned HTTP '' @ str_nat (rp_status r) @ '' from '' @ jc_uri c))
     else if rp_length r > MAX_JWKS_BYTES
     then Inl (PyExc JWKSInvalidResponseError (''JWKS response too large: '' @ str_int (rp_length r)
       @ '' > '' @ str_int MAX_JWKS_BYTES @ '' bytes''))
     else case rp_json r of
       None \<Rightarrow> Inl (PyExc JWKSInvalidResponseError ''JWKS response is not JSON'')
     | Some document \<Rightarrow>
       (case (case document of VDict d \<Rightarrow> getattr d ''keys'' | _ \<Rightarrow> VNone) of
         VList keys \<Rightarrow>
           if keys = []
           then Inl (PyExc JWKSInvalidResponseError (''JWKS response missing or empty '' @ quoted ''keys'' @ '' array''))
           else if keys_of_document keys = []
           then Inl (PyExc JWKSInvalidResponseError (''JWKS contains no keys with a '' @ quoted ''kid'' @ '' field''))
           else Inr (keys_of_document keys)
       | _ \<Rightarrow> Inl (PyExc JWKSInvalidResponseError (''JWKS response missing or empty '' @ quoted ''keys'' @ '' array''))))"

definition jwks_ttl :: "jwks_client \<Rightarrow> reply \<Rightarrow> int" where
  "jwks_ttl c r = max (case ttl_from_response r of
     None \<Rightarrow> jc_default_ttl c | Some t \<Rightarrow> if t = 0 then jc_default_ttl c else t) 60"

definition refresh_locked :: "fetcher \<Rightarrow> int \<Rightarrow> unit jwks" where
  "refresh_locked fetch later = (\<lambda>c.
     let c1 = c\<lparr>jc_fetches := Suc (jc_fetches c)\<rparr> in
     case fetch (jc_uri c) (jc_fetches c) of
       HttpError msg \<Rightarrow> (Inl (PyExc JWKSFetchError (''JWKS fetch failed: '' @ msg)), c1)
     | HttpReply r \<Rightarrow> (case jwks_of_reply c r of
         Inl e \<Rightarrow> (Inl e, c1)
       | Inr new_map \<Rightarrow> (Inr (), c1\<lparr>jc_keys := new_map, jc_valid_until := later + jwks_ttl c r\<rparr>)))"

definition cached :: "jwks_client \<Rightarrow> int \<Rightarrow> string \<Rightarrow> bool" where
  "cached c tick kid = (tick < jc_valid_until c \<and> kid \<in> fst ` set (jc_keys c))"

definition key_of :: "string \<Rightarrow> pyval jwks" where
  "key_of kid = (\<lambda>c. case map_of (jc_keys c) kid of
     None \<Rightarrow> (Inl (PyExc JWKSKeyNotFoundError (''kid='' @ repr_str kid @ '' not present in JWKS from '' @ jc_uri c)), c)
   | Some jwk \<Rightarrow> (Inr jwk, c))"

text \<open>The part under the lock, which a second caller enters only after the first has left it.\<close>

definition get_key_locked :: "fetcher \<Rightarrow> int \<Rightarrow> int \<Rightarrow> string \<Rightarrow> pyval jwks" where
  "get_key_locked fetch tick later kid = (\<lambda>c.
     if cached c tick kid then key_of kid c
     else sbind (refresh_locked fetch later) (\<lambda>_. key_of kid) c)"

definition get_key :: "fetcher \<Rightarrow> int \<Rightarrow> int \<Rightarrow> string \<Rightarrow> pyval jwks" where
  "get_key fetch tick later kid = (\<lambda>c.
     if cached c tick kid then key_of kid c else get_key_locked fetch tick later kid c)"

section \<open>Verifying an ID token\<close>

text \<open>The library: the header of a token, and its decoding with a key, the algorithms accepted, the
  audience, the issuer and the options, at the wall clock.  Both may raise.\<close>

record id_jose =
  ij_header :: "pyval \<Rightarrow> row res"
  ij_decode :: "int \<Rightarrow> pyval \<Rightarrow> pyval \<Rightarrow> string list \<Rightarrow> string \<Rightarrow> string \<Rightarrow> row \<Rightarrow> row res"

definition ALLOWED_ALGORITHMS :: "string list" where "ALLOWED_ALGORITHMS = [''RS256'']"

definition id_token_options :: "int \<Rightarrow> row" where
  "id_token_options leeway_seconds = map (\<lambda>k. (k, VBool True)) [''verify_signature'', ''verify_aud'',
     ''verify_iat'', ''verify_exp'', ''verify_nbf'', ''verify_iss'', ''require_aud'', ''require_exp'',
     ''require_iat'', ''require_iss''] @ [(''leeway'', VInt leeway_seconds)]"

definition JWTError :: exc_class where "JWTError = OtherExc ''JWTError''"
definition JWSError :: exc_class where "JWSError = OtherExc ''JWSError''"
definition JWTClaimsError :: exc_class where "JWTClaimsError = OtherExc ''JWTClaimsError''"
definition ExpiredSignatureError :: exc_class where "ExpiredSignatureError = OtherExc ''ExpiredSignatureError''"

definition IDTokenMalformedError :: exc_class where "IDTokenMalformedError = OtherExc ''IDTokenMalformedError''"
definition IDTokenSignatureError :: exc_class where "IDTokenSignatureError = OtherExc ''IDTokenSignatureError''"
definition IDTokenExpiredError :: exc_class where "IDTokenExpiredError = OtherExc ''IDTokenExpiredError''"
definition IDTokenIssuerError :: exc_class where "IDTokenIssuerError = OtherExc ''IDTokenIssuerError''"
definition IDTokenAudienceError :: exc_class where "IDTokenAudienceError = OtherExc ''IDTokenAudienceError''"
definition IDTokenNonceError :: exc_class where "IDTokenNonceError = OtherExc ''IDTokenNonceError''"

definition is_id_token_error :: "exn \<Rightarrow> bool" where
  "is_id_token_error e = list_ex (\<lambda>c. catches c e) [IDTokenMalformedError, IDTokenSignatureError,
     IDTokenExpiredError, IDTokenIssuerError, IDTokenAudienceError, IDTokenNonceError]"

fun exn_text :: "exn \<Rightarrow> string" where
  "exn_text (PyExc c msg) = msg"
| "exn_text (HTTPExc st d h) = py_str d"

text \<open>\<open>ExpiredSignatureError\<close> and \<open>JWTClaimsError\<close> are classes of \<open>JWTError\<close>; the clauses are tried
  in this order.\<close>

definition decode_error :: "exn \<Rightarrow> exn" where
  "decode_error e = (let message = lower (exn_text e) in
     if catches ExpiredSignatureError e then PyExc IDTokenExpiredError ''ID-token has expired''
     else if catches JWTClaimsError e then
       (if contains message ''issuer'' then PyExc IDTokenIssuerError (exn_text e)
        else if contains message ''audience'' then PyExc IDTokenAudienceError (exn_text e)
        else PyExc IDTokenExpiredError (exn_text e))
     else if catches JWSError e then PyExc IDTokenSignatureError (''ID-token signature invalid: '' @ exn_text e)
     else if catches JWTError e then
       (if contains message ''signature''
        then PyExc IDTokenSignatureError (''ID-token signature invalid: '' @ exn_text e)
        else PyExc IDTokenMalformedError (''ID-token decode failed: '' @ exn_text e))
     else e)"

definition header_error :: "exn \<Rightarrow> exn" where
  "header_error e =
    (if catches JWTError e \<or> catches JWTClaimsError e \<or> catches ExpiredSignatureError e
       \<or> catches ValueError e \<or> catches TypeError e
     then PyExc IDTokenMalformedError ''could not parse ID-token header'' else e)"

definition map_error :: "(exn \<Rightarrow> exn) \<Rightarrow> 'a res \<Rightarrow> 'a res" where
  "map_error f r = (case r of Inl e \<Rightarrow> Inl (f e) | Inr x \<Rightarrow> Inr x)"

definition check_azp :: "row \<Rightarrow> string \<Rightarrow> unit res" where
  "check_azp claims audience = (case getattr claims ''aud'' of
     VList l \<Rightarrow> guard (length l \<le> 1 \<or> getattr claims ''azp'' = VStr audience)
       (PyExc IDTokenAudienceError (''ID-token has multiple audiences but '' @ quoted ''azp'' @ '' missing or mismatched''))
   | _ \<Rightarrow> Inr ())"

text \<open>\<open>isinstance(token_nonce, str) and token_nonce == nonce\<close>\<close>

definition check_nonce :: "row \<Rightarrow> pyval \<Rightarrow> unit res" where
  "check_nonce claims nonce = guard (is_VStr (getattr claims ''nonce'') \<and> getattr claims ''nonce'' = nonce)
     (PyExc IDTokenNonceError ''ID-token nonce missing or does not match'')"

definition header_kid :: "id_jose \<Rightarrow> pyval \<Rightarrow> string res" where
  "header_kid j id_token = rbind (map_error header_error (ij_header j id_token)) (\<lambda>header.
     rbind (guard (getattr header ''alg'' \<in> VStr ` set ALLOWED_ALGORITHMS)
       (PyExc IDTokenSignatureError ''ID-token algorithm not allowed'')) (\<lambda>_.
     case getattr header ''kid'' of
       VStr kid \<Rightarrow> if kid = [] then Inl (PyExc IDTokenSignatureError (''ID-token header missing '' @ quoted ''kid''))
         else Inr kid
     | _ \<Rightarrow> Inl (PyExc IDTokenSignatureError (''ID-token header missing '' @ quoted ''kid''))))"

definition signing_key :: "fetcher \<Rightarrow> int \<Rightarrow> int \<Rightarrow> string \<Rightarrow> pyval jwks" where
  "signing_key fetch tick later kid = (\<lambda>c. case get_key fetch tick later kid c of
     (Inl e, c') \<Rightarrow> (Inl (if is_jwks_error e then PyExc IDTokenSignatureError
       (''could not resolve signing key for kid='' @ repr_str kid @ '': '' @ exn_text e) else e), c')
   | (Inr jwk, c') \<Rightarrow> (Inr jwk, c'))"

definition checked_claims ::
    "id_jose \<Rightarrow> int \<Rightarrow> pyval \<Rightarrow> pyval \<Rightarrow> string \<Rightarrow> string \<Rightarrow> pyval \<Rightarrow> row res" where
  "checked_claims j now id_token jwk issuer audience nonce =
     rbind (map_error decode_error (ij_decode j now id_token jwk ALLOWED_ALGORITHMS audience issuer
       (id_token_options 60))) (\<lambda>claims.
     rbind (check_azp claims audience) (\<lambda>_.
     rbind (check_nonce claims nonce) (\<lambda>_. Inr claims)))"

definition verify_id_token ::
    "id_jose \<Rightarrow> fetcher \<Rightarrow> int \<Rightarrow> int \<Rightarrow> int \<Rightarrow> pyval \<Rightarrow> string \<Rightarrow> string \<Rightarrow> pyval \<Rightarrow> row jwks" where
  "verify_id_token j fetch now tick later id_token issuer audience nonce =
     sbind (lift_res (header_kid j id_token)) (\<lambda>kid.
     sbind (signing_key fetch tick later kid) (\<lambda>jwk.
     lift_res (checked_claims j now id_token jwk issuer audience nonce)))"

section \<open>The site\<close>

text \<open>What the handlers read and change: the accounts, the identity links, one key cache per provider
  and the count of random values drawn.\<close>

record oauth_site =
  ot_accounts :: account_db
  ot_identities :: "external_identity list"
  ot_clients :: "(string \<times> jwks_client) list"
  ot_drawn :: nat

type_synonym 'a oauth = "(oauth_site, 'a) proc"

text \<open>Tokens are texts here.  \<open>oe_flush\<close> is what the database answers to a flush, \<open>oe_post\<close> the
  HTTP client's \<open>post\<close> and \<open>oe_fetch\<close> its \<open>get\<close>.\<close>

record oauth_env =
  oe_auth :: "string auth_env"
  oe_mac :: mac
  oe_id_jose :: id_jose
  oe_post :: "string \<Rightarrow> row \<Rightarrow> http_reply"
  oe_fetch :: fetcher
  oe_flush :: "oauth_site \<Rightarrow> exn option"
  oe_auto_create_users :: bool

definition oauth_draw :: "(nat \<Rightarrow> 'a) \<Rightarrow> 'a oauth" where
  "oauth_draw f = (\<lambda>s. (Inr (f (ot_drawn s)), s\<lparr>ot_drawn := Suc (ot_drawn s)\<rparr>))"

definition oauth_flushed :: "oauth_env \<Rightarrow> unit oauth" where
  "oauth_flushed env = (\<lambda>s. (case oe_flush env s of None \<Rightarrow> Inr () | Some e \<Rightarrow> Inl e, s))"

text \<open>\<open>async with session.begin()\<close>: an exception rolls the tables back.\<close>

definition oauth_transaction :: "'a oauth \<Rightarrow> 'a oauth" where
  "oauth_transaction m = (\<lambda>s. case m s of
     (Inl e, s') \<Rightarrow> (Inl e, s'\<lparr>ot_accounts := ot_accounts s, ot_identities := ot_identities s\<rparr>)
   | (Inr x, s') \<Rightarrow> (Inr x, s'))"

section \<open>From an identity to an account\<close>

definition OAuthAutoCreateDisabledError :: exc_class where
  "OAuthAutoCreateDisabledError = OtherExc ''OAuthAutoCreateDisabledError''"
definition OAuthEmailNotVerifiedError :: exc_class where
  "OAuthEmailNotVerifiedError = OtherExc ''OAuthEmailNotVerifiedError''"
definition OAuthEmailCollisionError :: exc_class where
  "OAuthEmailCollisionError = OtherExc ''OAuthEmailCollisionError''"
definition OAuthUserInactiveError :: exc_class where
  "OAuthUserInactiveError = OtherExc ''OAuthUserInactiveError''"

definition is_capability_error :: "exn \<Rightarrow> bool" where
  "is_capability_error e = list_ex (\<lambda>c. catches c e) [OAuthAutoCreateDisabledError,
     OAuthEmailNotVerifiedError, OAuthEmailCollisionError, OAuthUserInactiveError]"

text \<open>A claim bound to a nullable text column: the driver refuses a value that is not text.\<close>

definition text_claim :: "pyval \<Rightarrow> string option res" where
  "text_claim v = (case v of VNone \<Rightarrow> Inr None | VStr t \<Rightarrow> Inr (Some t)
     | _ \<Rightarrow> Inl (PyExc (OtherExc ''DBAPIError'') ''expected str''))"

definition oauth_only_hash :: string where "oauth_only_hash = ''!oauth-only-account''"

definition new_oauth_user :: "nat \<Rightarrow> string \<Rightarrow> string option \<Rightarrow> user" where
  "new_oauth_user i email name = \<lparr>us_id = i, us_email = email, us_hashed_password = oauth_only_hash,
     us_full_name = name, us_is_active = True, us_is_superadmin = False, us_token_version = 0,
     us_password_login_disabled = False, us_totp_secret = None, us_totp_enabled = False\<rparr>"

definition create_oauth_user ::
    "oauth_env \<Rightarrow> string \<Rightarrow> string \<Rightarrow> external_identity_data \<Rightarrow> string \<Rightarrow> principal oauth" where
  "create_oauth_user env provider subject claims email =
     sbind (oauth_draw (cr_uuid4 (en_crypto (oe_auth env)))) (\<lambda>i.
     sbind (lift_res (text_claim (ex_name claims))) (\<lambda>name.
     sbind (modify (\<lambda>s. s\<lparr>ot_accounts := (ot_accounts s)\<lparr>db_users :=
         db_users (ot_accounts s) @ [new_oauth_user i email name]\<rparr>\<rparr>)) (\<lambda>_.
     sbind (oauth_flushed env) (\<lambda>_.
     sbind (lift_res (text_claim (ex_picture_url claims))) (\<lambda>picture.
     sbind (lift_res (text_claim (ex_hosted_domain claims))) (\<lambda>hd.
     sbind (modify (\<lambda>s. s\<lparr>ot_identities := ot_identities s @
         [\<lparr>ei_provider = provider, ei_provider_subject = subject, ei_user_id = i,
           ei_email_at_provider = Some email, ei_name = name, ei_picture_url = picture,
           ei_hosted_domain = hd\<rparr>]\<rparr>)) (\<lambda>_.
     sbind (oauth_flushed env) (\<lambda>_. ret (user_principal (new_oauth_user i email name))))))))))"

definition links :: "string \<Rightarrow> string \<Rightarrow> oauth_site \<Rightarrow> external_identity list" where
  "links provider subject s =
     filter (\<lambda>l. ei_provider l = provider \<and> ei_provider_subject l = subject) (ot_identities s)"

definition find_or_create_by_external_identity ::
    "oauth_env \<Rightarrow> string \<Rightarrow> string \<Rightarrow> external_identity_data \<Rightarrow> bool \<Rightarrow> principal oauth" where
  "find_or_create_by_external_identity env provider subject claims allow_create = oauth_transaction (
     sbind (gets (links provider subject)) (\<lambda>found. case found of
       [l] \<Rightarrow> sbind (gets (\<lambda>s. find_user (ei_user_id l) (ot_accounts s))) (\<lambda>user. case user of
           None \<Rightarrow> throw (PyExc OAuthAutoCreateDisabledError ''identity link references a deleted user'')
         | Some u \<Rightarrow>
           if \<not> us_is_active u
           then throw (PyExc OAuthUserInactiveError (''user '' @ uuid_str (us_id u) @ '' linked to identity is inactive''))
           else ret (user_principal u))
     | [] \<Rightarrow>
       if \<not> allow_create
       then throw (PyExc OAuthAutoCreateDisabledError (''no link for ('' @ repr_str provider @ '', ...) and allow_create=False''))
       else if ex_email_verified claims \<noteq> Some True
       then throw (PyExc OAuthEmailNotVerifiedError ''IdP did not verify the email address'')
       else if \<not> truthy (ex_email_at_provider claims)
       then throw (PyExc OAuthEmailNotVerifiedError ''IdP did not provide an email address'')
       else sbind (lift_res (text_claim (ex_email_at_provider claims))) (\<lambda>address.
         let email = the address in
         sbind (gets (\<lambda>s. find_email email (ot_accounts s))) (\<lambda>existing.
         if existing \<noteq> None
         then throw (PyExc OAuthEmailCollisionError (''email '' @ repr_str email @ '' is already taken by another user''))
         else create_oauth_user env provider subject claims email))
     | _ \<Rightarrow> throw (PyExc (OtherExc ''MultipleResultsFound'')
         ''Multiple rows were found when one or none was required'')))"

section \<open>The handlers of a provider\<close>

text \<open>The cookies and the query parameters are Starlette's dictionaries: one value for a name.\<close>

record oauth_request =
  oq_scheme :: string
  oq_base_url :: string
  oq_cookies :: "(string \<times> string) list"
  oq_query :: "(string \<times> string) list"

text \<open>What the response does to the cookie: name, value, age, and whether it is for HTTPS only.\<close>

datatype cookie_op = Set_Cookie string string int bool | Clear_Cookie string

record oauth_response =
  or_url :: string
  or_cookie :: cookie_op

definition query_or :: "oauth_request \<Rightarrow> string \<Rightarrow> string \<Rightarrow> string" where
  "query_or rq key d = (case map_of (oq_query rq) key of None \<Rightarrow> d | Some v \<Rightarrow> v)"

definition cookie_name_for_request :: "oauth_request \<Rightarrow> string" where
  "cookie_name_for_request rq = (if oq_scheme rq = ''https'' then ''__Host-asterion_oauth_state''
     else ''asterion_oauth_state'')"

definition set_state_cookie :: "oauth_request \<Rightarrow> string \<Rightarrow> cookie_op" where
  "set_state_cookie rq sealed =
     Set_Cookie (cookie_name_for_request rq) sealed STATE_TTL_SECONDS (oq_scheme rq = ''https'')"

definition clear_state_cookie :: "oauth_request \<Rightarrow> cookie_op" where
  "clear_state_cookie rq = Clear_Cookie (cookie_name_for_request rq)"

definition callback_url :: "oauth_request \<Rightarrow> string \<Rightarrow> string" where
  "callback_url rq provider_id =
     rev (dropWhile (\<lambda>c. c = CHR ''/'') (rev (oq_base_url rq))) @ ''/api/v1/oauth/'' @ provider_id @ ''/callback''"

definition code_challenge_from_verifier :: "crypto \<Rightarrow> string \<Rightarrow> string res" where
  "code_challenge_from_verifier cr verifier =
    (if is_ascii verifier then Inr (b64url (cr_sha256 cr verifier))
     else Inl (PyExc (OtherExc ''UnicodeEncodeError'') ''ordinal not in range(128)''))"

definition DEFAULT_RETURN_TO :: string where "DEFAULT_RETURN_TO = ''/admin/dashboard''"
definition LOGIN_COMPLETE_PATH :: string where "LOGIN_COMPLETE_PATH = ''/admin/login-complete''"
definition LOGIN_ERROR_PATH :: string where "LOGIN_ERROR_PATH = ''/admin/login''"

definition safe_return_to :: "oauth_request \<Rightarrow> string" where
  "safe_return_to rq =
    (let asked = query_or rq ''return_to'' [];
         return_to = (if asked = [] then DEFAULT_RETURN_TO else asked)
     in if \<not> startswith return_to ''/'' \<or> startswith return_to ''//'' then DEFAULT_RETURN_TO else return_to)"

definition oauth_login :: "oauth_env \<Rightarrow> google_provider \<Rightarrow> int \<Rightarrow> oauth_request \<Rightarrow> oauth_response oauth" where
  "oauth_login env gp now rq =
     sbind (oauth_draw (cr_token_urlsafe (en_crypto (oe_auth env)))) (\<lambda>state.
     sbind (oauth_draw (cr_token_urlsafe (en_crypto (oe_auth env)))) (\<lambda>nonce.
     sbind (oauth_draw (cr_token_urlsafe (en_crypto (oe_auth env)))) (\<lambda>code_verifier.
     sbind (lift_res (seal_state (oe_mac env) \<lparr>of_state = VStr state, of_code_verifier = VStr code_verifier,
         of_nonce = VStr nonce, of_provider_id = VStr (gp_id gp), of_return_to = VStr (safe_return_to rq),
         of_created_at = VInt now\<rparr> (js_secret_key (jwt (oe_auth env))))) (\<lambda>sealed.
     sbind (lift_res (code_challenge_from_verifier (en_crypto (oe_auth env)) code_verifier)) (\<lambda>challenge.
     ret \<lparr>or_url = build_authorize_url gp state nonce challenge (callback_url rq (gp_id gp)),
       or_cookie = set_state_cookie rq sealed\<rparr>)))))"

text \<open>\<open>try: ... except C: return fail(code)\<close>, and the early returns: a failure is its code, on the
  left of a result that is no exception.\<close>

type_synonym 'a attempt = "(string + 'a) oauth"

definition oauth_attempt :: "string \<Rightarrow> (exn \<Rightarrow> bool) \<Rightarrow> 'a oauth \<Rightarrow> 'a attempt" where
  "oauth_attempt code handles m = (\<lambda>s. case m s of
     (Inl e, s') \<Rightarrow> (if handles e then Inr (Inl code) else Inl e, s')
   | (Inr x, s') \<Rightarrow> (Inr (Inr x), s'))"

definition and_then :: "'a attempt \<Rightarrow> ('a \<Rightarrow> 'b attempt) \<Rightarrow> 'b attempt" where
  "and_then m f = sbind m (\<lambda>r. case r of Inl code \<Rightarrow> ret (Inl code) | Inr x \<Rightarrow> f x)"

definition require :: "bool \<Rightarrow> string \<Rightarrow> unit attempt" where
  "require b code = ret (if b then Inr () else Inl code)"

definition with_client :: "string \<Rightarrow> 'a jwks \<Rightarrow> 'a oauth" where
  "with_client provider_id m = (\<lambda>s. case map_of (ot_clients s) provider_id of
     None \<Rightarrow> (Inl (PyExc RuntimeError ''no JWKS client''), s)
   | Some c \<Rightarrow> (case m c of (r, c') \<Rightarrow> (r, s\<lparr>ot_clients := AList.update provider_id c' (ot_clients s)\<rparr>)))"

definition read_token_version :: "string \<Rightarrow> int oauth" where
  "read_token_version principal_id = (case uuid_parse principal_id of
     None \<Rightarrow> ret 0
   | Some i \<Rightarrow> gets (\<lambda>s. case find_user i (ot_accounts s) of None \<Rightarrow> 0 | Some u \<Rightarrow> us_token_version u))"

text \<open>\<open>create_access_token\<close> and \<open>create_refresh_token\<close> on the id of a principal, which is a text.\<close>

definition principal_token :: "oauth_env \<Rightarrow> int \<Rightarrow> string \<Rightarrow> int \<Rightarrow> int \<Rightarrow> string \<Rightarrow> string oauth" where
  "principal_token env now principal_id token_version minutes type =
     sbind (oauth_draw (cr_uuid4 (en_crypto (oe_auth env)))) (\<lambda>jti.
     ret (create_token (en_jose (oe_auth env)) (jwt (oe_auth env)) now jti
       [(''sub'', VStr principal_id), (''tkv'', VInt token_version)] (60 * minutes) type))"

definition flow_from_cookie :: "oauth_env \<Rightarrow> google_provider \<Rightarrow> int \<Rightarrow> oauth_request \<Rightarrow> oauth_flow_state attempt" where
  "flow_from_cookie env gp now rq =
     and_then (oauth_attempt ''state_invalid'' is_state_error (lift_res (unseal_state (oe_mac env) now
       (case map_of (oq_cookies rq) (cookie_name_for_request rq) of None \<Rightarrow> [] | Some c \<Rightarrow> c)
       (js_secret_key (jwt (oe_auth env))) STATE_TTL_SECONDS))) (\<lambda>flow.
     and_then (require (of_provider_id flow = VStr (gp_id gp)) ''state_invalid'') (\<lambda>_.
     and_then (require (VStr (query_or rq ''state'' []) = of_state flow) ''state_mismatch'') (\<lambda>_.
     and_then (require (query_or rq ''error'' [] = []) ''idp_error'') (\<lambda>_.
     and_then (require (query_or rq ''code'' [] \<noteq> []) ''missing_code'') (\<lambda>_. ret (Inr flow))))))"

definition identity_from_code ::
    "oauth_env \<Rightarrow> google_provider \<Rightarrow> int \<Rightarrow> int \<Rightarrow> int \<Rightarrow> oauth_request \<Rightarrow> oauth_flow_state
      \<Rightarrow> external_identity_data attempt" where
  "identity_from_code env gp now tick later rq flow =
     and_then (oauth_attempt ''token_exchange_failed'' (catches TokenExchangeError)
       (lift_res (exchange_code (oe_post env) gp (query_or rq ''code'' []) (of_code_verifier flow)
         (callback_url rq (gp_id gp))))) (\<lambda>token_response.
     and_then (\<lambda>s. require (map_of (ot_clients s) (gp_id gp) \<noteq> None) ''internal'' s) (\<lambda>_.
     and_then (oauth_attempt ''id_token_invalid'' is_id_token_error (with_client (gp_id gp)
       (verify_id_token (oe_id_jose env) (oe_fetch env) now tick later (getattr token_response ''id_token'')
         ISSUER (gp_client_id gp) (of_nonce flow)))) (\<lambda>claims.
     oauth_attempt ''claims_invalid'' (catches InvalidClaimsError) (lift_res (google_claim_mapper claims)))))"

definition sign_in :: "oauth_env \<Rightarrow> int \<Rightarrow> principal \<Rightarrow> (string \<times> string) oauth" where
  "sign_in env now p =
     sbind (read_token_version (pr_id p)) (\<lambda>v.
     sbind (principal_token env now (pr_id p) v (cf_access_token_expire_minutes (en_config (oe_auth env)))
       ACCESS_TOKEN_TYPE) (\<lambda>access.
     sbind (principal_token env now (pr_id p) v (cf_refresh_token_expire_minutes (en_config (oe_auth env)))
       REFRESH_TOKEN_TYPE) (\<lambda>renewal. ret (access, renewal))))"

text \<open>The callback up to its response: the code of a failure, or the tokens and where to go.\<close>

definition callback_result ::
    "oauth_env \<Rightarrow> google_provider \<Rightarrow> int \<Rightarrow> int \<Rightarrow> int \<Rightarrow> oauth_request \<Rightarrow> (string \<times> string \<times> pyval) attempt" where
  "callback_result env gp now tick later rq =
     and_then (flow_from_cookie env gp now rq) (\<lambda>flow.
     and_then (identity_from_code env gp now tick later rq flow) (\<lambda>identity.
     and_then (oauth_attempt ''user_resolve_failed'' is_capability_error
       (find_or_create_by_external_identity env (ex_provider identity) (ex_provider_subject identity) identity
         (oe_auto_create_users env))) (\<lambda>p.
     sbind (sign_in env now p) (\<lambda>(access, renewal). ret (Inr (access, renewal, of_return_to flow))))))"

definition fragment_target :: "string \<Rightarrow> string \<Rightarrow> string \<Rightarrow> string" where
  "fragment_target access renewal return_to = LOGIN_COMPLETE_PATH @ ''#token='' @ quote_url [] access
     @ ''&refresh='' @ quote_url [] renewal @ ''&return_to='' @ quote_url ''/'' return_to"

definition oauth_callback ::
    "oauth_env \<Rightarrow> google_provider \<Rightarrow> int \<Rightarrow> int \<Rightarrow> int \<Rightarrow> oauth_request \<Rightarrow> oauth_response oauth" where
  "oauth_callback env gp now tick later rq =
     sbind (callback_result env gp now tick later rq) (\<lambda>r. case r of
       Inl code \<Rightarrow> ret \<lparr>or_url = LOGIN_ERROR_PATH @ ''?'' @ urlencode [(''oauth_error'', code)],
         or_cookie = clear_state_cookie rq\<rparr>
     | Inr (access, renewal, return_to) \<Rightarrow> (case return_to of
         VStr target \<Rightarrow> ret \<lparr>or_url = fragment_target access renewal target, or_cookie = clear_state_cookie rq\<rparr>
       | _ \<Rightarrow> throw (PyExc TypeError ''quote_from_bytes() expected bytes'')))"

section \<open>The extension\<close>

definition oauth_permission_keys :: "string list" where
  "oauth_permission_keys = [''oauth.identities.list'', ''oauth.identities.unlink'']"

definition api_base_from_auth_prefix :: "string \<Rightarrow> string" where
  "api_base_from_auth_prefix prefix = (if endswith prefix ''/auth''
     then (let base = take (length prefix - 5) prefix in if base = [] then ''/'' else base) else prefix)"

record oauth_extension =
  ox_providers :: "google_provider list"
  ox_auto_create_users :: bool
  ox_cached_auth_prefix :: string

fun duplicate_provider :: "string list \<Rightarrow> google_provider list \<Rightarrow> string option" where
  "duplicate_provider seen [] = None"
| "duplicate_provider seen (gp # gps) =
    (if gp_id gp \<in> set seen then Some (gp_id gp) else duplicate_provider (gp_id gp # seen) gps)"

definition oauth_extension_init :: "google_provider list \<Rightarrow> bool \<Rightarrow> oauth_extension res" where
  "oauth_extension_init providers auto_create =
    (case duplicate_provider [] providers of
       Some i \<Rightarrow> Inl (PyExc ValueError (''OAuthExtension: duplicate provider id '' @ repr_str i))
     | None \<Rightarrow> Inr \<lparr>ox_providers = providers, ox_auto_create_users = auto_create,
         ox_cached_auth_prefix = ''/api/v1/auth''\<rparr>)"

definition oauth_configure :: "string \<Rightarrow> oauth_extension \<Rightarrow> oauth_extension" where
  "oauth_configure auth_api_prefix x = x\<lparr>ox_cached_auth_prefix := auth_api_prefix\<rparr>"

definition login_url :: "oauth_extension \<Rightarrow> google_provider \<Rightarrow> string" where
  "login_url x gp = api_base_from_auth_prefix (ox_cached_auth_prefix x) @ ''/oauth/'' @ gp_id gp @ ''/login''"

definition oauth_contribution :: "oauth_extension \<Rightarrow> pyval" where
  "oauth_contribution x = VDict [(''providers'', VList (map (\<lambda>gp. VDict [(''id'', VStr (gp_id gp)),
     (''label'', VStr (gp_label gp)), (''login_url'', VStr (login_url x gp))]) (ox_providers x)))]"

text \<open>The paths the extension mounts, with the provider and whether it is the callback.\<close>

definition oauth_routes :: "oauth_extension \<Rightarrow> (string \<times> google_provider \<times> bool) list" where
  "oauth_routes x = concat (map (\<lambda>gp. map (\<lambda>(tail, is_callback).
     (api_base_from_auth_prefix (ox_cached_auth_prefix x) @ ''/oauth/'' @ gp_id gp @ tail, gp, is_callback))
     [(''/login'', False), (''/callback'', True)]) (ox_providers x))"

definition oauth_startup :: "oauth_extension \<Rightarrow> oauth_site \<Rightarrow> oauth_site" where
  "oauth_startup x s = s\<lparr>ot_clients := map (\<lambda>gp. (gp_id gp, jwks_client_init JWKS_URI)) (ox_providers x)\<rparr>"

definition oauth_shutdown :: "oauth_site \<Rightarrow> oauth_site" where
  "oauth_shutdown s = s\<lparr>ot_clients := []\<rparr>"

end
