(* ===== verification/OAuthSafety.thy ===== *)
theory OAuthSafety
  imports OAuthFlow AuthRuns
begin

text \<open>
  What the OAuth flow promises: a sign-in belongs to the flow this server started, at most ten
  minutes ago, with the same provider; it signs in the account its identity is linked to, or a new
  ordinary account, and never changes an existing one; a flow that was started can be completed;
  signing keys are fresh and a fetch is shared.
\<close>

section \<open>Attempts\<close>

named_theorems attempt_simps \<open>when an attempt succeeds\<close>
named_theorems table_intros \<open>operations that leave the tables alone\<close>

lemma and_then_Inr [attempt_simps]:
  "and_then m f s = (Inr (Inr y), s') \<longleftrightarrow> (\<exists>x s1. m s = (Inr (Inr x), s1) \<and> f x s1 = (Inr (Inr y), s'))"
  by (auto simp: and_then_def sbind_app proc_simps split: prod.split sum.split)

lemma attempt_Inr [attempt_simps]: "oauth_attempt code h m s = (Inr (Inr x), s') \<longleftrightarrow> m s = (Inr x, s')"
  by (auto simp: oauth_attempt_def split: prod.splits sum.splits if_splits)

lemma require_Inr [attempt_simps]: "require b code s = (Inr (Inr x), s') \<longleftrightarrow> b \<and> s' = s"
  by (auto simp: require_def)

definition tables :: "oauth_site \<Rightarrow> account_db \<times> external_identity list" where
  "tables s = (ot_accounts s, ot_identities s)"

definition spares_tables :: "'a oauth \<Rightarrow> bool" where
  "spares_tables m = (\<forall>s. tables (snd (m s)) = tables s)"

lemma spares_simple [table_intros]:
  "spares_tables (ret x)" "spares_tables (throw e)" "spares_tables (lift_res r)" "spares_tables (gets g)"
  "spares_tables (oauth_draw d)" "spares_tables (require b code)"
  by (simp_all add: spares_tables_def proc_simps oauth_draw_def tables_def require_def)

lemma spares_sbind [table_intros]:
  assumes "spares_tables m" "\<And>x. spares_tables (f x)"
  shows "spares_tables (sbind m f)"
proof -
  have "tables (snd (sbind m f s)) = tables s" for s
    using assms(1) [unfolded spares_tables_def, rule_format, of s] assms(2) [unfolded spares_tables_def, rule_format]
    by (auto simp: sbind_app split: prod.splits sum.splits)
  then show ?thesis by (simp add: spares_tables_def)
qed

lemma spares_and_then [table_intros]:
  assumes "spares_tables m" "\<And>x. spares_tables (f x)"
  shows "spares_tables (and_then m f)"
  unfolding and_then_def by (rule spares_sbind [OF assms(1)]) (auto intro: assms(2) table_intros split: sum.split)

lemma spares_attempt [table_intros]: "spares_tables m \<Longrightarrow> spares_tables (oauth_attempt code h m)"
  by (auto simp: spares_tables_def oauth_attempt_def split: prod.splits sum.splits) (metis snd_conv)+

lemma spares_with_client [table_intros]: "spares_tables (with_client i m)"
  by (auto simp: spares_tables_def with_client_def tables_def split: option.splits prod.splits)

lemma spares_read_version [table_intros]: "spares_tables (read_token_version i)"
  unfolding read_token_version_def by (auto intro: table_intros split: option.split)

lemma spares_flow [table_intros]: "spares_tables (flow_from_cookie env gp now rq)"
  unfolding flow_from_cookie_def by (intro table_intros)

lemma spares_identity [table_intros]: "spares_tables (identity_from_code env gp now tick later rq flow)"
proof -
  have "spares_tables (\<lambda>s. require (map_of (ot_clients s) (gp_id gp) \<noteq> None) ''internal'' s)"
    by (simp add: spares_tables_def require_def proc_simps)
  then show ?thesis unfolding identity_from_code_def by (intro table_intros)
qed

lemma spares_sign_in [table_intros]: "spares_tables (sign_in env now p)"
  unfolding sign_in_def principal_token_def by (intro table_intros)

lemma spares_run: "spares_tables m \<Longrightarrow> m s = (r, s') \<Longrightarrow> tables s' = tables s"
  by (metis spares_tables_def snd_conv)

section \<open>From an identity to an account\<close>

text \<open>The row a first sign-in creates, and the link to it; then the account an identity leads to, and
  the tables afterwards.\<close>

definition creates :: "oauth_env \<Rightarrow> external_identity_data \<Rightarrow> oauth_site \<Rightarrow> user \<Rightarrow> external_identity \<Rightarrow> bool" where
  "creates env identity s u l \<longleftrightarrow>
     (\<exists>email. ex_email_at_provider identity = VStr email \<and> email \<noteq> [] \<and> ex_email_verified identity = Some True
        \<and> find_email email (ot_accounts s) = None
        \<and> links (ex_provider identity) (ex_provider_subject identity) s = []
        \<and> us_email u = email \<and> ei_email_at_provider l = Some email)
     \<and> (\<exists>n. us_id u = cr_uuid4 (en_crypto (oe_auth env)) n) \<and> us_hashed_password u = oauth_only_hash
     \<and> us_is_active u \<and> \<not> us_is_superadmin u \<and> us_token_version u = 0
     \<and> ei_provider l = ex_provider identity \<and> ei_provider_subject l = ex_provider_subject identity
     \<and> ei_user_id l = us_id u"

definition resolves :: "oauth_env \<Rightarrow> external_identity_data \<Rightarrow> bool \<Rightarrow> oauth_site \<Rightarrow> user \<Rightarrow> oauth_site \<Rightarrow> bool" where
  "resolves env identity allow_create s u s' \<longleftrightarrow>
     (\<exists>l. links (ex_provider identity) (ex_provider_subject identity) s = [l]
        \<and> find_user (ei_user_id l) (ot_accounts s) = Some u \<and> us_is_active u \<and> tables s' = tables s)
     \<or> (allow_create \<and> (\<exists>l. creates env identity s u l
          \<and> ot_accounts s' = (ot_accounts s)\<lparr>db_users := db_users (ot_accounts s) @ [u]\<rparr>
          \<and> ot_identities s' = ot_identities s @ [l]))"

lemma resolves_tables:
  assumes "tables s1 = tables s" "tables s' = tables s2"
  shows "resolves env identity b s1 u s2 = resolves env identity b s u s'"
proof -
  have "ot_accounts s1 = ot_accounts s" "ot_identities s1 = ot_identities s"
    "ot_accounts s2 = ot_accounts s'" "ot_identities s2 = ot_identities s'" using assms by (simp_all add: tables_def)
  then show ?thesis by (simp add: resolves_def creates_def links_def tables_def)
qed

lemma resolves_id:
  assumes "resolves env identity b s u s'" "\<And>n. cr_uuid4 (en_crypto (oe_auth env)) n < 2 ^ 128"
    "list_all (\<lambda>u. us_id u < 2 ^ 128) (db_users (ot_accounts s))"
  shows "us_id u < 2 ^ 128"
  using assms by (auto simp: resolves_def creates_def find_user_def find_Some_iff list_all_iff)

lemma oauth_transaction_Inr: "oauth_transaction m s = (Inr x, s') \<longleftrightarrow> m s = (Inr x, s')"
  by (auto simp: oauth_transaction_def split: prod.splits sum.splits)

lemma oauth_transaction_Inl: "oauth_transaction m s = (Inl e, s') \<Longrightarrow> tables s' = tables s"
  by (auto simp: oauth_transaction_def tables_def split: prod.splits sum.splits)

lemma oauth_flushed_Inr: "oauth_flushed env s = (Inr x, s') \<longleftrightarrow> s' = s \<and> oe_flush env s = None"
  by (auto simp: oauth_flushed_def split: option.splits)

lemma oauth_draw_run [simp]: "oauth_draw f s = (Inr (f (ot_drawn s)), s\<lparr>ot_drawn := Suc (ot_drawn s)\<rparr>)"
  by (simp add: oauth_draw_def)

lemma create_oauth_user_Inr:
  assumes "create_oauth_user env provider subject claims email s = (Inr p, s')"
  obtains name picture hd where "p = user_principal (new_oauth_user (cr_uuid4 (en_crypto (oe_auth env)) (ot_drawn s)) email name)"
    "s' = s\<lparr>ot_drawn := Suc (ot_drawn s),
        ot_accounts := (ot_accounts s)\<lparr>db_users := db_users (ot_accounts s)
          @ [new_oauth_user (cr_uuid4 (en_crypto (oe_auth env)) (ot_drawn s)) email name]\<rparr>,
        ot_identities := ot_identities s @ [\<lparr>ei_provider = provider, ei_provider_subject = subject,
          ei_user_id = cr_uuid4 (en_crypto (oe_auth env)) (ot_drawn s), ei_email_at_provider = Some email,
          ei_name = name, ei_picture_url = picture, ei_hosted_domain = hd\<rparr>]\<rparr>"
  using assms by (auto simp: create_oauth_user_def res_simps oauth_flushed_Inr)

lemma find_or_create_Inr:
  fixes identity :: external_identity_data
  defines "provider \<equiv> ex_provider identity" and "subject \<equiv> ex_provider_subject identity"
  assumes "find_or_create_by_external_identity env provider subject identity allow_create s = (Inr p, s')"
  shows "\<exists>u. p = user_principal u \<and> resolves env identity allow_create s u s'"
proof (cases "links provider subject s")
  case Nil
  then obtain email where e: "allow_create" "ex_email_verified identity = Some True" "truthy (ex_email_at_provider identity)"
      "ex_email_at_provider identity = VStr email" "find_email email (ot_accounts s) = None"
      "create_oauth_user env provider subject identity email s = (Inr p, s')"
    using assms(3) by (auto simp: find_or_create_by_external_identity_def oauth_transaction_Inr sbind_app proc_simps
        text_claim_def split: if_splits pyval.splits)
  from create_oauth_user_Inr [OF e(6)] obtain name picture hd where c:
    "p = user_principal (new_oauth_user (cr_uuid4 (en_crypto (oe_auth env)) (ot_drawn s)) email name)"
    "s' = s\<lparr>ot_drawn := Suc (ot_drawn s),
        ot_accounts := (ot_accounts s)\<lparr>db_users := db_users (ot_accounts s)
          @ [new_oauth_user (cr_uuid4 (en_crypto (oe_auth env)) (ot_drawn s)) email name]\<rparr>,
        ot_identities := ot_identities s @ [\<lparr>ei_provider = provider, ei_provider_subject = subject,
          ei_user_id = cr_uuid4 (en_crypto (oe_auth env)) (ot_drawn s), ei_email_at_provider = Some email,
          ei_name = name, ei_picture_url = picture, ei_hosted_domain = hd\<rparr>]\<rparr>" by blast
  show ?thesis
    using e c Nil by (intro exI conjI) (auto simp: resolves_def creates_def new_oauth_user_def provider_def subject_def)
next
  case (Cons l ls)
  then show ?thesis
    using assms(3) by (cases ls) (auto simp: find_or_create_by_external_identity_def oauth_transaction_Inr sbind_app
        proc_simps resolves_def provider_def subject_def split: option.splits if_splits)
qed

lemma find_or_create_Inl:
  "find_or_create_by_external_identity env provider subject claims b s = (Inl e, s') \<Longrightarrow> tables s' = tables s"
  unfolding find_or_create_by_external_identity_def by (rule oauth_transaction_Inl)

section \<open>A sign-in belongs to a flow of this server\<close>

definition state_cookie :: "oauth_request \<Rightarrow> string" where
  "state_cookie rq = (case map_of (oq_cookies rq) (cookie_name_for_request rq) of None \<Rightarrow> [] | Some c \<Rightarrow> c)"

definition started_here :: "oauth_env \<Rightarrow> google_provider \<Rightarrow> int \<Rightarrow> oauth_request \<Rightarrow> oauth_flow_state \<Rightarrow> bool" where
  "started_here env gp now rq flow \<longleftrightarrow>
     (\<exists>body text data t. state_cookie rq = body @ ''.'' @ b64url (oe_mac env (utf8 (js_secret_key (jwt (oe_auth env)))) body)
        \<and> Option.bind (b64url_decode (padded body)) utf8_decode = Some text \<and> json_loads text = Some data
        \<and> flow_of data = Some flow \<and> seconds (of_created_at flow) = Some t \<and> t \<le> now \<and> now \<le> t + STATE_TTL_SECONDS)
     \<and> of_provider_id flow = VStr (gp_id gp) \<and> of_state flow = VStr (query_or rq ''state'' [])
     \<and> query_or rq ''error'' [] = [] \<and> query_or rq ''code'' [] \<noteq> []"

lemma flow_from_cookie_Inr:
  assumes "flow_from_cookie env gp now rq s = (Inr (Inr flow), s')"
  shows "started_here env gp now rq flow \<and> s' = s"
proof -
  have u: "unseal_state (oe_mac env) now (state_cookie rq) (js_secret_key (jwt (oe_auth env))) STATE_TTL_SECONDS = Inr flow"
    and q: "of_provider_id flow = VStr (gp_id gp)" "VStr (query_or rq ''state'' []) = of_state flow"
      "query_or rq ''error'' [] = []" "query_or rq ''code'' [] \<noteq> []" "s' = s"
    using assms by (auto simp: flow_from_cookie_def attempt_simps state_cookie_def)
  show ?thesis using opened_state [OF u] q by (auto simp: started_here_def)
qed

lemma map_error_Inr [simp]: "map_error f r = Inr x \<longleftrightarrow> r = Inr x"
  by (auto simp: map_error_def split: sum.splits)

lemma checked_claims_Inr:
  "checked_claims j now tok jwk iss aud nonce = Inr claims \<longleftrightarrow>
     ij_decode j now tok jwk ALLOWED_ALGORITHMS aud iss (id_token_options 60) = Inr claims
     \<and> check_azp claims aud = Inr () \<and> is_VStr (getattr claims ''nonce'') \<and> getattr claims ''nonce'' = nonce"
  by (auto simp: checked_claims_def res_simps check_nonce_def)

lemma signing_key_Inr:
  "signing_key fetch tick later kid c = (Inr jwk, c') \<longleftrightarrow> get_key fetch tick later kid c = (Inr jwk, c')"
  by (auto simp: signing_key_def split: prod.split sum.split)

lemma with_client_Inr:
  "with_client i m s = (Inr x, s') \<longleftrightarrow> (\<exists>c c'. map_of (ot_clients s) i = Some c \<and> m c = (Inr x, c')
     \<and> s' = s\<lparr>ot_clients := AList.update i c' (ot_clients s)\<rparr>)"
  by (auto simp: with_client_def split: option.split prod.split)

lemma verify_id_token_Inr:
  assumes "verify_id_token j fetch now tick later tok iss aud nonce c = (Inr claims, c')"
  obtains kid jwk where "header_kid j tok = Inr kid" "get_key fetch tick later kid c = (Inr jwk, c')"
    "checked_claims j now tok jwk iss aud nonce = Inr claims"
  using assms by (auto simp: verify_id_token_def res_simps signing_key_Inr lift_res_Inr simp del: run_eq_simps(3))

text \<open>The evidence a sign-in rests on: the answer of the token endpoint to the code and the verifier of
  the flow, the header of the ID token in it, the key of that header from the provider's key set, the
  claims the library decodes with it, and their nonce.\<close>

definition vouched :: "oauth_env \<Rightarrow> google_provider \<Rightarrow> int \<Rightarrow> int \<Rightarrow> int \<Rightarrow> oauth_request \<Rightarrow> oauth_flow_state
    \<Rightarrow> oauth_site \<Rightarrow> row \<Rightarrow> bool" where
  "vouched env gp now tick later rq flow s claims \<longleftrightarrow>
     (\<exists>answer kid jwk c c'. exchange_code (oe_post env) gp (query_or rq ''code'' []) (of_code_verifier flow)
          (callback_url rq (gp_id gp)) = Inr answer
        \<and> map_of (ot_clients s) (gp_id gp) = Some c \<and> get_key (oe_fetch env) tick later kid c = (Inr jwk, c')
        \<and> header_kid (oe_id_jose env) (getattr answer ''id_token'') = Inr kid
        \<and> ij_decode (oe_id_jose env) now (getattr answer ''id_token'') jwk ALLOWED_ALGORITHMS (gp_client_id gp)
            ISSUER (id_token_options 60) = Inr claims
        \<and> check_azp claims (gp_client_id gp) = Inr ()
        \<and> is_VStr (getattr claims ''nonce'') \<and> getattr claims ''nonce'' = of_nonce flow)"

lemma identity_from_code_Inr:
  assumes "identity_from_code env gp now tick later rq flow s = (Inr (Inr identity), s')"
  shows "\<exists>claims. vouched env gp now tick later rq flow s claims \<and> google_claim_mapper claims = Inr identity"
proof -
  obtain answer claims c c' where a:
    "exchange_code (oe_post env) gp (query_or rq ''code'' []) (of_code_verifier flow) (callback_url rq (gp_id gp)) = Inr answer"
    "map_of (ot_clients s) (gp_id gp) = Some c"
    "verify_id_token (oe_id_jose env) (oe_fetch env) now tick later (getattr answer ''id_token'') ISSUER
       (gp_client_id gp) (of_nonce flow) c = (Inr claims, c')"
    "google_claim_mapper claims = Inr identity"
    using assms by (auto simp: identity_from_code_def attempt_simps with_client_Inr lift_res_Inr simp del: run_eq_simps(3))
  from verify_id_token_Inr [OF a(3)] obtain kid jwk where
    "header_kid (oe_id_jose env) (getattr answer ''id_token'') = Inr kid"
    "get_key (oe_fetch env) tick later kid c = (Inr jwk, c')"
    "checked_claims (oe_id_jose env) now (getattr answer ''id_token'') jwk ISSUER (gp_client_id gp) (of_nonce flow) = Inr claims"
    by blast
  then show ?thesis using a by (auto simp: vouched_def checked_claims_Inr)
qed

definition signed_in :: "oauth_response \<Rightarrow> bool" where
  "signed_in resp = startswith (or_url resp) LOGIN_COMPLETE_PATH"

lemma signed_in_result:
  assumes "oauth_callback env gp now tick later rq s = (Inr resp, s')" "signed_in resp"
  obtains access renewal target where
    "callback_result env gp now tick later rq s = (Inr (Inr (access, renewal, VStr target)), s')"
    "resp = \<lparr>or_url = fragment_target access renewal target, or_cookie = clear_state_cookie rq\<rparr>"
proof -
  have "\<not> startswith (LOGIN_ERROR_PATH @ ''?'' @ x) LOGIN_COMPLETE_PATH" for x
    by (simp add: LOGIN_ERROR_PATH_def LOGIN_COMPLETE_PATH_def)
  note error = this
  obtain r s1 where r: "callback_result env gp now tick later rq s = (r, s1)" by (cases "callback_result env gp now tick later rq s")
  show ?thesis
  proof (cases r)
    case (Inr x)
    show ?thesis
    proof (cases x)
      case (Inl code)
      then show ?thesis using assms r Inr error by (auto simp: oauth_callback_def signed_in_def sbind_app)
    next
      case (Inr y)
      obtain access renewal t where y: "y = (access, renewal, t)" by (cases y)
      have c: "(case t of VStr target \<Rightarrow> ret \<lparr>or_url = fragment_target access renewal target, or_cookie = clear_state_cookie rq\<rparr>
          | _ \<Rightarrow> throw (PyExc TypeError ''quote_from_bytes() expected bytes'')) s1 = (Inr resp, s')"
        using assms(1) r \<open>r = Inr x\<close> Inr y by (simp add: oauth_callback_def sbind_app)
      show ?thesis
      proof (cases t)
        case (VStr target)
        then show ?thesis using c r \<open>r = Inr x\<close> Inr y by (intro that) simp_all
      qed (use c in simp_all)
    qed
  qed (use assms(1) r in \<open>simp add: oauth_callback_def sbind_app\<close>)
qed

lemma callback_result_Inr:
  assumes "callback_result env gp now tick later rq s = (Inr (Inr (access, renewal, target)), s')"
  obtains flow claims identity u s1 s2 where "started_here env gp now rq flow"
    "vouched env gp now tick later rq flow s claims" "google_claim_mapper claims = Inr identity"
    "tables s1 = tables s" "target = of_return_to flow"
    "resolves env identity (oe_auto_create_users env) s1 u s2"
    "sign_in env now (user_principal u) s2 = (Inr (access, renewal), s')"
proof -
  obtain flow identity p s0 s1 s2 where a: "flow_from_cookie env gp now rq s = (Inr (Inr flow), s0)"
    "identity_from_code env gp now tick later rq flow s0 = (Inr (Inr identity), s1)"
    "find_or_create_by_external_identity env (ex_provider identity) (ex_provider_subject identity) identity
       (oe_auto_create_users env) s1 = (Inr p, s2)"
    "sign_in env now p s2 = (Inr (access, renewal), s')" "target = of_return_to flow"
    using assms by (auto simp: callback_result_def attempt_simps res_simps split: prod.splits)
  have f: "started_here env gp now rq flow" "s0 = s" using flow_from_cookie_Inr [OF a(1)] by auto
  obtain claims where c: "vouched env gp now tick later rq flow s claims" "google_claim_mapper claims = Inr identity"
    using identity_from_code_Inr [OF a(2)] f(2) by blast
  have t: "tables s1 = tables s" using spares_run [OF spares_identity a(2)] f(2) by simp
  obtain u where "p = user_principal u"
    "resolves env identity (oe_auto_create_users env) s1 u s2"
    using find_or_create_Inr [OF a(3)] by blast
  then show ?thesis using that [OF f(1) c t a(5)] a(4) by blast
qed

text \<open>C4: A callback signs somebody in only where the cookie it came with carries this server's code
  over its content, is at most ten minutes old and names this provider, the state parameter is the
  cookie's, the identity provider reported no error, the code was redeemed with the verifier of the
  cookie, and the ID token in the answer verified under the key its header names, for this client and
  issuer, with the nonce of the cookie; the cookie is then cleared.\<close>

theorem oauth_sign_in_is_bound_to_its_flow:
  assumes "oauth_callback env gp now tick later rq s = (Inr resp, s')" "signed_in resp"
  shows "\<exists>flow claims. started_here env gp now rq flow \<and> vouched env gp now tick later rq flow s claims
    \<and> or_cookie resp = Clear_Cookie (cookie_name_for_request rq)"
proof -
  from signed_in_result [OF assms] obtain access renewal target where
    r: "callback_result env gp now tick later rq s = (Inr (Inr (access, renewal, VStr target)), s')"
      "resp = \<lparr>or_url = fragment_target access renewal target, or_cookie = clear_state_cookie rq\<rparr>" by blast
  from callback_result_Inr [OF r(1)] obtain flow claims where
    "started_here env gp now rq flow" "vouched env gp now tick later rq flow s claims" by blast
  then show ?thesis using r(2) by (auto simp: clear_state_cookie_def)
qed

section \<open>No account is taken over\<close>

text \<open>The tokens a sign-in hands out.\<close>

definition tokens_of :: "oauth_env \<Rightarrow> int \<Rightarrow> user \<Rightarrow> int \<Rightarrow> string \<Rightarrow> string \<Rightarrow> bool" where
  "tokens_of env now u version access renewal \<longleftrightarrow>
     (\<exists>jti1 jti2. access = create_access_token (en_jose (oe_auth env)) (jwt (oe_auth env)) now jti1 (us_id u)
          (cf_access_token_expire_minutes (en_config (oe_auth env))) version
        \<and> renewal = create_refresh_token (en_jose (oe_auth env)) (jwt (oe_auth env)) now jti2 (us_id u)
          (cf_refresh_token_expire_minutes (en_config (oe_auth env))) version)"

definition version_of :: "nat \<Rightarrow> oauth_site \<Rightarrow> int" where
  "version_of i s = (case find_user i (ot_accounts s) of None \<Rightarrow> 0 | Some u \<Rightarrow> us_token_version u)"

lemma sign_in_Inr:
  assumes "sign_in env now (user_principal u) s = (Inr (access, renewal), s')" "us_id u < 2 ^ 128"
  shows "tokens_of env now u (version_of (us_id u) s) access renewal"
  using assms
  by (auto simp: sign_in_def read_token_version_def principal_token_def user_principal_def uuid_parse_str res_simps
      tokens_of_def version_of_def create_access_token_def create_refresh_token_def)

lemma sign_in_total: "\<exists>access renewal s2. sign_in env now p s = (Inr (access, renewal), s2)"
  by (cases "uuid_parse (pr_id p)")
    (simp_all add: sign_in_def read_token_version_def principal_token_def sbind_app proc_simps)

lemma callback_failed:
  assumes "callback_result env gp now tick later rq s = (r, s')" "\<And>x. r \<noteq> Inr (Inr x)"
  shows "tables s' = tables s"
proof -
  have a: "tables s' = tables s0" if f: "and_then (oauth_attempt ''user_resolve_failed'' is_capability_error
       (find_or_create_by_external_identity env (ex_provider identity) (ex_provider_subject identity) identity
         (oe_auto_create_users env))) (\<lambda>p. sbind (sign_in env now p) (\<lambda>(access, renewal). ret (Inr (access, renewal, t)))) s0
       = (r, s')" for identity s0 t
  proof -
    obtain q s1 where q: "find_or_create_by_external_identity env (ex_provider identity) (ex_provider_subject identity)
        identity (oe_auto_create_users env) s0 = (q, s1)" by fastforce
    show ?thesis
    proof (cases q)
      case (Inl e)
      then show ?thesis
        using f q find_or_create_Inl [OF q [unfolded Inl]]
        by (auto simp: and_then_def oauth_attempt_def sbind_app proc_simps split: if_splits)
    next
      case (Inr p)
      obtain access renewal s2 where "sign_in env now p s1 = (Inr (access, renewal), s2)"
        using sign_in_total by blast
      then have "r = Inr (Inr (access, renewal, t))"
        using f q Inr by (simp add: and_then_def oauth_attempt_def sbind_app proc_simps)
      then show ?thesis using assms(2) by blast
    qed
  qed
  have b: "tables s' = tables s0" if f: "and_then (identity_from_code env gp now tick later rq flow) (\<lambda>identity.
     and_then (oauth_attempt ''user_resolve_failed'' is_capability_error
       (find_or_create_by_external_identity env (ex_provider identity) (ex_provider_subject identity) identity
         (oe_auto_create_users env))) (\<lambda>p. sbind (sign_in env now p) (\<lambda>(access, renewal). ret (Inr (access, renewal, t))))) s0
     = (r, s')" for flow t s0
  proof -
    obtain q s1 where q: "identity_from_code env gp now tick later rq flow s0 = (q, s1)" by fastforce
    have k: "tables s1 = tables s0" by (rule spares_run [OF spares_identity q])
    show ?thesis
      using f q k a by (auto simp: and_then_def sbind_app proc_simps split: sum.splits)
  qed
  obtain q s1 where q: "flow_from_cookie env gp now rq s = (q, s1)" by fastforce
  have k: "tables s1 = tables s" by (rule spares_run [OF spares_flow q])
  show ?thesis
    using assms(1) q k b by (auto simp: callback_result_def and_then_def [of "flow_from_cookie env gp now rq"]
        sbind_app proc_simps split: sum.splits)
qed


section \<open>A flow that was started can be completed\<close>

lemma startswith_slash: "startswith (safe_return_to rq) ''/'' \<and> \<not> startswith (safe_return_to rq) ''//''"
  by (simp add: safe_return_to_def Let_def DEFAULT_RETURN_TO_def)

text \<open>The flow the login handler starts in a state.\<close>

definition new_flow :: "oauth_env \<Rightarrow> google_provider \<Rightarrow> int \<Rightarrow> oauth_request \<Rightarrow> oauth_site \<Rightarrow> oauth_flow_state" where
  "new_flow env gp now rq s = (let r = (\<lambda>n. VStr (cr_token_urlsafe (en_crypto (oe_auth env)) n)); n = ot_drawn s in
     \<lparr>of_state = r n, of_code_verifier = r (n + 2), of_nonce = r (n + 1), of_provider_id = VStr (gp_id gp),
      of_return_to = VStr (safe_return_to rq), of_created_at = VInt now\<rparr>)"

lemma new_flow_plain: "plain_flow (new_flow env gp now rq s) now"
  by (simp add: plain_flow_def new_flow_def Let_def)

lemma oauth_login_Inr:
  assumes "oauth_login env gp now rq s = (Inr resp, s')"
  obtains sealed challenge where
    "seal_state (oe_mac env) (new_flow env gp now rq s) (js_secret_key (jwt (oe_auth env))) = Inr sealed"
    "or_cookie resp = Set_Cookie (cookie_name_for_request rq) sealed STATE_TTL_SECONDS (oq_scheme rq = ''https'')"
    "code_challenge_from_verifier (en_crypto (oe_auth env)) (cr_token_urlsafe (en_crypto (oe_auth env)) (ot_drawn s + 2)) = Inr challenge"
    "or_url resp = build_authorize_url gp (cr_token_urlsafe (en_crypto (oe_auth env)) (ot_drawn s))
      (cr_token_urlsafe (en_crypto (oe_auth env)) (ot_drawn s + 1)) challenge (callback_url rq (gp_id gp))"
    "s' = s\<lparr>ot_drawn := ot_drawn s + 3\<rparr>"
proof -
  note lift = lift_res_Inr
  from assms show ?thesis
    by (auto simp: oauth_login_def res_simps lift new_flow_def Let_def set_state_cookie_def numeral_2_eq_2
        numeral_3_eq_3 simp del: run_eq_simps(3) intro: that)
qed

lemma flow_comes_back:
  assumes "oauth_login env gp now rq s = (Inr resp, s1)" "or_cookie resp = Set_Cookie name sealed age secure"
    "oq_cookies back = [(name, sealed)]" "oq_scheme back = oq_scheme rq"
    "query_or back ''error'' [] = []" "query_or back ''code'' [] \<noteq> []"
  shows "fst (flow_from_cookie env gp t back s2) =
    (if t < now \<or> now + age < t then Inr (Inl ''state_invalid'')
     else if VStr (query_or back ''state'' []) \<noteq> of_state (new_flow env gp now rq s) then Inr (Inl ''state_mismatch'')
     else Inr (Inr (new_flow env gp now rq s)))"
proof -
  from oauth_login_Inr [OF assms(1)] have
    seal: "seal_state (oe_mac env) (new_flow env gp now rq s) (js_secret_key (jwt (oe_auth env))) = Inr sealed"
    and n: "name = cookie_name_for_request rq" "age = STATE_TTL_SECONDS" using assms(2) by auto
  have c: "cookie_name_for_request back = name" using n(1) assms(4) by (simp add: cookie_name_for_request_def)
  note u = sealed_state_roundtrip [OF new_flow_plain seal, where now = t and ttl = STATE_TTL_SECONDS]
  have p: "of_provider_id (new_flow env gp now rq s) = VStr (gp_id gp)" by (simp add: new_flow_def Let_def)
  have e: "is_state_error (state_invalid m)" "is_state_error (PyExc OAuthStateExpiredError m)" for m
    by (simp_all add: is_state_error_def state_invalid_def OAuthStateInvalidError_def OAuthStateExpiredError_def)
  show ?thesis
    using assms(3,5,6) c u p e n(2)
    by (auto simp: flow_from_cookie_def and_then_def oauth_attempt_def require_def sbind_app proc_simps)
qed

text \<open>Starting a login and presenting its cookie at the callback within ten minutes, over the same
  scheme, with the state of the authorize URL and a code, yields exactly the flow that was started: its
  verifier, its nonce, and a place to return to that is a path of this site; a second earlier or later
  than allowed, or with another state, the callback stops there.\<close>

theorem oauth_flow_comes_back:
  assumes "oauth_login env gp now rq s = (Inr resp, s1)" "or_cookie resp = Set_Cookie name sealed age secure"
    "oq_cookies back = [(name, sealed)]" "oq_scheme back = oq_scheme rq"
    "query_or back ''error'' [] = []" "query_or back ''code'' [] \<noteq> []"
  shows "fst (flow_from_cookie env gp t back s2) =
    (if t < now \<or> now + age < t then Inr (Inl ''state_invalid'')
     else if VStr (query_or back ''state'' []) \<noteq> of_state (new_flow env gp now rq s) then Inr (Inl ''state_mismatch'')
     else Inr (Inr (new_flow env gp now rq s)))
    \<and> (\<exists>path. of_return_to (new_flow env gp now rq s) = VStr path \<and> startswith path ''/'' \<and> \<not> startswith path ''//'')"
proof -
  have "\<exists>path. of_return_to (new_flow env gp now rq s) = VStr path \<and> startswith path ''/'' \<and> \<not> startswith path ''//''"
    using startswith_slash [of rq] by (simp add: new_flow_def Let_def)
  then show ?thesis using flow_comes_back [OF assms] by blast
qed

section \<open>Where the callback is mounted\<close>

text \<open>The address the identity provider is told to send the browser back to is a route of the
  application only where the extension is mounted under \<open>/api/v1\<close>: with any other prefix for the
  authentication routes the address leads nowhere and no login of any provider can be completed.\<close>

theorem callback_address_is_mounted_iff:
  assumes "gp \<in> set (ox_providers x)" "oq_base_url rq = host @ ''/''" "host \<noteq> []" "last host \<noteq> CHR ''/''"
  shows "(\<exists>path. (path, gp, True) \<in> set (oauth_routes x) \<and> callback_url rq (gp_id gp) = host @ path)
    \<longleftrightarrow> api_base_from_auth_prefix (ox_cached_auth_prefix x) = ''/api/v1''"
proof -
  obtain h c where h: "host = h @ [c]" "c \<noteq> CHR ''/''" using assms(3,4) by (cases host rule: rev_cases) auto
  have u: "callback_url rq (gp_id gp) = host @ ''/api/v1'' @ ''/oauth/'' @ gp_id gp @ ''/callback''"
    using assms(2) h by (simp add: callback_url_def)
  have r: "(path, gp, True) \<in> set (oauth_routes x) \<longleftrightarrow>
      path = api_base_from_auth_prefix (ox_cached_auth_prefix x) @ ''/oauth/'' @ gp_id gp @ ''/callback''" for path
    using assms(1) by (auto simp: oauth_routes_def)
  show ?thesis unfolding r u by (simp only: same_append_eq append_same_eq append_assoc [symmetric]) auto
qed

section \<open>Signing keys\<close>

inductive jwks_reach :: "fetcher \<Rightarrow> string \<Rightarrow> jwks_client \<Rightarrow> int \<Rightarrow> bool" for fetch uri where
  start: "jwks_reach fetch uri (jwks_client_init uri) t"
| call: "jwks_reach fetch uri c t \<Longrightarrow> t \<le> tick \<Longrightarrow> tick \<le> later
    \<Longrightarrow> jwks_reach fetch uri (snd (get_key fetch tick later kid c)) later"

text \<open>The keys held are those of one answer, and they expire its time to live after it.\<close>

definition from_answer :: "fetcher \<Rightarrow> string \<Rightarrow> jwks_client \<Rightarrow> nat \<Rightarrow> reply \<Rightarrow> int \<Rightarrow> bool" where
  "from_answer fetch uri c n r t0 \<longleftrightarrow> fetch uri n = HttpReply r \<and> jwks_of_reply (jwks_client_init uri) r = Inr (jc_keys c)
     \<and> n < jc_fetches c \<and> jc_valid_until c = t0 + jwks_ttl (jwks_client_init uri) r"

definition jwks_ok :: "fetcher \<Rightarrow> string \<Rightarrow> jwks_client \<Rightarrow> int \<Rightarrow> bool" where
  "jwks_ok fetch uri c t \<longleftrightarrow> jc_uri c = uri \<and> jc_default_ttl c = 3600
     \<and> (jc_keys c = [] \<or> (\<exists>n r t0. from_answer fetch uri c n r t0 \<and> t0 \<le> t))"

lemma same_reply: "jc_uri c = uri \<Longrightarrow> jwks_of_reply c r = jwks_of_reply (jwks_client_init uri) r"
  by (simp add: jwks_of_reply_def jwks_client_init_def)

lemma same_ttl: "jc_default_ttl c = 3600 \<Longrightarrow> jwks_ttl c r = jwks_ttl (jwks_client_init uri) r"
  by (simp add: jwks_ttl_def jwks_client_init_def split: option.split)

lemma jwks_ok_start: "jwks_ok fetch uri (jwks_client_init uri) t"
  by (simp add: jwks_ok_def jwks_client_init_def)

lemma refresh_cases:
  assumes "jwks_ok fetch uri c t" "refresh_locked fetch later c = (res, c')"
  shows "(\<exists>e. res = Inl e \<and> c' = c\<lparr>jc_fetches := Suc (jc_fetches c)\<rparr>)
    \<or> (\<exists>r. res = Inr () \<and> from_answer fetch uri c' (jc_fetches c) r later \<and> jc_uri c' = uri
        \<and> jc_default_ttl c' = 3600 \<and> jc_fetches c' = Suc (jc_fetches c))"
proof (cases "fetch (jc_uri c) (jc_fetches c)")
  case (HttpError msg)
  then show ?thesis using assms(2) by (auto simp: refresh_locked_def Let_def)
next
  case (HttpReply r)
  have u: "jc_uri c = uri" "jc_default_ttl c = 3600" using assms(1) by (simp_all add: jwks_ok_def)
  have same: "jwks_of_reply c r = jwks_of_reply (jwks_client_init uri) r" "jwks_ttl c r = jwks_ttl (jwks_client_init uri) r"
    using same_reply [OF u(1)] same_ttl [OF u(2)] by simp_all
  show ?thesis
  proof (cases "jwks_of_reply (jwks_client_init uri) r")
    case (Inl e)
    then show ?thesis using HttpReply assms(2) same by (auto simp: refresh_locked_def Let_def)
  next
    case (Inr keys)
    then have "res = Inr ()" "c' = c\<lparr>jc_fetches := Suc (jc_fetches c), jc_keys := keys,
        jc_valid_until := later + jwks_ttl (jwks_client_init uri) r\<rparr>"
      using HttpReply assms(2) same by (auto simp: refresh_locked_def Let_def)
    then show ?thesis using HttpReply Inr u by (auto simp: from_answer_def)
  qed
qed

lemma key_of_state: "snd (key_of kid c) = c"
  by (simp add: key_of_def split: option.split)

lemma get_key_cached: "cached c tick kid \<Longrightarrow> get_key fetch tick later kid c = key_of kid c"
  by (simp add: get_key_def)

lemma get_key_fetches: "\<not> cached c tick kid \<Longrightarrow>
    get_key fetch tick later kid c = sbind (refresh_locked fetch later) (\<lambda>_. key_of kid) c"
  by (simp add: get_key_def get_key_locked_def)

lemma jwks_ok_call:
  assumes ok: "jwks_ok fetch uri c t" and "t \<le> later"
  shows "jwks_ok fetch uri (snd (get_key fetch tick later kid c)) later"
proof (cases "cached c tick kid")
  case True
  have "t0 \<le> later" if "t0 \<le> t" for t0 using that assms(2) by simp
  with True ok show ?thesis unfolding jwks_ok_def by (auto simp: get_key_cached key_of_state)
next
  case False
  obtain res c' where r: "refresh_locked fetch later c = (res, c')" by fastforce
  have "snd (get_key fetch tick later kid c) = c'"
    using r by (cases res) (simp_all add: get_key_fetches [OF False] sbind_app key_of_state)
  moreover have "jwks_ok fetch uri c' later"
  proof -
    have counted: "jwks_ok fetch uri (c\<lparr>jc_fetches := Suc (jc_fetches c)\<rparr>) later"
    proof (cases "jc_keys c = []")
      case nonempty: False
      then obtain n r t0 where "from_answer fetch uri c n r t0" "t0 \<le> t" using ok by (auto simp: jwks_ok_def)
      then have "from_answer fetch uri (c\<lparr>jc_fetches := Suc (jc_fetches c)\<rparr>) n r t0" "t0 \<le> later"
        using assms(2) by (simp_all add: from_answer_def)
      then show ?thesis using ok unfolding jwks_ok_def by auto
    qed (use ok in \<open>simp add: jwks_ok_def\<close>)
    from refresh_cases [OF ok r] show ?thesis
    proof (elim disjE exE conjE)
      fix rep assume "from_answer fetch uri c' (jc_fetches c) rep later" "jc_uri c' = uri" "jc_default_ttl c' = 3600"
      then show ?thesis unfolding jwks_ok_def by blast
    qed (use counted in simp)
  qed
  ultimately show ?thesis by simp
qed

lemma reach_jwks_ok: "jwks_reach fetch uri c t \<Longrightarrow> jwks_ok fetch uri c t"
  by (induction rule: jwks_reach.induct) (auto intro: jwks_ok_start jwks_ok_call)

lemma key_of_Inr: "key_of kid c = (Inr jwk, c') \<longleftrightarrow> map_of (jc_keys c) kid = Some jwk \<and> c' = c"
  by (auto simp: key_of_def split: option.split)

text \<open>A signing key handed out belongs to the document the provider served in one fetch, either
  the one this call made, or an earlier one that is not older than its time to live, which is the
  \<open>max-age\<close> it came with or an hour, and a minute at least.  Every caller waiting for the lock
  during a fetch is then served the same key without a fetch of its own.\<close>

theorem signing_keys_are_fresh_and_shared:
  assumes "jwks_reach fetch uri c t" "t \<le> tick" "tick \<le> later" "get_key fetch tick later kid c = (Inr jwk, c')"
  shows "\<exists>n r keys t0. fetch uri n = HttpReply r \<and> rp_status r < 400 \<and> jwks_of_reply (jwks_client_init uri) r = Inr keys
    \<and> map_of keys kid = Some jwk
    \<and> (c' = c \<and> t0 \<le> t \<and> tick < t0 + max 60 (case ttl_from_response r of None \<Rightarrow> 3600 | Some a \<Rightarrow> if a = 0 then 3600 else a)
       \<or> n = jc_fetches c \<and> jc_fetches c' = Suc n
         \<and> (\<forall>tick2 later2. tick2 < later + 60 \<longrightarrow> get_key_locked fetch tick2 later2 kid c' = (Inr jwk, c')))"
proof -
  have ok: "jwks_ok fetch uri c t" by (rule reach_jwks_ok [OF assms(1)])
  have status: "rp_status r < 400" if "jwks_of_reply (jwks_client_init uri) r = Inr keys" for r keys
    using that by (auto simp: jwks_of_reply_def split: if_splits)
  have ttl: "jwks_ttl (jwks_client_init uri) r = max 60 (case ttl_from_response r of None \<Rightarrow> 3600 | Some a \<Rightarrow> if a = 0 then 3600 else a)" for r
    by (simp add: jwks_ttl_def jwks_client_init_def max.commute split: option.split)
  show ?thesis
  proof (cases "cached c tick kid")
    case True
    then have k: "map_of (jc_keys c) kid = Some jwk" "c' = c"
      using assms(4) by (simp_all add: get_key_cached key_of_Inr)
    then have "jc_keys c \<noteq> []" by auto
    then obtain n r t0 where a: "from_answer fetch uri c n r t0" "t0 \<le> t" using ok by (auto simp: jwks_ok_def)
    have "tick < t0 + jwks_ttl (jwks_client_init uri) r" using True a(1) by (simp add: cached_def from_answer_def)
    then show ?thesis using k a status unfolding from_answer_def ttl by blast
  next
    case False
    obtain res c1 where r: "refresh_locked fetch later c = (res, c1)" by fastforce
    have g: "res = Inr ()" "map_of (jc_keys c1) kid = Some jwk" "c' = c1"
      using assms(4) r by (cases res; simp add: get_key_fetches [OF False] sbind_app key_of_Inr)+
    obtain rep where a: "from_answer fetch uri c1 (jc_fetches c) rep later" "jc_fetches c1 = Suc (jc_fetches c)"
      using refresh_cases [OF ok r] g(1) by auto
    have "later + 60 \<le> jc_valid_until c1" using a(1) by (simp add: from_answer_def ttl)
    moreover have "kid \<in> fst ` set (jc_keys c1)" using g(2) by (auto dest: map_of_SomeD intro: rev_image_eqI)
    ultimately have "get_key_locked fetch tick2 later2 kid c1 = (Inr jwk, c1)" if "tick2 < later + 60" for tick2 later2
      using that g(2) by (simp add: get_key_locked_def cached_def key_of_Inr)
    then show ?thesis using g(2,3) a status unfolding from_answer_def by blast
  qed
qed

section \<open>A small site\<close>

text \<open>A library whose tokens are all the same text, and an identity provider with one account.\<close>

definition demo_oauth_auth :: "string auth_env" where
  "demo_oauth_auth = \<lparr>en_jose = \<lparr>jwt_encode = (\<lambda>payload key alg. ''t''),
       jwt_decode = (\<lambda>now token key algs iss aud options. None)\<rparr>,
     en_crypto = demo_crypto\<lparr>cr_uuid4 := (\<lambda>n. 7)\<rparr>, en_config = en_config demo_auth, en_policy = None,
     en_fetch = (\<lambda>prefix. Inr []), en_notifier = True, en_pii = en_pii demo_auth, en_flush = (\<lambda>db. None)\<rparr>"

definition demo_key :: pyval where
  "demo_key = VDict [(''kid'', VStr ''k1'')]"

definition demo_claims :: row where
  "demo_claims = [(''sub'', VStr ''g1''), (''nonce'', VStr ''raw''), (''aud'', VStr ''client'')]"

definition demo_fetch :: fetcher where
  "demo_fetch uri n = HttpReply \<lparr>rp_status = 200, rp_length = 10,
     rp_json = Some (VDict [(''keys'', VList [demo_key])]), rp_cache_control = ''public, max-age=20''\<rparr>"

definition demo_oauth_env :: oauth_env where
  "demo_oauth_env = \<lparr>oe_auth = demo_oauth_auth, oe_mac = demo_mac,
     oe_id_jose = \<lparr>ij_header = (\<lambda>t. Inr [(''alg'', VStr ''RS256''), (''kid'', VStr ''k1'')]),
       ij_decode = (\<lambda>now t jwk algs aud iss options. Inr demo_claims)\<rparr>,
     oe_post = (\<lambda>url data. HttpReply \<lparr>rp_status = 200, rp_length = 10,
       rp_json = Some (VDict [(''id_token'', VStr ''idt'')]), rp_cache_control = []\<rparr>),
     oe_fetch = demo_fetch, oe_flush = (\<lambda>s. None), oe_auto_create_users = False\<rparr>"

definition demo_gp :: google_provider where
  "demo_gp = \<lparr>gp_id = ''google'', gp_label = ''Google'', gp_client_id = ''client'', gp_client_secret = ''s'',
     gp_scopes = [''openid''], gp_extra_authorize_params = []\<rparr>"

definition demo_site :: oauth_site where
  "demo_site = \<lparr>ot_accounts = sv_db (demo_server demo_user),
     ot_identities = [\<lparr>ei_provider = ''google'', ei_provider_subject = ''g1'', ei_user_id = 42,
       ei_email_at_provider = None, ei_name = None, ei_picture_url = None, ei_hosted_domain = None\<rparr>],
     ot_clients = [(''google'', jwks_client_init JWKS_URI)], ot_drawn = 0\<rparr>"

definition demo_start :: oauth_request where
  "demo_start = \<lparr>oq_scheme = ''https'', oq_base_url = ''https://x/'', oq_cookies = [], oq_query = []\<rparr>"

definition demo_sealed :: string where
  "demo_sealed = (case seal_state demo_mac (new_flow demo_oauth_env demo_gp 100 demo_start demo_site) ''k'' of
     Inr c \<Rightarrow> c | Inl e \<Rightarrow> [])"

definition demo_back :: oauth_request where
  "demo_back = \<lparr>oq_scheme = ''https'', oq_base_url = ''https://x/'',
     oq_cookies = [(''__Host-asterion_oauth_state'', demo_sealed)],
     oq_query = [(''state'', ''raw''), (''code'', ''c'')]\<rparr>"

lemma demo_key_secret: "js_secret_key (jwt (oe_auth demo_oauth_env)) = ''k''" "oe_mac demo_oauth_env = demo_mac"
  by (simp_all add: demo_oauth_env_def demo_oauth_auth_def jwt_def demo_auth_def demo_jwt_def)

lemma demo_login: "\<exists>resp s1. oauth_login demo_oauth_env demo_gp 100 demo_start demo_site = (Inr resp, s1)
    \<and> or_cookie resp = Set_Cookie ''__Host-asterion_oauth_state'' demo_sealed 600 True"
proof -
  have seal: "\<exists>c. seal_state demo_mac (new_flow demo_oauth_env demo_gp 100 demo_start demo_site) ''k'' = Inr c"
    using seal_state_text [OF plain_flow_scalar [OF new_flow_plain]] by blast
  then have s: "seal_state demo_mac (new_flow demo_oauth_env demo_gp 100 demo_start demo_site) ''k'' = Inr demo_sealed"
    by (auto simp: demo_sealed_def)
  have f: "new_flow demo_oauth_env demo_gp 100 demo_start demo_site =
      \<lparr>of_state = VStr ''raw'', of_code_verifier = VStr ''raw'', of_nonce = VStr ''raw'',
       of_provider_id = VStr (gp_id demo_gp), of_return_to = VStr (safe_return_to demo_start), of_created_at = VInt 100\<rparr>"
    by (simp add: new_flow_def Let_def demo_oauth_env_def demo_oauth_auth_def demo_crypto_def)
  have c: "cr_token_urlsafe (en_crypto (oe_auth demo_oauth_env)) n = ''raw''" for n
    by (simp add: demo_oauth_env_def demo_oauth_auth_def demo_crypto_def)
  have ch: "code_challenge_from_verifier (en_crypto (oe_auth demo_oauth_env)) ''raw'' = Inr (b64url (cr_sha256 (en_crypto (oe_auth demo_oauth_env)) ''raw''))"
    by (simp add: code_challenge_from_verifier_def is_ascii_def)
  show ?thesis
    using s unfolding f
    by (simp add: oauth_login_def sbind_app proc_simps c ch demo_key_secret set_state_cookie_def STATE_TTL_SECONDS_def)
      (simp add: cookie_name_for_request_def demo_start_def)
qed

lemma demo_flow: "fst (flow_from_cookie demo_oauth_env demo_gp 200 demo_back s2)
    = Inr (Inr (new_flow demo_oauth_env demo_gp 100 demo_start demo_site))"
proof -
  obtain resp s1 where l: "oauth_login demo_oauth_env demo_gp 100 demo_start demo_site = (Inr resp, s1)"
    "or_cookie resp = Set_Cookie ''__Host-asterion_oauth_state'' demo_sealed 600 True" using demo_login by blast
  show ?thesis
    using flow_comes_back [OF l, of demo_back 200 s2]
    by (simp add: demo_back_def demo_start_def query_or_def new_flow_def Let_def demo_oauth_env_def
        demo_oauth_auth_def demo_crypto_def)
qed

lemma demo_key_served: "get_key demo_fetch 0 1 ''k1'' (jwks_client_init JWKS_URI) = (Inr demo_key,
    \<lparr>jc_uri = JWKS_URI, jc_default_ttl = 3600, jc_keys = [(''k1'', demo_key)], jc_valid_until = 61, jc_fetches = 1\<rparr>)"
  by code_simp

definition demo_external :: external_identity_data where
  "demo_external = projr (google_claim_mapper demo_claims)"

lemma demo_identity:
  assumes "of_nonce flow = VStr ''raw''"
  shows "identity_from_code demo_oauth_env demo_gp 200 0 1 demo_back flow demo_site = (Inr (Inr demo_external),
    demo_site\<lparr>ot_clients := [(''google'', \<lparr>jc_uri = JWKS_URI, jc_default_ttl = 3600, jc_keys = [(''k1'', demo_key)],
      jc_valid_until = 61, jc_fetches = 1\<rparr>)]\<rparr>)"
proof -
  have m: "google_claim_mapper demo_claims = Inr demo_external"
    by (simp add: demo_external_def google_claim_mapper_def demo_claims_def getattr_def)
  have e: "exchange_code (oe_post demo_oauth_env) demo_gp c v u = Inr [(''id_token'', VStr ''idt'')]" for c v u
    by (simp add: exchange_code_def demo_oauth_env_def)
  have k: "header_kid (oe_id_jose demo_oauth_env) t = Inr ''k1''" for t
    by (simp add: header_kid_def demo_oauth_env_def map_error_def ALLOWED_ALGORITHMS_def getattr_def)
  have c: "checked_claims (oe_id_jose demo_oauth_env) 200 t jwk iss aud (of_nonce flow) = Inr demo_claims" for t jwk iss aud
    using assms by (simp add: checked_claims_Inr demo_oauth_env_def) (simp add: demo_claims_def check_azp_def getattr_def)
  have f: "oe_fetch demo_oauth_env = demo_fetch" by (simp add: demo_oauth_env_def)
  have v: "verify_id_token (oe_id_jose demo_oauth_env) (oe_fetch demo_oauth_env) 200 0 1 t iss aud (of_nonce flow) (jwks_client_init JWKS_URI)
      = (Inr demo_claims, \<lparr>jc_uri = JWKS_URI, jc_default_ttl = 3600, jc_keys = [(''k1'', demo_key)], jc_valid_until = 61, jc_fetches = 1\<rparr>)"
    for t iss aud
    by (simp add: verify_id_token_def signing_key_def k c f demo_key_served sbind_app proc_simps)
  have "map_of (ot_clients demo_site) (gp_id demo_gp) = Some (jwks_client_init JWKS_URI)" "gp_id demo_gp = ''google''"
    "ot_clients demo_site = [(''google'', jwks_client_init JWKS_URI)]"
    by (simp_all add: demo_site_def demo_gp_def)
  then show ?thesis
    by (simp add: identity_from_code_def and_then_def oauth_attempt_def sbind_app proc_simps e require_def with_client_def v m)
qed

lemma demo_callback:
  "\<exists>resp s'. oauth_callback demo_oauth_env demo_gp 200 0 1 demo_back demo_site = (Inr resp, s') \<and> signed_in resp"
proof -
  let ?flow = "new_flow demo_oauth_env demo_gp 100 demo_start demo_site"
  obtain s0 where f: "flow_from_cookie demo_oauth_env demo_gp 200 demo_back demo_site = (Inr (Inr ?flow), s0)"
    using demo_flow [of demo_site] by (cases "flow_from_cookie demo_oauth_env demo_gp 200 demo_back demo_site") simp
  have s0: "s0 = demo_site" using flow_from_cookie_Inr [OF f] by simp
  have n: "of_nonce ?flow = VStr ''raw''"
    by (simp add: new_flow_def Let_def demo_oauth_env_def demo_oauth_auth_def demo_crypto_def)
  let ?s1 = "demo_site\<lparr>ot_clients := [(''google'', \<lparr>jc_uri = JWKS_URI, jc_default_ttl = 3600, jc_keys = [(''k1'', demo_key)],
      jc_valid_until = 61, jc_fetches = 1\<rparr>)]\<rparr>"
  have e: "ex_provider demo_external = ''google''" "ex_provider_subject demo_external = ''g1''"
    by (simp_all add: demo_external_def google_claim_mapper_def demo_claims_def getattr_def)
  have r: "find_or_create_by_external_identity demo_oauth_env ''google'' ''g1'' demo_external b ?s1 = (Inr (user_principal demo_user), ?s1)" for b
    by (simp add: find_or_create_by_external_identity_def oauth_transaction_def sbind_app proc_simps links_def demo_site_def
        demo_server_def find_user_def demo_user_def)
  obtain access renewal s2 where g: "sign_in demo_oauth_env 200 (user_principal demo_user) ?s1 = (Inr (access, renewal), s2)"
    using sign_in_total by blast
  have t: "of_return_to ?flow = VStr (safe_return_to demo_start)" by (simp add: new_flow_def Let_def)
  have "callback_result demo_oauth_env demo_gp 200 0 1 demo_back demo_site
      = (Inr (Inr (access, renewal, VStr (safe_return_to demo_start))), s2)"
    using f s0 demo_identity [OF n] e r g t
    by (simp add: callback_result_def and_then_def oauth_attempt_def sbind_app proc_simps)
  then show ?thesis
    by (simp add: oauth_callback_def sbind_app proc_simps signed_in_def fragment_target_def)
qed

lemma oauth_sign_in_is_bound_to_its_flow_witness:
  "\<exists>flow claims. started_here demo_oauth_env demo_gp 200 demo_back flow
    \<and> vouched demo_oauth_env demo_gp 200 0 1 demo_back flow demo_site claims"
proof -
  from demo_callback obtain resp s' where
    "oauth_callback demo_oauth_env demo_gp 200 0 1 demo_back demo_site = (Inr resp, s')" "signed_in resp" by blast
  from oauth_sign_in_is_bound_to_its_flow [OF this] show ?thesis by blast
qed


lemma oauth_flow_comes_back_witness:
  "fst (flow_from_cookie demo_oauth_env demo_gp 200 demo_back demo_site)
    = Inr (Inr (new_flow demo_oauth_env demo_gp 100 demo_start demo_site))"
proof -
  obtain resp s1 where l: "oauth_login demo_oauth_env demo_gp 100 demo_start demo_site = (Inr resp, s1)"
    "or_cookie resp = Set_Cookie ''__Host-asterion_oauth_state'' demo_sealed 600 True" using demo_login by blast
  show ?thesis
    using oauth_flow_comes_back [OF l, of demo_back 200 demo_site]
    by (simp add: demo_back_def demo_start_def query_or_def new_flow_def Let_def demo_oauth_env_def
        demo_oauth_auth_def demo_crypto_def)
qed

definition demo_extension :: oauth_extension where
  "demo_extension = \<lparr>ox_providers = [demo_gp], ox_auto_create_users = False, ox_cached_auth_prefix = ''/login''\<rparr>"

lemma callback_address_is_mounted_iff_witness:
  "\<not> (\<exists>path. (path, demo_gp, True) \<in> set (oauth_routes demo_extension) \<and> callback_url demo_start ''google'' = ''https://x'' @ path)"
proof -
  have "gp_id demo_gp = ''google''" "demo_gp \<in> set (ox_providers demo_extension)" "oq_base_url demo_start = ''https://x'' @ ''/''"
    "api_base_from_auth_prefix (ox_cached_auth_prefix demo_extension) = ''/login''"
    by (simp_all add: demo_gp_def demo_extension_def demo_start_def api_base_from_auth_prefix_def endswith_def)
  then show ?thesis using callback_address_is_mounted_iff [of demo_gp demo_extension demo_start "''https://x''"] by simp
qed

lemma signing_keys_are_fresh_and_shared_witness:
  "\<exists>n r keys. demo_fetch JWKS_URI n = HttpReply r \<and> jwks_of_reply (jwks_client_init JWKS_URI) r = Inr keys
    \<and> map_of keys ''k1'' = Some demo_key"
  using signing_keys_are_fresh_and_shared [OF jwks_reach.start, of 0 0 1 demo_fetch "''k1''" JWKS_URI] demo_key_served
  by fastforce

end
