(* ===== verification/Storage.thy ===== *)
theory Storage
  imports Sealing
begin

text \<open>
  Stored files: the filesystem backend of \<open>src/asterion/storage/local.py\<close> with its errors and object
  (\<open>errors.py\<close>, \<open>base.py\<close>), and the two routes of \<open>src/asterion/storage/router.py\<close>.

  A path is the list of its components below \<open>/\<close>.  The file system is the files with their bytes and the
  directories; an operation that raises half-way leaves what it did before.  What \<open>Path.resolve\<close> makes
  of a path (symbolic links, \<open>..\<close>) is a parameter.
\<close>

type_synonym path = "string list"

record file_system =
  fs_files :: "(path \<times> string) list"
  fs_dirs :: "path list"

type_synonym 'a fs = "(file_system, 'a) proc"

text \<open>\<open>os_mode_size\<close> is the size the system reports for a directory.\<close>

record os =
  os_resolve :: "path \<Rightarrow> path"
  os_sha256_hex :: "string \<Rightarrow> string"
  os_dir_size :: "path \<Rightarrow> int"

section \<open>The operating system's calls\<close>

definition is_dir :: "path \<Rightarrow> file_system \<Rightarrow> bool" where
  "is_dir p s = (p = [] \<or> p \<in> set (fs_dirs s))"

definition file_at :: "path \<Rightarrow> file_system \<Rightarrow> string option" where
  "file_at p s = map_of (fs_files s) p"

definition path_exists :: "path \<Rightarrow> file_system \<Rightarrow> bool" where
  "path_exists p s = (is_dir p s \<or> file_at p s \<noteq> None)"

definition os_error :: "string \<Rightarrow> path \<Rightarrow> exn" where
  "os_error c p = PyExc (OtherExc c) (concat (map (\<lambda>x. CHR ''/'' # x) p))"

definition prefixes_of :: "path \<Rightarrow> path list" where
  "prefixes_of p = map (\<lambda>n. take n p) [1..<Suc (length p)]"

text \<open>\<open>path.mkdir(parents=True, exist_ok=True)\<close>\<close>

definition mkdir_parents :: "path \<Rightarrow> unit fs" where
  "mkdir_parents p = (\<lambda>s. case find (\<lambda>q. file_at q s \<noteq> None) (prefixes_of p) of
     Some q \<Rightarrow> (Inl (os_error (if q = p then ''FileExistsError'' else ''NotADirectoryError'') q), s)
   | None \<Rightarrow> (Inr (), s\<lparr>fs_dirs := fs_dirs s @ filter (\<lambda>q. \<not> is_dir q s) (prefixes_of p)\<rparr>))"

definition write_file :: "path \<Rightarrow> string \<Rightarrow> unit fs" where
  "write_file p data = (\<lambda>s.
     if is_dir p s then (Inl (os_error ''IsADirectoryError'' p), s)
     else if \<not> is_dir (butlast p) s then (Inl (os_error ''FileNotFoundError'' p), s)
     else (Inr (), s\<lparr>fs_files := AList.update p data (fs_files s)\<rparr>))"

definition read_file :: "path \<Rightarrow> string fs" where
  "read_file p = (\<lambda>s. (if is_dir p s then Inl (os_error ''IsADirectoryError'' p)
     else case file_at p s of None \<Rightarrow> Inl (os_error ''FileNotFoundError'' p) | Some d \<Rightarrow> Inr d, s))"

definition unlink :: "path \<Rightarrow> unit fs" where
  "unlink p = (\<lambda>s. if is_dir p s then (Inl (os_error ''IsADirectoryError'' p), s)
     else if file_at p s = None then (Inl (os_error ''FileNotFoundError'' p), s)
     else (Inr (), s\<lparr>fs_files := AList.delete p (fs_files s)\<rparr>))"

text \<open>\<open>os.replace(src, dst)\<close> within one directory\<close>

definition os_replace :: "path \<Rightarrow> path \<Rightarrow> unit fs" where
  "os_replace src dst = (\<lambda>s. case file_at src s of
     None \<Rightarrow> (Inl (os_error ''FileNotFoundError'' src), s)
   | Some d \<Rightarrow> if is_dir dst s then (Inl (os_error ''IsADirectoryError'' dst), s)
     else (Inr (), s\<lparr>fs_files := AList.update dst d (AList.delete src (fs_files s))\<rparr>))"

section \<open>Keys\<close>

definition StorageRejected :: exc_class where "StorageRejected = OtherExc ''StorageRejected''"
definition ObjectNotFound :: exc_class where "ObjectNotFound = OtherExc ''ObjectNotFound''"

definition validate_key :: "string \<Rightarrow> unit res" where
  "validate_key key =
    (if key = [] \<or> strip key = [] then Inl (PyExc StorageRejected ''storage key must not be empty'')
     else if CHR 0x00 \<in> set key then Inl (PyExc StorageRejected ''storage key must not contain NUL'')
     else if startswith key ''/'' \<or> (2 \<le> length key \<and> key ! 1 = CHR '':'')
     then Inl (PyExc StorageRejected ''storage key must be relative'') else Inr ())"

text \<open>\<open>root / PurePosixPath(key)\<close>: empty and \<open>.\<close> components are dropped, an absolute right-hand side
  replaces the left, and two leading slashes are a root of their own.\<close>

definition path_parts :: "string \<Rightarrow> path" where
  "path_parts s = filter (\<lambda>c. c \<noteq> [] \<and> c \<noteq> ''.'') (split_on CHR ''/'' s)"

definition join_path :: "path \<Rightarrow> string \<Rightarrow> path" where
  "join_path root s =
    (if startswith s ''//'' \<and> \<not> startswith s ''///'' then ''//'' # path_parts s
     else if startswith s ''/'' then path_parts s else root @ path_parts s)"

definition resolve_key :: "os \<Rightarrow> path \<Rightarrow> string \<Rightarrow> path res" where
  "resolve_key os root key = rbind (validate_key key) (\<lambda>_.
     let candidate = os_resolve os (join_path root (map (\<lambda>c. if c = CHR 0x5C then CHR ''/'' else c) key));
         root_resolved = os_resolve os root
     in if take (length root_resolved) candidate = root_resolved then Inr candidate
        else Inl (PyExc StorageRejected (''key escapes storage root: '' @ repr_str key)))"

text \<open>\<open>path.with_name(path.name + suffix)\<close>; the root directory has no name.\<close>

definition with_suffix :: "path \<Rightarrow> string \<Rightarrow> path res" where
  "with_suffix p suffix = (if p = [] then Inl (PyExc ValueError ''has an empty name'')
     else Inr (butlast p @ [last p @ suffix]))"

definition meta_path :: "path \<Rightarrow> path res" where
  "meta_path p = with_suffix p ''.meta''"

section \<open>The backend\<close>

record stored_object =
  so_key :: string
  so_size :: int
  so_content_type :: string
  so_etag :: "string option"
  so_metadata :: "(string \<times> string) list"

definition storage_put ::
    "os \<Rightarrow> path \<Rightarrow> string \<Rightarrow> string \<Rightarrow> string \<Rightarrow> (string \<times> string) list \<Rightarrow> stored_object fs" where
  "storage_put os root key data content_type metadata =
     sbind (lift_res (resolve_key os root key)) (\<lambda>p.
     sbind (mkdir_parents (butlast p)) (\<lambda>_.
     sbind (lift_res (with_suffix p ''.tmp'')) (\<lambda>tmp.
     sbind (write_file tmp data) (\<lambda>_.
     sbind (os_replace tmp p) (\<lambda>_.
     sbind (lift_res (meta_path p)) (\<lambda>meta.
     sbind (write_file meta (utf8 content_type)) (\<lambda>_.
     ret \<lparr>so_key = key, so_size = int (length data), so_content_type = content_type,
       so_etag = Some (os_sha256_hex os data), so_metadata = metadata\<rparr>)))))))"

definition storage_get :: "os \<Rightarrow> path \<Rightarrow> string \<Rightarrow> string fs" where
  "storage_get os root key =
     sbind (lift_res (resolve_key os root key)) (\<lambda>p.
     sbind (gets (path_exists p)) (\<lambda>found.
     if \<not> found then throw (PyExc ObjectNotFound key) else read_file p))"

definition storage_delete :: "os \<Rightarrow> path \<Rightarrow> string \<Rightarrow> bool fs" where
  "storage_delete os root key =
     sbind (lift_res (resolve_key os root key)) (\<lambda>p.
     sbind (gets (path_exists p)) (\<lambda>found.
     if \<not> found then ret False
     else sbind (unlink p) (\<lambda>_.
       sbind (lift_res (meta_path p)) (\<lambda>meta.
       sbind (gets (path_exists meta)) (\<lambda>has_meta.
       if has_meta then sbind (unlink meta) (\<lambda>_. ret True) else ret True)))))"

definition storage_exists :: "os \<Rightarrow> path \<Rightarrow> string \<Rightarrow> bool fs" where
  "storage_exists os root key =
     sbind (lift_res (resolve_key os root key)) (\<lambda>p. gets (path_exists p))"

text \<open>\<open>read_text\<close>: UTF-8, with every line end read as a line feed.\<close>

fun universal_newlines :: "string \<Rightarrow> string" where
  "universal_newlines [] = []"
| "universal_newlines (c # s) =
    (if c = CHR 0x0D then CHR 0x0A # universal_newlines (if s \<noteq> [] \<and> hd s = CHR 0x0A then tl s else s)
     else c # universal_newlines s)"

definition DEFAULT_CONTENT_TYPE :: string where "DEFAULT_CONTENT_TYPE = ''application/octet-stream''"

definition meta_content_type :: "path \<Rightarrow> string fs" where
  "meta_content_type meta =
     sbind (read_file meta) (\<lambda>bytes. case utf8_decode bytes of
       None \<Rightarrow> throw (PyExc (OtherExc ''UnicodeDecodeError'') ''invalid utf-8'')
     | Some text \<Rightarrow> (let t = strip (universal_newlines text) in
         ret (if t = [] then DEFAULT_CONTENT_TYPE else t)))"

definition size_of :: "os \<Rightarrow> path \<Rightarrow> file_system \<Rightarrow> int" where
  "size_of os p s = (if is_dir p s then os_dir_size os p
     else case file_at p s of None \<Rightarrow> 0 | Some d \<Rightarrow> int (length d))"

definition storage_stat :: "os \<Rightarrow> path \<Rightarrow> string \<Rightarrow> stored_object fs" where
  "storage_stat os root key =
     sbind (lift_res (resolve_key os root key)) (\<lambda>p.
     sbind (gets (path_exists p)) (\<lambda>found.
     if \<not> found then throw (PyExc ObjectNotFound key)
     else sbind (lift_res (meta_path p)) (\<lambda>meta.
       sbind (gets (path_exists meta)) (\<lambda>has_meta.
       sbind (if has_meta then meta_content_type meta else ret DEFAULT_CONTENT_TYPE) (\<lambda>content_type.
       sbind (gets (size_of os p)) (\<lambda>size.
       ret \<lparr>so_key = key, so_size = size, so_content_type = content_type, so_etag = None,
         so_metadata = []\<rparr>))))))"

section \<open>The routes\<close>

text \<open>\<open>runtime.storage\<close>: the backend and its root where one was configured.  A route runs once the
  caller's context is built; it does not look at it.\<close>

record storage_config =
  sg_root :: "path option"
  sg_max_upload_bytes :: int

record upload_file =
  uf_data :: string
  uf_content_type :: "string option"
  uf_filename :: "string option"

definition storage_root :: "storage_config \<Rightarrow> path res" where
  "storage_root cfg = (case sg_root cfg of
     None \<Rightarrow> Inl (http 503 (''Storage backend not configured. Set CoreAdminConfig.storage_root ''
       @ ''or pass storage= to create_admin().''))
   | Some r \<Rightarrow> Inr r)"

text \<open>\<open>YYYY/MM/\<close> and the hexadecimal digits of a random UUID.\<close>

definition pad_left :: "nat \<Rightarrow> string \<Rightarrow> string" where
  "pad_left w s = replicate (w - length s) CHR ''0'' @ s"

definition mint_key :: "nat \<Rightarrow> nat \<Rightarrow> nat \<Rightarrow> string" where
  "mint_key year month uuid4 =
     pad_left 4 (str_nat year) @ ''/'' @ pad_left 2 (str_nat month) @ ''/'' @ hex_fixed 32 uuid4"

definition too_large :: "storage_config \<Rightarrow> exn" where
  "too_large cfg = http 413 (''Upload exceeds storage_max_upload_bytes ('' @ str_int (sg_max_upload_bytes cfg) @ '' bytes).'')"

definition upload ::
    "os \<Rightarrow> storage_config \<Rightarrow> nat \<Rightarrow> nat \<Rightarrow> nat \<Rightarrow> string option \<Rightarrow> upload_file \<Rightarrow> pyval fs" where
  "upload os cfg year month uuid4 content_length file =
     sbind (lift_res (storage_root cfg)) (\<lambda>root.
     sbind (lift_res (case Option.bind content_length (py_int 10) of
         None \<Rightarrow> Inr () | Some n \<Rightarrow> guard (n \<le> sg_max_upload_bytes cfg) (too_large cfg))) (\<lambda>_.
     if uf_data file = [] then throw (http 400 ''Empty upload.'')
     else if int (length (uf_data file)) > sg_max_upload_bytes cfg then throw (too_large cfg)
     else
       let content_type = strip (or_str (uf_content_type file) DEFAULT_CONTENT_TYPE);
           key = mint_key year month uuid4
       in (\<lambda>s. case storage_put os root key (uf_data file) content_type [] s of
           (Inl e, s') \<Rightarrow> (Inl (if catches StorageRejected e then http 400 (case e of PyExc c m \<Rightarrow> m | _ \<Rightarrow> []) else e), s')
         | (Inr obj, s') \<Rightarrow> (Inr (VDict [(''key'', VStr (so_key obj)), (''size'', VInt (so_size obj)),
             (''content_type'', VStr (so_content_type obj)),
             (''etag'', case so_etag obj of None \<Rightarrow> VNone | Some e \<Rightarrow> VStr e),
             (''filename'', case uf_filename file of None \<Rightarrow> VNone | Some n \<Rightarrow> VStr n)]), s'))))"

text \<open>The response: body, media type and length header.\<close>

definition serve :: "os \<Rightarrow> storage_config \<Rightarrow> string \<Rightarrow> (string \<times> string \<times> string) fs" where
  "serve os cfg key =
     sbind (lift_res (storage_root cfg)) (\<lambda>root. (\<lambda>s.
     case sbind (storage_stat os root key) (\<lambda>meta. sbind (storage_get os root key) (\<lambda>data. ret (meta, data))) s of
       (Inl e, s') \<Rightarrow> (Inl (if catches ObjectNotFound e then http 404 (''Stored object not found: '' @ key) else e), s')
     | (Inr (meta, data), s') \<Rightarrow>
         (Inr (data, if so_content_type meta = [] then DEFAULT_CONTENT_TYPE else so_content_type meta,
            str_int (so_size meta)), s')))"

section \<open>Inside the root\<close>

definition under :: "path \<Rightarrow> path \<Rightarrow> bool" where
  "under r p = (length r < length p \<and> take (length r) p = r)"

definition same_outside :: "path \<Rightarrow> file_system \<Rightarrow> file_system \<Rightarrow> bool" where
  "same_outside r s s' = (\<forall>q. \<not> under r q \<longrightarrow> file_at q s' = file_at q s)"

definition same_inside :: "path \<Rightarrow> file_system \<Rightarrow> file_system \<Rightarrow> bool" where
  "same_inside r s s' = (\<forall>q. under r q \<longrightarrow> file_at q s' = file_at q s \<and> is_dir q s' = is_dir q s)"

lemma resolved_under:
  assumes "resolve_key os root key = Inr p" "p \<noteq> os_resolve os root"
  shows "under (os_resolve os root) p"
proof -
  have t: "take (length (os_resolve os root)) p = os_resolve os root"
    using assms(1) by (auto simp: resolve_key_def Let_def res_simps split: if_splits)
  have "length (os_resolve os root) \<noteq> length p" using t assms(2) by auto
  moreover have "length (os_resolve os root) \<le> length p" using arg_cong [OF t, of length] by simp
  ultimately show ?thesis using t by (simp add: under_def)
qed

lemma suffix_under: "under r p \<Longrightarrow> with_suffix p x = Inr q \<Longrightarrow> under r q"
  by (cases p rule: rev_cases) (auto simp: under_def with_suffix_def)

lemma under_not_Nil: "under r p \<Longrightarrow> p \<noteq> []"
  by (auto simp: under_def)

lemma same_outside_trans: "same_outside r s t \<Longrightarrow> same_outside r t u \<Longrightarrow> same_outside r s u"
  by (simp add: same_outside_def)

lemma file_at_simps [simp]:
  "file_at q (s\<lparr>fs_dirs := ds\<rparr>) = file_at q s"
  "file_at q (s\<lparr>fs_files := AList.update p d (fs_files s)\<rparr>) = (if q = p then Some d else file_at q s)"
  "file_at q (s\<lparr>fs_files := AList.delete p (fs_files s)\<rparr>) = (if q = p then None else file_at q s)"
  "file_at q (s\<lparr>fs_files := AList.update p d (AList.delete p' (fs_files s))\<rparr>)
     = (if q = p then Some d else if q = p' then None else file_at q s)"
  by (simp_all add: file_at_def update_conv' delete_conv')

lemma is_dir_files [simp]: "is_dir q (s\<lparr>fs_files := fs\<rparr>) = is_dir q s"
  by (simp add: is_dir_def)

definition writes_under :: "path \<Rightarrow> 'a fs \<Rightarrow> bool" where
  "writes_under r m = (\<forall>s. same_outside r s (snd (m s)))"

named_theorems fs_intros \<open>operations that write under the root only\<close>

lemma writes_simple [fs_intros]:
  "writes_under r (ret x)" "writes_under r (throw e)" "writes_under r (gets g)" "writes_under r (lift_res v)"
  "writes_under r (read_file p)" "writes_under r (mkdir_parents p)"
  by (simp_all add: writes_under_def proc_simps same_outside_def read_file_def mkdir_parents_def split: option.split)

lemma writes_at [fs_intros]:
  "under r p \<Longrightarrow> writes_under r (write_file p d)" "under r p \<Longrightarrow> writes_under r (unlink p)"
  "under r p \<Longrightarrow> under r q \<Longrightarrow> writes_under r (os_replace p q)"
  by (auto simp: writes_under_def same_outside_def write_file_def unlink_def os_replace_def split: option.split)

lemma writes_sbind [fs_intros]:
  assumes "writes_under r m" "\<And>x. writes_under r (f x)"
  shows "writes_under r (sbind m f)"
proof -
  have "same_outside r s (snd (sbind m f s))" for s
    using assms(1) [unfolded writes_under_def, rule_format, of s] assms(2) [unfolded writes_under_def, rule_format]
      same_outside_trans by (auto simp: sbind_app split: prod.splits sum.splits)
  then show ?thesis by (simp add: writes_under_def)
qed

lemma writes_lift:
  "(\<And>x. v = Inr x \<Longrightarrow> writes_under r (f x)) \<Longrightarrow> writes_under r (sbind (lift_res v) f)"
  by (cases v) (simp_all add: fs_intros)

lemma writes_put:
  assumes "\<And>p. resolve_key os root key = Inr p \<Longrightarrow> under r p"
  shows "writes_under r (storage_put os root key data ct md)"
  unfolding storage_put_def meta_path_def
  by (intro writes_lift fs_intros) (use assms suffix_under in \<open>blast\<close>)+

lemma writes_delete:
  assumes "\<And>p. resolve_key os root key = Inr p \<Longrightarrow> under r p"
  shows "writes_under r (storage_delete os root key)"
proof -
  have meta: "writes_under r (sbind (lift_res (meta_path p)) (\<lambda>meta. sbind (gets (path_exists meta)) (\<lambda>has_meta.
      if has_meta then sbind (unlink meta) (\<lambda>_. ret True) else ret True)))" if "under r p" for p
  proof (rule writes_lift)
    fix q assume "meta_path p = Inr q"
    then have "under r q" using that suffix_under unfolding meta_path_def by blast
    then have "writes_under r (if b then sbind (unlink q) (\<lambda>_. ret True) else ret True)" for b
      by (cases b) (simp_all add: fs_intros)
    then show "writes_under r (sbind (gets (path_exists q)) (\<lambda>b. if b then sbind (unlink q) (\<lambda>_. ret True) else ret True))"
      by (intro fs_intros)
  qed
  show ?thesis
    unfolding storage_delete_def
  proof (rule writes_lift)
    fix p assume "resolve_key os root key = Inr p"
    then have p: "under r p" by (rule assms)
    have "writes_under r (if b then ret False else sbind (unlink p) (\<lambda>_. sbind (lift_res (meta_path p)) (\<lambda>meta.
        sbind (gets (path_exists meta)) (\<lambda>has_meta. if has_meta then sbind (unlink meta) (\<lambda>_. ret True) else ret True))))" for b
      using p meta [OF p] by (cases b) (simp_all add: fs_intros)
    then show "writes_under r (sbind (gets (path_exists p)) (\<lambda>found. if \<not> found then ret False else
        sbind (unlink p) (\<lambda>_. sbind (lift_res (meta_path p)) (\<lambda>meta.
        sbind (gets (path_exists meta)) (\<lambda>has_meta. if has_meta then sbind (unlink meta) (\<lambda>_. ret True) else ret True)))))"
      by (intro fs_intros)
  qed
qed

text \<open>Reading.\<close>

lemma reads_inside:
  assumes "same_inside r s s'" "under r p"
  shows "path_exists p s' = path_exists p s" "fst (read_file p s') = fst (read_file p s)" "size_of os p s' = size_of os p s"
  using assms by (simp_all add: same_inside_def path_exists_def read_file_def size_of_def)

lemma read_file_state: "read_file p s = (fst (read_file p s), s)"
  by (simp add: read_file_def)

lemma get_inside:
  assumes "\<And>p. resolve_key os root key = Inr p \<Longrightarrow> under r p" "same_inside r s s'"
  shows "fst (storage_get os root key s') = fst (storage_get os root key s)"
  using reads_inside [OF assms(2)] assms(1)
  by (cases "resolve_key os root key") (simp_all add: storage_get_def sbind_app proc_simps)

lemma stat_inside:
  assumes "\<And>p. resolve_key os root key = Inr p \<Longrightarrow> under r p" "same_inside r s s'"
  shows "fst (storage_stat os root key s') = fst (storage_stat os root key s)"
proof (cases "resolve_key os root key")
  case (Inr p)
  note p = reads_inside [OF assms(2) assms(1) [OF Inr]]
  obtain m where m: "meta_path p = Inr m"
    using under_not_Nil [OF assms(1) [OF Inr]] by (simp add: meta_path_def with_suffix_def)
  then have u: "under r m" using suffix_under [OF assms(1) [OF Inr]] unfolding meta_path_def by blast
  note q = reads_inside [OF assms(2) u]
  obtain v where r: "read_file m s = (v, s)" "read_file m s' = (v, s')"
    using read_file_state [of m s] read_file_state [of m s'] q(2) by metis
  define w where "w = fst (meta_content_type m s)"
  have v: "meta_content_type m s = (w, s)" "meta_content_type m s' = (w, s')"
    unfolding w_def by (cases v; simp add: meta_content_type_def sbind_app r proc_simps Let_def split: option.split)+
  show ?thesis
    using p q m Inr v by (cases w) (simp_all add: storage_stat_def sbind_app proc_simps)
qed (simp add: storage_stat_def sbind_app proc_simps)


section \<open>The root as a key\<close>

text \<open>A key that resolves to the root itself, as \<open>.\<close> does, is not refused.  Storing under it
  raises, but only after the data has been written beside the root, outside of it.\<close>

theorem root_as_key_writes_outside:
  assumes "resolve_key os root key = Inr r" "r = os_resolve os root" "r \<noteq> []" "is_dir r s" "is_dir (butlast r) s"
    "\<And>q. q \<in> set (prefixes_of (butlast r)) \<Longrightarrow> is_dir q s \<and> file_at q s = None"
    "\<not> is_dir (butlast r @ [last r @ ''.tmp'']) s"
  shows "\<exists>s'. storage_put os root key data content_type metadata s = (Inl (os_error ''IsADirectoryError'' r), s')
    \<and> file_at (butlast r @ [last r @ ''.tmp'']) s' = Some data \<and> \<not> under r (butlast r @ [last r @ ''.tmp''])"
proof -
  let ?tmp = "butlast r @ [last r @ ''.tmp'']"
  have mk: "mkdir_parents (butlast r) s = (Inr (), s)"
  proof -
    have "find (\<lambda>q. file_at q s \<noteq> None) (prefixes_of (butlast r)) = None" using assms(6) by (auto simp: find_None_iff)
    moreover have "filter (\<lambda>q. \<not> is_dir q s) (prefixes_of (butlast r)) = []" using assms(6) by (auto simp: filter_empty_conv)
    ultimately show ?thesis by (simp add: mkdir_parents_def)
  qed
  have w: "write_file ?tmp data s = (Inr (), s\<lparr>fs_files := AList.update ?tmp data (fs_files s)\<rparr>)"
    using assms(5,7) by (simp add: write_file_def)
  have l: "length ?tmp = length r" using assms(3) by simp
  have d: "file_at ?tmp (s\<lparr>fs_files := AList.update ?tmp data (fs_files s)\<rparr>) = Some data" by simp
  show ?thesis
    using assms(1,3,4) mk w l d
    by (simp add: storage_put_def sbind_app proc_simps with_suffix_def os_replace_def under_def del: file_at_simps)
qed

section \<open>What was uploaded is served\<close>

lemma latin1_bytes: "128 \<le> ord c \<Longrightarrow> (192 + ord c div 64 = 194 \<or> 192 + ord c div 64 = 195) \<and>
    (192 + ord c div 64 - 192) * 64 + (128 + ord c mod 64 - 128) = ord c"
proof -
  assume c: "128 \<le> ord c"
  have "2 \<le> ord c div 64" using div_le_mono [OF c, of 64] by simp
  moreover have "ord c div 64 < 4" using of_char_less [of c] by (intro less_mult_imp_div_less) simp
  ultimately have "ord c div 64 = 2 \<or> ord c div 64 = 3" by linarith
  then show ?thesis by auto
qed

lemma utf8_roundtrip: "utf8_decode (utf8 s) = Some s"
proof (induction s)
  case (Cons c s)
  show ?case
  proof (cases "ord c < 128")
    case True
    then show ?thesis using Cons by (simp add: utf8_def)
  next
    case False
    have cp: "code_point (ord c) = c" using of_char_less [of c] by (simp add: code_point_def)
    have o: "ord (char_of (192 + ord c div 64 :: nat)) = 192 + ord c div 64" "ord (char_of (128 + ord c mod 64 :: nat)) = 128 + ord c mod 64"
    proof -
      have "192 + ord c div 64 < 256" using latin1_bytes [of c] False by auto
      moreover have "ord c mod 64 < 64" by simp
      then have "128 + ord c mod 64 < 256" by linarith
      ultimately show "ord (char_of (192 + ord c div 64 :: nat)) = 192 + ord c div 64" "ord (char_of (128 + ord c mod 64 :: nat)) = 128 + ord c mod 64"
        by (simp_all add: of_char_of)
    qed
    have b: "utf8 (c # s) = char_of (192 + ord c div 64 :: nat) # char_of (128 + ord c mod 64 :: nat) # utf8 s"
      using False by (simp add: utf8_def)
    have "194 \<le> 192 + ord c div 64 \<and> 192 + ord c div 64 < 224" "continuation (char_of (128 + ord c mod 64 :: nat))"
      using latin1_bytes [of c] False by (auto simp: continuation_def o(2))
    then show ?thesis
      unfolding b using Cons latin1_bytes [of c] False by (simp add: o cp)
  qed
qed (simp add: utf8_def)

lemma strip_strip: "strip (strip s) = strip s"
proof -
  have l: "dropWhile is_space (dropWhile is_space x) = dropWhile is_space x" for x
    by (induction x) auto
  have k: "dropWhile is_space (rev (dropWhile is_space (rev x))) = rev (dropWhile is_space (rev x))"
    if "x = [] \<or> \<not> is_space (hd x)" for x
  proof (cases "rev (dropWhile is_space (rev x))")
    case (Cons y ys)
    have "\<exists>zs. x = rev (dropWhile is_space (rev x)) @ zs"
      by (metis rev_append rev_rev_ident takeWhile_dropWhile_id)
    then have "hd x = y" using Cons by (metis append_Cons list.sel(1))
    moreover have "x \<noteq> []" using Cons by auto
    ultimately show ?thesis using that Cons by simp
  next
    case Nil
    show ?thesis unfolding Nil by simp
  qed
  have h: "dropWhile is_space s = [] \<or> \<not> is_space (hd (dropWhile is_space s))" using hd_dropWhile [of is_space s] by blast
  show ?thesis
    using k [OF h] l [of "rev (dropWhile is_space s)"] by (simp add: strip_def lstrip_def rstrip_def)
qed

lemma universal_newlines_id: "CHR 0x0D \<notin> set s \<Longrightarrow> universal_newlines s = s"
  by (induction s) auto

lemma write_file_Inr: "write_file p d s = (Inr x, s') \<longleftrightarrow>
    \<not> is_dir p s \<and> is_dir (butlast p) s \<and> s' = s\<lparr>fs_files := AList.update p d (fs_files s)\<rparr>"
  by (auto simp: write_file_def)

lemma os_replace_Inr: "os_replace p q s = (Inr x, s') \<longleftrightarrow> (\<exists>d. file_at p s = Some d \<and> \<not> is_dir q s
    \<and> s' = s\<lparr>fs_files := AList.update q d (AList.delete p (fs_files s))\<rparr>)"
  by (auto simp: os_replace_def split: option.split)

lemma lift_Inr: "lift_res r s = (Inr x, s') \<longleftrightarrow> r = Inr x \<and> s' = s"
  by (auto simp: proc_simps)

lemma storage_put_Inr:
  assumes "storage_put os root key data ct md s = (Inr obj, s')"
  obtains p meta where "resolve_key os root key = Inr p" "meta_path p = Inr meta" "p \<noteq> meta"
    "file_at p s' = Some data" "file_at meta s' = Some (utf8 ct)" "\<not> is_dir p s'" "\<not> is_dir meta s'"
    "obj = \<lparr>so_key = key, so_size = int (length data), so_content_type = ct, so_etag = Some (os_sha256_hex os data), so_metadata = md\<rparr>"
proof -
  obtain p s1 tmp meta d where a: "resolve_key os root key = Inr p" "with_suffix p ''.tmp'' = Inr tmp" "meta_path p = Inr meta"
    "\<not> is_dir tmp s1" "file_at tmp (s1\<lparr>fs_files := AList.update tmp data (fs_files s1)\<rparr>) = Some d" "\<not> is_dir p s1" "\<not> is_dir meta s1"
    "s' = s1\<lparr>fs_files := AList.update meta (utf8 ct) (AList.update p d (AList.delete tmp (AList.update tmp data (fs_files s1))))\<rparr>"
    "obj = \<lparr>so_key = key, so_size = int (length data), so_content_type = ct, so_etag = Some (os_sha256_hex os data), so_metadata = md\<rparr>"
    using assms by (auto simp: storage_put_def res_simps lift_Inr write_file_Inr os_replace_Inr simp del: run_eq_simps(3) file_at_simps)
  have m: "p \<noteq> meta" using a(3) by (auto simp: meta_path_def with_suffix_def split: if_splits dest: arg_cong [of _ _ last])
  have d: "d = data" using a(5) by simp
  have "file_at p s' = Some data" "file_at meta s' = Some (utf8 ct)"
    using m unfolding a(8) d by (simp_all add: file_at_def update_conv')
  moreover have "\<not> is_dir p s'" "\<not> is_dir meta s'" using a(6,7) unfolding a(8) by simp_all
  ultimately show ?thesis using that a(1,3,9) m by blast
qed

text \<open>C29: An accepted upload is not empty and not over the cap.  The key it answers is served, to
  whoever asks, as the bytes that were sent, with the content type that was sent, or the default, and
  their length; that still holds after any change to other files than that one and its sidecar.\<close>

theorem uploaded_file_is_served:
  assumes "upload os cfg year month uuid4 content_length file s = (Inr body, s')" "sg_root cfg = Some root"
    "CHR 0x0D \<notin> set (or_str (uf_content_type file) DEFAULT_CONTENT_TYPE)"
    "strip (or_str (uf_content_type file) DEFAULT_CONTENT_TYPE) \<noteq> []"
  shows "uf_data file \<noteq> [] \<and> int (length (uf_data file)) \<le> sg_max_upload_bytes cfg
    \<and> (\<exists>d p meta. body = VDict d \<and> map_of d ''key'' = Some (VStr (mint_key year month uuid4))
        \<and> resolve_key os root (mint_key year month uuid4) = Inr p \<and> meta_path p = Inr meta
        \<and> (\<forall>t. file_at p t = file_at p s' \<and> is_dir p t = is_dir p s' \<and> file_at meta t = file_at meta s'
            \<and> is_dir meta t = is_dir meta s' \<longrightarrow>
            fst (serve os cfg (mint_key year month uuid4) t) = Inr (uf_data file,
              strip (or_str (uf_content_type file) DEFAULT_CONTENT_TYPE), str_int (int (length (uf_data file))))))"
proof -
  let ?ct = "strip (or_str (uf_content_type file) DEFAULT_CONTENT_TYPE)"
  let ?key = "mint_key year month uuid4"
  have size: "uf_data file \<noteq> []" "int (length (uf_data file)) \<le> sg_max_upload_bytes cfg"
    using assms(1) by (auto simp: upload_def storage_root_def assms(2) res_simps lift_Inr Let_def
        split: if_splits prod.splits sum.splits simp del: run_eq_simps(3))
  obtain obj where put: "storage_put os root ?key (uf_data file) ?ct [] s = (Inr obj, s')"
    "body = VDict [(''key'', VStr (so_key obj)), (''size'', VInt (so_size obj)),
             (''content_type'', VStr (so_content_type obj)),
             (''etag'', case so_etag obj of None \<Rightarrow> VNone | Some e \<Rightarrow> VStr e),
             (''filename'', case uf_filename file of None \<Rightarrow> VNone | Some n \<Rightarrow> VStr n)]"
    using assms(1) by (auto simp: upload_def storage_root_def assms(2) res_simps lift_Inr Let_def
        split: if_splits prod.splits sum.splits simp del: run_eq_simps(3))
  obtain p meta where p: "resolve_key os root ?key = Inr p" "meta_path p = Inr meta" "p \<noteq> meta"
    "file_at p s' = Some (uf_data file)" "file_at meta s' = Some (utf8 ?ct)" "\<not> is_dir p s'" "\<not> is_dir meta s'"
    "obj = \<lparr>so_key = ?key, so_size = int (length (uf_data file)), so_content_type = ?ct,
       so_etag = Some (os_sha256_hex os (uf_data file)), so_metadata = []\<rparr>"
    by (rule storage_put_Inr [OF put(1)])
  have "CHR 0x0D \<notin> set ?ct" using assms(3) set_strip by blast
  then have ct: "strip (universal_newlines ?ct) = ?ct" by (simp add: universal_newlines_id strip_strip)
  have "fst (serve os cfg ?key t) = Inr (uf_data file, ?ct, str_int (int (length (uf_data file))))"
    if "file_at p t = file_at p s'" "is_dir p t = is_dir p s'" "file_at meta t = file_at meta s'" "is_dir meta t = is_dir meta s'" for t
    using that p(1,2,4,5,6,7) assms(4)
    by (simp add: serve_def storage_root_def assms(2) sbind_app proc_simps storage_stat_def storage_get_def path_exists_def
        meta_content_type_def read_file_def utf8_roundtrip ct size_of_def Let_def)
  then show ?thesis using size put(2) p(1,2,8) by simp
qed

section \<open>A small file system\<close>

text \<open>Resolution where there are no links: \<open>..\<close> goes up.\<close>

definition lexical :: "path \<Rightarrow> path" where
  "lexical p = foldl (\<lambda>acc c. if c = ''..'' then butlast acc else acc @ [c]) [] p"

definition demo_os :: os where
  "demo_os = \<lparr>os_resolve = lexical, os_sha256_hex = (\<lambda>d. ''e''), os_dir_size = (\<lambda>p. 4096)\<rparr>"

definition demo_root_dir :: path where "demo_root_dir = [''srv'', ''store'']"

definition demo_fs :: file_system where
  "demo_fs = \<lparr>fs_files = [([''srv'', ''secret''], ''s'')], fs_dirs = [[''srv''], [''srv'', ''store'']]\<rparr>"

definition demo_storage :: storage_config where
  "demo_storage = \<lparr>sg_root = Some demo_root_dir, sg_max_upload_bytes = 100\<rparr>"

definition demo_file :: upload_file where
  "demo_file = \<lparr>uf_data = ''abc'', uf_content_type = Some ''text/plain'', uf_filename = Some ''a.txt''\<rparr>"

lemma demo_dotdot: "resolve_key demo_os demo_root_dir ''a/../../secret'' = Inl (PyExc StorageRejected (''key escapes storage root: '' @ repr_str ''a/../../secret''))"
  by code_simp


lemma root_as_key_writes_outside_witness:
  "\<exists>s'. storage_put demo_os demo_root_dir ''.'' ''x'' ''t'' [] demo_fs = (Inl (os_error ''IsADirectoryError'' demo_root_dir), s')
    \<and> file_at [''srv'', ''store.tmp''] s' = Some ''x''"
proof -
  have r: "resolve_key demo_os demo_root_dir ''.'' = Inr demo_root_dir" "demo_root_dir = os_resolve demo_os demo_root_dir"
    by code_simp+
  have p: "prefixes_of (butlast demo_root_dir) = [[''srv'']]" by code_simp
  show ?thesis
    using root_as_key_writes_outside [OF r, of demo_fs "''x''" "''t''" "[]"]
    by (simp add: p) (simp add: demo_fs_def demo_root_dir_def is_dir_def file_at_def, blast)
qed

lemma uploaded_file_is_served_witness:
  "\<exists>s'. fst (serve demo_os demo_storage (mint_key 2026 7 5) s') = Inr (''abc'', ''text/plain'', ''3'')"
proof -
  obtain body s' where u: "upload demo_os demo_storage 2026 7 5 None demo_file demo_fs = (Inr body, s')"
    "body = body"
  proof -
    have "isr (fst (upload demo_os demo_storage 2026 7 5 None demo_file demo_fs))" by code_simp
    then show ?thesis using that by (cases "upload demo_os demo_storage 2026 7 5 None demo_file demo_fs") (auto simp: isr_iff)
  qed
  have c: "CHR 0x0D \<notin> set (or_str (uf_content_type demo_file) DEFAULT_CONTENT_TYPE)"
    "strip (or_str (uf_content_type demo_file) DEFAULT_CONTENT_TYPE) \<noteq> []"
    "sg_root demo_storage = Some demo_root_dir" "strip (or_str (uf_content_type demo_file) DEFAULT_CONTENT_TYPE) = ''text/plain''"
    "uf_data demo_file = ''abc''" "str_int 3 = ''3''" by code_simp+
  from uploaded_file_is_served [OF u(1) c(3,1,2)] have
    "fst (serve demo_os demo_storage (mint_key 2026 7 5) s') = Inr (uf_data demo_file,
       strip (or_str (uf_content_type demo_file) DEFAULT_CONTENT_TYPE), str_int (int (length (uf_data demo_file))))"
    by blast
  then show ?thesis using c(4,5,6) by auto
qed

end
