(* ===== verification/Actions.thy ===== *)
theory Actions
  imports ImportExport
begin

text \<open>
  Admin actions: \<open>src/asterion/actions/__init__.py\<close> (the descriptor with its two entry points and the
  bulk deletion) and \<open>src/asterion/actions/router.py\<close> (the bulk and the row endpoint).

  The objects in \<open>ModelAdmin.actions\<close> are the argument \<open>acts\<close>.  What an action does is the
  application's: a function of the fetched rows; \<open>aa_run\<close> is \<open>None\<close> where the class does not override
  \<open>run\<close>, and an input schema is the validation it stands for.
\<close>

record admin_action =
  aa_name :: string
  aa_label :: string
  aa_confirm :: bool
  aa_bulk :: bool
  aa_icon :: "string option"
  aa_input_schema :: "(pyval \<Rightarrow> pyval res) option"
  aa_json_schema :: "pyval option"
  aa_execute :: "row list \<Rightarrow> principal option \<Rightarrow> pyval db"
  aa_run :: "(row list \<Rightarrow> pyval \<Rightarrow> admin_ctx \<Rightarrow> pyval db) option"

definition NotImplementedError :: exc_class where "NotImplementedError = OtherExc ''NotImplementedError''"

text \<open>The class attributes and methods of the base.\<close>

definition AdminAction :: "string \<Rightarrow> admin_action" where
  "AdminAction name = \<lparr>aa_name = name, aa_label = [], aa_confirm = False, aa_bulk = True, aa_icon = None,
     aa_input_schema = None, aa_json_schema = None,
     aa_execute = (\<lambda>records user. throw (PyExc NotImplementedError
       (''Action '' @ repr_str name @ '' has no execute() implementation''))),
     aa_run = None\<rparr>"

definition action_to_dict :: "admin_action \<Rightarrow> row" where
  "action_to_dict a = [(''name'', VStr (aa_name a)), (''label'', VStr (aa_label a)),
     (''confirm'', VBool (aa_confirm a)), (''bulk'', VBool (aa_bulk a)), (''icon'', opt_str (aa_icon a)),
     (''input_schema'', if aa_input_schema a = None then VNone
        else case aa_json_schema a of None \<Rightarrow> VNone | Some j \<Rightarrow> j)]"

definition uses_typed_run :: "admin_action \<Rightarrow> bool" where
  "uses_typed_run a = (aa_run a \<noteq> None)"

text \<open>\<open>BulkDeleteAction.execute\<close> on the rows of a model.\<close>

fun delete_all :: "sa_model \<Rightarrow> row list \<Rightarrow> unit db" where
  "delete_all m [] = ret ()"
| "delete_all m (r # rs) = sbind (delete_row m r) (\<lambda>_. delete_all m rs)"

definition bulk_delete_execute :: "db_env \<Rightarrow> sa_model \<Rightarrow> row list \<Rightarrow> principal option \<Rightarrow> pyval db" where
  "bulk_delete_execute env m records user =
     sbind (delete_all m records) (\<lambda>_.
     sbind (flush env) (\<lambda>_.
     ret (VDict [(''summary'', VStr (''Deleted '' @ str_nat (length records) @ '' record(s)'')),
       (''affected'', VInt (int (length records)))])))"

definition BulkDeleteAction :: "db_env \<Rightarrow> sa_model \<Rightarrow> admin_action" where
  "BulkDeleteAction env m = (AdminAction ''delete'')\<lparr>aa_label := ''Delete selected'', aa_confirm := True,
     aa_execute := bulk_delete_execute env m\<rparr>"

section \<open>The router\<close>

definition resolve_admin :: "app \<Rightarrow> string \<Rightarrow> model_admin res" where
  "resolve_admin ap resource =
    (let missing = http 404 (''Resource '' @ [quote] @ resource @ [quote] @ '' is not registered.'') in
     case validate_resource_name (VStr resource) of
       Inl e \<Rightarrow> Inl (if catches InvalidResourceNameError e then missing else e)
     | Inr r \<Rightarrow> (case admin_get (app_registry ap) r of None \<Rightarrow> Inl missing | Some a \<Rightarrow> Inr a))"

definition resolve_action :: "admin_action list \<Rightarrow> string \<Rightarrow> admin_action res" where
  "resolve_action actions name =
    (let missing = http 404 (''Action '' @ [quote] @ name @ [quote] @ '' is not declared.'') in
     case validate_action_name (VStr name) of
       Inl e \<Rightarrow> Inl (if catches InvalidActionNameError e then missing else e)
     | Inr n \<Rightarrow> (case find (\<lambda>a. aa_name a = n) actions of None \<Rightarrow> Inl missing | Some a \<Rightarrow> Inr a))"

definition require_action_permission :: "admin_ctx \<Rightarrow> string \<Rightarrow> string \<Rightarrow> unit res" where
  "require_action_permission ctx resource action = require_resource_access ctx resource action"

text \<open>\<open>select(model).where(pk.in_(coerced))\<close>: the values are bound when the statement runs.\<close>

definition resolve_records :: "model_admin \<Rightarrow> pyval list \<Rightarrow> row list db" where
  "resolve_records a raw_ids = (if raw_ids = [] then ret []
     else sbind (lift_res (primary_key_column (ma_model a))) (\<lambda>pk.
       sbind (lift_res (mapM (\<lambda>raw. coerce_primary_key_value (ma_model a) (py_str raw)) raw_ids)) (\<lambda>coerced.
       sbind (lift_res (mapM (bind_param pk) coerced)) (\<lambda>bound.
       gets (\<lambda>s. filter (\<lambda>r. getattr r (col_name pk) \<in> set bound) (table_rows s (table_key (ma_model a))))))))"

definition action_input :: "admin_action \<Rightarrow> row option \<Rightarrow> pyval res" where
  "action_input a data_in =
    (let data = VDict (case data_in of None \<Rightarrow> [] | Some d \<Rightarrow> d) in
     case aa_input_schema a of
       None \<Rightarrow> Inr data
     | Some validate \<Rightarrow> (case validate data of
         Inl e \<Rightarrow> Inl (HTTPExc 422 (VDict [(''message'', VStr ''Invalid action input.''),
           (''error'', case e of PyExc c m \<Rightarrow> VStr m | HTTPExc st d h \<Rightarrow> d)]) [])
       | Inr v \<Rightarrow> Inr v))"

definition dispatch_action ::
    "admin_action \<Rightarrow> row list \<Rightarrow> row option \<Rightarrow> admin_ctx \<Rightarrow> row db" where
  "dispatch_action a records data_in ctx =
     sbind (case aa_run a of
         Some run \<Rightarrow> sbind (lift_res (action_input a data_in)) (\<lambda>data. run records data ctx)
       | None \<Rightarrow> aa_execute a records (ctx_principal ctx)) (\<lambda>result.
     case result of
       VDict d \<Rightarrow> ret d
     | _ \<Rightarrow> throw (http 500 ''Action did not return a dict result.''))"

definition write_action_audit ::
    "app \<Rightarrow> crud_request \<Rightarrow> model_admin \<Rightarrow> admin_action \<Rightarrow> pyval list \<Rightarrow> pyval \<Rightarrow> admin_ctx \<Rightarrow> unit db" where
  "write_action_audit ap rq a act ids affected ctx =
     audit_crud ap rq ''admin_action'' 200 ctx (model_name a) VNone
       (Some [(''action'', VStr (aa_name act)), (''ids'', VList (map (\<lambda>i. VStr (py_str i)) ids)),
         (''affected'', affected)])"

definition run_action_impl ::
    "app \<Rightarrow> (model_admin \<Rightarrow> admin_action list) \<Rightarrow> string \<Rightarrow> string \<Rightarrow> pyval list \<Rightarrow> row option
      \<Rightarrow> crud_request \<Rightarrow> admin_ctx \<Rightarrow> row db" where
  "run_action_impl ap acts resource action ids data rq ctx =
     sbind (lift_res (resolve_admin ap resource)) (\<lambda>a.
     sbind (lift_res (resolve_action (acts a) action)) (\<lambda>act.
     sbind (lift_res (require_action_permission ctx (model_name a) (aa_name act))) (\<lambda>_.
     sbind (resolve_records a ids) (\<lambda>records.
     sbind (dispatch_action act records data ctx) (\<lambda>result.
     sbind (write_action_audit ap rq a act ids (getattr result ''affected'') ctx) (\<lambda>_.
     ret result))))))"

definition run_row_action_impl ::
    "app \<Rightarrow> (model_admin \<Rightarrow> admin_action list) \<Rightarrow> string \<Rightarrow> string \<Rightarrow> string \<Rightarrow> row option
      \<Rightarrow> crud_request \<Rightarrow> admin_ctx \<Rightarrow> row db" where
  "run_row_action_impl ap acts resource record_id action data rq ctx =
     sbind (lift_res (resolve_admin ap resource)) (\<lambda>a.
     sbind (lift_res (resolve_action (acts a) action)) (\<lambda>act.
     sbind (lift_res (require_action_permission ctx (model_name a) (aa_name act))) (\<lambda>_.
     sbind (resolve_records a [VStr record_id]) (\<lambda>records.
     if records = []
     then throw (http 404 (''Record '' @ repr_str record_id @ '' not found in '' @ repr_str (model_name a) @ ''.''))
     else sbind (dispatch_action act records data ctx) (\<lambda>result.
       sbind (write_action_audit ap rq a act [VStr record_id] (getattr result ''affected'') ctx) (\<lambda>_.
       ret result))))))"

text \<open>A request to one of the two endpoints, in the transaction of the session.\<close>

datatype action_request =
    BulkAction string string "pyval list" "row option"
  | RowAction string string string "row option"

fun action_route ::
    "app \<Rightarrow> (model_admin \<Rightarrow> admin_action list) \<Rightarrow> action_request \<Rightarrow> crud_request \<Rightarrow> admin_ctx \<Rightarrow> row db" where
  "action_route ap acts (BulkAction resource action ids data) rq ctx =
     in_transaction (run_action_impl ap acts resource action ids data rq ctx)"
| "action_route ap acts (RowAction resource record_id action data) rq ctx =
     in_transaction (run_row_action_impl ap acts resource record_id action data rq ctx)"

fun requested :: "action_request \<Rightarrow> string \<times> string \<times> pyval list \<times> row option" where
  "requested (BulkAction resource action ids data) = (resource, action, ids, data)"
| "requested (RowAction resource record_id action data) = (resource, action, [VStr record_id], data)"

section \<open>What a run is\<close>

lemma resolve_records_Inr:
  "resolve_records a ids s = (Inr records, s') \<longleftrightarrow> s' = s \<and>
     (if ids = [] then records = []
      else \<exists>pk coerced bound. primary_key_column (ma_model a) = Inr pk
        \<and> mapM (\<lambda>raw. coerce_primary_key_value (ma_model a) (py_str raw)) ids = Inr coerced
        \<and> mapM (bind_param pk) coerced = Inr bound
        \<and> records = filter (\<lambda>r. getattr r (col_name pk) \<in> set bound) (table_rows s (table_key (ma_model a))))"
  by (auto simp: resolve_records_def res_simps lift_res_Inr simp del: run_eq_simps(3))

lemma action_route_Inr:
  assumes "action_route ap acts q rq ctx s = (Inr result, s')" "requested q = (resource, action, ids, data)"
  obtains a act records s1 where "resolve_admin ap resource = Inr a" "resolve_action (acts a) action = Inr act"
    "require_resource_access ctx (model_name a) (aa_name act) = Inr ()"
    "resolve_records a ids s = (Inr records, s)" "dispatch_action act records data ctx s = (Inr result, s1)"
    "write_action_audit ap rq a act ids (getattr result ''affected'') ctx s1 = (Inr (), s')"
proof -
  have d: "\<exists>s2. resolve_records a ids s = (Inr records, s2) \<Longrightarrow> resolve_records a ids s = (Inr records, s)" for a ids records
    by (auto simp: resolve_records_Inr)
  show ?thesis
    using assms that
    by (cases q) (auto simp: in_transaction_ok run_action_impl_def run_row_action_impl_def res_simps lift_res_Inr
        require_action_permission_def resolve_records_Inr split: if_splits simp del: run_eq_simps(3))
qed

lemma resolve_admin_Inr:
  assumes "registry_ok (app_registry ap)"
  shows "resolve_admin ap resource = Inr a \<longleftrightarrow> admin_get (app_registry ap) resource = Some a"
  using get_admin_class_Inr [OF assms, of resource a] by (simp add: resolve_admin_def get_admin_class_def)

lemma resolve_action_Inr:
  "resolve_action actions name = Inr act \<longleftrightarrow> action_re name \<and> find (\<lambda>a. aa_name a = name) actions = Some act"
proof (cases "action_re name")
  case True
  then have "validate_action_name (VStr name) = Inr name" by (simp add: res_simps)
  then show ?thesis using True by (simp add: resolve_action_def Let_def split: option.split)
next
  case False
  then have "validate_action_name (VStr name) \<noteq> Inr n" for n using False by (auto simp: res_simps)
  then show ?thesis using False by (auto simp: resolve_action_def Let_def split: sum.split)
qed

text \<open>The rows of a table whose key is among the values the ids stand for.\<close>

definition selected_rows :: "model_admin \<Rightarrow> pyval list \<Rightarrow> session \<Rightarrow> row list \<Rightarrow> bool" where
  "selected_rows a ids s records = (resolve_records a ids s = (Inr records, s))"

text \<open>C27: An action runs only if the resource is registered and the action declared on it, the caller
  passes the tenant-tier gate for that resource and the name of the action, and then on exactly the
  rows whose keys were asked for, with its input validated; the row endpoint runs on at least one row.
  A request that fails in any way leaves the database as it was.\<close>

theorem actions_run_only_when_granted:
  assumes "registry_ok (app_registry ap)" "action_route ap acts q rq ctx s = (r, s')"
    "requested q = (resource, action, ids, data)"
  shows "(\<exists>e. r = Inl e \<and> s' = s)
    \<or> (\<exists>a act records result. r = Inr result \<and> admin_get (app_registry ap) resource = Some a \<and> act \<in> set (acts a)
        \<and> aa_name act = action \<and> may_access_tenant_tier ctx (model_name a) action
        \<and> selected_rows a ids s records \<and> (\<exists>s1. dispatch_action act records data ctx s = (Inr result, s1))
        \<and> (aa_run act = None \<or> (\<exists>input. action_input act data = Inr input))
        \<and> (case q of RowAction _ _ _ _ \<Rightarrow> records \<noteq> [] | _ \<Rightarrow> True))"
proof (cases r)
  case (Inl e)
  then have "s' = s" using assms(2) by (cases q) (auto dest: in_transaction_error)
  then show ?thesis using Inl by simp
next
  case (Inr result)
  obtain a act records s1 where b: "resolve_admin ap resource = Inr a" "resolve_action (acts a) action = Inr act"
    "require_resource_access ctx (model_name a) (aa_name act) = Inr ()"
    "resolve_records a ids s = (Inr records, s)" "dispatch_action act records data ctx s = (Inr result, s1)"
    using action_route_Inr [OF assms(2) [unfolded Inr] assms(3)] by metis
  have g: "admin_get (app_registry ap) resource = Some a" using b(1) by (simp add: resolve_admin_Inr [OF assms(1)])
  have n: "action_re action" "act \<in> set (acts a)" "aa_name act = action"
    using b(2) by (auto simp: resolve_action_Inr find_Some_iff)
  have "resource_re (model_name a)" using registry_get [OF assms(1) g] by simp
  then have m: "may_access_tenant_tier ctx (model_name a) action"
    using b(3) n require_resource_access_eq [of "model_name a" action ctx] by (simp split: if_splits)
  have i: "aa_run act = None \<or> (\<exists>input. action_input act data = Inr input)"
    using b(5) by (auto simp: dispatch_action_def res_simps lift_res_Inr split: option.splits simp del: run_eq_simps(3))
  have "case q of RowAction _ _ _ _ \<Rightarrow> records \<noteq> [] | _ \<Rightarrow> True"
    using assms(2,3) Inr b(1,2,4)
    by (cases q) (auto simp: in_transaction_ok run_row_action_impl_def sbind_app proc_simps split: sum.splits prod.splits if_splits)
  then show ?thesis
    using Inr g n m i b(4,5) by (intro disjI2) (auto simp: selected_rows_def)
qed

text \<open>The request of the examples: the holder of \<open>admin.*\<close> deletes the two notes, the second of
  which is a system row that \<open>DELETE /notes/b\<close> refuses.\<close>

definition demo_bulk :: action_request where
  "demo_bulk = BulkAction ''notes'' ''delete'' [VStr ''a'', VStr ''b''] None"

definition demo_acts :: "model_admin \<Rightarrow> admin_action list" where
  "demo_acts a = [BulkDeleteAction plain_db (ma_model a)]"

lemma bulk_app_ok: "registry_ok (app_registry bulk_app)"
  using notes_app_ok by (simp add: bulk_app_def)

lemma demo_bulk_runs: "isr (fst (action_route bulk_app demo_acts demo_bulk plain_request tenant_owner notes_session))"
  by code_simp

lemma actions_run_only_when_granted_witness:
  "\<exists>a. admin_get (app_registry bulk_app) ''notes'' = Some a
    \<and> may_access_tenant_tier tenant_owner (model_name a) ''delete''"
proof -
  let ?run = "action_route bulk_app demo_acts demo_bulk plain_request tenant_owner notes_session"
  have q: "requested demo_bulk = (''notes'', ''delete'', [VStr ''a'', VStr ''b''], None)" by (simp add: demo_bulk_def)
  have r: "?run = (Inr (projr (fst ?run)), snd ?run)" by (rule isr_fst [OF demo_bulk_runs])
  from actions_run_only_when_granted [OF bulk_app_ok r q] show ?thesis by blast
qed

section \<open>The bulk deletion\<close>

lemma delete_all_step:
  "delete_all m (r # rs) s = delete_all m rs
     (set_rows (table_key m) (filter (\<lambda>x. \<not> same_row m x r) (table_rows s (table_key m))) s)"
  by (simp add: delete_row_def sbind_def modify_def)

lemma delete_all_run:
  "delete_all m rs s = (r, s') \<longleftrightarrow> r = Inr () \<and> s' = snd (delete_all m rs s)"
  by (induction rs arbitrary: s) (auto simp: delete_all_step proc_simps simp del: delete_all.simps(2))

lemma delete_all_rows:
  "table_rows (snd (delete_all m rs s)) t = (if t = table_key m
     then filter (\<lambda>r. \<forall>q\<in>set rs. \<not> same_row m r q) (table_rows s t) else table_rows s t)"
  by (induction rs arbitrary: s) (auto simp: delete_all_step proc_simps conj_commute simp del: delete_all.simps(2))

lemma bulk_delete_execute_Inr:
  assumes "bulk_delete_execute env m records user s = (Inr result, s')"
  shows "s' = snd (delete_all m records s) \<and> (\<exists>x. result = VDict [(''summary'', x), (''affected'', VInt (int (length records)))])"
  using assms delete_all_run [of m records s]
  by (auto simp: bulk_delete_execute_def sbind_Inr_iff flush_def res_simps split: option.splits)

text \<open>The stock bulk deletion removes exactly the rows whose keys were posted and reports their
  number; every other table but the audit log keeps its rows.  That holds for every row: neither the
  system flag nor the policy of the admin, which the delete route asks, is consulted.\<close>

theorem bulk_delete_removes_exactly_selected:
  assumes "registry_ok (app_registry ap)" "admin_get (app_registry ap) resource = Some a"
    and "resolve_action (acts a) ''delete'' = Inr (BulkDeleteAction env (ma_model a))"
    and "action_route ap acts (BulkAction resource ''delete'' ids data) rq ctx s = (Inr result, s')"
    and "table_key (ma_model a) \<notin> {table_key (app_audit ap), table_key (app_tenant_audit ap)}"
  shows "\<exists>records. selected_rows a ids s records \<and> getattr result ''affected'' = VInt (int (length records))
    \<and> (\<forall>t. t \<notin> {table_key (app_audit ap), table_key (app_tenant_audit ap)} \<longrightarrow> table_rows s' t =
        (if t = table_key (ma_model a)
         then filter (\<lambda>r. \<forall>q\<in>set records. \<not> same_row (ma_model a) r q) (table_rows s t) else table_rows s t))"
proof -
  have q: "requested (BulkAction resource ''delete'' ids data) = (resource, ''delete'', ids, data)" by simp
  obtain a' act records s1 where b: "resolve_admin ap resource = Inr a'" "resolve_action (acts a') ''delete'' = Inr act"
    "resolve_records a' ids s = (Inr records, s)" "dispatch_action act records data ctx s = (Inr result, s1)"
    "write_action_audit ap rq a' act ids (getattr result ''affected'') ctx s1 = (Inr (), s')"
    using action_route_Inr [OF assms(4) q] by metis
  have a: "a' = a" "act = BulkDeleteAction env (ma_model a)"
    using b(1,2) assms(2,3) by (auto simp: resolve_admin_Inr [OF assms(1)])
  obtain v s2 where v: "bulk_delete_execute env (ma_model a) records (ctx_principal ctx) s = (Inr v, s2)"
    "(case v of VDict d \<Rightarrow> ret d | _ \<Rightarrow> throw (http 500 ''Action did not return a dict result.'')) s2 = (Inr result, s1)"
    using b(4) unfolding a dispatch_action_def by (auto simp: BulkDeleteAction_def AdminAction_def sbind_Inr_iff)
  note d = bulk_delete_execute_Inr [OF v(1)]
  then have e: "s1 = snd (delete_all (ma_model a) records s)" "\<exists>x. result = [(''summary'', x), (''affected'', VInt (int (length records)))]"
    using v(2) by (auto simp: proc_simps)
  show ?thesis
  proof (intro exI conjI allI impI)
    show "selected_rows a ids s records" using b(3) a by (simp add: selected_rows_def)
    show "getattr result ''affected'' = VInt (int (length records))" using e by (auto simp: getattr_def)
    fix t assume "t \<notin> {table_key (app_audit ap), table_key (app_tenant_audit ap)}"
    then have "table_rows s' t = table_rows s1 t"
      using audit_crud_other [OF b(5) [unfolded write_action_audit_def]] by simp
    then show "table_rows s' t = (if t = table_key (ma_model a)
         then filter (\<lambda>r. \<forall>q\<in>set records. \<not> same_row (ma_model a) r q) (table_rows s t) else table_rows s t)"
      using e by (simp add: delete_all_rows)
  qed
qed

lemma bulk_delete_removes_exactly_selected_witness:
  "\<exists>result s'. action_route bulk_app demo_acts demo_bulk plain_request tenant_owner notes_session = (Inr result, s')
    \<and> table_rows s' ''notes'' = []
    \<and> \<not> isr (fst (delete_impl bulk_app ''notes'' ''b'' plain_request tenant_owner notes_session))"
proof -
  let ?run = "action_route bulk_app demo_acts demo_bulk plain_request tenant_owner notes_session"
  have r: "?run = (Inr (projr (fst ?run)), snd ?run)" by (rule isr_fst [OF demo_bulk_runs])
  obtain a where a: "admin_get (app_registry bulk_app) ''notes'' = Some a" "ma_model a = notes_model"
  proof
    let ?a = "notes_admin\<lparr>ma_policy := map_option (bind_policy ''notes'') (ma_policy notes_admin)\<rparr>"
    have "validate_resource_name (VStr (model_name notes_admin)) = Inr ''notes''" by code_simp
    then show "admin_get (app_registry bulk_app) ''notes'' = Some ?a"
      by (simp add: bulk_app_def notes_app_def admin_get_def admin_register_def admin_registry_init_def)
    show "ma_model ?a = notes_model" by code_simp
  qed
  have act: "resolve_action (demo_acts a) ''delete'' = Inr (BulkDeleteAction plain_db (ma_model a))"
    unfolding demo_acts_def a(2)
    by (simp add: resolve_action_Inr BulkDeleteAction_def AdminAction_def; code_simp)
  have k: "table_key (ma_model a) \<notin> {table_key (app_audit bulk_app), table_key (app_tenant_audit bulk_app)}"
    unfolding a(2) by code_simp
  have "table_rows (snd ?run) ''notes'' = []" by code_simp
  moreover have "\<not> isr (fst (delete_impl bulk_app ''notes'' ''b'' plain_request tenant_owner notes_session))"
    by code_simp
  ultimately show ?thesis
    using r bulk_delete_removes_exactly_selected [OF bulk_app_ok a(1) act r [unfolded demo_bulk_def] k] by blast
qed

end
