(* ===== verification/Contract.thy ===== *)
theory Contract
  imports Actions
begin

text \<open>
  The contract the clients render their forms from: \<open>src/asterion/contract/service.py\<close>, which turns a
  \<open>ModelAdmin\<close> and the inspection of its model into descriptions of fields, rules, capabilities,
  relations, sections, filters and inlines, and the two routes of \<open>src/asterion/contract/router.py\<close>.

  What a \<open>ModelAdmin\<close> declares for display only is the record \<open>admin_display\<close>, together with what the
  inspection reports beyond the columns (documentation, relationships).  The keys of a badge or option
  table are any values; the keys of a condition that matter are strings.
\<close>

section \<open>What is declared for display\<close>

record fieldset =
  fs_label :: string
  fs_fields :: "string list"
  fs_collapsed :: bool
  fs_description :: "string option"

text \<open>A dependent-choice rule that is a dictionary: its controlling field, and its options where these
  are a dictionary.\<close>

record dep_rule =
  dr_field :: pyval
  dr_options :: "(pyval \<times> pyval) list option"

datatype rel_direction = MANYTOONE | ONETOMANY | MANYTOMANY | OtherDirection

record relationship =
  rl_key :: string
  rl_direction :: rel_direction
  rl_target :: string
  rl_local_columns :: "string list"
  rl_remote_side :: "string list"
  rl_secondary :: "string option"

record admin_display =
  ad_description :: "string option"
  ad_show_in_nav :: bool
  ad_category :: "string option"
  ad_nav_order :: int
  ad_fieldsets :: "fieldset list"
  ad_form_layout :: string
  ad_widgets :: "(string \<times> pyval) list"
  ad_placeholders :: "(string \<times> string) list"
  ad_list_editable :: "string list"
  ad_list_badges :: "(string \<times> (pyval \<times> pyval) list option) list"
  ad_field_conditions :: "(string \<times> pyval) list"
  ad_field_dependencies :: "(string \<times> dep_rule option) list"
  ad_actions :: "admin_action list"
  ad_inline_extra :: "inline_admin \<Rightarrow> int"
  ad_inline_widget :: "inline_admin \<Rightarrow> string option"
  ad_column_doc :: "string \<Rightarrow> string option"
  ad_relationships :: "relationship list"

definition CONTRACT_VERSION :: string where "CONTRACT_VERSION = ''2''"

definition CRUD_ACTIONS :: "string list" where
  "CRUD_ACTIONS = [''list'', ''read'', ''create'', ''update'', ''delete'']"

definition ALLOWED_BADGE_STYLES :: "string list" where
  "ALLOWED_BADGE_STYLES = [''neutral'', ''success'', ''warning'', ''danger'', ''info'']"

definition AUTO_FIELDS :: "string list" where
  "AUTO_FIELDS = [''id'', ''created_at'', ''updated_at'']"

section \<open>Fields\<close>

record field_meta =
  fm_name :: string
  fm_type :: string
  fm_primary_key :: bool
  fm_read_only :: bool
  fm_hidden :: bool
  fm_nullable :: bool
  fm_calculated :: bool
  fm_widget :: pyval
  fm_required :: bool
  fm_help_text :: "string option"
  fm_placeholder :: "string option"
  fm_condition :: "row option"
  fm_validation :: row
  fm_metadata :: row
  fm_field_permission :: field_permission
  fm_dependency :: "row option"

definition column_is_required :: "string list \<Rightarrow> column \<Rightarrow> bool" where
  "column_is_required readonly c =
    (if col_primary_key c then False
     else if col_name c \<in> set readonly then False
     else if col_name c \<in> set AUTO_FIELDS then False
     else if col_has_default c then False
     else \<not> col_nullable c)"

definition column_help_text :: "admin_display \<Rightarrow> column \<Rightarrow> string option" where
  "column_help_text d c = (case ad_column_doc d (col_name c) of
     None \<Rightarrow> None | Some t \<Rightarrow> if t = [] then None else Some t)"

definition validation_keys :: "string list" where
  "validation_keys = [''min_length'', ''max_length'', ''minimum'', ''maximum'', ''pattern'']"

definition split_widget_and_validation :: "row \<Rightarrow> pyval \<times> row \<times> row" where
  "split_widget_and_validation metadata =
    (getattr metadata ''widget'',
     filter (\<lambda>e. fst e \<in> set validation_keys) metadata,
     filter (\<lambda>e. fst e \<noteq> ''widget'' \<and> fst e \<notin> set validation_keys) metadata)"

definition field_meta_from_adapter ::
    "adapter list \<Rightarrow> model_admin \<Rightarrow> admin_display \<Rightarrow> field_permission \<Rightarrow> column \<Rightarrow> field_meta" where
  "field_meta_from_adapter registry a d perm c =
    (let readonly = ma_readonly_fields a in
     case find_adapter registry c of
       None \<Rightarrow> \<lparr>fm_name = col_name c, fm_type = ''string'', fm_primary_key = col_primary_key c,
         fm_read_only = (col_primary_key c \<or> col_name c \<in> set readonly \<or> perm = FP_READ),
         fm_hidden = False, fm_nullable = col_nullable c, fm_calculated = False, fm_widget = VNone,
         fm_required = column_is_required readonly c, fm_help_text = column_help_text d c,
         fm_placeholder = map_of (ad_placeholders d) (col_name c), fm_condition = None,
         fm_validation = [], fm_metadata = [], fm_field_permission = perm, fm_dependency = None\<rparr>
     | Some adapter \<Rightarrow>
       (let contract = build_contract adapter c in
        case split_widget_and_validation (fc_metadata contract) of (widget, validation, leftover) \<Rightarrow>
        \<lparr>fm_name = fc_name contract, fm_type = fc_type contract, fm_primary_key = fc_primary_key contract,
         fm_read_only = (fc_read_only contract \<or> fc_name contract \<in> set readonly \<or> perm = FP_READ),
         fm_hidden = fc_hidden contract, fm_nullable = fc_nullable contract,
         fm_calculated = fc_calculated contract, fm_widget = widget,
         fm_required = column_is_required readonly c, fm_help_text = column_help_text d c,
         fm_placeholder = map_of (ad_placeholders d) (fc_name contract), fm_condition = None,
         fm_validation = validation, fm_metadata = leftover, fm_field_permission = perm,
         fm_dependency = None\<rparr>))"

definition normalize_condition :: "pyval \<Rightarrow> string set \<Rightarrow> row option" where
  "normalize_condition raw valid_names = (case raw of
     VDict d \<Rightarrow> (case map_of d ''field'' of
         Some (VStr ref) \<Rightarrow>
           if ref \<notin> valid_names then None
           else (case (map_of d ''equals'', map_of d ''in'') of
               (Some v, None) \<Rightarrow> Some [(''field'', VStr ref), (''equals'', v)]
             | (None, Some (VList vs)) \<Rightarrow> Some [(''field'', VStr ref), (''in'', VList vs)]
             | (None, Some (VTuple vs)) \<Rightarrow> Some [(''field'', VStr ref), (''in'', VList vs)]
             | _ \<Rightarrow> None)
       | _ \<Rightarrow> None)
   | _ \<Rightarrow> None)"

fun sequence_of :: "pyval \<Rightarrow> pyval list option" where
  "sequence_of (VList xs) = Some xs"
| "sequence_of (VTuple xs) = Some xs"
| "sequence_of _ = None"

definition normalize_dependency :: "dep_rule option \<Rightarrow> string set \<Rightarrow> row option" where
  "normalize_dependency raw valid_names = (case raw of
     None \<Rightarrow> None
   | Some rule \<Rightarrow> (case (dr_field rule, dr_options rule) of
         (VStr ref, Some options) \<Rightarrow>
           if ref \<notin> valid_names then None
           else Some [(''field'', VStr ref), (''options'', VDict (foldl
             (\<lambda>norm (key, allowed). case sequence_of allowed of
                None \<Rightarrow> norm
              | Some vs \<Rightarrow> AList.update (py_str key) (VList (map (\<lambda>v. VStr (py_str v)) vs)) norm)
             [] options))]
       | _ \<Rightarrow> None))"

text \<open>A missing entry of the permission map is \<open>write\<close>.\<close>

definition perm_of :: "(string \<times> field_permission) list \<Rightarrow> string \<Rightarrow> field_permission" where
  "perm_of perms n = (case map_of perms n of None \<Rightarrow> FP_WRITE | Some p \<Rightarrow> p)"

definition column_field_metas ::
    "adapter list \<Rightarrow> string list \<Rightarrow> model_admin \<Rightarrow> admin_display \<Rightarrow> (string \<times> field_permission) list \<Rightarrow> field_meta list" where
  "column_field_metas registry protected a d perms =
     map (\<lambda>c. field_meta_from_adapter registry a d (perm_of perms (col_name c)) c)
       (filter (\<lambda>c. col_name c \<notin> all_protected protected a \<and> perm_of perms (col_name c) \<noteq> FP_HIDDEN)
         (mo_columns (ma_model a)))"

definition calculated_field_metas ::
    "model_admin \<Rightarrow> admin_display \<Rightarrow> (string \<times> field_permission) list \<Rightarrow> field_meta list" where
  "calculated_field_metas a d perms =
     map (\<lambda>n. \<lparr>fm_name = n, fm_type = ''string'', fm_primary_key = False, fm_read_only = True,
         fm_hidden = False, fm_nullable = True, fm_calculated = True, fm_widget = VNone,
         fm_required = False, fm_help_text = None, fm_placeholder = map_of (ad_placeholders d) n,
         fm_condition = None, fm_validation = [], fm_metadata = [], fm_field_permission = FP_READ,
         fm_dependency = None\<rparr>)
       (filter (\<lambda>n. perm_of perms n \<noteq> FP_HIDDEN) (map fst (ma_calculated_fields a)))"

definition stamp_field_conditions :: "admin_display \<Rightarrow> field_meta list \<Rightarrow> field_meta list" where
  "stamp_field_conditions d metas =
    (let valid_names = set (map fm_name metas) in
     map (\<lambda>f. case map_of (ad_field_conditions d) (fm_name f) of
         None \<Rightarrow> f
       | Some raw \<Rightarrow> (case normalize_condition raw valid_names of
           None \<Rightarrow> f | Some rule \<Rightarrow> f\<lparr>fm_condition := Some rule\<rparr>)) metas)"

definition stamp_widget_overrides :: "admin_display \<Rightarrow> field_meta list \<Rightarrow> field_meta list" where
  "stamp_widget_overrides d metas =
     map (\<lambda>f. case map_of (ad_widgets d) (fm_name f) of
         Some (VStr w) \<Rightarrow> if w = [] then f else f\<lparr>fm_widget := VStr w\<rparr>
       | _ \<Rightarrow> f) metas"

definition stamp_field_dependencies :: "admin_display \<Rightarrow> field_meta list \<Rightarrow> field_meta list" where
  "stamp_field_dependencies d metas =
    (let valid_names = set (map fm_name metas) in
     map (\<lambda>f. case map_of (ad_field_dependencies d) (fm_name f) of
         None \<Rightarrow> f
       | Some raw \<Rightarrow> (case normalize_dependency raw valid_names of
           None \<Rightarrow> f | Some rule \<Rightarrow> f\<lparr>fm_dependency := Some rule\<rparr>)) metas)"

definition build_field_metadata ::
    "adapter list \<Rightarrow> string list \<Rightarrow> model_admin \<Rightarrow> admin_display \<Rightarrow> (string \<times> field_permission) list option
      \<Rightarrow> field_meta list" where
  "build_field_metadata registry protected a d field_permissions =
    (let perms = (case field_permissions of None \<Rightarrow> [] | Some ps \<Rightarrow> ps);
         metas = column_field_metas registry protected a d perms @ calculated_field_metas a d perms
     in stamp_field_dependencies d (stamp_widget_overrides d (stamp_field_conditions d metas)))"

definition resolve_permission ::
    "string list \<Rightarrow> model_admin \<Rightarrow> admin_ctx option \<Rightarrow> string \<Rightarrow> field_permission res" where
  "resolve_permission protected a ctx_opt n =
    (let static = static_field_permission protected a n in
     case (ma_policy a, ctx_opt) of
       (Some p, Some ctx) \<Rightarrow> rbind (po_field_permission p n None ctx) (\<lambda>dynamic. Inr (strictest [static, dynamic]))
     | _ \<Rightarrow> Inr static)"

definition compute_field_permissions ::
    "string list \<Rightarrow> model_admin \<Rightarrow> admin_ctx option \<Rightarrow> (string \<times> field_permission) list res" where
  "compute_field_permissions protected a ctx_opt =
    (let names = column_names (ma_model a) @ map fst (ma_calculated_fields a) in
     rbind (mapM (resolve_permission protected a ctx_opt) names) (\<lambda>perms.
     Inr (zip names perms)))"

section \<open>Actions and capabilities\<close>

record action_meta =
  am_name :: string
  am_label :: string
  am_confirm :: bool
  am_bulk :: bool
  am_icon :: "string option"
  am_input_schema :: pyval

text \<open>\<open>str.title\<close> on ASCII text, which every action name that validates is.\<close>

definition upper_char :: "char \<Rightarrow> char" where
  "upper_char c = (if is_lower c then char_of (of_char c - 32 :: nat) else c)"

fun title_from :: "bool \<Rightarrow> string \<Rightarrow> string" where
  "title_from inside [] = []"
| "title_from inside (c # s) =
    (if is_lower c \<or> is_upper c then (if inside then lower_char c else upper_char c) # title_from True s
     else c # title_from False s)"

definition admin_action_meta :: "admin_action \<Rightarrow> action_meta" where
  "admin_action_meta a =
    (let name = (if aa_name a = [] then ''unknown'' else aa_name a) in
     \<lparr>am_name = name,
      am_label = (if aa_label a = [] then title_from False (replace_char CHR ''_'' '' '' name) else aa_label a),
      am_confirm = aa_confirm a, am_bulk = aa_bulk a,
      am_icon = (case aa_icon a of None \<Rightarrow> None | Some i \<Rightarrow> if i = [] then None else Some i),
      am_input_schema = (if aa_input_schema a = None then VNone
        else case aa_json_schema a of None \<Rightarrow> VNone | Some j \<Rightarrow> j)\<rparr>)"

record capabilities_meta =
  cp_create :: bool
  cp_update :: bool
  cp_delete :: bool
  cp_bulk_actions :: "string list"

definition has_capability :: "string list option \<Rightarrow> string \<Rightarrow> string \<Rightarrow> string \<Rightarrow> bool res" where
  "has_capability permissions resource action namespace = (case permissions of
     None \<Rightarrow> Inr True
   | Some ps \<Rightarrow> rbind (permission_key resource action namespace) (has_permission ps))"

fun granted_actions :: "string list option \<Rightarrow> string \<Rightarrow> string \<Rightarrow> admin_action list \<Rightarrow> string list res" where
  "granted_actions permissions resource namespace [] = Inr []"
| "granted_actions permissions resource namespace (a # as) =
    (if aa_name a = [] then granted_actions permissions resource namespace as
     else rbind (has_capability permissions resource (aa_name a) namespace) (\<lambda>ok.
       rbind (granted_actions permissions resource namespace as) (\<lambda>names.
       Inr (if ok then aa_name a # names else names))))"

definition policy_flags :: "model_admin \<Rightarrow> string list option \<Rightarrow> (bool \<times> bool \<times> bool) res" where
  "policy_flags a permissions = (case ma_policy a of
     None \<Rightarrow> Inr (True, True, True)
   | Some p \<Rightarrow> rbind (platform_key (model_name a) ''delete'') (\<lambda>key.
       rbind (has_permission (case permissions of None \<Rightarrow> [] | Some ps \<Rightarrow> ps) key) (\<lambda>has_platform.
       Inr (po_capability_flags p has_platform))))"

definition all_of :: "bool \<Rightarrow> bool res \<Rightarrow> bool res" where
  "all_of allowed check = (if allowed then check else Inr False)"

definition build_capabilities ::
    "model_admin \<Rightarrow> admin_action list \<Rightarrow> string list option \<Rightarrow> bool \<Rightarrow> capabilities_meta res" where
  "build_capabilities a actions permissions singleton_full =
    (let resource = model_name a;
         ns = (if ma_platform_only a then ''platform'' else ''admin'');
         read_only = (case ma_policy a of None \<Rightarrow> False | Some p \<Rightarrow> po_read_only p);
         lone = (ma_singleton a \<and> ma_policy a = None)
     in rbind (granted_actions permissions resource ns actions) (\<lambda>bulk.
        rbind (policy_flags a permissions) (\<lambda>(create, update, delete).
        rbind (all_of (create \<and> \<not> (lone \<and> singleton_full)) (has_capability permissions resource ''create'' ns)) (\<lambda>c.
        rbind (all_of update (has_capability permissions resource ''update'' ns)) (\<lambda>u.
        rbind (all_of (delete \<and> \<not> lone) (has_capability permissions resource ''delete'' ns)) (\<lambda>dl.
        Inr \<lparr>cp_create = c, cp_update = u, cp_delete = dl,
             cp_bulk_actions = (if read_only then [] else bulk)\<rparr>))))))"

section \<open>Sections, filters, inlines, relations, lists\<close>

text \<open>The loop over the names of a section, with the names already \<open>seen\<close>.\<close>

fun section_fields :: "string set \<Rightarrow> string set \<Rightarrow> string set \<Rightarrow> string list \<Rightarrow> string list" where
  "section_fields valid_names protected seen [] = []"
| "section_fields valid_names protected seen (n # ns) =
    (if n \<in> seen \<or> n \<notin> valid_names \<or> n \<in> protected then section_fields valid_names protected seen ns
     else n # section_fields valid_names protected (insert n seen) ns)"

definition build_fieldset_metadata :: "string list \<Rightarrow> model_admin \<Rightarrow> admin_display \<Rightarrow> fieldset list" where
  "build_fieldset_metadata protected a d =
    (let valid_names = set (column_names (ma_model a)) \<union> fst ` set (ma_calculated_fields a) in
     map (\<lambda>fs. fs\<lparr>fs_fields := section_fields valid_names (all_protected protected a) {} (fs_fields fs)\<rparr>)
       (ad_fieldsets d))"

record filter_meta =
  fl_name :: string
  fl_type :: string
  fl_label :: "string option"

definition build_filter_metadata :: "adapter list \<Rightarrow> model_admin \<Rightarrow> filter_meta list" where
  "build_filter_metadata registry a = concat (map (\<lambda>n. case find_column (ma_model a) n of
     None \<Rightarrow> []
   | Some c \<Rightarrow> [\<lparr>fl_name = n,
       fl_type = (case find_adapter registry c of None \<Rightarrow> ''string'' | Some ad \<Rightarrow> fc_type (build_contract ad c)),
       fl_label = None\<rparr>]) (ma_filter_fields a))"

record inline_meta =
  im_model :: string
  im_fk_name :: "string option"
  im_label :: string
  im_fields :: "string list"
  im_readonly_fields :: "string list"
  im_ordering :: "string list"
  im_extra :: int
  im_max_num :: "int option"
  im_can_delete :: bool
  im_widget :: "string option"
  im_value_field :: "string option"

definition inline_default_fields :: "inline_admin \<Rightarrow> string list" where
  "inline_default_fields i = (if in_fields i \<noteq> [] then in_fields i
     else filter (\<lambda>n. Some n \<noteq> in_fk_name i) (column_names (in_model i)))"

definition inline_meta_of :: "admin_display \<Rightarrow> inline_admin \<Rightarrow> inline_meta" where
  "inline_meta_of d i =
    (let fs = inline_default_fields i; widget = ad_inline_widget d i in
     \<lparr>im_model = inline_model_name i, im_fk_name = in_fk_name i, im_label = inline_display_label i,
      im_fields = fs, im_readonly_fields = in_readonly_fields i, im_ordering = in_ordering i,
      im_extra = ad_inline_extra d i, im_max_num = in_max_num i, im_can_delete = in_can_delete i,
      im_widget = (if widget = Some [] then None else widget),
      im_value_field = (if in_value_field i \<in> {None, Some []} \<and> widget = Some ''dual_list''
        then (case fs of [] \<Rightarrow> None | f # _ \<Rightarrow> Some f) else in_value_field i)\<rparr>)"

definition build_inline_metadata :: "model_admin \<Rightarrow> admin_display \<Rightarrow> inline_meta list" where
  "build_inline_metadata a d = map (inline_meta_of d) (ma_inlines a)"

record relation_meta =
  rm_name :: string
  rm_kind :: string
  rm_target :: string
  rm_target_registered :: bool
  rm_local_columns :: "string list"
  rm_remote_columns :: "string list"
  rm_secondary :: "string option"

fun relation_kind :: "rel_direction \<Rightarrow> string option" where
  "relation_kind MANYTOONE = Some ''belongs_to''"
| "relation_kind ONETOMANY = Some ''has_many''"
| "relation_kind MANYTOMANY = Some ''many_to_many''"
| "relation_kind OtherDirection = None"

definition build_relation_metadata :: "admin_display \<Rightarrow> admin_registry option \<Rightarrow> relation_meta list" where
  "build_relation_metadata d registry =
    (let tables = (case registry of None \<Rightarrow> {} | Some r \<Rightarrow> set (admin_model_names r)) in
     concat (map (\<lambda>rel. case relation_kind (rl_direction rel) of
         None \<Rightarrow> []
       | Some kind \<Rightarrow> [\<lparr>rm_name = rl_key rel, rm_kind = kind, rm_target = rl_target rel,
           rm_target_registered = (rl_target rel \<in> tables),
           rm_local_columns = sort (remdups (rl_local_columns rel)),
           rm_remote_columns = sort (remdups (rl_remote_side rel)),
           rm_secondary = rl_secondary rel\<rparr>]) (ad_relationships d)))"

definition resolve_date_hierarchy :: "model_admin \<Rightarrow> string option" where
  "resolve_date_hierarchy a = (case ma_date_hierarchy a of
     None \<Rightarrow> None
   | Some n \<Rightarrow> if n = [] then None else (case find_column (ma_model a) n of
       None \<Rightarrow> None
     | Some c \<Rightarrow> if {SaDate, SaDateTime} \<inter> set (col_classes c) = {} then None else Some n))"

definition build_list_editable :: "model_admin \<Rightarrow> admin_display \<Rightarrow> field_meta list \<Rightarrow> string list" where
  "build_list_editable a d metas = filter (\<lambda>n. case find (\<lambda>f. fm_name f = n) (rev metas) of
     None \<Rightarrow> False
   | Some f \<Rightarrow> n \<in> set (ma_list_display a) \<and> \<not> (fm_primary_key f \<or> fm_read_only f \<or> fm_calculated f \<or> fm_hidden f))
     (ad_list_editable d)"

definition badge_styles :: "(pyval \<times> pyval) list \<Rightarrow> (string \<times> string) list" where
  "badge_styles value_map = foldl (\<lambda>m (k, style). case style of
       VStr s \<Rightarrow> if s \<in> set ALLOWED_BADGE_STYLES then AList.update (py_str k) s m else m
     | _ \<Rightarrow> m) [] value_map"

definition build_list_badges :: "admin_display \<Rightarrow> (string \<times> (string \<times> string) list) list" where
  "build_list_badges d = concat (map (\<lambda>(column, value_map). case value_map of
     None \<Rightarrow> []
   | Some vs \<Rightarrow> let normalized = badge_styles vs in if normalized = [] then [] else [(column, normalized)])
     (ad_list_badges d))"

definition SYSTEM_CATEGORY :: string where "SYSTEM_CATEGORY = ''System''"

text \<open>The first loop, with the categories \<open>seen\<close> so far.\<close>

fun configured_categories :: "string set \<Rightarrow> string set \<Rightarrow> string list \<Rightarrow> string list" where
  "configured_categories present seen [] = []"
| "configured_categories present seen (c # cs) =
    (if c \<in> present \<and> c \<notin> seen then c # configured_categories present (insert c seen) cs
     else configured_categories present seen cs)"

definition order_sidebar_categories :: "string list \<Rightarrow> string list \<Rightarrow> string list" where
  "order_sidebar_categories present config_order =
    (let ordered = configured_categories (set present) {} config_order;
         rest = sort (filter (\<lambda>c. c \<notin> set ordered \<and> c \<noteq> SYSTEM_CATEGORY) (remdups present))
     in ordered @ rest @ (if SYSTEM_CATEGORY \<in> set present \<and> SYSTEM_CATEGORY \<notin> set ordered \<union> set rest
          then [SYSTEM_CATEGORY] else []))"

section \<open>The contract of a model\<close>

record model_contract =
  mc_contract_version :: string
  mc_resource :: string
  mc_label :: string
  mc_label_plural :: string
  mc_description :: "string option"
  mc_scope :: string
  mc_show_in_nav :: bool
  mc_category :: "string option"
  mc_nav_order :: int
  mc_singleton :: bool
  mc_fields :: "field_meta list"
  mc_crud_actions :: "string list"
  mc_admin_actions :: "action_meta list"
  mc_capabilities :: capabilities_meta
  mc_relations :: "relation_meta list"
  mc_fieldsets :: "fieldset list"
  mc_form_layout :: string
  mc_inlines :: "inline_meta list"
  mc_filters :: "filter_meta list"
  mc_list_badges :: "(string \<times> (string \<times> string) list) list"
  mc_date_hierarchy :: "string option"
  mc_list_editable :: "string list"
  mc_list_display :: "string list"
  mc_search_fields :: "string list"
  mc_ordering :: "string list"

definition build_model_contract ::
    "adapter list \<Rightarrow> string list \<Rightarrow> model_admin \<Rightarrow> admin_display \<Rightarrow> string list option \<Rightarrow> admin_registry option
      \<Rightarrow> (string \<times> field_permission) list option \<Rightarrow> bool \<Rightarrow> model_contract res" where
  "build_model_contract registry protected a d permissions admin_registry field_permissions singleton_full =
    (let metas = build_field_metadata registry protected a d field_permissions in
     rbind (build_capabilities a (ad_actions d) permissions singleton_full) (\<lambda>capabilities.
     Inr \<lparr>mc_contract_version = CONTRACT_VERSION, mc_resource = model_name a,
       mc_label = display_label a, mc_label_plural = display_label_plural a,
       mc_description = ad_description d, mc_scope = resolve_model_scope a,
       mc_show_in_nav = ad_show_in_nav d, mc_category = ad_category d, mc_nav_order = ad_nav_order d,
       mc_singleton = ma_singleton a, mc_fields = metas, mc_crud_actions = CRUD_ACTIONS,
       mc_admin_actions = map admin_action_meta (ad_actions d), mc_capabilities = capabilities,
       mc_relations = build_relation_metadata d admin_registry,
       mc_fieldsets = build_fieldset_metadata protected a d,
       mc_form_layout = (if ad_form_layout d = ''tabs'' then ''tabs'' else ''sections''),
       mc_inlines = build_inline_metadata a d, mc_filters = build_filter_metadata registry a,
       mc_list_badges = build_list_badges d, mc_date_hierarchy = resolve_date_hierarchy a,
       mc_list_editable = build_list_editable a d metas, mc_list_display = ma_list_display a,
       mc_search_fields = ma_search_fields a, mc_ordering = ma_ordering a\<rparr>))"

section \<open>The routes\<close>

record contract_runtime =
  ct_app :: app
  ct_fields :: "adapter list"
  ct_display :: "model_admin \<Rightarrow> admin_display"
  ct_multi_tenant :: bool
  ct_sidebar_categories :: "string list"
  ct_contributions :: "(string \<times> row) list"

definition ct_protected :: "contract_runtime \<Rightarrow> string list" where
  "ct_protected rt = ce_protected (app_crud (ct_app rt))"

text \<open>\<open>_singleton_full\<close> of the router.\<close>

definition singleton_is_full :: "model_admin \<Rightarrow> session \<Rightarrow> bool" where
  "singleton_is_full a s =
    (if \<not> ma_singleton a \<or> ma_policy a \<noteq> None then False else has_any_row (ma_model a) s)"

definition contract_for :: "contract_runtime \<Rightarrow> admin_ctx \<Rightarrow> model_admin \<Rightarrow> model_contract db" where
  "contract_for rt ctx a =
     sbind (lift_res (compute_field_permissions (ct_protected rt) a (Some ctx))) (\<lambda>perms.
     sbind (gets (singleton_is_full a)) (\<lambda>full.
     lift_res (build_model_contract (ct_fields rt) (ct_protected rt) a (ct_display rt a)
       (Some (ctx_permissions ctx)) (Some (app_registry (ct_app rt))) (Some perms) full)))"

definition reachable_in_scope :: "contract_runtime \<Rightarrow> admin_ctx \<Rightarrow> model_admin \<Rightarrow> bool" where
  "reachable_in_scope rt ctx a =
    (\<not> (ct_multi_tenant rt \<and> (resolve_model_scope a = ''tenant'') \<noteq> (ctx_tenant ctx \<noteq> None)))"

fun contracts_for :: "contract_runtime \<Rightarrow> admin_ctx \<Rightarrow> model_admin list \<Rightarrow> model_contract list db" where
  "contracts_for rt ctx [] = ret []"
| "contracts_for rt ctx (a # as) =
    (if reachable_in_scope rt ctx a
     then sbind (contract_for rt ctx a) (\<lambda>m. sbind (contracts_for rt ctx as) (\<lambda>ms. ret (m # ms)))
     else contracts_for rt ctx as)"

record full_contract =
  fu_contract_version :: string
  fu_models :: "model_contract list"
  fu_sidebar_categories :: "string list"
  fu_extensions :: "(string \<times> row) list"

definition categories_of :: "model_contract list \<Rightarrow> string list" where
  "categories_of ms = concat (map (\<lambda>m. case mc_category m of
     None \<Rightarrow> [] | Some c \<Rightarrow> if c = [] then [] else [c]) ms)"

definition get_full_contract :: "contract_runtime \<Rightarrow> admin_ctx \<Rightarrow> full_contract db" where
  "get_full_contract rt ctx =
     sbind (contracts_for rt ctx (admin_all (app_registry (ct_app rt)))) (\<lambda>ms.
     ret \<lparr>fu_contract_version = CONTRACT_VERSION, fu_models = ms,
       fu_sidebar_categories = order_sidebar_categories (categories_of ms) (ct_sidebar_categories rt),
       fu_extensions = ct_contributions rt\<rparr>)"

definition get_model_contract :: "contract_runtime \<Rightarrow> string \<Rightarrow> admin_ctx \<Rightarrow> model_contract db" where
  "get_model_contract rt resource ctx =
     sbind (lift_res (Actions.resolve_admin (ct_app rt) resource)) (contract_for rt ctx)"

end
