(* ===== verification/ContractSafety.thy ===== *)
theory ContractSafety
  imports Contract "HOL-Library.Sublist"
begin

text \<open>
  What a client may conclude from a contract: the fields it may fill in are those the write routes
  accept, nothing in it is protected or hidden from the caller, every rule refers to a field that is
  there, the capabilities are the answers of the gates, and the full contract is the contracts of the
  resources that are reachable.
\<close>

section \<open>The permission map\<close>

lemma mapM_zip_perm:
  assumes "mapM f xs = Inr ys" "x \<in> set xs"
  shows "f x = Inr (perm_of (zip xs ys) x)"
  using assms
  by (induction xs arbitrary: ys) (auto simp: rbind_Inr_iff perm_of_def split: if_splits)

lemma computed_permission:
  assumes "compute_field_permissions protected a ctx = Inr perms"
    and "n \<in> set (column_names (ma_model a)) \<union> fst ` set (ma_calculated_fields a)"
  shows "resolve_permission protected a ctx n = Inr (perm_of perms n)"
proof -
  let ?names = "column_names (ma_model a) @ map fst (ma_calculated_fields a)"
  from assms(1) obtain ys where y: "mapM (resolve_permission protected a ctx) ?names = Inr ys" "perms = zip ?names ys"
    by (auto simp: compute_field_permissions_def Let_def rbind_Inr_iff)
  have "n \<in> set ?names" using assms(2) by auto
  then show ?thesis using mapM_zip_perm [OF y(1)] y(2) by simp
qed

lemma strictest_two: "strictest [p, q] = max p q"
  by (cases p; cases q) (simp_all add: strictest_def max_def less_eq_field_permission_def)

text \<open>What the policy of an admin says of a field; without a policy, \<open>write\<close>.\<close>

definition policy_permission :: "model_admin \<Rightarrow> admin_ctx \<Rightarrow> string \<Rightarrow> field_permission res" where
  "policy_permission a ctx n = (case ma_policy a of
     None \<Rightarrow> Inr FP_WRITE | Some p \<Rightarrow> po_field_permission p n None ctx)"

lemma computed_permission_max:
  assumes "compute_field_permissions protected a (Some ctx) = Inr perms"
    and "n \<in> set (column_names (ma_model a)) \<union> fst ` set (ma_calculated_fields a)"
  obtains dynamic where "policy_permission a ctx n = Inr dynamic"
    "perm_of perms n = max (static_field_permission protected a n) dynamic"
proof -
  have "resolve_permission protected a (Some ctx) n = Inr (perm_of perms n)"
    by (rule computed_permission [OF assms])
  then show ?thesis
    using that
    by (cases "ma_policy a") (auto simp: resolve_permission_def policy_permission_def Let_def strictest_two
      rbind_Inr_iff max_absorb1)
qed

section \<open>The fields that are emitted\<close>

lemma built_name [simp]: "fc_name (build_contract ad c) = col_name c"
  "fc_primary_key (build_contract ad c) = col_primary_key c"
  "fc_read_only (build_contract ad c) = col_primary_key c"
  "fc_hidden (build_contract ad c) = False" "fc_calculated (build_contract ad c) = False"
  by (cases ad; simp add: base_contract_def)+

lemma column_meta [simp]:
  "fm_name (field_meta_from_adapter reg a d perm c) = col_name c"
  "fm_read_only (field_meta_from_adapter reg a d perm c)
     = (col_primary_key c \<or> col_name c \<in> set (ma_readonly_fields a) \<or> perm = FP_READ)"
  "fm_condition (field_meta_from_adapter reg a d perm c) = None"
  "fm_dependency (field_meta_from_adapter reg a d perm c) = None"
  by (simp_all add: field_meta_from_adapter_def Let_def split: option.split prod.split)

text \<open>Stamping changes neither names nor what may be written.\<close>

abbreviation key_of_meta :: "field_meta \<Rightarrow> string \<times> bool" where
  "key_of_meta f \<equiv> (fm_name f, fm_read_only f)"

lemma stamp_keys [simp]:
  "map key_of_meta (stamp_field_conditions d fs) = map key_of_meta fs"
  "map key_of_meta (stamp_widget_overrides d fs) = map key_of_meta fs"
  "map key_of_meta (stamp_field_dependencies d fs) = map key_of_meta fs"
  by (auto simp: stamp_field_conditions_def stamp_widget_overrides_def stamp_field_dependencies_def Let_def
    split: option.split pyval.split)

lemma built_keys:
  "map key_of_meta (build_field_metadata reg protected a d (Some perms)) =
     map (\<lambda>c. (col_name c, col_primary_key c \<or> col_name c \<in> set (ma_readonly_fields a)
         \<or> perm_of perms (col_name c) = FP_READ))
       (filter (\<lambda>c. col_name c \<notin> all_protected protected a \<and> perm_of perms (col_name c) \<noteq> FP_HIDDEN)
         (mo_columns (ma_model a)))
     @ map (\<lambda>n. (n, True)) (filter (\<lambda>n. perm_of perms n \<noteq> FP_HIDDEN) (map fst (ma_calculated_fields a)))"
  by (simp add: build_field_metadata_def Let_def column_field_metas_def calculated_field_metas_def comp_def)

definition offered :: "field_meta list \<Rightarrow> string list" where
  "offered metas = map fm_name (filter (\<lambda>f. \<not> fm_read_only f) metas)"

lemma offered_keys: "offered metas = map fst (filter (\<lambda>k. \<not> snd k) (map key_of_meta metas))"
  by (induction metas) (simp_all add: offered_def)

section \<open>The write schema\<close>

definition fi_writable :: "field_info \<Rightarrow> bool" where
  "fi_writable f = (\<not> fi_hidden f \<and> \<not> fi_read_only f \<and> \<not> fi_primary_key f \<and> fi_name f \<notin> set AUTO_READONLY)"

lemma writable_of: "writable_field_names schema = map fi_name (filter fi_writable (as_fields schema))"
  unfolding writable_field_names_def by (simp add: fi_writable_def cong: filter_cong)

lemma apply_policy_Inr:
  "apply_policy_to_field p ctx obj f = Inr fs \<longleftrightarrow> (\<exists>perm. po_field_permission p (fi_name f) obj ctx = Inr perm
     \<and> fs = (case perm of FP_WRITE \<Rightarrow> [f] | FP_READ \<Rightarrow> [f\<lparr>fi_read_only := True\<rparr>] | FP_HIDDEN \<Rightarrow> []))"
  by (auto simp: apply_policy_to_field_def rbind_Inr_iff split: field_permission.splits)

lemma policed_schema_writable:
  assumes "mapM (apply_policy_to_field p ctx obj) fs = Inr fss"
  shows "filter fi_writable (concat fss)
    = filter (\<lambda>f. fi_writable f \<and> po_field_permission p (fi_name f) obj ctx = Inr FP_WRITE) fs"
  using assms
proof (induction fs arbitrary: fss)
  case (Cons f fs)
  then obtain perm rest where h: "po_field_permission p (fi_name f) obj ctx = Inr perm"
    "fss = (case perm of FP_WRITE \<Rightarrow> [f] | FP_READ \<Rightarrow> [f\<lparr>fi_read_only := True\<rparr>] | FP_HIDDEN \<Rightarrow> []) # rest"
    "mapM (apply_policy_to_field p ctx obj) fs = Inr rest"
    by (auto simp: rbind_Inr_iff apply_policy_Inr)
  then show ?case using Cons.IH [OF h(3)] by (cases perm) (simp_all add: fi_writable_def)
qed simp

lemma schema_writable:
  assumes "apply_field_policy_to_schema (build_model_schema protected a) a (Some ctx) None = Inr schema"
  shows "writable_field_names schema = map fi_name (filter
    (\<lambda>f. fi_writable f \<and> policy_permission a ctx (fi_name f) = Inr FP_WRITE) (as_fields (build_model_schema protected a)))"
proof (cases "ma_policy a")
  case None
  then have "schema = build_model_schema protected a"
    using assms by (simp add: apply_field_policy_to_schema_def)
  then show ?thesis using None by (simp add: writable_of policy_permission_def)
next
  case (Some p)
  then obtain fss where f: "mapM (apply_policy_to_field p ctx None) (as_fields (build_model_schema protected a)) = Inr fss"
    "as_fields schema = concat fss"
    using assms by (auto simp: apply_field_policy_to_schema_def rbind_Inr_iff)
  have "writable_field_names schema = map fi_name (filter fi_writable (concat fss))"
    using f(2) by (simp add: writable_of)
  then show ?thesis
    using policed_schema_writable [OF f(1)] Some by (simp add: policy_permission_def)
qed

lemma static_permission_write:
  assumes "n \<notin> fst ` set (ma_calculated_fields a)"
  shows "static_field_permission protected a n = FP_WRITE \<longleftrightarrow>
    n \<notin> all_protected protected a \<and> n \<notin> set (ma_readonly_fields a) \<and> n \<notin> set AUTO_READONLY"
    "static_field_permission protected a n = FP_HIDDEN \<longleftrightarrow> n \<in> all_protected protected a"
  using assms by (auto simp: static_field_permission_def)

lemma max_permission [simp]:
  "max p q = FP_WRITE \<longleftrightarrow> p = FP_WRITE \<and> q = FP_WRITE"
  "max p q = FP_HIDDEN \<longleftrightarrow> p = FP_HIDDEN \<or> q = FP_HIDDEN"
  by (cases p; cases q; simp add: max_def less_eq_field_permission_def)+

lemma permission_cases: "p \<noteq> FP_HIDDEN \<and> p \<noteq> FP_READ \<longleftrightarrow> p = FP_WRITE"
  by (cases p) simp_all

lemma offered_eq_writable:
  assumes "compute_field_permissions protected a (Some ctx) = Inr perms"
    and "apply_field_policy_to_schema (build_model_schema protected a) a (Some ctx) None = Inr schema"
    and "set (column_names (ma_model a)) \<inter> fst ` set (ma_calculated_fields a) = {}"
  shows "offered (build_field_metadata reg protected a d (Some perms)) = writable_field_names schema"
proof -
  have c: "col_name c \<notin> all_protected protected a \<and> perm_of perms (col_name c) \<noteq> FP_HIDDEN
      \<and> \<not> (col_primary_key c \<or> col_name c \<in> set (ma_readonly_fields a) \<or> perm_of perms (col_name c) = FP_READ)
    \<longleftrightarrow> col_name c \<notin> all_protected protected a \<and> \<not> (col_primary_key c \<or> col_name c \<in> set (ma_readonly_fields a))
      \<and> col_name c \<notin> set AUTO_READONLY \<and> policy_permission a ctx (col_name c) = Inr FP_WRITE"
    if "c \<in> set (mo_columns (ma_model a))" for c
  proof -
    have n: "col_name c \<in> set (column_names (ma_model a)) \<union> fst ` set (ma_calculated_fields a)"
      using that by (simp add: column_names_def)
    then have f: "col_name c \<notin> fst ` set (ma_calculated_fields a)"
      using that assms(3) by (auto simp: column_names_def)
    obtain dynamic where "policy_permission a ctx (col_name c) = Inr dynamic"
      "perm_of perms (col_name c) = max (static_field_permission protected a (col_name c)) dynamic"
      using computed_permission_max [OF assms(1) n] .
    then show ?thesis
      using static_permission_write(1) [OF f, of protected] permission_cases [of "perm_of perms (col_name c)"]
      by auto
  qed
  show ?thesis
    unfolding offered_keys built_keys schema_writable [OF assms(2)]
    using c by (simp add: build_model_schema_def Let_def filter_map comp_def fi_writable_def conj_ac cong: filter_cong)
qed

section \<open>The routes\<close>

lemma build_model_contract_Inr:
  assumes "build_model_contract reg protected a d ps ar perms full = Inr m"
  shows "mc_fields m = build_field_metadata reg protected a d perms"
    "build_capabilities a (ad_actions d) ps full = Inr (mc_capabilities m)"
    "mc_resource m = model_name a" "mc_category m = ad_category d"
    "mc_fieldsets m = build_fieldset_metadata protected a d"
    "mc_list_editable m = build_list_editable a d (mc_fields m)"
    "mc_filters m = build_filter_metadata reg a" "mc_list_display m = ma_list_display a"
  using assms by (auto simp: build_model_contract_def Let_def rbind_Inr_iff)

lemma contract_for_Inr:
  "contract_for rt ctx a s = (Inr m, s') \<longleftrightarrow> s' = s \<and> (\<exists>perms.
     compute_field_permissions (ct_protected rt) a (Some ctx) = Inr perms
     \<and> build_model_contract (ct_fields rt) (ct_protected rt) a (ct_display rt a) (Some (ctx_permissions ctx))
         (Some (app_registry (ct_app rt))) (Some perms) (singleton_is_full a s) = Inr m)"
  by (auto simp: contract_for_def res_simps lift_res_Inr simp del: run_eq_simps(3))

lemma contract_for_state: "contract_for rt ctx a s = (r, s') \<Longrightarrow> s' = s"
  by (auto simp: contract_for_def sbind_def proc_simps split: sum.splits prod.splits)

text \<open>C30: The contract offers exactly the fields the write routes accept.  A create of the same caller
  over the same admin gets past the check of its names if and only if it names offered fields only, at
  least one; the order is that of the columns.\<close>

theorem contract_offers_what_writes_accept:
  assumes "contract_for rt ctx a s = (Inr m, s')"
    and "apply_field_policy_to_schema (build_model_schema (ct_protected rt) a) a (Some ctx) None = Inr schema"
    and "set (column_names (ma_model a)) \<inter> fst ` set (ma_calculated_fields a) = {}"
  shows "offered (mc_fields m) = writable_field_names schema \<and>
    (isr (clean_write_payload payload schema False) \<longleftrightarrow>
       fst ` set payload \<subseteq> set (offered (mc_fields m)) \<and> payload \<noteq> [])"
proof -
  obtain perms where p: "compute_field_permissions (ct_protected rt) a (Some ctx) = Inr perms"
    "mc_fields m = build_field_metadata (ct_fields rt) (ct_protected rt) a (ct_display rt a) (Some perms)"
    using assms(1) build_model_contract_Inr(1) unfolding contract_for_Inr by blast
  have o: "offered (mc_fields m) = writable_field_names schema"
    unfolding p(2) by (rule offered_eq_writable [OF p(1) assms(2,3)])
  have k: "set (writable_field_names schema) \<subseteq> set (known_field_names schema)"
    by (auto simp: writable_field_names_def known_field_names_def)
  have "isr (clean_write_payload payload schema False) \<longleftrightarrow>
    fst ` set payload \<subseteq> set (writable_field_names schema) \<and> payload \<noteq> []"
  proof (cases "fst ` set payload \<subseteq> set (writable_field_names schema)")
    case True
    then have "filter (\<lambda>e. fst e \<in> set (writable_field_names schema)) payload = payload"
      "filter (\<lambda>n. n \<notin> set (known_field_names schema)) (map fst payload) = []"
      "filter (\<lambda>n. n \<notin> set (writable_field_names schema)) (map fst payload) = []"
      using k by (auto simp: filter_empty_conv filter_id_conv)
    then show ?thesis using True by (simp add: clean_write_payload_def Let_def)
  next
    case False
    then have "filter (\<lambda>n. n \<notin> set (writable_field_names schema)) (map fst payload) \<noteq> []"
      by (auto simp: filter_empty_conv)
    then show ?thesis using False by (simp add: clean_write_payload_def Let_def)
  qed
  then show ?thesis using o by simp
qed

section \<open>Rules and sections\<close>

lemma stamp_conditions [simp]:
  "map fm_condition (stamp_widget_overrides d fs) = map fm_condition fs"
  "map fm_condition (stamp_field_dependencies d fs) = map fm_condition fs"
  "map fm_dependency (stamp_widget_overrides d fs) = map fm_dependency fs"
  "map fm_dependency (stamp_field_conditions d fs) = map fm_dependency fs"
  by (auto simp: stamp_field_conditions_def stamp_widget_overrides_def stamp_field_dependencies_def Let_def
    split: option.split pyval.split)

text \<open>A rule refers to one of the names.\<close>

definition rule_within :: "string set \<Rightarrow> row option \<Rightarrow> bool" where
  "rule_within names r = (case r of None \<Rightarrow> True
     | Some rule \<Rightarrow> (\<exists>ref. map_of rule ''field'' = Some (VStr ref) \<and> ref \<in> names))"

lemma normalized_within:
  "rule_within V (normalize_condition raw V)" "rule_within V (normalize_dependency dep V)"
  by (auto simp: rule_within_def normalize_condition_def normalize_dependency_def
    split: option.splits pyval.splits)

lemma stamped_within:
  "\<forall>r \<in> set (map fm_condition fs). rule_within (set (map fm_name fs)) r \<Longrightarrow>
    \<forall>r \<in> set (map fm_condition (stamp_field_conditions d fs)). rule_within (set (map fm_name fs)) r"
  "\<forall>r \<in> set (map fm_dependency fs). rule_within (set (map fm_name fs)) r \<Longrightarrow>
    \<forall>r \<in> set (map fm_dependency (stamp_field_dependencies d fs)). rule_within (set (map fm_name fs)) r"
proof -
  have c: "rule_within V (Some r)" if "normalize_condition raw V = Some r" for raw V r
    using normalized_within(1) [of V raw] that by simp
  have e: "rule_within V (Some r)" if "normalize_dependency raw V = Some r" for raw V r
    using normalized_within(2) [of V raw] that by simp
  show "\<forall>r \<in> set (map fm_condition fs). rule_within (set (map fm_name fs)) r \<Longrightarrow>
    \<forall>r \<in> set (map fm_condition (stamp_field_conditions d fs)). rule_within (set (map fm_name fs)) r"
    using c by (auto simp: stamp_field_conditions_def Let_def split: option.splits)
  show "\<forall>r \<in> set (map fm_dependency fs). rule_within (set (map fm_name fs)) r \<Longrightarrow>
    \<forall>r \<in> set (map fm_dependency (stamp_field_dependencies d fs)). rule_within (set (map fm_name fs)) r"
    using e by (auto simp: stamp_field_dependencies_def Let_def split: option.splits)
qed

lemma key_names: "map key_of_meta fs = map key_of_meta gs \<Longrightarrow> map fm_name fs = map fm_name gs"
  by (drule arg_cong [where f = "map fst"]) (simp add: comp_def)

lemmas stamp_names [simp] = stamp_keys [THEN key_names]

lemma built_rules:
  assumes "f \<in> set (build_field_metadata reg protected a d perms)"
  shows "rule_within (set (map fm_name (build_field_metadata reg protected a d perms))) (fm_condition f)"
    "rule_within (set (map fm_name (build_field_metadata reg protected a d perms))) (fm_dependency f)"
proof -
  define ps where "ps = (case perms of None \<Rightarrow> [] | Some ps \<Rightarrow> ps)"
  define base where "base = column_field_metas reg protected a d ps @ calculated_field_metas a d ps"
  let ?built = "stamp_field_dependencies d (stamp_widget_overrides d (stamp_field_conditions d base))"
  have b: "build_field_metadata reg protected a d perms = ?built"
    by (simp add: build_field_metadata_def Let_def base_def ps_def)
  have n: "\<forall>r \<in> set (map fm_condition base). rule_within (set (map fm_name base)) r"
    "\<forall>r \<in> set (map fm_dependency base). rule_within (set (map fm_name base)) r"
    by (auto simp: base_def column_field_metas_def calculated_field_metas_def rule_within_def)
  have c: "\<forall>r \<in> set (map fm_condition ?built). rule_within (set (map fm_name base)) r"
    using stamped_within(1) [OF n(1), of d] by (simp only: stamp_conditions)
  have e: "\<forall>r \<in> set (map fm_dependency ?built). rule_within (set (map fm_name base)) r"
    using stamped_within(2) [of "stamp_widget_overrides d (stamp_field_conditions d base)" d] n(2)
    by (simp only: stamp_conditions stamp_names)
  have m: "map fm_name ?built = map fm_name base" by simp
  have f: "fm_condition f \<in> set (map fm_condition ?built)" "fm_dependency f \<in> set (map fm_dependency ?built)"
    using assms unfolding b set_map by (rule imageI)+
  show "rule_within (set (map fm_name (build_field_metadata reg protected a d perms))) (fm_condition f)"
    unfolding b m by (rule bspec [OF c f(1)])
  show "rule_within (set (map fm_name (build_field_metadata reg protected a d perms))) (fm_dependency f)"
    unfolding b m by (rule bspec [OF e f(2)])
qed

lemma section_fields_ok:
  "distinct (section_fields V P seen ns) \<and> set (section_fields V P seen ns) \<subseteq> set ns \<inter> V - P - seen"
proof (induction ns arbitrary: seen)
  case (Cons n ns)
  from Cons.IH [of seen] Cons.IH [of "insert n seen"] show ?case by auto
qed simp

lemma list_editable_offered:
  "set (build_list_editable a d metas) \<subseteq> set (offered metas) \<inter> set (ma_list_display a) \<inter> set (ad_list_editable d)"
  by (auto simp: build_list_editable_def offered_def find_Some_iff rev_nth split: option.splits)


section \<open>Capabilities\<close>

definition namespace_of :: "model_admin \<Rightarrow> string" where
  "namespace_of a = (if ma_platform_only a then PLATFORM_NAMESPACE else DEFAULT_NAMESPACE)"

lemma has_capability_grants:
  assumes "resource_re r" "action_re action" "namespace_re ns"
  shows "has_capability (Some (ctx_permissions ctx)) r action ns = Inr (grants ctx ns r action)"
proof -
  obtain k where k: "permission_key r action ns = Inr k" "ctx_has_permission ctx k = Inr (grants ctx ns r action)"
    using granted_key [OF assms] by blast
  then show ?thesis by (simp add: has_capability_def ctx_has_permission_def)
qed

lemma crud_actions_valid: "action_re ''create''" "action_re ''update''" "action_re ''delete''"
  by code_simp+

lemma all_of_Inr [simp]: "all_of b (Inr c) = Inr (b \<and> c)"
  by (simp add: all_of_def)

lemma policy_flags_eq:
  assumes "resource_re (model_name a)"
  shows "policy_flags a (Some (ctx_permissions ctx)) = Inr (case ma_policy a of
     None \<Rightarrow> (True, True, True)
   | Some p \<Rightarrow> po_capability_flags p (grants ctx PLATFORM_NAMESPACE (model_name a) ''delete''))"
proof -
  obtain k where k: "platform_key (model_name a) ''delete'' = Inr k"
    "has_permission (ctx_permissions ctx) k = Inr (grants ctx PLATFORM_NAMESPACE (model_name a) ''delete'')"
    using granted_key [OF assms crud_actions_valid(3) namespace_re_admin(2)]
    by (metis platform_key_def ctx_has_permission_def)
  then show ?thesis by (simp add: policy_flags_def split: option.split)
qed

lemma build_capabilities_Inr:
  assumes "build_capabilities a acts (Some (ctx_permissions ctx)) full = Inr caps" "resource_re (model_name a)"
    and "(case ma_policy a of None \<Rightarrow> (True, True, True)
      | Some p \<Rightarrow> po_capability_flags p (grants ctx PLATFORM_NAMESPACE (model_name a) ''delete'')) = (c, u, d)"
  shows "cp_create caps \<longleftrightarrow> c \<and> \<not> (ma_singleton a \<and> ma_policy a = None \<and> full) \<and> grants ctx (namespace_of a) (model_name a) ''create''"
    "cp_update caps \<longleftrightarrow> u \<and> grants ctx (namespace_of a) (model_name a) ''update''"
    "cp_delete caps \<longleftrightarrow> d \<and> \<not> (ma_singleton a \<and> ma_policy a = None) \<and> grants ctx (namespace_of a) (model_name a) ''delete''"
    "\<exists>bulk. granted_actions (Some (ctx_permissions ctx)) (model_name a) (namespace_of a) acts = Inr bulk
       \<and> cp_bulk_actions caps = (if (case ma_policy a of None \<Rightarrow> False | Some p \<Rightarrow> po_read_only p) then [] else bulk)"
proof -
  have n: "(if ma_platform_only a then ''platform'' else ''admin'') = namespace_of a"
    by (simp add: namespace_of_def PLATFORM_NAMESPACE_def DEFAULT_NAMESPACE_def)
  have r: "namespace_re (namespace_of a)" by (simp add: namespace_of_def)
  note h = has_capability_grants [OF assms(2) crud_actions_valid(1) r, of ctx]
    has_capability_grants [OF assms(2) crud_actions_valid(2) r, of ctx]
    has_capability_grants [OF assms(2) crud_actions_valid(3) r, of ctx]
  obtain bulk where b: "granted_actions (Some (ctx_permissions ctx)) (model_name a) (namespace_of a) acts = Inr bulk"
    "caps = \<lparr>cp_create = (c \<and> \<not> (ma_singleton a \<and> ma_policy a = None \<and> full)) \<and> grants ctx (namespace_of a) (model_name a) ''create'',
      cp_update = u \<and> grants ctx (namespace_of a) (model_name a) ''update'',
      cp_delete = (d \<and> \<not> (ma_singleton a \<and> ma_policy a = None)) \<and> grants ctx (namespace_of a) (model_name a) ''delete'',
      cp_bulk_actions = (if (case ma_policy a of None \<Rightarrow> False | Some p \<Rightarrow> po_read_only p) then [] else bulk)\<rparr>"
    using assms(1) unfolding build_capabilities_def Let_def n policy_flags_eq [OF assms(2)] assms(3)
    by (auto simp: rbind_Inr_iff h)
  then show "cp_create caps \<longleftrightarrow> c \<and> \<not> (ma_singleton a \<and> ma_policy a = None \<and> full) \<and> grants ctx (namespace_of a) (model_name a) ''create''"
    "cp_update caps \<longleftrightarrow> u \<and> grants ctx (namespace_of a) (model_name a) ''update''"
    "cp_delete caps \<longleftrightarrow> d \<and> \<not> (ma_singleton a \<and> ma_policy a = None) \<and> grants ctx (namespace_of a) (model_name a) ''delete''"
    "\<exists>bulk. granted_actions (Some (ctx_permissions ctx)) (model_name a) (namespace_of a) acts = Inr bulk
       \<and> cp_bulk_actions caps = (if (case ma_policy a of None \<Rightarrow> False | Some p \<Rightarrow> po_read_only p) then [] else bulk)"
    by auto
qed

lemma singleton_rule_iff: "singleton_rule a (Some ctx) \<longleftrightarrow> ma_policy a = None \<and> ma_singleton a"
  by (simp add: singleton_rule_def)


lemma granted_actions_set:
  assumes "granted_actions (Some (ctx_permissions ctx)) r ns acts = Inr bulk" "namespace_re ns"
  shows "set bulk = {n. n \<noteq> [] \<and> n \<in> aa_name ` set acts \<and> grants ctx ns r n}"
  using assms(1)
proof (induction acts arbitrary: bulk)
  case (Cons act acts)
  show ?case
  proof (cases "aa_name act = []")
    case True
    then show ?thesis using Cons by auto
  next
    case False
    then obtain k ok names where h: "permission_key r (aa_name act) ns = Inr k"
      "has_permission (ctx_permissions ctx) k = Inr ok"
      "granted_actions (Some (ctx_permissions ctx)) r ns acts = Inr names"
      "bulk = (if ok then aa_name act # names else names)"
      using Cons.prems by (auto simp: has_capability_def rbind_Inr_iff)
    have "ok = grants ctx ns r (aa_name act)"
      using ctx_has_permission_key [OF h(1) assms(2), of ctx] h(2) by (simp add: ctx_has_permission_def)
    then show ?thesis using Cons.IH [OF h(3)] h(4) False by auto
  qed
qed simp

text \<open>For a platform admin the contract announces an action by the caller's platform key, while the
  endpoint asks for the tenant key: what is announced and what is allowed are independent.\<close>

theorem platform_actions_are_announced_by_another_key:
  assumes "contract_for rt ctx a s = (Inr m, s')" "resource_re (model_name a)" "ma_platform_only a"
    and "ma_policy a = None" "act \<in> set (ad_actions (ct_display rt a))" "action_re (aa_name act)"
  shows "(aa_name act \<in> set (cp_bulk_actions (mc_capabilities m)) \<longleftrightarrow>
       grants ctx PLATFORM_NAMESPACE (model_name a) (aa_name act))
    \<and> (require_action_permission ctx (model_name a) (aa_name act) = Inr () \<longleftrightarrow>
       may_access_tenant_tier ctx (model_name a) (aa_name act))"
proof -
  obtain perms where "build_model_contract (ct_fields rt) (ct_protected rt) a (ct_display rt a) (Some (ctx_permissions ctx))
       (Some (app_registry (ct_app rt))) (Some perms) (singleton_is_full a s) = Inr m"
    using assms(1) unfolding contract_for_Inr by blast
  note b = build_model_contract_Inr(2) [OF this]
  obtain c u d where f: "(case ma_policy a of None \<Rightarrow> (True, True, True) | Some p \<Rightarrow> po_capability_flags p
      (grants ctx PLATFORM_NAMESPACE (model_name a) ''delete'')) = (c, u, d)" using assms(4) by simp
  obtain bulk where g: "granted_actions (Some (ctx_permissions ctx)) (model_name a) PLATFORM_NAMESPACE
       (ad_actions (ct_display rt a)) = Inr bulk" "cp_bulk_actions (mc_capabilities m) = bulk"
    using build_capabilities_Inr(4) [OF b assms(2) f] assms(3,4) by (auto simp: namespace_of_def)
  have "aa_name act \<noteq> []" using assms(6) by (auto simp: action_re_def)
  then show ?thesis
    using granted_actions_set [OF g(1) namespace_re_admin(2)] g(2) assms(5)
      require_resource_access_eq [OF assms(2,6), of ctx]
    by (auto simp: require_action_permission_def)
qed

text \<open>A contract is always produced, unless the policy raises or an action has a name that is no action
  name.\<close>

lemma granted_actions_returns:
  fixes ctx :: admin_ctx
  assumes "\<forall>act \<in> set acts. aa_name act = [] \<or> action_re (aa_name act)" "resource_re r" "namespace_re ns"
  shows "\<exists>bulk. granted_actions (Some (ctx_permissions ctx)) r ns acts = Inr bulk"
  using assms by (induction acts) (auto simp: has_capability_grants)

lemma build_capabilities_returns:
  fixes ctx :: admin_ctx
  assumes "\<forall>act \<in> set acts. aa_name act = [] \<or> action_re (aa_name act)" "resource_re (model_name a)"
  shows "\<exists>caps. build_capabilities a acts (Some (ctx_permissions ctx)) full = Inr caps"
proof -
  have n: "(if ma_platform_only a then ''platform'' else ''admin'') = namespace_of a"
    by (simp add: namespace_of_def PLATFORM_NAMESPACE_def DEFAULT_NAMESPACE_def)
  have r: "namespace_re (namespace_of a)" by (simp add: namespace_of_def)
  obtain bulk where b: "granted_actions (Some (ctx_permissions ctx)) (model_name a) (namespace_of a) acts = Inr bulk"
    using granted_actions_returns [OF assms r, of ctx] by blast
  show ?thesis
    unfolding build_capabilities_def Let_def n b
    by (simp add: policy_flags_eq [OF assms(2)] has_capability_grants [OF assms(2) crud_actions_valid(1) r]
      has_capability_grants [OF assms(2) crud_actions_valid(2) r]
      has_capability_grants [OF assms(2) crud_actions_valid(3) r] split: prod.split)
qed

lemma contract_returns:
  assumes "compute_field_permissions (ct_protected rt) a (Some ctx) = Inr perms" "resource_re (model_name a)"
    and "\<forall>act \<in> set (ad_actions (ct_display rt a)). aa_name act = [] \<or> action_re (aa_name act)"
  obtains m where "contract_for rt ctx a s = (Inr m, s)"
    "mc_fields m = build_field_metadata (ct_fields rt) (ct_protected rt) a (ct_display rt a) (Some perms)"
proof -
  obtain caps where "build_capabilities a (ad_actions (ct_display rt a)) (Some (ctx_permissions ctx))
      (singleton_is_full a s) = Inr caps"
    using build_capabilities_returns [OF assms(3,2)] by blast
  then obtain m where m: "build_model_contract (ct_fields rt) (ct_protected rt) a (ct_display rt a) (Some (ctx_permissions ctx))
       (Some (app_registry (ct_app rt))) (Some perms) (singleton_is_full a s) = Inr m"
    by (simp add: build_model_contract_def Let_def)
  then have "contract_for rt ctx a s = (Inr m, s)" unfolding contract_for_Inr using assms(1) by blast
  then show thesis using that build_model_contract_Inr(1) [OF m] by blast
qed

section \<open>The full contract\<close>

lemma registered_get:
  assumes "registry_ok reg" "a \<in> set (admin_all reg)"
  shows "admin_get reg (model_name a) = Some a"
  using assms by (auto simp: registry_ok_def entry_ok_def admin_all_def admin_get_def)

lemma contracts_for_Inr:
  "contracts_for rt ctx as s = (Inr ms, s') \<Longrightarrow> s' = s \<and>
    list_all2 (\<lambda>a m. contract_for rt ctx a s = (Inr m, s)) (filter (reachable_in_scope rt ctx) as) ms"
proof (induction as arbitrary: ms)
  case (Cons a as)
  show ?case
  proof (cases "reachable_in_scope rt ctx a")
    case True
    then obtain m s1 rest where h: "contract_for rt ctx a s = (Inr m, s1)" "contracts_for rt ctx as s1 = (Inr rest, s')" "ms = m # rest"
      using Cons.prems by (auto simp: res_simps)
    moreover have "s1 = s" using contract_for_state [OF h(1)] .
    ultimately show ?thesis using Cons.IH [of rest] True by simp
  next
    case False
    then show ?thesis using Cons by simp
  qed
qed simp

lemma configured_ok:
  "distinct (configured_categories P seen cs) \<and> set (configured_categories P seen cs) = set cs \<inter> P - seen
   \<and> subseq (configured_categories P seen cs) cs"
proof (induction cs arbitrary: seen)
  case (Cons c cs)
  from Cons.IH [of seen] Cons.IH [of "insert c seen"] show ?case by auto
qed simp

text \<open>The headings of a sidebar: the categories that occur, once each; those of the configuration in its
  order, then the others sorted, with \<open>System\<close> last unless it was configured.\<close>

definition sidebar_of :: "string list \<Rightarrow> string list \<Rightarrow> string list \<Rightarrow> bool" where
  "sidebar_of config present cats \<longleftrightarrow> distinct cats \<and> set cats = set present \<and>
    (\<exists>xs ys zs. cats = xs @ ys @ zs \<and> subseq xs config \<and> set xs = set config \<inter> set present
      \<and> sorted ys \<and> SYSTEM_CATEGORY \<notin> set ys \<and> set zs \<subseteq> {SYSTEM_CATEGORY})"

lemma order_sidebar_ok: "sidebar_of config present (order_sidebar_categories present config)"
proof -
  let ?xs = "configured_categories (set present) {} config"
  let ?ys = "sort (filter (\<lambda>c. c \<notin> set ?xs \<and> c \<noteq> SYSTEM_CATEGORY) (remdups present))"
  let ?zs = "if SYSTEM_CATEGORY \<in> set present \<and> SYSTEM_CATEGORY \<notin> set ?xs \<union> set ?ys then [SYSTEM_CATEGORY] else []"
  have o: "order_sidebar_categories present config = ?xs @ ?ys @ ?zs"
    by (simp only: order_sidebar_categories_def Let_def)
  have x: "distinct ?xs" "set ?xs = set config \<inter> set present" "subseq ?xs config"
    using configured_ok [of "set present" "{}" config] by auto
  have d: "distinct (?xs @ ?ys @ ?zs)" using x(1) by auto
  have e: "set (?xs @ ?ys @ ?zs) = set present" using x(2) by auto
  have p: "?xs @ ?ys @ ?zs = ?xs @ ?ys @ ?zs \<and> subseq ?xs config \<and> set ?xs = set config \<inter> set present
      \<and> sorted ?ys \<and> SYSTEM_CATEGORY \<notin> set ?ys \<and> set ?zs \<subseteq> {SYSTEM_CATEGORY}"
    using x(2,3) by auto
  show ?thesis unfolding sidebar_of_def o using d e p by blast
qed

text \<open>C33: The full contract is the contracts of the registered resources the request can reach, in the
  order of registration: in multi-tenant mode the tenant's own inside a tenant and the global ones
  outside.  Each is what its own route answers, and the sidebar lists exactly their categories.\<close>

theorem full_contract_is_the_reachable_contracts:
  assumes "get_full_contract rt ctx s = (Inr fu, s')" "registry_ok (app_registry (ct_app rt))"
  shows "s' = s
    \<and> map mc_resource (fu_models fu)
        = map model_name (filter (reachable_in_scope rt ctx) (admin_all (app_registry (ct_app rt))))
    \<and> (\<forall>m \<in> set (fu_models fu). get_model_contract rt (mc_resource m) ctx s = (Inr m, s))
    \<and> sidebar_of (ct_sidebar_categories rt) (categories_of (fu_models fu)) (fu_sidebar_categories fu)"
proof -
  let ?as = "filter (reachable_in_scope rt ctx) (admin_all (app_registry (ct_app rt)))"
  obtain s1 where f: "contracts_for rt ctx (admin_all (app_registry (ct_app rt))) s = (Inr (fu_models fu), s1)"
    "s' = s1" "fu_sidebar_categories fu = order_sidebar_categories (categories_of (fu_models fu)) (ct_sidebar_categories rt)"
    using assms(1) by (auto simp: get_full_contract_def res_simps)
  note l = contracts_for_Inr [OF f(1)]
  then have l2: "list_all2 (\<lambda>a m. contract_for rt ctx a s = (Inr m, s)) ?as (fu_models fu)" by simp
  have r: "mc_resource m = model_name a" if "contract_for rt ctx a s = (Inr m, s)" for a m
    using that build_model_contract_Inr(3) unfolding contract_for_Inr by blast
  have names: "map mc_resource (fu_models fu) = map model_name ?as"
    using l2 by (induction rule: list_all2_induct) (simp_all add: r)
  have each: "get_model_contract rt (mc_resource m) ctx s = (Inr m, s)" if m: "m \<in> set (fu_models fu)" for m
  proof -
    obtain a where a: "a \<in> set ?as" "contract_for rt ctx a s = (Inr m, s)"
    proof -
      obtain i where i: "i < length (fu_models fu)" "m = fu_models fu ! i" using m by (auto simp: in_set_conv_nth)
      then have "i < length ?as" "contract_for rt ctx (?as ! i) s = (Inr m, s)"
        using l2 by (simp_all add: list_all2_conv_all_nth)
      then show thesis using that [of "?as ! i"] nth_mem [of i ?as] by blast
    qed
    then have "admin_get (app_registry (ct_app rt)) (model_name a) = Some a"
      using registered_get [OF assms(2)] by simp
    then show ?thesis
      using a(2) r [OF a(2)] resolve_admin_Inr [OF assms(2), of "model_name a" a]
      by (simp add: get_model_contract_def)
  qed
  show ?thesis
    using l f(2,3) names each order_sidebar_ok [of "ct_sidebar_categories rt" "categories_of (fu_models fu)"] by auto
qed

section \<open>An example\<close>

text \<open>The notes with a title that is shown only for open notes, and the ledger of the platform with one
  action.\<close>

definition plain_display :: admin_display where
  "plain_display = \<lparr>ad_description = None, ad_show_in_nav = True, ad_category = Some ''Content'',
     ad_nav_order = 0, ad_fieldsets = [\<lparr>fs_label = ''Main'', fs_fields = [''title'', ''gone'', ''title''],
       fs_collapsed = False, fs_description = None\<rparr>],
     ad_form_layout = ''tabs'', ad_widgets = [(''title'', VStr ''textarea'')], ad_placeholders = [],
     ad_list_editable = [''title''], ad_list_badges = [],
     ad_field_conditions = [(''title'', VDict [(''field'', VStr ''status''), (''equals'', VStr ''open'')])],
     ad_field_dependencies = [], ad_actions = [AdminAction ''close''], ad_inline_extra = (\<lambda>i. 0),
     ad_inline_widget = (\<lambda>i. None), ad_column_doc = (\<lambda>n. None), ad_relationships = []\<rparr>"

definition demo_contract :: contract_runtime where
  "demo_contract = \<lparr>ct_app = notes_app, ct_fields = build_default_registry, ct_display = (\<lambda>a. plain_display),
     ct_multi_tenant = True, ct_sidebar_categories = [''Content''], ct_contributions = []\<rparr>"

definition ledger_admin :: model_admin where
  "ledger_admin = (ModelAdmin (notes_model\<lparr>mo_tablename := ''ledger''\<rparr>))\<lparr>ma_platform_only := True\<rparr>"

definition tenant_operator :: admin_ctx where
  "tenant_operator = \<lparr>ctx_principal = None,
     ctx_tenant = Some \<lparr>tn_id = ''1'', tn_slug = ''acme'', tn_name = None, tn_schema_name = None\<rparr>,
     ctx_permissions = [''platform.*''], ctx_require_superadmin = None\<rparr>"

lemma demo_contract_permissions:
  "compute_field_permissions (ct_protected demo_contract) notes_admin (Some tenant_owner) =
    Inr [(''id'', FP_READ), (''title'', FP_WRITE), (''status'', FP_READ), (''is_system'', FP_WRITE)]"
  by code_simp

lemma demo_contract_valid:
  "resource_re (model_name notes_admin)" "resource_re (model_name ledger_admin)"
  "\<forall>act \<in> set (ad_actions (ct_display demo_contract a)). aa_name act = [] \<or> action_re (aa_name act)"
proof -
  have "action_re (aa_name (AdminAction ''close''))" by code_simp
  then show "\<forall>act \<in> set (ad_actions (ct_display demo_contract a)). aa_name act = [] \<or> action_re (aa_name act)"
    by (simp add: demo_contract_def plain_display_def)
qed code_simp+

lemma demo_contract_run:
  obtains m where "contract_for demo_contract tenant_owner notes_admin notes_session = (Inr m, notes_session)"
    "mc_fields m = build_field_metadata build_default_registry (ct_protected demo_contract) notes_admin plain_display
       (Some [(''id'', FP_READ), (''title'', FP_WRITE), (''status'', FP_READ), (''is_system'', FP_WRITE)])"
proof -
  have "ct_fields demo_contract = build_default_registry" "ct_display demo_contract a = plain_display" for a
    by (simp_all add: demo_contract_def)
  then show thesis
    using contract_returns [OF demo_contract_permissions demo_contract_valid(1,3)] that by metis
qed

lemma contract_offers_what_writes_accept_witness:
  "isr (clean_write_payload [(''title'', VStr ''n'')] (projr (apply_field_policy_to_schema
     (build_model_schema (ct_protected demo_contract) notes_admin) notes_admin (Some tenant_owner) None)) False)"
proof -
  let ?r = "apply_field_policy_to_schema
     (build_model_schema (ct_protected demo_contract) notes_admin) notes_admin (Some tenant_owner) None"
  obtain m where m: "contract_for demo_contract tenant_owner notes_admin notes_session = (Inr m, notes_session)"
    "mc_fields m = build_field_metadata build_default_registry (ct_protected demo_contract) notes_admin plain_display
       (Some [(''id'', FP_READ), (''title'', FP_WRITE), (''status'', FP_READ), (''is_system'', FP_WRITE)])"
    by (rule demo_contract_run)
  have "isr ?r" by code_simp
  then have r: "?r = Inr (projr ?r)" by (cases ?r) simp_all
  have d: "set (column_names (ma_model notes_admin)) \<inter> fst ` set (ma_calculated_fields notes_admin) = {}"
    by (simp add: notes_admin_def ModelAdmin_def)
  have "''title'' \<in> set (offered (mc_fields m))" unfolding m(2) by code_simp
  then show ?thesis
    using contract_offers_what_writes_accept [OF m(1) r d, of "[(''title'', VStr ''n'')]"] by simp
qed



lemma platform_actions_are_announced_by_another_key_witness:
  "\<exists>m. contract_for demo_contract tenant_operator ledger_admin notes_session = (Inr m, notes_session)
    \<and> ''close'' \<in> set (cp_bulk_actions (mc_capabilities m))
    \<and> require_action_permission tenant_operator (model_name ledger_admin) ''close'' \<noteq> Inr ()"
proof -
  have "isr (compute_field_permissions (ct_protected demo_contract) ledger_admin (Some tenant_operator))" by code_simp
  then obtain perms where "compute_field_permissions (ct_protected demo_contract) ledger_admin (Some tenant_operator) = Inr perms"
    by (auto simp: isr_iff)
  then obtain m where m: "contract_for demo_contract tenant_operator ledger_admin notes_session = (Inr m, notes_session)"
    using contract_returns demo_contract_valid(2,3) by metis
  have v: "action_re (aa_name (AdminAction ''close''))" by code_simp
  have a: "ma_platform_only ledger_admin" "ma_policy ledger_admin = None"
    by (simp_all add: ledger_admin_def ModelAdmin_def)
  have i: "AdminAction ''close'' \<in> set (ad_actions (ct_display demo_contract ledger_admin))"
    by (simp add: demo_contract_def plain_display_def)
  have g: "grants tenant_operator PLATFORM_NAMESPACE (model_name ledger_admin) ''close''"
    "\<not> may_access_tenant_tier tenant_operator (model_name ledger_admin) ''close''" by code_simp+
  have n: "aa_name (AdminAction ''close'') = ''close''" by (simp add: AdminAction_def)
  note w = platform_actions_are_announced_by_another_key [OF m demo_contract_valid(2) a i v, unfolded n]
  show ?thesis using w g m by blast
qed

lemma full_contract_is_the_reachable_contracts_witness:
  "\<exists>fu. get_full_contract demo_contract tenant_owner notes_session = (Inr fu, notes_session)
    \<and> map mc_resource (fu_models fu) = [''notes'']"
proof -
  let ?run = "get_full_contract demo_contract tenant_owner notes_session"
  have "isr (fst ?run)" by code_simp
  note run = isr_fst [OF this]
  have ok: "registry_ok (app_registry (ct_app demo_contract))" using notes_app_ok by (simp add: demo_contract_def)
  have "map model_name (filter (reachable_in_scope demo_contract tenant_owner)
     (admin_all (app_registry (ct_app demo_contract)))) = [''notes'']" by code_simp
  then show ?thesis
    using full_contract_is_the_reachable_contracts [OF run ok] run
    by (intro exI [of _ "projr (fst ?run)"]) simp
qed

end
