(* ===== verification/ServiceAccounts.thy ===== *)
theory ServiceAccounts
  imports Bootstrap
begin

text \<open>
  Machine accounts: \<open>src/asterion/extensions/service_accounts/service.py\<close> and its table in
  \<open>models.py\<close>.  Both helpers run in a session that is scoped to the tenant: \<open>path\<close> is its search
  path.  A deletion removes the rows the code deletes; what the database cascades from them to
  tables of other subsystems is not part of it.
\<close>

record service_account =
  sa_user_id :: nat
  sa_tenant_id :: nat
  sa_label :: string

record service_site =
  vs_site :: site
  vs_accounts :: "service_account list"

type_synonym 'a service = "(service_site, 'a) proc"

definition in_site :: "'a handler \<Rightarrow> 'a service" where
  "in_site m = (\<lambda>s. case m (vs_site s) of (r, v) \<Rightarrow> (r, s\<lparr>vs_site := v\<rparr>))"

section \<open>Names\<close>

text \<open>\<open>re.sub(r"[^a-z0-9]+", "-", text)\<close>: a run of other characters is one dash.\<close>

fun dashed :: "bool \<Rightarrow> string \<Rightarrow> string" where
  "dashed in_run [] = []"
| "dashed in_run (c # s) =
    (if is_lower c \<or> is_digit c then c # dashed False s
     else if in_run then dashed True s else CHR ''-'' # dashed True s)"

definition slug_of_label :: "string \<Rightarrow> string" where
  "slug_of_label label =
    (let slug = strip_chars [CHR ''-''] (dashed False (lower label)) in if slug = [] then ''svc'' else slug)"

definition service_role_name :: "string \<Rightarrow> string" where
  "service_role_name label = ''service:'' @ label"

section \<open>Creating\<close>

text \<open>\<open>dict.fromkeys\<close>: the first of equal keys stays.\<close>

definition unique_keys :: "string list \<Rightarrow> string list" where
  "unique_keys ks = rev (remdups (rev ks))"

definition service_email :: "'t site_env \<Rightarrow> string \<Rightarrow> string option \<Rightarrow> string handler" where
  "service_email env label email = sbind (case email of
       Some e \<Rightarrow> ret e
     | None \<Rightarrow> sbind (new_id env) (\<lambda>i.
         ret (''service+'' @ slug_of_label label @ ''-'' @ uuid_hex i @ ''@service.invalid'')))
     (\<lambda>e. ret (strip (lower e)))"

definition users_with_email :: "string \<Rightarrow> user option handler" where
  "users_with_email e =
     sbind (on_server (db_gets (\<lambda>db. scalar_one_or_none (filter (\<lambda>u. us_email u = e) (db_users db))))) lift_res"

definition role_called :: "'t site_env \<Rightarrow> string list \<Rightarrow> string \<Rightarrow> role option handler" where
  "role_called env path name =
     sbind (tt_gets env path (\<lambda>t. scalar_one_or_none (filter (\<lambda>r. ro_name r = name) (tt_roles t)))) lift_res"

text \<open>The role with its grants and its link to the membership, and the marker, as they are added.\<close>

definition add_service_role :: "role \<Rightarrow> string list \<Rightarrow> membership \<Rightarrow> tenant_tables \<Rightarrow> tenant_tables" where
  "add_service_role r keys m t = t\<lparr>
     tt_permissions := tt_permissions t @ map (\<lambda>k. \<lparr>rp_role_id = ro_id r, rp_key = k\<rparr>) keys,
     tt_links := tt_links t @ [\<lparr>mr_membership_id = mb_id m, mr_role_id = ro_id r\<rparr>]\<rparr>"

definition create_service_account ::
    "'t site_env \<Rightarrow> string list \<Rightarrow> nat \<Rightarrow> string \<Rightarrow> string list \<Rightarrow> string option \<Rightarrow> user service" where
  "create_service_account env path tenant_id label permission_keys email =
     sbind (in_site (
       sbind (lift_res (mapM (\<lambda>k. validate_permission_key (VStr k)) permission_keys)) (\<lambda>validated.
       let keys = unique_keys validated; role_name = service_role_name label in
       sbind (service_email env label email) (\<lambda>address.
       sbind (users_with_email address) (\<lambda>existing.
       if existing \<noteq> None
       then throw (PyExc ValueError (''A user with email '' @ repr_str address @ '' already exists.''))
       else sbind (role_called env path role_name) (\<lambda>taken.
         if taken \<noteq> None
         then throw (PyExc ValueError (''A tenant role named '' @ repr_str role_name @ '' already exists - pick a unique label.''))
         else
           sbind (create_passwordless_user env address (Some label) True True) (\<lambda>u.
           sbind (ensure_membership env (us_id u) tenant_id) (\<lambda>m.
           sbind (new_id env) (\<lambda>i.
           let r = \<lparr>ro_id = i, ro_name = role_name, ro_description = Some (''Service account: '' @ label),
             ro_is_system = False\<rparr> in
           sbind (tt_modify env path (\<lambda>t. t\<lparr>tt_roles := tt_roles t @ [r]\<rparr>)) (\<lambda>_.
           sbind (sn_flushed env) (\<lambda>_.
           sbind (tt_modify env path (add_service_role r keys m)) (\<lambda>_. ret u))))))))))))
     (\<lambda>u.
     sbind (modify (\<lambda>s. s\<lparr>vs_accounts := vs_accounts s @
       [\<lparr>sa_user_id = us_id u, sa_tenant_id = tenant_id, sa_label = label\<rparr>]\<rparr>)) (\<lambda>_.
     sbind (in_site (sn_flushed env)) (\<lambda>_. ret u)))"

section \<open>Deleting\<close>

definition marker_of :: "nat \<Rightarrow> service_account option service" where
  "marker_of user_id =
     sbind (gets (\<lambda>s. scalar_one_or_none (filter (\<lambda>a. sa_user_id a = user_id) (vs_accounts s)))) lift_res"

text \<open>The links of the membership, and the roles among them that belong to a service account.\<close>

definition linked_role_ids :: "nat \<Rightarrow> tenant_tables \<Rightarrow> nat list" where
  "linked_role_ids mid t = map mr_role_id (filter (\<lambda>l. mr_membership_id l = mid) (tt_links t))"

definition service_role :: "nat list \<Rightarrow> role \<Rightarrow> bool" where
  "service_role ids r = (ro_id r \<in> set ids \<and> startswith (ro_name r) ''service:'' \<and> \<not> ro_is_system r)"

definition remove_service_roles :: "nat \<Rightarrow> tenant_tables \<Rightarrow> tenant_tables" where
  "remove_service_roles mid t =
    (let ids = linked_role_ids mid t; gone = map ro_id (filter (service_role ids) (tt_roles t)) in
     t\<lparr>tt_links := filter (\<lambda>l. mr_membership_id l \<noteq> mid) (tt_links t),
       tt_permissions := filter (\<lambda>p. rp_role_id p \<notin> set gone) (tt_permissions t),
       tt_roles := filter (\<lambda>r. ro_id r \<notin> set gone) (tt_roles t)\<rparr>)"

definition delete_user :: "nat \<Rightarrow> unit serve" where
  "delete_user i = db_modify (\<lambda>db. db\<lparr>db_users := filter (\<lambda>u. us_id u \<noteq> i) (db_users db)\<rparr>)"

definition delete_service_account ::
    "'t site_env \<Rightarrow> string list \<Rightarrow> nat \<Rightarrow> nat \<Rightarrow> unit service" where
  "delete_service_account env path user_id tenant_id =
     sbind (marker_of user_id) (\<lambda>found. case found of
       None \<Rightarrow> throw (PyExc ValueError (''No service account with id '' @ uuid_str user_id @ ''.''))
     | Some marker \<Rightarrow>
       sbind (in_site (one_membership (\<lambda>m. mb_user_id m = user_id \<and> mb_tenant_id m = tenant_id))) (\<lambda>membership.
       sbind (case membership of
           None \<Rightarrow> ret ()
         | Some m \<Rightarrow>
             sbind (in_site (tt_modify env path (remove_service_roles (mb_id m)))) (\<lambda>_.
             in_site (sd_modify (delete_membership m)))) (\<lambda>_.
       sbind (modify (\<lambda>s. s\<lparr>vs_accounts := filter (\<lambda>a. a \<noteq> marker) (vs_accounts s)\<rparr>)) (\<lambda>_.
       sbind (in_site (on_server (delete_user user_id))) (\<lambda>_.
       in_site (sn_flushed env))))))"

section \<open>What the helpers do\<close>

lemma in_site_Inr: "in_site m s = (Inr x, s') \<longleftrightarrow> (\<exists>v. m (vs_site s) = (Inr x, v) \<and> s' = s\<lparr>vs_site := v\<rparr>)"
  by (auto simp: in_site_def split: prod.splits)

abbreviation drawn :: "site \<Rightarrow> nat" where "drawn s \<equiv> sv_drawn (st_server s)"

abbreviation nth_id :: "'t site_env \<Rightarrow> nat \<Rightarrow> nat" where "nth_id env k \<equiv> cr_uuid4 (en_crypto (sn_auth env)) k"

lemma draw_Inr: "on_server (draw f) s = (Inr x, s') \<longleftrightarrow>
    x = f (drawn s) \<and> s' = s\<lparr>st_server := (st_server s)\<lparr>sv_drawn := Suc (drawn s)\<rparr>\<rparr>"
  by (auto simp: on_server_def draw_def)

lemma new_id_Inr: "new_id env s = (Inr i, s') \<longleftrightarrow>
    i = nth_id env (drawn s) \<and> s' = s\<lparr>st_server := (st_server s)\<lparr>sv_drawn := Suc (drawn s)\<rparr>\<rparr>"
  by (simp add: new_id_def draw_Inr)

lemma service_email_Inr:
  assumes "service_email env label email s = (Inr e, s')"
  obtains d where "drawn s \<le> d" "s' = s\<lparr>st_server := (st_server s)\<lparr>sv_drawn := d\<rparr>\<rparr>"
proof (cases email)
  case None
  then show ?thesis using assms that [of "Suc (drawn s)"] by (auto simp: service_email_def res_simps new_id_Inr)
next
  case (Some e')
  then have "s' = s" using assms by (auto simp: service_email_def)
  then show ?thesis using that [of "drawn s"] by simp
qed

lemma create_passwordless_user_Inr:
  assumes "create_passwordless_user env e full_name active disabled s = (Inr u, s')"
  obtains k d hashed where "drawn s \<le> k" "k < d"
    "u = \<lparr>us_id = nth_id env k, us_email = e, us_hashed_password = hashed, us_full_name = full_name,
       us_is_active = active, us_is_superadmin = False, us_token_version = 0,
       us_password_login_disabled = disabled, us_totp_secret = None, us_totp_enabled = False\<rparr>"
    "s' = s\<lparr>st_server := (st_server s)\<lparr>sv_db := (sv_db (st_server s))\<lparr>db_users := db_users (sv_db (st_server s)) @ [u]\<rparr>,
       sv_drawn := d\<rparr>\<rparr>"
proof -
  let ?k = "Suc (Suc (drawn s))"
  have "us_id u = nth_id env ?k \<and> (\<exists>hashed. u = \<lparr>us_id = nth_id env ?k, us_email = e, us_hashed_password = hashed,
       us_full_name = full_name, us_is_active = active, us_is_superadmin = False, us_token_version = 0,
       us_password_login_disabled = disabled, us_totp_secret = None, us_totp_enabled = False\<rparr>)
    \<and> s' = s\<lparr>st_server := (st_server s)\<lparr>sv_db := (sv_db (st_server s))\<lparr>db_users := db_users (sv_db (st_server s)) @ [u]\<rparr>,
       sv_drawn := Suc ?k\<rparr>\<rparr>"
    using assms
    by (auto simp: create_passwordless_user_def unusable_password_hash_def Let_def res_simps draw_Inr new_id_Inr
      on_server_Inr draw_def add_user_def db_modify_def sn_flushed_Inr proc_simps)
  then show ?thesis using that [of ?k "Suc ?k"] by auto
qed

lemma ensure_membership_fresh:
  assumes "ensure_membership env uid tid s = (Inr m, s')" "\<forall>x \<in> set (sd_memberships (st_db s)). mb_user_id x \<noteq> uid"
  shows "m = \<lparr>mb_id = nth_id env (drawn s), mb_user_id = uid, mb_tenant_id = tid, mb_is_active = True\<rparr>"
    "s' = s\<lparr>st_db := (st_db s)\<lparr>sd_memberships := sd_memberships (st_db s) @ [m]\<rparr>,
       st_server := (st_server s)\<lparr>sv_drawn := Suc (drawn s)\<rparr>\<rparr>"
proof -
  have "filter (\<lambda>x. mb_user_id x = uid \<and> mb_tenant_id x = tid) (sd_memberships (st_db s)) = []"
    using assms(2) by (auto simp: filter_empty_conv)
  then have "m = \<lparr>mb_id = nth_id env (drawn s), mb_user_id = uid, mb_tenant_id = tid, mb_is_active = True\<rparr> \<and>
    s' = s\<lparr>st_db := (st_db s)\<lparr>sd_memberships := sd_memberships (st_db s) @ [m]\<rparr>,
       st_server := (st_server s)\<lparr>sv_drawn := Suc (drawn s)\<rparr>\<rparr>"
    using assms(1) by (auto simp: ensure_membership_def Let_def res_simps one_membership_Inr new_id_Inr sd_modify_def
      sn_flushed_Inr split: option.splits)
  then show "m = \<lparr>mb_id = nth_id env (drawn s), mb_user_id = uid, mb_tenant_id = tid, mb_is_active = True\<rparr>"
    "s' = s\<lparr>st_db := (st_db s)\<lparr>sd_memberships := sd_memberships (st_db s) @ [m]\<rparr>,
       st_server := (st_server s)\<lparr>sv_drawn := Suc (drawn s)\<rparr>\<rparr>" by blast+
qed

lemma none_selected: "Inr None = scalar_one_or_none xs \<longleftrightarrow> xs = []"
  using scalar_one_or_none_Inr [of xs None] by auto

lemma lookups_None:
  "users_with_email e s = (Inr None, s') \<Longrightarrow> s' = s"
  "role_called env path name s = (Inr None, s') \<Longrightarrow> s' = s \<and> (\<exists>n. local_schema env path (st_db s) = Some n
     \<and> filter (\<lambda>r. ro_name r = name) (tt_roles (schema_tables n (st_db s))) = [])"
  by (auto simp: users_with_email_def role_called_def res_simps on_server_Inr db_gets_def tt_gets_Inr
      none_selected lift_res_Inr simp del: run_eq_simps(3))

lemma memberships_apart [simp]:
  "local_schema env path (db\<lparr>sd_memberships := ms\<rparr>) = local_schema env path db"
  "schema_tables n (db\<lparr>sd_memberships := ms\<rparr>) = schema_tables n db"
  "set_tables n t (db\<lparr>sd_memberships := ms\<rparr>) = (set_tables n t db)\<lparr>sd_memberships := ms\<rparr>"
  "sd_memberships (set_tables n t db) = sd_memberships db"
  by (simp_all add: local_schema_def schema_tables_def set_tables_def)

section \<open>What creating leaves\<close>

text \<open>No identifier drawn from here on names an account that has a membership.\<close>

definition new_users_are_strangers :: "'t site_env \<Rightarrow> site \<Rightarrow> bool" where
  "new_users_are_strangers env s \<longleftrightarrow>
    (\<forall>k \<ge> drawn s. \<forall>m \<in> set (sd_memberships (st_db s)). mb_user_id m \<noteq> nth_id env k)"

text \<open>The state after a creation: one account, one membership, one role with its grants and its link,
  one marker.\<close>

definition service_created ::
    "'t site_env \<Rightarrow> nat \<Rightarrow> string \<Rightarrow> string \<Rightarrow> string list \<Rightarrow> user \<Rightarrow> membership \<Rightarrow> role \<Rightarrow> service_site \<Rightarrow> service_site \<Rightarrow> bool" where
  "service_created env tid label n keys u m r s s' \<longleftrightarrow> (let v = vs_site s; db = st_db v; t = schema_tables n db in
     (\<exists>k \<ge> drawn v. us_id u = nth_id env k) \<and> us_is_active u \<and> \<not> us_is_superadmin u \<and> us_password_login_disabled u
     \<and> (\<exists>k \<ge> drawn v. m = \<lparr>mb_id = nth_id env k, mb_user_id = us_id u, mb_tenant_id = tid, mb_is_active = True\<rparr>)
     \<and> (\<exists>k \<ge> drawn v. r = \<lparr>ro_id = nth_id env k, ro_name = service_role_name label,
          ro_description = Some (''Service account: '' @ label), ro_is_system = False\<rparr>)
     \<and> sv_db (st_server (vs_site s')) = (sv_db (st_server v))\<lparr>db_users := db_users (sv_db (st_server v)) @ [u]\<rparr>
     \<and> st_db (vs_site s') = set_tables n (add_service_role r keys m (t\<lparr>tt_roles := tt_roles t @ [r]\<rparr>))
          (db\<lparr>sd_memberships := sd_memberships db @ [m]\<rparr>)
     \<and> vs_accounts s' = vs_accounts s @ [\<lparr>sa_user_id = us_id u, sa_tenant_id = tid, sa_label = label\<rparr>])"

lemma add_service_role_more [simp]:
  "tt_roles (add_service_role r keys m t) = tt_roles t"
  by (simp add: add_service_role_def)

lemma create_service_account_Inr:
  assumes "create_service_account env path tid label permission_keys email s = (Inr u, s')"
    and "new_users_are_strangers env (vs_site s)"
  obtains n validated m r where "mapM (\<lambda>k. validate_permission_key (VStr k)) permission_keys = Inr validated"
    "local_schema env path (st_db (vs_site s)) = Some n"
    "filter (\<lambda>r. ro_name r = service_role_name label) (tt_roles (schema_tables n (st_db (vs_site s)))) = []"
    "service_created env tid label n (unique_keys validated) u m r s s'"
proof -
  let ?v = "vs_site s"
  obtain validated address v1 v2 v3 m v4 i v5 v6 v7 where
    val: "mapM (\<lambda>k. validate_permission_key (VStr k)) permission_keys = Inr validated"
    and addr: "service_email env label email ?v = (Inr address, v1)"
    and look: "users_with_email address v1 = (Inr None, v2)" "role_called env path (service_role_name label) v2 = (Inr None, v3)"
    and made: "create_passwordless_user env address (Some label) True True v3 = (Inr u, v4)"
      "ensure_membership env (us_id u) tid v4 = (Inr m, v5)" "new_id env v5 = (Inr i, v6)"
    and tabs: "sbind (tt_modify env path (\<lambda>t. t\<lparr>tt_roles := tt_roles t @ [\<lparr>ro_id = i, ro_name = service_role_name label,
        ro_description = Some (''Service account: '' @ label), ro_is_system = False\<rparr>]\<rparr>)) (\<lambda>_.
      sbind (sn_flushed env) (\<lambda>_. tt_modify env path (add_service_role \<lparr>ro_id = i, ro_name = service_role_name label,
        ro_description = Some (''Service account: '' @ label), ro_is_system = False\<rparr> (unique_keys validated) m))) v6 = (Inr (), v7)"
    and fin: "s' = s\<lparr>vs_site := v7, vs_accounts := vs_accounts s @ [\<lparr>sa_user_id = us_id u, sa_tenant_id = tid, sa_label = label\<rparr>]\<rparr>"
    using assms(1)
    by (auto simp: create_service_account_def Let_def res_simps in_site_Inr lift_res_Inr sn_flushed_Inr
      simp del: run_eq_simps(3) split: if_splits)
  let ?r = "\<lparr>ro_id = i, ro_name = service_role_name label,
        ro_description = Some (''Service account: '' @ label), ro_is_system = False\<rparr>"
  obtain d1 where v1: "drawn ?v \<le> d1" "v1 = ?v\<lparr>st_server := (st_server ?v)\<lparr>sv_drawn := d1\<rparr>\<rparr>"
    by (rule service_email_Inr [OF addr])
  have v3: "v3 = v1" using look lookups_None by blast
  obtain n where n: "local_schema env path (st_db ?v) = Some n"
    "filter (\<lambda>r. ro_name r = service_role_name label) (tt_roles (schema_tables n (st_db ?v))) = []"
    using look lookups_None v1(2) by fastforce
  obtain k d hashed where u: "d1 \<le> k" "k < d" "u = \<lparr>us_id = nth_id env k, us_email = address,
       us_hashed_password = hashed, us_full_name = Some label, us_is_active = True, us_is_superadmin = False,
       us_token_version = 0, us_password_login_disabled = True, us_totp_secret = None, us_totp_enabled = False\<rparr>"
    "v4 = ?v\<lparr>st_server := (st_server ?v)\<lparr>sv_db := (sv_db (st_server ?v))\<lparr>db_users := db_users (sv_db (st_server ?v)) @ [u]\<rparr>,
       sv_drawn := d\<rparr>\<rparr>"
    using create_passwordless_user_Inr [OF made(1)] unfolding v3 v1(2) by auto
  have "\<forall>x \<in> set (sd_memberships (st_db v4)). mb_user_id x \<noteq> us_id u"
    using assms(2) u v1(1) by (simp add: new_users_are_strangers_def)
  note m = ensure_membership_fresh [OF made(2) this]
  have i: "i = nth_id env (Suc d)" "drawn v5 = Suc d" using made(3) m(2) u(4) by (auto simp: new_id_Inr)
  have st: "st_db v6 = (st_db ?v)\<lparr>sd_memberships := sd_memberships (st_db ?v) @ [m]\<rparr>"
    "sv_db (st_server v6) = (sv_db (st_server ?v))\<lparr>db_users := db_users (sv_db (st_server ?v)) @ [u]\<rparr>"
    using made(3) m(2) u(4) by (auto simp: new_id_Inr)
  let ?t = "schema_tables n (st_db ?v)"
  have v7: "st_db v7 = set_tables n (add_service_role ?r (unique_keys validated) m (?t\<lparr>tt_roles := tt_roles ?t @ [?r]\<rparr>)) (st_db v6)"
    "st_server v7 = st_server v6"
    using tabs n(1) local_schema_set [OF n(1)] st(1) by (auto simp: res_simps tt_modify_Inr sn_flushed_Inr)
  have "service_created env tid label n (unique_keys validated) u m ?r s s'"
    unfolding service_created_def Let_def fin
  proof (intro conjI)
    show "\<exists>k \<ge> drawn ?v. us_id u = nth_id env k" using u v1(1) by (intro exI [of _ k]) simp
    show "\<exists>k \<ge> drawn ?v. m = \<lparr>mb_id = nth_id env k, mb_user_id = us_id u, mb_tenant_id = tid, mb_is_active = True\<rparr>"
      using u v1(1) m(1) by (intro exI [of _ d]) simp
    show "\<exists>k \<ge> drawn ?v. ?r = \<lparr>ro_id = nth_id env k, ro_name = service_role_name label,
          ro_description = Some (''Service account: '' @ label), ro_is_system = False\<rparr>"
      using u(1,2) v1(1) i by (intro exI [of _ "Suc d"]) simp
  qed (use u(3) st v7 in simp_all)
  then show ?thesis using that val n by blast
qed

text \<open>No identifier drawn from here on is in a table.\<close>

definition unused_ids :: "'t site_env \<Rightarrow> service_site \<Rightarrow> bool" where
  "unused_ids env s \<longleftrightarrow> (\<forall>k \<ge> drawn (vs_site s). let i = nth_id env k; db = st_db (vs_site s) in
     (\<forall>u \<in> set (db_users (sv_db (st_server (vs_site s)))). us_id u \<noteq> i)
     \<and> (\<forall>a \<in> set (vs_accounts s). sa_user_id a \<noteq> i)
     \<and> (\<forall>m \<in> set (sd_memberships db). mb_user_id m \<noteq> i \<and> mb_id m \<noteq> i)
     \<and> (\<forall>(n, t) \<in> set (sd_schemas db). (\<forall>r \<in> set (tt_roles t). ro_id r \<noteq> i)
          \<and> (\<forall>p \<in> set (tt_permissions t). rp_role_id p \<noteq> i) \<and> (\<forall>l \<in> set (tt_links t). mr_membership_id l \<noteq> i \<and> mr_role_id l \<noteq> i)))"

lemma sbind_run: "m s = (Inr x, s') \<Longrightarrow> sbind m f s = f x s'"
  by (simp add: sbind_def)

lemma unused_strangers: "unused_ids env s \<Longrightarrow> new_users_are_strangers env (vs_site s)"
  by (auto simp: unused_ids_def new_users_are_strangers_def Let_def)

lemma local_schema_entry: "local_schema env path db = Some n \<Longrightarrow> (n, schema_tables n db) \<in> set (sd_schemas db)"
proof -
  assume "local_schema env path db = Some n"
  then obtain t where "map_of (sd_schemas db) n = Some t" by (auto simp: local_schema_def find_Some_iff)
  then show ?thesis by (simp add: schema_tables_def map_of_SomeD)
qed

lemma service_role_own: "startswith (service_role_name label) ''service:''"
  by (simp add: service_role_name_def startswith_append)

lemma remove_added:
  assumes "\<forall>x \<in> set (tt_roles t). ro_id x \<noteq> ro_id r" "\<forall>p \<in> set (tt_permissions t). rp_role_id p \<noteq> ro_id r"
    and "\<forall>l \<in> set (tt_links t). mr_membership_id l \<noteq> mb_id m"
    and "ro_name r = service_role_name label" "\<not> ro_is_system r"
  shows "remove_service_roles (mb_id m) (add_service_role r keys m (t\<lparr>tt_roles := tt_roles t @ [r]\<rparr>)) = t"
proof -
  let ?t = "add_service_role r keys m (t\<lparr>tt_roles := tt_roles t @ [r]\<rparr>)"
  have l: "linked_role_ids (mb_id m) ?t = [ro_id r]"
    using assms(3) by (simp add: linked_role_ids_def add_service_role_def filter_empty_conv)
  have "filter (service_role [ro_id r]) (tt_roles t) = []"
    using assms(1) by (simp add: filter_empty_conv service_role_def)
  then have g: "map ro_id (filter (service_role [ro_id r]) (tt_roles ?t)) = [ro_id r]"
    using assms(4,5) service_role_own by (simp add: add_service_role_def service_role_def)
  show ?thesis
    unfolding remove_service_roles_def Let_def l g using assms(1-3)
    by (simp add: add_service_role_def filter_id_conv)
qed

text \<open>C13: Deleting a machine account undoes its creation.  Where the drawn identifiers are unused and the
  database takes the changes, deleting the account just created succeeds, and every table of
  accounts, memberships, markers and tenants is what it was before, with its order.\<close>

theorem service_account_comes_and_goes:
  assumes "create_service_account env path tid label permission_keys email s = (Inr u, s1)"
    and "unused_ids env s" "\<And>v. sn_flush env v = None"
  shows "\<exists>s2. delete_service_account env path (us_id u) tid s1 = (Inr (), s2)
    \<and> st_db (vs_site s2) = st_db (vs_site s) \<and> sv_db (st_server (vs_site s2)) = sv_db (st_server (vs_site s))
    \<and> vs_accounts s2 = vs_accounts s"
proof -
  obtain n validated m r where
    n: "local_schema env path (st_db (vs_site s)) = Some n" and c: "service_created env tid label n (unique_keys validated) u m r s s1"
    by (rule create_service_account_Inr [OF assms(1) unused_strangers [OF assms(2)]])
  let ?db = "st_db (vs_site s)" and ?t = "schema_tables n (st_db (vs_site s))"
  let ?a = "\<lparr>sa_user_id = us_id u, sa_tenant_id = tid, sa_label = label\<rparr>"
  let ?T = "add_service_role r (unique_keys validated) m (?t\<lparr>tt_roles := tt_roles ?t @ [r]\<rparr>)"
  obtain ku km kr where k: "drawn (vs_site s) \<le> ku" "us_id u = nth_id env ku" "drawn (vs_site s) \<le> km" "drawn (vs_site s) \<le> kr"
    "m = \<lparr>mb_id = nth_id env km, mb_user_id = us_id u, mb_tenant_id = tid, mb_is_active = True\<rparr>"
    "ro_id r = nth_id env kr" "ro_name r = service_role_name label" "\<not> ro_is_system r"
    using c by (auto simp: service_created_def Let_def)
  have s1: "sv_db (st_server (vs_site s1)) = (sv_db (st_server (vs_site s)))\<lparr>db_users := db_users (sv_db (st_server (vs_site s))) @ [u]\<rparr>"
    "st_db (vs_site s1) = set_tables n ?T (?db\<lparr>sd_memberships := sd_memberships ?db @ [m]\<rparr>)"
    "vs_accounts s1 = vs_accounts s @ [?a]"
    using c by (simp_all add: service_created_def Let_def)
  note fresh = assms(2) [unfolded unused_ids_def Let_def, rule_format]
  have f: "\<forall>x \<in> set (db_users (sv_db (st_server (vs_site s)))). us_id x \<noteq> us_id u"
    "\<forall>x \<in> set (vs_accounts s). sa_user_id x \<noteq> us_id u"
    "\<forall>x \<in> set (sd_memberships ?db). mb_user_id x \<noteq> us_id u \<and> x \<noteq> m"
    using fresh [OF k(1)] k(2,5) by auto
  have t: "\<forall>x \<in> set (tt_roles ?t). ro_id x \<noteq> ro_id r" "\<forall>p \<in> set (tt_permissions ?t). rp_role_id p \<noteq> ro_id r"
    "\<forall>l \<in> set (tt_links ?t). mr_membership_id l \<noteq> mb_id m"
    using fresh [OF k(4)] fresh [OF k(3)] local_schema_entry [OF n] k(5,6) by fastforce+
  have look: "filter (\<lambda>a. sa_user_id a = us_id u) (vs_accounts s1) = [?a]"
    "filter (\<lambda>x. mb_user_id x = us_id u \<and> mb_tenant_id x = tid) (sd_memberships (st_db (vs_site s1))) = [m]"
    using f k(5) by (simp_all add: s1 filter_empty_conv)
  have l: "local_schema env path (st_db (vs_site s1)) = Some n" using local_schema_set [OF n] by (simp add: s1)
  have rest: "filter (\<lambda>a. a \<noteq> ?a) (vs_accounts s1) = vs_accounts s"
    "filter (\<lambda>x. x \<noteq> m) (sd_memberships ?db @ [m]) = sd_memberships ?db"
    "filter (\<lambda>x. us_id x \<noteq> us_id u) (db_users (sv_db (st_server (vs_site s1)))) = db_users (sv_db (st_server (vs_site s)))"
    using f by (auto simp: s1 filter_id_conv)
  have same: "set_tables n ?t ?db = ?db" using set_tables_same [OF n] by simp
  note undo = remove_added [OF t k(7,8), of "unique_keys validated"]
  have d: "scalar_one_or_none [x] = Inr (Some x)" for x :: 'b by (simp add: scalar_one_or_none_def)
  have e: "tt_modify env path f v = (Inr (), v\<lparr>st_db := set_tables n (f (schema_tables n (st_db v))) (st_db v)\<rparr>)"
    if "local_schema env path (st_db v) = Some n" for f v using that by (simp add: tt_modify_def)
  have ml: "marker_of (us_id u) s1 = (Inr (Some ?a), s1)"
    by (simp add: marker_of_def look(1) d sbind_def proc_simps)
  have mm: "in_site (one_membership (\<lambda>x. mb_user_id x = us_id u \<and> mb_tenant_id x = tid)) s1 = (Inr (Some m), s1)"
    by (simp add: in_site_def one_membership_def sd_gets_def look(2) d sbind_def proc_simps)
  let ?w = "(vs_site s1)\<lparr>st_db := ?db, st_server := (st_server (vs_site s1))\<lparr>sv_db := sv_db (st_server (vs_site s))\<rparr>\<rparr>"
  have users: "(sv_db (st_server (vs_site s1)))\<lparr>db_users := db_users (sv_db (st_server (vs_site s)))\<rparr> = sv_db (st_server (vs_site s))"
    by (simp add: s1(1))
  have m1: "sbind (in_site (tt_modify env path (remove_service_roles (mb_id m)))) (\<lambda>_. in_site (sd_modify (delete_membership m))) s1
    = (Inr (), s1\<lparr>vs_site := (vs_site s1)\<lparr>st_db := ?db\<rparr>\<rparr>)"
    using undo rest(2) same by (simp add: sbind_app in_site_def e [OF l] s1(2) sd_modify_def proc_simps delete_membership_def)
  have m2: "modify (\<lambda>s. s\<lparr>vs_accounts := filter (\<lambda>a. a \<noteq> ?a) (vs_accounts s)\<rparr>) s1' =
      (Inr (), s1'\<lparr>vs_accounts := vs_accounts s\<rparr>)" if "vs_accounts s1' = vs_accounts s1" for s1'
    using that rest(1) by (simp add: proc_simps)
  have m3: "in_site (on_server (delete_user (us_id u))) s2 = (Inr (), s2\<lparr>vs_site := (vs_site s2)\<lparr>st_server :=
      (st_server (vs_site s2))\<lparr>sv_db := sv_db (st_server (vs_site s))\<rparr>\<rparr>\<rparr>)"
    if "sv_db (st_server (vs_site s2)) = sv_db (st_server (vs_site s1))" for s2
    using that rest(3) by (simp add: in_site_def on_server_def delete_user_def db_modify_def proc_simps s1(1))
  have m4: "in_site (sn_flushed env) s2 = (Inr (), s2)" for s2
    by (simp add: in_site_def sn_flushed_def assms(3))
  have "delete_service_account env path (us_id u) tid s1 = (Inr (), s1\<lparr>vs_site := ?w, vs_accounts := vs_accounts s\<rparr>)"
    unfolding delete_service_account_def
    by (simp add: sbind_run [of "marker_of (us_id u)", OF ml] sbind_run [of "in_site (one_membership P)" for P, OF mm]
      sbind_run [of "sbind P Q" for P Q, OF m1] sbind_run [of "modify P" for P, OF m2]
      sbind_run [of "in_site (on_server P)" for P, OF m3] m4)
  then show ?thesis by simp
qed

lemma unique_keys_set: "set (unique_keys ks) = set ks"
  by (simp add: unique_keys_def)

text \<open>C14: A machine account holds exactly the keys it was created with, in its tenant, through one active
  membership; it is an active account and no superadmin.  The keys of every other membership of the
  tenant are what they were.\<close>

theorem service_account_holds_requested_keys:
  assumes "create_service_account env path tid label permission_keys email s = (Inr u, s')" "unused_ids env s"
  shows "us_is_active u \<and> \<not> us_is_superadmin u \<and> u \<in> set (db_users (sv_db (st_server (vs_site s'))))
    \<and> (\<exists>m validated ks. membership_of (us_id u) tid (st_db (vs_site s')) = [m]
        \<and> mapM (\<lambda>k. validate_permission_key (VStr k)) permission_keys = Inr validated
        \<and> role_keys env path (mb_id m) (st_db (vs_site s')) = Inr ks \<and> set ks = set validated
        \<and> (\<forall>mid. mid \<noteq> mb_id m \<longrightarrow> role_keys env path mid (st_db (vs_site s')) = role_keys env path mid (st_db (vs_site s))))"
proof -
  obtain n validated m r where val: "mapM (\<lambda>k. validate_permission_key (VStr k)) permission_keys = Inr validated" and
    n: "local_schema env path (st_db (vs_site s)) = Some n" and c: "service_created env tid label n (unique_keys validated) u m r s s'"
    by (rule create_service_account_Inr [OF assms(1) unused_strangers [OF assms(2)]])
  let ?db = "st_db (vs_site s)" and ?t = "schema_tables n (st_db (vs_site s))"
  let ?T = "add_service_role r (unique_keys validated) m (?t\<lparr>tt_roles := tt_roles ?t @ [r]\<rparr>)"
  obtain ku km kr where k: "drawn (vs_site s) \<le> ku" "us_id u = nth_id env ku" "drawn (vs_site s) \<le> km" "drawn (vs_site s) \<le> kr"
    "m = \<lparr>mb_id = nth_id env km, mb_user_id = us_id u, mb_tenant_id = tid, mb_is_active = True\<rparr>" "ro_id r = nth_id env kr"
    using c by (auto simp: service_created_def Let_def)
  have s': "st_db (vs_site s') = set_tables n ?T (?db\<lparr>sd_memberships := sd_memberships ?db @ [m]\<rparr>)"
    "us_is_active u" "\<not> us_is_superadmin u" "u \<in> set (db_users (sv_db (st_server (vs_site s'))))"
    using c by (simp_all add: service_created_def Let_def)
  note fresh = assms(2) [unfolded unused_ids_def Let_def, rule_format]
  have t: "\<forall>x \<in> set (tt_roles ?t). ro_id x \<noteq> ro_id r" "\<forall>p \<in> set (tt_permissions ?t). rp_role_id p \<noteq> ro_id r"
    "\<forall>l \<in> set (tt_links ?t). mr_membership_id l \<noteq> mb_id m" "\<forall>l \<in> set (tt_links ?t). mr_role_id l \<noteq> ro_id r"
    using fresh [OF k(4)] fresh [OF k(3)] local_schema_entry [OF n] k(5,6) by fastforce+
  have mem: "membership_of (us_id u) tid (st_db (vs_site s')) = [m]"
    using fresh [OF k(1)] k(2,5) by (simp add: s' membership_of_def filter_empty_conv)
  have keys: "role_keys env path mid (st_db (vs_site s')) = Inr (keys_of_roles (tt_roles ?T) (tt_permissions ?T)
      (map mr_role_id (filter (\<lambda>l. mr_membership_id l = mid) (tt_links ?T))))" for mid
    using local_schema_set [OF n] by (simp add: s' role_keys_def Let_def)
  have old: "role_keys env path mid ?db = Inr (keys_of_roles (tt_roles ?t) (tt_permissions ?t)
      (map mr_role_id (filter (\<lambda>l. mr_membership_id l = mid) (tt_links ?t))))" for mid
    using n by (simp add: role_keys_def Let_def)
  have own: "map mr_role_id (filter (\<lambda>l. mr_membership_id l = mb_id m) (tt_links ?T)) = [ro_id r]"
    using t(3) by (simp add: add_service_role_def filter_empty_conv)
  have "set (keys_of_roles (tt_roles ?T) (tt_permissions ?T) [ro_id r]) = set validated"
    using t(1,2) unique_keys_set [of validated]
    by (force simp: keys_of_roles_def add_service_role_def)
  moreover have "keys_of_roles (tt_roles ?T) (tt_permissions ?T)
      (map mr_role_id (filter (\<lambda>l. mr_membership_id l = mid) (tt_links ?T)))
    = keys_of_roles (tt_roles ?t) (tt_permissions ?t) (map mr_role_id (filter (\<lambda>l. mr_membership_id l = mid) (tt_links ?t)))"
    if "mid \<noteq> mb_id m" for mid
  proof -
    let ?ids = "map mr_role_id (filter (\<lambda>l. mr_membership_id l = mid) (tt_links ?t))"
    have i: "map mr_role_id (filter (\<lambda>l. mr_membership_id l = mid) (tt_links ?T)) = ?ids"
      using that by (simp add: add_service_role_def)
    have "ro_id r \<notin> set ?ids" using t(4) by auto
    then have "filter (\<lambda>x. ro_id x \<in> set ?ids) (tt_roles ?T) = filter (\<lambda>x. ro_id x \<in> set ?ids) (tt_roles ?t)" by simp
    then have "filter (\<lambda>p. rp_role_id p \<in> set (map ro_id (filter (\<lambda>x. ro_id x \<in> set ?ids) (tt_roles ?T)))) (tt_permissions ?T)
      = filter (\<lambda>p. rp_role_id p \<in> set (map ro_id (filter (\<lambda>x. ro_id x \<in> set ?ids) (tt_roles ?t)))) (tt_permissions ?t)"
      using t(1) by (auto simp: add_service_role_def filter_empty_conv)
    then show ?thesis unfolding i keys_of_roles_def by simp
  qed
  ultimately have "role_keys env path (mb_id m) (st_db (vs_site s')) = Inr (keys_of_roles (tt_roles ?T) (tt_permissions ?T) [ro_id r])"
    "set (keys_of_roles (tt_roles ?T) (tt_permissions ?T) [ro_id r]) = set validated"
    "\<forall>mid. mid \<noteq> mb_id m \<longrightarrow> role_keys env path mid (st_db (vs_site s')) = role_keys env path mid ?db"
    unfolding keys old own by blast+
  then show ?thesis using s'(2-4) mem val by blast
qed

section \<open>An example\<close>

definition demo_service :: service_site where
  "demo_service = \<lparr>vs_site = demo_site\<lparr>st_server := (st_server demo_site)\<lparr>sv_drawn := 100\<rparr>\<rparr>, vs_accounts = []\<rparr>"

abbreviation demo_machine :: "(exn + user) \<times> service_site" where
  "demo_machine \<equiv> create_service_account demo_site_env [''tenant_acme'', ''public''] 7 ''Lobby''
     [''admin.users.list''] (Some ''Lobby@x.de'') demo_service"

lemma demo_service_unused: "unused_ids demo_site_env demo_service"
  by (simp add: unused_ids_def Let_def demo_service_def demo_site_env_def demo_auth_def demo_crypto_def demo_site_def
    demo_server_def demo_user_def demo_tables_def)

lemma demo_machine_created: "isr (fst demo_machine)"
  by code_simp

lemma service_account_comes_and_goes_witness:
  "\<exists>s2. delete_service_account demo_site_env [''tenant_acme'', ''public''] (us_id (projr (fst demo_machine))) 7 (snd demo_machine)
     = (Inr (), s2) \<and> st_db (vs_site s2) = st_db demo_site \<and> vs_accounts s2 = []"
proof -
  have r: "demo_machine = (Inr (projr (fst demo_machine)), snd demo_machine)"
    by (rule isr_fst [OF demo_machine_created])
  have f: "\<And>v. sn_flush demo_site_env v = None" by (simp add: demo_site_env_def)
  have "vs_accounts demo_service = []" "st_db (vs_site demo_service) = st_db demo_site" by (simp_all add: demo_service_def)
  then show ?thesis using service_account_comes_and_goes [OF r demo_service_unused f] by auto
qed

lemma service_account_holds_requested_keys_witness:
  "\<not> us_is_superadmin (projr (fst demo_machine)) \<and>
   (\<exists>m ks. membership_of (us_id (projr (fst demo_machine))) 7 (st_db (vs_site (snd demo_machine))) = [m]
     \<and> role_keys demo_site_env [''tenant_acme'', ''public''] (mb_id m) (st_db (vs_site (snd demo_machine))) = Inr ks
     \<and> set ks = {''admin.users.list''})"
proof -
  have r: "demo_machine = (Inr (projr (fst demo_machine)), snd demo_machine)"
    by (rule isr_fst [OF demo_machine_created])
  have v: "mapM (\<lambda>k. validate_permission_key (VStr k)) [''admin.users.list''] = Inr [''admin.users.list'']" by code_simp
  from service_account_holds_requested_keys [OF r demo_service_unused, unfolded v] show ?thesis by auto
qed

end
