(* ===== verification/Configuration.thy ===== *)
theory Configuration
  imports Passwords Literals
begin

text \<open>
  The settings of an application: \<open>src/asterion/core/config.py\<close>.  \<open>CoreAdminConfig\<close> is a record, its
  declared defaults and the reading of the environment variables are the two sources of a setting,
  and \<open>validate\<close> runs the groups of checks in their order.  The environment is a function from names
  to optional texts.  A floating point number is kept as its literal: nothing computes with it.
\<close>

section \<open>The settings\<close>

definition TenantResolution :: "string list" where "TenantResolution = [''header'', ''subdomain'']"

definition DateFormat :: "string list" where "DateFormat = [''locale'', ''iso'', ''eu'', ''us'', ''custom'']"

definition Environment :: "string list" where "Environment = [''development'', ''test'', ''production'']"

definition UserMode :: "string list" where "UserMode = [''builtin'', ''external'']"

definition AuditPIIMode :: "string list" where "AuditPIIMode = [''redact'', ''hash'', ''keep'']"

definition MIN_PRODUCTION_SECRET_LENGTH :: nat where "MIN_PRODUCTION_SECRET_LENGTH = 32"

definition VALID_LOG_LEVELS :: "string list" where
  "VALID_LOG_LEVELS = [''CRITICAL'', ''ERROR'', ''WARNING'', ''INFO'', ''DEBUG'', ''NOTSET'']"

record core_config =
  cf_database_url :: string
  cf_secret_key :: string
  cf_app_title :: string
  cf_debug :: bool
  cf_sidebar_categories :: "string list"
  cf_auth_api_prefix :: string
  cf_admin_api_prefix :: string
  cf_root_api_prefix :: string
  cf_admin_ui_path :: string
  cf_jwt_algorithm :: string
  cf_jwt_issuer :: "string option"
  cf_jwt_audience :: "string option"
  cf_access_token_expire_minutes :: int
  cf_refresh_token_expire_minutes :: int
  cf_password_reset_token_expire_minutes :: int
  cf_password_reset_rate_limit_max :: int
  cf_password_reset_rate_limit_window_seconds :: int
  cf_invite_token_expire_minutes :: int
  cf_password_min_length :: int
  cf_password_hibp_check :: bool
  cf_password_hibp_timeout_seconds :: pyval
  cf_tenant_rate_limit_enabled :: bool
  cf_tenant_rate_limit_max :: int
  cf_tenant_rate_limit_window_seconds :: int
  cf_observability_enabled :: bool
  cf_metrics_path :: string
  cf_storage_root :: "string option"
  cf_storage_max_upload_bytes :: int
  cf_enable_builtin_ui :: bool
  cf_enable_builtin_admins :: bool
  cf_enable_multi_tenant :: bool
  cf_enable_impersonation :: bool
  cf_impersonation_require_reason :: bool
  cf_audit_retention_days :: int
  cf_user_anonymize_after_days :: "int option"
  cf_audit_pii_mode :: string
  cf_audit_behavioral_detail :: bool
  cf_tenant_resolution :: string
  cf_tenant_header_name :: string
  cf_tenant_cache_ttl_seconds :: int
  cf_default_language :: string
  cf_default_date_format :: string
  cf_default_date_pattern :: string
  cf_default_show_timezone :: bool
  cf_db_pool_size :: int
  cf_db_max_overflow :: int
  cf_db_pool_pre_ping :: bool
  cf_db_statement_cache_size :: "int option"
  cf_log_level :: string
  cf_log_json :: bool
  cf_cors_origins :: "string list"
  cf_cors_allow_credentials :: bool
  cf_cors_allow_methods :: "string list"
  cf_cors_allow_headers :: "string list"
  cf_security_headers_enabled :: bool
  cf_content_security_policy :: "string option"
  cf_trusted_proxy_count :: int
  cf_login_rate_limit_by_ip :: bool
  cf_single_tenant_require_superadmin :: bool
  cf_environment :: string
  cf_user_mode :: string

text \<open>The defaults the class declares.\<close>

definition declared_defaults :: "string \<Rightarrow> string \<Rightarrow> core_config" where
  "declared_defaults database_url secret_key = \<lparr>cf_database_url = database_url, cf_secret_key = secret_key,
     cf_app_title = ''asterion'',
     cf_debug = False,
     cf_sidebar_categories = [],
     cf_auth_api_prefix = ''/api/v1/auth'',
     cf_admin_api_prefix = ''/api/v1/admin'',
     cf_root_api_prefix = ''/api/v1/root'',
     cf_admin_ui_path = ''/admin'',
     cf_jwt_algorithm = ''HS256'',
     cf_jwt_issuer = None,
     cf_jwt_audience = None,
     cf_access_token_expire_minutes = 60,
     cf_refresh_token_expire_minutes = 10080,
     cf_password_reset_token_expire_minutes = 30,
     cf_password_reset_rate_limit_max = 5,
     cf_password_reset_rate_limit_window_seconds = 900,
     cf_invite_token_expire_minutes = 10080,
     cf_password_min_length = 8,
     cf_password_hibp_check = False,
     cf_password_hibp_timeout_seconds = VObj ''float'' ''3.0'',
     cf_tenant_rate_limit_enabled = False,
     cf_tenant_rate_limit_max = 1000,
     cf_tenant_rate_limit_window_seconds = 60,
     cf_observability_enabled = False,
     cf_metrics_path = ''/metrics'',
     cf_storage_root = None,
     cf_storage_max_upload_bytes = 26214400,
     cf_enable_builtin_ui = True,
     cf_enable_builtin_admins = True,
     cf_enable_multi_tenant = True,
     cf_enable_impersonation = True,
     cf_impersonation_require_reason = True,
     cf_audit_retention_days = 90,
     cf_user_anonymize_after_days = None,
     cf_audit_pii_mode = ''redact'',
     cf_audit_behavioral_detail = False,
     cf_tenant_resolution = ''header'',
     cf_tenant_header_name = ''X-Tenant-Slug'',
     cf_tenant_cache_ttl_seconds = 30,
     cf_default_language = ''en'',
     cf_default_date_format = ''locale'',
     cf_default_date_pattern = ''%Y-%m-%d %H:%M'',
     cf_default_show_timezone = False,
     cf_db_pool_size = 10,
     cf_db_max_overflow = 20,
     cf_db_pool_pre_ping = True,
     cf_db_statement_cache_size = None,
     cf_log_level = ''INFO'',
     cf_log_json = False,
     cf_cors_origins = [],
     cf_cors_allow_credentials = False,
     cf_cors_allow_methods = [''GET'', ''POST'', ''PATCH'', ''DELETE'', ''OPTIONS''],
     cf_cors_allow_headers = [''Authorization'', ''Content-Type'', ''X-Tenant-Slug''],
     cf_security_headers_enabled = True,
     cf_content_security_policy = None,
     cf_trusted_proxy_count = 0,
     cf_login_rate_limit_by_ip = False,
     cf_single_tenant_require_superadmin = True,
     cf_environment = ''development'',
     cf_user_mode = ''builtin''\<rparr>"

definition config_field_names :: "string list" where
  "config_field_names = [
     ''database_url'', ''secret_key'', ''app_title'', ''debug'', ''sidebar_categories'', ''auth_api_prefix'',
     ''admin_api_prefix'', ''root_api_prefix'', ''admin_ui_path'', ''jwt_algorithm'', ''jwt_issuer'',
     ''jwt_audience'', ''access_token_expire_minutes'', ''refresh_token_expire_minutes'',
     ''password_reset_token_expire_minutes'', ''password_reset_rate_limit_max'',
     ''password_reset_rate_limit_window_seconds'', ''invite_token_expire_minutes'', ''password_min_length'',
     ''password_hibp_check'', ''password_hibp_timeout_seconds'', ''tenant_rate_limit_enabled'',
     ''tenant_rate_limit_max'', ''tenant_rate_limit_window_seconds'', ''observability_enabled'',
     ''metrics_path'', ''storage_root'', ''storage_max_upload_bytes'', ''enable_builtin_ui'',
     ''enable_builtin_admins'', ''enable_multi_tenant'', ''enable_impersonation'',
     ''impersonation_require_reason'', ''audit_retention_days'', ''user_anonymize_after_days'',
     ''audit_pii_mode'', ''audit_behavioral_detail'', ''tenant_resolution'', ''tenant_header_name'',
     ''tenant_cache_ttl_seconds'', ''default_language'', ''default_date_format'', ''default_date_pattern'',
     ''default_show_timezone'', ''db_pool_size'', ''db_max_overflow'', ''db_pool_pre_ping'',
     ''db_statement_cache_size'', ''log_level'', ''log_json'', ''cors_origins'', ''cors_allow_credentials'',
     ''cors_allow_methods'', ''cors_allow_headers'', ''security_headers_enabled'',
     ''content_security_policy'', ''trusted_proxy_count'', ''login_rate_limit_by_ip'',
     ''single_tenant_require_superadmin'', ''environment'', ''user_mode'']"

section \<open>Reading a variable\<close>

text \<open>\<open>str()\<close> of a tuple of at least two texts.\<close>

definition tuple_text :: "string list \<Rightarrow> string" where
  "tuple_text xs = ''('' @ join '', '' (map repr_str xs) @ '')''"

definition env_bool :: "(string \<Rightarrow> string option) \<Rightarrow> string \<Rightarrow> bool \<Rightarrow> bool res" where
  "env_bool getenv name fallback = (case getenv name of
     None \<Rightarrow> Inr fallback
   | Some value \<Rightarrow>
       let normalized = lower (strip value) in
       if normalized \<in> {''1'', ''true'', ''yes'', ''on''} then Inr True
       else if normalized \<in> {''0'', ''false'', ''no'', ''off''} then Inr False
       else Inl (PyExc ValueError (''Invalid boolean value for '' @ name @ '': '' @ repr_str value @
         ''. Expected one of: true/false, 1/0, yes/no, on/off.'')))"

definition bad_integer :: "string \<Rightarrow> string \<Rightarrow> exn" where
  "bad_integer name value = PyExc ValueError (''Invalid integer value for '' @ name @ '': '' @ repr_str value @ ''.'')"

definition env_int :: "(string \<Rightarrow> string option) \<Rightarrow> string \<Rightarrow> int \<Rightarrow> int res" where
  "env_int getenv name fallback = (case getenv name of
     None \<Rightarrow> Inr fallback
   | Some value \<Rightarrow> (case py_int 10 value of Some i \<Rightarrow> Inr i | None \<Rightarrow> Inl (bad_integer name value)))"

text \<open>The literals \<open>float()\<close> reads: digits in groups, an optional point and exponent, or one of the words.\<close>

definition digit_part :: "string \<Rightarrow> bool" where
  "digit_part s = (let ws = split_on CHR ''_'' s in list_all (\<lambda>w. w \<noteq> []) ws \<and> list_all is_digit (concat ws))"

definition unsigned_part :: "string \<Rightarrow> string" where
  "unsigned_part s = (if startswith s ''-'' \<or> startswith s ''+'' then tl s else s)"

definition decimal_part :: "string \<Rightarrow> bool" where
  "decimal_part s = (case split_on CHR ''.'' s of
     [a] \<Rightarrow> digit_part a
   | [a, b] \<Rightarrow> (a = [] \<or> digit_part a) \<and> (b = [] \<or> digit_part b) \<and> (a \<noteq> [] \<or> b \<noteq> [])
   | _ \<Rightarrow> False)"

definition float_literal :: "string \<Rightarrow> bool" where
  "float_literal text = (let s = lower (unsigned_part (strip text)) in
     s \<in> {''inf'', ''infinity'', ''nan''} \<or> (case split_on CHR ''e'' s of
       [m] \<Rightarrow> decimal_part m
     | [m, e] \<Rightarrow> decimal_part m \<and> digit_part (unsigned_part e)
     | _ \<Rightarrow> False))"

definition env_float :: "(string \<Rightarrow> string option) \<Rightarrow> string \<Rightarrow> pyval \<Rightarrow> pyval res" where
  "env_float getenv name fallback = (case getenv name of
     None \<Rightarrow> Inr fallback
   | Some value \<Rightarrow> if float_literal value then Inr (VObj ''float'' (strip value))
       else Inl (PyExc ValueError (''Invalid float value for '' @ name @ '': '' @ repr_str value @ ''.'')))"

definition env_optional_int :: "(string \<Rightarrow> string option) \<Rightarrow> string \<Rightarrow> int option res" where
  "env_optional_int getenv name = (case getenv name of
     None \<Rightarrow> Inr None
   | Some value \<Rightarrow> if strip value = [] then Inr None
       else (case py_int 10 value of Some i \<Rightarrow> Inr (Some i) | None \<Rightarrow> Inl (bad_integer name value)))"

definition env_required :: "(string \<Rightarrow> string option) \<Rightarrow> string \<Rightarrow> string res" where
  "env_required getenv name = (case getenv name of
     Some value \<Rightarrow> if strip value = [] then Inl (PyExc ValueError (''Required environment variable is missing: '' @ name))
       else Inr (strip value)
   | None \<Rightarrow> Inl (PyExc ValueError (''Required environment variable is missing: '' @ name)))"

definition env_optional :: "(string \<Rightarrow> string option) \<Rightarrow> string \<Rightarrow> string \<Rightarrow> string" where
  "env_optional getenv name fallback = (case getenv name of None \<Rightarrow> fallback | Some value \<Rightarrow> strip value)"

definition env_literal :: "(string \<Rightarrow> string option) \<Rightarrow> string \<Rightarrow> string \<Rightarrow> string list \<Rightarrow> string res" where
  "env_literal getenv name fallback allowed =
    (let value = (case getenv name of None \<Rightarrow> fallback | Some v \<Rightarrow> v) in
     if value \<in> set allowed then Inr value
     else Inl (PyExc ValueError (''Invalid value for '' @ name @ '': '' @ repr_str value @ ''. Expected one of '' @
       tuple_text allowed @ ''.'')))"

definition env_tuple :: "(string \<Rightarrow> string option) \<Rightarrow> string \<Rightarrow> string list \<Rightarrow> string list" where
  "env_tuple getenv name fallback = (case getenv name of
     None \<Rightarrow> fallback
   | Some value \<Rightarrow> map strip (filter (\<lambda>p. strip p \<noteq> []) (split_on CHR '','' value)))"

text \<open>\<open>os.getenv(name) or None\<close>.\<close>

definition env_text :: "string option \<Rightarrow> string option" where
  "env_text v = (if v = Some [] then None else v)"

section \<open>Checking\<close>

text \<open>The first condition that holds is raised as a \<open>ValueError\<close> with its message.\<close>

fun refuse_if :: "(bool \<times> string) list \<Rightarrow> unit res" where
  "refuse_if [] = Inr ()"
| "refuse_if ((bad, msg) # rest) = (if bad then Inl (PyExc ValueError msg) else refuse_if rest)"

lemma refuse_if_Inr [res_simps]: "refuse_if cs = Inr u \<longleftrightarrow> (\<forall>c \<in> set cs. \<not> fst c)"
  by (induction cs rule: refuse_if.induct) auto

declare refuse_if.simps [simp del]

definition validate_secrets :: "core_config \<Rightarrow> unit res" where
  "validate_secrets c = refuse_if [
     (strip (cf_database_url c) = [], ''database_url must not be empty''),
     (strip (cf_secret_key c) = [], ''secret_key must not be empty''),
     (cf_secret_key c = ''change-me-in-production'', ''secret_key must not use the insecure default value'')]"

definition validate_token_policy :: "core_config \<Rightarrow> unit res" where
  "validate_token_policy c = refuse_if [
     (cf_access_token_expire_minutes c \<le> 0, ''access_token_expire_minutes must be greater than 0''),
     (cf_refresh_token_expire_minutes c \<le> 0, ''refresh_token_expire_minutes must be greater than 0''),
     (cf_password_reset_token_expire_minutes c \<le> 0, ''password_reset_token_expire_minutes must be greater than 0''),
     (cf_password_reset_rate_limit_max c \<le> 0, ''password_reset_rate_limit_max must be greater than 0''),
     (cf_password_reset_rate_limit_window_seconds c \<le> 0,
       ''password_reset_rate_limit_window_seconds must be greater than 0''),
     (cf_invite_token_expire_minutes c \<le> 0, ''invite_token_expire_minutes must be greater than 0''),
     (cf_password_min_length c < 8, ''password_min_length must be at least 8'')]"

definition no_slash :: "string \<Rightarrow> string" where
  "no_slash name = name @ '' must start with '' @ repr_str ''/''"

definition validate_paths :: "core_config \<Rightarrow> unit res" where
  "validate_paths c = refuse_if [
     (\<not> startswith (cf_auth_api_prefix c) ''/'', no_slash ''auth_api_prefix''),
     (\<not> startswith (cf_admin_api_prefix c) ''/'', no_slash ''admin_api_prefix''),
     (\<not> startswith (cf_root_api_prefix c) ''/'', no_slash ''root_api_prefix''),
     (\<not> startswith (cf_admin_ui_path c) ''/'', no_slash ''admin_ui_path'')]"

definition validate_tenancy_and_i18n :: "core_config \<Rightarrow> unit res" where
  "validate_tenancy_and_i18n c = refuse_if [
     (cf_tenant_resolution c \<notin> set TenantResolution, ''tenant_resolution must be one of '' @ tuple_text TenantResolution),
     (strip (cf_tenant_header_name c) = [], ''tenant_header_name must not be empty''),
     (strip (cf_default_language c) = [], ''default_language must not be empty''),
     (cf_default_date_format c \<notin> set DateFormat, ''default_date_format must be one of '' @ tuple_text DateFormat),
     (cf_default_date_format c = ''custom'' \<and> strip (cf_default_date_pattern c) = [],
       ''default_date_pattern must not be empty when default_date_format='' @ repr_str ''custom'')]"

text \<open>\<open>logging.getLevelName\<close> knows these names; for any other one it answers \<open>Level <name>\<close>.\<close>

definition LOGGING_NAMES :: "string list" where
  "LOGGING_NAMES = VALID_LOG_LEVELS @ [''FATAL'', ''WARN'']"

definition one_of :: "string \<Rightarrow> string \<Rightarrow> string list \<Rightarrow> bool \<times> string" where
  "one_of name value allowed =
    (value \<notin> set allowed, name @ '' must be one of '' @ tuple_text allowed @ '', got '' @ repr_str value)"

definition validate_operational :: "core_config \<Rightarrow> unit res" where
  "validate_operational c = (let normalized = upper (cf_log_level c) in refuse_if [
     (cf_db_pool_size c \<le> 0, ''db_pool_size must be > 0''),
     (cf_db_max_overflow c < 0, ''db_max_overflow must be >= 0''),
     (case cf_db_statement_cache_size c of None \<Rightarrow> False | Some n \<Rightarrow> n < 0,
       ''db_statement_cache_size must be >= 0 when set''),
     (normalized \<notin> set VALID_LOG_LEVELS,
       ''log_level must be one of '' @ tuple_text VALID_LOG_LEVELS @ '', got '' @ repr_str (cf_log_level c)),
     (normalized \<notin> set LOGGING_NAMES, ''log_level '' @ repr_str (cf_log_level c) @ '' is not recognised''),
     (cf_cors_allow_credentials c \<and> ''*'' \<in> set (cf_cors_origins c),
       ''Unsafe CORS config: cors_origins=['' @ repr_str ''*'' @ ''] combined with cors_allow_credentials=True is rejected by browsers and by asterion.''),
     one_of ''environment'' (cf_environment c) Environment,
     one_of ''user_mode'' (cf_user_mode c) UserMode,
     one_of ''audit_pii_mode'' (cf_audit_pii_mode c) AuditPIIMode,
     (cf_audit_retention_days c \<le> 0, ''audit_retention_days must be greater than 0''),
     (case cf_user_anonymize_after_days c of None \<Rightarrow> False | Some n \<Rightarrow> n \<le> 0,
       ''user_anonymize_after_days must be greater than 0 when set''),
     (cf_storage_max_upload_bytes c \<le> 0, ''storage_max_upload_bytes must be > 0'')])"

definition validate_production_footguns :: "core_config \<Rightarrow> unit res" where
  "validate_production_footguns c =
    (if cf_environment c \<noteq> ''production'' then Inr ()
     else refuse_if [
       (cf_debug c, ''debug=True is not allowed in production; set ASTERION_DEBUG=false.''),
       (startswith (cf_database_url c) ''sqlite://'' \<or> startswith (cf_database_url c) ''sqlite+aiosqlite://'',
         ''SQLite is not allowed in production; use a PostgreSQL database_url. SQLite is for local dev + tests only.''),
       (length (cf_secret_key c) < MIN_PRODUCTION_SECRET_LENGTH,
         ''secret_key must be at least '' @ str_nat MIN_PRODUCTION_SECRET_LENGTH @
         '' characters in production; generate one with `openssl rand -hex 32`.'')])"

definition validate :: "core_config \<Rightarrow> unit res" where
  "validate c =
     rbind (validate_secrets c) (\<lambda>_.
     rbind (validate_token_policy c) (\<lambda>_.
     rbind (validate_paths c) (\<lambda>_.
     rbind (validate_tenancy_and_i18n c) (\<lambda>_.
     rbind (validate_operational c) (\<lambda>_.
     validate_production_footguns c)))))"

section \<open>Building the settings\<close>

definition from_env_variables :: "(string \<Rightarrow> string option) \<Rightarrow> core_config res" where
  "from_env_variables getenv =
     rbind (env_required getenv ''ASTERION_DATABASE_URL'') (\<lambda>database_url'.
     rbind (env_required getenv ''ASTERION_SECRET_KEY'') (\<lambda>secret_key'.
     rbind (Inr (env_optional getenv ''ASTERION_APP_TITLE'' ''asterion'')) (\<lambda>app_title'.
     rbind (Inr (env_tuple getenv ''ASTERION_SIDEBAR_CATEGORIES'' [])) (\<lambda>sidebar_categories'.
     rbind (env_bool getenv ''ASTERION_DEBUG'' False) (\<lambda>debug'.
     rbind (Inr (env_optional getenv ''ASTERION_AUTH_API_PREFIX'' ''/api/v1/auth'')) (\<lambda>auth_api_prefix'.
     rbind (Inr (env_optional getenv ''ASTERION_ADMIN_API_PREFIX'' ''/api/v1/admin'')) (\<lambda>admin_api_prefix'.
     rbind (Inr (env_optional getenv ''ASTERION_ROOT_API_PREFIX'' ''/api/v1/root'')) (\<lambda>root_api_prefix'.
     rbind (Inr (env_optional getenv ''ASTERION_ADMIN_UI_PATH'' ''/admin'')) (\<lambda>admin_ui_path'.
     rbind (Inr (env_optional getenv ''ASTERION_JWT_ALGORITHM'' ''HS256'')) (\<lambda>jwt_algorithm'.
     rbind (Inr (env_text (getenv ''ASTERION_JWT_ISSUER''))) (\<lambda>jwt_issuer'.
     rbind (Inr (env_text (getenv ''ASTERION_JWT_AUDIENCE''))) (\<lambda>jwt_audience'.
     rbind (env_int getenv ''ASTERION_ACCESS_TOKEN_EXPIRE_MINUTES'' 60) (\<lambda>access_token_expire_minutes'.
     rbind (env_int getenv ''ASTERION_REFRESH_TOKEN_EXPIRE_MINUTES'' 10080) (\<lambda>refresh_token_expire_minutes'.
     rbind (env_int getenv ''ASTERION_PASSWORD_RESET_TOKEN_EXPIRE_MINUTES'' 30) (\<lambda>password_reset_token_expire_minutes'.
     rbind (env_int getenv ''ASTERION_PASSWORD_RESET_RATE_LIMIT_MAX'' 5) (\<lambda>password_reset_rate_limit_max'.
     rbind (env_int getenv ''ASTERION_PASSWORD_RESET_RATE_LIMIT_WINDOW_SECONDS'' 900) (\<lambda>password_reset_rate_limit_window_seconds'.
     rbind (env_int getenv ''ASTERION_INVITE_TOKEN_EXPIRE_MINUTES'' 10080) (\<lambda>invite_token_expire_minutes'.
     rbind (env_int getenv ''ASTERION_PASSWORD_MIN_LENGTH'' 8) (\<lambda>password_min_length'.
     rbind (env_bool getenv ''ASTERION_PASSWORD_HIBP_CHECK'' False) (\<lambda>password_hibp_check'.
     rbind (env_float getenv ''ASTERION_PASSWORD_HIBP_TIMEOUT_SECONDS'' (VObj ''float'' ''3.0'')) (\<lambda>password_hibp_timeout_seconds'.
     rbind (env_bool getenv ''ASTERION_TENANT_RATE_LIMIT_ENABLED'' False) (\<lambda>tenant_rate_limit_enabled'.
     rbind (env_int getenv ''ASTERION_TENANT_RATE_LIMIT_MAX'' 1000) (\<lambda>tenant_rate_limit_max'.
     rbind (env_int getenv ''ASTERION_TENANT_RATE_LIMIT_WINDOW_SECONDS'' 60) (\<lambda>tenant_rate_limit_window_seconds'.
     rbind (env_bool getenv ''ASTERION_OBSERVABILITY_ENABLED'' False) (\<lambda>observability_enabled'.
     rbind (Inr (case env_text (getenv ''ASTERION_METRICS_PATH'') of Some v \<Rightarrow> v | None \<Rightarrow> ''/metrics'')) (\<lambda>metrics_path'.
     rbind (env_bool getenv ''ASTERION_ENABLE_BUILTIN_UI'' True) (\<lambda>enable_builtin_ui'.
     rbind (env_bool getenv ''ASTERION_ENABLE_BUILTIN_ADMINS'' True) (\<lambda>enable_builtin_admins'.
     rbind (env_bool getenv ''ASTERION_ENABLE_MULTI_TENANT'' True) (\<lambda>enable_multi_tenant'.
     rbind (env_bool getenv ''ASTERION_ENABLE_IMPERSONATION'' True) (\<lambda>enable_impersonation'.
     rbind (env_bool getenv ''ASTERION_IMPERSONATION_REQUIRE_REASON'' True) (\<lambda>impersonation_require_reason'.
     rbind (env_int getenv ''ASTERION_AUDIT_RETENTION_DAYS'' 90) (\<lambda>audit_retention_days'.
     rbind (env_optional_int getenv ''ASTERION_USER_ANONYMIZE_AFTER_DAYS'') (\<lambda>user_anonymize_after_days'.
     rbind (env_literal getenv ''ASTERION_AUDIT_PII_MODE'' ''redact'' AuditPIIMode) (\<lambda>audit_pii_mode'.
     rbind (env_bool getenv ''ASTERION_AUDIT_BEHAVIORAL_DETAIL'' False) (\<lambda>audit_behavioral_detail'.
     rbind (env_literal getenv ''ASTERION_TENANT_RESOLUTION'' ''header'' TenantResolution) (\<lambda>tenant_resolution'.
     rbind (Inr (env_optional getenv ''ASTERION_TENANT_HEADER_NAME'' ''X-Tenant-Slug'')) (\<lambda>tenant_header_name'.
     rbind (env_int getenv ''ASTERION_TENANT_CACHE_TTL_SECONDS'' 30) (\<lambda>tenant_cache_ttl_seconds'.
     rbind (Inr (env_optional getenv ''ASTERION_DEFAULT_LANGUAGE'' ''en'')) (\<lambda>default_language'.
     rbind (env_literal getenv ''ASTERION_DEFAULT_DATE_FORMAT'' ''locale'' DateFormat) (\<lambda>default_date_format'.
     rbind (Inr (env_optional getenv ''ASTERION_DEFAULT_DATE_PATTERN'' ''%Y-%m-%d %H:%M'')) (\<lambda>default_date_pattern'.
     rbind (env_bool getenv ''ASTERION_DEFAULT_SHOW_TIMEZONE'' False) (\<lambda>default_show_timezone'.
     rbind (env_int getenv ''ASTERION_DB_POOL_SIZE'' 10) (\<lambda>db_pool_size'.
     rbind (env_int getenv ''ASTERION_DB_MAX_OVERFLOW'' 20) (\<lambda>db_max_overflow'.
     rbind (env_bool getenv ''ASTERION_DB_POOL_PRE_PING'' True) (\<lambda>db_pool_pre_ping'.
     rbind (env_optional_int getenv ''ASTERION_DB_STATEMENT_CACHE_SIZE'') (\<lambda>db_statement_cache_size'.
     rbind (Inr (upper (env_optional getenv ''ASTERION_LOG_LEVEL'' ''INFO''))) (\<lambda>log_level'.
     rbind (env_bool getenv ''ASTERION_LOG_JSON'' False) (\<lambda>log_json'.
     rbind (Inr (env_tuple getenv ''ASTERION_CORS_ORIGINS'' [])) (\<lambda>cors_origins'.
     rbind (env_bool getenv ''ASTERION_CORS_ALLOW_CREDENTIALS'' False) (\<lambda>cors_allow_credentials'.
     rbind (Inr (env_tuple getenv ''ASTERION_CORS_ALLOW_METHODS'' [''GET'', ''POST'', ''PATCH'', ''DELETE'', ''OPTIONS''])) (\<lambda>cors_allow_methods'.
     rbind (Inr (env_tuple getenv ''ASTERION_CORS_ALLOW_HEADERS'' [''Authorization'', ''Content-Type'', ''X-Tenant-Slug''])) (\<lambda>cors_allow_headers'.
     rbind (env_bool getenv ''ASTERION_SECURITY_HEADERS_ENABLED'' True) (\<lambda>security_headers_enabled'.
     rbind (Inr (env_text (getenv ''ASTERION_CONTENT_SECURITY_POLICY''))) (\<lambda>content_security_policy'.
     rbind (env_int getenv ''ASTERION_TRUSTED_PROXY_COUNT'' 0) (\<lambda>trusted_proxy_count'.
     rbind (env_bool getenv ''ASTERION_LOGIN_RATE_LIMIT_BY_IP'' False) (\<lambda>login_rate_limit_by_ip'.
     rbind (env_bool getenv ''ASTERION_SINGLE_TENANT_REQUIRE_SUPERADMIN'' True) (\<lambda>single_tenant_require_superadmin'.
     rbind (env_literal getenv ''ASTERION_ENVIRONMENT'' ''development'' Environment) (\<lambda>environment'.
     rbind (env_literal getenv ''ASTERION_USER_MODE'' ''builtin'' UserMode) (\<lambda>user_mode'.
     rbind (Inr (env_text (getenv ''ASTERION_STORAGE_ROOT''))) (\<lambda>storage_root'.
     rbind (env_int getenv ''ASTERION_STORAGE_MAX_UPLOAD_BYTES'' 26214400) (\<lambda>storage_max_upload_bytes'.
     Inr \<lparr>cf_database_url = database_url',
       cf_secret_key = secret_key',
       cf_app_title = app_title',
       cf_debug = debug',
       cf_sidebar_categories = sidebar_categories',
       cf_auth_api_prefix = auth_api_prefix',
       cf_admin_api_prefix = admin_api_prefix',
       cf_root_api_prefix = root_api_prefix',
       cf_admin_ui_path = admin_ui_path',
       cf_jwt_algorithm = jwt_algorithm',
       cf_jwt_issuer = jwt_issuer',
       cf_jwt_audience = jwt_audience',
       cf_access_token_expire_minutes = access_token_expire_minutes',
       cf_refresh_token_expire_minutes = refresh_token_expire_minutes',
       cf_password_reset_token_expire_minutes = password_reset_token_expire_minutes',
       cf_password_reset_rate_limit_max = password_reset_rate_limit_max',
       cf_password_reset_rate_limit_window_seconds = password_reset_rate_limit_window_seconds',
       cf_invite_token_expire_minutes = invite_token_expire_minutes',
       cf_password_min_length = password_min_length',
       cf_password_hibp_check = password_hibp_check',
       cf_password_hibp_timeout_seconds = password_hibp_timeout_seconds',
       cf_tenant_rate_limit_enabled = tenant_rate_limit_enabled',
       cf_tenant_rate_limit_max = tenant_rate_limit_max',
       cf_tenant_rate_limit_window_seconds = tenant_rate_limit_window_seconds',
       cf_observability_enabled = observability_enabled',
       cf_metrics_path = metrics_path',
       cf_storage_root = storage_root',
       cf_storage_max_upload_bytes = storage_max_upload_bytes',
       cf_enable_builtin_ui = enable_builtin_ui',
       cf_enable_builtin_admins = enable_builtin_admins',
       cf_enable_multi_tenant = enable_multi_tenant',
       cf_enable_impersonation = enable_impersonation',
       cf_impersonation_require_reason = impersonation_require_reason',
       cf_audit_retention_days = audit_retention_days',
       cf_user_anonymize_after_days = user_anonymize_after_days',
       cf_audit_pii_mode = audit_pii_mode',
       cf_audit_behavioral_detail = audit_behavioral_detail',
       cf_tenant_resolution = tenant_resolution',
       cf_tenant_header_name = tenant_header_name',
       cf_tenant_cache_ttl_seconds = tenant_cache_ttl_seconds',
       cf_default_language = default_language',
       cf_default_date_format = default_date_format',
       cf_default_date_pattern = default_date_pattern',
       cf_default_show_timezone = default_show_timezone',
       cf_db_pool_size = db_pool_size',
       cf_db_max_overflow = db_max_overflow',
       cf_db_pool_pre_ping = db_pool_pre_ping',
       cf_db_statement_cache_size = db_statement_cache_size',
       cf_log_level = log_level',
       cf_log_json = log_json',
       cf_cors_origins = cors_origins',
       cf_cors_allow_credentials = cors_allow_credentials',
       cf_cors_allow_methods = cors_allow_methods',
       cf_cors_allow_headers = cors_allow_headers',
       cf_security_headers_enabled = security_headers_enabled',
       cf_content_security_policy = content_security_policy',
       cf_trusted_proxy_count = trusted_proxy_count',
       cf_login_rate_limit_by_ip = login_rate_limit_by_ip',
       cf_single_tenant_require_superadmin = single_tenant_require_superadmin',
       cf_environment = environment',
       cf_user_mode = user_mode'\<rparr>)))))))))))))))))))))))))))))))))))))))))))))))))))))))))))))"

text \<open>An override is the name of a field with its replacement.\<close>

type_synonym setting_override = "string \<times> (core_config \<Rightarrow> core_config)"

definition apply_overrides :: "setting_override list \<Rightarrow> core_config \<Rightarrow> core_config res" where
  "apply_overrides overrides c =
    (let unknown = filter (\<lambda>n. n \<notin> set config_field_names) (map fst overrides) in
     if unknown \<noteq> [] then Inl (PyExc ValueError (''Unknown CoreAdminConfig override(s): ['' @
         join '', '' (map repr_str (sort unknown)) @ '']''))
     else Inr (fold snd overrides c))"

definition from_env :: "(string \<Rightarrow> string option) \<Rightarrow> setting_override list \<Rightarrow> core_config res" where
  "from_env getenv overrides =
     rbind (from_env_variables getenv) (\<lambda>read.
     rbind (if overrides = [] then Inr read else apply_overrides overrides read) (\<lambda>c.
     rbind (validate c) (\<lambda>_. Inr c)))"

definition resolved_statement_cache_size :: "core_config \<Rightarrow> int option" where
  "resolved_statement_cache_size c = (case cf_db_statement_cache_size c of
     Some n \<Rightarrow> Some n
   | None \<Rightarrow> if cf_enable_multi_tenant c then Some 0 else None)"

definition opt_text :: "string option \<Rightarrow> pyval" where
  "opt_text v = (case v of None \<Rightarrow> VNone | Some s \<Rightarrow> VStr s)"

definition opt_number :: "int option \<Rightarrow> pyval" where
  "opt_number v = (case v of None \<Rightarrow> VNone | Some i \<Rightarrow> VInt i)"

definition to_safe_dict :: "core_config \<Rightarrow> (string \<times> pyval) list" where
  "to_safe_dict c = [
     (''app_title'', VStr (cf_app_title c)),
     (''sidebar_categories'', VList (map VStr (cf_sidebar_categories c))),
     (''debug'', VBool (cf_debug c)),
     (''auth_api_prefix'', VStr (cf_auth_api_prefix c)),
     (''admin_api_prefix'', VStr (cf_admin_api_prefix c)),
     (''root_api_prefix'', VStr (cf_root_api_prefix c)),
     (''admin_ui_path'', VStr (cf_admin_ui_path c)),
     (''jwt_algorithm'', VStr (cf_jwt_algorithm c)),
     (''access_token_expire_minutes'', VInt (cf_access_token_expire_minutes c)),
     (''refresh_token_expire_minutes'', VInt (cf_refresh_token_expire_minutes c)),
     (''password_reset_token_expire_minutes'', VInt (cf_password_reset_token_expire_minutes c)),
     (''password_reset_rate_limit_max'', VInt (cf_password_reset_rate_limit_max c)),
     (''password_reset_rate_limit_window_seconds'', VInt (cf_password_reset_rate_limit_window_seconds c)),
     (''invite_token_expire_minutes'', VInt (cf_invite_token_expire_minutes c)),
     (''password_min_length'', VInt (cf_password_min_length c)),
     (''password_hibp_check'', VBool (cf_password_hibp_check c)),
     (''tenant_rate_limit_enabled'', VBool (cf_tenant_rate_limit_enabled c)),
     (''observability_enabled'', VBool (cf_observability_enabled c)),
     (''enable_builtin_ui'', VBool (cf_enable_builtin_ui c)),
     (''enable_builtin_admins'', VBool (cf_enable_builtin_admins c)),
     (''enable_multi_tenant'', VBool (cf_enable_multi_tenant c)),
     (''enable_impersonation'', VBool (cf_enable_impersonation c)),
     (''impersonation_require_reason'', VBool (cf_impersonation_require_reason c)),
     (''audit_retention_days'', VInt (cf_audit_retention_days c)),
     (''user_anonymize_after_days'', opt_number (cf_user_anonymize_after_days c)),
     (''audit_pii_mode'', VStr (cf_audit_pii_mode c)),
     (''audit_behavioral_detail'', VBool (cf_audit_behavioral_detail c)),
     (''tenant_resolution'', VStr (cf_tenant_resolution c)),
     (''tenant_header_name'', VStr (cf_tenant_header_name c)),
     (''default_language'', VStr (cf_default_language c)),
     (''default_date_format'', VStr (cf_default_date_format c)),
     (''default_date_pattern'', VStr (cf_default_date_pattern c)),
     (''default_show_timezone'', VBool (cf_default_show_timezone c)),
     (''db_pool_size'', VInt (cf_db_pool_size c)),
     (''db_max_overflow'', VInt (cf_db_max_overflow c)),
     (''db_pool_pre_ping'', VBool (cf_db_pool_pre_ping c)),
     (''db_statement_cache_size'', opt_number (cf_db_statement_cache_size c)),
     (''log_level'', VStr (cf_log_level c)),
     (''log_json'', VBool (cf_log_json c)),
     (''cors_origins'', VList (map VStr (cf_cors_origins c))),
     (''cors_allow_credentials'', VBool (cf_cors_allow_credentials c)),
     (''cors_allow_methods'', VList (map VStr (cf_cors_allow_methods c))),
     (''cors_allow_headers'', VList (map VStr (cf_cors_allow_headers c))),
     (''security_headers_enabled'', VBool (cf_security_headers_enabled c)),
     (''environment'', VStr (cf_environment c)),
     (''user_mode'', VStr (cf_user_mode c)),
     (''storage_root'', opt_text (cf_storage_root c)),
     (''storage_max_upload_bytes'', VInt (cf_storage_max_upload_bytes c)),
     (''database_url_set'', VBool (cf_database_url c \<noteq> [])),
     (''secret_key_set'', VBool (cf_secret_key c \<noteq> []))]"

section \<open>What the settings guarantee\<close>

lemmas env_defs = env_bool_def env_int_def env_float_def env_optional_int_def env_optional_def env_literal_def
  env_tuple_def env_text_def

lemmas literal_defs = TenantResolution_def DateFormat_def Environment_def UserMode_def AuditPIIMode_def

lemma upper_INFO: "upper ''INFO'' = ''INFO''"
  by (simp add: upper_def upper_char_def is_lower_def)

text \<open>The two sources of the defaults agree.  With only the two required variables set, the reading of
  the environment gives every setting the value that the class declares for it.\<close>

theorem environment_defaults_are_the_declared:
  assumes "getenv ''ASTERION_DATABASE_URL'' = Some url" "getenv ''ASTERION_SECRET_KEY'' = Some key"
    and "strip url \<noteq> []" "strip key \<noteq> []"
    and "\<And>n. n \<notin> {''ASTERION_DATABASE_URL'', ''ASTERION_SECRET_KEY''} \<Longrightarrow> getenv n = None"
  shows "from_env_variables getenv = Inr (declared_defaults (strip url) (strip key))"
proof -
  have r: "env_required getenv ''ASTERION_DATABASE_URL'' = Inr (strip url)"
    "env_required getenv ''ASTERION_SECRET_KEY'' = Inr (strip key)"
    using assms(1-4) by (simp_all add: env_required_def)
  show ?thesis
    by (simp add: from_env_variables_def r env_defs literal_defs assms(5) upper_INFO declared_defaults_def)
qed

lemmas validate_defs = validate_secrets_def validate_token_policy_def validate_paths_def validate_tenancy_and_i18n_def
  validate_operational_def validate_production_footguns_def

lemma from_env_Inr: "from_env getenv overrides = Inr c \<Longrightarrow> validate c = Inr ()"
  by (auto simp: from_env_def res_simps)

lemma validate_Inr: "validate c = Inr () \<Longrightarrow> validate_secrets c = Inr () \<and> validate_token_policy c = Inr ()
    \<and> validate_paths c = Inr () \<and> validate_tenancy_and_i18n c = Inr () \<and> validate_operational c = Inr ()
    \<and> validate_production_footguns c = Inr ()"
  by (simp add: validate_def rbind_Inr_iff)

text \<open>C19: Settings that are accepted are safe to serve with.  Their secret is neither blank nor the
  placeholder, every token lives for a positive time, passwords have at least eight characters, no
  wildcard origin is combined with credentials; in production there is no debug mode and no SQLite
  and the secret has at least 32 characters.  What the settings publish does not depend on the secret
  or on the address of the database.\<close>

theorem accepted_settings_are_safe:
  assumes "from_env getenv overrides = Inr c"
  shows "strip (cf_secret_key c) \<noteq> [] \<and> cf_secret_key c \<noteq> ''change-me-in-production''
    \<and> 0 < cf_access_token_expire_minutes c \<and> 0 < cf_refresh_token_expire_minutes c
    \<and> 0 < cf_password_reset_token_expire_minutes c \<and> 0 < cf_invite_token_expire_minutes c
    \<and> 8 \<le> cf_password_min_length c
    \<and> \<not> (cf_cors_allow_credentials c \<and> ''*'' \<in> set (cf_cors_origins c))
    \<and> \<not> (cf_environment c = ''production'' \<and> (cf_debug c \<or> length (cf_secret_key c) < 32
         \<or> startswith (cf_database_url c) ''sqlite://''))
    \<and> to_safe_dict c = to_safe_dict (c\<lparr>cf_database_url := ''x'', cf_secret_key := ''y''\<rparr>)"
proof -
  note v = validate_Inr [OF from_env_Inr [OF assms]]
  have s: "strip (cf_database_url c) \<noteq> []" "strip (cf_secret_key c) \<noteq> []"
    "cf_secret_key c \<noteq> ''change-me-in-production''"
    using v by (simp_all add: validate_secrets_def refuse_if_Inr)
  then have "cf_database_url c \<noteq> []" "cf_secret_key c \<noteq> []" by (auto simp: strip_def lstrip_def rstrip_def)
  then have d: "to_safe_dict c = to_safe_dict (c\<lparr>cf_database_url := ''x'', cf_secret_key := ''y''\<rparr>)"
    by (simp add: to_safe_dict_def)
  have t: "0 < cf_access_token_expire_minutes c" "0 < cf_refresh_token_expire_minutes c"
    "0 < cf_password_reset_token_expire_minutes c" "0 < cf_invite_token_expire_minutes c" "8 \<le> cf_password_min_length c"
    using v by (simp_all add: validate_token_policy_def refuse_if_Inr)
  have o: "\<not> (cf_cors_allow_credentials c \<and> ''*'' \<in> set (cf_cors_origins c))"
    using v by (auto simp: validate_operational_def Let_def refuse_if_Inr)
  have p: "\<not> (cf_environment c = ''production'' \<and> (cf_debug c \<or> length (cf_secret_key c) < 32
         \<or> startswith (cf_database_url c) ''sqlite://''))"
    using v by (auto simp: validate_production_footguns_def refuse_if_Inr MIN_PRODUCTION_SECRET_LENGTH_def)
  show ?thesis using s d t o p by blast
qed

section \<open>An example\<close>

definition demo_environment :: "string \<Rightarrow> string option" where
  "demo_environment = [''ASTERION_DATABASE_URL'' \<mapsto> '' postgresql://db/app '',
     ''ASTERION_SECRET_KEY'' \<mapsto> ''0123456789abcdef0123456789abcdef'']"

lemma demo_environment_only:
  "n \<notin> {''ASTERION_DATABASE_URL'', ''ASTERION_SECRET_KEY''} \<Longrightarrow> demo_environment n = None"
  by (simp add: demo_environment_def)

lemma demo_environment_texts:
  "strip '' postgresql://db/app '' = ''postgresql://db/app''"
  "strip ''0123456789abcdef0123456789abcdef'' = ''0123456789abcdef0123456789abcdef''"
  by code_simp+

lemma environment_defaults_are_the_declared_witness:
  "from_env_variables demo_environment
     = Inr (declared_defaults ''postgresql://db/app'' ''0123456789abcdef0123456789abcdef'')"
  using environment_defaults_are_the_declared [of demo_environment, OF _ _ _ _ demo_environment_only]
  by (simp add: demo_environment_def demo_environment_texts)

text \<open>The same variables in production, through an override.\<close>

definition demo_overrides :: "setting_override list" where
  "demo_overrides = [(''environment'', cf_environment_update (\<lambda>_. ''production''))]"

lemma demo_read: "from_env_variables demo_environment
     = Inr (declared_defaults ''postgresql://db/app'' ''0123456789abcdef0123456789abcdef'')"
  by code_simp

lemma demo_settings: "from_env demo_environment demo_overrides
    = Inr ((declared_defaults ''postgresql://db/app'' ''0123456789abcdef0123456789abcdef'')\<lparr>cf_environment := ''production''\<rparr>)"
  unfolding from_env_def demo_read by code_simp

lemma accepted_settings_are_safe_witness:
  "let c = (declared_defaults ''postgresql://db/app'' ''0123456789abcdef0123456789abcdef'')\<lparr>cf_environment := ''production''\<rparr> in
   from_env demo_environment demo_overrides = Inr c \<and> \<not> cf_debug c \<and> \<not> length (cf_secret_key c) < 32
   \<and> to_safe_dict c = to_safe_dict (c\<lparr>cf_database_url := ''x'', cf_secret_key := ''y''\<rparr>)"
  using accepted_settings_are_safe [OF demo_settings] demo_settings by (simp add: Let_def)

end
