(* ===== verification/Extensions.thy ===== *)
theory Extensions
  imports Registries Configuration
begin

text \<open>
  Extensions: their registry (\<open>src/asterion/extensions/registry.py\<close>), what they contribute to
  (\<open>contract/contributions.py\<close>, \<open>ui/navigation.py\<close>, \<open>ui/admin_pages.py\<close>), the setup phase and the
  lifespan (\<open>extensions/lifecycle.py\<close>), the part of \<open>core/app_factory.py\<close> that runs them, and the two
  routes that read the contributions (\<open>admin/navigation_router.py\<close>, \<open>admin/login_contract_router.py\<close>).
  The hooks of an extension are arbitrary programs over what the code hands them and a state of
  their own, the \<open>'w\<close> of the types.  Contributed fragments are dictionaries whose values are data.
\<close>

section \<open>Contract contributions\<close>

type_synonym fragment = "(string \<times> pyval) list"

record contribution_registry =
  cb_contribs :: "(string \<times> fragment) list"
  cb_frozen :: bool

definition contribution_registry_init :: contribution_registry where
  "contribution_registry_init = \<lparr>cb_contribs = [], cb_frozen = False\<rparr>"

definition contribution_add :: "pyval \<times> fragment \<Rightarrow> (contribution_registry, unit) proc" where
  "contribution_add = (\<lambda>(namespace, fragment) s.
     if cb_frozen s then (Inl (PyExc RegistryFrozenError
       (''ContractContributionRegistry is frozen - extensions must add ''
        @ ''contract fragments during register_contract_contributions().'')), s)
     else case namespace of
       VStr (c # cs) \<Rightarrow>
         if map_of (cb_contribs s) (c # cs) \<noteq> None
         then (Inl (PyExc ValueError (''Contract namespace already registered: '' @ repr_str (c # cs))), s)
         else (Inr (), s\<lparr>cb_contribs := cb_contribs s @ [(c # cs, fragment)]\<rparr>)
     | _ \<Rightarrow> (Inl (PyExc ValueError (''namespace must be a non-empty string, got '' @ py_repr namespace)), s))"

definition contribution_freeze :: "contribution_registry \<Rightarrow> contribution_registry" where
  "contribution_freeze s = s\<lparr>cb_frozen := True\<rparr>"

definition contribution_all :: "contribution_registry \<Rightarrow> (string \<times> fragment) list" where
  "contribution_all s = cb_contribs s"

definition contribution_names :: "contribution_registry \<Rightarrow> string set" where
  "contribution_names s = fst ` set (cb_contribs s)"

interpretation contribution_reg: freezable contribution_add contribution_freeze cb_frozen contribution_names
  by unfold_locales (auto simp: contribution_add_def contribution_freeze_def contribution_names_def
    split: prod.splits pyval.splits list.splits)

section \<open>Navigation\<close>

record navigation_item =
  ni_id :: string
  ni_label :: string
  ni_path :: string
  ni_permission :: string

record navigation_registry =
  ng_items :: "navigation_item list"
  ng_seen_ids :: "string list"
  ng_frozen :: bool

definition navigation_registry_init :: navigation_registry where
  "navigation_registry_init = \<lparr>ng_items = [], ng_seen_ids = [], ng_frozen = False\<rparr>"

definition add_item :: "navigation_item \<Rightarrow> (navigation_registry, unit) proc" where
  "add_item item = (\<lambda>s.
     if ng_frozen s then (Inl (PyExc RegistryFrozenError
       ''NavigationRegistry is frozen - extensions must add nav items during register_navigation().''), s)
     else if ni_id item = [] \<or> CHR ''.'' \<notin> set (ni_id item)
     then (Inl (PyExc ValueError (''Navigation item id must be namespaced (e.g. '' @ repr_str ''oauth.identities''
       @ ''), got '' @ repr_str (ni_id item))), s)
     else if ni_id item \<in> set (ng_seen_ids s)
     then (Inl (PyExc ValueError (''Navigation item id already registered: '' @ repr_str (ni_id item))), s)
     else if ni_permission item = []
     then (Inl (PyExc ValueError (''Navigation item '' @ repr_str (ni_id item) @
       '' must declare a permission (unfiltered admin navigation is a security smell)'')), s)
     else (Inr (), s\<lparr>ng_items := ng_items s @ [item], ng_seen_ids := List.insert (ni_id item) (ng_seen_ids s)\<rparr>))"

definition navigation_freeze :: "navigation_registry \<Rightarrow> navigation_registry" where
  "navigation_freeze s = s\<lparr>ng_frozen := True\<rparr>"

definition navigation_all :: "navigation_registry \<Rightarrow> navigation_item list" where
  "navigation_all s = ng_items s"

definition navigation_names :: "navigation_registry \<Rightarrow> string set" where
  "navigation_names s = set (ng_seen_ids s)"

interpretation navigation_reg: freezable add_item navigation_freeze ng_frozen navigation_names
  by unfold_locales (auto simp: add_item_def navigation_freeze_def navigation_names_def)

section \<open>Admin pages\<close>

record admin_page =
  ag_id :: string
  ag_label :: string
  ag_js_module :: string
  ag_permission :: "string option"
  ag_category :: "string option"

record page_registry =
  ap_pages :: "(string \<times> admin_page) list"
  ap_frozen :: bool

definition page_registry_init :: page_registry where
  "page_registry_init = \<lparr>ap_pages = [], ap_frozen = False\<rparr>"

text \<open>\<open>^[a-z][a-z0-9_-]*$\<close>: the final \<open>$\<close> also matches before one line feed at the end.\<close>

definition page_id_re :: "string \<Rightarrow> bool" where
  "page_id_re s = (let t = (if s \<noteq> [] \<and> last s = CHR 0x0A then butlast s else s) in
     t \<noteq> [] \<and> is_lower (hd t) \<and>
     list_all (\<lambda>c. is_lower c \<or> is_digit c \<or> c = CHR ''_'' \<or> c = CHR ''-'') (tl t))"

definition page_register :: "admin_page \<Rightarrow> (page_registry, unit) proc" where
  "page_register page = (\<lambda>s.
     if ap_frozen s then (Inl (PyExc RegistryFrozenError (''AdminPageRegistry is frozen - extensions must register ''
       @ ''admin pages during register_routes() (or earlier).'')), s)
     else if \<not> page_id_re (ag_id page)
     then (Inl (PyExc ValueError (''AdminPage id '' @ repr_str (ag_id page) @ '' must match ^[a-z][a-z0-9_-]*$'')), s)
     else if map_of (ap_pages s) (ag_id page) \<noteq> None
     then (Inl (PyExc ValueError (''AdminPage id '' @ repr_str (ag_id page) @ '' is already registered.'')), s)
     else if ag_label page = []
     then (Inl (PyExc ValueError (''AdminPage '' @ repr_str (ag_id page) @ '' must declare a label.'')), s)
     else if ag_js_module page = []
     then (Inl (PyExc ValueError (''AdminPage '' @ repr_str (ag_id page) @ '' must declare a js_module URL.'')), s)
     else (Inr (), s\<lparr>ap_pages := ap_pages s @ [(ag_id page, page)]\<rparr>))"

definition page_freeze :: "page_registry \<Rightarrow> page_registry" where
  "page_freeze s = s\<lparr>ap_frozen := True\<rparr>"

definition page_get :: "page_registry \<Rightarrow> string \<Rightarrow> admin_page option" where
  "page_get s i = map_of (ap_pages s) i"

definition page_all :: "page_registry \<Rightarrow> admin_page list" where
  "page_all s = map snd (ap_pages s)"

definition page_names :: "page_registry \<Rightarrow> string set" where
  "page_names s = fst ` set (ap_pages s)"

interpretation page_reg: freezable page_register page_freeze ap_frozen page_names
  by unfold_locales (auto simp: page_register_def page_freeze_def page_names_def)

definition page_permission :: "admin_page \<Rightarrow> string" where
  "page_permission page = (case ag_permission page of None \<Rightarrow> [] | Some p \<Rightarrow> p)"

text \<open>Each page with a permission becomes a navigation item; the first refused one ends the loop.\<close>

definition item_of_page :: "string \<Rightarrow> admin_page \<Rightarrow> navigation_item" where
  "item_of_page ui_path page = \<lparr>ni_id = ''page.'' @ ag_id page, ni_label = ag_label page,
     ni_path = ui_path @ ''/_pages/'' @ ag_id page, ni_permission = page_permission page\<rparr>"

fun for_each :: "('e \<Rightarrow> ('s, unit) proc) \<Rightarrow> 'e list \<Rightarrow> ('s, unit) proc" where
  "for_each f [] = ret ()"
| "for_each f (x # xs) = sbind (f x) (\<lambda>_. for_each f xs)"

definition mirror_pages_into_navigation :: "page_registry \<Rightarrow> string \<Rightarrow> (navigation_registry, unit) proc" where
  "mirror_pages_into_navigation pages ui_path = for_each (\<lambda>page.
     if page_permission page = [] then ret () else add_item (item_of_page ui_path page))
     (page_all pages)"

section \<open>Extensions and their registry\<close>

record extension_context =
  cx_config :: core_config
  cx_permissions :: permission_registry
  cx_contract :: contribution_registry
  cx_navigation :: navigation_registry
  cx_protected_fields :: field_registry
  cx_admin_pages :: page_registry

record 'w extension =
  ex_class :: string
  ex_name :: pyval
  ex_configure :: "core_config \<Rightarrow> ('w, unit) proc"
  ex_register_permissions :: "('w \<times> permission_registry, unit) proc"
  ex_register_protected_fields :: "('w \<times> field_registry, unit) proc"
  ex_register_contract_contributions :: "('w \<times> contribution_registry, unit) proc"
  ex_register_navigation :: "('w \<times> navigation_registry, unit) proc"
  ex_register_admin_pages :: "('w \<times> page_registry, unit) proc"
  ex_register_models :: "('w, string list) proc"
  ex_register_routes :: "('w \<times> extension_context, unit) proc"
  ex_startup :: "('w, unit) proc"
  ex_shutdown :: "('w, unit) proc"

text \<open>\<open>AdminExtension\<close> itself: every hook does nothing.\<close>

definition admin_extension :: "string \<Rightarrow> pyval \<Rightarrow> 'w extension" where
  "admin_extension cls name = \<lparr>ex_class = cls, ex_name = name, ex_configure = (\<lambda>_. ret ()),
     ex_register_permissions = ret (), ex_register_protected_fields = ret (),
     ex_register_contract_contributions = ret (), ex_register_navigation = ret (),
     ex_register_admin_pages = ret (), ex_register_models = ret [], ex_register_routes = ret (),
     ex_startup = ret (), ex_shutdown = ret ()\<rparr>"

text \<open>What a caller hands to the registry: an instance of \<open>AdminExtension\<close> or an object of another class.\<close>

datatype 'w offered = Offered "'w extension" | Stranger string

record 'w extension_registry =
  er_by_name :: "(string \<times> 'w extension) list"
  er_order :: "string list"
  er_frozen :: bool

definition extension_registry_init :: "'w extension_registry" where
  "extension_registry_init = \<lparr>er_by_name = [], er_order = [], er_frozen = False\<rparr>"

definition register_extension :: "'w offered \<Rightarrow> ('w extension_registry, unit) proc" where
  "register_extension offered = (\<lambda>s.
     if er_frozen s then (Inl (PyExc RegistryFrozenError (''ExtensionRegistry is frozen - register extensions via ''
       @ ''create_admin(extensions=[...]) before the app starts serving.'')), s)
     else case offered of
       Stranger cls \<Rightarrow> (Inl (PyExc TypeError (''Expected an AdminExtension instance, got '' @ cls)), s)
     | Offered e \<Rightarrow> (case ex_name e of
         VStr (c # cs) \<Rightarrow> (case map_of (er_by_name s) (c # cs) of
             Some old \<Rightarrow> (Inl (PyExc (OtherExc ''DuplicateExtensionError'') (''Extension name '' @ repr_str (c # cs) @
               '' is already registered (existing: '' @ ex_class old @ '', new: '' @ ex_class e @ '')'')), s)
           | None \<Rightarrow> (Inr (), s\<lparr>er_by_name := er_by_name s @ [(c # cs, e)], er_order := er_order s @ [c # cs]\<rparr>))
       | _ \<Rightarrow> (Inl (PyExc ValueError (''Extension '' @ ex_class e @
           '' must declare a non-empty '' @ repr_str ''name'' @ '' class attribute'')), s)))"

definition register_all :: "'w offered list \<Rightarrow> ('w extension_registry, unit) proc" where
  "register_all = for_each register_extension"

definition extension_freeze :: "'w extension_registry \<Rightarrow> 'w extension_registry" where
  "extension_freeze s = s\<lparr>er_frozen := True\<rparr>"

definition extension_get :: "'w extension_registry \<Rightarrow> string \<Rightarrow> 'w extension option" where
  "extension_get s name = map_of (er_by_name s) name"

definition extension_all :: "'w extension_registry \<Rightarrow> 'w extension list" where
  "extension_all s = map (\<lambda>n. the (map_of (er_by_name s) n)) (er_order s)"

definition extension_names :: "'w extension_registry \<Rightarrow> string set" where
  "extension_names s = set (er_order s)"

interpretation extension_reg: freezable register_extension extension_freeze er_frozen extension_names
  by unfold_locales (auto simp: register_extension_def extension_freeze_def extension_names_def
    split: offered.splits pyval.splits list.splits option.splits)

section \<open>The setup phase\<close>

record 'w setup_state =
  su_world :: 'w
  su_context :: extension_context
  su_extensions :: "'w extension_registry"

text \<open>A hook that is handed one part of the context.\<close>

definition handed ::
    "(extension_context \<Rightarrow> 'p) \<Rightarrow> ('p \<Rightarrow> extension_context \<Rightarrow> extension_context) \<Rightarrow> ('w \<times> 'p, 'a) proc \<Rightarrow> ('w setup_state, 'a) proc" where
  "handed part set_part hook = (\<lambda>s. case hook (su_world s, part (su_context s)) of
     (r, w, p) \<Rightarrow> (r, s\<lparr>su_world := w, su_context := set_part p (su_context s)\<rparr>))"

definition alone :: "('w, 'a) proc \<Rightarrow> ('w setup_state, 'a) proc" where
  "alone hook = (\<lambda>s. case hook (su_world s) of (r, w) \<Rightarrow> (r, s\<lparr>su_world := w\<rparr>))"

fun collect_models :: "'w extension list \<Rightarrow> ('w setup_state, string list) proc" where
  "collect_models [] = ret []"
| "collect_models (e # es) =
     sbind (alone (ex_register_models e)) (\<lambda>ms. sbind (collect_models es) (\<lambda>rest. ret (ms @ rest)))"

definition mirror_pages :: "('w setup_state, unit) proc" where
  "mirror_pages = (\<lambda>s. let c = su_context s in
     handed cx_navigation (\<lambda>p c. c\<lparr>cx_navigation := p\<rparr>) (\<lambda>(w, n). case
       mirror_pages_into_navigation (cx_admin_pages c) (cf_admin_ui_path (cx_config c)) n of (r, n') \<Rightarrow> (r, w, n')) s)"

definition freeze_everything :: "'w setup_state \<Rightarrow> 'w setup_state" where
  "freeze_everything s = s\<lparr>su_context := (let c = su_context s in c\<lparr>
       cx_permissions := permission_freeze (cx_permissions c),
       cx_protected_fields := protected_freeze (cx_protected_fields c),
       cx_contract := contribution_freeze (cx_contract c),
       cx_navigation := navigation_freeze (cx_navigation c),
       cx_admin_pages := page_freeze (cx_admin_pages c)\<rparr>),
     su_extensions := extension_freeze (su_extensions s)\<rparr>"

definition run_setup_phase :: "('w setup_state, string list) proc" where
  "run_setup_phase =
     sbind (gets (\<lambda>s. extension_all (su_extensions s))) (\<lambda>exts.
     sbind (gets (\<lambda>s. cx_config (su_context s))) (\<lambda>config.
     sbind (for_each (\<lambda>e. alone (ex_configure e config)) exts) (\<lambda>_.
     sbind (for_each (\<lambda>e. handed cx_permissions (\<lambda>p c. c\<lparr>cx_permissions := p\<rparr>) (ex_register_permissions e)) exts) (\<lambda>_.
     sbind (for_each (\<lambda>e. handed cx_protected_fields (\<lambda>p c. c\<lparr>cx_protected_fields := p\<rparr>)
       (ex_register_protected_fields e)) exts) (\<lambda>_.
     sbind (for_each (\<lambda>e. handed cx_contract (\<lambda>p c. c\<lparr>cx_contract := p\<rparr>)
       (ex_register_contract_contributions e)) exts) (\<lambda>_.
     sbind (for_each (\<lambda>e. handed cx_admin_pages (\<lambda>p c. c\<lparr>cx_admin_pages := p\<rparr>)
       (ex_register_admin_pages e)) exts) (\<lambda>_.
     sbind (for_each (\<lambda>e. handed cx_navigation (\<lambda>p c. c\<lparr>cx_navigation := p\<rparr>)
       (ex_register_navigation e)) exts) (\<lambda>_.
     sbind mirror_pages (\<lambda>_.
     sbind (collect_models exts) (\<lambda>models.
     sbind (for_each (\<lambda>e. handed (\<lambda>c. c) (\<lambda>p _. p) (ex_register_routes e)) exts) (\<lambda>_.
     sbind (modify freeze_everything) (\<lambda>_. ret models))))))))))))"

section \<open>The lifespan\<close>

text \<open>\<open>except Exception\<close> catches every exception but these classes.\<close>

definition is_exception :: "exn \<Rightarrow> bool" where
  "is_exception e = (case e of
     PyExc (OtherExc c) _ \<Rightarrow> c \<notin> {''CancelledError'', ''KeyboardInterrupt'', ''SystemExit'', ''GeneratorExit''}
   | _ \<Rightarrow> True)"

text \<open>A lifespan wraps the time the application serves.  The one given as an asynchronous iterator is
  advanced before and after it.\<close>

type_synonym 'w lifespan = "('w, unit) proc \<Rightarrow> ('w, unit) proc"

definition wrap_async_iterator :: "('w, unit) proc \<Rightarrow> ('w, unit) proc \<Rightarrow> 'w lifespan" where
  "wrap_async_iterator first next_step serve = sbind first (\<lambda>_ w. case serve w of (r, w1) \<Rightarrow>
     (case next_step w1 of
       (Inl e, w2) \<Rightarrow> if catches (OtherExc ''StopAsyncIteration'') e then (r, w2) else (Inl e, w2)
     | (Inr _, w2) \<Rightarrow> (r, w2)))"

text \<open>Starting answers which extensions did start, also when one fails.\<close>

fun start_all :: "'w extension list \<Rightarrow> 'w extension list \<Rightarrow> 'w \<Rightarrow> (exn + unit) \<times> 'w \<times> 'w extension list" where
  "start_all [] started w = (Inr (), w, started)"
| "start_all (e # es) started w = (case ex_startup e w of
     (Inl x, w') \<Rightarrow> (Inl x, w', started)
   | (Inr _, w') \<Rightarrow> start_all es (started @ [e]) w')"

fun stop_all :: "'w extension list \<Rightarrow> ('w, unit) proc" where
  "stop_all [] w = (Inr (), w)"
| "stop_all (e # es) w = (case ex_shutdown e w of
     (Inl x, w') \<Rightarrow> if is_exception x then stop_all es w' else (Inl x, w')
   | (Inr _, w') \<Rightarrow> stop_all es w')"

definition serve_within :: "'w lifespan option \<Rightarrow> ('w, unit) proc \<Rightarrow> ('w, unit) proc" where
  "serve_within user_lifespan serve = (case user_lifespan of None \<Rightarrow> serve | Some f \<Rightarrow> f serve)"

definition compose_lifespan :: "'w extension_registry \<Rightarrow> 'w lifespan option \<Rightarrow> 'w lifespan" where
  "compose_lifespan exts user_lifespan serve = (\<lambda>w.
     case start_all (extension_all exts) [] w of (r, w1, started) \<Rightarrow>
       (case (case r of Inl x \<Rightarrow> (Inl x, w1) | Inr _ \<Rightarrow> serve_within user_lifespan serve w1) of (r2, w2) \<Rightarrow>
         (case stop_all (rev started) w2 of
           (Inl x, w3) \<Rightarrow> (Inl x, w3)
         | (Inr _, w3) \<Rightarrow> (r2, w3))))"

section \<open>The routes over the contributions\<close>

definition get_navigation :: "navigation_registry \<Rightarrow> admin_ctx \<Rightarrow> navigation_item list res" where
  "get_navigation reg ctx =
     rbind (mapM (\<lambda>item. rbind (ctx_has_permission ctx PLATFORM_WILDCARD) (\<lambda>all.
       if all then Inr True else ctx_has_permission ctx (ni_permission item))) (navigation_all reg)) (\<lambda>shown.
     Inr (map fst (filter snd (zip (navigation_all reg) shown))))"

text \<open>The answer names the item, its label and its path, not its permission.\<close>

definition navigation_answer :: "navigation_item list \<Rightarrow> pyval" where
  "navigation_answer items = VDict [(''items'', VList (map (\<lambda>i. VDict [(''id'', VStr (ni_id i)),
     (''label'', VStr (ni_label i)), (''path'', VStr (ni_path i))]) items))]"

definition dict_get :: "string \<Rightarrow> fragment \<Rightarrow> pyval" where
  "dict_get k d = (case map_of d k of None \<Rightarrow> VNone | Some v \<Rightarrow> v)"

definition login_provider :: "pyval \<Rightarrow> pyval res" where
  "login_provider p = (case p of
     VDict d \<Rightarrow> Inr (VDict [(''id'', dict_get ''id'' d), (''label'', dict_get ''label'' d), (''login_url'', dict_get ''login_url'' d)])
   | v \<Rightarrow> Inl (PyExc (OtherExc ''AttributeError'') (repr_str (type_name v) @ '' object has no attribute '' @ repr_str ''get'')))"

definition get_login_contract :: "contribution_registry \<Rightarrow> pyval res" where
  "get_login_contract reg =
    (let oauth_fragment = (case map_of (contribution_all reg) ''auth_oauth'' of None \<Rightarrow> [] | Some f \<Rightarrow> f);
         providers = dict_get ''providers'' oauth_fragment in
     rbind (case (if truthy providers then providers else VList []) of
         VList ps \<Rightarrow> mapM login_provider ps
       | VTuple ps \<Rightarrow> mapM login_provider ps
       | VDict d \<Rightarrow> mapM (\<lambda>kv. login_provider (VStr (fst kv))) d
       | VStr cs \<Rightarrow> mapM (\<lambda>c. login_provider (VStr [c])) cs
       | v \<Rightarrow> Inl (PyExc TypeError (repr_str (type_name v) @ '' object is not iterable''))) (\<lambda>ps.
     Inr (VDict [(''oauth_providers'', VList ps)])))"

section \<open>What the registries promise\<close>

lemma for_each_keeps:
  assumes "for_each f xs s = (Inr (), s')" "P s"
    and "\<And>x t t'. x \<in> set xs \<Longrightarrow> P t \<Longrightarrow> f x t = (Inr (), t') \<Longrightarrow> P t'"
  shows "P s'"
  using assms
proof (induction xs arbitrary: s)
  case (Cons x xs)
  then obtain t where t: "f x s = (Inr (), t)" "for_each f xs t = (Inr (), s')" by (auto simp: sbind_Inr_iff)
  have "P t" using Cons.prems(2,3) t(1) by (meson list.set_intros(1))
  then show ?case by (rule Cons.IH [OF t(2)]) (meson Cons.prems(3) list.set_intros(2))
qed simp

definition extension_registry_ok :: "'w extension_registry \<Rightarrow> bool" where
  "extension_registry_ok s \<longleftrightarrow> er_order s = map fst (er_by_name s) \<and> distinct (er_order s)
    \<and> (\<forall>e \<in> set (er_by_name s). ex_name (snd e) = VStr (fst e))"

lemma register_extension_ok: "extension_registry_ok s \<Longrightarrow> extension_registry_ok (snd (register_extension o' s))"
  by (auto simp: register_extension_def extension_registry_ok_def map_of_eq_None_iff
    split: offered.splits pyval.splits list.splits option.splits)

lemma extension_all_order: "extension_registry_ok s \<Longrightarrow> extension_all s = map snd (er_by_name s)"
  by (auto simp: extension_registry_ok_def extension_all_def)

text \<open>Every navigation item is namespaced, gated and under an identifier of its own.\<close>

definition navigation_ok :: "navigation_registry \<Rightarrow> bool" where
  "navigation_ok n \<longleftrightarrow> distinct (map ni_id (ng_items n)) \<and> set (ng_seen_ids n) = ni_id ` set (ng_items n)
    \<and> (\<forall>i \<in> set (ng_items n). ni_permission i \<noteq> [] \<and> CHR ''.'' \<in> set (ni_id i))"

lemma add_item_ok: "navigation_ok n \<Longrightarrow> navigation_ok (snd (add_item i n))"
  by (auto simp: add_item_def navigation_ok_def)

lemma add_item_Inr: "add_item i n = (Inr (), n') \<Longrightarrow> ni_id i \<in> navigation_names n'"
  by (auto simp: add_item_def navigation_names_def split: if_splits)

lemma mirror_pages_Inr:
  assumes "mirror_pages_into_navigation pages ui n = (Inr (), n')" "navigation_ok n"
  shows "navigation_ok n' \<and> navigation_names n \<subseteq> navigation_names n'
    \<and> (\<forall>p \<in> set (page_all pages). page_permission p = [] \<or> ''page.'' @ ag_id p \<in> navigation_names n')"
proof -
  let ?f = "\<lambda>page. if page_permission page = [] then ret () else add_item (item_of_page ui page)"
  have step: "navigation_ok t' \<and> navigation_names t \<subseteq> navigation_names t'" if "navigation_ok t" "?f x t = (r, t')" for x t t' r
    using that add_item_ok [of t "item_of_page ui x"] navigation_reg.register_grows [of t "item_of_page ui x"]
    by (auto split: if_splits)
  have *: "for_each ?f ps n = (Inr (), n') \<Longrightarrow> navigation_ok n \<Longrightarrow> navigation_ok n' \<and> navigation_names n \<subseteq> navigation_names n'
    \<and> (\<forall>p \<in> set ps. page_permission p = [] \<or> ''page.'' @ ag_id p \<in> navigation_names n')" for ps n
  proof (induction ps arbitrary: n)
    case (Cons p ps)
    then obtain t where t: "?f p n = (Inr (), t)" "for_each ?f ps t = (Inr (), n')" by (auto simp: sbind_Inr_iff)
    have s: "navigation_ok t" "navigation_names n \<subseteq> navigation_names t" using step [OF Cons.prems(2) t(1)] by auto
    have "page_permission p = [] \<or> ''page.'' @ ag_id p \<in> navigation_names t"
      using t(1) add_item_Inr [of "item_of_page ui p" n t] by (auto simp: item_of_page_def split: if_splits)
    then show ?case using Cons.IH [OF t(2) s(1)] s(2) by auto
  qed simp
  show ?thesis using * assms unfolding mirror_pages_into_navigation_def by blast
qed

text \<open>What is asked of the hooks of an extension that run while or after the pages are mirrored: they use
  the navigation through its method, and register no page from their routes.\<close>

definition keeps_navigation :: "('w \<times> navigation_registry, unit) proc \<Rightarrow> bool" where
  "keeps_navigation hook \<longleftrightarrow> (\<forall>w n r w' n'. hook (w, n) = (r, w', n') \<longrightarrow> navigation_ok n \<longrightarrow> navigation_ok n')"

definition keeps_pages :: "('w \<times> extension_context, unit) proc \<Rightarrow> bool" where
  "keeps_pages hook \<longleftrightarrow> (\<forall>w c r w' c'. hook (w, c) = (r, w', c') \<longrightarrow> navigation_ok (cx_navigation c) \<longrightarrow>
     navigation_ok (cx_navigation c') \<and> navigation_names (cx_navigation c) \<subseteq> navigation_names (cx_navigation c')
     \<and> cx_admin_pages c' = cx_admin_pages c)"

lemma handed_Inr: "handed part set_part hook s = (Inr x, s') \<longleftrightarrow> (\<exists>w p. hook (su_world s, part (su_context s)) = (Inr x, w, p)
    \<and> s' = s\<lparr>su_world := w, su_context := set_part p (su_context s)\<rparr>)"
  by (auto simp: handed_def split: prod.splits)

lemma alone_Inr: "alone hook s = (Inr x, s') \<longleftrightarrow> (\<exists>w. hook (su_world s) = (Inr x, w) \<and> s' = s\<lparr>su_world := w\<rparr>)"
  by (auto simp: alone_def split: prod.splits)

lemma collect_models_context: "collect_models es s = (Inr ms, s') \<Longrightarrow> su_context s' = su_context s"
  by (induction es arbitrary: s ms) (auto simp: sbind_Inr_iff alone_Inr)

abbreviation nav :: "'w setup_state \<Rightarrow> navigation_registry" where "nav s \<equiv> cx_navigation (su_context s)"

lemma setup_steps:
  assumes "run_setup_phase s = (Inr models, s')" "navigation_ok (nav s)"
    and "\<And>e. e \<in> set (extension_all (su_extensions s)) \<Longrightarrow> keeps_navigation (ex_register_navigation e)"
    and "\<And>e. e \<in> set (extension_all (su_extensions s)) \<Longrightarrow> keeps_pages (ex_register_routes e)"
  obtains t where "s' = freeze_everything t" "navigation_ok (nav t)"
    "\<forall>p \<in> set (page_all (cx_admin_pages (su_context t))). page_permission p = [] \<or> ''page.'' @ ag_id p \<in> navigation_names (nav t)"
proof -
  let ?es = "extension_all (su_extensions s)"
  let ?quiet = "\<lambda>t. nav t = nav s"
  obtain s1 s2 s3 s4 s5 s6 s7 s8 s9 where r:
    "for_each (\<lambda>e. alone (ex_configure e (cx_config (su_context s)))) ?es s = (Inr (), s1)"
    "for_each (\<lambda>e. handed cx_permissions (\<lambda>p c. c\<lparr>cx_permissions := p\<rparr>) (ex_register_permissions e)) ?es s1 = (Inr (), s2)"
    "for_each (\<lambda>e. handed cx_protected_fields (\<lambda>p c. c\<lparr>cx_protected_fields := p\<rparr>)
       (ex_register_protected_fields e)) ?es s2 = (Inr (), s3)"
    "for_each (\<lambda>e. handed cx_contract (\<lambda>p c. c\<lparr>cx_contract := p\<rparr>) (ex_register_contract_contributions e)) ?es s3 = (Inr (), s4)"
    "for_each (\<lambda>e. handed cx_admin_pages (\<lambda>p c. c\<lparr>cx_admin_pages := p\<rparr>) (ex_register_admin_pages e)) ?es s4 = (Inr (), s5)"
    "for_each (\<lambda>e. handed cx_navigation (\<lambda>p c. c\<lparr>cx_navigation := p\<rparr>) (ex_register_navigation e)) ?es s5 = (Inr (), s6)"
    "mirror_pages s6 = (Inr (), s7)" "collect_models ?es s7 = (Inr models, s8)"
    "for_each (\<lambda>e. handed (\<lambda>c. c) (\<lambda>p _. p) (ex_register_routes e)) ?es s8 = (Inr (), s9)" "s' = freeze_everything s9"
    using assms(1) by (auto simp: run_setup_phase_def sbind_Inr_iff)
  have q1: "?quiet s1" by (rule for_each_keeps [OF r(1), where P = ?quiet]) (auto simp: alone_Inr)
  have q2: "?quiet s2" by (rule for_each_keeps [OF r(2), where P = ?quiet]) (auto simp: handed_Inr q1)
  have q3: "?quiet s3" by (rule for_each_keeps [OF r(3), where P = ?quiet]) (auto simp: handed_Inr q2)
  have q4: "?quiet s4" by (rule for_each_keeps [OF r(4), where P = ?quiet]) (auto simp: handed_Inr q3)
  have q5: "?quiet s5" by (rule for_each_keeps [OF r(5), where P = ?quiet]) (auto simp: handed_Inr q4)
  have q6: "navigation_ok (nav s6)"
    using assms(2,3) q5 by (intro for_each_keeps [OF r(6), where P = "\<lambda>t. navigation_ok (nav t)"])
      (auto simp: handed_Inr keeps_navigation_def)
  obtain n where n: "mirror_pages_into_navigation (cx_admin_pages (su_context s6)) (cf_admin_ui_path (cx_config (su_context s6)))
      (nav s6) = (Inr (), n)" "su_context s7 = (su_context s6)\<lparr>cx_navigation := n\<rparr>"
    using r(7) by (auto simp: mirror_pages_def Let_def handed_Inr split: prod.splits)
  note m = mirror_pages_Inr [OF n(1) q6]
  have c8: "su_context s8 = su_context s7" by (rule collect_models_context [OF r(8)])
  let ?P = "\<lambda>t. navigation_ok (nav t) \<and> navigation_names n \<subseteq> navigation_names (nav t)
    \<and> cx_admin_pages (su_context t) = cx_admin_pages (su_context s6)"
  have "?P s9"
    by (rule for_each_keeps [OF r(9), where P = ?P])
      (use m n(2) c8 assms(4) in \<open>fastforce simp: handed_Inr keeps_pages_def\<close>)+
  then show ?thesis using that [OF r(10)] m by auto
qed


section \<open>What the lifespan promises\<close>

lemma start_all_trace:
  assumes "start_all es started w = (r, w', started')"
    and "\<And>e w. e \<in> set es \<Longrightarrow> tr (snd (ex_startup e w)) = tr w @ [f e]"
  shows "\<exists>k \<le> length es. started' = started @ take k es \<and> isr r = (k = length es)
    \<and> tr w' = tr w @ map f (take (Suc k) es)"
  using assms
proof (induction es arbitrary: started w)
  case Nil
  then show ?case by (auto intro: exI [of _ 0])
next
  case (Cons e es)
  obtain q v where q: "ex_startup e w = (q, v)" by fastforce
  have v: "tr v = tr w @ [f e]" using Cons.prems(2) [of e w] q by simp
  show ?case
  proof (cases q)
    case (Inl x)
    then show ?thesis using Cons.prems(1) q v by (intro exI [of _ 0]) auto
  next
    case (Inr u)
    then obtain k where "k \<le> length es" "started' = (started @ [e]) @ take k es" "isr r = (k = length es)"
      "tr w' = tr v @ map f (take (Suc k) es)"
      using Cons.IH [of "started @ [e]" v] Cons.prems q by auto
    then show ?thesis using v by (intro exI [of _ "Suc k"]) auto
  qed
qed

lemma stop_all_trace:
  assumes "\<And>e w x. e \<in> set es \<Longrightarrow> fst (ex_shutdown e w) = Inl x \<Longrightarrow> is_exception x"
    and "\<And>e w. e \<in> set es \<Longrightarrow> tr (snd (ex_shutdown e w)) = tr w @ [g e]"
  shows "fst (stop_all es w) = Inr () \<and> tr (snd (stop_all es w)) = tr w @ map g es"
  using assms
proof (induction es arbitrary: w)
  case (Cons e es)
  obtain q v where q: "ex_shutdown e w = (q, v)" by fastforce
  have "tr v = tr w @ [g e]" "\<And>x. q = Inl x \<Longrightarrow> is_exception x"
    using Cons.prems(2) [of e w] Cons.prems(1) [of e w] q by simp_all
  moreover have "fst (stop_all es v) = Inr () \<and> tr (snd (stop_all es v)) = tr v @ map g es"
    using Cons.prems by (intro Cons.IH) auto
  ultimately show ?case using q by (cases q) auto
qed simp

datatype lifespan_event = Starting pyval | Serving | Stopping pyval

abbreviation starting :: "'w extension \<Rightarrow> lifespan_event" where "starting e \<equiv> Starting (ex_name e)"
abbreviation stopping :: "'w extension \<Rightarrow> lifespan_event" where "stopping e \<equiv> Stopping (ex_name e)"

text \<open>C15: Exactly the extensions that started are stopped, in reverse order, whatever fails.  The extensions
  start in the order of their registration until one fails; the application serves when none did;
  then each one that started is shut down once, also when a shutdown before it failed.  A failing
  shutdown never surfaces: the lifespan ends as its start or its serving ended.  \<open>tr\<close> reads the
  journal of events from the state.\<close>

theorem lifespan_stops_what_it_started:
  assumes "compose_lifespan reg user_lifespan serve w = (r, w')" "exts = extension_all reg"
    and "\<And>e v. e \<in> set exts \<Longrightarrow> tr (snd (ex_startup e v)) = tr v @ [Starting (ex_name e)]"
    and "\<And>e v. e \<in> set exts \<Longrightarrow> tr (snd (ex_shutdown e v)) = tr v @ [Stopping (ex_name e)]"
    and "\<And>v. tr (snd (serve_within user_lifespan serve v)) = tr v @ [Serving]"
    and "\<And>e v x. e \<in> set exts \<Longrightarrow> fst (ex_shutdown e v) = Inl x \<Longrightarrow> is_exception x"
  shows "\<exists>k \<le> length exts.
    tr w' = tr w @ map (\<lambda>e. Starting (ex_name e)) (take (Suc k) exts) @ (if k = length exts then [Serving] else [])
      @ map (\<lambda>e. Stopping (ex_name e)) (rev (take k exts))
    \<and> (if k = length exts then \<exists>v. r = fst (serve_within user_lifespan serve v) else \<exists>x. r = Inl x)"
proof -
  obtain r1 w1 started where s: "start_all exts [] w = (r1, w1, started)" by (cases "start_all exts [] w") auto
  obtain k where k: "k \<le> length exts" "started = take k exts" "isr r1 = (k = length exts)"
    "tr w1 = tr w @ map starting (take (Suc k) exts)"
    using start_all_trace [OF s, of tr starting] assms(3) by auto
  obtain r2 w2 where b: "(case r1 of Inl x \<Rightarrow> (Inl x, w1) | Inr _ \<Rightarrow> serve_within user_lifespan serve w1) = (r2, w2)"
    by fastforce
  have i: "e \<in> set (rev started) \<Longrightarrow> e \<in> set exts" for e using k(2) by (auto dest: in_set_takeD)
  have "fst (stop_all (rev started) w2) = Inr () \<and> tr (snd (stop_all (rev started) w2)) = tr w2 @ map stopping (rev started)"
    by (rule stop_all_trace) (use assms(4,6) i in blast)+
  then have e: "fst (stop_all (rev started) w2) = Inr ()"
    "tr (snd (stop_all (rev started) w2)) = tr w2 @ map stopping (rev started)" by auto
  have w': "r = r2" "w' = snd (stop_all (rev started) w2)"
    using assms(1) e(1) s b unfolding compose_lifespan_def assms(2) [symmetric]
    by (auto split: prod.splits sum.splits)
  have "if k = length exts then r2 = fst (serve_within user_lifespan serve w1) \<and> tr w2 = tr w1 @ [Serving]
      else (\<exists>x. r2 = Inl x) \<and> tr w2 = tr w1"
    using b k(3) assms(5) [of w1] by (cases r1) auto
  then show ?thesis using k(1,2,4) e(2) w' by (intro exI [of _ k]) auto
qed

section \<open>What the navigation shows\<close>

lemma mapM_filter: "mapM f xs = Inr bs \<Longrightarrow> map fst (filter snd (zip xs bs)) = filter (\<lambda>x. f x = Inr True) xs"
  by (induction xs arbitrary: bs) (auto simp: res_simps)

lemma mapM_defined: "mapM f xs = Inr bs \<Longrightarrow> x \<in> set xs \<Longrightarrow> \<exists>b. f x = Inr b"
  by (induction xs arbitrary: bs) (auto simp: res_simps)

text \<open>Navigation that is answered at all holds exactly the items whose permission the caller has, and
  all of them for a caller with the platform wildcard.\<close>

theorem navigation_shows_the_granted:
  assumes "get_navigation reg ctx = Inr shown"
  shows "shown = filter (\<lambda>i. ctx_has_permission ctx PLATFORM_WILDCARD = Inr True
    \<or> ctx_has_permission ctx (ni_permission i) = Inr True) (navigation_all reg)"
proof -
  let ?f = "\<lambda>item. rbind (ctx_has_permission ctx PLATFORM_WILDCARD) (\<lambda>all.
       if all then Inr True else ctx_has_permission ctx (ni_permission item))"
  obtain bs where bs: "mapM ?f (navigation_all reg) = Inr bs" "shown = map fst (filter snd (zip (navigation_all reg) bs))"
    using assms by (auto simp: get_navigation_def res_simps)
  have "?f i = Inr True \<longleftrightarrow> ctx_has_permission ctx PLATFORM_WILDCARD = Inr True
    \<or> ctx_has_permission ctx (ni_permission i) = Inr True" if "i \<in> set (navigation_all reg)" for i
  proof -
    have "\<exists>b. ?f i = Inr b" by (rule mapM_defined [OF bs(1) that])
    then show ?thesis by (cases "ctx_has_permission ctx PLATFORM_WILDCARD") (auto split: if_splits)
  qed
  then show ?thesis using mapM_filter [OF bs(1)] bs(2) by (auto intro: filter_cong)
qed

section \<open>Examples\<close>

definition demo_reports :: "unit extension" where
  "demo_reports = (admin_extension ''Reports'' (VStr ''reports''))\<lparr>
     ex_register_admin_pages := (\<lambda>(w, p). case page_register \<lparr>ag_id = ''reports'', ag_label = ''Reports'',
       ag_js_module = ''/r.js'', ag_permission = Some ''reports.view.list'', ag_category = None\<rparr> p of (r, p') \<Rightarrow> (r, w, p')),
     ex_register_navigation := (\<lambda>(w, n). case add_item \<lparr>ni_id = ''reports.archive'', ni_label = ''Archive'',
       ni_path = ''/a'', ni_permission = ''reports.archive.list''\<rparr> n of (r, n') \<Rightarrow> (r, w, n'))\<rparr>"

definition demo_setup :: "unit setup_state" where
  "demo_setup = \<lparr>su_world = (), su_context = \<lparr>cx_config = declared_defaults ''postgresql://db'' ''s'',
     cx_permissions = \<lparr>pk_keys = [], pk_frozen = False\<rparr>, cx_contract = contribution_registry_init,
     cx_navigation = navigation_registry_init, cx_protected_fields = protected_init [],
     cx_admin_pages = page_registry_init\<rparr>,
     su_extensions = snd (register_all [Offered demo_reports] extension_registry_init)\<rparr>"

lemma demo_setup_extensions: "extension_all (su_extensions demo_setup) = [demo_reports]"
  by (simp add: demo_setup_def register_all_def register_extension_def extension_registry_init_def
    extension_all_def demo_reports_def admin_extension_def sbind_app proc_simps)

lemma demo_setup_runs: "isr (fst (run_setup_phase demo_setup))"
  by code_simp


text \<open>Three extensions that write a journal: the second fails to stop, the third fails to start.\<close>

definition demo_journal :: "string \<Rightarrow> bool \<Rightarrow> bool \<Rightarrow> lifespan_event list extension" where
  "demo_journal name starts stops = (admin_extension ''Journal'' (VStr name))\<lparr>
     ex_startup := (\<lambda>w. (if starts then Inr () else Inl (PyExc RuntimeError ''down''), w @ [Starting (VStr name)])),
     ex_shutdown := (\<lambda>w. (if stops then Inr () else Inl (PyExc RuntimeError ''stuck''), w @ [Stopping (VStr name)]))\<rparr>"

definition demo_registry :: "lifespan_event list extension_registry" where
  "demo_registry = snd (register_all [Offered (demo_journal ''pool'' True True), Offered (demo_journal ''cache'' True False),
     Offered (demo_journal ''mail'' False True)] extension_registry_init)"

lemma demo_registry_extensions: "extension_all demo_registry
    = [demo_journal ''pool'' True True, demo_journal ''cache'' True False, demo_journal ''mail'' False True]"
  by (simp add: demo_registry_def register_all_def register_extension_def extension_registry_init_def
    extension_all_def demo_journal_def admin_extension_def sbind_app proc_simps)

definition demo_serve :: "(lifespan_event list, unit) proc" where "demo_serve w = (Inr (), w @ [Serving])"

lemma lifespan_stops_what_it_started_witness:
  "compose_lifespan demo_registry None demo_serve [] = (Inl (PyExc RuntimeError ''down''),
     [Starting (VStr ''pool''), Starting (VStr ''cache''), Starting (VStr ''mail''),
      Stopping (VStr ''cache''), Stopping (VStr ''pool'')])
   \<and> (\<exists>k \<le> length (extension_all demo_registry). snd (compose_lifespan demo_registry None demo_serve [])
     = map starting (take (Suc k) (extension_all demo_registry))
       @ (if k = length (extension_all demo_registry) then [Serving] else [])
       @ map stopping (rev (take k (extension_all demo_registry))))"
proof -
  let ?l = "[Starting (VStr ''pool''), Starting (VStr ''cache''), Starting (VStr ''mail''),
      Stopping (VStr ''cache''), Stopping (VStr ''pool'')]"
  have r: "compose_lifespan demo_registry None demo_serve [] = (Inl (PyExc RuntimeError ''down''), ?l)"
    by (simp add: compose_lifespan_def demo_registry_extensions demo_journal_def admin_extension_def is_exception_def)
  have "\<exists>k \<le> length (extension_all demo_registry). ?l = [] @ map starting (take (Suc k) (extension_all demo_registry))
       @ (if k = length (extension_all demo_registry) then [Serving] else [])
       @ map stopping (rev (take k (extension_all demo_registry)))"
    using lifespan_stops_what_it_started [OF r refl, of "\<lambda>w. w"]
    by (fastforce simp: demo_registry_extensions demo_journal_def admin_extension_def serve_within_def demo_serve_def
      is_exception_def split: if_splits)
  then show ?thesis using r by simp
qed

end
