(* ===== verification/Spec2Isabelle.thy ===== *)
theory Spec2Isabelle
  imports CrudRouter Guessing Formats Tenancy Rbac Members Matrix Bootstrap Outbox ImportExport Governance Retention OAuthSafety Storage ContractSafety ServiceAccounts Configuration Extensions
begin

text \<open>
  A model of asterion-admin, the admin framework for FastAPI applications under
  \<open>src/asterion/\<close>: a registry of models, generic record routes over them with a permission and a
  policy gate, accounts with tokens and a second factor, tenants with roles of their own, and the
  extensions for import and export, mail, sign-in at an identity provider, and service accounts.

  \<^bold>\<open>How the parts interact.\<close>  A request passes the tenant middleware (\<open>Tenancy\<close>), which resolves
  the tenant and narrows the search path; the dependency of the route reads the caller from its token
  (\<open>Tokens\<close>, \<open>Accounts\<close>, \<open>AuthRoutes\<close>) and the caller's keys in that tenant from the role tables
  (\<open>Rbac\<close>), which together are the context of \<open>Permissions\<close>.  The record routes (\<open>CrudRouter\<close>,
  \<open>Actions\<close>, \<open>ImportExport\<close>) look the resource up in the registry (\<open>Registries\<close>), ask the gate of
  \<open>Permissions\<close>, and run the services of \<open>Crud\<close> in the transaction of the session: these check the
  policy (\<open>Policy\<close>), build the schema, clean and convert the payload (\<open>Payload\<close>), query
  (\<open>Query\<close>), write children (\<open>Inline\<close>), serialise (\<open>FieldAdapters\<close>) and leave an audit row
  (\<open>Sanitize\<close>).  The superadmin's routes (\<open>Root\<close>, \<open>Estate\<close>, \<open>Governance\<close>) work on the global
  tables of the same state.

  \<^bold>\<open>Conventions.\<close>  A function that can raise returns \<open>exn + 'a\<close> (\<open>'a res\<close>), the exception on the
  left, with its class, message and, for an HTTP error, status and detail.  A coroutine with a session
  is a state transformer \<open>('s, 'a) proc\<close>; an exception keeps the state it was raised in, and
  \<open>in_transaction\<close>, \<open>transaction\<close> and the savepoints restore the tables exactly where the code does.
  What the handlers call outside the repository (bcrypt, the token signature, HMAC, the clock, random
  numbers, the mail server, the column defaults and constraints of the database, \<open>openpyxl\<close>, DNS and
  HTTP) is a field of an environment record or an argument, instantiated in the examples.  A Python
  string is a list of the 256 Latin-1 characters, an \<open>int\<close> an \<open>int\<close>, a dictionary an association
  list in insertion order, a table a list of rows.

  \<^bold>\<open>The theories\<close>, each named after what it models:
  \<^item> \<open>Prelude\<close>, \<open>Strings\<close>, \<open>Literals\<close>, \<open>Formats\<close>: Python values, exceptions, the two monads and their
    rules (\<open>res_simps\<close>, \<open>proc_simps\<close>), string methods, numbers, dates, UUIDs, \<open>json.loads\<close>, addresses.
  \<^item> \<open>Validation\<close>: \<open>security/validation.py\<close>.  \<open>Permissions\<close>: \<open>authz/permissions.py\<close>,
    \<open>admin/context.py\<close>; the matcher equals a reference reading of grants, and tenant grants never
    reach the platform namespace.
  \<^item> \<open>Policy\<close>: \<open>admin/policy.py\<close>.  \<open>Registries\<close>: the four registries, one interface \<open>freezable\<close>
    interpreted four times.  \<open>Catalog\<close>: \<open>authz/catalog.py\<close>.
  \<^item> \<open>Models\<close>, \<open>Query\<close>, \<open>Payload\<close>, \<open>FieldAdapters\<close>, \<open>Inline\<close>, \<open>Crud\<close>, \<open>CrudRouter\<close>: \<open>registry/admin.py\<close>,
    \<open>crud/\<close>, \<open>schemas/\<close>, \<open>fields/\<close>, \<open>admin/inline.py\<close>; what each operation changes, what an
    unauthorised one leaves alone, what serialised output hides, that pages partition the matches.
  \<^item> \<open>Sanitize\<close>: \<open>security/sanitize.py\<close>, \<open>privacy/redaction.py\<close>, \<open>audit/service.py\<close>.
  \<^item> \<open>Actions\<close>: \<open>actions/\<close>.  \<open>Csv\<close>, \<open>ImportExport\<close>: \<open>extensions/import_export/router.py\<close>; the
    exported file reads back, an import accounts for every row.  \<open>Storage\<close>: \<open>storage/\<close>, on a file
    system with links.
  \<^item> \<open>RateLimiter\<close>: \<open>auth/rate_limiter.py\<close>, the interface \<open>rate_limiter_backend\<close> interpreted on it.
    \<open>Tokens\<close>, \<open>Passwords\<close>, \<open>Accounts\<close>, \<open>AuthRoutes\<close>: \<open>auth/\<close>, \<open>providers/auth.py\<close>,
    \<open>providers/users.py\<close>.  \<open>AuthRuns\<close> makes the routes steps of a server and proves what holds in
    every reachable state; \<open>Guessing\<close> bounds the guesses with a small program logic.
  \<^item> \<open>Sealing\<close>, \<open>OAuthFlow\<close>, \<open>OAuthSafety\<close>: \<open>extensions/auth_oauth/\<close>: the sealed state cookie, both
    handlers and the key cache, and what a sign-in implies.
  \<^item> \<open>Tenancy\<close>: \<open>tenancy/\<close> and the tenant provider.  \<open>Rbac\<close>, \<open>Members\<close>, \<open>Matrix\<close>, \<open>Bootstrap\<close>: the
    role tables, \<open>admin/member_router.py\<close>, \<open>admin/permission_matrix_router.py\<close>,
    \<open>tenancy/bootstrap.py\<close>; the locale \<open>frame\<close> carries what an operation leaves alone through the
    monad.
  \<^item> \<open>Contract\<close>, \<open>ContractSafety\<close>: \<open>contract/service.py\<close> and \<open>contract/router.py\<close>; the announced fields
    and capabilities are what the record routes accept, and the contract names no hidden field.
  \<^item> \<open>Configuration\<close>: \<open>core/config.py\<close>, what accepted settings guarantee and publish.  \<open>Extensions\<close>:
    \<open>extensions/\<close> (registry, setup phase, lifespan), the contribution, navigation and page registries
    as four more interpretations of \<open>freezable\<close>, and the routes over them.  The hooks of an extension
    are arbitrary programs; what a theorem asks of them is a named hypothesis.
  \<^item> \<open>ServiceAccounts\<close>: \<open>extensions/service_accounts/\<close>; a deletion undoes a creation.  \<open>Retention\<close>:
    \<open>privacy/retention.py\<close>; what a completed run keeps, and what an archived tenant does to it.
  \<^item> \<open>Outbox\<close>: \<open>extensions/email/outbox.py\<close> with its settling argument.  \<open>Estate\<close>, \<open>Root\<close>,
    \<open>Governance\<close>: saved filters, \<open>root/\<close>, \<open>privacy/\<close>, \<open>tenancy/offboarding.py\<close>.

  \<^bold>\<open>Bounds.\<close>  Loops over lists are structural recursions.  The JSON reader takes three units of fuel
  for each character and three more: each of its calls consumes a character or descends from a value to
  an array or object and its elements, at most three calls for one character.  The outbox worker runs in
  batches; the number of runs that settles every mail is computed from the attempts left.  The key cache
  is refreshed at most once for a lookup, so its retry is two nested calls.

  \<^bold>\<open>Not modelled.\<close>  The command line, the assembly of the application (routers, middleware order,
  exception handlers), middleware that only logs or measures, the HTML pages, translations,
  mail rendering and the SMTP and HTTP mail services, the S3 and Redis back ends and the migrations are
  input and output, or wiring, around the modelled functions.  Concurrency of requests is modelled where
  the code guards against it (savepoints around unique keys, the lock of the key cache);
  otherwise operations are steps in sequence.
\<close>

end
